(* ===== verification/Prelude.thy ===== *)
theory Prelude
  imports Main "HOL-Library.Char_ord" "HOL-Library.List_Lexorder"
begin

section \<open>Shared vocabulary of the development\<close>

text \<open>
  The types and generic lemmas every component uses: fact collections, the error sum, string maps,
  lookups and updates of entries in a slice by name, and the two ways the Go source
  removes an entry from a slice (a filter, and a filter that reuses the backing array).
\<close>

subsection \<open>Fact collections\<close>

named_theorems policy_simps \<open>the constants and accessors of the policy checks\<close>
named_theorems builder_defs \<open>definitions of the generated Kubernetes objects\<close>
named_theorems status_simps \<open>reading back the conditions a status function wrote\<close>
named_theorems run_simps \<open>running one step of a reconcile pass\<close>

subsection \<open>Maps from strings to strings\<close>

text \<open>
  A Go \<open>map[string]string\<close>. Reading an absent key gives the empty string, so a nil map and an
  empty map behave alike.
\<close>

type_synonym strmap = "string \<rightharpoonup> string"

definition map_get :: "strmap \<Rightarrow> string \<Rightarrow> string" where
  "map_get m k = (case m k of None \<Rightarrow> [] | Some v \<Rightarrow> v)"

lemma map_get_upd [simp]: "map_get (m(k \<mapsto> v)) k' = (if k' = k then v else map_get m k')"
  by (simp add: map_get_def)

lemma map_get_empty [simp]: "map_get Map.empty k = []"
  by (simp add: map_get_def)

lemma map_get_add: "map_get (m ++ d) k = (if k \<in> dom d then map_get d k else map_get m k)"
  by (auto simp: map_get_def map_add_def dom_def split: option.splits)

lemma map_get_nonempty: "map_get m k = v \<Longrightarrow> v \<noteq> [] \<Longrightarrow> m k = Some v"
  by (simp add: map_get_def split: option.splits)

subsection \<open>Results\<close>

text \<open>
  A Go function that returns \<open>(T, error)\<close> returns a sum, \<open>Inl\<close> the error. A function that returns
  only an \<open>error\<close> returns an option, \<open>None\<close> for nil.
\<close>

definition is_err :: "'e + 'a \<Rightarrow> bool" where
  "is_err r = (case r of Inl _ \<Rightarrow> True | Inr _ \<Rightarrow> False)"

lemma is_err_simps [simp]: "is_err (Inl e)" "\<not> is_err (Inr a)"
  by (simp_all add: is_err_def)

definition or_else :: "'e option \<Rightarrow> 'e option \<Rightarrow> 'e option" where
  \<comment> \<open>Checks in sequence: the first failing one is the result.\<close>
  "or_else a b = (case a of None \<Rightarrow> b | Some e \<Rightarrow> Some e)"

lemma or_else_None_iff [simp]: "or_else a b = None \<longleftrightarrow> a = None \<and> b = None"
  by (simp add: or_else_def split: option.splits)

lemma or_else_simps [simp]: "or_else None b = b" "or_else (Some e) b = Some e"
  by (simp_all add: or_else_def)

lemma check_None_iff [simp]:
  "(if p then Some e else r) = None \<longleftrightarrow> \<not> p \<and> r = None"
  "(if p then r else Some e) = None \<longleftrightarrow> p \<and> r = None"
  by simp_all

lemma case_check_None_iff [simp]:
  "(case x of None \<Rightarrow> r | Some e \<Rightarrow> Some (g e)) = None \<longleftrightarrow> x = None \<and> r = None"
  by (cases x) auto

subsection \<open>Entries of a slice looked up by name\<close>

definition find_by :: "('a \<Rightarrow> string) \<Rightarrow> string \<Rightarrow> 'a list \<Rightarrow> 'a option" where
  "find_by f n xs = List.find (\<lambda>x. f x = n) xs"

lemma find_by_simps [simp]:
  "find_by f n [] = None"
  "find_by f n (x # xs) = (if f x = n then Some x else find_by f n xs)"
  by (simp_all add: find_by_def)

lemma find_by_None_iff: "find_by f n xs = None \<longleftrightarrow> n \<notin> f ` set xs"
  by (induction xs) auto

lemma find_by_SomeD: "find_by f n xs = Some x \<Longrightarrow> x \<in> set xs \<and> f x = n"
  by (induction xs) (auto split: if_splits)

lemma find_by_distinct:
  "distinct (map f xs) \<Longrightarrow> x \<in> set xs \<Longrightarrow> find_by f (f x) xs = Some x"
  by (induction xs) force+

text \<open>
  Go code that takes a pointer to the first entry with a name and then writes through it:
  the entry is replaced in place.
\<close>

fun update_first :: "('a \<Rightarrow> string) \<Rightarrow> string \<Rightarrow> ('a \<Rightarrow> 'a) \<Rightarrow> 'a list \<Rightarrow> 'a list" where
  "update_first f n g [] = []"
| "update_first f n g (x # xs) = (if f x = n then g x # xs else x # update_first f n g xs)"

lemma update_first_names:
  "(\<And>x. x \<in> set xs \<Longrightarrow> f (g x) = f x) \<Longrightarrow> map f (update_first f n g xs) = map f xs"
  by (induction xs) auto

lemma update_first_set: "set (update_first f n g xs) \<subseteq> set xs \<union> g ` set xs"
  by (induction xs) auto

lemma update_first_absent: "n \<notin> f ` set xs \<Longrightarrow> update_first f n g xs = xs"
  by (induction xs) auto

lemma update_first_mem:
  "y \<in> set (update_first f n g xs) \<Longrightarrow> distinct (map f xs) \<Longrightarrow>
   (y \<in> set xs \<and> f y \<noteq> n) \<or> (\<exists>x \<in> set xs. f x = n \<and> y = g x)"
proof (induction xs)
  case Nil
  then show ?case by simp
next
  case (Cons x xs)
  show ?case
  proof (cases "f x = n")
    case True
    with Cons.prems show ?thesis by (auto simp: image_iff)
  next
    case False
    with Cons show ?thesis by auto
  qed
qed

lemma find_by_update_first:
  "(\<And>x. x \<in> set xs \<Longrightarrow> f (g x) = f x) \<Longrightarrow>
   find_by f m (update_first f n g xs) =
     (if m = n then map_option g (find_by f n xs) else find_by f m xs)"
  by (induction xs) auto

subsection \<open>Filtering in place\<close>

text \<open>
  The source removes entries with \<open>kept := xs[:0]; for _, x := range xs { if p(x) { kept =
  append(kept, x) } }\<close>. The result shares the backing array of \<open>xs\<close>: each append writes the array at
  index \<open>length kept\<close> while the loop still reads it. \<open>filter_step\<close> is one turn of that loop on the
  array and the number of kept entries; the predicate may read the array, as it does where
  the source compares with a name read through a pointer into the same array.
\<close>

fun inplace_filter :: "('a list \<Rightarrow> 'a \<Rightarrow> bool) \<Rightarrow> nat \<Rightarrow> nat \<Rightarrow> 'a list \<Rightarrow> nat \<Rightarrow> 'a list" where
  "inplace_filter p 0 i arr kept = take kept arr"
| "inplace_filter p (Suc n) i arr kept =
     (let x = arr ! i in
      if p arr x then inplace_filter p n (Suc i) (arr[kept := x]) (Suc kept)
      else inplace_filter p n (Suc i) arr kept)"

definition filter_array :: "('a list \<Rightarrow> 'a \<Rightarrow> bool) \<Rightarrow> 'a list \<Rightarrow> 'a list" where
  "filter_array p xs = inplace_filter p (length xs) 0 xs 0"

text \<open>With a predicate that does not read the array, the loop computes the filter.\<close>

lemma inplace_filter_pure:
  "kept \<le> i \<Longrightarrow> i + n = length arr \<Longrightarrow>
   inplace_filter (\<lambda>_. q) n i arr kept = take kept arr @ filter q (drop i arr)"
proof (induction n arbitrary: i arr kept)
  case 0
  then show ?case by simp
next
  case (Suc n)
  have i: "i < length arr" using Suc.prems by simp
  have d: "drop i arr = arr ! i # drop (Suc i) arr" using i by (simp add: Cons_nth_drop_Suc)
  have k: "take (Suc kept) (arr[kept := arr ! i]) = take kept arr @ [arr ! i]"
    using Suc.prems i by (simp add: take_Suc_conv_app_nth)
  have dr: "drop (Suc i) (arr[kept := arr ! i]) = drop (Suc i) arr"
    using Suc.prems by simp
  show ?case
    using Suc.IH [of "Suc kept" "Suc i" "arr[kept := arr ! i]"]
      Suc.IH [of kept "Suc i" arr] Suc.prems d k dr
    by (simp add: Let_def)
qed

lemma filter_array_pure: "filter_array (\<lambda>_. q) xs = filter q xs"
  by (simp add: filter_array_def inplace_filter_pure)

end
