(* ===== verification/Go_Strings.thy ===== *)
theory Go_Strings
  imports Prelude
begin

section \<open>The parts of Go's string library the program uses\<close>

text \<open>
  A Go string is a byte sequence; here it is \<^typ>\<open>string\<close>, one \<^typ>\<open>char\<close> per byte. The theory
  models \<open>strings.HasPrefix\<close>, \<open>HasSuffix\<close>, \<open>TrimPrefix\<close>, \<open>TrimSuffix\<close>, \<open>Contains\<close>, \<open>ContainsAny\<close>,
  \<open>LastIndex\<close>, \<open>Split\<close>, \<open>SplitN\<close>, \<open>Join\<close>, \<open>Fields\<close>, \<open>TrimSpace\<close>, \<open>ToLower\<close>, \<open>EqualFold\<close>, decimal formatting
  and parsing, and the character classes of the program's regular expressions. \<open>ToLower\<close> and
  \<open>EqualFold\<close> fold ASCII letters; their callers compare with literals whose letters have no other
  simple case folding, or look for such a literal as a substring.
\<close>

subsection \<open>Prefixes, suffixes and substrings\<close>

fun has_prefix :: "string \<Rightarrow> string \<Rightarrow> bool" where
  "has_prefix s [] = True"
| "has_prefix [] (c # p) = False"
| "has_prefix (d # s) (c # p) = (d = c \<and> has_prefix s p)"

lemma has_prefix_iff: "has_prefix s p \<longleftrightarrow> (\<exists>r. s = p @ r)"
  by (induction s p rule: has_prefix.induct) auto

lemma has_prefix_append [simp]: "has_prefix (p @ r) p"
  by (auto simp: has_prefix_iff)

definition has_suffix :: "string \<Rightarrow> string \<Rightarrow> bool" where
  "has_suffix s p = has_prefix (rev s) (rev p)"

lemma has_suffix_iff: "has_suffix s p \<longleftrightarrow> (\<exists>r. s = r @ p)"
proof -
  have "has_suffix s p \<longleftrightarrow> (\<exists>r. rev s = rev p @ r)"
    by (simp add: has_suffix_def has_prefix_iff)
  also have "\<dots> \<longleftrightarrow> (\<exists>r. s = r @ p)"
    by (metis rev_append rev_rev_ident)
  finally show ?thesis .
qed

lemma has_suffix_append [simp]: "has_suffix (r @ p) p"
  by (auto simp: has_suffix_iff)

definition trim_prefix :: "string \<Rightarrow> string \<Rightarrow> string" where
  "trim_prefix s p = (if has_prefix s p then drop (length p) s else s)"

definition trim_suffix :: "string \<Rightarrow> string \<Rightarrow> string" where
  "trim_suffix s p = (if has_suffix s p then take (length s - length p) s else s)"

lemma trim_prefix_append [simp]: "trim_prefix (p @ r) p = r"
  by (simp add: trim_prefix_def)

lemma trim_suffix_append [simp]: "trim_suffix (r @ p) p = r"
  by (simp add: trim_suffix_def)

lemma has_prefix_eq: "has_prefix s p \<Longrightarrow> s = p @ trim_prefix s p"
  by (auto simp: has_prefix_iff)

fun str_contains :: "string \<Rightarrow> string \<Rightarrow> bool" where
  "str_contains [] p = (p = [])"
| "str_contains (c # s) p = (has_prefix (c # s) p \<or> str_contains s p)"

lemma str_contains_iff: "str_contains s p \<longleftrightarrow> (\<exists>a b. s = a @ p @ b)"
proof (induction s)
  case Nil
  then show ?case by simp
next
  case (Cons c s)
  have "(\<exists>a b. c # s = a @ p @ b) \<longleftrightarrow> (\<exists>b. c # s = p @ b) \<or> (\<exists>a b. s = a @ p @ b)"
    by (metis append_Cons append_Nil list.exhaust list.inject)
  then show ?case using Cons by (simp add: has_prefix_iff)
qed

definition contains_any :: "string \<Rightarrow> string \<Rightarrow> bool" where
  "contains_any s cs = list_ex (\<lambda>c. c \<in> set cs) s"

lemma contains_any_iff: "contains_any s cs \<longleftrightarrow> set s \<inter> set cs \<noteq> {}"
  by (auto simp: contains_any_def list_ex_iff)

text \<open>\<open>strings.LastIndex(s, ":")\<close> for a one-byte separator, \<open>None\<close> for -1.\<close>

fun last_index :: "char \<Rightarrow> string \<Rightarrow> nat option" where
  "last_index c [] = None"
| "last_index c (d # s) =
     (case last_index c s of Some i \<Rightarrow> Some (Suc i) | None \<Rightarrow> if d = c then Some 0 else None)"

lemma last_index_None_iff: "last_index c s = None \<longleftrightarrow> c \<notin> set s"
  by (induction s) (auto split: option.splits)

lemma last_index_append: "c \<notin> set t \<Longrightarrow> last_index c (s @ c # t) = Some (length s)"
proof (induction s)
  case Nil
  then have "last_index c t = None" by (simp add: last_index_None_iff)
  then show ?case by simp
next
  case (Cons d s)
  then show ?case by simp
qed

subsection \<open>Splitting and joining\<close>

fun split_on :: "char \<Rightarrow> string \<Rightarrow> string list" where
  "split_on c [] = [[]]"
| "split_on c (d # s) =
     (if d = c then [] # split_on c s
      else case split_on c s of [] \<Rightarrow> [[d]] | w # ws \<Rightarrow> (d # w) # ws)"

text \<open>\<open>strings.SplitN(s, sep, 2)\<close>: at most two parts.\<close>

fun split2 :: "char \<Rightarrow> string \<Rightarrow> string list" where
  "split2 c [] = [[]]"
| "split2 c (d # s) =
     (if d = c then [[], s]
      else case split2 c s of [] \<Rightarrow> [[d]] | w # ws \<Rightarrow> (d # w) # ws)"

fun join :: "string \<Rightarrow> string list \<Rightarrow> string" where
  "join sep [] = []"
| "join sep [s] = s"
| "join sep (s # t # ss) = s @ sep @ join sep (t # ss)"

lemma split_on_nonempty [simp]: "split_on c s \<noteq> []"
  by (induction s) (auto split: list.splits)

lemma join_split_on: "join [c] (split_on c s) = s"
proof (induction s)
  case Nil
  then show ?case by simp
next
  case (Cons d s)
  obtain w ws where ws: "split_on c s = w # ws" by (cases "split_on c s") auto
  have "join [c] ((d # w) # ws) = d # join [c] (w # ws)" by (cases ws) auto
  with Cons ws show ?case by (cases "d = c") auto
qed

lemma split_on_free: "w \<in> set (split_on c s) \<Longrightarrow> c \<notin> set w"
proof (induction s arbitrary: w)
  case Nil
  then show ?case by simp
next
  case (Cons d s)
  obtain v vs where vs: "split_on c s = v # vs" by (cases "split_on c s") auto
  show ?case using Cons vs by (cases "d = c") auto
qed

lemma split_on_none: "c \<notin> set s \<Longrightarrow> split_on c s = [s]"
  by (induction s) auto

lemma split_on_append: "c \<notin> set a \<Longrightarrow> split_on c (a @ c # s) = a # split_on c s"
  by (induction a) auto

lemma split2_hit: "c \<notin> set a \<Longrightarrow> split2 c (a @ c # s) = [a, s]"
  by (induction a) auto

lemma split2_miss: "c \<notin> set a \<Longrightarrow> split2 c a = [a]"
  by (induction a) auto

lemma join_inj:
  "\<forall>x \<in> set xs. c \<notin> set x \<Longrightarrow> \<forall>y \<in> set ys. c \<notin> set y \<Longrightarrow> xs \<noteq> [] \<Longrightarrow> ys \<noteq> [] \<Longrightarrow>
   join [c] xs = join [c] ys \<Longrightarrow> xs = ys"
proof -
  have split_join: "split_on c (join [c] zs) = zs" if "\<forall>z \<in> set zs. c \<notin> set z" "zs \<noteq> []" for zs
    using that
  proof (induction zs)
    case Nil
    then show ?case by simp
  next
    case (Cons z zs)
    show ?case
    proof (cases zs)
      case Nil
      with Cons.prems show ?thesis by (simp add: split_on_none)
    next
      case (Cons t ts)
      with Cons.prems Cons.IH show ?thesis by (simp add: split_on_append)
    qed
  qed
  assume "\<forall>x \<in> set xs. c \<notin> set x" "\<forall>y \<in> set ys. c \<notin> set y" "xs \<noteq> []" "ys \<noteq> []"
    "join [c] xs = join [c] ys"
  then show "xs = ys" using split_join by metis
qed

subsection \<open>White space\<close>

text \<open>
  The width in bytes of the white space rune (\<open>unicode.IsSpace\<close>) at the front of the string, 0 if
  there is none: U+0009 to U+000D, U+0020, U+0085, U+00A0, U+1680, U+2000 to U+200A, U+2028,
  U+2029, U+202F, U+205F and U+3000 in UTF-8. Their encodings start with a byte that never
  continues another rune, so scanning bytes finds the runes that decoding finds.
\<close>

definition code :: "char \<Rightarrow> nat" where
  "code c = of_char c"

definition ascii_space :: "nat \<Rightarrow> bool" where
  "ascii_space n = (n = 32 \<or> (9 \<le> n \<and> n \<le> 13))"

fun space_width :: "string \<Rightarrow> nat" where
  "space_width [] = 0"
| "space_width (a # s) =
     (if ascii_space (code a) then 1
      else case s of
        [] \<Rightarrow> 0
      | b # t \<Rightarrow>
          if code a = 194 then (if code b = 133 \<or> code b = 160 then 2 else 0)
          else case t of
            [] \<Rightarrow> 0
          | c # _ \<Rightarrow>
              if (code a = 225 \<and> code b = 154 \<and> code c = 128)
                \<or> (code a = 226 \<and> code b = 128
                    \<and> ((128 \<le> code c \<and> code c \<le> 138) \<or> code c = 168 \<or> code c = 169 \<or> code c = 175))
                \<or> (code a = 226 \<and> code b = 129 \<and> code c = 159)
                \<or> (code a = 227 \<and> code b = 128 \<and> code c = 128)
              then 3 else 0)"

lemma space_width_le: "space_width s \<le> length s"
  by (cases s rule: space_width.cases) (auto split: list.splits)

lemma space_width_less: "0 < space_width s \<Longrightarrow> length s - space_width s < length s"
  using space_width_le [of s] by linarith

text \<open>\<open>strings.TrimSpace\<close>, from the left and then from the right.\<close>

function trim_left :: "string \<Rightarrow> string" where
  "trim_left s = (if space_width s = 0 then s else trim_left (drop (space_width s) s))"
  by pat_completeness auto
termination
  by (relation "measure length") (auto simp: space_width_less)

declare trim_left.simps [simp del]

text \<open>The width of the white space rune that ends the string: a suffix that is exactly one rune.\<close>

definition space_end :: "string \<Rightarrow> nat" where
  "space_end s =
     (case filter (\<lambda>k. k \<le> length s \<and> space_width (drop (length s - k) s) = k) [1, 2, 3] of
        [] \<Rightarrow> 0 | k # _ \<Rightarrow> k)"

lemma space_end_le: "space_end s \<le> length s"
  by (auto simp: space_end_def split: list.splits dest!: arg_cong [where f = set])

lemma space_end_less: "0 < space_end s \<Longrightarrow> length s - space_end s < length s"
  using space_end_le [of s] by linarith

function trim_right :: "string \<Rightarrow> string" where
  "trim_right s = (if space_end s = 0 then s else trim_right (take (length s - space_end s) s))"
  by pat_completeness auto
termination
  by (relation "measure length") (auto simp: space_end_less)

declare trim_right.simps [simp del]

definition trim_space :: "string \<Rightarrow> string" where
  "trim_space s = trim_right (trim_left s)"

text \<open>\<open>strings.Fields\<close>: the runs of bytes between white space.\<close>

function str_fields_aux :: "string \<Rightarrow> string \<Rightarrow> string list" where
  "str_fields_aux w [] = (if w = [] then [] else [rev w])"
| "str_fields_aux w (c # s) =
     (if space_width (c # s) = 0 then str_fields_aux (c # w) s
      else (if w = [] then [] else [rev w]) @ str_fields_aux [] (drop (space_width (c # s)) (c # s)))"
  by pat_completeness auto
termination
  by (relation "measure (\<lambda>(w, s). length s)")
    (use space_width_le in \<open>auto simp: Suc_le_eq dest: le_trans simp del: space_width.simps\<close>)

definition str_fields :: "string \<Rightarrow> string list" where
  "str_fields s = str_fields_aux [] s"

subsection \<open>Case\<close>

definition lower_char :: "char \<Rightarrow> char" where
  "lower_char c = (if 65 \<le> code c \<and> code c \<le> 90 then char_of (code c + 32) else c)"

definition to_lower :: "string \<Rightarrow> string" where
  "to_lower s = map lower_char s"

definition equal_fold :: "string \<Rightarrow> string \<Rightarrow> bool" where
  "equal_fold a b = (to_lower a = to_lower b)"

lemma lower_char_idem [simp]: "lower_char (lower_char c) = lower_char c"
  by (simp add: lower_char_def code_def)

lemma to_lower_idem [simp]: "to_lower (to_lower s) = to_lower s"
  by (simp add: to_lower_def)

lemma equal_fold_refl [simp]: "equal_fold s s"
  by (simp add: equal_fold_def)

subsection \<open>Character classes\<close>

definition is_digit :: "char \<Rightarrow> bool" where
  "is_digit c = (48 \<le> code c \<and> code c \<le> 57)"

definition is_lower :: "char \<Rightarrow> bool" where
  "is_lower c = (97 \<le> code c \<and> code c \<le> 122)"

definition is_upper :: "char \<Rightarrow> bool" where
  "is_upper c = (65 \<le> code c \<and> code c \<le> 90)"

definition is_alnum :: "char \<Rightarrow> bool" where
  "is_alnum c = (is_digit c \<or> is_lower c \<or> is_upper c)"

definition is_lower_hex :: "char \<Rightarrow> bool" where
  "is_lower_hex c = (is_digit c \<or> (97 \<le> code c \<and> code c \<le> 102))"

text \<open>The class \<open>\s\<close> of Go's regular expressions: tab, newline, form feed, return, space.\<close>

definition is_re_space :: "char \<Rightarrow> bool" where
  "is_re_space c = (code c \<in> {9, 10, 12, 13, 32})"

lemmas char_class_defs =
  is_digit_def is_lower_def is_upper_def is_alnum_def is_lower_hex_def is_re_space_def code_def

text \<open>\<open>^[0-9a-f]{n}$\<close>\<close>

definition hex_string :: "nat \<Rightarrow> string \<Rightarrow> bool" where
  "hex_string n s = (length s = n \<and> list_all is_lower_hex s)"

text \<open>\<open>^([0-9a-f]{40}|[0-9a-f]{64})$\<close>, a full Git object id.\<close>

definition git_object_id :: "string \<Rightarrow> bool" where
  "git_object_id s = (hex_string 40 s \<or> hex_string 64 s)"

subsection \<open>Decimal numbers\<close>

definition digit_char :: "nat \<Rightarrow> char" where
  "digit_char d = char_of (48 + d)"

fun show_nat :: "nat \<Rightarrow> string" where
  "show_nat n = (if n < 10 then [digit_char n] else show_nat (n div 10) @ [digit_char (n mod 10)])"

declare show_nat.simps [simp del]

text \<open>\<open>strconv.FormatInt(n, 10)\<close>\<close>

definition show_int :: "int \<Rightarrow> string" where
  "show_int n = (if n < 0 then CHR ''-'' # show_nat (nat (- n)) else show_nat (nat n))"

fun digits_value :: "nat \<Rightarrow> string \<Rightarrow> nat option" where
  "digits_value acc [] = Some acc"
| "digits_value acc (c # s) =
     (if is_digit c then digits_value (10 * acc + (code c - 48)) s else None)"

text \<open>\<open>strconv.ParseInt(s, 10, 64)\<close>: an optional sign, digits, and a value that fits in 64 bits.\<close>

definition parse_int64 :: "string \<Rightarrow> int option" where
  "parse_int64 s =
     (let (neg, ds) = (case s of
          [] \<Rightarrow> (False, [])
        | c # t \<Rightarrow> if c = CHR ''-'' then (True, t) else if c = CHR ''+'' then (False, t) else (False, s))
      in if ds = [] then None
         else case digits_value 0 ds of
             None \<Rightarrow> None
           | Some v \<Rightarrow>
               let n = (if neg then - int v else int v) in
               if - (2 ^ 63) \<le> n \<and> n < 2 ^ 63 then Some n else None)"

lemma digit_char_code [simp]: "d < 10 \<Longrightarrow> code (digit_char d) = 48 + d"
  by (simp add: code_def digit_char_def)

lemma digit_char_is_digit [simp]: "d < 10 \<Longrightarrow> is_digit (digit_char d)"
  by (simp add: is_digit_def)

lemma digits_value_append:
  "digits_value acc (s @ t) =
     (case digits_value acc s of None \<Rightarrow> None | Some v \<Rightarrow> digits_value v t)"
  by (induction s arbitrary: acc) auto

lemma show_nat_nonempty [simp]: "show_nat n \<noteq> []"
  by (subst show_nat.simps) auto

lemma show_nat_digits: "list_all is_digit (show_nat n)"
proof (induction n rule: show_nat.induct)
  case (1 n)
  then show ?case by (subst show_nat.simps) auto
qed

lemma digits_value_show_nat: "digits_value 0 (show_nat n) = Some n"
proof (induction n rule: show_nat.induct)
  case (1 n)
  show ?case
  proof (cases "n < 10")
    case True
    then show ?thesis by (simp add: show_nat.simps [of n])
  next
    case False
    with 1 have "digits_value 0 (show_nat (n div 10)) = Some (n div 10)" by simp
    with False show ?thesis by (simp add: show_nat.simps [of n] digits_value_append)
  qed
qed

lemma is_digit_not_sign: "is_digit c \<Longrightarrow> c \<noteq> CHR ''-'' \<and> c \<noteq> CHR ''+'' \<and> c \<noteq> CHR '',''"
  by (auto simp: is_digit_def code_def)

lemma show_int_no_comma: "CHR '','' \<notin> set (show_int n)"
proof -
  have "CHR '','' \<notin> set (show_nat m)" for m
    using show_nat_digits [of m] by (auto simp: list_all_iff dest: is_digit_not_sign)
  then show ?thesis by (simp add: show_int_def)
qed

text \<open>Formatting and parsing are inverse on 64-bit values.\<close>

lemma parse_show_int64:
  assumes "- (2 ^ 63) \<le> n" and "n < 2 ^ 63"
  shows "parse_int64 (show_int n) = Some n"
proof (cases "n < 0")
  case True
  then show ?thesis
    using assms by (simp add: parse_int64_def show_int_def digits_value_show_nat Let_def)
next
  case False
  obtain c t where ct: "show_nat (nat n) = c # t" by (cases "show_nat (nat n)") auto
  have "is_digit c" using show_nat_digits [of "nat n"] ct by simp
  then have "c \<noteq> CHR ''-''" "c \<noteq> CHR ''+''" using is_digit_not_sign by blast+
  then have "parse_int64 (show_nat (nat n)) = Some n"
    using False assms digits_value_show_nat [of "nat n"] ct
    by (simp add: parse_int64_def Let_def)
  with False show ?thesis by (simp add: show_int_def)
qed

lemma parse_int64_bounds: "parse_int64 s = Some n \<Longrightarrow> - (2 ^ 63) \<le> n \<and> n < 2 ^ 63"
  by (auto simp: parse_int64_def Let_def split: list.splits option.splits if_splits prod.splits)

definition show_bool :: "bool \<Rightarrow> string" where
  "show_bool b = (if b then ''true'' else ''false'')"

lemma show_bool_inj [simp]: "show_bool a = show_bool b \<longleftrightarrow> a = b"
  by (simp add: show_bool_def)

end
