(* ===== verification/Go_Path.thy ===== *)
theory Go_Path
  imports Go_Strings
begin

section \<open>Go's path.Match\<close>

text \<open>
  The glob matcher of Go's standard library that \<open>internal/team/validation.go\<close> uses for the image
  allowlist: chunks between stars, matched left to right, with \<open>?\<close>, character classes and escapes,
  where neither a star nor \<open>?\<close> crosses a slash. \<open>ErrBadPattern\<close> is the \<open>None\<close> of \<open>path_match\<close>.
\<close>

subsection \<open>Runes\<close>

definition cont_byte :: "nat \<Rightarrow> bool" where
  "cont_byte n = (128 \<le> n \<and> n \<le> 191)"

text \<open>\<open>utf8.DecodeRuneInString\<close>: the rune and its width; \<open>(0xFFFD, 1)\<close> for an invalid byte.\<close>

definition rune_error :: nat where
  "rune_error = 65533"

fun decode_rune :: "string \<Rightarrow> nat \<times> nat" where
  "decode_rune [] = (rune_error, 0)"
| "decode_rune (c0 # s) =
     (let a = code c0; s1 = map code (take 3 s) in
      if a < 128 then (a, 1)
      else if 194 \<le> a \<and> a \<le> 223 then
        (case s1 of
           b # _ \<Rightarrow> if cont_byte b then ((a - 192) * 64 + (b - 128), 2) else (rune_error, 1)
         | _ \<Rightarrow> (rune_error, 1))
      else if 224 \<le> a \<and> a \<le> 239 then
        (case s1 of
           b # c # _ \<Rightarrow>
             if (if a = 224 then 160 else 128) \<le> b \<and> b \<le> (if a = 237 then 159 else 191) \<and> cont_byte c
             then ((a - 224) * 4096 + (b - 128) * 64 + (c - 128), 3) else (rune_error, 1)
         | _ \<Rightarrow> (rune_error, 1))
      else if 240 \<le> a \<and> a \<le> 244 then
        (case s1 of
           b # c # d # _ \<Rightarrow>
             if (if a = 240 then 144 else 128) \<le> b \<and> b \<le> (if a = 244 then 143 else 191)
               \<and> cont_byte c \<and> cont_byte d
             then ((a - 240) * 262144 + (b - 128) * 4096 + (c - 128) * 64 + (d - 128), 4)
             else (rune_error, 1)
         | _ \<Rightarrow> (rune_error, 1))
      else (rune_error, 1))"

lemma decode_rune_width: "s \<noteq> [] \<Longrightarrow> 1 \<le> snd (decode_rune s)"
  by (cases s) (auto simp: Let_def split: list.splits)

lemma decode_rune_ascii: "code c < 128 \<Longrightarrow> decode_rune (c # s) = (code c, 1)"
  by (simp add: Let_def)

subsection \<open>Chunks\<close>

text \<open>\<open>scanChunk\<close>: the leading stars, the chunk up to the next star outside a class, the rest.\<close>

fun scan_body :: "bool \<Rightarrow> string \<Rightarrow> string \<times> string" where
  "scan_body inrange [] = ([], [])"
| "scan_body inrange (c # s) =
     (if c = CHR 0x5C then
        (case s of
           [] \<Rightarrow> ([c], [])
         | d # t \<Rightarrow> (let (x, y) = scan_body inrange t in (c # d # x, y)))
      else if c = CHR ''['' then (let (x, y) = scan_body True s in (c # x, y))
      else if c = CHR '']'' then (let (x, y) = scan_body False s in (c # x, y))
      else if c = CHR ''*'' \<and> \<not> inrange then ([], c # s)
      else (let (x, y) = scan_body inrange s in (c # x, y)))"

definition scan_chunk :: "string \<Rightarrow> bool \<times> string \<times> string" where
  "scan_chunk p =
     (let q = dropWhile (\<lambda>c. c = CHR ''*'') p in
      (q \<noteq> p, scan_body False q))"

lemma scan_body_append: "scan_body r s = (x, y) \<Longrightarrow> s = x @ y"
  by (induction r s arbitrary: x y rule: scan_body.induct)
    (auto simp: Let_def split: if_splits list.splits prod.splits)

text \<open>\<open>getEsc\<close>: one possibly escaped character of a class.\<close>

definition get_esc :: "string \<Rightarrow> (nat \<times> string) option" where
  "get_esc chunk =
     (if chunk = [] \<or> hd chunk = CHR ''-'' \<or> hd chunk = CHR '']'' then None
      else let body = (if hd chunk = CHR 0x5C then tl chunk else chunk) in
        if body = [] then None
        else let (r, n) = decode_rune body; rest = drop n body in
          if (r = rune_error \<and> n = 1) \<or> rest = [] then None else Some (r, rest))"

lemma get_esc_shorter:
  assumes "get_esc chunk = Some (r, rest)"
  shows "length rest < length chunk \<and> rest \<noteq> []"
proof -
  have ne: "chunk \<noteq> []" using assms by (auto simp: get_esc_def)
  define body where "body = (if hd chunk = CHR 0x5C then tl chunk else chunk)"
  have b: "body \<noteq> []" "rest = drop (snd (decode_rune body)) body" "rest \<noteq> []"
    using assms by (auto simp: get_esc_def body_def Let_def split: if_splits prod.splits)
  have "length body \<le> length chunk" by (simp add: body_def)
  moreover have "length rest < length body"
    using b decode_rune_width [of body] by (cases body) auto
  ultimately show ?thesis using b by simp
qed

text \<open>
  The ranges of a character class after \<open>[\<close> and \<open>^\<close>: whether the rune is in one, and the chunk after
  the closing bracket. \<open>first\<close> is \<open>nrange = 0\<close>.
\<close>

function class_ranges :: "nat \<Rightarrow> bool \<Rightarrow> bool \<Rightarrow> string \<Rightarrow> (bool \<times> string) option" where
  "class_ranges r first hit chunk =
     (if chunk \<noteq> [] \<and> hd chunk = CHR '']'' \<and> \<not> first then Some (hit, tl chunk)
      else case get_esc chunk of
          None \<Rightarrow> None
        | Some (lo, c1) \<Rightarrow>
            if hd c1 = CHR ''-'' then
              (case get_esc (tl c1) of
                 None \<Rightarrow> None
               | Some (hi, c2) \<Rightarrow> class_ranges r False (hit \<or> (lo \<le> r \<and> r \<le> hi)) c2)
            else class_ranges r False (hit \<or> r = lo) c1)"
  by pat_completeness auto
termination
proof (relation "measure (\<lambda>(r, first, hit, chunk). length chunk)", goal_cases)
  case 1
  show ?case by simp
next
  case (2 r first hit chunk a lo c1 b hi c2)
  have "length c1 < length chunk" using 2 get_esc_shorter [of chunk lo c1] by simp
  moreover have "length c2 < length (tl c1)" using 2 get_esc_shorter [of "tl c1" hi c2] by simp
  ultimately show ?case by simp
next
  case (3 r first hit chunk a lo c1)
  then show ?case using get_esc_shorter [of chunk lo c1] by simp
qed

declare class_ranges.simps [simp del]

lemma class_ranges_shorter: "class_ranges r first hit chunk = Some (m, rest) \<Longrightarrow> length rest < length chunk"
proof (induction r first hit chunk rule: class_ranges.induct)
  case (1 r first hit chunk)
  show ?case
  proof (cases "chunk \<noteq> [] \<and> hd chunk = CHR '']'' \<and> \<not> first")
    case True
    with "1.prems" have "rest = tl chunk" by (subst (asm) class_ranges.simps) auto
    with True show ?thesis by simp
  next
    case False
    with "1.prems" obtain lo c1 where lo: "get_esc chunk = Some (lo, c1)"
      by (subst (asm) class_ranges.simps) (auto split: option.splits)
    have c1: "length c1 < length chunk" using get_esc_shorter [OF lo] by simp
    show ?thesis
    proof (cases "hd c1 = CHR ''-''")
      case True
      with "1.prems" False lo obtain hi c2 where hi: "get_esc (tl c1) = Some (hi, c2)"
        by (subst (asm) class_ranges.simps) (auto split: option.splits)
      have "length rest < length c2"
        using "1.IH"(1) [OF False lo _ True hi] "1.prems" False lo True hi
        by (simp add: class_ranges.simps [of r first hit chunk])
      moreover have "length c2 < length (tl c1)" using get_esc_shorter [OF hi] by simp
      ultimately show ?thesis using c1 by simp
    next
      case neg: False
      have "length rest < length c1"
        using "1.IH"(2) [OF False lo _ neg] "1.prems" False lo neg
        by (simp add: class_ranges.simps [of r first hit chunk])
      then show ?thesis using c1 by simp
    qed
  qed
qed

text \<open>
  \<open>matchChunk\<close>: \<open>None\<close> is a bad pattern, \<open>Some None\<close> a failed match, \<open>Some (Some t)\<close> a match that leaves
  \<open>t\<close>. After a failure the loop goes on reading the chunk to check that it is well-formed.
\<close>

function match_chunk :: "bool \<Rightarrow> string \<Rightarrow> string \<Rightarrow> string option option" where
  "match_chunk failed [] s = Some (if failed then None else Some s)"
| "match_chunk failed (c # chunk) s =
     (let failed = (failed \<or> s = []) in
      if c = CHR ''['' then
        let (r, n) = (if failed then (0, 0) else decode_rune s);
            s' = drop n s;
            negated = (chunk \<noteq> [] \<and> hd chunk = CHR ''^'');
            body = (if negated then tl chunk else chunk) in
          (case class_ranges r True False body of
             None \<Rightarrow> None
           | Some (hit, rest) \<Rightarrow> match_chunk (failed \<or> hit = negated) rest s')
      else if c = CHR ''?'' then
        (if failed then match_chunk failed chunk s
         else match_chunk (hd s = CHR ''/'') chunk (drop (snd (decode_rune s)) s))
      else if c = CHR 0x5C then
        (case chunk of
           [] \<Rightarrow> None
         | d # rest \<Rightarrow> if failed then match_chunk failed rest s else match_chunk (d \<noteq> hd s) rest (tl s))
      else if failed then match_chunk failed chunk s
      else match_chunk (c \<noteq> hd s) chunk (tl s))"
  by pat_completeness auto
termination
proof (relation "measure (\<lambda>(failed, chunk, s). length chunk)", goal_cases)
  case 1
  show ?case by simp
next
  case (2 failed c chunk s f a r n s' neg body b hit rest)
  have "length rest < length body" using 2 class_ranges_shorter [of r True False body hit rest] by simp
  moreover have "length body \<le> length chunk" using 2 by simp
  ultimately show ?case by simp
qed auto

declare match_chunk.simps(2) [simp del]

subsection \<open>The matcher\<close>

text \<open>Trying the chunk at each later position that the star can reach without a slash.\<close>

fun star_search :: "string \<Rightarrow> bool \<Rightarrow> string \<Rightarrow> string option option" where
  "star_search chunk lastc [] = Some None"
| "star_search chunk lastc (c # s) =
     (if c = CHR ''/'' then Some None
      else case match_chunk False chunk s of
          None \<Rightarrow> None
        | Some (Some t) \<Rightarrow> if lastc \<and> t \<noteq> [] then star_search chunk lastc s else Some (Some t)
        | Some None \<Rightarrow> star_search chunk lastc s)"

lemma scan_chunk_shorter:
  assumes "scan_chunk p = (star, chunk, rest)" and "p \<noteq> []"
  shows "length rest < length p"
proof -
  define q where "q = dropWhile (\<lambda>c. c = CHR ''*'') p"
  have sb: "scan_body False q = (chunk, rest)" and st: "star \<longleftrightarrow> q \<noteq> p"
    using assms(1) by (simp_all add: scan_chunk_def q_def Let_def)
  have qa: "q = chunk @ rest" using scan_body_append [OF sb] .
  have lq: "length q \<le> length p" by (simp add: q_def length_dropWhile_le)
  show ?thesis
  proof (cases "q = p")
    case True
    then have "q \<noteq> []" "hd q \<noteq> CHR ''*''"
      using assms(2) hd_dropWhile [of "\<lambda>c. c = CHR ''*''" p] unfolding q_def by auto
    then have "chunk \<noteq> []"
      using sb by (cases q) (auto simp: Let_def split: if_splits list.splits prod.splits)
    with qa lq show ?thesis by (cases chunk) auto
  next
    case False
    have "p = takeWhile (\<lambda>c. c = CHR ''*'') p @ q"
      using takeWhile_dropWhile_id [of "\<lambda>c. c = CHR ''*''" p] by (simp add: q_def)
    with False have "length q < length p"
      by (metis append_Nil length_append length_greater_0_conv less_add_same_cancel2)
    with qa show ?thesis by simp
  qed
qed

text \<open>The syntax check of the rest of the pattern after a mismatch.\<close>

function rest_well_formed :: "string \<Rightarrow> bool" where
  "rest_well_formed p =
     (if p = [] then True
      else let (star, chunk, rest) = scan_chunk p in
        match_chunk False chunk [] \<noteq> None \<and> rest_well_formed rest)"
  by pat_completeness auto
termination
  by (relation "measure length") (auto dest: scan_chunk_shorter [OF sym])

declare rest_well_formed.simps [simp del]

text \<open>\<open>path.Match(pattern, name)\<close>: \<open>None\<close> for \<open>ErrBadPattern\<close>.\<close>

function path_match :: "string \<Rightarrow> string \<Rightarrow> bool option" where
  "path_match p name =
     (if p = [] then Some (name = [])
      else let (star, chunk, rest) = scan_chunk p in
        if star \<and> chunk = [] then Some (CHR ''/'' \<notin> set name)
        else case match_chunk False chunk name of
            None \<Rightarrow> None
          | Some m \<Rightarrow>
              if m \<noteq> None \<and> (the m = [] \<or> rest \<noteq> []) then path_match rest (the m)
              else
                (case (if star then star_search chunk (rest = []) name else Some None) of
                   None \<Rightarrow> None
                 | Some (Some t) \<Rightarrow> path_match rest t
                 | Some None \<Rightarrow> if rest_well_formed rest then Some False else None))"
  by pat_completeness auto
termination
  by (relation "measure (\<lambda>(p, name). length p)") (auto dest: scan_chunk_shorter [OF sym])

declare path_match.simps [simp del]

end
