(* ===== verification/Go_Glob.thy ===== *)
theory Go_Glob
  imports Go_Path
begin

section \<open>What the glob matcher accepts\<close>

text \<open>
  Facts about \<open>path_match\<close>: a pattern without character classes keeps the number of slashes, a
  literal pattern matches itself only, and a literal prefix with a trailing star matches exactly one
  more path segment.
\<close>

subsection \<open>Globs do not cross slashes\<close>

text \<open>
  A pattern without character classes matches only names with the pattern's number of slashes:
  neither \<open>*\<close> nor \<open>?\<close> consumes one. \<open>slashes\<close> counts them.
\<close>

definition slashes :: "string \<Rightarrow> nat" where
  "slashes s = count_list s (CHR ''/'')"

lemma slashes_simps [simp]:
  "slashes [] = 0"
  "slashes (c # s) = (if c = CHR ''/'' then Suc (slashes s) else slashes s)"
  "slashes (s @ t) = slashes s + slashes t"
  by (simp_all add: slashes_def)

lemma slashes_0_iff: "slashes s = 0 \<longleftrightarrow> CHR ''/'' \<notin> set s"
  by (simp add: slashes_def count_list_0_iff)

lemma slash_code: "c = CHR ''/'' \<longleftrightarrow> code c = 47"
proof -
  have "code (CHR ''/'') = 47" by (simp add: code_def)
  then show ?thesis using of_char_eq_iff [of c "CHR ''/''"] by (metis code_def)
qed

lemma decode_rune_width_cases:
  assumes "s = a # b # c # d # u" and "w = snd (decode_rune s)"
  shows "w = 1 \<or> (w = 2 \<and> 128 \<le> code b) \<or> (w = 3 \<and> 128 \<le> code b \<and> 128 \<le> code c)
    \<or> (w = 4 \<and> 128 \<le> code b \<and> 128 \<le> code c \<and> 128 \<le> code d)"
proof -
  have "w = (if code a < 128 then 1
      else if 194 \<le> code a \<and> code a \<le> 223 then (if cont_byte (code b) then 2 else 1)
      else if 224 \<le> code a \<and> code a \<le> 239 then
        (if (if code a = 224 then 160 else 128) \<le> code b \<and>
            code b \<le> (if code a = 237 then 159 else 191) \<and> cont_byte (code c) then 3 else 1)
      else if 240 \<le> code a \<and> code a \<le> 244 then
        (if (if code a = 240 then 144 else 128) \<le> code b \<and>
            code b \<le> (if code a = 244 then 143 else 191) \<and> cont_byte (code c) \<and> cont_byte (code d)
         then 4 else 1)
      else 1)"
    using assms by (simp add: Let_def numeral_3_eq_3 if_distrib [of snd])
  then show ?thesis by (simp add: cont_byte_def split: if_splits)
qed

text \<open>Reading past the end of the string makes no difference to the width.\<close>

lemma decode_rune_pad:
  assumes "s \<noteq> []"
  shows "snd (decode_rune s) = 1 \<or>
    (snd (decode_rune s) \<le> length s \<and>
     (\<forall>d \<in> set (tl (take (snd (decode_rune s)) s)). 128 \<le> code d))"
proof -
  consider a where "s = [a]" | a b where "s = [a, b]" | a b c where "s = [a, b, c]"
    | a b c d u where "s = a # b # c # d # u"
    using assms by (metis list.exhaust)
  then show ?thesis
  proof cases
    case 1
    then show ?thesis by (simp add: Let_def)
  next
    case 2
    then show ?thesis by (simp add: Let_def cont_byte_def numeral_2_eq_2)
  next
    case 3
    then show ?thesis by (simp add: Let_def cont_byte_def numeral_2_eq_2 numeral_3_eq_3)
  next
    case (4 a b c d u)
    show ?thesis
      using decode_rune_width_cases [OF 4 refl] 4
      by (elim disjE) (simp_all add: numeral_2_eq_2 numeral_3_eq_3 eval_nat_numeral del: decode_rune.simps)
  qed
qed

lemma decode_rune_no_slash:
  assumes "s \<noteq> []" and "hd s \<noteq> CHR ''/''"
  shows "slashes (take (snd (decode_rune s)) s) = 0"
proof -
  define w where "w = snd (decode_rune s)"
  have "take w s = [] \<or> take w s = hd s # tl (take w s)" using assms(1) by (cases s; cases w) auto
  moreover have "\<forall>d \<in> set (tl (take w s)). d \<noteq> CHR ''/''"
  proof (cases "w = 1")
    case True
    then show ?thesis by (cases s) auto
  next
    case False
    then show ?thesis using decode_rune_pad [OF assms(1)] by (auto simp: w_def slash_code)
  qed
  ultimately show ?thesis using assms(2) unfolding slashes_0_iff w_def
    by (metis list.set_intros(1) empty_iff empty_set set_ConsD)
qed

lemma slashes_drop: "slashes s = slashes (take n s) + slashes (drop n s)"
  by (metis append_take_drop_id slashes_simps(3))

lemma slashes_tl: "s \<noteq> [] \<Longrightarrow> slashes s = slashes [hd s] + slashes (tl s)"
  by (cases s) auto

lemma match_chunk_failed: "match_chunk True chunk s \<noteq> Some (Some t)"
proof (induction chunk arbitrary: s rule: length_induct)
  case (1 chunk)
  show ?case
  proof (cases chunk)
    case Nil
    then show ?thesis by simp
  next
    case (Cons c rest)
    have IH: "match_chunk True r s' \<noteq> Some (Some t)" if "length r < length chunk" for r s'
      using 1 that by blast
    show ?thesis
    proof (cases "c = CHR ''[''")
      case True
      define body where "body = (if rest \<noteq> [] \<and> hd rest = CHR ''^'' then tl rest else rest)"
      have "length body \<le> length rest" by (simp add: body_def)
      then show ?thesis
        using True Cons IH class_ranges_shorter [of 0 True False body]
        by (auto simp: match_chunk.simps(2) Let_def body_def [symmetric] split: option.split)
    next
      case False
      then show ?thesis using Cons IH
        by (cases rest) (simp_all add: match_chunk.simps(2) [of True c])
    qed
  qed
qed

lemma match_chunk_slashes:
  "match_chunk failed chunk s = Some (Some t) \<Longrightarrow> CHR ''['' \<notin> set chunk \<Longrightarrow>
   slashes s = slashes chunk + slashes t"
proof (induction chunk arbitrary: failed s rule: length_induct)
  case (1 chunk)
  show ?case
  proof (cases chunk)
    case Nil
    with 1 show ?thesis by (auto split: if_splits)
  next
    case (Cons c rest)
    have nf: "\<not> failed" "s \<noteq> []"
    proof -
      show "\<not> failed" using 1(2) match_chunk_failed by (cases failed) auto
      show "s \<noteq> []"
      proof
        assume "s = []"
        then have "match_chunk True chunk s = Some (Some t)"
          using 1(2) Cons by (simp add: match_chunk.simps(2) Let_def)
        then show False using match_chunk_failed by simp
      qed
    qed
    have c: "c \<noteq> CHR ''[''" "CHR ''['' \<notin> set rest" using 1(3) Cons by auto
    consider (any) "c = CHR ''?''" | (esc) "c = CHR 0x5C" | (lit) "c \<noteq> CHR ''?''" "c \<noteq> CHR 0x5C" by blast
    then show ?thesis
    proof cases
      case any
      have m: "match_chunk (hd s = CHR ''/'') rest (drop (snd (decode_rune s)) s) = Some (Some t)"
        using 1(2) Cons nf any c by (simp add: match_chunk.simps(2) Let_def)
      then have h: "hd s \<noteq> CHR ''/''" using match_chunk_failed by fastforce
      have "slashes (drop (snd (decode_rune s)) s) = slashes rest + slashes t"
        using 1(1) m c Cons by auto
      then show ?thesis
        using slashes_drop [of s "snd (decode_rune s)"] decode_rune_no_slash [OF nf(2) h] Cons any by simp
    next
      case esc
      then obtain d rest' where r: "rest = d # rest'" and
        m: "match_chunk (d \<noteq> hd s) rest' (tl s) = Some (Some t)"
        using 1(2) Cons nf c by (auto simp: match_chunk.simps(2) Let_def split: list.splits)
      then have h: "d = hd s" using match_chunk_failed [of rest' "tl s" t] by (cases "d = hd s") auto
      have "slashes (tl s) = slashes rest' + slashes t" using 1(1) m c Cons r by auto
      then show ?thesis using slashes_tl [OF nf(2)] h r Cons esc by simp
    next
      case lit
      have m: "match_chunk (c \<noteq> hd s) rest (tl s) = Some (Some t)"
        using 1(2) Cons nf lit c by (simp add: match_chunk.simps(2) Let_def)
      then have h: "c = hd s" using match_chunk_failed [of rest "tl s" t] by (cases "c = hd s") auto
      have "slashes (tl s) = slashes rest + slashes t" using 1(1) m c Cons by auto
      then show ?thesis using slashes_tl [OF nf(2)] h Cons by simp
    qed
  qed
qed

lemma star_search_slashes:
  "star_search chunk lastc s = Some (Some t) \<Longrightarrow> CHR ''['' \<notin> set chunk \<Longrightarrow>
   slashes s = slashes chunk + slashes t"
  by (induction chunk lastc s rule: star_search.induct)
    (auto split: if_splits option.splits dest: match_chunk_slashes)

lemma scan_chunk_parts:
  assumes "scan_chunk p = (star, chunk, rest)"
  shows "slashes p = slashes chunk + slashes rest" and "set chunk \<union> set rest \<subseteq> set p"
proof -
  define q where "q = dropWhile (\<lambda>c. c = CHR ''*'') p"
  have q: "q = chunk @ rest"
    using assms scan_body_append [of False q chunk rest] by (simp add: scan_chunk_def q_def Let_def)
  have p: "p = takeWhile (\<lambda>c. c = CHR ''*'') p @ q" by (simp add: q_def)
  have "slashes (takeWhile (\<lambda>c. c = CHR ''*'') p) = 0"
    by (auto simp: slashes_0_iff dest: set_takeWhileD)
  then show "slashes p = slashes chunk + slashes rest" using p q by (metis add_0 slashes_simps(3))
  show "set chunk \<union> set rest \<subseteq> set p" using p q by (metis set_append sup_ge2)
qed

lemma scan_chunk_empty:
  assumes "scan_chunk p = (star, [], rest)"
  shows "rest = []"
proof (rule ccontr)
  assume "rest \<noteq> []"
  have sb: "scan_body False (dropWhile (\<lambda>c. c = CHR ''*'') p) = ([], rest)"
    using assms by (simp add: scan_chunk_def Let_def)
  then have q: "dropWhile (\<lambda>c. c = CHR ''*'') p = rest" using scan_body_append by fastforce
  then obtain c r where r: "rest = c # r" and "c \<noteq> CHR ''*''"
    using \<open>rest \<noteq> []\<close> hd_dropWhile [of "\<lambda>c. c = CHR ''*''" p] by (cases rest) auto
  then show False
    using sb q by (auto simp: Let_def split: if_splits list.splits prod.splits)
qed

lemma path_match_slashes:
  "path_match p name = Some True \<Longrightarrow> CHR ''['' \<notin> set p \<Longrightarrow> slashes name = slashes p"
proof (induction p name rule: path_match.induct)
  case (1 p name)
  show ?case
  proof (cases "p = []")
    case True
    with 1 show ?thesis by (simp add: path_match.simps)
  next
    case False
    obtain star chunk rest where sc: "scan_chunk p = (star, chunk, rest)" by (cases "scan_chunk p")
    note parts = scan_chunk_parts [OF sc]
    have nb: "CHR ''['' \<notin> set chunk" "CHR ''['' \<notin> set rest" using parts(2) 1(4) by auto
    show ?thesis
    proof (cases "star \<and> chunk = []")
      case True
      then have "rest = []" using sc scan_chunk_empty by blast
      moreover have "CHR ''/'' \<notin> set name"
        using 1(3) False sc True by (simp add: path_match.simps [of p])
      ultimately show ?thesis using True parts(1) by (simp add: slashes_0_iff [symmetric])
    next
      case ns: False
      then obtain m where m: "match_chunk False chunk name = Some m"
        using 1(3) False sc by (auto simp: path_match.simps [of p] Let_def split: option.splits)
      show ?thesis
      proof (cases "m \<noteq> None \<and> (the m = [] \<or> rest \<noteq> [])")
        case True
        then have pm: "path_match rest (the m) = Some True"
          using 1(3) False sc ns m by (simp add: path_match.simps [of p])
        have "slashes (the m) = slashes rest" using "1.IH"(1) False sc ns m True pm nb by auto
        moreover have "slashes name = slashes chunk + slashes (the m)"
          using match_chunk_slashes [of False chunk name "the m"] m True nb by auto
        ultimately show ?thesis using parts(1) by simp
      next
        case no: False
        then obtain t where st: "star_search chunk (rest = []) name = Some (Some t)" "star"
          and pm: "path_match rest t = Some True"
          using 1(3) False sc ns m
          by (auto simp: path_match.simps [of p] Let_def split: option.splits if_splits)
        have "slashes t = slashes rest" using "1.IH"(2) False sc ns m no st pm nb by auto
        then show ?thesis using star_search_slashes [OF st(1) nb(1)] parts(1) by simp
      qed
    qed
  qed
qed

subsection \<open>Literal patterns and patterns that end in a star\<close>

definition plain_char :: "char \<Rightarrow> bool" where
  "plain_char c \<longleftrightarrow> c \<notin> {CHR ''*'', CHR ''?'', CHR ''['', CHR 0x5C}"

lemma scan_body_plain:
  "list_all plain_char p \<Longrightarrow> scan_body False (p @ (if star then ''*'' else [])) =
     (p, if star then ''*'' else [])"
  by (induction p) (auto simp: plain_char_def)

lemma match_chunk_plain:
  "list_all plain_char p \<Longrightarrow>
   match_chunk failed p s =
     Some (if \<not> failed \<and> has_prefix s p then Some (drop (length p) s) else None)"
proof (induction p arbitrary: failed s)
  case Nil
  then show ?case by simp
next
  case (Cons c p)
  have pl: "c \<noteq> CHR ''*''" "c \<noteq> CHR ''?''" "c \<noteq> CHR ''[''" "c \<noteq> CHR 0x5C"
    using Cons.prems by (auto simp: plain_char_def)
  show ?case using Cons pl by (cases s) (auto simp: match_chunk.simps(2) Let_def)
qed

lemma scan_chunk_plain:
  assumes "list_all plain_char p" and "p \<noteq> []"
  shows "scan_chunk (p @ (if star then ''*'' else [])) = (False, p, if star then ''*'' else [])"
proof -
  have "hd p \<noteq> CHR ''*''" using assms by (cases p) (auto simp: plain_char_def)
  then have "dropWhile (\<lambda>c. c = CHR ''*'') (p @ r) = p @ r" for r
    using assms(2) by (cases p) auto
  then show ?thesis using scan_body_plain [OF assms(1)] by (simp add: scan_chunk_def)
qed

lemma path_match_literal:
  assumes "list_all plain_char p"
  shows "path_match p name = Some (name = p)"
proof (cases "p = []")
  case True
  then show ?thesis by (simp add: path_match.simps)
next
  case False
  have sc: "scan_chunk p = (False, p, [])"
    using scan_chunk_plain [OF assms False, of False] by simp
  show ?thesis
    using False sc match_chunk_plain [OF assms, of False name]
    by (auto simp: path_match.simps [of p] path_match.simps [of "[]"] rest_well_formed.simps has_prefix_iff)
qed

lemma path_match_star: "path_match ''*'' name = Some (CHR ''/'' \<notin> set name)"
  by (simp add: path_match.simps scan_chunk_def)

lemma path_match_prefix_star:
  assumes "list_all plain_char p" and "p \<noteq> []"
  shows "path_match (p @ ''*'') name =
    Some (\<exists>seg. name = p @ seg \<and> CHR ''/'' \<notin> set seg)"
proof -
  have sc: "scan_chunk (p @ ''*'') = (False, p, ''*'')"
    using scan_chunk_plain [OF assms, of True] by simp
  have wf: "rest_well_formed ''*''"
    by (simp add: rest_well_formed.simps scan_chunk_def)
  show ?thesis
    using sc wf match_chunk_plain [OF assms(1), of False name]
    by (auto simp: path_match.simps [of "p @ ''*''"] path_match_star has_prefix_iff)
qed

end
