(* ===== verification/Kube_Types.thy ===== *)
theory Kube_Types
  imports Prelude
begin

section \<open>Kubernetes objects the program reads and writes\<close>

text \<open>
  The types of other modules that the program builds and inspects, as records with the fields it uses:
  object metadata, conditions, unstructured JSON values, and the specs and statuses of the
  generated kinds. A field that the program neither sets nor reads is left out: the updates of the
  model change named fields only, as the assignments of the source do.
\<close>

subsection \<open>Object metadata and status conditions\<close>

record objmeta =
  oname :: string
  onamespace :: string
  ouid :: string
  olabels :: strmap
  oannotations :: strmap
  ogeneration :: int
  ofinalizers :: "string list"
  odeleting :: bool          \<comment> \<open>\<open>DeletionTimestamp\<close> is not zero\<close>
  ocreated :: "int option"   \<comment> \<open>\<open>CreationTimestamp\<close>, \<open>None\<close> the zero time\<close>
  ocontroller :: "string option"  \<comment> \<open>the UID of the controlling owner reference\<close>

definition new_meta :: "string \<Rightarrow> string \<Rightarrow> objmeta" where
  "new_meta ns n = \<lparr>oname = n, onamespace = ns, ouid = [], olabels = Map.empty,
     oannotations = Map.empty, ogeneration = 0, ofinalizers = [], odeleting = False,
     ocreated = None, ocontroller = None\<rparr>"

lemma new_meta_simps [simp]:
  "oname (new_meta ns n) = n" "onamespace (new_meta ns n) = ns" "ouid (new_meta ns n) = []"
  "olabels (new_meta ns n) = Map.empty" "oannotations (new_meta ns n) = Map.empty"
  "ogeneration (new_meta ns n) = 0" "ofinalizers (new_meta ns n) = []"
  "odeleting (new_meta ns n) = False" "ocreated (new_meta ns n) = None"
  "ocontroller (new_meta ns n) = None"
  by (simp_all add: new_meta_def)

datatype cond_status = CondTrue | CondFalse | CondUnknown

record condition =
  ctype :: string
  cstatus :: cond_status
  cobserved :: int
  creason :: string
  cmessage :: string
  ctransition :: int

subsection \<open>Unstructured objects\<close>

text \<open>\<open>map[string]any\<close> trees; the entries of an object are listed in the order the source writes them.\<close>

datatype json =
  JNull | JBool bool | JInt int | JStr string | JArr "json list" | JObj "(string \<times> json) list"

record gvk =
  gvk_group :: string
  gvk_version :: string
  gvk_kind :: string

subsection \<open>Selectors and ports\<close>

record label_selector =
  sel_labels :: strmap
  sel_expressions :: "string list"

definition match_labels :: "strmap \<Rightarrow> label_selector" where
  "match_labels m = \<lparr>sel_labels = m, sel_expressions = []\<rparr>"

datatype int_or_string = PortInt int | PortName string
datatype protocol = TCP | UDP

subsection \<open>Network policies\<close>

datatype policy_type = PolicyIngress | PolicyEgress

record np_port =
  npp_protocol :: "protocol option"
  npp_port :: "int_or_string option"

record np_peer =
  peer_pods :: "label_selector option"
  peer_namespaces :: "label_selector option"
  peer_cidr :: "string option"

record np_rule =
  rule_peers :: "np_peer list"
  rule_ports :: "np_port list"

record np_spec =
  np_selector :: label_selector
  np_types :: "policy_type list"
  np_ingress :: "np_rule list"
  np_egress :: "np_rule list"

definition pod_peer :: "label_selector \<Rightarrow> np_peer" where
  "pod_peer s = \<lparr>peer_pods = Some s, peer_namespaces = None, peer_cidr = None\<rparr>"

definition ns_pod_peer :: "label_selector \<Rightarrow> label_selector \<Rightarrow> np_peer" where
  "ns_pod_peer n s = \<lparr>peer_pods = Some s, peer_namespaces = Some n, peer_cidr = None\<rparr>"

definition cidr_peer :: "string \<Rightarrow> np_peer" where
  "cidr_peer c = \<lparr>peer_pods = None, peer_namespaces = None, peer_cidr = Some c\<rparr>"

definition np_port_of :: "protocol \<Rightarrow> int_or_string \<Rightarrow> np_port" where
  "np_port_of p n = \<lparr>npp_protocol = Some p, npp_port = Some n\<rparr>"

subsection \<open>Team boundary objects\<close>

record limit_item =
  li_type :: string
  li_min :: strmap
  li_defaultRequest :: strmap
  li_default :: strmap

record policy_rule =
  pr_apiGroups :: "string list"
  pr_resources :: "string list"
  pr_verbs :: "string list"
  pr_resourceNames :: "string list"
  pr_nonResourceURLs :: "string list"

record subject =
  sub_kind :: string
  sub_apiGroup :: string
  sub_name :: string
  sub_namespace :: string

record role_ref =
  rr_apiGroup :: string
  rr_kind :: string
  rr_name :: string

subsection \<open>Services, workloads and routes\<close>

record service_port =
  sp_name :: string
  sp_protocol :: protocol
  sp_port :: int
  sp_targetPort :: int_or_string

record service_spec =
  svc_selector :: strmap
  svc_ports :: "service_port list"

record env_var =
  env_name :: string
  env_value :: string
  env_secret :: "(string \<times> string) option"   \<comment> \<open>\<open>SecretKeyRef\<close>: the Secret and the key\<close>

record container_port =
  cp_name :: string
  cp_containerPort :: int
  cp_protocol :: protocol

record probe =
  pb_path :: string
  pb_port :: int
  pb_scheme :: string
  pb_timeoutSeconds :: int
  pb_periodSeconds :: int
  pb_successThreshold :: int
  pb_failureThreshold :: int

record container_security =
  cs_allowPrivilegeEscalation :: "bool option"
  cs_capabilitiesDrop :: "string list"
  cs_readOnlyRootFilesystem :: "bool option"
  cs_runAsNonRoot :: "bool option"

record container =
  ct_name :: string
  ct_image :: string
  ct_ports :: "container_port list"
  ct_envFrom :: "string list"      \<comment> \<open>\<open>ConfigMapRef\<close> names\<close>
  ct_env :: "env_var list"
  ct_livenessProbe :: "probe option"
  ct_readinessProbe :: "probe option"
  ct_preStopSleep :: "int option"
  ct_requests :: strmap
  ct_limits :: strmap
  ct_security :: "container_security option"

record pod_spec =
  ps_automountToken :: "bool option"
  ps_gracePeriod :: "int option"
  ps_seccomp :: "string option"
  ps_containers :: "container list"

record deployment_spec =
  dp_replicas :: "int option"
  dp_selector :: "label_selector option"
  dp_strategyType :: string
  dp_maxUnavailable :: "int_or_string option"
  dp_maxSurge :: "int_or_string option"
  dp_templateLabels :: strmap
  dp_pod :: pod_spec

text \<open>The conditions of Deployments, ReplicaSets and Pods, which carry no observed generation.\<close>

record wcondition =
  wc_type :: string
  wc_status :: string
  wc_reason :: string
  wc_message :: string

record deployment_status =
  dps_observedGeneration :: int
  dps_availableReplicas :: int
  dps_updatedReplicas :: int
  dps_conditions :: "wcondition list"

record container_status =
  cst_name :: string
  cst_ready :: bool
  cst_imageID :: string

record pod_status =
  pst_conditions :: "wcondition list"
  pst_containerStatuses :: "container_status list"

record backend_ref =
  br_group :: "string option"
  br_kind :: "string option"
  br_namespace :: "string option"
  br_name :: string
  br_port :: "int option"
  br_weight :: "int option"

record parent_ref =
  pr_group :: "string option"
  pr_kind :: "string option"
  pr_namespace :: "string option"
  pr_name :: string

record route_match =
  rm_pathType :: "string option"
  rm_path :: "string option"

record route_rule =
  rl_matches :: "route_match list"
  rl_backends :: "backend_ref list"

record route_spec =
  rs_parents :: "parent_ref list"
  rs_hostnames :: "string list"
  rs_rules :: "route_rule list"

record route_parent =
  rp_ref :: parent_ref
  rp_conditions :: "condition list"

subsection \<open>Argo Rollouts objects\<close>

datatype rollout_step =
  SetWeight int
| PauseFor string
| RunAnalysis string "(string \<times> string option) list"
    \<comment> \<open>the template and its arguments; a value of \<open>None\<close> is the latest pod template hash\<close>

record canary_strategy =
  cn_stableService :: string
  cn_canaryService :: string
  cn_steps :: "rollout_step list"
  cn_maxUnavailable :: "int_or_string option"
  cn_maxSurge :: "int_or_string option"
  cn_scaleDownDelaySeconds :: "int option"
  cn_abortScaleDownDelaySeconds :: "int option"
  cn_minPodsPerReplicaSet :: "int option"
  cn_trafficRouting :: "strmap option"   \<comment> \<open>the plugin configurations\<close>

record workload_ref =
  wr_apiVersion :: string
  wr_kind :: string
  wr_name :: string
  wr_scaleDown :: string

record rollout_spec =
  ro_replicas :: "int option"
  ro_workloadRef :: "workload_ref option"
  ro_revisionHistoryLimit :: "int option"
  ro_progressDeadlineSeconds :: "int option"
  ro_progressDeadlineAbort :: bool
  ro_analysisHistory :: "(int option \<times> int option) option"
  ro_canary :: "canary_strategy option"

record step_analysis =
  sa_name :: string
  sa_status :: string
  sa_message :: string

record rollout_status =
  ros_observedGeneration :: string
  ros_phase :: string
  ros_message :: string
  ros_stableRS :: string
  ros_availableReplicas :: int
  ros_abort :: bool
  ros_stepAnalysis :: "step_analysis option"

record analysis_metric =
  am_name :: string
  am_initialDelay :: string
  am_interval :: string
  am_count :: "int option"
  am_successCondition :: string
  am_failureCondition :: string
  am_failureLimit :: "int option"
  am_inconclusiveLimit :: "int option"
  am_consecutiveErrorLimit :: "int option"
  am_consecutiveSuccessLimit :: "int option"
  am_address :: string
  am_query :: string

record analysis_spec =
  an_args :: "string list"
  an_metrics :: "analysis_metric list"

record metric_result =
  mr_name :: string
  mr_phase :: string
  mr_message :: string

record run_status =
  run_message :: string
  run_metrics :: "metric_result list"

end
