(* ===== verification/Api_Types.thy ===== *)
theory Api_Types
  imports Complex_Main Kube_Types Go_Strings
begin

section \<open>The Application, Database and Team resources\<close>

text \<open>
  The API types of \<open>api/v1alpha1\<close> as records, field for field, over the Kubernetes object metadata they
  embed, and the record of third-party functions the program calls. A \<open>resource.Quantity\<close>
  is opaque: it is compared and parsed only through that record. Durations are nanoseconds.
\<close>

subsection \<open>Application\<close>

type_synonym quantity = string

datatype deployment_strategy = Rolling | Canary | OtherStrategy string

record app_image =
  img_repository :: string
  img_tag :: string

record replica_bounds =
  rep_min :: int
  rep_max :: int

record app_runtime =
  rt_port :: int
  rt_replicas :: replica_bounds

record resource_values =
  rv_cpu :: quantity
  rv_memory :: quantity

record app_resources =
  res_requests :: resource_values
  res_limits :: resource_values

record canary_step =
  step_weight :: int
  step_pause :: int

record app_deployment =
  dep_strategy :: deployment_strategy
  dep_steps :: "canary_step list"
  dep_automaticRollback :: bool

record reliability_targets =
  rel_availabilityTarget :: string
  rel_maximumP95Latency :: int
  rel_maximumErrorRate :: string

record observability_options =
  obs_metrics :: bool
  obs_logs :: bool
  obs_traces :: bool

record security_options =
  sec_requireSignedImage :: bool
  sec_runAsNonRoot :: bool
  sec_networkIsolation :: bool

record app_spec =
  app_owner :: string
  app_img :: app_image
  app_rt :: app_runtime
  app_res :: app_resources
  app_dep :: app_deployment
  app_rel :: reliability_targets
  app_obs :: observability_options
  app_sec :: security_options
  app_databaseRef :: "string option"

datatype app_phase =
  AppPhaseNone | AppPending | AppProgressing | AppHealthy | AppDegraded | AppRollingBack

record app_status =
  as_phase :: app_phase
  as_observedGeneration :: int
  as_activeVersion :: string
  as_candidateVersion :: string
  as_resolvedImageDigest :: string
  as_resolvedGitRevision :: string
  as_conditions :: "condition list"

record application = objmeta +
  aspec :: app_spec
  astatus :: app_status

subsection \<open>Database\<close>

datatype location = LocUTC | LocLocal | LocOther string

text \<open>A Go \<open>time.Time\<close>: an instant and the location it is displayed in.\<close>

record gotime =
  t_instant :: int
  t_loc :: location

record db_storage =
  st_size :: string
  st_class :: "string option"

record db_backups =
  bk_enabled :: bool
  bk_schedule :: string
  bk_retention :: string

record db_recovery =
  rec_sourceServerName :: string
  rec_targetTime :: "gotime option"

record db_spec =
  db_engine :: string
  db_instances :: int
  db_st :: db_storage
  db_bk :: db_backups
  db_rec :: "db_recovery option"

datatype db_phase =
  DbPhaseNone | DbPending | DbProvisioning | DbRestoring | DbHealthy | DbDegraded | DbBackingUp
| DbDeleting

record db_status =
  ds_phase :: db_phase
  ds_observedGeneration :: int
  ds_connectionSecretName :: string
  ds_backupServerName :: string
  ds_recoverySourceServerName :: string
  ds_lastSuccessfulBackup :: "int option"
  ds_resolvedGitRevision :: string
  ds_conditions :: "condition list"

record database = objmeta +
  dspec :: db_spec
  dstatus :: db_status

subsection \<open>Team\<close>

record team_quota =
  quota_cpu :: quantity
  quota_memory :: quantity

record team_spec =
  team_owners :: "string list"
  team_qt :: team_quota
  team_allowedRepositories :: "string list"

record team_status =
  ts_observedGeneration :: int
  ts_namespace :: string
  ts_conditions :: "condition list"

record team = objmeta +
  tspec :: team_spec
  tstatus :: team_status

definition SourceRevisionAnnotationKey :: string where
  "SourceRevisionAnnotationKey = ''steadystate.dev/source-revision''"

definition ForceDeleteAnnotationKey :: string where
  "ForceDeleteAnnotationKey = ''steadystate.dev/force-delete''"

definition DatabaseFinalizer :: string where
  "DatabaseFinalizer = ''steadystate.dev/database-finalizer''"

subsection \<open>Third-party functions\<close>

text \<open>
  The functions of other modules that the pure part of the program calls, each a parameter of the
  definitions that use it: \<open>resource.Quantity\<close> (\<open>ParseQuantity\<close>, \<open>MustParse\<close>, \<open>Cmp\<close>, \<open>Sign\<close>,
  \<open>String\<close>), the DNS label check of apimachinery, the cron parser, \<open>uuid.Parse\<close>, the condition helpers
  of \<open>apimachinery/pkg/api/meta\<close>, the finalizer helpers and \<open>SetControllerReference\<close> (owner, object) of
  \<open>controllerutil\<close>, and the field accessors and the converter of \<open>unstructured\<close>. The others are Go's own:
  \<open>parse_float\<close> is \<open>strconv.ParseFloat\<close> (\<open>None\<close> a syntax error; the infinity that comes with a range error), \<open>f_round\<close> the rounding to a float64 that every float operation ends
  with, \<open>format_float\<close> \<open>strconv.FormatFloat\<close>, \<open>format_rfc3339\<close>, \<open>format_nano\<close>, \<open>parse_nano\<close> and \<open>parse_rfc3339\<close> the
  formatting and parsing of times, \<open>go_quote\<close> the \<open>%q\<close> verb, \<open>json_string\<close> the JSON encoding of a string and
  \<open>url_hostname\<close> the host name that \<open>url.Parse\<close> finds.
\<close>

datatype float64 = Fin rat | NaN | PosInf | NegInf

record lib =
  q_parse :: "string \<Rightarrow> quantity option"
  q_must_parse :: "string \<Rightarrow> quantity"
  q_cmp :: "quantity \<Rightarrow> quantity \<Rightarrow> int"
  q_sign :: "quantity \<Rightarrow> int"
  q_string :: "quantity \<Rightarrow> string"
  dns1123_label_errors :: "string \<Rightarrow> string list"
  cron_error :: "string \<Rightarrow> string option"
  uuid_valid :: "string \<Rightarrow> bool"
  parse_float :: "string \<Rightarrow> float64 option"
  format_rfc3339 :: "gotime \<Rightarrow> string"
  go_quote :: "string \<Rightarrow> string"
  set_status_condition :: "condition list \<Rightarrow> condition \<Rightarrow> condition list"
  find_status_condition :: "condition list \<Rightarrow> string \<Rightarrow> condition option"
  remove_status_condition :: "condition list \<Rightarrow> string \<Rightarrow> condition list"
  contains_finalizer :: "string list \<Rightarrow> string \<Rightarrow> bool"
  add_finalizer :: "string list \<Rightarrow> string \<Rightarrow> string list"
  remove_finalizer :: "string list \<Rightarrow> string \<Rightarrow> string list"
  nested_field :: "json \<Rightarrow> string list \<Rightarrow> json option"
  set_nested_field :: "json \<Rightarrow> string list \<Rightarrow> json \<Rightarrow> json option"
  remove_nested_field :: "json \<Rightarrow> string list \<Rightarrow> json"
  to_unstructured :: "string \<Rightarrow> objmeta \<Rightarrow> rollout_spec \<Rightarrow> json"
  set_controller_reference :: "objmeta \<Rightarrow> objmeta \<Rightarrow> string + objmeta"
  f_round :: "rat \<Rightarrow> float64"
  format_float :: "float64 \<Rightarrow> string"
  json_string :: "string \<Rightarrow> string"
  url_hostname :: "string \<Rightarrow> string option"
  format_nano :: "int \<Rightarrow> string"
  parse_nano :: "string \<Rightarrow> int option"
  parse_rfc3339 :: "string \<Rightarrow> gotime option"

text \<open>
  The documented behaviour of the condition helpers: \<open>SetStatusCondition\<close> makes the condition of its
  type the new one (up to the transition time, kept when the status is unchanged) and leaves the
  other types alone; \<open>FindStatusCondition\<close> reads by type; \<open>RemoveStatusCondition\<close> removes one type.
\<close>

definition conditions_ok :: "lib \<Rightarrow> bool" where
  "conditions_ok L \<longleftrightarrow>
     (\<forall>cs ty. find_status_condition L cs ty = find_by ctype ty cs)
   \<and> (\<forall>cs c. \<exists>t. find_status_condition L (set_status_condition L cs c) (ctype c)
        = Some (c\<lparr>ctransition := t\<rparr>))
   \<and> (\<forall>cs c ty. ty \<noteq> ctype c \<longrightarrow>
        find_status_condition L (set_status_condition L cs c) ty = find_status_condition L cs ty)
   \<and> (\<forall>cs ty. find_status_condition L (remove_status_condition L cs ty) ty = None)
   \<and> (\<forall>cs ty ty'. ty' \<noteq> ty \<longrightarrow>
        find_status_condition L (remove_status_condition L cs ty) ty' = find_status_condition L cs ty')"

lemma conditions_okD:
  assumes "conditions_ok L"
  shows "find_status_condition L cs ty = find_by ctype ty cs"
    and "\<exists>t. find_status_condition L (set_status_condition L cs c) (ctype c) = Some (c\<lparr>ctransition := t\<rparr>)"
    and "ty \<noteq> ctype c \<Longrightarrow>
      find_status_condition L (set_status_condition L cs c) ty = find_status_condition L cs ty"
    and "find_status_condition L (remove_status_condition L cs ty) ty = None"
    and "ty' \<noteq> ty \<Longrightarrow>
      find_status_condition L (remove_status_condition L cs ty) ty' = find_status_condition L cs ty'"
  using assms unfolding conditions_ok_def by blast+

definition finalizers_ok :: "lib \<Rightarrow> bool" where
  "finalizers_ok L \<longleftrightarrow>
     (\<forall>fs f. contains_finalizer L fs f \<longleftrightarrow> f \<in> set fs)
   \<and> (\<forall>fs f. set (add_finalizer L fs f) = insert f (set fs))
   \<and> (\<forall>fs f. set (remove_finalizer L fs f) = set fs - {f})"

definition quantities_ok :: "lib \<Rightarrow> bool" where
  \<comment> \<open>\<open>Cmp\<close> is a total order on quantities.\<close>
  "quantities_ok L \<longleftrightarrow>
     (\<forall>a b. q_cmp L a b = - q_cmp L b a)
   \<and> (\<forall>a b c. q_cmp L a b \<le> 0 \<longrightarrow> q_cmp L b c \<le> 0 \<longrightarrow> q_cmp L a c \<le> 0)"

definition controller_ref_ok :: "lib \<Rightarrow> bool" where
  \<comment> \<open>\<open>SetControllerReference\<close> changes the owner only, and fails on an object with another controller.\<close>
  "controller_ref_ok L \<longleftrightarrow>
     (\<forall>owner m m'. set_controller_reference L owner m = Inr m' \<longrightarrow>
        m' = m\<lparr>ocontroller := Some (ouid owner)\<rparr>
        \<and> (ocontroller m = None \<or> ocontroller m = Some (ouid owner)))"

definition nested_ok :: "lib \<Rightarrow> bool" where
  \<comment> \<open>A field that was set is read back, a removed field is absent.\<close>
  "nested_ok L \<longleftrightarrow>
     (\<forall>j p v j'. p \<noteq> [] \<longrightarrow> set_nested_field L j p v = Some j' \<longrightarrow> nested_field L j' p = Some v)
   \<and> (\<forall>j p. p \<noteq> [] \<longrightarrow> nested_field L (remove_nested_field L j p) p = None)"

subsection \<open>A concrete library\<close>

text \<open>
  Concrete functions with the documented behaviour, which the witnesses run on: quantities are decimal
  numbers with an optional suffix \<open>m\<close>, \<open>Mi\<close> or \<open>Gi\<close>.
\<close>

fun demo_set_condition :: "condition list \<Rightarrow> condition \<Rightarrow> condition list" where
  "demo_set_condition [] c = [c]"
| "demo_set_condition (d # cs) c =
     (if ctype d = ctype c
      then c\<lparr>ctransition := (if cstatus d = cstatus c then ctransition d else ctransition c)\<rparr> # cs
      else d # demo_set_condition cs c)"

definition demo_find_condition :: "condition list \<Rightarrow> string \<Rightarrow> condition option" where
  "demo_find_condition cs ty = find_by ctype ty cs"

definition demo_remove_condition :: "condition list \<Rightarrow> string \<Rightarrow> condition list" where
  "demo_remove_condition cs ty = filter (\<lambda>c. ctype c \<noteq> ty) cs"

fun demo_digits :: "int \<Rightarrow> string \<Rightarrow> int \<times> string" where
  "demo_digits acc [] = (acc, [])"
| "demo_digits acc (c # s) =
     (let d = of_char c in
      if 48 \<le> d \<and> d \<le> 57 then demo_digits (10 * acc + (d - 48)) s else (acc, c # s))"

definition demo_quantity :: "string \<Rightarrow> int" where
  "demo_quantity s =
     (let (n, u) = demo_digits 0 s in
      if u = ''m'' then n
      else if u = ''Mi'' then n * 1000 * 1048576
      else if u = ''Gi'' then n * 1000 * 1073741824
      else n * 1000)"

fun demo_put :: "string \<Rightarrow> 'a \<Rightarrow> (string \<times> 'a) list \<Rightarrow> (string \<times> 'a) list" where
  "demo_put k v [] = [(k, v)]"
| "demo_put k v ((k', v') # es) = (if k' = k then (k, v) # es else (k', v') # demo_put k v es)"

definition demo_entries :: "json \<Rightarrow> (string \<times> json) list option" where
  "demo_entries j = (case j of JObj es \<Rightarrow> Some es | _ \<Rightarrow> None)"

fun demo_nested :: "json \<Rightarrow> string list \<Rightarrow> json option" where
  "demo_nested j [] = Some j"
| "demo_nested j (k # p) =
     (case demo_entries j of
        None \<Rightarrow> None
      | Some es \<Rightarrow> (case map_of es k of None \<Rightarrow> None | Some v \<Rightarrow> demo_nested v p))"

fun demo_set_nested :: "json \<Rightarrow> string list \<Rightarrow> json \<Rightarrow> json option" where
  "demo_set_nested j [] v = Some v"
| "demo_set_nested j (k # p) v =
     (case demo_entries j of
        None \<Rightarrow> None
      | Some es \<Rightarrow>
          (case demo_set_nested (case map_of es k of None \<Rightarrow> JObj [] | Some w \<Rightarrow> w) p v of
             None \<Rightarrow> None
           | Some w \<Rightarrow> Some (JObj (demo_put k w es))))"

fun demo_remove_nested :: "json \<Rightarrow> string list \<Rightarrow> json" where
  "demo_remove_nested j [] = j"
| "demo_remove_nested j [k] =
     (case demo_entries j of None \<Rightarrow> j | Some es \<Rightarrow> JObj (filter (\<lambda>e. fst e \<noteq> k) es))"
| "demo_remove_nested j (k # l # p) =
     (case demo_entries j of
        None \<Rightarrow> j
      | Some es \<Rightarrow>
          (case map_of es k of
             None \<Rightarrow> j
           | Some v \<Rightarrow> JObj (demo_put k (demo_remove_nested v (l # p)) es)))"

definition demo_lib :: lib where
  "demo_lib = \<lparr>
     q_parse = (\<lambda>s. if s = [] then None else Some s),
     q_must_parse = (\<lambda>s. s),
     q_cmp = (\<lambda>a b. sgn (demo_quantity a - demo_quantity b)),
     q_sign = (\<lambda>a. sgn (demo_quantity a)),
     q_string = (\<lambda>s. s),
     dns1123_label_errors = (\<lambda>s. if s = [] then [''must not be empty''] else []),
     cron_error = (\<lambda>_. None),
     uuid_valid = (\<lambda>s. length s = 36),
     parse_float = (\<lambda>s. if s = [] then None else Some (Fin (of_int (fst (demo_digits 0 s))))),
     format_rfc3339 = (\<lambda>_. []),
     go_quote = (\<lambda>s. [CHR 0x22] @ s @ [CHR 0x22]),
     set_status_condition = demo_set_condition,
     find_status_condition = demo_find_condition,
     remove_status_condition = demo_remove_condition,
     contains_finalizer = (\<lambda>fs f. f \<in> set fs),
     add_finalizer = (\<lambda>fs f. if f \<in> set fs then fs else fs @ [f]),
     remove_finalizer = (\<lambda>fs f. filter (\<lambda>g. g \<noteq> f) fs),
     nested_field = demo_nested,
     set_nested_field = demo_set_nested,
     remove_nested_field = demo_remove_nested,
     to_unstructured = (\<lambda>_ m s. JObj [(''spec'', JObj [(''strategy'', JObj [(''canary'', JObj
       (case ro_canary s of
          None \<Rightarrow> []
        | Some c \<Rightarrow> [(''stableService'', JStr (cn_stableService c)), (''steps'', JArr []),
            (''trafficRouting'', JObj [])]))])])]),
     set_controller_reference = (\<lambda>owner m.
       if ocontroller m = None \<or> ocontroller m = Some (ouid owner)
       then Inr (m\<lparr>ocontroller := Some (ouid owner)\<rparr>) else Inl ''already owned''),
     f_round = Fin,
     format_float = (\<lambda>_. ''0''),
     json_string = (\<lambda>s. [CHR 0x22] @ s @ [CHR 0x22]),
     url_hostname = (\<lambda>_. None),
     format_nano = show_int,
     parse_nano = parse_int64,
     parse_rfc3339 = (\<lambda>s. map_option (\<lambda>t. \<lparr>t_instant = t, t_loc = LocUTC\<rparr>) (parse_int64 s))\<rparr>"

lemma demo_set_find:
  "demo_find_condition (demo_set_condition cs c) ty =
     (if ty = ctype c
      then Some (c\<lparr>ctransition :=
        (case demo_find_condition cs ty of
           None \<Rightarrow> ctransition c
         | Some d \<Rightarrow> if cstatus d = cstatus c then ctransition d else ctransition c)\<rparr>)
      else demo_find_condition cs ty)"
  by (induction cs) (auto simp: demo_find_condition_def)

lemma demo_remove_find:
  "demo_find_condition (demo_remove_condition cs ty) ty' =
     (if ty' = ty then None else demo_find_condition cs ty')"
  by (induction cs) (auto simp: demo_find_condition_def demo_remove_condition_def)

lemma demo_conditions_ok [simp]: "conditions_ok demo_lib"
  by (auto simp: conditions_ok_def demo_lib_def demo_set_find demo_remove_find
      demo_find_condition_def [symmetric])

lemma demo_finalizers_ok [simp]: "finalizers_ok demo_lib"
  by (auto simp: finalizers_ok_def demo_lib_def)

lemma demo_controller_ref_ok [simp]: "controller_ref_ok demo_lib"
  by (auto simp: controller_ref_ok_def demo_lib_def split: if_splits)

lemma demo_put_map_of [simp]: "map_of (demo_put k v es) = (map_of es)(k \<mapsto> v)"
  by (induction es) (auto simp: fun_eq_iff)

lemma demo_set_nested_read: "demo_set_nested j p v = Some j' \<Longrightarrow> demo_nested j' p = Some v"
  by (induction j p v arbitrary: j' rule: demo_set_nested.induct)
    (auto simp: demo_entries_def split: option.splits)

lemma demo_remove_nested_read: "p \<noteq> [] \<Longrightarrow> demo_nested (demo_remove_nested j p) p = None"
proof (induction j p rule: demo_remove_nested.induct)
  case (2 j k)
  have "map_of (filter (\<lambda>e. fst e \<noteq> k) es) k = None" for es :: "(string \<times> json) list"
    by (auto simp: map_of_eq_None_iff)
  then show ?case by (auto simp: demo_entries_def split: json.splits)
next
  case (3 j k l p)
  show ?case
  proof (cases "demo_entries j")
    case (Some es)
    with 3 show ?thesis
      by (cases "map_of es k") (simp_all add: demo_entries_def)
  qed simp
qed simp

lemma demo_nested_ok [simp]: "nested_ok demo_lib"
  by (auto simp: nested_ok_def demo_lib_def demo_set_nested_read demo_remove_nested_read)

lemma demo_quantities_ok [simp]: "quantities_ok demo_lib"
  by (auto simp: quantities_ok_def demo_lib_def sgn_if split: if_splits)

end
