(* ===== verification/Sessions.thy ===== *)
theory Sessions
  imports Prelude "HOL-Library.State_Monad"
begin

section \<open>Programs over an external service\<close>

text \<open>
  A program of the repository that talks to something outside of it (the Kubernetes API, Git and GitHub, the clock) is a
  state-monad program over a session. The outside is a parameter that answers each call from the whole
  history of the session, so it may fail, change its mind, or be changed by others between any two calls; the trace
  lists the calls made and their answers. The types of calls and answers are parameters: \<open>Kube\<close> has those of the
  controllers, \<open>Ctl\<close> those of platformctl. \<open>wp\<close> is the weakest precondition of a program; the rules in
  \<open>run_simps\<close> run it symbolically.
\<close>

subsection \<open>Sessions\<close>

record ('c, 'r) session_of =
  ses_api :: "('c \<times> 'r) list \<Rightarrow> 'c \<Rightarrow> 'r"
  ses_trace :: "('c \<times> 'r) list"

type_synonym ('c, 'r, 'a) prog_of = "(('c, 'r) session_of, 'a) state"

abbreviation ret :: "'a \<Rightarrow> ('s, 'a) state" where "ret \<equiv> State_Monad.return"

definition answer :: "('c, 'r) session_of \<Rightarrow> 'c \<Rightarrow> 'r" where
  "answer s c = ses_api s (ses_trace s) c"

definition log_call :: "('c, 'r) session_of \<Rightarrow> 'c \<Rightarrow> ('c, 'r) session_of" where
  "log_call s c = s\<lparr>ses_trace := ses_trace s @ [(c, answer s c)]\<rparr>"

definition invoke :: "'c \<Rightarrow> ('c, 'r, 'r) prog_of" where
  "invoke c = State (\<lambda>s. (answer s c, log_call s c))"

definition run :: "(('c \<times> 'r) list \<Rightarrow> 'c \<Rightarrow> 'r) \<Rightarrow> ('c, 'r, 'a) prog_of \<Rightarrow> 'a \<times> ('c \<times> 'r) list" where
  "run api m = (let (a, s) = run_state m \<lparr>ses_api = api, ses_trace = []\<rparr> in (a, ses_trace s))"

subsection \<open>Weakest preconditions\<close>

definition wp :: "('c, 'r, 'a) prog_of \<Rightarrow> ('a \<Rightarrow> ('c, 'r) session_of \<Rightarrow> bool) \<Rightarrow> ('c, 'r) session_of \<Rightarrow> bool" where
  "wp m Q s = (case run_state m s of (a, s') \<Rightarrow> Q a s')"

lemma wp_return [run_simps]: "wp (ret a) Q s = Q a s"
  by (simp add: wp_def)

lemma wp_bind [run_simps]: "wp (m \<bind> f) Q s = wp m (\<lambda>a. wp (f a) Q) s"
  by (simp add: wp_def case_prod_beta)

lemma wp_invoke: "wp (invoke c) Q s = Q (answer s c) (log_call s c)"
  by (simp add: wp_def invoke_def)

lemma wp_if [run_simps]: "wp (if b then m else n) Q s = (if b then wp m Q s else wp n Q s)"
  by simp

lemma wp_case_sum [run_simps]:
  "wp (case x of Inl e \<Rightarrow> f e | Inr a \<Rightarrow> g a) Q s \<longleftrightarrow>
     (\<forall>e. x = Inl e \<longrightarrow> wp (f e) Q s) \<and> (\<forall>a. x = Inr a \<longrightarrow> wp (g a) Q s)"
  by (cases x) auto

lemma wp_case_option [run_simps]:
  "wp (case x of None \<Rightarrow> f | Some a \<Rightarrow> g a) Q s \<longleftrightarrow>
     (x = None \<longrightarrow> wp f Q s) \<and> (\<forall>a. x = Some a \<longrightarrow> wp (g a) Q s)"
  by (cases x) auto

lemma wp_case_prod [run_simps]: "wp (case p of (a, b) \<Rightarrow> f a b) Q s = wp (f (fst p) (snd p)) Q s"
  by (simp add: case_prod_beta)

lemma wp_mono: "wp m P s \<Longrightarrow> (\<And>a s'. P a s' \<Longrightarrow> Q a s') \<Longrightarrow> wp m Q s"
  by (auto simp: wp_def)

lemma wp_conj: "wp m (\<lambda>a s. P a s \<and> Q a s) s \<longleftrightarrow> wp m P s \<and> wp m Q s"
  by (auto simp: wp_def)

lemma wp_run: "wp m (\<lambda>a s. Q a (ses_trace s)) \<lparr>ses_api = api, ses_trace = []\<rparr> \<Longrightarrow>
  case run api m of (a, tr) \<Rightarrow> Q a tr"
  by (simp add: wp_def run_def case_prod_beta Let_def)

lemma trace_log_call: "ses_trace (log_call s c) = ses_trace s @ [(c, answer s c)]"
  by (simp add: log_call_def)

lemma mem_log_call [simp]:
  "e \<in> set (ses_trace (log_call s c)) \<longleftrightarrow> e = (c, answer s c) \<or> e \<in> set (ses_trace s)"
  by (auto simp: trace_log_call)

lemma api_log_call [simp]: "ses_api (log_call s c) = ses_api s"
  by (simp add: log_call_def)

subsection \<open>Calls a program may make\<close>

text \<open>
  \<open>makes C m\<close>: in every run of \<open>m\<close>, from every session, every new call and its answer satisfy \<open>C\<close>, and the old trace
  stays. It is closed under the combinators, so it is proved along the text of a program.
\<close>

definition appends :: "('c, 'r) session_of \<Rightarrow> ('c, 'r) session_of \<Rightarrow> ('c \<times> 'r) list \<Rightarrow> bool" where
  "appends s s' evs \<longleftrightarrow> s' = s\<lparr>ses_trace := ses_trace s @ evs\<rparr>"

definition makes :: "('c \<Rightarrow> 'r \<Rightarrow> bool) \<Rightarrow> ('c, 'r, 'a) prog_of \<Rightarrow> bool" where
  "makes C m \<longleftrightarrow> (\<forall>s. \<exists>evs. appends s (snd (run_state m s)) evs \<and> (\<forall>(c, r) \<in> set evs. C c r))"

lemma appends_refl [simp]: "appends s s []"
  by (simp add: appends_def)

lemma appends_trans: "appends s s' e \<Longrightarrow> appends s' s'' f \<Longrightarrow> appends s s'' (e @ f)"
  by (simp add: appends_def)

lemma makes_return [intro!]: "makes C (ret a)"
  unfolding makes_def by (intro allI exI [of _ "[]"]) simp

lemma makes_bind [intro]:
  assumes "makes C m" "\<And>a. makes C (f a)"
  shows "makes C (m \<bind> f)"
  unfolding makes_def
proof
  fix s
  obtain a s' where m: "run_state m s = (a, s')" by fastforce
  obtain e where e: "appends s s' e" "\<forall>(c, r) \<in> set e. C c r"
    using assms(1) m unfolding makes_def by (metis snd_conv)
  obtain g where g: "appends s' (snd (run_state (f a) s')) g" "\<forall>(c, r) \<in> set g. C c r"
    using assms(2) unfolding makes_def by blast
  show "\<exists>evs. appends s (snd (run_state (m \<bind> f) s)) evs \<and> (\<forall>(c, r) \<in> set evs. C c r)"
    using appends_trans [OF e(1) g(1)] e(2) g(2) m by (intro exI [of _ "e @ g"]) auto
qed

lemma makes_invoke: "(\<And>r. C c r) \<Longrightarrow> makes C (invoke c)"
  unfolding makes_def
  by (intro allI exI [of _ "[(c, _)]"]) (auto simp: invoke_def appends_def log_call_def)

lemma makes_if [intro]: "makes C m \<Longrightarrow> makes C n \<Longrightarrow> makes C (if b then m else n)"
  by simp

lemma makes_run:
  assumes "makes C m" "(c, r) \<in> set (snd (run api m))"
  shows "C c r"
proof -
  obtain evs where "appends \<lparr>ses_api = api, ses_trace = []\<rparr>
      (snd (run_state m \<lparr>ses_api = api, ses_trace = []\<rparr>)) evs" "\<forall>(c, r) \<in> set evs. C c r"
    using assms(1) unfolding makes_def by blast
  with assms(2) show ?thesis by (auto simp: run_def appends_def case_prod_beta)
qed

subsection \<open>Calls guarded by the history\<close>

text \<open>
  \<open>guarded P tr\<close>: each call of the trace satisfies \<open>P\<close> of the calls and answers before it. This is how an
  ordering of operations is stated: a deletion only after the answers that permit it.
\<close>

definition guarded :: "(('c \<times> 'r) list \<Rightarrow> 'c \<Rightarrow> bool) \<Rightarrow> ('c \<times> 'r) list \<Rightarrow> bool" where
  "guarded P tr \<longleftrightarrow> (\<forall>pre c r post. tr = pre @ (c, r) # post \<longrightarrow> P pre c)"

lemma guarded_Nil [simp]: "guarded P []"
  by (simp add: guarded_def)

lemma guarded_snoc [simp]: "guarded P (tr @ [(c, r)]) \<longleftrightarrow> guarded P tr \<and> P tr c"
proof
  assume g: "guarded P (tr @ [(c, r)])"
  have "P pre d" if "tr = pre @ (d, q) # post" for pre d q post
    using g that unfolding guarded_def by (metis append_Cons append_assoc)
  then show "guarded P tr \<and> P tr c"
    using g unfolding guarded_def by (metis append_Nil2)
next
  assume g: "guarded P tr \<and> P tr c"
  show "guarded P (tr @ [(c, r)])"
    unfolding guarded_def
  proof (intro allI impI)
    fix pre d q post
    assume e: "tr @ [(c, r)] = pre @ (d, q) # post"
    show "P pre d"
    proof (cases post rule: rev_cases)
      case Nil
      with e g show ?thesis by simp
    next
      case (snoc us u)
      with e have "tr = pre @ (d, q) # us" by simp
      with g show ?thesis unfolding guarded_def by blast
    qed
  qed
qed

lemma guarded_log_call [simp]:
  "guarded P (ses_trace (log_call s c)) \<longleftrightarrow> guarded P (ses_trace s) \<and> P (ses_trace s) c"
  by (simp add: trace_log_call)

lemma guarded_append:
  "(\<And>tr c r. (c, r) \<in> set evs \<Longrightarrow> P tr c) \<Longrightarrow> guarded P tr \<Longrightarrow> guarded P (tr @ evs)"
proof (induction evs rule: rev_induct)
  case (snoc x xs)
  obtain c r where x: "x = (c, r)" by fastforce
  have "guarded P (tr @ xs)"
    by (rule snoc.IH) (use snoc.prems in auto)
  moreover have "P (tr @ xs) c" using snoc.prems(1) [of c r] by (simp add: x)
  ultimately show ?case by (simp add: x flip: append_assoc)
qed simp

lemma makes_appends:
  assumes "makes C m"
  obtains a evs where "run_state m s = (a, s\<lparr>ses_trace := ses_trace s @ evs\<rparr>)"
    and "\<And>c r. (c, r) \<in> set evs \<Longrightarrow> C c r"
proof -
  obtain evs where e: "appends s (snd (run_state m s)) evs" "\<forall>(c, r) \<in> set evs. C c r"
    using assms unfolding makes_def by blast
  obtain a s' where m: "run_state m s = (a, s')" by fastforce
  show thesis
    using that [of a evs] e m by (auto simp: appends_def)
qed

text \<open>Sessions only grow: the API stays, the trace gets longer.\<close>

definition extends :: "('c, 'r) session_of \<Rightarrow> ('c, 'r) session_of \<Rightarrow> bool" where
  "extends s s' \<longleftrightarrow> (\<exists>evs. appends s s' evs)"

lemma extends_refl [simp, intro!]: "extends s s"
  unfolding extends_def by (intro exI [of _ "[]"]) simp

lemma extends_trans [trans]: "extends s s' \<Longrightarrow> extends s' s'' \<Longrightarrow> extends s s''"
  unfolding extends_def by (metis appends_trans)

lemma extends_log [simp, intro!]: "extends s (log_call s c)"
  unfolding extends_def by (intro exI [of _ "[(c, answer s c)]"]) (simp add: appends_def log_call_def)

lemma extends_log_trans: "extends s s' \<Longrightarrow> extends s (log_call s' c)"
  using extends_trans extends_log by blast

lemma extends_api: "extends s s' \<Longrightarrow> ses_api s' = ses_api s"
  by (auto simp: extends_def appends_def)

lemma extends_trace: "extends s s' \<Longrightarrow> set (ses_trace s) \<subseteq> set (ses_trace s')"
  by (auto simp: extends_def appends_def)

lemma extends_mem: "extends s s' \<Longrightarrow> e \<in> set (ses_trace s) \<Longrightarrow> e \<in> set (ses_trace s')"
  using extends_trace by blast

text \<open>A program that makes no call of interest is skipped: it only lengthens the trace.\<close>

lemma wp_skip:
  assumes "makes C m" "\<And>c r tr. C c r \<Longrightarrow> P tr c" "guarded P (ses_trace s)"
    and "\<And>a s'. guarded P (ses_trace s') \<Longrightarrow> extends s s' \<Longrightarrow> Q a s'"
  shows "wp m Q s"
proof -
  obtain a evs where m: "run_state m s = (a, s\<lparr>ses_trace := ses_trace s @ evs\<rparr>)"
    and C: "\<And>c r. (c, r) \<in> set evs \<Longrightarrow> C c r"
    using makes_appends [OF assms(1)] by blast
  have "guarded P (ses_trace s @ evs)"
    using guarded_append [of evs P "ses_trace s"] C assms(2,3) by blast
  moreover have "extends s (s\<lparr>ses_trace := ses_trace s @ evs\<rparr>)"
    by (auto simp: extends_def appends_def)
  ultimately show ?thesis
    using assms(4) [of "s\<lparr>ses_trace := ses_trace s @ evs\<rparr>" a] m by (simp add: wp_def)
qed

lemma wp_skip_from:
  assumes "makes (\<lambda>c r. \<forall>evs. P (ses_trace s @ evs) c) m" "guarded P (ses_trace s)"
    and "\<And>a s'. guarded P (ses_trace s') \<Longrightarrow> extends s s' \<Longrightarrow> Q a s'"
  shows "wp m Q s"
proof -
  obtain a evs where m: "run_state m s = (a, s\<lparr>ses_trace := ses_trace s @ evs\<rparr>)"
    and C: "\<And>c r. (c, r) \<in> set evs \<Longrightarrow> \<forall>e. P (ses_trace s @ e) c"
    using makes_appends [OF assms(1)] by blast
  have "guarded P (ses_trace s @ evs)"
    using C
  proof (induction evs rule: rev_induct)
    case (snoc x xs)
    then have "guarded P (ses_trace s @ xs)" by (metis Un_iff set_append)
    moreover have "P (ses_trace s @ xs) (fst x)" using snoc.prems [of "fst x" "snd x"] by simp
    ultimately show ?case
      by (cases x) (simp flip: append_assoc)
  qed (simp add: assms(2))
  moreover have "extends s (s\<lparr>ses_trace := ses_trace s @ evs\<rparr>)"
    by (auto simp: extends_def appends_def)
  ultimately show ?thesis
    using assms(3) [of "s\<lparr>ses_trace := ses_trace s @ evs\<rparr>" a] m by (simp add: wp_def)
qed

lemma guarded_run:
  "wp m (\<lambda>_ s. guarded P (ses_trace s)) \<lparr>ses_api = api, ses_trace = []\<rparr> \<Longrightarrow>
   guarded P (snd (run api m))"
  using wp_run [of m "\<lambda>_. guarded P" api] by (simp add: case_prod_beta)

lemma guardedD: "guarded P tr \<Longrightarrow> tr = pre @ (c, r) # post \<Longrightarrow> P pre c"
  by (auto simp: guarded_def)

end
