(* ===== verification/Kube.thy ===== *)
theory Kube
  imports Api_Types Sessions
begin

section \<open>Programs that talk to the Kubernetes API\<close>

text \<open>
  A reconcile pass is a state-monad program over a session: the API server, which is not part of the
  repository, is a parameter that answers each call from the whole history of the session, so
  it may fail, change its mind, or be changed by others between any two calls; the trace lists
  the calls made and their answers. An event recorder is always present; its calls are in the trace too.

  A Go error is a reason, which \<open>errors.As\<close>, \<open>IsNotFound\<close> and the like see through any wrapping, and a
  text. \<open>controllerutil.CreateOrUpdate\<close> appears as its two sides that the caller sees: the object that the
  mutate callback is run on (\<open>UpsertRead\<close>, answered by an error when the callback is not run), and the outcome of
  writing what the callback made of it (\<open>UpsertWrite\<close>). \<open>wp\<close> is the weakest precondition of a program; the
  rules in \<open>run_simps\<close> run it symbolically.
\<close>

subsection \<open>Objects\<close>

datatype body =
  BNamespace
| BResourceQuota strmap
| BLimitRange "limit_item list"
| BServiceAccount "bool option"
| BClusterRole "policy_rule list"
| BRoleBinding "subject list" role_ref
| BNetworkPolicy np_spec
| BConfigMap strmap
| BSecret string strmap
| BService service_spec
| BDeployment deployment_spec deployment_status
| BReplicaSet "wcondition list"
| BPod "container list" pod_status
| BHTTPRoute route_spec "route_parent list"
| BRollout rollout_spec rollout_status
| BAnalysisTemplate analysis_spec
| BAnalysisRun run_status
| BApplication app_spec app_status
| BDatabase db_spec db_status
| BTeam team_spec team_status
| BUnstructured gvk json

datatype kind =
  KNamespace | KResourceQuota | KLimitRange | KServiceAccount | KClusterRole | KRoleBinding
| KNetworkPolicy | KConfigMap | KSecret | KService | KDeployment | KReplicaSet | KPod | KHTTPRoute
| KRollout | KAnalysisTemplate | KAnalysisRun | KApplication | KDatabase | KTeam
| KUnstructured gvk

fun kind_of :: "body \<Rightarrow> kind" where
  "kind_of BNamespace = KNamespace"
| "kind_of (BResourceQuota _) = KResourceQuota"
| "kind_of (BLimitRange _) = KLimitRange"
| "kind_of (BServiceAccount _) = KServiceAccount"
| "kind_of (BClusterRole _) = KClusterRole"
| "kind_of (BRoleBinding _ _) = KRoleBinding"
| "kind_of (BNetworkPolicy _) = KNetworkPolicy"
| "kind_of (BConfigMap _) = KConfigMap"
| "kind_of (BSecret _ _) = KSecret"
| "kind_of (BService _) = KService"
| "kind_of (BDeployment _ _) = KDeployment"
| "kind_of (BReplicaSet _) = KReplicaSet"
| "kind_of (BPod _ _) = KPod"
| "kind_of (BHTTPRoute _ _) = KHTTPRoute"
| "kind_of (BRollout _ _) = KRollout"
| "kind_of (BAnalysisTemplate _) = KAnalysisTemplate"
| "kind_of (BAnalysisRun _) = KAnalysisRun"
| "kind_of (BApplication _ _) = KApplication"
| "kind_of (BDatabase _ _) = KDatabase"
| "kind_of (BTeam _ _) = KTeam"
| "kind_of (BUnstructured g _) = KUnstructured g"

record kobject = objmeta +
  kbody :: body

definition okind :: "kobject \<Rightarrow> kind" where "okind obj = kind_of (kbody obj)"

type_synonym nsname = "string \<times> string"   \<comment> \<open>namespace and name\<close>

definition okey :: "'a objmeta_scheme \<Rightarrow> nsname" where
  "okey obj = (onamespace obj, oname obj)"

definition with_body :: "objmeta \<Rightarrow> body \<Rightarrow> kobject" where
  "with_body m b = objmeta.extend m \<lparr>kbody = b\<rparr>"

lemma with_body_simps [simp]:
  "kbody (with_body m b) = b" "okind (with_body m b) = kind_of b"
  "oname (with_body m b) = oname m" "onamespace (with_body m b) = onamespace m"
  "ouid (with_body m b) = ouid m" "olabels (with_body m b) = olabels m"
  "oannotations (with_body m b) = oannotations m" "ogeneration (with_body m b) = ogeneration m"
  "ofinalizers (with_body m b) = ofinalizers m" "odeleting (with_body m b) = odeleting m"
  "ocreated (with_body m b) = ocreated m" "ocontroller (with_body m b) = ocontroller m"
  by (simp_all add: with_body_def okind_def objmeta.defs)

lemma okey_kbody [simp]: "okey (obj\<lparr>kbody := b\<rparr>) = okey obj"
  by (simp add: okey_def)

lemma okey_with_body [simp]: "okey (with_body m b) = (onamespace m, oname m)"
  by (simp add: okey_def)

text \<open>The typed resources as objects, and the decoding of an answer into them.\<close>

definition team_object :: "team \<Rightarrow> kobject" where
  "team_object t = with_body (objmeta.truncate t) (BTeam (tspec t) (tstatus t))"

definition object_team :: "kobject \<Rightarrow> team option" where
  "object_team obj = (case kbody obj of
     BTeam sp st \<Rightarrow> Some (objmeta.extend (objmeta.truncate obj) \<lparr>tspec = sp, tstatus = st\<rparr>)
   | _ \<Rightarrow> None)"

definition application_object :: "application \<Rightarrow> kobject" where
  "application_object a = with_body (objmeta.truncate a) (BApplication (aspec a) (astatus a))"

definition object_application :: "kobject \<Rightarrow> application option" where
  "object_application obj = (case kbody obj of
     BApplication sp st \<Rightarrow> Some (objmeta.extend (objmeta.truncate obj) \<lparr>aspec = sp, astatus = st\<rparr>)
   | _ \<Rightarrow> None)"

definition database_object :: "database \<Rightarrow> kobject" where
  "database_object d = with_body (objmeta.truncate d) (BDatabase (dspec d) (dstatus d))"

definition object_database :: "kobject \<Rightarrow> database option" where
  "object_database obj = (case kbody obj of
     BDatabase sp st \<Rightarrow> Some (objmeta.extend (objmeta.truncate obj) \<lparr>dspec = sp, dstatus = st\<rparr>)
   | _ \<Rightarrow> None)"

lemmas object_defs =
  team_object_def object_team_def application_object_def object_application_def
  database_object_def object_database_def

lemma decode_encode [simp]:
  "object_team (team_object t) = Some t"
  "object_application (application_object a) = Some a"
  "object_database (database_object d) = Some d"
  by (simp_all add: object_defs with_body_def objmeta.defs)

subsection \<open>Errors, calls and answers\<close>

datatype error_reason =
  NotFound | Conflict | NoMatch | OwnershipConflict | OtherReason

record go_error =
  err_reason :: error_reason
  err_text :: string

definition plain_error :: "string \<Rightarrow> go_error" where
  "plain_error s = \<lparr>err_reason = OtherReason, err_text = s\<rparr>"

text \<open>\<open>fmt.Errorf("prefix%wsuffix", err)\<close>\<close>

definition wrap_error :: "string \<Rightarrow> go_error \<Rightarrow> string \<Rightarrow> go_error" where
  "wrap_error p e s = e\<lparr>err_text := p @ err_text e @ s\<rparr>"

lemma wrap_error_reason [simp]: "err_reason (wrap_error p e s) = err_reason e"
  by (simp add: wrap_error_def)

definition ignore_not_found :: "go_error \<Rightarrow> go_error option" where
  "ignore_not_found e = (if err_reason e = NotFound then None else Some e)"

datatype op_result = OpNone | OpCreated | OpUpdated | OpOther

datatype call =
  Get kind nsname
| ListObjects kind "string option" strmap
| UpsertRead kobject
| UpsertWrite kobject
| Patch kobject kobject
| StatusPatch kobject kobject
| Delete kind nsname
| Event kind nsname string string string
| Now
| SetGauge string nsname rat
| DropGauge string nsname

datatype resp =
  ROk | RErr go_error | RObj kobject | RItems "kobject list" | RWritten op_result kobject | RTime int

type_synonym trace = "(call \<times> resp) list"

type_synonym session = "(call, resp) session_of"

type_synonym 'a prog = "(call, resp, 'a) prog_of"

subsection \<open>The client\<close>

text \<open>An answer of another type than the call's is a decoding error, as it is for the Go client.\<close>

definition undecodable :: go_error where
  "undecodable = plain_error ''unexpected object type''"

definition object_of :: "kind \<Rightarrow> resp \<Rightarrow> go_error + kobject" where
  "object_of k r = (case r of
     RObj obj \<Rightarrow> if okind obj = k then Inr obj else Inl undecodable
   | RErr e \<Rightarrow> Inl e
   | _ \<Rightarrow> Inl undecodable)"

definition client_get :: "kind \<Rightarrow> nsname \<Rightarrow> (go_error + kobject) prog" where
  "client_get k key = do { r \<leftarrow> invoke (Get k key); ret (object_of k r) }"

definition items_of :: "kind \<Rightarrow> resp \<Rightarrow> go_error + kobject list" where
  "items_of k r = (case r of
     RItems items \<Rightarrow> if list_all (\<lambda>obj. okind obj = k) items then Inr items else Inl undecodable
   | RErr e \<Rightarrow> Inl e
   | _ \<Rightarrow> Inl undecodable)"

definition client_list :: "kind \<Rightarrow> string option \<Rightarrow> strmap \<Rightarrow> (go_error + kobject list) prog" where
  "client_list k ns ls = do { r \<leftarrow> invoke (ListObjects k ns ls); ret (items_of k r) }"

definition error_of :: "resp \<Rightarrow> go_error option" where
  "error_of r = (case r of RErr e \<Rightarrow> Some e | _ \<Rightarrow> None)"

definition client_delete :: "kind \<Rightarrow> nsname \<Rightarrow> go_error option prog" where
  "client_delete k key = do { r \<leftarrow> invoke (Delete k key); ret (error_of r) }"

text \<open>A patch writes the server's answer back into the object.\<close>

definition client_patch :: "kobject \<Rightarrow> kobject \<Rightarrow> (go_error + kobject) prog" where
  "client_patch old obj = do { r \<leftarrow> invoke (Patch old obj); ret (object_of (okind obj) r) }"

definition client_status_patch :: "kobject \<Rightarrow> kobject \<Rightarrow> (go_error + kobject) prog" where
  "client_status_patch old obj = do {
     r \<leftarrow> invoke (StatusPatch old obj); ret (object_of (okind obj) r) }"

definition written_of :: "kind \<Rightarrow> resp \<Rightarrow> go_error + op_result \<times> kobject" where
  "written_of k r = (case r of
     RWritten op written \<Rightarrow> if okind written = k then Inr (op, written) else Inl undecodable
   | RErr e \<Rightarrow> Inl e
   | _ \<Rightarrow> Inl undecodable)"

definition create_or_update ::
    "kobject \<Rightarrow> (kobject \<Rightarrow> go_error + kobject) \<Rightarrow> (go_error + op_result \<times> kobject) prog" where
  "create_or_update obj mutate = do {
     r \<leftarrow> invoke (UpsertRead obj);
     case object_of (okind obj) r of
       Inl e \<Rightarrow> ret (Inl e)
     | Inr current \<Rightarrow>
         (case mutate current of
            Inl e \<Rightarrow> ret (Inl e)
          | Inr wanted \<Rightarrow> do {
              w \<leftarrow> invoke (UpsertWrite wanted);
              ret (written_of (okind obj) w) }) }"

definition send_event :: "kobject \<Rightarrow> string \<Rightarrow> string \<Rightarrow> string \<Rightarrow> unit prog" where
  "send_event obj eventType reason message = do {
     _ \<leftarrow> invoke (Event (okind obj) (okey obj) eventType reason message); ret () }"

definition EventTypeNormal :: string where "EventTypeNormal = ''Normal''"
definition EventTypeWarning :: string where "EventTypeWarning = ''Warning''"

definition current_time :: "int prog" where
  "current_time = do { r \<leftarrow> invoke Now; ret (case r of RTime t \<Rightarrow> t | _ \<Rightarrow> 0) }"

text \<open>
  \<open>retry.RetryOnConflict\<close>: the action is run again while it fails with a conflict, \<open>n\<close> times at most; what the
  last run returned is returned.
\<close>

fun retry_on_conflict :: "nat \<Rightarrow> (go_error + 'a) prog \<Rightarrow> (go_error + 'a) prog" where
  "retry_on_conflict 0 act = act"
| "retry_on_conflict (Suc n) act = do {
     r \<leftarrow> act;
     case r of
       Inl e \<Rightarrow> if err_reason e = Conflict then retry_on_conflict n act else ret (Inl e)
     | Inr a \<Rightarrow> ret (Inr a) }"

subsection \<open>Running the client\<close>

lemma wp_client [run_simps]:
  "wp (client_get k key) Q s = Q (object_of k (answer s (Get k key))) (log_call s (Get k key))"
  "wp (client_list k ns ls) Q2 s =
     Q2 (items_of k (answer s (ListObjects k ns ls))) (log_call s (ListObjects k ns ls))"
  "wp (client_delete k key) Q3 s = Q3 (error_of (answer s (Delete k key))) (log_call s (Delete k key))"
  "wp (client_patch b obj) Q s =
     Q (object_of (okind obj) (answer s (Patch b obj))) (log_call s (Patch b obj))"
  "wp (client_status_patch b obj) Q s =
     Q (object_of (okind obj) (answer s (StatusPatch b obj))) (log_call s (StatusPatch b obj))"
  "wp (send_event obj ty re me) Q' s = Q' () (log_call s (Event (okind obj) (okey obj) ty re me))"
  by (simp_all add: wp_bind wp_return wp_invoke client_get_def client_list_def client_delete_def
      client_patch_def client_status_patch_def send_event_def)

lemma object_of_Inr: "object_of k r = Inr obj \<longleftrightarrow> r = RObj obj \<and> okind obj = k"
  by (auto simp: object_of_def split: resp.split)

lemma object_of_Inl: "object_of k r = Inl e \<longleftrightarrow>
    r = RErr e \<or> (e = undecodable \<and> (\<forall>e. r \<noteq> RErr e) \<and> (\<forall>obj. r = RObj obj \<longrightarrow> okind obj \<noteq> k))"
  by (auto simp: object_of_def split: resp.split)

lemma undecodable_reason [simp]: "err_reason undecodable = OtherReason"
  by (simp add: undecodable_def plain_error_def)

lemma object_of_error: "object_of k r = Inl e \<Longrightarrow> err_reason e \<noteq> OtherReason \<Longrightarrow> r = RErr e"
  by (auto simp: object_of_Inl)

lemma items_of_Inr: "items_of k r = Inr items \<Longrightarrow> r = RItems items \<and> (\<forall>obj \<in> set items. okind obj = k)"
  by (auto simp: items_of_def list_all_iff split: resp.splits if_splits)

lemma wp_create_or_update [run_simps]:
  "wp (create_or_update obj mutate) Q s \<longleftrightarrow>
     (let s1 = log_call s (UpsertRead obj) in
      (\<forall>e. object_of (okind obj) (answer s (UpsertRead obj)) = Inl e \<longrightarrow> Q (Inl e) s1)
    \<and> (\<forall>cur. object_of (okind obj) (answer s (UpsertRead obj)) = Inr cur \<longrightarrow>
         (\<forall>e. mutate cur = Inl e \<longrightarrow> Q (Inl e) s1)
       \<and> (\<forall>w. mutate cur = Inr w \<longrightarrow>
            Q (written_of (okind obj) (answer s1 (UpsertWrite w))) (log_call s1 (UpsertWrite w)))))"
  by (auto simp: create_or_update_def wp_bind wp_invoke wp_return wp_case_sum Let_def)

lemma written_of_Inr: "written_of k r = Inr (op, res) \<Longrightarrow> r = RWritten op res"
  by (auto simp: written_of_def split: resp.splits if_splits)

lemma makes_retry: "makes C m \<Longrightarrow> makes C (retry_on_conflict n m)"
  by (induction n) (auto intro!: makes_bind split: sum.split)

text \<open>
  An API that answers a read or an upsert of one object with an object of that name, as Kubernetes does.
\<close>

definition honest_api :: "((call \<times> resp) list \<Rightarrow> call \<Rightarrow> resp) \<Rightarrow> bool" where
  "honest_api api \<longleftrightarrow>
     (\<forall>tr k key obj. api tr (Get k key) = RObj obj \<longrightarrow> okey obj = key)
   \<and> (\<forall>tr o1 o2. api tr (UpsertRead o1) = RObj o2 \<longrightarrow> okey o2 = okey o1)"

text \<open>The calls of the client's operations.\<close>

lemma makes_client:
  "(\<And>r. C (Get k key) r) \<Longrightarrow> makes C (client_get k key)"
  "(\<And>r. C (ListObjects k ns ls) r) \<Longrightarrow> makes C (client_list k ns ls)"
  "(\<And>r. C (Delete k key) r) \<Longrightarrow> makes C (client_delete k key)"
  "(\<And>r. C (Patch b obj) r) \<Longrightarrow> makes C (client_patch b obj)"
  "(\<And>r. C (StatusPatch b obj) r) \<Longrightarrow> makes C (client_status_patch b obj)"
  "(\<And>r. C (Event (okind obj) (okey obj) ty re me) r) \<Longrightarrow> makes C (send_event obj ty re me)"
  "(\<And>r. C Now r) \<Longrightarrow> makes C current_time"
  by (auto simp: client_get_def client_list_def client_delete_def client_patch_def
      client_status_patch_def send_event_def current_time_def intro!: makes_bind makes_invoke)

lemma makes_create_or_update:
  assumes "\<And>r. C (UpsertRead obj) r"
    and "\<And>cur w r. okind cur = okind obj \<Longrightarrow> mutate cur = Inr w \<Longrightarrow> C (UpsertWrite w) r"
  shows "makes C (create_or_update obj mutate)"
  unfolding create_or_update_def
proof (rule makes_bind)
  show "makes C (invoke (UpsertRead obj))" by (rule makes_invoke) (rule assms(1))
next
  fix r
  show "makes C (case object_of (okind obj) r of
       Inl e \<Rightarrow> ret (Inl e)
     | Inr current \<Rightarrow>
         (case mutate current of
            Inl e \<Rightarrow> ret (Inl e)
          | Inr wanted \<Rightarrow> do {
              w \<leftarrow> invoke (UpsertWrite wanted);
              ret (written_of (okind obj) w) }))"
  proof (cases "object_of (okind obj) r")
    case (Inr cur)
    then have "okind cur = okind obj" by (auto simp: object_of_def split: resp.splits if_splits)
    with Inr assms(2) show ?thesis by (auto intro!: makes_bind makes_invoke split: sum.split)
  qed auto
qed

end

