(* ===== verification/Go_Sha256.thy ===== *)
theory Go_Sha256
  imports Go_Strings "HOL-Library.Word"
begin

section \<open>SHA-256\<close>

text \<open>
  Go's \<open>crypto/sha256.Sum256\<close> printed with \<open>%x\<close>, which the generated object names and the render
  digest use: the compression function on 32-bit words over padded 64-byte blocks, kept executable.
  The fact the names rest on is that the digest is always 64 lower-case hexadecimal characters.
\<close>

unbundle bit_operations_syntax

type_synonym w32 = "32 word"

definition sha_k :: "w32 list" where
  "sha_k = [
    1116352408, 1899447441, 3049323471, 3921009573, 961987163, 1508970993, 2453635748,
    2870763221, 3624381080, 310598401, 607225278, 1426881987, 1925078388, 2162078206,
    2614888103, 3248222580, 3835390401, 4022224774, 264347078, 604807628, 770255983,
    1249150122, 1555081692, 1996064986, 2554220882, 2821834349, 2952996808, 3210313671,
    3336571891, 3584528711, 113926993, 338241895, 666307205, 773529912, 1294757372,
    1396182291, 1695183700, 1986661051, 2177026350, 2456956037, 2730485921, 2820302411,
    3259730800, 3345764771, 3516065817, 3600352804, 4094571909, 275423344, 430227734,
    506948616, 659060556, 883997877, 958139571, 1322822218, 1537002063, 1747873779,
    1955562222, 2024104815, 2227730452, 2361852424, 2428436474, 2756734187, 3204031479,
    3329325298]"

definition sha_h0 :: "w32 list" where
  "sha_h0 = [
    1779033703, 3144134277, 1013904242, 2773480762, 1359893119, 2600822924, 528734635,
    1541459225]"

definition rotr :: "nat \<Rightarrow> w32 \<Rightarrow> w32" where
  "rotr n x = (drop_bit n x) OR (push_bit (32 - n) x)"

definition word_of_bytes :: "string \<Rightarrow> w32" where
  "word_of_bytes bs = foldl (\<lambda>acc c. push_bit 8 acc + word_of_nat (code c)) 0 bs"

text \<open>The message followed by 0x80, zeros and its bit length in eight bytes.\<close>

definition be64 :: "nat \<Rightarrow> string" where
  "be64 n = map (\<lambda>i. char_of ((int n div 256 ^ (7 - i)) mod 256)) [0..<8]"

definition sha_pad :: "string \<Rightarrow> string" where
  "sha_pad m =
     m @ [char_of (128 :: nat)] @ replicate ((119 - length m mod 64) mod 64) (char_of (0 :: nat))
       @ be64 (8 * length m)"

fun chunks :: "nat \<Rightarrow> nat \<Rightarrow> 'a list \<Rightarrow> 'a list list" where
  "chunks 0 k xs = []"
| "chunks (Suc n) k xs = take k xs # chunks n k (drop k xs)"

text \<open>The message schedule, newest word first.\<close>

fun sha_schedule :: "nat \<Rightarrow> w32 list \<Rightarrow> w32 list" where
  "sha_schedule 0 ws = ws"
| "sha_schedule (Suc n) ws =
     (let a = ws ! 14; b = ws ! 1;
          s0 = rotr 7 a XOR rotr 18 a XOR drop_bit 3 a;
          s1 = rotr 17 b XOR rotr 19 b XOR drop_bit 10 b in
      sha_schedule n ((ws ! 15 + s0 + ws ! 6 + s1) # ws))"

fun sha_round :: "w32 list \<Rightarrow> w32 \<times> w32 \<Rightarrow> w32 list" where
  "sha_round [a, b, c, d, e, f, g, h] (k, w) =
     (let s1 = rotr 6 e XOR rotr 11 e XOR rotr 25 e;
          ch = (e AND f) XOR ((NOT e) AND g);
          t1 = h + s1 + ch + k + w;
          s0 = rotr 2 a XOR rotr 13 a XOR rotr 22 a;
          maj = (a AND b) XOR (a AND c) XOR (b AND c);
          t2 = s0 + maj in
      [t1 + t2, a, b, c, d + t1, e, f, g])"
| "sha_round st kw = st"

definition sha_block :: "w32 list \<Rightarrow> string \<Rightarrow> w32 list" where
  "sha_block h blk =
     (let ws = rev (sha_schedule 48 (rev (map word_of_bytes (chunks 16 4 blk)))) in
      map2 (+) h (foldl sha_round h (zip sha_k ws)))"

definition hex_char :: "nat \<Rightarrow> char" where
  "hex_char d = char_of (if d < 10 then 48 + d else 87 + d)"

definition hex_word :: "w32 \<Rightarrow> string" where
  "hex_word w = map (\<lambda>i. hex_char (nat ((uint w div 16 ^ (7 - i)) mod 16))) [0..<8]"

definition sha256_hex :: "string \<Rightarrow> string" where
  "sha256_hex m =
     (let p = sha_pad m in
      concat (map hex_word (foldl sha_block sha_h0 (chunks (length p div 64) 64 p))))"

subsection \<open>The shape of a digest\<close>

lemma sha_round_length: "length (sha_round st kw) = length st"
  by (induction st kw rule: sha_round.induct) (simp_all add: Let_def)

lemma foldl_keeps: "(\<And>s x. P s \<Longrightarrow> P (f s x)) \<Longrightarrow> P s \<Longrightarrow> P (foldl f s xs)"
  by (induction xs arbitrary: s) auto

lemma sha_block_length: "length h = 8 \<Longrightarrow> length (sha_block h blk) = 8"
proof -
  assume h: "length h = 8"
  have "length (foldl sha_round h kws) = 8" for kws
    by (rule foldl_keeps [where P = "\<lambda>s. length s = 8"]) (simp_all add: sha_round_length h)
  with h show ?thesis by (simp add: sha_block_def Let_def)
qed

lemma hex_char_lower_hex: "d < 16 \<Longrightarrow> is_lower_hex (hex_char d)"
  by (auto simp: hex_char_def is_lower_hex_def is_digit_def code_def)

lemma hex_word_shape: "length (hex_word w) = 8" "list_all is_lower_hex (hex_word w)"
  by (simp_all add: hex_word_def list_all_iff hex_char_lower_hex nat_less_iff)

lemma sha256_hex_shape: "hex_string 64 (sha256_hex m)"
proof -
  have len: "length (foldl sha_block sha_h0 bs) = 8" for bs
    by (rule foldl_keeps [where P = "\<lambda>s. length s = 8"]) (simp_all add: sha_block_length sha_h0_def)
  have "length (concat (map hex_word ws)) = 8 * length ws" for ws
    by (induction ws) (simp_all add: hex_word_shape)
  moreover have "list_all is_lower_hex (concat (map hex_word ws))" for ws
    by (induction ws) (simp_all add: hex_word_shape)
  ultimately show ?thesis by (simp add: sha256_hex_def hex_string_def Let_def len)
qed

lemma sha256_hex_length [simp]: "length (sha256_hex m) = 64"
  using sha256_hex_shape by (simp add: hex_string_def)

end
