(* ===== verification/Naming.thy ===== *)
theory Naming
  imports Go_Sha256 Api_Types
begin

section \<open>Names and identity labels of generated objects\<close>

text \<open>
  \<open>internal/resources/common.go\<close> and the naming functions of \<open>internal/resources/database.go\<close>. A name that
  would exceed its limit is cut and given eight digits of the SHA-256 of the full name. The
  slice \<open>name[:prefixLength]\<close> panics on a negative bound; \<open>suffixedNameWithLimit\<close> returns \<open>None\<close> there, and
  \<open>suffixedNameWithLimit_total\<close> shows that no suffix of the program is long enough for it.
\<close>

subsection \<open>Constants\<close>

definition ManagedBy :: string where "ManagedBy = ''steadystate''"
definition TeamLabelKey :: string where "TeamLabelKey = ''steadystate.dev/team''"
definition TeamUIDAnnotationKey :: string where "TeamUIDAnnotationKey = ''steadystate.dev/team-uid''"
definition GatewayAccessLabelKey :: string where
  "GatewayAccessLabelKey = ''steadystate.dev/gateway-access''"
definition TeamNamespacePrefix :: string where "TeamNamespacePrefix = ''team-''"
definition TeamQuotaName :: string where "TeamQuotaName = ''steadystate-quota''"
definition TeamLimitRangeName :: string where "TeamLimitRangeName = ''steadystate-defaults''"
definition TeamOwnerName :: string where "TeamOwnerName = ''steadystate-team-owner''"
definition DefaultDenyPolicyName :: string where "DefaultDenyPolicyName = ''steadystate-default-deny''"
definition AllowDNSPolicyName :: string where "AllowDNSPolicyName = ''steadystate-allow-dns''"
definition AllowEnvoyPolicyName :: string where
  "AllowEnvoyPolicyName = ''steadystate-allow-envoy-gateway''"
definition AllowMonitoringPolicyName :: string where
  "AllowMonitoringPolicyName = ''steadystate-allow-monitoring''"
definition AllowTeamApplicationsPolicyName :: string where
  "AllowTeamApplicationsPolicyName = ''steadystate-allow-team-applications''"
definition VersionLabelKey :: string where "VersionLabelKey = ''steadystate.dev/version''"
definition LogsLabelKey :: string where "LogsLabelKey = ''steadystate.dev/logs''"
definition TracesLabelKey :: string where "TracesLabelKey = ''steadystate.dev/traces''"
definition WorkloadKindLabelKey :: string where
  "WorkloadKindLabelKey = ''steadystate.dev/workload-kind''"
definition RequireSignedImageLabelKey :: string where
  "RequireSignedImageLabelKey = ''steadystate.dev/require-signed-image''"
definition NetworkIsolationLabelKey :: string where
  "NetworkIsolationLabelKey = ''steadystate.dev/network-isolation''"
definition ServiceRoleLabelKey :: string where "ServiceRoleLabelKey = ''steadystate.dev/service-role''"
definition DatabaseLabelKey :: string where "DatabaseLabelKey = ''steadystate.dev/database''"
definition DatabaseUIDAnnotationKey :: string where
  "DatabaseUIDAnnotationKey = ''steadystate.dev/database-uid''"

lemmas label_key_defs =
  TeamLabelKey_def TeamUIDAnnotationKey_def GatewayAccessLabelKey_def VersionLabelKey_def
  LogsLabelKey_def TracesLabelKey_def WorkloadKindLabelKey_def RequireSignedImageLabelKey_def
  NetworkIsolationLabelKey_def ServiceRoleLabelKey_def DatabaseLabelKey_def
  DatabaseUIDAnnotationKey_def

subsection \<open>Names with a length limit\<close>

definition suffixedNameWithLimit :: "string \<Rightarrow> string \<Rightarrow> int \<Rightarrow> string option" where
  "suffixedNameWithLimit name suffix limit =
     (let candidate = name @ suffix in
      if int (length candidate) \<le> limit then Some candidate
      else let digest = take 8 (sha256_hex candidate);
               prefixLength = limit - int (length suffix) - int (length digest) - 1 in
        if prefixLength < 0 \<or> prefixLength > int (length name) then None
        else Some (take (nat prefixLength) name @ ''-'' @ digest @ suffix))"

definition suffixedName :: "string \<Rightarrow> string \<Rightarrow> string" where
  \<comment> \<open>The panicking branch is the empty name; the lemma on its bounds excludes it.\<close>
  "suffixedName name suffix =
     (case suffixedNameWithLimit name suffix 63 of Some n \<Rightarrow> n | None \<Rightarrow> [])"

lemma suffixedNameWithLimit_total:
  assumes "int (length suffix) + 9 \<le> limit"
  shows "\<exists>n. suffixedNameWithLimit name suffix limit = Some n
    \<and> int (length n) \<le> limit \<and> has_suffix n suffix"
proof (cases "int (length (name @ suffix)) \<le> limit")
  case True
  then show ?thesis by (simp add: suffixedNameWithLimit_def)
next
  case False
  define d where "d = take 8 (sha256_hex (name @ suffix))"
  have d: "length d = 8" by (simp add: d_def)
  define k where "k = limit - int (length suffix) - 8 - 1"
  have k: "0 \<le> k" "k \<le> int (length name)" using assms False by (auto simp: k_def)
  have n: "suffixedNameWithLimit name suffix limit = Some (take (nat k) name @ ''-'' @ d @ suffix)"
    using False k d by (simp add: suffixedNameWithLimit_def Let_def d_def [symmetric] k_def)
  have "length (take (nat k) name) = nat k" using k by auto
  then have "int (length (take (nat k) name @ ''-'' @ d @ suffix)) = limit"
    using k d by (simp add: k_def)
  moreover have "has_suffix (take (nat k) name @ ''-'' @ d @ suffix) suffix"
    using has_suffix_append [of "take (nat k) name @ ''-'' @ d"] by simp
  ultimately show ?thesis using n by (metis order_refl)
qed

lemma suffixedName_bounds:
  assumes "length suffix \<le> 54"
  shows "length (suffixedName name suffix) \<le> 63" and "has_suffix (suffixedName name suffix) suffix"
proof -
  obtain n where "suffixedNameWithLimit name suffix 63 = Some n" "int (length n) \<le> 63" "has_suffix n suffix"
    using suffixedNameWithLimit_total [of suffix 63 name] assms by auto
  then show "length (suffixedName name suffix) \<le> 63" "has_suffix (suffixedName name suffix) suffix"
    by (simp_all add: suffixedName_def)
qed

lemma suffixedName_short:
  "length name + length suffix \<le> 63 \<Longrightarrow> suffixedName name suffix = name @ suffix"
  by (simp add: suffixedName_def suffixedNameWithLimit_def)

text \<open>Names with suffixes of which neither ends the other are different.\<close>

lemma has_suffix_both:
  "has_suffix n s \<Longrightarrow> has_suffix n t \<Longrightarrow> has_suffix s t \<or> has_suffix t s"
  unfolding has_suffix_iff by (metis append_eq_append_conv2)

lemma suffixedName_distinct:
  assumes "length s \<le> 54" "length t \<le> 54" "\<not> has_suffix s t" "\<not> has_suffix t s"
  shows "suffixedName a s \<noteq> suffixedName b t"
  using suffixedName_bounds(2) [of s a] suffixedName_bounds(2) [of t b] assms has_suffix_both by metis

subsection \<open>Applications\<close>

definition Labels :: "application \<Rightarrow> strmap" where
  "Labels app = [
     ''app.kubernetes.io/instance'' \<mapsto> oname app,
     ''app.kubernetes.io/managed-by'' \<mapsto> ManagedBy,
     ''app.kubernetes.io/name'' \<mapsto> oname app,
     ''app.kubernetes.io/part-of'' \<mapsto> ''steadystate'']"

definition SelectorLabels :: "application \<Rightarrow> strmap" where
  "SelectorLabels app = [
     ''app.kubernetes.io/instance'' \<mapsto> oname app,
     ''app.kubernetes.io/managed-by'' \<mapsto> ManagedBy]"

definition Hostname :: "application \<Rightarrow> string" where
  "Hostname app = oname app @ ''.'' @ onamespace app @ ''.steadystate.localtest.me''"

definition ConfigMapName :: "application \<Rightarrow> string" where
  "ConfigMapName app = suffixedName (oname app) ''-config''"
definition StableServiceName :: "application \<Rightarrow> string" where
  "StableServiceName app = suffixedName (oname app) ''-stable''"
definition CanaryServiceName :: "application \<Rightarrow> string" where
  "CanaryServiceName app = suffixedName (oname app) ''-canary''"
definition AnalysisTemplateName :: "application \<Rightarrow> string" where
  "AnalysisTemplateName app = suffixedName (oname app) ''-analysis''"
definition ServiceMonitorName :: "application \<Rightarrow> string" where
  "ServiceMonitorName app = suffixedName (oname app) ''-monitor''"
definition PrometheusRuleName :: "application \<Rightarrow> string" where
  "PrometheusRuleName app = suffixedName (oname app) ''-alerts''"
definition OTelEgressPolicyName :: "application \<Rightarrow> string" where
  "OTelEgressPolicyName app = suffixedName (oname app) ''-otel-egress''"
definition DatabaseEgressPolicyName :: "application \<Rightarrow> string" where
  "DatabaseEgressPolicyName app = suffixedName (oname app) ''-database-egress''"

lemma stable_canary_distinct: "StableServiceName a \<noteq> CanaryServiceName b"
  unfolding StableServiceName_def CanaryServiceName_def
  by (rule suffixedName_distinct) (simp_all add: has_suffix_def)

subsection \<open>Databases\<close>

definition DatabaseLabels :: "database \<Rightarrow> strmap" where
  "DatabaseLabels d = [
     ''app.kubernetes.io/instance'' \<mapsto> oname d,
     ''app.kubernetes.io/managed-by'' \<mapsto> ManagedBy,
     ''app.kubernetes.io/name'' \<mapsto> ''steadystate-database'',
     ''app.kubernetes.io/part-of'' \<mapsto> ''steadystate'',
     DatabaseLabelKey \<mapsto> oname d]"

definition DatabaseAnnotations :: "database \<Rightarrow> strmap" where
  "DatabaseAnnotations d = [DatabaseUIDAnnotationKey \<mapsto> ouid d]"

definition DatabaseClusterNameFor :: "string \<Rightarrow> string" where
  "DatabaseClusterNameFor name =
     (case suffixedNameWithLimit name ''-postgres'' 59 of Some n \<Rightarrow> n | None \<Rightarrow> [])"

definition DatabaseClusterName :: "database \<Rightarrow> string" where
  "DatabaseClusterName d = DatabaseClusterNameFor (oname d)"

definition DatabaseConnectionSecretNameFor :: "string \<Rightarrow> string" where
  "DatabaseConnectionSecretNameFor name = DatabaseClusterNameFor name @ ''-app''"

definition DatabaseConnectionSecretName :: "database \<Rightarrow> string" where
  "DatabaseConnectionSecretName d = DatabaseConnectionSecretNameFor (oname d)"

definition DatabaseBackupCredentialName :: "database \<Rightarrow> string" where
  "DatabaseBackupCredentialName d = suffixedName (oname d) ''-backup-credentials''"
definition DatabaseObjectStoreName :: "database \<Rightarrow> string" where
  "DatabaseObjectStoreName d = suffixedName (oname d) ''-object-store''"
definition DatabaseScheduledBackupName :: "database \<Rightarrow> string" where
  "DatabaseScheduledBackupName d = suffixedName (oname d) ''-scheduled''"
definition DatabaseFinalBackupName :: "database \<Rightarrow> string" where
  "DatabaseFinalBackupName d = suffixedName (oname d) ''-final''"
definition DatabaseServiceMonitorName :: "database \<Rightarrow> string" where
  "DatabaseServiceMonitorName d = suffixedName (oname d) ''-database-monitor''"
definition DatabasePrometheusRuleName :: "database \<Rightarrow> string" where
  "DatabasePrometheusRuleName d = suffixedName (oname d) ''-database-alerts''"

definition DatabaseBackupServerName :: "database \<Rightarrow> string" where
  "DatabaseBackupServerName d =
     (let uid = (if length (ouid d) > 12 then take 12 (ouid d) else ouid d) in
      suffixedName (oname d) (''-'' @ uid))"

lemma DatabaseClusterNameFor_bounds: "length (DatabaseClusterNameFor name) \<le> 59"
proof -
  obtain n where "suffixedNameWithLimit name ''-postgres'' 59 = Some n" "int (length n) \<le> 59"
    using suffixedNameWithLimit_total [of "''-postgres''" 59 name] by auto
  then show ?thesis by (simp add: DatabaseClusterNameFor_def)
qed

lemma DatabaseConnectionSecretNameFor_bounds: "length (DatabaseConnectionSecretNameFor name) \<le> 63"
  using DatabaseClusterNameFor_bounds [of name] by (simp add: DatabaseConnectionSecretNameFor_def)

lemma DatabaseBackupServerName_bounds: "length (DatabaseBackupServerName d) \<le> 63"
  unfolding DatabaseBackupServerName_def Let_def by (rule suffixedName_bounds(1)) simp

subsection \<open>Teams\<close>

definition TeamNamespaceName :: "team \<Rightarrow> string" where
  "TeamNamespaceName t = TeamNamespacePrefix @ oname t"

definition TeamLabels :: "team \<Rightarrow> strmap" where
  "TeamLabels t = [
     ''app.kubernetes.io/instance'' \<mapsto> oname t,
     ''app.kubernetes.io/managed-by'' \<mapsto> ManagedBy,
     ''app.kubernetes.io/name'' \<mapsto> ''steadystate-team'',
     ''app.kubernetes.io/part-of'' \<mapsto> ''steadystate'',
     TeamLabelKey \<mapsto> oname t]"

definition TeamAnnotations :: "team \<Rightarrow> strmap" where
  "TeamAnnotations t = [TeamUIDAnnotationKey \<mapsto> ouid t]"

lemma TeamNamespaceName_inj: "TeamNamespaceName a = TeamNamespaceName b \<longleftrightarrow> oname a = oname b"
  by (simp add: TeamNamespaceName_def)

lemma TeamNamespaceName_bounds: "length (oname t) \<le> 58 \<Longrightarrow> length (TeamNamespaceName t) \<le> 63"
  by (simp add: TeamNamespaceName_def TeamNamespacePrefix_def)

end
