(* ===== verification/Team_Resources.thy ===== *)
theory Team_Resources
  imports Kube Naming
begin

section \<open>The objects of a Team's namespace boundary\<close>

text \<open>
  The builders of \<open>internal/resources/team_*.go\<close>: the Namespace, the quota and limit range, the
  ServiceAccount, the RoleBinding to the installed ClusterRole, and the five NetworkPolicies. The last part
  states what NetworkPolicies mean to Kubernetes (\<open>traffic_allowed\<close>: a pod selected by no policy of a direction is open,
  otherwise the union of the rules of the policies that select it is) and computes what the five policies let through.
\<close>

subsection \<open>Namespace and resource policy\<close>

definition teamObjectMeta :: "team \<Rightarrow> string \<Rightarrow> objmeta" where
  "teamObjectMeta t n = (new_meta (TeamNamespaceName t) n)
     \<lparr>olabels := TeamLabels t, oannotations := TeamAnnotations t\<rparr>"

definition TeamNamespace :: "team \<Rightarrow> kobject" where
  "TeamNamespace t = with_body ((new_meta [] (TeamNamespaceName t))
     \<lparr>olabels := (TeamLabels t)(GatewayAccessLabelKey \<mapsto> ''true''),
      oannotations := TeamAnnotations t\<rparr>) BNamespace"

definition TeamResourceQuota :: "team \<Rightarrow> kobject" where
  "TeamResourceQuota t = with_body (teamObjectMeta t TeamQuotaName)
     (BResourceQuota [
        ''requests.cpu'' \<mapsto> quota_cpu (team_qt (tspec t)),
        ''requests.memory'' \<mapsto> quota_memory (team_qt (tspec t)),
        ''limits.cpu'' \<mapsto> quota_cpu (team_qt (tspec t)),
        ''limits.memory'' \<mapsto> quota_memory (team_qt (tspec t))])"

definition TeamLimitRange :: "lib \<Rightarrow> team \<Rightarrow> kobject" where
  "TeamLimitRange L t = with_body (teamObjectMeta t TeamLimitRangeName)
     (BLimitRange [\<lparr>
        li_type = ''Container'',
        li_min = [''cpu'' \<mapsto> q_must_parse L ''10m'', ''memory'' \<mapsto> q_must_parse L ''16Mi''],
        li_defaultRequest = [''cpu'' \<mapsto> q_must_parse L ''50m'', ''memory'' \<mapsto> q_must_parse L ''64Mi''],
        li_default = [''cpu'' \<mapsto> q_must_parse L ''500m'', ''memory'' \<mapsto> q_must_parse L ''512Mi'']\<rparr>])"

subsection \<open>Access control\<close>

definition TeamServiceAccount :: "team \<Rightarrow> kobject" where
  "TeamServiceAccount t = with_body (teamObjectMeta t TeamOwnerName) (BServiceAccount (Some False))"

definition mk_rule :: "string list \<Rightarrow> string list \<Rightarrow> string list \<Rightarrow> policy_rule" where
  "mk_rule groups resources verbs = \<lparr>pr_apiGroups = groups, pr_resources = resources,
     pr_verbs = verbs, pr_resourceNames = [], pr_nonResourceURLs = []\<rparr>"

definition TeamOwnerRules :: "policy_rule list" where
  "TeamOwnerRules = [
     mk_rule [''platform.steadystate.dev''] [''applications'', ''databases'']
       [''create'', ''delete'', ''get'', ''list'', ''patch'', ''update'', ''watch''],
     mk_rule [''platform.steadystate.dev''] [''applications/status'', ''databases/status''] [''get''],
     mk_rule [''''] [''configmaps'', ''secrets'']
       [''create'', ''delete'', ''get'', ''list'', ''patch'', ''update'', ''watch''],
     mk_rule [''''] [''events'', ''pods'', ''services''] [''get'', ''list'', ''watch''],
     mk_rule [''''] [''pods/log''] [''get''],
     mk_rule [''''] [''pods/exec''] [''create'', ''get''],
     mk_rule [''apps''] [''deployments'', ''replicasets''] [''get'', ''list'', ''watch''],
     mk_rule [''events.k8s.io''] [''events''] [''get'', ''list'', ''watch''],
     mk_rule [''gateway.networking.k8s.io''] [''httproutes''] [''get'', ''list'', ''watch'']]"

definition rbac_group :: string where "rbac_group = ''rbac.authorization.k8s.io''"

definition TeamRoleBinding :: "team \<Rightarrow> kobject" where
  "TeamRoleBinding t =
     (let owners = sort (team_owners (tspec t));
          subjects = \<lparr>sub_kind = ''ServiceAccount'', sub_apiGroup = [], sub_name = TeamOwnerName,
              sub_namespace = TeamNamespaceName t\<rparr>
            # map (\<lambda>owner. \<lparr>sub_kind = ''User'', sub_apiGroup = rbac_group, sub_name = owner,
                sub_namespace = []\<rparr>) owners in
      with_body (teamObjectMeta t TeamOwnerName)
        (BRoleBinding subjects
           \<lparr>rr_apiGroup = rbac_group, rr_kind = ''ClusterRole'', rr_name = TeamOwnerName\<rparr>))"

subsection \<open>Network policies\<close>

definition metadata_name_label :: string where
  "metadata_name_label = ''kubernetes.io/metadata.name''"

definition team_policy :: "team \<Rightarrow> string \<Rightarrow> np_spec \<Rightarrow> kobject" where
  "team_policy t n sp = with_body (teamObjectMeta t n) (BNetworkPolicy sp)"

definition TeamDefaultDenyNetworkPolicy :: "team \<Rightarrow> kobject" where
  "TeamDefaultDenyNetworkPolicy t = team_policy t DefaultDenyPolicyName
     \<lparr>np_selector = match_labels Map.empty, np_types = [PolicyIngress, PolicyEgress],
      np_ingress = [], np_egress = []\<rparr>"

definition TeamAllowDNSNetworkPolicy :: "team \<Rightarrow> kobject" where
  "TeamAllowDNSNetworkPolicy t = team_policy t AllowDNSPolicyName
     \<lparr>np_selector = match_labels Map.empty, np_types = [PolicyEgress], np_ingress = [],
      np_egress = [\<lparr>
        rule_peers = [ns_pod_peer (match_labels [metadata_name_label \<mapsto> ''kube-system''])
                        (match_labels [''k8s-app'' \<mapsto> ''kube-dns''])],
        rule_ports = [np_port_of UDP (PortInt 53), np_port_of TCP (PortInt 53)]\<rparr>]\<rparr>"

definition envoy_pods :: label_selector where
  "envoy_pods = match_labels [
     ''app.kubernetes.io/component'' \<mapsto> ''proxy'',
     ''gateway.envoyproxy.io/owning-gateway-name'' \<mapsto> ''steadystate'',
     ''gateway.envoyproxy.io/owning-gateway-namespace'' \<mapsto> ''steadystate-system'']"

definition TeamAllowEnvoyNetworkPolicy :: "team \<Rightarrow> kobject" where
  "TeamAllowEnvoyNetworkPolicy t = team_policy t AllowEnvoyPolicyName
     \<lparr>np_selector = match_labels Map.empty, np_types = [PolicyIngress],
      np_ingress = [\<lparr>
        rule_peers = [ns_pod_peer (match_labels [metadata_name_label \<mapsto> ''envoy-gateway-system''])
                        envoy_pods],
        rule_ports = []\<rparr>],
      np_egress = []\<rparr>"

definition TeamAllowMonitoringNetworkPolicy :: "team \<Rightarrow> kobject" where
  "TeamAllowMonitoringNetworkPolicy t = team_policy t AllowMonitoringPolicyName
     \<lparr>np_selector = match_labels Map.empty, np_types = [PolicyIngress],
      np_ingress = [\<lparr>
        rule_peers = [ns_pod_peer (match_labels [metadata_name_label \<mapsto> ''monitoring''])
                        (match_labels [''app.kubernetes.io/name'' \<mapsto> ''prometheus''])],
        rule_ports = [np_port_of TCP (PortName ''http'')]\<rparr>],
      np_egress = []\<rparr>"

definition team_applications :: label_selector where
  "team_applications = match_labels [
     WorkloadKindLabelKey \<mapsto> ''application'', NetworkIsolationLabelKey \<mapsto> ''false'']"

definition TeamAllowApplicationsNetworkPolicy :: "team \<Rightarrow> kobject" where
  "TeamAllowApplicationsNetworkPolicy t = team_policy t AllowTeamApplicationsPolicyName
     \<lparr>np_selector = team_applications, np_types = [PolicyIngress, PolicyEgress],
      np_ingress = [\<lparr>rule_peers = [pod_peer team_applications], rule_ports = []\<rparr>],
      np_egress = [\<lparr>rule_peers = [pod_peer team_applications], rule_ports = []\<rparr>]\<rparr>"

definition team_network_policies :: "team \<Rightarrow> kobject list" where
  \<comment> \<open>the slice that \<open>reconcileNetworkPolicy\<close> iterates over\<close>
  "team_network_policies t = [
     TeamDefaultDenyNetworkPolicy t, TeamAllowDNSNetworkPolicy t, TeamAllowEnvoyNetworkPolicy t,
     TeamAllowMonitoringNetworkPolicy t, TeamAllowApplicationsNetworkPolicy t]"

lemmas team_builder_defs =
  TeamNamespace_def TeamResourceQuota_def TeamLimitRange_def TeamServiceAccount_def
  TeamRoleBinding_def TeamDefaultDenyNetworkPolicy_def TeamAllowDNSNetworkPolicy_def
  TeamAllowEnvoyNetworkPolicy_def TeamAllowMonitoringNetworkPolicy_def
  TeamAllowApplicationsNetworkPolicy_def team_policy_def

declare team_builder_defs [builder_defs]

subsection \<open>Every object carries the identity of its Team\<close>

definition team_identity :: "team \<Rightarrow> 'a objmeta_scheme \<Rightarrow> bool" where
  "team_identity t obj \<longleftrightarrow> olabels obj TeamLabelKey = Some (oname t)
     \<and> oannotations obj TeamUIDAnnotationKey = Some (ouid t)"

lemma team_identity_meta [simp]:
  "olabels (teamObjectMeta t n) = TeamLabels t"
  "oannotations (teamObjectMeta t n) = TeamAnnotations t"
  "onamespace (teamObjectMeta t n) = TeamNamespaceName t"
  "oname (teamObjectMeta t n) = n"
  by (simp_all add: teamObjectMeta_def)

lemma TeamLabels_team [simp]: "TeamLabels t TeamLabelKey = Some (oname t)"
  by (simp add: TeamLabels_def TeamLabelKey_def)

lemma TeamAnnotations_uid [simp]: "TeamAnnotations t TeamUIDAnnotationKey = Some (ouid t)"
  by (simp add: TeamAnnotations_def)

lemma GatewayAccess_not_team [simp]: "GatewayAccessLabelKey \<noteq> TeamLabelKey"
  by (simp add: GatewayAccessLabelKey_def TeamLabelKey_def)

lemma team_objects_identity:
  "team_identity t (TeamNamespace t)" "team_identity t (TeamResourceQuota t)"
  "team_identity t (TeamLimitRange L t)" "team_identity t (TeamServiceAccount t)"
  "team_identity t (TeamRoleBinding t)"
  "\<forall>p \<in> set (team_network_policies t). team_identity t p"
  using GatewayAccess_not_team [symmetric]
  by (auto simp: team_identity_def builder_defs team_network_policies_def Let_def)

subsection \<open>What the policies let through\<close>

record endpoint =
  ep_nsLabels :: strmap
  ep_podLabels :: strmap
  ep_namespace :: string
  ep_address :: "string \<Rightarrow> bool"   \<comment> \<open>the address blocks that contain the pod's address\<close>

definition selects :: "label_selector \<Rightarrow> strmap \<Rightarrow> bool" where
  "selects sel m \<longleftrightarrow> sel_labels sel \<subseteq>\<^sub>m m"

definition peer_matches :: "string \<Rightarrow> np_peer \<Rightarrow> endpoint \<Rightarrow> bool" where
  "peer_matches ns p e =
     (case peer_cidr p of
        Some block \<Rightarrow> ep_address e block
      | None \<Rightarrow>
          (case peer_namespaces p of
             None \<Rightarrow> ep_namespace e = ns
           | Some sel \<Rightarrow> selects sel (ep_nsLabels e))
          \<and> (case peer_pods p of None \<Rightarrow> True | Some sel \<Rightarrow> selects sel (ep_podLabels e)))"

definition port_matches :: "np_port \<Rightarrow> protocol \<Rightarrow> int_or_string set \<Rightarrow> bool" where
  \<comment> \<open>the names of a port: its number and its name, if it has one\<close>
  "port_matches p proto names =
     ((case npp_protocol p of None \<Rightarrow> proto = TCP | Some q \<Rightarrow> q = proto)
      \<and> (case npp_port p of None \<Rightarrow> True | Some n \<Rightarrow> n \<in> names))"

definition rule_admits :: "string \<Rightarrow> np_rule \<Rightarrow> endpoint \<Rightarrow> protocol \<Rightarrow> int_or_string set \<Rightarrow> bool" where
  "rule_admits ns r e proto names \<longleftrightarrow>
     (rule_peers r = [] \<or> (\<exists>p \<in> set (rule_peers r). peer_matches ns p e))
   \<and> (rule_ports r = [] \<or> (\<exists>p \<in> set (rule_ports r). port_matches p proto names))"

definition policy_specs :: "kobject list \<Rightarrow> np_spec list" where
  "policy_specs = List.map_filter (\<lambda>obj. case kbody obj of BNetworkPolicy sp \<Rightarrow> Some sp | _ \<Rightarrow> None)"

definition traffic_allowed ::
    "policy_type \<Rightarrow> kobject list \<Rightarrow> string \<Rightarrow> strmap \<Rightarrow> endpoint \<Rightarrow> protocol \<Rightarrow> int_or_string set \<Rightarrow> bool"
  where
  \<comment> \<open>Traffic in a direction between a pod with the given labels of namespace \<open>ns\<close> and a peer.\<close>
  "traffic_allowed dir policies ns pod e proto names \<longleftrightarrow>
     (let sps = filter (\<lambda>sp. dir \<in> set (np_types sp) \<and> selects (np_selector sp) pod)
                  (policy_specs policies) in
      sps = [] \<or>
      (\<exists>sp \<in> set sps. \<exists>r \<in> set (case dir of PolicyIngress \<Rightarrow> np_ingress sp | PolicyEgress \<Rightarrow> np_egress sp).
         rule_admits ns r e proto names))"

lemma selects_match_labels [simp]:
  "selects (match_labels Map.empty) m"
  "selects (match_labels [k \<mapsto> v]) m \<longleftrightarrow> m k = Some v"
  by (auto simp: selects_def match_labels_def map_le_def)

lemma selects_applications:
  "selects team_applications m \<longleftrightarrow>
     m WorkloadKindLabelKey = Some ''application'' \<and> m NetworkIsolationLabelKey = Some ''false''"
proof -
  have "WorkloadKindLabelKey \<noteq> NetworkIsolationLabelKey"
    by (simp add: WorkloadKindLabelKey_def NetworkIsolationLabelKey_def)
  then show ?thesis
    by (auto simp: selects_def team_applications_def match_labels_def map_le_def)
qed

lemma policy_specs_simps [simp]:
  "policy_specs [] = []"
  "policy_specs (team_policy t n sp # ps) = sp # policy_specs ps"
  by (simp_all add: policy_specs_def team_policy_def List.map_filter_simps)

text \<open>The peers that the ingress rules name.\<close>

definition from_envoy :: "endpoint \<Rightarrow> bool" where
  "from_envoy e \<longleftrightarrow> ep_nsLabels e metadata_name_label = Some ''envoy-gateway-system''
     \<and> selects envoy_pods (ep_podLabels e)"

definition from_prometheus :: "endpoint \<Rightarrow> bool" where
  "from_prometheus e \<longleftrightarrow> ep_nsLabels e metadata_name_label = Some ''monitoring''
     \<and> ep_podLabels e ''app.kubernetes.io/name'' = Some ''prometheus''"

definition to_dns :: "endpoint \<Rightarrow> bool" where
  "to_dns e \<longleftrightarrow> ep_nsLabels e metadata_name_label = Some ''kube-system''
     \<and> ep_podLabels e ''k8s-app'' = Some ''kube-dns''"

definition open_application :: "strmap \<Rightarrow> bool" where
  "open_application m \<longleftrightarrow> m WorkloadKindLabelKey = Some ''application''
     \<and> m NetworkIsolationLabelKey = Some ''false''"

lemmas team_policy_defs =
  TeamDefaultDenyNetworkPolicy_def TeamAllowDNSNetworkPolicy_def TeamAllowEnvoyNetworkPolicy_def
  TeamAllowMonitoringNetworkPolicy_def TeamAllowApplicationsNetworkPolicy_def

lemma team_policy_specs:
  "policy_specs (team_network_policies t) = [
     \<lparr>np_selector = match_labels Map.empty, np_types = [PolicyIngress, PolicyEgress],
      np_ingress = [], np_egress = []\<rparr>,
     \<lparr>np_selector = match_labels Map.empty, np_types = [PolicyEgress], np_ingress = [],
      np_egress = [\<lparr>
        rule_peers = [ns_pod_peer (match_labels [metadata_name_label \<mapsto> ''kube-system''])
                        (match_labels [''k8s-app'' \<mapsto> ''kube-dns''])],
        rule_ports = [np_port_of UDP (PortInt 53), np_port_of TCP (PortInt 53)]\<rparr>]\<rparr>,
     \<lparr>np_selector = match_labels Map.empty, np_types = [PolicyIngress],
      np_ingress = [\<lparr>
        rule_peers = [ns_pod_peer (match_labels [metadata_name_label \<mapsto> ''envoy-gateway-system''])
                        envoy_pods],
        rule_ports = []\<rparr>],
      np_egress = []\<rparr>,
     \<lparr>np_selector = match_labels Map.empty, np_types = [PolicyIngress],
      np_ingress = [\<lparr>
        rule_peers = [ns_pod_peer (match_labels [metadata_name_label \<mapsto> ''monitoring''])
                        (match_labels [''app.kubernetes.io/name'' \<mapsto> ''prometheus''])],
        rule_ports = [np_port_of TCP (PortName ''http'')]\<rparr>],
      np_egress = []\<rparr>,
     \<lparr>np_selector = team_applications, np_types = [PolicyIngress, PolicyEgress],
      np_ingress = [\<lparr>rule_peers = [pod_peer team_applications], rule_ports = []\<rparr>],
      np_egress = [\<lparr>rule_peers = [pod_peer team_applications], rule_ports = []\<rparr>]\<rparr>]"
  by (simp add: team_network_policies_def team_policy_defs)

lemma team_ingress:
  "traffic_allowed PolicyIngress (team_network_policies t) (TeamNamespaceName t) pod e proto names \<longleftrightarrow>
     from_envoy e
   \<or> (from_prometheus e \<and> proto = TCP \<and> PortName ''http'' \<in> names)
   \<or> (open_application pod \<and> ep_namespace e = TeamNamespaceName t \<and> open_application (ep_podLabels e))"
  unfolding traffic_allowed_def Let_def team_policy_specs
  by (auto simp: rule_admits_def peer_matches_def ns_pod_peer_def pod_peer_def port_matches_def
      np_port_of_def from_envoy_def from_prometheus_def open_application_def selects_applications)

lemma team_egress:
  "traffic_allowed PolicyEgress (team_network_policies t) (TeamNamespaceName t) pod e proto names \<longleftrightarrow>
     (to_dns e \<and> PortInt 53 \<in> names)
   \<or> (open_application pod \<and> ep_namespace e = TeamNamespaceName t \<and> open_application (ep_podLabels e))"
  unfolding traffic_allowed_def Let_def team_policy_specs
  by (cases proto) (auto simp: rule_admits_def peer_matches_def ns_pod_peer_def pod_peer_def
      port_matches_def np_port_of_def to_dns_def open_application_def selects_applications)

end
