(* ===== verification/Status.thy ===== *)
theory Status
  imports Kube
begin

section \<open>Writing the status of a resource\<close>

text \<open>
  \<open>patchStatus\<close>, \<open>patchTeamStatus\<close> and \<open>patchDatabaseStatus\<close> of the three controllers are one algorithm over three
  types: do nothing when the wanted status is the one already read; otherwise, retrying on conflicts, read
  the object again, give up when its generation is no longer the observed one, keep the transition
  times of conditions whose status is unchanged, and patch the status if it still differs. \<open>patch_status\<close> is that algorithm
  over the accessors of a type; the controllers' theories instantiate it. The locale \<open>status_object\<close> states
  what the accessors must satisfy, and proves what the algorithm promises of every status it writes.
\<close>

subsection \<open>Conditions\<close>

definition mk_condition :: "string \<Rightarrow> cond_status \<Rightarrow> int \<Rightarrow> string \<Rightarrow> string \<Rightarrow> condition" where
  "mk_condition ty st gen reason message = \<lparr>ctype = ty, cstatus = st, cobserved = gen,
     creason = reason, cmessage = message, ctransition = 0\<rparr>"

text \<open>What a reader sees of a condition: everything but its transition time.\<close>

definition cond_of :: "lib \<Rightarrow> condition list \<Rightarrow> string \<Rightarrow> (cond_status \<times> string \<times> string \<times> int) option" where
  "cond_of L cs ty = map_option (\<lambda>c. (cstatus c, creason c, cmessage c, cobserved c))
     (find_status_condition L cs ty)"

lemma cond_of_set:
  assumes "conditions_ok L"
  shows "cond_of L (set_status_condition L cs (mk_condition ty st gen reason message)) ty' =
    (if ty' = ty then Some (st, reason, message, gen) else cond_of L cs ty')"
proof (cases "ty' = ty")
  case True
  obtain t where "find_status_condition L (set_status_condition L cs (mk_condition ty st gen reason message)) ty
      = Some ((mk_condition ty st gen reason message)\<lparr>ctransition := t\<rparr>)"
    using conditions_okD(2) [OF assms, of cs "mk_condition ty st gen reason message"]
    by (auto simp: mk_condition_def)
  with True show ?thesis by (simp add: cond_of_def mk_condition_def)
next
  case False
  then show ?thesis
    using conditions_okD(3) [OF assms, of ty' "mk_condition ty st gen reason message" cs]
    by (simp add: cond_of_def mk_condition_def)
qed

lemma cond_of_remove:
  assumes "conditions_ok L"
  shows "cond_of L (remove_status_condition L cs ty) ty' = (if ty' = ty then None else cond_of L cs ty')"
  using conditions_okD(4,5) [OF assms] by (simp add: cond_of_def)

lemma cond_of_same:
  assumes "conditions_ok L" "map (\<lambda>c. c\<lparr>ctransition := 0\<rparr>) cs = map (\<lambda>c. c\<lparr>ctransition := 0\<rparr>) ds"
  shows "cond_of L cs ty = cond_of L ds ty"
proof -
  have "map_option (\<lambda>c. (cstatus c, creason c, cmessage c, cobserved c)) (find_by ctype ty cs)
      = map_option (\<lambda>c. (cstatus c, creason c, cmessage c, cobserved c)) (find_by ctype ty ds)"
    using assms(2)
  proof (induction cs arbitrary: ds)
    case (Cons c cs)
    then obtain d ds' where ds: "ds = d # ds'" by auto
    with Cons.prems have "c\<lparr>ctransition := 0\<rparr> = d\<lparr>ctransition := 0\<rparr>" by simp
    then have "ctype c = ctype d \<and> cstatus c = cstatus d \<and> creason c = creason d
      \<and> cmessage c = cmessage d \<and> cobserved c = cobserved d"
      by (metis condition.ext_inject condition.surjective condition.update_convs(6))
    with Cons ds show ?case by simp
  qed simp
  then show ?thesis by (simp add: cond_of_def conditions_okD(1) [OF assms(1)])
qed

subsection \<open>The algorithm\<close>

record ('o, 's) status_ops =
  so_kind :: kind
  so_decode :: "kobject \<Rightarrow> 'o option"
  so_encode :: "'o \<Rightarrow> kobject"
  so_key :: "'o \<Rightarrow> nsname"
  so_generation :: "'o \<Rightarrow> int"
  so_status :: "'o \<Rightarrow> 's"
  so_set_status :: "'o \<Rightarrow> 's \<Rightarrow> 'o"
  so_observed :: "'s \<Rightarrow> int"
  so_conditions :: "'s \<Rightarrow> condition list"
  so_set_conditions :: "'s \<Rightarrow> condition list \<Rightarrow> 's"

definition decoded :: "(kobject \<Rightarrow> 'o option) \<Rightarrow> go_error + kobject \<Rightarrow> go_error + 'o" where
  "decoded decode r = (case r of
     Inl e \<Rightarrow> Inl e
   | Inr obj \<Rightarrow> (case decode obj of None \<Rightarrow> Inl undecodable | Some v \<Rightarrow> Inr v))"

definition keep_transition :: "lib \<Rightarrow> condition list \<Rightarrow> condition \<Rightarrow> condition" where
  "keep_transition L current c =
     (case find_status_condition L current (ctype c) of
        Some existing \<Rightarrow>
          if cstatus existing = cstatus c then c\<lparr>ctransition := ctransition existing\<rparr> else c
      | None \<Rightarrow> c)"

definition patch_attempt ::
    "('o, 's) status_ops \<Rightarrow> lib \<Rightarrow> nsname \<Rightarrow> 's \<Rightarrow> (go_error + bool) prog" where
  "patch_attempt ops L key desired = do {
     r \<leftarrow> client_get (so_kind ops) key;
     case decoded (so_decode ops) r of
       Inl e \<Rightarrow> ret (Inl e)
     | Inr current \<Rightarrow>
         if so_generation ops current \<noteq> so_observed ops desired then ret (Inr False)
         else
           let updated = so_set_conditions ops desired
                 (map (keep_transition L (so_conditions ops (so_status ops current)))
                   (so_conditions ops desired)) in
           if so_status ops current = updated then ret (Inr False)
           else do {
             w \<leftarrow> client_status_patch (so_encode ops current)
                   (so_encode ops (so_set_status ops current updated));
             case w of Inl e \<Rightarrow> ret (Inl e) | Inr _ \<Rightarrow> ret (Inr True) } }"

definition patch_status ::
    "('o, 's) status_ops \<Rightarrow> lib \<Rightarrow> nat \<Rightarrow> 'o \<Rightarrow> 's \<Rightarrow> (bool \<times> go_error option) prog" where
  "patch_status ops L retries obj desired =
     (if so_status ops obj = desired then ret (False, None)
      else do {
        r \<leftarrow> retry_on_conflict retries (patch_attempt ops L (so_key ops obj) desired);
        case r of
          Inl e \<Rightarrow> ret (False, Some e)
        | Inr changed \<Rightarrow> ret (changed, None) })"

subsection \<open>What every status write satisfies\<close>

definition same_but_status :: "('o, 's) status_ops \<Rightarrow> 'o \<Rightarrow> 'o \<Rightarrow> bool" where
  "same_but_status ops a b \<longleftrightarrow> (\<exists>s. b = so_set_status ops a s)"

definition status_write_ok :: "('o, 's) status_ops \<Rightarrow> 's \<Rightarrow> call \<Rightarrow> bool" where
  \<comment> \<open>The call only reads, or writes the wanted status, up to its transition times, to an object of
     the observed generation, and changes nothing else of it.\<close>
  "status_write_ok ops desired c =
     (case c of
        Get k _ \<Rightarrow> k = so_kind ops
      | StatusPatch before after \<Rightarrow>
          (case (so_decode ops before, so_decode ops after) of
             (Some a, Some b) \<Rightarrow>
               so_generation ops a = so_observed ops desired
             \<and> so_generation ops b = so_observed ops (so_status ops b)
             \<and> (\<exists>cs. so_status ops b = so_set_conditions ops desired cs
                  \<and> map (\<lambda>c. c\<lparr>ctransition := 0\<rparr>) cs =
                    map (\<lambda>c. c\<lparr>ctransition := 0\<rparr>) (so_conditions ops desired))
             \<and> b = so_set_status ops a (so_status ops b)
             \<and> so_status ops b \<noteq> so_status ops a
           | _ \<Rightarrow> False)
      | _ \<Rightarrow> False)"

lemma keep_transition_same:
  "map (\<lambda>c. c\<lparr>ctransition := 0\<rparr>) (map (keep_transition L cur) cs) = map (\<lambda>c. c\<lparr>ctransition := 0\<rparr>) cs"
  by (auto simp: keep_transition_def split: option.split)

locale status_object =
  fixes ops :: "('o, 's) status_ops"
  assumes decode_encode: "so_decode ops (so_encode ops v) = Some v"
    and status_set: "so_status ops (so_set_status ops v s) = s"
    and generation_set: "so_generation ops (so_set_status ops v s) = so_generation ops v"
    and observed_set: "so_observed ops (so_set_conditions ops s cs) = so_observed ops s"
begin

lemma attempt_makes: "makes (\<lambda>c r. status_write_ok ops desired c) (patch_attempt ops L key desired)"
proof -
  have patch: "status_write_ok ops desired (StatusPatch (so_encode ops a) (so_encode ops
      (so_set_status ops a (so_set_conditions ops desired
        (map (keep_transition L cur) (so_conditions ops desired))))))"
    if "so_generation ops a = so_observed ops desired"
      "so_status ops a \<noteq> so_set_conditions ops desired
        (map (keep_transition L cur) (so_conditions ops desired))" for a cur
    using that keep_transition_same [of L cur "so_conditions ops desired"]
    by (auto simp: status_write_ok_def decode_encode status_set generation_set observed_set)
  show ?thesis
    unfolding patch_attempt_def Let_def
    by (auto intro!: makes_bind makes_client makes_if patch split: sum.split
        simp: status_write_ok_def [of _ _ "Get _ _"])
qed

lemma patch_makes: "makes (\<lambda>c r. status_write_ok ops desired c) (patch_status ops L n obj desired)"
  unfolding patch_status_def
  by (auto intro!: makes_bind makes_retry attempt_makes split: sum.split)

text \<open>Nothing is asked of the API when the status is already the wanted one.\<close>

lemma patch_idle: "so_status ops obj = desired \<Longrightarrow> patch_status ops L n obj desired = ret (False, None)"
  by (simp add: patch_status_def)

end

text \<open>Deletions, patches of the object itself and writes of other objects are not among these calls.\<close>

lemma status_write_ok_cases:
  "status_write_ok ops desired c \<Longrightarrow> (\<exists>k key. c = Get k key) \<or> (\<exists>a b. c = StatusPatch a b)"
  by (cases c) (auto simp: status_write_ok_def)

end
