(* ===== verification/Team_Controller.thy ===== *)
theory Team_Controller
  imports Team_Policy Team_Resources Status
begin

section \<open>The Team controller\<close>

text \<open>
  \<open>internal/controller/team_controller.go\<close>: the reconcile pass of a Team over the API, its four stages, the
  ownership check of every generated object, the ordered deletion of Applications, Databases and
  the Namespace, and the statuses it reports. A reconcile pass returns the requeue delay (nanoseconds, zero for
  none) and the error, if any.
\<close>

type_synonym reconcile_result = "int \<times> go_error option"

definition TeamFinalizer :: string where "TeamFinalizer = ''steadystate.dev/team-finalizer''"

datatype teamReconcileStage =
  teamStageNamespace | teamStageResourcePolicy | teamStageRBAC | teamStageNetworkPolicy

fun stage_number :: "teamReconcileStage \<Rightarrow> nat" where
  "stage_number teamStageNamespace = 0"
| "stage_number teamStageResourcePolicy = 1"
| "stage_number teamStageRBAC = 2"
| "stage_number teamStageNetworkPolicy = 3"

text \<open>The stages in the order of their constants.\<close>

instantiation teamReconcileStage :: linorder
begin

definition less_eq_teamReconcileStage :: "teamReconcileStage \<Rightarrow> teamReconcileStage \<Rightarrow> bool" where
  "less_eq_teamReconcileStage a b \<longleftrightarrow> stage_number a \<le> stage_number b"

definition less_teamReconcileStage :: "teamReconcileStage \<Rightarrow> teamReconcileStage \<Rightarrow> bool" where
  "less_teamReconcileStage a b \<longleftrightarrow> stage_number a < stage_number b"

instance
proof
  fix a b :: teamReconcileStage
  show "a \<le> b \<Longrightarrow> b \<le> a \<Longrightarrow> a = b"
    by (cases a; cases b) (simp_all add: less_eq_teamReconcileStage_def)
qed (auto simp: less_eq_teamReconcileStage_def less_teamReconcileStage_def)

end

lemmas stage_order = less_eq_teamReconcileStage_def less_teamReconcileStage_def

subsection \<open>Statuses\<close>

definition conditionTeamNamespaceReady :: string where
  "conditionTeamNamespaceReady = ''NamespaceReady''"
definition conditionTeamResourcePolicyReady :: string where
  "conditionTeamResourcePolicyReady = ''ResourcePolicyReady''"
definition conditionTeamRBACReady :: string where
  "conditionTeamRBACReady = ''RBACReady''"
definition conditionTeamNetworkPolicyReady :: string where
  "conditionTeamNetworkPolicyReady = ''NetworkPolicyReady''"
definition conditionTeamReady :: string where "conditionTeamReady = ''Ready''"

lemmas team_condition_defs =
  conditionTeamNamespaceReady_def conditionTeamResourcePolicyReady_def conditionTeamRBACReady_def
  conditionTeamNetworkPolicyReady_def conditionTeamReady_def

definition setTeamCondition ::
    "lib \<Rightarrow> int \<Rightarrow> string \<Rightarrow> cond_status \<Rightarrow> string \<Rightarrow> string \<Rightarrow> team_status \<Rightarrow> team_status" where
  "setTeamCondition L generation conditionType conditionStatus reason message status =
     status\<lparr>ts_conditions := set_status_condition L (ts_conditions status)
       (mk_condition conditionType conditionStatus generation reason message)\<rparr>"

definition baseTeamStatus :: "team \<Rightarrow> team_status" where
  "baseTeamStatus t = (tstatus t)\<lparr>ts_observedGeneration := ogeneration t,
     ts_namespace := TeamNamespaceName t\<rparr>"

definition readyTeamStatus :: "lib \<Rightarrow> team \<Rightarrow> team_status" where
  "readyTeamStatus L t =
     (let g = ogeneration t;
          s0 = baseTeamStatus t;
          s1 = setTeamCondition L g conditionTeamNamespaceReady CondTrue ''NamespaceReconciled''
                 ''Managed Namespace exists and has verified ownership'' s0;
          s2 = setTeamCondition L g conditionTeamResourcePolicyReady CondTrue ''ResourcePolicyReconciled''
                 ''ResourceQuota and LimitRange match the Team specification'' s1;
          s3 = setTeamCondition L g conditionTeamRBACReady CondTrue ''RBACReconciled''
                 ''ServiceAccount and RoleBinding match the installed Team owner ClusterRole'' s2;
          s4 = setTeamCondition L g conditionTeamNetworkPolicyReady CondTrue ''NetworkPolicyReconciled''
                 ''Default deny, DNS, Envoy Gateway, and Prometheus policies are enforced'' s3 in
      setTeamCondition L g conditionTeamReady CondTrue ''TeamReady''
        ''All Team boundary resources are reconciled'' s4)"

definition team_layers :: "string list" where
  "team_layers = [conditionTeamNamespaceReady, conditionTeamResourcePolicyReady,
     conditionTeamRBACReady, conditionTeamNetworkPolicyReady]"

definition invalidTeamStatus :: "lib \<Rightarrow> team \<Rightarrow> string \<Rightarrow> team_status" where
  "invalidTeamStatus L t message =
     (let status = fold (\<lambda>ty. setTeamCondition L (ogeneration t) ty CondFalse ''InvalidConfiguration'' message)
            team_layers (baseTeamStatus t) in
      setTeamCondition L (ogeneration t) conditionTeamReady CondFalse ''InvalidConfiguration'' message
        status)"

definition failed_layer ::
    "lib \<Rightarrow> team \<Rightarrow> teamReconcileStage \<Rightarrow> string \<Rightarrow> string \<Rightarrow> string \<times> teamReconcileStage \<times> string
     \<Rightarrow> team_status \<Rightarrow> team_status" where
  "failed_layer L t failedStage reason message = (\<lambda>(ty, stage, successReason) status.
     if stage < failedStage then
       setTeamCondition L (ogeneration t) ty CondTrue successReason ''Boundary layer is reconciled'' status
     else if stage = failedStage then
       setTeamCondition L (ogeneration t) ty CondFalse reason message status
     else
       setTeamCondition L (ogeneration t) ty CondUnknown ''Blocked''
         ''Waiting for an earlier Team boundary layer'' status)"

definition failedTeamStatus ::
    "lib \<Rightarrow> team \<Rightarrow> teamReconcileStage \<Rightarrow> string \<Rightarrow> string \<Rightarrow> team_status" where
  "failedTeamStatus L t failedStage reason message =
     (let status = fold (failed_layer L t failedStage reason message)
            [(conditionTeamNamespaceReady, teamStageNamespace, ''NamespaceReconciled''),
             (conditionTeamResourcePolicyReady, teamStageResourcePolicy, ''ResourcePolicyReconciled''),
             (conditionTeamRBACReady, teamStageRBAC, ''RBACReconciled''),
             (conditionTeamNetworkPolicyReady, teamStageNetworkPolicy, ''NetworkPolicyReconciled'')]
            (baseTeamStatus t) in
      setTeamCondition L (ogeneration t) conditionTeamReady CondFalse reason message status)"

definition terminatingTeamStatus :: "lib \<Rightarrow> team \<Rightarrow> team_status" where
  "terminatingTeamStatus L t =
     fold (\<lambda>ty. setTeamCondition L (ogeneration t) ty CondFalse ''Terminating''
             ''Managed Namespace deletion is in progress'')
       (team_layers @ [conditionTeamReady]) (baseTeamStatus t)"

definition team_ops :: "(team, team_status) status_ops" where
  "team_ops = \<lparr>so_kind = KTeam, so_decode = object_team, so_encode = team_object,
     so_key = (\<lambda>t. ([], oname t)), so_generation = ogeneration,
     so_status = tstatus, so_set_status = (\<lambda>t s. t\<lparr>tstatus := s\<rparr>),
     so_observed = ts_observedGeneration, so_conditions = ts_conditions,
     so_set_conditions = (\<lambda>s cs. s\<lparr>ts_conditions := cs\<rparr>)\<rparr>"

definition patchTeamStatus ::
    "lib \<Rightarrow> nat \<Rightarrow> team \<Rightarrow> team_status \<Rightarrow> (bool \<times> go_error option) prog" where
  "patchTeamStatus L retries t desired = patch_status team_ops L retries t desired"

definition team_event :: "team \<Rightarrow> string \<Rightarrow> string \<Rightarrow> string \<Rightarrow> unit prog" where
  "team_event t eventType reason message = send_event (team_object t) eventType reason message"

subsection \<open>Generated objects\<close>

definition mergeStringMap :: "strmap \<Rightarrow> strmap \<Rightarrow> strmap" where
  "mergeStringMap current desired = current ++ desired"

definition mergeManagedMetadata :: "kobject \<Rightarrow> kobject \<Rightarrow> kobject" where
  "mergeManagedMetadata current desired =
     current\<lparr>olabels := mergeStringMap (olabels current) (olabels desired),
       oannotations := mergeStringMap (oannotations current) (oannotations desired)\<rparr>"

definition managedByTeam :: "kobject \<Rightarrow> team \<Rightarrow> bool" where
  "managedByTeam obj t \<longleftrightarrow> map_get (olabels obj) TeamLabelKey = oname t
     \<and> map_get (oannotations obj) TeamUIDAnnotationKey = ouid t"

definition ownedByTeamUID :: "kobject \<Rightarrow> team \<Rightarrow> bool" where
  "ownedByTeamUID obj t \<longleftrightarrow> map_get (oannotations obj) TeamUIDAnnotationKey = ouid t"

definition key_text :: "nsname \<Rightarrow> string" where
  "key_text key = fst key @ ''/'' @ snd key"

definition ownershipConflictError :: "string \<Rightarrow> nsname \<Rightarrow> go_error" where
  "ownershipConflictError kindname key = \<lparr>err_reason = OwnershipConflict,
     err_text = kindname @ '' '' @ key_text key
       @ '' already exists without matching Team label and UID ownership''\<rparr>"

definition managed_upsert ::
    "string \<Rightarrow> kobject \<Rightarrow> (body \<Rightarrow> body) \<Rightarrow> kobject \<Rightarrow> (bool \<times> go_error option) prog" where
  "managed_upsert kindname desired mutate current = do {
     r \<leftarrow> create_or_update current
           (\<lambda>obj. let merged = mergeManagedMetadata obj desired in
              Inr (merged\<lparr>kbody := mutate (kbody merged)\<rparr>));
     case r of
       Inl e \<Rightarrow> ret (False, Some (wrap_error (kindname @ '' '' @ key_text (okey desired) @ '': '') e []))
     | Inr (op, written) \<Rightarrow> ret (op \<noteq> OpNone, None) }"

definition reconcileManagedObject ::
    "team \<Rightarrow> string \<Rightarrow> body \<Rightarrow> kobject \<Rightarrow> (body \<Rightarrow> body) \<Rightarrow> (bool \<times> go_error option) prog" where
  \<comment> \<open>\<open>blank\<close> is the body of the zero object the caller passes as \<open>current\<close>, \<open>mutate\<close> its closure.\<close>
  "reconcileManagedObject t kindname blank desired mutate = do {
     r \<leftarrow> client_get (kind_of blank) (okey desired);
     case r of
       Inl e \<Rightarrow>
         if err_reason e \<noteq> NotFound then ret (False, Some e)
         else managed_upsert kindname desired mutate
           (with_body (new_meta (onamespace desired) (oname desired)) blank)
     | Inr current \<Rightarrow>
         if \<not> ownedByTeamUID current t then
           ret (False, Some (ownershipConflictError kindname (okey desired)))
         else managed_upsert kindname desired mutate current }"

definition reconcileNamespace :: "team \<Rightarrow> (bool \<times> go_error option) prog" where
  "reconcileNamespace t =
     reconcileManagedObject t ''Namespace'' BNamespace (TeamNamespace t) (\<lambda>b. b)"

definition reconcileResourcePolicy :: "lib \<Rightarrow> team \<Rightarrow> (bool \<times> go_error option) prog" where
  "reconcileResourcePolicy L t = do {
     (changed, err) \<leftarrow> reconcileManagedObject t ''ResourceQuota'' (BResourceQuota Map.empty)
        (TeamResourceQuota t) (\<lambda>_. kbody (TeamResourceQuota t));
     let mutated = changed in
     if err \<noteq> None then ret (mutated, err)
     else do {
       (changed, err) \<leftarrow> reconcileManagedObject t ''LimitRange'' (BLimitRange [])
          (TeamLimitRange L t) (\<lambda>_. kbody (TeamLimitRange L t));
       ret (mutated \<or> changed, err) } }"

definition rules_of :: "kobject \<Rightarrow> policy_rule list" where
  "rules_of obj = (case kbody obj of BClusterRole rules \<Rightarrow> rules | _ \<Rightarrow> [])"

definition reconcileRBAC :: "team \<Rightarrow> (bool \<times> go_error option) prog" where
  "reconcileRBAC t = do {
     r \<leftarrow> client_get KClusterRole ([], TeamOwnerName);
     case r of
       Inl e \<Rightarrow> ret (False, Some (wrap_error ''installed Team owner ClusterRole: '' e []))
     | Inr installedRole \<Rightarrow>
         if rules_of installedRole \<noteq> TeamOwnerRules then
           ret (False, Some (plain_error
             ''installed Team owner ClusterRole rules do not match the protected platform contract''))
         else do {
           (changed, err) \<leftarrow> reconcileManagedObject t ''ServiceAccount'' (BServiceAccount None)
              (TeamServiceAccount t) (\<lambda>_. kbody (TeamServiceAccount t));
           let mutated = changed in
           if err \<noteq> None then ret (mutated, err)
           else do {
             (changed, err) \<leftarrow> reconcileManagedObject t ''RoleBinding''
                (BRoleBinding [] \<lparr>rr_apiGroup = [], rr_kind = [], rr_name = []\<rparr>)
                (TeamRoleBinding t) (\<lambda>_. kbody (TeamRoleBinding t));
             ret (mutated \<or> changed, err) } } }"

definition blank_policy :: body where
  "blank_policy = BNetworkPolicy \<lparr>np_selector = match_labels Map.empty, np_types = [],
     np_ingress = [], np_egress = []\<rparr>"

fun network_policy_loop :: "team \<Rightarrow> bool \<Rightarrow> kobject list \<Rightarrow> (bool \<times> go_error option) prog" where
  "network_policy_loop t mutated [] = ret (mutated, None)"
| "network_policy_loop t mutated (desired # rest) = do {
     (changed, err) \<leftarrow> reconcileManagedObject t ''NetworkPolicy'' blank_policy desired
        (\<lambda>_. kbody desired);
     if err \<noteq> None then ret (mutated \<or> changed, err)
     else network_policy_loop t (mutated \<or> changed) rest }"

definition reconcileNetworkPolicy :: "team \<Rightarrow> (bool \<times> go_error option) prog" where
  "reconcileNetworkPolicy t = network_policy_loop t False (team_network_policies t)"

subsection \<open>Deletion\<close>

definition requeue_delay :: int where "requeue_delay = 2 * 10 ^ 9"

fun delete_applications :: "kobject list \<Rightarrow> go_error option prog" where
  "delete_applications [] = ret None"
| "delete_applications (item # items) =
     (if \<not> odeleting item then do {
        err \<leftarrow> client_delete KApplication (okey item);
        case err of
          Some e \<Rightarrow> if err_reason e \<noteq> NotFound then ret (Some e) else delete_applications items
        | None \<Rightarrow> delete_applications items }
      else delete_applications items)"

definition is_true :: "string \<Rightarrow> bool" where
  "is_true v = equal_fold v ''true''"

definition delete_database :: "kobject \<Rightarrow> go_error option prog" where
  "delete_database item =
     (if \<not> odeleting item then do {
        err \<leftarrow> client_delete KDatabase (okey item);
        case err of
          Some e \<Rightarrow> if err_reason e \<noteq> NotFound then ret (Some e) else ret None
        | None \<Rightarrow> ret None }
      else ret None)"

fun delete_databases :: "team \<Rightarrow> kobject list \<Rightarrow> go_error option prog" where
  "delete_databases t [] = ret None"
| "delete_databases t (item # items) =
     (if is_true (map_get (oannotations t) ForceDeleteAnnotationKey)
         \<and> \<not> is_true (map_get (oannotations item) ForceDeleteAnnotationKey) then do {
        r \<leftarrow> client_patch item
              (item\<lparr>oannotations := (oannotations item)(ForceDeleteAnnotationKey \<mapsto> ''true'')\<rparr>);
        case r of
          Inl e \<Rightarrow> ret (Some e)
        | Inr patched \<Rightarrow> do {
            err \<leftarrow> delete_database patched;
            if err \<noteq> None then ret err else delete_databases t items } }
      else do {
        err \<leftarrow> delete_database item;
        if err \<noteq> None then ret err else delete_databases t items })"

definition delete_namespace_step :: "team \<Rightarrow> kobject \<Rightarrow> reconcile_result prog" where
  \<comment> \<open>The end of \<open>reconcileDeletion\<close>, once no Application and no Database is left.\<close>
  "delete_namespace_step t namespace =
     (if \<not> odeleting namespace then do {
        err \<leftarrow> client_delete KNamespace (okey namespace);
        if err \<noteq> None \<and> err_reason (the err) \<noteq> NotFound then ret (0, err)
        else do {
          _ \<leftarrow> team_event t EventTypeNormal ''NamespaceDeletionRequested''
                 (''Deletion requested for managed Namespace '' @ oname namespace);
          ret (requeue_delay, None) } }
      else ret (requeue_delay, None))"

definition delete_databases_step :: "team \<Rightarrow> kobject \<Rightarrow> reconcile_result prog" where
  "delete_databases_step t namespace = do {
     r \<leftarrow> client_list KDatabase (Some (oname namespace)) Map.empty;
     case r of
       Inl e \<Rightarrow> ret (0, Some e)
     | Inr databases \<Rightarrow>
         if length databases > 0 then do {
           err \<leftarrow> delete_databases t databases;
           if err \<noteq> None then ret (0, err)
           else do {
             _ \<leftarrow> team_event t EventTypeNormal ''DatabaseDeletionRequested''
                    ''Waiting for Team Databases and final backups before Namespace deletion'';
             ret (requeue_delay, None) } }
         else delete_namespace_step t namespace }"

definition delete_content_step :: "team \<Rightarrow> kobject \<Rightarrow> reconcile_result prog" where
  "delete_content_step t namespace = do {
     r \<leftarrow> client_list KApplication (Some (oname namespace)) Map.empty;
     case r of
       Inl e \<Rightarrow> ret (0, Some e)
     | Inr applications \<Rightarrow>
         if length applications > 0 then do {
           err \<leftarrow> delete_applications applications;
           if err \<noteq> None then ret (0, err)
           else do {
             _ \<leftarrow> team_event t EventTypeNormal ''ApplicationDeletionRequested''
                    ''Waiting for Team Applications to finalize before Databases'';
             ret (requeue_delay, None) } }
         else delete_databases_step t namespace }"

definition release_team_finalizer :: "lib \<Rightarrow> team \<Rightarrow> reconcile_result prog" where
  "release_team_finalizer L t = do {
     r \<leftarrow> client_patch (team_object t)
           (team_object (t\<lparr>ofinalizers := remove_finalizer L (ofinalizers t) TeamFinalizer\<rparr>));
     case decoded object_team r of
       Inl e \<Rightarrow> ret (0, Some e)
     | Inr patched \<Rightarrow> do {
         _ \<leftarrow> team_event patched EventTypeNormal ''FinalizerReleased''
                ''Managed Team namespace is absent and finalization is complete'';
         ret (0, None) } }"

definition reconcileDeletion :: "lib \<Rightarrow> nat \<Rightarrow> team \<Rightarrow> reconcile_result prog" where
  "reconcileDeletion L n t =
     (if \<not> contains_finalizer L (ofinalizers t) TeamFinalizer then ret (0, None)
      else do {
        r \<leftarrow> client_get KNamespace ([], TeamNamespaceName t);
        case r of
          Inl e \<Rightarrow>
            if err_reason e = NotFound then release_team_finalizer L t else ret (0, Some e)
        | Inr namespace \<Rightarrow>
            if \<not> managedByTeam namespace t then
              let message = ''refusing to delete Namespace '' @ oname namespace
                    @ '' because its Team label or UID does not match'' in do {
                (changed, statusErr) \<leftarrow> patchTeamStatus L n t
                   (failedTeamStatus L t teamStageNamespace ''OwnershipConflict'' message);
                _ \<leftarrow> (if changed then team_event t EventTypeWarning ''OwnershipConflict'' message
                      else ret ());
                ret (0, statusErr) }
            else do {
              (_, err) \<leftarrow> patchTeamStatus L n t (terminatingTeamStatus L t);
              if err \<noteq> None then ret (0, err)
              else delete_content_step t namespace } })"

subsection \<open>The reconcile pass\<close>

definition handleReconcileFailure ::
    "lib \<Rightarrow> nat \<Rightarrow> team \<Rightarrow> teamReconcileStage \<Rightarrow> go_error \<Rightarrow> reconcile_result prog" where
  "handleReconcileFailure L n t stage reconcileErr =
     (let reason = (if err_reason reconcileErr = OwnershipConflict then ''OwnershipConflict''
                    else ''ReconciliationFailed'') in do {
        (changed, statusErr) \<leftarrow> patchTeamStatus L n t
           (failedTeamStatus L t stage reason (err_text reconcileErr));
        _ \<leftarrow> (if changed then team_event t EventTypeWarning reason (err_text reconcileErr)
              else ret ());
        if statusErr \<noteq> None then
          ret (0, Some (wrap_error ''reconcile Team: '' reconcileErr
                          (''; patch status: '' @ err_text (the statusErr))))
        else if reason = ''OwnershipConflict'' then ret (0, None)
        else ret (0, Some reconcileErr) })"

definition team_ready_step :: "lib \<Rightarrow> nat \<Rightarrow> bool \<Rightarrow> team \<Rightarrow> reconcile_result prog" where
  \<comment> \<open>The end of \<open>Reconcile\<close>, when every stage succeeded.\<close>
  "team_ready_step L n mutated t = do {
     (statusChanged, err) \<leftarrow> patchTeamStatus L n t (readyTeamStatus L t);
     if err \<noteq> None then ret (0, err)
     else do {
       _ \<leftarrow> (if mutated \<or> statusChanged then team_event t EventTypeNormal ''Reconciled''
               ''Team namespace, resource policy, RBAC, and network policy are reconciled''
             else ret ());
       ret (0, None) } }"

definition run_stage ::
    "lib \<Rightarrow> nat \<Rightarrow> team \<Rightarrow> teamReconcileStage \<Rightarrow> (bool \<times> go_error option) prog \<Rightarrow> bool
     \<Rightarrow> (bool \<Rightarrow> reconcile_result prog) \<Rightarrow> reconcile_result prog" where
  \<comment> \<open>\<open>changed, err := stage(); mutated = mutated || changed; if err != nil { return failure }\<close>, then \<open>next\<close>\<close>
  "run_stage L n t stage act mutated next_stage = do {
     (changed, err) \<leftarrow> act;
     case err of
       Some e \<Rightarrow> handleReconcileFailure L n t stage e
     | None \<Rightarrow> next_stage (mutated \<or> changed) }"

definition reconcile_stages :: "lib \<Rightarrow> nat \<Rightarrow> bool \<Rightarrow> team \<Rightarrow> reconcile_result prog" where
  \<comment> \<open>\<open>Reconcile\<close> from the namespace stage on.\<close>
  "reconcile_stages L n mutated t =
     run_stage L n t teamStageNamespace (reconcileNamespace t) mutated (\<lambda>mutated.
     run_stage L n t teamStageResourcePolicy (reconcileResourcePolicy L t) mutated (\<lambda>mutated.
     run_stage L n t teamStageRBAC (reconcileRBAC t) mutated (\<lambda>mutated.
     run_stage L n t teamStageNetworkPolicy (reconcileNetworkPolicy t) mutated (\<lambda>mutated.
     team_ready_step L n mutated t))))"

definition ensure_team_finalizer :: "lib \<Rightarrow> team \<Rightarrow> (go_error + team \<times> bool) prog" where
  "ensure_team_finalizer L t =
     (if \<not> contains_finalizer L (ofinalizers t) TeamFinalizer then do {
        r \<leftarrow> client_patch (team_object t)
              (team_object (t\<lparr>ofinalizers := add_finalizer L (ofinalizers t) TeamFinalizer\<rparr>));
        case decoded object_team r of
          Inl e \<Rightarrow> ret (Inl e)
        | Inr patched \<Rightarrow> ret (Inr (patched, True)) }
      else ret (Inr (t, False)))"

definition reject_team :: "lib \<Rightarrow> nat \<Rightarrow> team \<Rightarrow> team_error \<Rightarrow> reconcile_result prog" where
  "reject_team L n t err = do {
     (changed, statusErr) \<leftarrow> patchTeamStatus L n t (invalidTeamStatus L t (team_error_text L err));
     _ \<leftarrow> (if changed then team_event t EventTypeWarning ''InvalidConfiguration''
             (team_error_text L err) else ret ());
     ret (0, statusErr) }"

definition Team_Reconcile :: "lib \<Rightarrow> nat \<Rightarrow> nsname \<Rightarrow> reconcile_result prog" where
  "Team_Reconcile L n req = do {
     r \<leftarrow> client_get KTeam req;
     case decoded object_team r of
       Inl e \<Rightarrow> ret (0, ignore_not_found e)
     | Inr t \<Rightarrow>
         if odeleting t then reconcileDeletion L n t
         else do {
           f \<leftarrow> ensure_team_finalizer L t;
           case f of
             Inl e \<Rightarrow> ret (0, Some e)
           | Inr (t, mutated) \<Rightarrow>
               (case Team_Validate L t of
                  Some err \<Rightarrow> reject_team L n t err
                | None \<Rightarrow> reconcile_stages L n mutated t) } }"

subsection \<open>Requests for a Team\<close>

definition teamRequestsForObject :: "kobject \<Rightarrow> nsname list" where
  "teamRequestsForObject obj =
     (let teamName = map_get (olabels obj) TeamLabelKey in
      if teamName = [] then [] else [([], teamName)])"

definition teamRequestForPlatformObject :: "kobject \<Rightarrow> nsname list" where
  "teamRequestForPlatformObject obj =
     (let namespace = onamespace obj in
      if \<not> has_prefix namespace TeamNamespacePrefix then []
      else let teamName = trim_prefix namespace TeamNamespacePrefix in
        if teamName = [] then [] else [([], teamName)])"

definition teamRequestsForOwnerClusterRole :: "kobject \<Rightarrow> nsname list prog" where
  "teamRequestsForOwnerClusterRole obj =
     (if oname obj \<noteq> TeamOwnerName then ret []
      else do {
        r \<leftarrow> client_list KTeam None Map.empty;
        case r of
          Inl _ \<Rightarrow> ret []
        | Inr teams \<Rightarrow> ret (map (\<lambda>t. ([], oname t)) teams) })"

subsection \<open>What the statuses say\<close>

interpretation team_status_object: status_object team_ops
  by unfold_locales (simp_all add: team_ops_def)

lemma setTeamCondition_reads [status_simps]:
  "conditions_ok L \<Longrightarrow>
   cond_of L (ts_conditions (setTeamCondition L g ty st reason message status)) ty' =
     (if ty' = ty then Some (st, reason, message, g) else cond_of L (ts_conditions status) ty')"
  "ts_observedGeneration (setTeamCondition L g ty st reason message status) = ts_observedGeneration status"
  "ts_namespace (setTeamCondition L g ty st reason message status) = ts_namespace status"
  by (simp_all add: setTeamCondition_def cond_of_set)

lemma baseTeamStatus_reads [status_simps]:
  "ts_observedGeneration (baseTeamStatus t) = ogeneration t"
  "ts_namespace (baseTeamStatus t) = TeamNamespaceName t"
  by (simp_all add: baseTeamStatus_def)

lemma readyTeamStatus_reads:
  assumes "conditions_ok L" "ty \<in> set (team_layers @ [conditionTeamReady])"
  shows "\<exists>reason message. cond_of L (ts_conditions (readyTeamStatus L t)) ty
    = Some (CondTrue, reason, message, ogeneration t)"
  using assms
  by (auto simp: readyTeamStatus_def Let_def status_simps team_layers_def team_condition_defs)

fun layer_of :: "teamReconcileStage \<Rightarrow> string" where
  "layer_of teamStageNamespace = conditionTeamNamespaceReady"
| "layer_of teamStageResourcePolicy = conditionTeamResourcePolicyReady"
| "layer_of teamStageRBAC = conditionTeamRBACReady"
| "layer_of teamStageNetworkPolicy = conditionTeamNetworkPolicyReady"

lemma failedTeamStatus_reads:
  assumes "conditions_ok L"
  shows "map_option fst (cond_of L (ts_conditions (failedTeamStatus L t failed reason message)) (layer_of stage))
      = Some (if stage < failed then CondTrue else if stage = failed then CondFalse else CondUnknown)"
    and "cond_of L (ts_conditions (failedTeamStatus L t failed reason message)) conditionTeamReady
      = Some (CondFalse, reason, message, ogeneration t)"
    and "cond_of L (ts_conditions (failedTeamStatus L t failed reason message)) (layer_of failed)
      = Some (CondFalse, reason, message, ogeneration t)"
  using assms
  by (cases failed; cases stage;
      simp add: failedTeamStatus_def failed_layer_def Let_def status_simps team_condition_defs stage_order)+

lemma not_ready_status:
  assumes "conditions_ok L"
  shows "cond_of L (ts_conditions (invalidTeamStatus L t m)) conditionTeamReady
      = Some (CondFalse, ''InvalidConfiguration'', m, ogeneration t)"
    and "cond_of L (ts_conditions (terminatingTeamStatus L t)) conditionTeamReady
      = Some (CondFalse, ''Terminating'', ''Managed Namespace deletion is in progress'', ogeneration t)"
  using assms
  by (simp_all add: invalidTeamStatus_def terminatingTeamStatus_def Let_def status_simps)

subsection \<open>The writes of a reconcile pass\<close>

lemma team_status_makes:
  assumes "\<And>c r. status_write_ok team_ops desired c \<Longrightarrow> C c r"
  shows "makes C (patchTeamStatus L n t desired)"
  using team_status_object.patch_makes [of desired L n t] assms
  unfolding patchTeamStatus_def makes_def by (metis (no_types, lifting) case_prodD case_prodI2)

lemma mergeStringMap_identity:
  "team_identity t desired \<Longrightarrow> team_identity t (mergeManagedMetadata cur desired)"
  by (simp add: team_identity_def mergeManagedMetadata_def mergeStringMap_def map_add_Some_iff)

lemma merge_body_identity:
  "team_identity t desired \<Longrightarrow> team_identity t ((mergeManagedMetadata cur desired)\<lparr>kbody := b\<rparr>)"
  using mergeStringMap_identity [of t desired cur] by (simp add: team_identity_def)

end
