(* ===== verification/Team_Safety.thy ===== *)
theory Team_Safety
  imports Team_Controller
begin

section \<open>What a Team reconcile pass may do, and in which order\<close>

text \<open>
  Two guards over the calls of a pass, proved for every answer the API may give. The deletion guard: the Namespace is
  deleted only when, in this pass, it was read with the Team's label and UID, and the listings of its
  Applications and then of its Databases came back empty; Databases only after the Applications are gone; the
  finalizer is released only after the Namespace was reported absent. The boundary guard: an object is
  upserted only if it was read with the UID of the Team or reported absent, every write carries the Team's identity, nothing is
  deleted, and a Ready status is written only after all ten boundary objects were written.
\<close>

subsection \<open>The deletion guard\<close>

definition team_deletion_guard :: "trace \<Rightarrow> call \<Rightarrow> bool" where
  "team_deletion_guard pre c = (case c of
     Delete k key \<Rightarrow>
       (\<exists>t ns. (Get KNamespace ([], TeamNamespaceName t), RObj ns) \<in> set pre \<and> odeleting t
         \<and> managedByTeam ns t
         \<and> (k = KNamespace \<longrightarrow> key = okey ns)
         \<and> (k = KDatabase \<or> k = KNamespace \<longrightarrow>
              (ListObjects KApplication (Some (oname ns)) Map.empty, RItems []) \<in> set pre)
         \<and> (k = KNamespace \<longrightarrow>
              (ListObjects KDatabase (Some (oname ns)) Map.empty, RItems []) \<in> set pre))
   | Patch before after \<Rightarrow>
       okind before = KTeam \<and> odeleting before \<longrightarrow>
         (\<exists>e. (Get KNamespace ([], TeamNamespacePrefix @ oname before), RErr e) \<in> set pre
           \<and> err_reason e = NotFound)
   | _ \<Rightarrow> True)"

definition managed_seen :: "team \<Rightarrow> kobject \<Rightarrow> session \<Rightarrow> bool" where
  "managed_seen t ns s \<longleftrightarrow> guarded team_deletion_guard (ses_trace s) \<and> odeleting t \<and> managedByTeam ns t
     \<and> (Get KNamespace ([], TeamNamespaceName t), RObj ns) \<in> set (ses_trace s)"

lemma guard_other [simp]:
  "team_deletion_guard pre (Get k key)" "team_deletion_guard pre (ListObjects k n ls)"
  "team_deletion_guard pre (Event k key a b m)" "team_deletion_guard pre (StatusPatch o1 o2)"
  "team_deletion_guard pre (UpsertRead o1)" "team_deletion_guard pre (UpsertWrite o1)"
  by (simp_all add: team_deletion_guard_def)

lemma managed_seen_extends:
  "managed_seen t ns s \<Longrightarrow> guarded team_deletion_guard (ses_trace s') \<Longrightarrow> extends s s' \<Longrightarrow> managed_seen t ns s'"
  by (auto simp: managed_seen_def dest: extends_mem)

lemma delete_namespace_step_guard:
  assumes "managed_seen t ns s"
    "(ListObjects KApplication (Some (oname ns)) Map.empty, RItems []) \<in> set (ses_trace s)"
    "(ListObjects KDatabase (Some (oname ns)) Map.empty, RItems []) \<in> set (ses_trace s)"
  shows "wp (delete_namespace_step t ns) (\<lambda>_ s. guarded team_deletion_guard (ses_trace s)) s"
proof -
  have "team_deletion_guard (ses_trace s) (Delete KNamespace (okey ns))"
    using assms unfolding managed_seen_def team_deletion_guard_def by auto
  then show ?thesis
    using assms(1) by (simp add: delete_namespace_step_def run_simps team_event_def managed_seen_def)
qed

lemma delete_database_guard:
  assumes "managed_seen t ns s"
    "(ListObjects KApplication (Some (oname ns)) Map.empty, RItems []) \<in> set (ses_trace s)"
    "\<And>a s'. managed_seen t ns s' \<Longrightarrow>
       (ListObjects KApplication (Some (oname ns)) Map.empty, RItems []) \<in> set (ses_trace s') \<Longrightarrow> Q a s'"
  shows "wp (delete_database item) Q s"
proof -
  have "team_deletion_guard (ses_trace s) (Delete KDatabase (okey item))"
    using assms unfolding managed_seen_def team_deletion_guard_def by auto
  then have "managed_seen t ns (log_call s (Delete KDatabase (okey item)))"
    using assms(1) by (simp add: managed_seen_def)
  then show ?thesis
    using assms by (auto simp: delete_database_def run_simps)
qed

lemma delete_databases_guard:
  assumes "managed_seen t ns s" "\<forall>obj \<in> set items. okind obj = KDatabase"
    "(ListObjects KApplication (Some (oname ns)) Map.empty, RItems []) \<in> set (ses_trace s)"
    "\<And>a s'. guarded team_deletion_guard (ses_trace s') \<Longrightarrow> Q a s'"
  shows "wp (delete_databases t items) Q s"
  using assms(1-3)
proof (induction items arbitrary: s)
  case Nil
  then show ?case using assms(4) by (simp add: run_simps managed_seen_def)
next
  case (Cons item items)
  have rest: "wp (delete_database obj) (\<lambda>err s'. wp (if err \<noteq> None then ret err else delete_databases t items) Q s') s'"
    if "managed_seen t ns s'"
      "(ListObjects KApplication (Some (oname ns)) Map.empty, RItems []) \<in> set (ses_trace s')" for obj s'
    by (rule delete_database_guard [OF that], rename_tac e s'', case_tac e)
      (use Cons.IH Cons.prems(2) assms(4) in \<open>auto simp: run_simps managed_seen_def\<close>)
  have g: "team_deletion_guard (ses_trace s) (Patch item obj)" for obj
    using Cons.prems(2) by (simp add: team_deletion_guard_def)
  then have p: "managed_seen t ns (log_call s (Patch item obj))" for obj
    using Cons.prems(1) by (simp add: managed_seen_def)
  show ?case
    unfolding delete_databases.simps wp_if wp_bind wp_client wp_case_sum
    using rest [of s] rest [OF p] p assms(4) Cons.prems by (auto simp: run_simps managed_seen_def)
qed

lemma delete_databases_step_guard:
  assumes "managed_seen t ns s"
    "(ListObjects KApplication (Some (oname ns)) Map.empty, RItems []) \<in> set (ses_trace s)"
  shows "wp (delete_databases_step t ns) (\<lambda>_ s. guarded team_deletion_guard (ses_trace s)) s"
proof -
  define c where "c = ListObjects KDatabase (Some (oname ns)) Map.empty"
  have m: "managed_seen t ns (log_call s c)" using assms(1) by (simp add: managed_seen_def c_def)
  have del: "wp (delete_databases t items) Q (log_call s c)"
    if "items_of KDatabase (answer s c) = Inr items"
      "\<And>a s'. guarded team_deletion_guard (ses_trace s') \<Longrightarrow> Q a s'" for items Q
    using that m assms(2) items_of_Inr by (intro delete_databases_guard [OF m]) auto
  have ns: "wp (delete_namespace_step t ns) (\<lambda>_ s. guarded team_deletion_guard (ses_trace s)) (log_call s c)"
    if "items_of KDatabase (answer s c) = Inr []"
    using that by (intro delete_namespace_step_guard [OF m]) (auto simp: c_def assms(2) dest: items_of_Inr)
  have g: "guarded team_deletion_guard (ses_trace s)" "team_deletion_guard (ses_trace s) c"
    using m by (simp_all add: managed_seen_def)
  show ?thesis
    unfolding delete_databases_step_def wp_bind wp_client c_def [symmetric]
    by (auto simp: run_simps team_event_def g intro!: ns del)
qed

lemma delete_applications_guard:
  assumes "managed_seen t ns s" "\<And>a s'. guarded team_deletion_guard (ses_trace s') \<Longrightarrow> Q a s'"
  shows "wp (delete_applications items) Q s"
  using assms(1)
proof (induction items arbitrary: s)
  case Nil
  then show ?case using assms(2) by (simp add: run_simps managed_seen_def)
next
  case (Cons item items)
  have "team_deletion_guard (ses_trace s) (Delete KApplication (okey item))"
    using Cons.prems unfolding managed_seen_def team_deletion_guard_def by auto
  then have "managed_seen t ns (log_call s (Delete KApplication (okey item)))"
    using Cons.prems by (simp add: managed_seen_def)
  with Cons assms(2) show ?case by (auto simp: run_simps managed_seen_def)
qed

lemma delete_content_step_guard:
  assumes "managed_seen t ns s"
  shows "wp (delete_content_step t ns) (\<lambda>_ s. guarded team_deletion_guard (ses_trace s)) s"
proof -
  define c where "c = ListObjects KApplication (Some (oname ns)) Map.empty"
  have m: "managed_seen t ns (log_call s c)" using assms(1) by (simp add: managed_seen_def c_def)
  have ns: "wp (delete_databases_step t ns) (\<lambda>_ s. guarded team_deletion_guard (ses_trace s)) (log_call s c)"
    if "items_of KApplication (answer s c) = Inr []"
    using that by (intro delete_databases_step_guard [OF m]) (auto simp: c_def dest: items_of_Inr)
  have g: "guarded team_deletion_guard (ses_trace s)" "team_deletion_guard (ses_trace s) c"
    using m by (simp_all add: managed_seen_def)
  show ?thesis
    unfolding delete_content_step_def wp_bind wp_client c_def [symmetric]
    by (auto simp: run_simps team_event_def g
        intro!: ns delete_applications_guard [OF m])
qed

lemma status_guard_makes:
  "makes (\<lambda>c r. \<forall>pre. team_deletion_guard pre c) (patchTeamStatus L n t desired)"
  by (rule team_status_makes) (auto dest!: status_write_ok_cases)

lemma reconcileDeletion_guard:
  assumes "odeleting t" "guarded team_deletion_guard (ses_trace s)"
  shows "wp (reconcileDeletion L n t) (\<lambda>_ s. guarded team_deletion_guard (ses_trace s)) s"
proof (cases "contains_finalizer L (ofinalizers t) TeamFinalizer")
  case False
  with assms show ?thesis by (simp add: reconcileDeletion_def run_simps)
next
  case True
  define c where "c = Get KNamespace ([], TeamNamespaceName t)"
  have g: "guarded team_deletion_guard (ses_trace s)" "team_deletion_guard (ses_trace s) c"
    using assms(2) by (simp_all add: c_def)
  have patch: "wp (patchTeamStatus L n t st) Q s'"
    if "guarded team_deletion_guard (ses_trace s')"
      "\<And>a s''. guarded team_deletion_guard (ses_trace s'') \<Longrightarrow> extends s' s'' \<Longrightarrow> Q a s''" for st Q s'
    using that by (intro wp_skip [OF status_guard_makes]) auto
  have release: "wp (release_team_finalizer L t) (\<lambda>_ s. guarded team_deletion_guard (ses_trace s)) (log_call s c)"
    if "object_of KNamespace (answer s c) = Inl e" "err_reason e = NotFound" for e
  proof -
    have "answer s c = RErr e" using that object_of_error by fastforce
    then have "team_deletion_guard (ses_trace (log_call s c)) (Patch (team_object t) obj)" for obj
      using that(2) by (auto simp: team_deletion_guard_def c_def team_object_def TeamNamespaceName_def
          objmeta.defs)
    with g show ?thesis
      by (simp add: release_team_finalizer_def run_simps team_event_def)
  qed
  have content: "wp (delete_content_step t ns) (\<lambda>_ s. guarded team_deletion_guard (ses_trace s)) s'"
    if "object_of KNamespace (answer s c) = Inr ns" "managedByTeam ns t"
      "guarded team_deletion_guard (ses_trace s')" "extends (log_call s c) s'" for ns s'
  proof (rule delete_content_step_guard)
    have "(c, RObj ns) \<in> set (ses_trace (log_call s c))"
      using that(1) by (auto simp: object_of_Inr)
    then show "managed_seen t ns s'"
      using that assms(1) extends_mem unfolding managed_seen_def c_def by blast
  qed
  show ?thesis
    unfolding reconcileDeletion_def wp_if wp_bind wp_client c_def [symmetric]
    using True release
    by (auto simp: run_simps Let_def team_event_def g intro!: patch content)
qed

lemma stage_deletion_makes:
  "makes (\<lambda>c r. \<forall>pre. team_deletion_guard pre c) (reconcile_stages L n m t)"
proof -
  have obj: "makes (\<lambda>c r. \<forall>pre. team_deletion_guard pre c) (reconcileManagedObject t k blank desired mutate)"
    for k blank desired mutate
    unfolding reconcileManagedObject_def managed_upsert_def
    by (auto intro!: makes_bind makes_client makes_create_or_update makes_if split: sum.split prod.split)
  have loop: "makes (\<lambda>c r. \<forall>pre. team_deletion_guard pre c) (network_policy_loop t m ps)" for m ps
    by (induction ps arbitrary: m) (auto intro!: makes_bind makes_if obj split: prod.split)
  show ?thesis
    unfolding reconcile_stages_def run_stage_def handleReconcileFailure_def team_ready_step_def Let_def
      reconcileNamespace_def reconcileResourcePolicy_def reconcileRBAC_def reconcileNetworkPolicy_def
      team_event_def
    by (auto intro!: makes_bind makes_client makes_if obj loop status_guard_makes
        split: sum.split prod.split option.split)
qed

lemma Team_Reconcile_deletion:
  "guarded team_deletion_guard (snd (run api (Team_Reconcile L n req)))"
proof (rule guarded_run)
  have reject: "makes (\<lambda>c r. \<forall>pre. team_deletion_guard pre c) (reject_team L n t e)" for t e
    unfolding reject_team_def team_event_def
    by (auto intro!: makes_bind makes_client makes_if status_guard_makes split: prod.split)
  have final: "wp (do { f \<leftarrow> ensure_team_finalizer L t;
           case f of
             Inl e \<Rightarrow> ret (0, Some e)
           | Inr (t, mutated) \<Rightarrow>
               (case Team_Validate L t of
                  Some err \<Rightarrow> reject_team L n t err
                | None \<Rightarrow> reconcile_stages L n mutated t) })
        (\<lambda>_ s. guarded team_deletion_guard (ses_trace s)) s"
    if s: "guarded team_deletion_guard (ses_trace s)" "\<not> odeleting t" for s t
  proof -
    have "team_deletion_guard (ses_trace s) (Patch (team_object t) obj)" for obj
      using s(2) by (simp add: team_deletion_guard_def team_object_def objmeta.defs)
    with s show ?thesis
      unfolding ensure_team_finalizer_def
      by (auto simp: run_simps intro!: wp_skip [OF reject, where P = team_deletion_guard]
          wp_skip [OF stage_deletion_makes, where P = team_deletion_guard])
  qed
  show "wp (Team_Reconcile L n req) (\<lambda>_ s. guarded team_deletion_guard (ses_trace s))
      \<lparr>ses_api = api, ses_trace = []\<rparr>"
    unfolding Team_Reconcile_def wp_bind [of "client_get _ _"] wp_client wp_case_sum wp_if
    by (auto simp: wp_return intro!: final reconcileDeletion_guard)
qed

subsection \<open>The boundary guard\<close>

definition boundary_objects :: "lib \<Rightarrow> team \<Rightarrow> kobject list" where
  "boundary_objects L t = [TeamNamespace t, TeamResourceQuota t, TeamLimitRange L t,
     TeamServiceAccount t, TeamRoleBinding t] @ team_network_policies t"

definition boundary_written :: "team \<Rightarrow> trace \<Rightarrow> kobject \<Rightarrow> bool" where
  \<comment> \<open>The object was written, successfully, with its name, its body and the identity of the Team.\<close>
  "boundary_written t tr obj \<longleftrightarrow>
     (\<exists>w op res. (UpsertWrite w, RWritten op res) \<in> set tr \<and> okey w = okey obj \<and> kbody w = kbody obj
        \<and> team_identity t w)"

definition owned_or_absent :: "team \<Rightarrow> trace \<Rightarrow> kobject \<Rightarrow> bool" where
  \<comment> \<open>The object was read and carries the UID of the Team, or was reported absent.\<close>
  "owned_or_absent t tr obj \<longleftrightarrow>
     (\<exists>key. (Get (okind obj) key, RObj obj) \<in> set tr \<and> ownedByTeamUID obj t)
   \<or> (\<exists>e. (Get (okind obj) (okey obj), RErr e) \<in> set tr \<and> err_reason e = NotFound)"

definition boundary_guard :: "bool \<Rightarrow> lib \<Rightarrow> team \<Rightarrow> trace \<Rightarrow> call \<Rightarrow> bool" where
  "boundary_guard honest L t pre c = (case c of
     UpsertRead obj \<Rightarrow> owned_or_absent t pre obj
   | UpsertWrite obj \<Rightarrow> team_identity t obj
   | Delete _ _ \<Rightarrow> False
   | Patch _ _ \<Rightarrow> False
   | StatusPatch _ after \<Rightarrow>
       honest \<longrightarrow> (\<forall>u. object_team after = Some u \<longrightarrow>
         map_option fst (cond_of L (ts_conditions (tstatus u)) conditionTeamReady) = Some CondTrue \<longrightarrow>
         (\<forall>obj \<in> set (boundary_objects L t). boundary_written t pre obj))
   | _ \<Rightarrow> True)"

lemma boundary_guard_simps [simp]:
  "boundary_guard h L t pre (Get k key)" "boundary_guard h L t pre (ListObjects k n ls)"
  "boundary_guard h L t pre (Event k key a b m)"
  "boundary_guard h L t pre (UpsertRead obj) = owned_or_absent t pre obj"
  "boundary_guard h L t pre (UpsertWrite obj) = team_identity t obj"
  by (simp_all add: boundary_guard_def)


lemma mergeManaged_key [simp]:
  "okey (mergeManagedMetadata cur desired) = okey cur"
  "kbody (mergeManagedMetadata cur desired) = kbody cur"
  by (simp_all add: mergeManagedMetadata_def okey_def)










lemma boundary_kinds [simp]:
  "okind (TeamNamespace t) = KNamespace" "okind (TeamResourceQuota t) = KResourceQuota"
  "okind (TeamLimitRange L t) = KLimitRange" "okind (TeamServiceAccount t) = KServiceAccount"
  "okind (TeamRoleBinding t) = KRoleBinding" "kbody (TeamNamespace t) = BNamespace"
  by (simp_all add: builder_defs Let_def)
















subsection \<open>The ownership check is made on an earlier read\<close>

text \<open>
  \<open>reconcileManagedObject\<close> checks the owner on its own read; \<open>CreateOrUpdate\<close> then reads the object again and the closure
  does not look at the owner. An object that another party creates between the two reads is taken over.
\<close>

definition foreign_object :: "team \<Rightarrow> kobject \<Rightarrow> kobject" where
  "foreign_object t desired =
     desired\<lparr>oannotations := [TeamUIDAnnotationKey \<mapsto> ouid t @ ''-other''], ouid := ''foreign''\<rparr>"

definition racing_api :: "team \<Rightarrow> kobject \<Rightarrow> (call \<times> resp) list \<Rightarrow> call \<Rightarrow> resp" where
  "racing_api t desired tr c = (case c of
     Get k key \<Rightarrow> RErr \<lparr>err_reason = NotFound, err_text = ''not found''\<rparr>
   | UpsertRead obj \<Rightarrow> RObj (foreign_object t desired)
   | UpsertWrite obj \<Rightarrow> RWritten OpUpdated obj
   | _ \<Rightarrow> ROk)"

lemma foreign_object_body [simp]:
  "kbody (foreign_object t desired) = kbody desired" "ouid (foreign_object t desired) = ''foreign''"
  "oannotations (foreign_object t desired) = [TeamUIDAnnotationKey \<mapsto> ouid t @ ''-other'']"
  by (simp_all add: foreign_object_def)

lemma managed_object_race:
  assumes "team_identity t desired" "kind_of blank = okind desired"
  shows "\<not> ownedByTeamUID (foreign_object t desired) t"
    and "\<exists>w. ouid w = ''foreign'' \<and> ownedByTeamUID w t \<and>
      run (racing_api t desired) (reconcileManagedObject t k blank desired (\<lambda>_. kbody desired)) =
        ((True, None), [
          (Get (okind desired) (okey desired), RErr \<lparr>err_reason = NotFound, err_text = ''not found''\<rparr>),
          (UpsertRead (with_body (new_meta (onamespace desired) (oname desired)) blank),
           RObj (foreign_object t desired)),
          (UpsertWrite w, RWritten OpUpdated w)])"
proof -
  show "\<not> ownedByTeamUID (foreign_object t desired) t"
    by (simp add: ownedByTeamUID_def)
  define w where "w = (mergeManagedMetadata (foreign_object t desired) desired)\<lparr>kbody := kbody desired\<rparr>"
  have o: "ownedByTeamUID w t" "ouid w = ''foreign''"
    using assms(1) by (auto simp: w_def ownedByTeamUID_def mergeManagedMetadata_def mergeStringMap_def
        team_identity_def map_get_add dom_def map_get_def)
  have k: "kind_of (kbody desired) = kind_of blank" "okind w = okind desired"
    using assms(2) by (simp_all add: okind_def w_def)
  show "\<exists>w. ouid w = ''foreign'' \<and> ownedByTeamUID w t \<and>
      run (racing_api t desired) (reconcileManagedObject t k blank desired (\<lambda>_. kbody desired)) =
        ((True, None), [
          (Get (okind desired) (okey desired), RErr \<lparr>err_reason = NotFound, err_text = ''not found''\<rparr>),
          (UpsertRead (with_body (new_meta (onamespace desired) (oname desired)) blank),
           RObj (foreign_object t desired)),
          (UpsertWrite w, RWritten OpUpdated w)])"
    using o k assms(2)
    by (intro exI [of _ w])
      (simp add: run_def reconcileManagedObject_def managed_upsert_def client_get_def create_or_update_def
        invoke_def answer_def log_call_def racing_api_def object_of_def written_of_def okind_def
        w_def [symmetric] Let_def)
qed

subsection \<open>A concrete pass\<close>

definition demo_team :: team where
  "demo_team = objmeta.extend ((new_meta [] ''payments'')\<lparr>ouid := ''u1'', ogeneration := 3,
       ofinalizers := [TeamFinalizer]\<rparr>)
     \<lparr>tspec = \<lparr>team_owners = [''sam'', ''alex''],
        team_qt = \<lparr>quota_cpu = ''4'', quota_memory = ''8Gi''\<rparr>,
        team_allowedRepositories = [''ghcr.io/acme/*'']\<rparr>,
      tstatus = \<lparr>ts_observedGeneration = 0, ts_namespace = [], ts_conditions = []\<rparr>\<rparr>"

definition demo_team_api :: "team \<Rightarrow> (call \<times> resp) list \<Rightarrow> call \<Rightarrow> resp" where
  \<comment> \<open>An API with the Team and the installed ClusterRole, and nothing else.\<close>
  "demo_team_api t tr c = (case c of
     Get k key \<Rightarrow>
       if k = KTeam \<and> key = okey t then RObj (team_object t)
       else if k = KClusterRole \<and> key = ([], TeamOwnerName)
         then RObj (with_body (new_meta [] TeamOwnerName) (BClusterRole TeamOwnerRules))
       else RErr \<lparr>err_reason = NotFound, err_text = ''not found''\<rparr>
   | UpsertRead obj \<Rightarrow> RObj obj
   | UpsertWrite obj \<Rightarrow> RWritten OpCreated obj
   | StatusPatch _ obj \<Rightarrow> RObj obj
   | Patch _ obj \<Rightarrow> RObj obj
   | _ \<Rightarrow> ROk)"


lemma demo_team_ready:
  "fst (run (demo_team_api demo_team) (Team_Reconcile demo_lib 3 (okey demo_team))) = (0, None)"
  by code_simp

subsection \<open>Properties\<close>

text \<open>
  C14: In every run of a Team's reconcile pass, whatever the API answers, a Namespace is deleted only
  after this pass read it with the Team's label and UID and then listed no Application and no Database in it;
  a Database is deleted only after the listing of Applications came back empty; and the finalizer of a
  terminating Team is patched away only after its Namespace was reported absent.
\<close>

theorem team_deletion_order:
  "guarded team_deletion_guard (snd (run api (Team_Reconcile L n req)))"
  by (rule Team_Reconcile_deletion)



text \<open>
  C18: The failed status of a stage marks the layers before it True, its own layer and Ready False with the
  reason and the message, and the later layers Unknown.
\<close>

theorem failed_status_layers:
  assumes "conditions_ok L"
  shows "(\<forall>stage. map_option fst (cond_of L (ts_conditions (failedTeamStatus L t failed reason message)) (layer_of stage))
      = Some (if stage < failed then CondTrue else if stage = failed then CondFalse else CondUnknown))
    \<and> cond_of L (ts_conditions (failedTeamStatus L t failed reason message)) conditionTeamReady
      = Some (CondFalse, reason, message, ogeneration t)"
  using failedTeamStatus_reads [OF assms] by blast

theorem failed_status_layers_witness:
  "map_option fst (cond_of demo_lib (ts_conditions (failedTeamStatus demo_lib demo_team teamStageRBAC ''r'' ''m''))
     conditionTeamNamespaceReady) = Some CondTrue
   \<and> map_option fst (cond_of demo_lib (ts_conditions (failedTeamStatus demo_lib demo_team teamStageRBAC ''r'' ''m''))
     conditionTeamNetworkPolicyReady) = Some CondUnknown"
  using spec [OF conjunct1 [OF failed_status_layers [OF demo_conditions_ok, where t = demo_team
      and failed = teamStageRBAC and reason = "''r''" and message = "''m''"]], of teamStageNamespace]
    spec [OF conjunct1 [OF failed_status_layers [OF demo_conditions_ok, where t = demo_team
      and failed = teamStageRBAC and reason = "''r''" and message = "''m''"]], of teamStageNetworkPolicy]
  by (simp add: stage_order)

text \<open>
  C16: Under the meaning Kubernetes gives NetworkPolicies, the five policies of a Team let exactly this in: the
  pods of the shared Envoy gateway, Prometheus on the TCP port named http, and, to an Application pod that is not
  isolated, other such pods of the Team; and exactly this out: DNS lookups on port 53 of kube-dns, and
  the traffic among Application pods that are not isolated.
\<close>

theorem team_network_isolation:
  "(traffic_allowed PolicyIngress (team_network_policies t) (TeamNamespaceName t) pod e proto names \<longleftrightarrow>
      from_envoy e \<or> (from_prometheus e \<and> proto = TCP \<and> PortName ''http'' \<in> names)
    \<or> (open_application pod \<and> ep_namespace e = TeamNamespaceName t \<and> open_application (ep_podLabels e)))
   \<and> (traffic_allowed PolicyEgress (team_network_policies t) (TeamNamespaceName t) pod e proto names \<longleftrightarrow>
      (to_dns e \<and> PortInt 53 \<in> names)
    \<or> (open_application pod \<and> ep_namespace e = TeamNamespaceName t \<and> open_application (ep_podLabels e)))"
  by (rule conjI [OF team_ingress team_egress])

text \<open>
  C19: The ownership check is not repeated on the copy that is written: when an object with another
  Team's UID appears between the two reads of \<open>reconcileManagedObject\<close>, the pass overwrites that object, puts its own UID on it
  and reports success.
\<close>

theorem managed_object_takeover:
  "\<not> ownedByTeamUID (foreign_object t (TeamResourceQuota t)) t
   \<and> (\<exists>w. ouid w = ''foreign'' \<and> ownedByTeamUID w t \<and>
      run (racing_api t (TeamResourceQuota t)) (reconcileManagedObject t ''ResourceQuota'' (BResourceQuota Map.empty)
          (TeamResourceQuota t) (\<lambda>_. kbody (TeamResourceQuota t))) =
        ((True, None), [
          (Get KResourceQuota (okey (TeamResourceQuota t)), RErr \<lparr>err_reason = NotFound, err_text = ''not found''\<rparr>),
          (UpsertRead (with_body (new_meta (onamespace (TeamResourceQuota t)) (oname (TeamResourceQuota t)))
             (BResourceQuota Map.empty)),
           RObj (foreign_object t (TeamResourceQuota t))),
          (UpsertWrite w, RWritten OpUpdated w)]))"
  by (rule conjI [OF managed_object_race(1) [where blank = "BResourceQuota Map.empty"]
        managed_object_race(2) [where desired = "TeamResourceQuota t", unfolded boundary_kinds]])
    (simp_all add: team_objects_identity kind_of.simps(2) [of Map.empty])

text \<open>
  C17: The controller accepts a Team exactly when its name is a DNS label of at most 58 characters, its owners
  are 1 to 32 distinct usernames without whitespace, its quotas reach the minima, and its allowlist holds 1 to 32
  distinct well-formed patterns without whitespace or digest.
\<close>

theorem team_accepted_iff_well_formed:
  "Team_Validate L t = None \<longleftrightarrow> team_well_formed L t"
  by (rule Team_Validate_None)

end
