(* ===== verification/Catalog.thy ===== *)
theory Catalog
  imports Go_Strings Api_Types
begin

section \<open>The tenant catalog\<close>

text \<open>
  \<open>internal/platformctl/catalog.go\<close> and the exit codes of \<open>types.go\<close>: the catalog of tenants with their
  applications, databases and services, and its validation, loop by loop, against a file tree. \<open>catalog_ok\<close> is the
  abstract specification (names valid and unique over the whole catalog, paths derived from names, lifecycles and
  database references consistent); \<open>Catalog_Validate_None\<close> shows that the code accepts exactly these.
\<close>

subsection \<open>Errors with an exit code\<close>

datatype exit_kind =
  ExitUsage | ExitAuth | ExitNotFound | ExitUnhealthy | ExitConflict | ExitTimeout | ExitRemote

fun exit_number :: "exit_kind \<Rightarrow> int" where
  "exit_number ExitUsage = 2"
| "exit_number ExitAuth = 3"
| "exit_number ExitNotFound = 4"
| "exit_number ExitUnhealthy = 5"
| "exit_number ExitConflict = 6"
| "exit_number ExitTimeout = 7"
| "exit_number ExitRemote = 8"

record cli_error =
  ce_kind :: "exit_kind option"   \<comment> \<open>\<open>None\<close> for an error that is not an \<open>ExitError\<close>\<close>
  ce_text :: string

definition exitError :: "exit_kind \<Rightarrow> string \<Rightarrow> cli_error" where
  "exitError k s = \<lparr>ce_kind = Some k, ce_text = s\<rparr>"

definition errorf :: "string \<Rightarrow> cli_error" where
  "errorf s = \<lparr>ce_kind = None, ce_text = s\<rparr>"

definition ExitCode :: "cli_error option \<Rightarrow> int" where
  "ExitCode err = (case err of
     None \<Rightarrow> 0
   | Some e \<Rightarrow>
       (case ce_kind e of
          Some k \<Rightarrow> exit_number k
        | None \<Rightarrow>
            let message = to_lower (ce_text e) in
            if list_ex (str_contains message)
                 [''unknown command'', ''unknown flag'', ''requires at least'', ''requires exactly'',
                  ''accepts '', ''arg(s)'']
            then exit_number ExitUsage else exit_number ExitRemote))"

text \<open>Go code that returns on the first error.\<close>

definition on_ok :: "'e + 'a \<Rightarrow> ('a \<Rightarrow> 'e + 'b) \<Rightarrow> 'e + 'b" where
  "on_ok r f = (case r of Inl e \<Rightarrow> Inl e | Inr a \<Rightarrow> f a)"

lemma on_ok_simps [simp]: "on_ok (Inl e) f = Inl e" "on_ok (Inr a) f = f a"
  by (simp_all add: on_ok_def)

lemma on_ok_Inr: "on_ok r f = Inr b \<longleftrightarrow> (\<exists>a. r = Inr a \<and> f a = Inr b)"
  by (simp add: on_ok_def split: sum.split)

lemma check_Inr_iff [simp]:
  "(if p then Inl e else r) = Inr y \<longleftrightarrow> \<not> p \<and> r = Inr y"
  "(case x of Some e \<Rightarrow> Inl (g e) | None \<Rightarrow> r) = Inr y \<longleftrightarrow> x = None \<and> r = Inr y"
  by (auto split: option.split)

lemma check_sum_None_iff [simp]:
  "(case x of Inl e \<Rightarrow> Some (g e) | Inr a \<Rightarrow> f a) = None \<longleftrightarrow> (\<exists>a. x = Inr a \<and> f a = None)"
  by (auto split: sum.split)

definition check_ok :: "'e option \<Rightarrow> 'e + unit" where
  "check_ok c = (case c of None \<Rightarrow> Inr () | Some e \<Rightarrow> Inl e)"

lemma check_ok_Inr [simp]: "check_ok c = Inr u \<longleftrightarrow> c = None"
  by (simp add: check_ok_def split: option.split)

subsection \<open>The file tree\<close>

text \<open>A work tree: regular files with their content and directories, by slash-separated relative path.\<close>

record fs =
  fs_files :: "(string \<times> string) list"
  fs_dirs :: "string list"

definition is_dir :: "fs \<Rightarrow> string \<Rightarrow> bool" where "is_dir t p = (p \<in> set (fs_dirs t))"

definition read_file :: "fs \<Rightarrow> string \<Rightarrow> string option" where "read_file t p = map_of (fs_files t) p"

subsection \<open>Catalog types\<close>

datatype lifecycle = Active | Retiring | Scaffolded | OtherLifecycle string

record catalog_service =
  sv_name :: string
  sv_path :: string
  sv_template :: string
  sv_version :: string
  sv_components :: "string list"
  sv_databaseRef :: string
  sv_ownsTeam :: bool
  sv_ownsDatabase :: bool
  sv_lifecycle :: lifecycle
  sv_deletionRequest :: string

record catalog_application =
  ca_name :: string
  ca_path :: string
  ca_databaseRef :: string
  ca_lifecycle :: lifecycle
  ca_deletionRequest :: string

record catalog_database =
  cd_name :: string
  cd_path :: string
  cd_lifecycle :: lifecycle
  cd_deletionRequest :: string

record tenant =
  ten_name :: string
  ten_teamPath :: string
  ten_owners :: "string list"
  ten_lifecycle :: lifecycle
  ten_deletionRequest :: string
  ten_applications :: "catalog_application list"
  ten_databases :: "catalog_database list"
  ten_services :: "catalog_service list"

record catalog =
  cat_apiVersion :: string
  cat_kind :: string
  cat_tenants :: "tenant list"

definition CatalogAPIVersion :: string where "CatalogAPIVersion = ''cli.steadystate.dev/v1alpha1''"
definition CatalogKind :: string where "CatalogKind = ''TenantCatalog''"
definition CatalogRelativePath :: string where
  "CatalogRelativePath = ''gitops/clusters/local/catalog/tenants.yaml''"

definition teamPath :: "string \<Rightarrow> string" where "teamPath n = ''gitops/teams/'' @ n"
definition applicationPath :: "string \<Rightarrow> string" where "applicationPath n = ''gitops/applications/'' @ n"
definition databasePath :: "string \<Rightarrow> string" where "databasePath n = ''gitops/databases/'' @ n"
definition servicePath :: "string \<Rightarrow> string" where "servicePath n = ''services/'' @ n"

subsection \<open>Name patterns\<close>

text \<open>\<open>^[a-z0-9]([-a-z0-9]*[a-z0-9])?$\<close>\<close>

definition label_char :: "char \<Rightarrow> bool" where
  "label_char c = (is_lower c \<or> is_digit c)"

definition dnsLabelPattern :: "string \<Rightarrow> bool" where
  "dnsLabelPattern s =
     (s \<noteq> [] \<and> label_char (hd s) \<and> label_char (last s)
      \<and> list_all (\<lambda>c. label_char c \<or> c = CHR ''-'') s)"

definition validName :: "string \<Rightarrow> nat \<Rightarrow> bool" where
  "validName n m = (length n > 0 \<and> length n \<le> m \<and> dnsLabelPattern n)"

text \<open>\<open>^v(0|[1-9][0-9]*)\.(0|[1-9][0-9]*)\.(0|[1-9][0-9]*)$\<close>\<close>

definition version_number :: "string \<Rightarrow> bool" where
  "version_number s = (s \<noteq> [] \<and> list_all is_digit s \<and> (s = ''0'' \<or> hd s \<noteq> CHR ''0''))"

definition semverPattern :: "string \<Rightarrow> bool" where
  "semverPattern s =
     (case s of
        [] \<Rightarrow> False
      | c # r \<Rightarrow> c = CHR ''v'' \<and> length (split_on CHR ''.'' r) = 3
          \<and> list_all version_number (split_on CHR ''.'' r))"

subsection \<open>Validation\<close>

definition lifecycle_text :: "lifecycle \<Rightarrow> string" where
  "lifecycle_text l = (case l of
     Active \<Rightarrow> ''Active'' | Retiring \<Rightarrow> ''Retiring'' | Scaffolded \<Rightarrow> ''Scaffolded''
   | OtherLifecycle s \<Rightarrow> s)"

definition validateLifecycle :: "lib \<Rightarrow> lifecycle \<Rightarrow> string \<Rightarrow> string option" where
  "validateLifecycle L lc deletionRequest =
     (if lc \<noteq> Active \<and> lc \<noteq> Retiring then Some ''lifecycle must be Active or Retiring''
      else if lc = Active \<and> deletionRequest \<noteq> [] then
        Some ''active entries cannot carry a deletion request''
      else if lc = Retiring \<and> \<not> uuid_valid L deletionRequest then
        Some ''retiring entries require a UUID deletion request''
      else None)"

definition validateServiceLifecycle :: "lib \<Rightarrow> lifecycle \<Rightarrow> string \<Rightarrow> string option" where
  "validateServiceLifecycle L lc deletionRequest =
     (if lc = Scaffolded then
        (if deletionRequest \<noteq> [] then
           Some ''scaffolded entries cannot carry a deletion request'' else None)
      else validateLifecycle L lc deletionRequest)"

definition templateComponents :: "string \<Rightarrow> string \<Rightarrow> string list" where
  "templateComponents n template =
     (if template = ''full-stack'' then [n, n @ ''-api''] else [n])"

definition requireDirectory :: "fs \<Rightarrow> lib \<Rightarrow> string \<Rightarrow> string option" where
  "requireDirectory t L p =
     (if \<not> is_dir t p then Some (''catalog path '' @ go_quote L p @ '' is not a directory'') else None)"

text \<open>\<open>strings.Join\<close> with the separator NUL compares component lists.\<close>

definition nul_join :: "string list \<Rightarrow> string" where "nul_join xs = join [CHR 0x00] xs"

fun owners_valid :: "string list \<Rightarrow> string list \<Rightarrow> bool" where
  "owners_valid seen [] = True"
| "owners_valid seen (v # vs) =
     (if trim_space v = [] \<or> contains_any v [CHR 0x0D, CHR 0x0A, CHR 0x09, CHR '' ''] \<or> v \<in> set seen
      then False else owners_valid (v # seen) vs)"

text \<open>The three inner loops: \<open>seen\<close> is the set of names of the whole catalog so far.\<close>

fun validate_databases ::
    "fs \<Rightarrow> lib \<Rightarrow> string list \<Rightarrow> catalog_database list \<Rightarrow> string + string list" where
  "validate_databases t L seen [] = Inr seen"
| "validate_databases t L seen (d # ds) =
     (if \<not> validName (cd_name d) 63 then Inl (''invalid Database name '' @ go_quote L (cd_name d))
      else if cd_name d \<in> set seen then Inl (''duplicate Database '' @ go_quote L (cd_name d))
      else case validateLifecycle L (cd_lifecycle d) (cd_deletionRequest d) of
          Some e \<Rightarrow> Inl (''database '' @ go_quote L (cd_name d) @ '': '' @ e)
        | None \<Rightarrow>
            if cd_path d \<noteq> databasePath (cd_name d) then
              Inl (''database '' @ go_quote L (cd_name d) @ '' path must be ''
                   @ go_quote L (databasePath (cd_name d)))
            else case requireDirectory t L (cd_path d) of
                Some e \<Rightarrow> Inl e
              | None \<Rightarrow> validate_databases t L (cd_name d # seen) ds)"

fun validate_applications ::
    "fs \<Rightarrow> lib \<Rightarrow> string list \<Rightarrow> string list \<Rightarrow> catalog_application list \<Rightarrow> string + string list" where
  "validate_applications t L tenantDatabases seen [] = Inr seen"
| "validate_applications t L tenantDatabases seen (a # as) =
     (if \<not> validName (ca_name a) 63 then Inl (''invalid Application name '' @ go_quote L (ca_name a))
      else if ca_name a \<in> set seen then Inl (''duplicate Application '' @ go_quote L (ca_name a))
      else case validateLifecycle L (ca_lifecycle a) (ca_deletionRequest a) of
          Some e \<Rightarrow> Inl (''application '' @ go_quote L (ca_name a) @ '': '' @ e)
        | None \<Rightarrow>
            if ca_path a \<noteq> applicationPath (ca_name a) then
              Inl (''application '' @ go_quote L (ca_name a) @ '' path must be ''
                   @ go_quote L (applicationPath (ca_name a)))
            else case requireDirectory t L (ca_path a) of
                Some e \<Rightarrow> Inl e
              | None \<Rightarrow>
                  if ca_databaseRef a \<noteq> [] \<and> ca_databaseRef a \<notin> set tenantDatabases then
                    Inl (''application '' @ go_quote L (ca_name a) @ '' references unknown database ''
                         @ go_quote L (ca_databaseRef a))
                  else validate_applications t L tenantDatabases (ca_name a # seen) as)"

fun validate_services ::
    "fs \<Rightarrow> lib \<Rightarrow> string list \<Rightarrow> string list \<Rightarrow> catalog_service list \<Rightarrow> string + string list" where
  "validate_services t L tenantDatabases seen [] = Inr seen"
| "validate_services t L tenantDatabases seen (s # ss) =
     (if \<not> validName (sv_name s) 48 then Inl (''invalid service name '' @ go_quote L (sv_name s))
      else if sv_name s \<in> set seen then Inl (''duplicate service '' @ go_quote L (sv_name s))
      else if sv_path s \<noteq> servicePath (sv_name s) then
        Inl (''service '' @ go_quote L (sv_name s) @ '' path must be ''
             @ go_quote L (servicePath (sv_name s)))
      else if sv_template s \<noteq> ''go-api'' \<and> sv_template s \<noteq> ''react-static''
          \<and> sv_template s \<noteq> ''full-stack'' then
        Inl (''service '' @ go_quote L (sv_name s) @ '' has unsupported template ''
             @ go_quote L (sv_template s))
      else if \<not> semverPattern (sv_version s) then
        Inl (''service '' @ go_quote L (sv_name s) @ '' has invalid version '' @ go_quote L (sv_version s))
      else if nul_join (sv_components s) \<noteq> nul_join (templateComponents (sv_name s) (sv_template s)) then
        Inl (''service '' @ go_quote L (sv_name s) @ '' components must be derived from its template'')
      else case validateServiceLifecycle L (sv_lifecycle s) (sv_deletionRequest s) of
          Some e \<Rightarrow> Inl (''service '' @ go_quote L (sv_name s) @ '': '' @ e)
        | None \<Rightarrow>
            if sv_databaseRef s \<noteq> [] \<and> sv_databaseRef s \<notin> set tenantDatabases then
              Inl (''service '' @ go_quote L (sv_name s) @ '' references unknown database ''
                   @ go_quote L (sv_databaseRef s))
            else case requireDirectory t L (sv_path s) of
                Some e \<Rightarrow> Inl e
              | None \<Rightarrow> validate_services t L tenantDatabases (sv_name s # seen) ss)"

fun validate_tenants ::
    "fs \<Rightarrow> lib \<Rightarrow> string list \<Rightarrow> string list \<Rightarrow> string list \<Rightarrow> string list \<Rightarrow> tenant list
     \<Rightarrow> string option" where
  "validate_tenants t L teams apps dbs svcs [] = None"
| "validate_tenants t L teams apps dbs svcs (ten # tens) =
     (if \<not> validName (ten_name ten) 58 then Some (''invalid Team name '' @ go_quote L (ten_name ten))
      else if ten_name ten \<in> set teams then Some (''duplicate Team '' @ go_quote L (ten_name ten))
      else if length (ten_owners ten) = 0 \<or> length (ten_owners ten) > 32 then
        Some (''team '' @ go_quote L (ten_name ten) @ '' must contain 1-32 catalog owners'')
      else if \<not> owners_valid [] (ten_owners ten) then
        Some (''team '' @ go_quote L (ten_name ten) @ '' contains an invalid or duplicate owner'')
      else case validateLifecycle L (ten_lifecycle ten) (ten_deletionRequest ten) of
          Some e \<Rightarrow> Some (''team '' @ go_quote L (ten_name ten) @ '': '' @ e)
        | None \<Rightarrow>
      if ten_teamPath ten \<noteq> teamPath (ten_name ten) then
        Some (''team '' @ go_quote L (ten_name ten) @ '' path must be ''
              @ go_quote L (teamPath (ten_name ten)))
      else case requireDirectory t L (ten_teamPath ten) of
          Some e \<Rightarrow> Some e
        | None \<Rightarrow>
      let tenantDatabases = map cd_name (ten_databases ten) in
      case validate_databases t L dbs (ten_databases ten) of
        Inl e \<Rightarrow> Some e
      | Inr dbs' \<Rightarrow>
      case validate_applications t L tenantDatabases apps (ten_applications ten) of
        Inl e \<Rightarrow> Some e
      | Inr apps' \<Rightarrow>
      case validate_services t L tenantDatabases svcs (ten_services ten) of
        Inl e \<Rightarrow> Some e
      | Inr svcs' \<Rightarrow> validate_tenants t L (ten_name ten # teams) apps' dbs' svcs' tens)"

definition Catalog_Validate :: "fs \<Rightarrow> lib \<Rightarrow> catalog \<Rightarrow> string option" where
  "Catalog_Validate t L c =
     (if cat_apiVersion c \<noteq> CatalogAPIVersion \<or> cat_kind c \<noteq> CatalogKind then
        Some (''expected '' @ CatalogAPIVersion @ '' '' @ CatalogKind)
      else validate_tenants t L [] [] [] [] (cat_tenants c))"

definition SortedTenants :: "catalog \<Rightarrow> tenant list" where
  "SortedTenants c = sort_key ten_name (cat_tenants c)"

text \<open>
  \<open>LoadCatalog\<close>; the strict YAML decoder is a parameter.
\<close>

definition LoadCatalog :: "(string \<Rightarrow> string + catalog) \<Rightarrow> lib \<Rightarrow> fs \<Rightarrow> cli_error + catalog" where
  "LoadCatalog unmarshal L t =
     (case read_file t CatalogRelativePath of
        None \<Rightarrow> Inl (errorf ''read tenant catalog: file does not exist'')
      | Some data \<Rightarrow>
          (case unmarshal data of
             Inl e \<Rightarrow> Inl (exitError ExitUsage (''parse tenant catalog: '' @ e))
           | Inr c \<Rightarrow>
               (case Catalog_Validate t L c of
                  Some e \<Rightarrow> Inl (exitError ExitUsage (''invalid tenant catalog: '' @ e))
                | None \<Rightarrow> Inr c)))"

subsection \<open>What an accepted catalog satisfies\<close>

definition lifecycle_ok :: "lib \<Rightarrow> lifecycle \<Rightarrow> string \<Rightarrow> bool" where
  "lifecycle_ok L lc r \<longleftrightarrow> (lc = Active \<and> r = []) \<or> (lc = Retiring \<and> uuid_valid L r)"

definition owner_entries_ok :: "string list \<Rightarrow> bool" where
  "owner_entries_ok os \<longleftrightarrow> 1 \<le> length os \<and> length os \<le> 32 \<and> distinct os
     \<and> (\<forall>v \<in> set os. trim_space v \<noteq> [] \<and> \<not> contains_any v [CHR 0x0D, CHR 0x0A, CHR 0x09, CHR '' ''])"

definition database_entry_ok :: "lib \<Rightarrow> catalog_database \<Rightarrow> bool" where
  "database_entry_ok L d \<longleftrightarrow> validName (cd_name d) 63 \<and> cd_path d = databasePath (cd_name d)
     \<and> lifecycle_ok L (cd_lifecycle d) (cd_deletionRequest d)"

definition application_entry_ok :: "lib \<Rightarrow> string set \<Rightarrow> catalog_application \<Rightarrow> bool" where
  "application_entry_ok L dbs a \<longleftrightarrow> validName (ca_name a) 63
     \<and> ca_path a = applicationPath (ca_name a)
     \<and> lifecycle_ok L (ca_lifecycle a) (ca_deletionRequest a)
     \<and> (ca_databaseRef a = [] \<or> ca_databaseRef a \<in> dbs)"

definition service_entry_ok :: "lib \<Rightarrow> string set \<Rightarrow> catalog_service \<Rightarrow> bool" where
  "service_entry_ok L dbs s \<longleftrightarrow> validName (sv_name s) 48 \<and> sv_path s = servicePath (sv_name s)
     \<and> sv_template s \<in> {''go-api'', ''react-static'', ''full-stack''} \<and> semverPattern (sv_version s)
     \<and> nul_join (sv_components s) = nul_join (templateComponents (sv_name s) (sv_template s))
     \<and> (lifecycle_ok L (sv_lifecycle s) (sv_deletionRequest s)
        \<or> sv_lifecycle s = Scaffolded \<and> sv_deletionRequest s = [])
     \<and> (sv_databaseRef s = [] \<or> sv_databaseRef s \<in> dbs)"

definition tenant_ok :: "lib \<Rightarrow> tenant \<Rightarrow> bool" where
  "tenant_ok L t \<longleftrightarrow> validName (ten_name t) 58 \<and> owner_entries_ok (ten_owners t)
     \<and> lifecycle_ok L (ten_lifecycle t) (ten_deletionRequest t)
     \<and> ten_teamPath t = teamPath (ten_name t)
     \<and> (\<forall>d \<in> set (ten_databases t). database_entry_ok L d)
     \<and> (\<forall>a \<in> set (ten_applications t). application_entry_ok L (cd_name ` set (ten_databases t)) a)
     \<and> (\<forall>s \<in> set (ten_services t). service_entry_ok L (cd_name ` set (ten_databases t)) s)"

definition all_applications :: "tenant list \<Rightarrow> string list" where
  "all_applications ts = concat (map (\<lambda>t. map ca_name (ten_applications t)) ts)"

definition all_databases :: "tenant list \<Rightarrow> string list" where
  "all_databases ts = concat (map (\<lambda>t. map cd_name (ten_databases t)) ts)"

definition all_services :: "tenant list \<Rightarrow> string list" where
  "all_services ts = concat (map (\<lambda>t. map sv_name (ten_services t)) ts)"

definition catalog_ok :: "lib \<Rightarrow> catalog \<Rightarrow> bool" where
  "catalog_ok L c \<longleftrightarrow> cat_apiVersion c = CatalogAPIVersion \<and> cat_kind c = CatalogKind
     \<and> (\<forall>t \<in> set (cat_tenants c). tenant_ok L t)
     \<and> distinct (map ten_name (cat_tenants c))
     \<and> distinct (all_applications (cat_tenants c)) \<and> distinct (all_databases (cat_tenants c))
     \<and> distinct (all_services (cat_tenants c))"

definition catalog_paths :: "catalog \<Rightarrow> string list" where
  "catalog_paths c = concat (map (\<lambda>t. ten_teamPath t # map cd_path (ten_databases t)
     @ map ca_path (ten_applications t) @ map sv_path (ten_services t)) (cat_tenants c))"

lemma validateLifecycle_None: "validateLifecycle L lc r = None \<longleftrightarrow> lifecycle_ok L lc r"
  by (cases lc) (auto simp: validateLifecycle_def lifecycle_ok_def)

lemma validateServiceLifecycle_None:
  "validateServiceLifecycle L lc r = None \<longleftrightarrow> lifecycle_ok L lc r \<or> lc = Scaffolded \<and> r = []"
  by (cases lc) (auto simp: validateServiceLifecycle_def validateLifecycle_None lifecycle_ok_def)

lemma owners_valid_iff:
  "owners_valid seen os \<longleftrightarrow> distinct os \<and> set os \<inter> set seen = {}
     \<and> (\<forall>v \<in> set os. trim_space v \<noteq> [] \<and> \<not> contains_any v [CHR 0x0D, CHR 0x0A, CHR 0x09, CHR '' ''])"
  by (induction seen os rule: owners_valid.induct) auto

lemma requireDirectory_None [simp]: "requireDirectory t L p = None \<longleftrightarrow> is_dir t p"
  by (simp add: requireDirectory_def)

lemma validate_databases_Inr:
  "validate_databases t L seen ds = Inr seen' \<longleftrightarrow>
     (\<forall>d \<in> set ds. database_entry_ok L d \<and> is_dir t (cd_path d))
   \<and> distinct (map cd_name ds) \<and> cd_name ` set ds \<inter> set seen = {}
   \<and> seen' = rev (map cd_name ds) @ seen"
proof (induction ds arbitrary: seen)
  case (Cons d ds)
  show ?case
    unfolding validate_databases.simps check_Inr_iff validateLifecycle_None requireDirectory_None Cons.IH
    by (auto simp: database_entry_ok_def)
qed auto

lemma validate_applications_Inr:
  "validate_applications t L dbs seen as = Inr seen' \<longleftrightarrow>
     (\<forall>a \<in> set as. application_entry_ok L (set dbs) a \<and> is_dir t (ca_path a))
   \<and> distinct (map ca_name as) \<and> ca_name ` set as \<inter> set seen = {}
   \<and> seen' = rev (map ca_name as) @ seen"
proof (induction as arbitrary: seen)
  case (Cons a as)
  show ?case
    unfolding validate_applications.simps check_Inr_iff validateLifecycle_None requireDirectory_None Cons.IH
    by (auto simp: application_entry_ok_def)
qed auto

lemma validate_services_Inr:
  "validate_services t L dbs seen ss = Inr seen' \<longleftrightarrow>
     (\<forall>s \<in> set ss. service_entry_ok L (set dbs) s \<and> is_dir t (sv_path s))
   \<and> distinct (map sv_name ss) \<and> sv_name ` set ss \<inter> set seen = {}
   \<and> seen' = rev (map sv_name ss) @ seen"
proof (induction ss arbitrary: seen)
  case (Cons s ss)
  show ?case
    unfolding validate_services.simps check_Inr_iff validateServiceLifecycle_None requireDirectory_None Cons.IH
    by (auto simp: service_entry_ok_def)
qed auto

lemma distinct_seen:
  "distinct (xs @ ys) \<and> set (xs @ ys) \<inter> set seen = {} \<longleftrightarrow>
     distinct xs \<and> set xs \<inter> set seen = {} \<and> distinct ys \<and> set ys \<inter> set (rev xs @ seen) = {}"
  by (simp add: Int_Un_distrib Int_Un_distrib2) blast

lemma validate_tenants_None:
  "validate_tenants t L teams apps dbs svcs ts = None \<longleftrightarrow>
     (\<forall>ten \<in> set ts. tenant_ok L ten)
   \<and> distinct (map ten_name ts) \<and> ten_name ` set ts \<inter> set teams = {}
   \<and> distinct (all_applications ts) \<and> set (all_applications ts) \<inter> set apps = {}
   \<and> distinct (all_databases ts) \<and> set (all_databases ts) \<inter> set dbs = {}
   \<and> distinct (all_services ts) \<and> set (all_services ts) \<inter> set svcs = {}
   \<and> (\<forall>ten \<in> set ts. is_dir t (ten_teamPath ten)
        \<and> (\<forall>d \<in> set (ten_databases ten). is_dir t (cd_path d))
        \<and> (\<forall>a \<in> set (ten_applications ten). is_dir t (ca_path a))
        \<and> (\<forall>s \<in> set (ten_services ten). is_dir t (sv_path s)))"
proof (induction ts arbitrary: teams apps dbs svcs)
  case Nil
  then show ?case by (simp add: all_applications_def all_databases_def all_services_def)
next
  case (Cons ten ts)
  have D: "distinct (all_databases (ten # ts)) \<and> set (all_databases (ten # ts)) \<inter> set dbs = {} \<longleftrightarrow>
      distinct (map cd_name (ten_databases ten)) \<and> cd_name ` set (ten_databases ten) \<inter> set dbs = {}
      \<and> distinct (all_databases ts)
      \<and> set (all_databases ts) \<inter> set (rev (map cd_name (ten_databases ten)) @ dbs) = {}"
    using distinct_seen [of "map cd_name (ten_databases ten)" "all_databases ts" dbs]
    by (simp add: all_databases_def)
  have A: "distinct (all_applications (ten # ts)) \<and> set (all_applications (ten # ts)) \<inter> set apps = {} \<longleftrightarrow>
      distinct (map ca_name (ten_applications ten)) \<and> ca_name ` set (ten_applications ten) \<inter> set apps = {}
      \<and> distinct (all_applications ts)
      \<and> set (all_applications ts) \<inter> set (rev (map ca_name (ten_applications ten)) @ apps) = {}"
    using distinct_seen [of "map ca_name (ten_applications ten)" "all_applications ts" apps]
    by (simp add: all_applications_def)
  have S: "distinct (all_services (ten # ts)) \<and> set (all_services (ten # ts)) \<inter> set svcs = {} \<longleftrightarrow>
      distinct (map sv_name (ten_services ten)) \<and> sv_name ` set (ten_services ten) \<inter> set svcs = {}
      \<and> distinct (all_services ts)
      \<and> set (all_services ts) \<inter> set (rev (map sv_name (ten_services ten)) @ svcs) = {}"
    using distinct_seen [of "map sv_name (ten_services ten)" "all_services ts" svcs]
    by (simp add: all_services_def)
  have T: "distinct (map ten_name (ten # ts)) \<and> ten_name ` set (ten # ts) \<inter> set teams = {} \<longleftrightarrow>
      ten_name ten \<notin> set teams \<and> distinct (map ten_name ts)
      \<and> ten_name ` set ts \<inter> set (ten_name ten # teams) = {}"
    by auto
  have O: "owner_entries_ok (ten_owners ten) \<longleftrightarrow>
      \<not> (length (ten_owners ten) = 0 \<or> length (ten_owners ten) > 32) \<and> owners_valid [] (ten_owners ten)"
    by (auto simp: owner_entries_ok_def owners_valid_iff Suc_le_eq not_less)
  have ten: "(\<forall>t' \<in> set (ten # ts). P t') \<longleftrightarrow> P ten \<and> (\<forall>t' \<in> set ts. P t')" for P by simp
  have one_point: "(\<exists>a. (P1 \<and> P2 \<and> P3 \<and> a = x) \<and> R a) \<longleftrightarrow> P1 \<and> P2 \<and> P3 \<and> R x"
    for P1 P2 P3 and x :: "string list" and R by blast
  show ?case
    unfolding ten validate_tenants.simps check_None_iff case_check_None_iff check_sum_None_iff Let_def
      validateLifecycle_None requireDirectory_None validate_databases_Inr validate_applications_Inr
      validate_services_Inr Cons.IH tenant_ok_def [of L ten] O set_map one_point ball_conj_distrib
    using D A S T by argo
qed

lemma Catalog_Validate_None:
  "Catalog_Validate t L c = None \<longleftrightarrow> catalog_ok L c \<and> (\<forall>p \<in> set (catalog_paths c). is_dir t p)"
  by (auto simp: Catalog_Validate_def validate_tenants_None catalog_ok_def catalog_paths_def)

end
