(* ===== verification/App_Policy.thy ===== *)
theory App_Policy
  imports Go_Strings Api_Types
begin

section \<open>Application validation\<close>

text \<open>
  \<open>internal/application/validation.go\<close>: \<open>ParsePercentage\<close>, \<open>Validate\<close> and \<open>validateDeployment\<close>, each
  \<open>fmt.Errorf\<close> a constructor of \<open>app_error\<close>. The lemmas characterise what an accepted Application
  satisfies: the checks of the loop over the canary steps amount to strictly increasing weights.
\<close>

subsection \<open>The code\<close>

datatype percentage_error = PercentMissing string | PercentOutOfRange string

definition ParsePercentage :: "lib \<Rightarrow> string \<Rightarrow> percentage_error + rat" where
  "ParsePercentage L value =
     (if \<not> has_suffix value ''%'' then Inl (PercentMissing value)
      else case parse_float L (trim_suffix value ''%'') of
          Some (Fin parsed) \<Rightarrow>
            if parsed < 0 \<or> parsed > 100 then Inl (PercentOutOfRange value) else Inr parsed
        | _ \<Rightarrow> Inl (PercentOutOfRange value))"

datatype app_error =
  OwnerEmpty | ImageRepositoryInvalid | ImageTagInvalid | PortOutOfRange | ReplicaBoundsInvalid
| ResourcesNotPositive | RequestsExceedLimits | AvailabilityTargetInvalid
| MaximumErrorRateInvalid percentage_error | LatencyNotPositive
| RollingWithSteps | CanaryWithoutSteps | CanaryWithoutMetrics | UnknownStrategy string
| TooManySteps | StepWeightInvalid | StepPauseInvalid

text \<open>\<open>^[^@\s]+$\<close>\<close>

definition app_repositoryPattern :: "string \<Rightarrow> bool" where
  "app_repositoryPattern s = (s \<noteq> [] \<and> list_all (\<lambda>c. c \<noteq> CHR ''@'' \<and> \<not> is_re_space c) s)"

text \<open>\<open>^[A-Za-z0-9_][A-Za-z0-9._-]{0,127}$\<close>\<close>

definition tagPattern :: "string \<Rightarrow> bool" where
  "tagPattern s =
     (case s of
        [] \<Rightarrow> False
      | c # t \<Rightarrow> (is_alnum c \<or> c = CHR ''_'') \<and> length t \<le> 127
          \<and> list_all (\<lambda>d. is_alnum d \<or> d = CHR ''.'' \<or> d = CHR ''_'' \<or> d = CHR ''-'') t)"

fun steps_loop :: "int \<Rightarrow> canary_step list \<Rightarrow> app_error option" where
  "steps_loop previous [] = None"
| "steps_loop previous (step # steps) =
     (if step_weight step < 1 \<or> step_weight step > 100 \<or> step_weight step \<le> previous
      then Some StepWeightInvalid
      else if step_pause step \<le> 0 then Some StepPauseInvalid
      else steps_loop (step_weight step) steps)"

definition validateDeployment :: "application \<Rightarrow> app_error option" where
  "validateDeployment app =
     (let steps = dep_steps (app_dep (aspec app)) in
      case (case dep_strategy (app_dep (aspec app)) of
              Rolling \<Rightarrow> if length steps \<noteq> 0 then Some RollingWithSteps else None
            | Canary \<Rightarrow>
                if length steps = 0 then Some CanaryWithoutSteps
                else if \<not> obs_metrics (app_obs (aspec app)) then Some CanaryWithoutMetrics else None
            | OtherStrategy s \<Rightarrow> Some (UnknownStrategy s)) of
        Some err \<Rightarrow> Some err
      | None \<Rightarrow> if length steps > 10 then Some TooManySteps else steps_loop 0 steps)"

definition App_Validate :: "lib \<Rightarrow> application \<Rightarrow> app_error option" where
  "App_Validate L app =
     (let s = aspec app; rq = res_requests (app_res s); lm = res_limits (app_res s);
          reps = rt_replicas (app_rt s); rel = app_rel s in
      if trim_space (app_owner s) = [] then Some OwnerEmpty
      else if \<not> app_repositoryPattern (img_repository (app_img s)) then Some ImageRepositoryInvalid
      else if \<not> tagPattern (img_tag (app_img s)) \<or> equal_fold (img_tag (app_img s)) ''latest''
        then Some ImageTagInvalid
      else if rt_port (app_rt s) < 1 \<or> rt_port (app_rt s) > 65535 then Some PortOutOfRange
      else if rep_min reps < 1 \<or> rep_min reps > 100 \<or> rep_max reps < 1 \<or> rep_max reps > 100
          \<or> rep_min reps > rep_max reps then Some ReplicaBoundsInvalid
      else if q_sign L (rv_cpu rq) \<le> 0 \<or> q_sign L (rv_memory rq) \<le> 0 \<or> q_sign L (rv_cpu lm) \<le> 0
          \<or> q_sign L (rv_memory lm) \<le> 0 then Some ResourcesNotPositive
      else if q_cmp L (rv_cpu rq) (rv_cpu lm) > 0 \<or> q_cmp L (rv_memory rq) (rv_memory lm) > 0
        then Some RequestsExceedLimits
      else if (case ParsePercentage L (rel_availabilityTarget rel) of
          Inl _ \<Rightarrow> True | Inr availability \<Rightarrow> availability \<le> 0) then Some AvailabilityTargetInvalid
      else case ParsePercentage L (rel_maximumErrorRate rel) of
          Inl err \<Rightarrow> Some (MaximumErrorRateInvalid err)
        | Inr _ \<Rightarrow>
            if rel_maximumP95Latency rel \<le> 0 then Some LatencyNotPositive
            else case validateDeployment app of Some err \<Rightarrow> Some err | None \<Rightarrow> None)"

definition UnsupportedFeatures :: "application \<Rightarrow> string list" where
  "UnsupportedFeatures app = []"

fun percentage_error_text :: "lib \<Rightarrow> percentage_error \<Rightarrow> string" where
  "percentage_error_text L (PercentMissing v) = ''percentage '' @ go_quote L v @ '' must end in %''"
| "percentage_error_text L (PercentOutOfRange v) =
     ''percentage '' @ go_quote L v @ '' must be between 0% and 100%''"

fun app_error_text :: "lib \<Rightarrow> app_error \<Rightarrow> string" where
  "app_error_text L OwnerEmpty = ''owner must not be empty''"
| "app_error_text L ImageRepositoryInvalid =
     ''image repository must be non-empty and must not contain a digest''"
| "app_error_text L ImageTagInvalid = ''image tag must be explicit and must not be latest''"
| "app_error_text L PortOutOfRange = ''runtime port must be between 1 and 65535''"
| "app_error_text L ReplicaBoundsInvalid =
     ''replica bounds must be within 1-100 and min must not exceed max''"
| "app_error_text L ResourcesNotPositive = ''CPU and memory requests and limits must be positive''"
| "app_error_text L RequestsExceedLimits = ''resource requests must not exceed limits''"
| "app_error_text L AvailabilityTargetInvalid =
     ''availability target must be greater than 0% and at most 100%''"
| "app_error_text L (MaximumErrorRateInvalid e) =
     ''invalid maximum error rate: '' @ percentage_error_text L e"
| "app_error_text L LatencyNotPositive = ''maximum P95 latency must be positive''"
| "app_error_text L RollingWithSteps = ''rolling strategy cannot contain canary steps''"
| "app_error_text L CanaryWithoutSteps = ''canary strategy requires steps''"
| "app_error_text L CanaryWithoutMetrics = ''canary strategy requires observability.metrics=true''"
| "app_error_text L (UnknownStrategy s) = ''unknown deployment strategy '' @ go_quote L s"
| "app_error_text L TooManySteps = ''canary strategy supports at most ten steps''"
| "app_error_text L StepWeightInvalid =
     ''canary weights must be unique, increasing, and between 1 and 100''"
| "app_error_text L StepPauseInvalid = ''canary pauses must be positive''"

subsection \<open>What an accepted Application satisfies\<close>

definition steps_ok :: "canary_step list \<Rightarrow> bool" where
  "steps_ok steps \<longleftrightarrow>
     sorted_wrt (<) (map step_weight steps)
   \<and> (\<forall>s \<in> set steps. 1 \<le> step_weight s \<and> step_weight s \<le> 100 \<and> 0 < step_pause s)"

definition deployment_ok :: "application \<Rightarrow> bool" where
  "deployment_ok app \<longleftrightarrow>
     (let d = app_dep (aspec app) in
      (dep_strategy d = Rolling \<and> dep_steps d = []
       \<or> dep_strategy d = Canary \<and> dep_steps d \<noteq> [] \<and> obs_metrics (app_obs (aspec app)))
      \<and> length (dep_steps d) \<le> 10 \<and> steps_ok (dep_steps d))"

definition percentage_ok :: "lib \<Rightarrow> string \<Rightarrow> rat \<Rightarrow> bool" where
  "percentage_ok L value p \<longleftrightarrow>
     (\<exists>v. value = v @ ''%'' \<and> parse_float L v = Some (Fin p)) \<and> 0 \<le> p \<and> p \<le> 100"

definition app_well_formed :: "lib \<Rightarrow> application \<Rightarrow> bool" where
  "app_well_formed L app \<longleftrightarrow>
     (let s = aspec app; rq = res_requests (app_res s); lm = res_limits (app_res s);
          reps = rt_replicas (app_rt s); rel = app_rel s in
      trim_space (app_owner s) \<noteq> []
    \<and> app_repositoryPattern (img_repository (app_img s))
    \<and> tagPattern (img_tag (app_img s)) \<and> to_lower (img_tag (app_img s)) \<noteq> ''latest''
    \<and> 1 \<le> rt_port (app_rt s) \<and> rt_port (app_rt s) \<le> 65535
    \<and> 1 \<le> rep_min reps \<and> rep_min reps \<le> rep_max reps \<and> rep_max reps \<le> 100
    \<and> 0 < q_sign L (rv_cpu rq) \<and> 0 < q_sign L (rv_memory rq)
    \<and> 0 < q_sign L (rv_cpu lm) \<and> 0 < q_sign L (rv_memory lm)
    \<and> q_cmp L (rv_cpu rq) (rv_cpu lm) \<le> 0 \<and> q_cmp L (rv_memory rq) (rv_memory lm) \<le> 0
    \<and> (\<exists>p. percentage_ok L (rel_availabilityTarget rel) p \<and> 0 < p)
    \<and> (\<exists>p. percentage_ok L (rel_maximumErrorRate rel) p)
    \<and> 0 < rel_maximumP95Latency rel
    \<and> deployment_ok app)"

lemma steps_loop_None:
  "steps_loop previous steps = None \<longleftrightarrow>
     steps_ok steps \<and> (\<forall>s \<in> set steps. previous < step_weight s)"
proof (induction previous steps rule: steps_loop.induct)
  case (1 previous)
  then show ?case by (simp add: steps_ok_def)
next
  case (2 previous step steps)
  then show ?case by (fastforce simp: steps_ok_def)
qed

lemma steps_ok_positive: "steps_ok steps \<Longrightarrow> s \<in> set steps \<Longrightarrow> 0 < step_weight s"
  by (force simp: steps_ok_def)

lemma validateDeployment_None: "validateDeployment app = None \<longleftrightarrow> deployment_ok app"
  by (auto simp: validateDeployment_def deployment_ok_def Let_def steps_loop_None not_less
      intro: steps_ok_positive split: deployment_strategy.splits)

lemma ParsePercentage_Inr: "ParsePercentage L value = Inr p \<longleftrightarrow> percentage_ok L value p"
proof (cases "has_suffix value ''%''")
  case True
  then obtain v where v: "value = v @ ''%''" by (auto simp: has_suffix_iff)
  show ?thesis
    unfolding v using has_suffix_append [of v "''%''"] trim_suffix_append [of v "''%''"]
    by (auto simp: ParsePercentage_def percentage_ok_def split: option.splits float64.splits)
next
  case False
  then show ?thesis by (auto simp: ParsePercentage_def percentage_ok_def has_suffix_iff)
qed

lemma availability_check:
  "\<not> (case ParsePercentage L v of Inl _ \<Rightarrow> True | Inr a \<Rightarrow> a \<le> 0) \<longleftrightarrow>
     (\<exists>p. percentage_ok L v p \<and> 0 < p)"
proof (cases "ParsePercentage L v")
  case (Inl a)
  then show ?thesis using ParsePercentage_Inr [of L v] by auto
next
  case (Inr p)
  then have "percentage_ok L v q \<longleftrightarrow> q = p" for q using ParsePercentage_Inr [of L v q] by auto
  with Inr show ?thesis by auto
qed

lemma error_rate_check:
  "(case ParsePercentage L v of Inl e \<Rightarrow> Some (f e) | Inr _ \<Rightarrow> r) = None \<longleftrightarrow>
     (\<exists>p. percentage_ok L v p) \<and> r = None"
proof (cases "ParsePercentage L v")
  case (Inl a)
  then show ?thesis using ParsePercentage_Inr [of L v] by auto
next
  case (Inr p)
  then show ?thesis using ParsePercentage_Inr [of L v p] by auto
qed

lemma to_lower_latest: "to_lower ''latest'' = ''latest''"
  by code_simp

lemma App_Validate_None: "App_Validate L app = None \<longleftrightarrow> app_well_formed L app"
  unfolding App_Validate_def app_well_formed_def Let_def check_None_iff error_rate_check
    availability_check validateDeployment_None [symmetric]
  by (auto simp: not_less not_le equal_fold_def to_lower_latest)

end
