(* ===== verification/Db_Policy.thy ===== *)
theory Db_Policy
  imports Go_Strings Api_Types
begin

section \<open>Database validation\<close>

text \<open>
  \<open>internal/database/validation.go\<close>: \<open>Validate\<close>, \<open>ResolvedSourceRevision\<close> and \<open>validateCron\<close>. The cron
  grammar itself belongs to the robfig parser, a parameter.
\<close>

datatype db_error =
  EngineInvalid | InstancesOutOfRange | StorageSizeInvalid | CronFieldCount | CronInvalid string
| RetentionInvalid | RecoveryWithoutBackups | SourceServerNameEmpty | TargetTimeNotUTC
| SourceRevisionInvalid

text \<open>\<open>^[1-9][0-9]*[dwm]$\<close>\<close>

definition retentionPattern :: "string \<Rightarrow> bool" where
  "retentionPattern s =
     (2 \<le> length s \<and> is_digit (hd s) \<and> hd s \<noteq> CHR ''0'' \<and> list_all is_digit (butlast s)
      \<and> last s \<in> set ''dwm'')"

definition validateCron :: "lib \<Rightarrow> string \<Rightarrow> db_error option" where
  "validateCron L schedule =
     (if length (str_fields schedule) \<noteq> 6 then Some CronFieldCount
      else case cron_error L schedule of Some err \<Rightarrow> Some (CronInvalid err) | None \<Rightarrow> None)"

definition ResolvedSourceRevision :: "database \<Rightarrow> db_error + string" where
  "ResolvedSourceRevision d =
     (let revision = map_get (oannotations d) SourceRevisionAnnotationKey in
      if revision \<noteq> [] \<and> \<not> git_object_id revision then Inl SourceRevisionInvalid else Inr revision)"

text \<open>\<open>target\<close> and \<open>TargetTime\<close> of the source are the same instant, formatted twice.\<close>

definition validateRecovery :: "lib \<Rightarrow> database \<Rightarrow> db_error option" where
  "validateRecovery L d =
     (case db_rec (dspec d) of
        None \<Rightarrow> None
      | Some recovery \<Rightarrow>
          if \<not> bk_enabled (db_bk (dspec d)) then Some RecoveryWithoutBackups
          else if trim_space (rec_sourceServerName recovery) = [] then Some SourceServerNameEmpty
          else case rec_targetTime recovery of
              None \<Rightarrow> None
            | Some target \<Rightarrow>
                if t_loc target \<noteq> LocUTC \<or> format_rfc3339 L target \<noteq> format_rfc3339 L target
                then Some TargetTimeNotUTC else None)"

definition Db_Validate :: "lib \<Rightarrow> database \<Rightarrow> db_error option" where
  "Db_Validate L d =
     (let s = dspec d in
      if db_engine s \<noteq> ''postgres'' then Some EngineInvalid
      else if db_instances s < 1 \<or> db_instances s > 3 then Some InstancesOutOfRange
      else if (case q_parse L (st_size (db_st s)) of
          None \<Rightarrow> True | Some qty \<Rightarrow> q_cmp L qty (q_must_parse L ''1Gi'') < 0)
        then Some StorageSizeInvalid
      else case validateCron L (bk_schedule (db_bk s)) of
          Some err \<Rightarrow> Some err
        | None \<Rightarrow>
            if \<not> retentionPattern (bk_retention (db_bk s)) then Some RetentionInvalid
            else case validateRecovery L d of
                Some err \<Rightarrow> Some err
              | None \<Rightarrow> (case ResolvedSourceRevision d of Inl err \<Rightarrow> Some err | Inr _ \<Rightarrow> None))"

fun db_error_text :: "db_error \<Rightarrow> string" where
  "db_error_text EngineInvalid = ''engine must be postgres''"
| "db_error_text InstancesOutOfRange = ''instances must be between 1 and 3''"
| "db_error_text StorageSizeInvalid = ''storage size must be a quantity of at least 1Gi''"
| "db_error_text CronFieldCount =
     ''backup schedule must contain exactly six cron fields including seconds''"
| "db_error_text (CronInvalid e) = ''backup schedule is invalid: '' @ e"
| "db_error_text RetentionInvalid = ''backup retention must match <positive integer><d|w|m>''"
| "db_error_text RecoveryWithoutBackups = ''recovery requires backups to be enabled''"
| "db_error_text SourceServerNameEmpty = ''recovery sourceServerName must not be empty''"
| "db_error_text TargetTimeNotUTC = ''recovery targetTime must be RFC3339 UTC''"
| "db_error_text SourceRevisionInvalid =
     ''source revision must be a full lowercase SHA-1 or SHA-256 Git object ID''"

subsection \<open>What an accepted Database satisfies\<close>

definition db_well_formed :: "lib \<Rightarrow> database \<Rightarrow> bool" where
  "db_well_formed L d \<longleftrightarrow>
     (let s = dspec d; rev = map_get (oannotations d) SourceRevisionAnnotationKey in
      db_engine s = ''postgres'' \<and> 1 \<le> db_instances s \<and> db_instances s \<le> 3
    \<and> (\<exists>qty. q_parse L (st_size (db_st s)) = Some qty \<and> 0 \<le> q_cmp L qty (q_must_parse L ''1Gi''))
    \<and> length (str_fields (bk_schedule (db_bk s))) = 6 \<and> cron_error L (bk_schedule (db_bk s)) = None
    \<and> retentionPattern (bk_retention (db_bk s))
    \<and> (\<forall>r. db_rec s = Some r \<longrightarrow>
         bk_enabled (db_bk s) \<and> trim_space (rec_sourceServerName r) \<noteq> []
         \<and> (\<forall>t. rec_targetTime r = Some t \<longrightarrow> t_loc t = LocUTC))
    \<and> (rev = [] \<or> git_object_id rev))"

lemma ResolvedSourceRevision_Inr:
  "ResolvedSourceRevision d = Inr r \<longleftrightarrow>
     r = map_get (oannotations d) SourceRevisionAnnotationKey \<and> (r = [] \<or> git_object_id r)"
  by (auto simp: ResolvedSourceRevision_def Let_def)

lemma ResolvedSourceRevision_ok:
  "(case ResolvedSourceRevision d of Inl err \<Rightarrow> Some err | Inr _ \<Rightarrow> None) = None \<longleftrightarrow>
     (let rev = map_get (oannotations d) SourceRevisionAnnotationKey in rev = [] \<or> git_object_id rev)"
  by (auto simp: ResolvedSourceRevision_def Let_def)

lemma validateRecovery_None:
  "validateRecovery L d = None \<longleftrightarrow>
     (\<forall>r. db_rec (dspec d) = Some r \<longrightarrow>
         bk_enabled (db_bk (dspec d)) \<and> trim_space (rec_sourceServerName r) \<noteq> []
         \<and> (\<forall>t. rec_targetTime r = Some t \<longrightarrow> t_loc t = LocUTC))"
  by (auto simp: validateRecovery_def split: option.splits)

lemma validateCron_None:
  "validateCron L s = None \<longleftrightarrow> length (str_fields s) = 6 \<and> cron_error L s = None"
  by (simp add: validateCron_def)

lemma storage_check:
  "\<not> (case q_parse L z of None \<Rightarrow> True | Some qty \<Rightarrow> q_cmp L qty m < 0) \<longleftrightarrow>
     (\<exists>qty. q_parse L z = Some qty \<and> 0 \<le> q_cmp L qty m)"
  by (auto split: option.splits)

lemma Db_Validate_None: "Db_Validate L d = None \<longleftrightarrow> db_well_formed L d"
  unfolding Db_Validate_def db_well_formed_def Let_def check_None_iff case_check_None_iff
    storage_check validateCron_None validateRecovery_None ResolvedSourceRevision_ok
  by (auto simp: not_less)

end
