(* ===== verification/Change.thy ===== *)
theory Change
  imports Catalog Team_Policy App_Policy Db_Policy Go_Sha256
begin

section \<open>Change requests\<close>

text \<open>
  \<open>internal/platformctl/change.go\<close>: the typed request that a proposal carries, its validation, the desired-state
  validation that builds the Team, Application or Database and hands it to the controllers' own validators, and the
  encoding of a request as a bounded Base64 proposal. The JSON and Base64 codecs are a parameter.
\<close>

definition ChangeRequestAPIVersion :: string where
  "ChangeRequestAPIVersion = ''cli.steadystate.dev/v1alpha1''"
definition ChangeRequestKind :: string where "ChangeRequestKind = ''ChangeRequest''"
definition ChangeRequestSchema :: string where "ChangeRequestSchema = ''v1alpha1''"
definition RendererVersion :: string where "RendererVersion = ''v0.8.0''"
definition MaxProposalBase64Bytes :: nat where "MaxProposalBase64Bytes = 48 * 1024"

record change_parameters =
  p_team :: string
  p_name :: string
  p_owners :: "string list"
  p_allowedRepositories :: "string list"
  p_cpuQuota :: string
  p_memoryQuota :: string
  p_owner :: string
  p_imageRepository :: string
  p_imageTag :: string
  p_port :: int
  p_minReplicas :: int
  p_maxReplicas :: int
  p_databaseRef :: string
  p_instances :: int
  p_storageSize :: string
  p_backupSchedule :: string
  p_backupRetention :: string
  p_sourceServerName :: string
  p_targetTime :: string
  p_deletionRequest :: string
  p_approvalRevision :: string
  p_force :: bool
  p_acknowledgeDataLoss :: bool
  p_template :: string
  p_version :: string
  p_createTeam :: bool
  p_withDatabase :: bool

definition no_parameters :: change_parameters where
  "no_parameters = \<lparr>p_team = [], p_name = [], p_owners = [], p_allowedRepositories = [],
     p_cpuQuota = [], p_memoryQuota = [], p_owner = [], p_imageRepository = [], p_imageTag = [],
     p_port = 0, p_minReplicas = 0, p_maxReplicas = 0, p_databaseRef = [], p_instances = 0,
     p_storageSize = [], p_backupSchedule = [], p_backupRetention = [], p_sourceServerName = [],
     p_targetTime = [], p_deletionRequest = [], p_approvalRevision = [], p_force = False,
     p_acknowledgeDataLoss = False, p_template = [], p_version = [], p_createTeam = False,
     p_withDatabase = False\<rparr>"

record change_request =
  cr_apiVersion :: string
  cr_kind :: string
  cr_schemaVersion :: string
  cr_requestID :: string
  cr_baseSHA :: string
  cr_rendererVersion :: string
  cr_operation :: string
  cr_parameters :: change_parameters

definition NewChangeRequest :: "string \<Rightarrow> string \<Rightarrow> string \<Rightarrow> change_parameters \<Rightarrow> change_request" where
  \<comment> \<open>the first argument is the fresh UUID\<close>
  "NewChangeRequest newID operation baseSHA parameters =
     \<lparr>cr_apiVersion = ChangeRequestAPIVersion, cr_kind = ChangeRequestKind,
      cr_schemaVersion = ChangeRequestSchema, cr_requestID = newID, cr_baseSHA = baseSHA,
      cr_rendererVersion = RendererVersion, cr_operation = operation, cr_parameters = parameters\<rparr>"

subsection \<open>Desired state\<close>

definition millis :: "int \<Rightarrow> int" where "millis n = n * 10 ^ 6"
definition seconds :: "int \<Rightarrow> int" where "seconds n = n * 10 ^ 9"

definition desired_team :: "change_parameters \<Rightarrow> quantity \<Rightarrow> quantity \<Rightarrow> team" where
  "desired_team p cpu memory = objmeta.extend (new_meta [] (p_name p))
     \<lparr>tspec = \<lparr>team_owners = p_owners p,
        team_qt = \<lparr>quota_cpu = cpu, quota_memory = memory\<rparr>,
        team_allowedRepositories = p_allowedRepositories p\<rparr>,
      tstatus = \<lparr>ts_observedGeneration = 0, ts_namespace = [], ts_conditions = []\<rparr>\<rparr>"

definition canary_steps :: "canary_step list" where
  "canary_steps = map (\<lambda>w. \<lparr>step_weight = w, step_pause = seconds 30\<rparr>) [10, 25, 50, 100]"

definition desired_application :: "lib \<Rightarrow> change_parameters \<Rightarrow> application" where
  "desired_application L p = objmeta.extend (new_meta [] [])
     \<lparr>aspec = \<lparr>app_owner = p_owner p,
        app_img = \<lparr>img_repository = p_imageRepository p, img_tag = p_imageTag p\<rparr>,
        app_rt = \<lparr>rt_port = p_port p,
          rt_replicas = \<lparr>rep_min = p_minReplicas p, rep_max = p_maxReplicas p\<rparr>\<rparr>,
        app_res = \<lparr>
          res_requests = \<lparr>rv_cpu = q_must_parse L ''50m'', rv_memory = q_must_parse L ''32Mi''\<rparr>,
          res_limits = \<lparr>rv_cpu = q_must_parse L ''200m'', rv_memory = q_must_parse L ''128Mi''\<rparr>\<rparr>,
        app_dep = \<lparr>dep_strategy = Canary, dep_steps = canary_steps, dep_automaticRollback = True\<rparr>,
        app_rel = \<lparr>rel_availabilityTarget = ''99.9%'', rel_maximumP95Latency = millis 250,
          rel_maximumErrorRate = ''1%''\<rparr>,
        app_obs = \<lparr>obs_metrics = True, obs_logs = True, obs_traces = True\<rparr>,
        app_sec = \<lparr>sec_requireSignedImage = True, sec_runAsNonRoot = True,
          sec_networkIsolation = True\<rparr>,
        app_databaseRef = None\<rparr>,
      astatus = \<lparr>as_phase = AppPhaseNone, as_observedGeneration = 0, as_activeVersion = [],
        as_candidateVersion = [], as_resolvedImageDigest = [], as_resolvedGitRevision = [],
        as_conditions = []\<rparr>\<rparr>"

definition desired_database :: "change_parameters \<Rightarrow> db_recovery option \<Rightarrow> database" where
  "desired_database p recovery = objmeta.extend (new_meta [] [])
     \<lparr>dspec = \<lparr>db_engine = ''postgres'', db_instances = p_instances p,
        db_st = \<lparr>st_size = p_storageSize p, st_class = None\<rparr>,
        db_bk = \<lparr>bk_enabled = True, bk_schedule = p_backupSchedule p,
          bk_retention = p_backupRetention p\<rparr>,
        db_rec = recovery\<rparr>,
      dstatus = \<lparr>ds_phase = DbPhaseNone, ds_observedGeneration = 0, ds_connectionSecretName = [],
        ds_backupServerName = [], ds_recoverySourceServerName = [], ds_lastSuccessfulBackup = None,
        ds_resolvedGitRevision = [], ds_conditions = []\<rparr>\<rparr>"

definition validate_team_state :: "lib \<Rightarrow> change_parameters \<Rightarrow> cli_error option" where
  "validate_team_state L p =
     (if length (p_owners p) = 0 \<or> length (p_allowedRepositories p) = 0 \<or> p_cpuQuota p = []
         \<or> p_memoryQuota p = [] then
        Some (exitError ExitUsage
          ''Team desired state requires owners, allowed repositories, CPU quota, and memory quota'')
      else case (q_parse L (p_cpuQuota p), q_parse L (p_memoryQuota p)) of
          (Some cpu, Some memory) \<Rightarrow>
            (case Team_Validate L (desired_team p cpu memory) of
               Some err \<Rightarrow> Some (exitError ExitUsage
                 (''invalid Team desired state: '' @ team_error_text L err))
             | None \<Rightarrow> None)
        | _ \<Rightarrow> Some (exitError ExitUsage ''Team quota values must be Kubernetes quantities''))"

definition validate_application_state :: "lib \<Rightarrow> change_parameters \<Rightarrow> cli_error option" where
  "validate_application_state L p =
     (if p_owner p = [] \<or> p_imageRepository p = []
         \<or> contains_any (p_imageRepository p) [CHR ''@'', CHR '' '', CHR 0x09, CHR 0x0D, CHR 0x0A]
         \<or> p_imageTag p = [] \<or> equal_fold (p_imageTag p) ''latest'' then
        Some (exitError ExitUsage
          ''Application desired state requires an owner and an explicit non-latest image'')
      else case App_Validate L (desired_application L p) of
          Some err \<Rightarrow> Some (exitError ExitUsage
            (''invalid Application desired state: '' @ app_error_text L err))
        | None \<Rightarrow> None)"

definition requested_recovery :: "lib \<Rightarrow> change_parameters \<Rightarrow> cli_error + db_recovery" where
  "requested_recovery L p =
     (if p_targetTime p \<noteq> [] then
        (case parse_rfc3339 L (p_targetTime p) of
           None \<Rightarrow> Inl (exitError ExitUsage ''recovery target time must be RFC3339 UTC'')
         | Some parsed \<Rightarrow>
             if t_loc parsed \<noteq> LocUTC then
               Inl (exitError ExitUsage ''recovery target time must be RFC3339 UTC'')
             else Inr \<lparr>rec_sourceServerName = p_sourceServerName p, rec_targetTime = Some parsed\<rparr>)
      else Inr \<lparr>rec_sourceServerName = p_sourceServerName p, rec_targetTime = None\<rparr>)"

definition validate_database_state :: "lib \<Rightarrow> string \<Rightarrow> change_parameters \<Rightarrow> cli_error option" where
  "validate_database_state L operation p =
     (if p_instances p < 1 \<or> p_instances p > 3 \<or> p_storageSize p = [] \<or> p_backupSchedule p = []
         \<or> p_backupRetention p = [] then
        Some (exitError ExitUsage
          ''Database desired state requires valid instances, storage, schedule, and retention'')
      else case (if operation = ''database.restore'' then
                   (case requested_recovery L p of Inl e \<Rightarrow> Inl e | Inr rec \<Rightarrow> Inr (Some rec))
                 else Inr None) of
          Inl e \<Rightarrow> Some e
        | Inr recovery \<Rightarrow>
            (case Db_Validate L (desired_database p recovery) of
               Some err \<Rightarrow> Some (exitError ExitUsage
                 (''invalid Database desired state: '' @ db_error_text err))
             | None \<Rightarrow> None))"

definition validateDesiredState :: "lib \<Rightarrow> change_request \<Rightarrow> cli_error option" where
  "validateDesiredState L r =
     (let p = cr_parameters r in
      if has_prefix (cr_operation r) ''team.'' then validate_team_state L p
      else if has_prefix (cr_operation r) ''app.'' then validate_application_state L p
      else if has_prefix (cr_operation r) ''database.'' then
        validate_database_state L (cr_operation r) p
      else None)"

subsection \<open>Validation of a request\<close>

definition allowed_operations :: "string list" where
  "allowed_operations = [
     ''team.create'', ''team.update'', ''team.delete'', ''team.finalize'',
     ''app.create'', ''app.update'', ''app.delete'', ''app.finalize'',
     ''database.create'', ''database.update'', ''database.restore'', ''database.delete'',
     ''database.finalize'', ''service.scaffold'', ''service.activate'', ''service.retire'',
     ''service.finalize'']"

definition validate_finalization :: "lib \<Rightarrow> change_request \<Rightarrow> cli_error option" where
  "validate_finalization L r =
     (if has_suffix (cr_operation r) ''.finalize'' then
        (if \<not> uuid_valid L (p_deletionRequest (cr_parameters r)) then
           Some (exitError ExitUsage ''finalization requires the approval deletion-request UUID'')
         else if \<not> git_object_id (p_approvalRevision (cr_parameters r)) then
           Some (exitError ExitUsage ''finalization requires the merged approval revision'')
         else None)
      else None)"

definition validate_service_request :: "change_request \<Rightarrow> cli_error option" where
  "validate_service_request r =
     (let p = cr_parameters r in
      if has_prefix (cr_operation r) ''service.'' then
        (if \<not> validName (p_name p) 48 then
           Some (exitError ExitUsage ''service names must be DNS labels no longer than 48 characters'')
         else if cr_operation r = ''service.scaffold'' \<and> p_template p \<noteq> ''go-api''
             \<and> p_template p \<noteq> ''react-static'' \<and> p_template p \<noteq> ''full-stack'' then
           Some (exitError ExitUsage ''service template must be go-api, react-static, or full-stack'')
         else if cr_operation r = ''service.scaffold'' \<and> p_version p \<noteq> ''v0.1.0'' then
           Some (exitError ExitUsage ''new services must begin at v0.1.0'')
         else if cr_operation r = ''service.scaffold'' \<and> p_withDatabase p \<and> p_template p \<noteq> ''full-stack'' then
           Some (exitError ExitUsage ''--with-database is supported only by the full-stack template'')
         else if cr_operation r = ''service.scaffold'' \<and> p_createTeam p \<and> p_team p \<noteq> p_name p then
           Some (exitError ExitUsage ''--create-team requires the derived Team name to match the service'')
         else if cr_operation r = ''service.activate'' \<and> \<not> semverPattern (p_version p) then
           Some (exitError ExitUsage ''service activation requires strict vMAJOR.MINOR.PATCH'')
         else None)
      else None)"

definition has_desired_state :: "string \<Rightarrow> bool" where
  "has_desired_state operation =
     (has_suffix operation ''.create'' \<or> has_suffix operation ''.update''
      \<or> operation = ''database.restore'')"

definition ChangeRequest_Validate :: "lib \<Rightarrow> change_request \<Rightarrow> cli_error option" where
  "ChangeRequest_Validate L r =
     (let p = cr_parameters r; op = cr_operation r in
      if cr_apiVersion r \<noteq> ChangeRequestAPIVersion \<or> cr_kind r \<noteq> ChangeRequestKind
          \<or> cr_schemaVersion r \<noteq> ChangeRequestSchema then
        Some (exitError ExitUsage (''unsupported ChangeRequest schema; upgrade platformctl to match ''
                @ ChangeRequestSchema))
      else if \<not> uuid_valid L (cr_requestID r) then Some (exitError ExitUsage ''request ID must be a UUID'')
      else if \<not> git_object_id (cr_baseSHA r) then
        Some (exitError ExitUsage ''base SHA must be a full lowercase Git object ID'')
      else if cr_rendererVersion r \<noteq> RendererVersion then
        Some (exitError ExitConflict (''renderer '' @ go_quote L (cr_rendererVersion r)
                @ '' does not match '' @ go_quote L RendererVersion))
      else if op \<notin> set allowed_operations then
        Some (exitError ExitUsage (''unsupported operation '' @ go_quote L op))
      else if \<not> validName (p_name p) 63 \<or> (p_team p \<noteq> [] \<and> \<not> validName (p_team p) 58) then
        Some (exitError ExitUsage ''resource and Team names must be valid DNS labels'')
      else if has_prefix op ''team.'' \<and> p_team p \<noteq> [] then
        Some (exitError ExitUsage ''Team operations use name, not team'')
      else if \<not> has_prefix op ''team.'' \<and> \<not> validName (p_team p) 58 then
        Some (exitError ExitUsage ''non-Team operations require a valid team'')
      else case validate_finalization L r of
          Some e \<Rightarrow> Some e
        | None \<Rightarrow>
      if p_force p \<noteq> p_acknowledgeDataLoss p then
        Some (exitError ExitUsage ''force deletion requires both --force and --acknowledge-data-loss'')
      else case validate_service_request r of
          Some e \<Rightarrow> Some e
        | None \<Rightarrow> if has_desired_state op then validateDesiredState L r else None)"

definition normalizeStrings :: "string list \<Rightarrow> string list" where
  "normalizeStrings values = sort values"

subsection \<open>Proposals\<close>

text \<open>
  The codecs of the standard library: \<open>json.Marshal\<close> of a request, the strict decoding of one request with nothing after
  it, and strict Base64.
\<close>

record codec =
  json_of_request :: "change_request \<Rightarrow> string"
  request_of_json :: "string \<Rightarrow> string + change_request"
  base64_encode :: "string \<Rightarrow> string"
  base64_decode :: "string \<Rightarrow> string option"

definition codec_ok :: "codec \<Rightarrow> change_request \<Rightarrow> bool" where
  \<comment> \<open>the codecs round-trip on this request (JSON replaces invalid UTF-8, so not on every one)\<close>
  "codec_ok C r \<longleftrightarrow> request_of_json C (json_of_request C r) = Inr r
     \<and> base64_decode C (base64_encode C (json_of_request C r)) = Some (json_of_request C r)
     \<and> base64_encode C (json_of_request C r) \<noteq> []"

definition DecodeChangeRequest :: "codec \<Rightarrow> lib \<Rightarrow> string \<Rightarrow> cli_error + change_request" where
  "DecodeChangeRequest C L encoded =
     (if length encoded = 0 \<or> length encoded > MaxProposalBase64Bytes then
        Inl (exitError ExitUsage (''proposal must be between 1 and ''
               @ show_nat MaxProposalBase64Bytes @ '' Base64 bytes''))
      else case base64_decode C encoded of
          None \<Rightarrow> Inl (exitError ExitUsage ''proposal is not strict Base64'')
        | Some raw \<Rightarrow>
            (case request_of_json C raw of
               Inl e \<Rightarrow> Inl (exitError ExitUsage (''decode proposal: '' @ e))
             | Inr request \<Rightarrow>
                 (case ChangeRequest_Validate L request of
                    Some e \<Rightarrow> Inl e
                  | None \<Rightarrow> Inr request)))"

definition Encode :: "codec \<Rightarrow> lib \<Rightarrow> change_request \<Rightarrow> cli_error + string" where
  "Encode C L r =
     (case ChangeRequest_Validate L r of
        Some e \<Rightarrow> Inl e
      | None \<Rightarrow>
          let encoded = base64_encode C (json_of_request C r) in
          if length encoded > MaxProposalBase64Bytes then
            Inl (exitError ExitUsage (''proposal exceeds the '' @ show_nat MaxProposalBase64Bytes
                   @ ''-byte Base64 limit''))
          else Inr encoded)"

definition Digest :: "codec \<Rightarrow> change_request \<Rightarrow> string" where
  "Digest C r = ''sha256:'' @ sha256_hex (json_of_request C r)"

subsection \<open>What an accepted request satisfies\<close>

lemma Encode_Inr:
  "Encode C L r = Inr s \<Longrightarrow>
   ChangeRequest_Validate L r = None \<and> s = base64_encode C (json_of_request C r)
   \<and> length s \<le> MaxProposalBase64Bytes"
  by (auto simp: Encode_def Let_def split: option.splits if_splits)

lemma Decode_Encode:
  "codec_ok C r \<Longrightarrow> Encode C L r = Inr s \<Longrightarrow> DecodeChangeRequest C L s = Inr r"
  using Encode_Inr [of C L r s]
  by (auto simp: DecodeChangeRequest_def codec_ok_def)

lemma Decode_valid:
  "DecodeChangeRequest C L s = Inr r \<Longrightarrow> ChangeRequest_Validate L r = None \<and> length s \<le> 49152"
  by (auto simp: DecodeChangeRequest_def MaxProposalBase64Bytes_def split: option.splits sum.splits if_splits)

lemma Validate_names:
  assumes "ChangeRequest_Validate L r = None"
  shows "cr_operation r \<in> set allowed_operations" "validName (p_name (cr_parameters r)) 63"
    "uuid_valid L (cr_requestID r)" "git_object_id (cr_baseSHA r)"
    "\<not> has_prefix (cr_operation r) ''team.'' \<Longrightarrow> validName (p_team (cr_parameters r)) 58"
    "has_prefix (cr_operation r) ''team.'' \<Longrightarrow> p_team (cr_parameters r) = []"
    "p_force (cr_parameters r) = p_acknowledgeDataLoss (cr_parameters r)"
    "validate_service_request r = None"
    "has_desired_state (cr_operation r) \<Longrightarrow> validateDesiredState L r = None"
    "validate_finalization L r = None"
  using assms unfolding ChangeRequest_Validate_def Let_def check_None_iff case_check_None_iff
  by auto

end
