(* ===== verification/Renderer.thy ===== *)
theory Renderer
  imports Change "HOL-Library.AList"
begin

section \<open>Rendering a change request into file changes\<close>

text \<open>
  \<open>internal/platformctl/render.go\<close> and the service part of \<open>service_templates.go\<close>. The renderer keeps the
  catalog and the file changes by path; every operation of a request edits the catalog through pointers to its first
  entry of a name and stages files through \<open>set\<close> and \<open>remove\<close>, which check each path against the allowlist. A repository is the
  file tree of \<open>Catalog\<close>. YAML, the Go formatter and the texts of the web template are parameters
  (\<open>rlib\<close>). Loops that filter a slice in place run on the shared array (\<open>filter_array\<close>).
\<close>

subsection \<open>File changes and the renderer's state\<close>

datatype action = ActCreate | ActUpdate | ActDelete | ActOther string

record file_change =
  fc_path :: string
  fc_action :: action
  fc_content :: string
  fc_before :: string

record change_set =
  cs_requestID :: string
  cs_operation :: string
  cs_proposalDigest :: string
  cs_renderDigest :: string
  cs_files :: "file_change list"

record service_component =
  sc_name :: string
  sc_application :: string
  sc_path :: string
  sc_runtime :: string
  sc_port :: int
  sc_dockerfile :: string

record service_descriptor =
  sd_name :: string
  sd_template :: string
  sd_version :: string
  sd_components :: "service_component list"

record rlib =
  rl_lib :: lib
  rl_codec :: codec
  yaml_marshal :: "json \<Rightarrow> string"
  yaml_unmarshal :: "string \<Rightarrow> string + (string \<times> json) list option"
    \<comment> \<open>into a \<open>map[string]any\<close>, \<open>None\<close> the nil map of an empty document\<close>
  catalog_marshal :: "catalog \<Rightarrow> string"
  catalog_unmarshal :: "string \<Rightarrow> string + catalog"
  descriptor_marshal :: "service_descriptor \<Rightarrow> string"
  go_format :: "string \<Rightarrow> string + string"
  react_text :: "string \<Rightarrow> bool \<Rightarrow> string \<Rightarrow> string"
    \<comment> \<open>the text of a file of the web template: service name, proxied, path\<close>
  dockerfile_text :: "string \<Rightarrow> string \<Rightarrow> string"

record renv =
  re_lib :: rlib
  re_repo :: fs
  re_request :: change_request

record rstate =
  rs_catalog :: catalog
  rs_changes :: "(string \<times> file_change) list"

type_synonym rresult = "cli_error + rstate"

abbreviation L_of :: "renv \<Rightarrow> lib" where "L_of E \<equiv> rl_lib (re_lib E)"

subsection \<open>Paths\<close>

text \<open>\<open>filepath.Clean\<close> on slash-separated paths\<close>

fun clean_parts :: "bool \<Rightarrow> string list \<Rightarrow> string list \<Rightarrow> string list" where
  "clean_parts rooted out [] = rev out"
| "clean_parts rooted out (c # cs) =
     (if c = [] \<or> c = ''.'' then clean_parts rooted out cs
      else if c = ''..'' then
        (case out of
           [] \<Rightarrow> clean_parts rooted (if rooted then [] else [''..'']) cs
         | d # ds \<Rightarrow> if d = ''..'' then clean_parts rooted (''..'' # out) cs
                     else clean_parts rooted ds cs)
      else clean_parts rooted (c # out) cs)"

definition clean_path :: "string \<Rightarrow> string" where
  "clean_path p =
     (let rooted = has_prefix p ''/'';
          parts = clean_parts rooted [] (split_on CHR ''/'' p) in
      if rooted then ''/'' @ join ''/'' parts
      else if parts = [] then ''.'' else join ''/'' parts)"

definition service_files_allowed :: "string list" where
  "service_files_allowed = [
     ''README.md'', ''VERSION'', ''service.yaml'', ''api/Dockerfile'', ''api/main.go'',
     ''api/main_test.go'', ''web/Dockerfile'', ''web/package.json'', ''web/package-lock.json'',
     ''web/index.html'', ''web/tsconfig.json'', ''web/vite.config.ts'', ''web/src/main.tsx'',
     ''web/src/style.css'', ''web/test/template.test.js'', ''web/server/main.go'',
     ''web/server/main_test.go'', ''web/server/static/index.html'']"

definition leaf_files_allowed :: "string \<Rightarrow> string list" where
  "leaf_files_allowed kind =
     (if kind = ''teams'' then [''team.yaml'', ''kustomization.yaml'']
      else if kind = ''applications'' then [''application.yaml'', ''kustomization.yaml'']
      else if kind = ''databases'' then [''database.yaml'', ''kustomization.yaml'']
      else [])"

definition validateChangePath :: "lib \<Rightarrow> string \<Rightarrow> cli_error option" where
  "validateChangePath L path =
     (let cleaned = clean_path path; parts = split_on CHR ''/'' path in
      if cleaned \<noteq> path \<or> has_prefix cleaned ''../'' \<or> has_prefix path ''/'' then
        Some (exitError ExitUsage (''unsafe rendered path '' @ go_quote L path))
      else if path = CatalogRelativePath then None
      else if length parts \<ge> 3 \<and> parts ! 0 = ''services'' \<and> validName (parts ! 1) 48 then
        (if join ''/'' (drop 2 parts) \<notin> set service_files_allowed then
           Some (exitError ExitUsage (''rendered service file '' @ go_quote L path
                   @ '' is outside the broker allowlist''))
         else None)
      else if length parts \<noteq> 4 \<or> parts ! 0 \<noteq> ''gitops''
          \<or> (parts ! 1 \<noteq> ''teams'' \<and> parts ! 1 \<noteq> ''applications'' \<and> parts ! 1 \<noteq> ''databases'')
          \<or> \<not> validName (parts ! 2) 63 then
        Some (exitError ExitUsage (''rendered path '' @ go_quote L path
                @ '' is outside the broker allowlist''))
      else if parts ! 3 \<notin> set (leaf_files_allowed (parts ! 1)) then
        Some (exitError ExitUsage (''rendered file '' @ go_quote L path
                @ '' is outside the broker allowlist''))
      else None)"

definition teamManifestPath :: "string \<Rightarrow> string" where
  "teamManifestPath n = teamPath n @ ''/team.yaml''"
definition applicationManifestPath :: "string \<Rightarrow> string" where
  "applicationManifestPath n = applicationPath n @ ''/application.yaml''"
definition databaseManifestPath :: "string \<Rightarrow> string" where
  "databaseManifestPath n = databasePath n @ ''/database.yaml''"

subsection \<open>Reading the repository and staging changes\<close>

datatype read_result = Content string | Absent | ReadFailed

definition repo_read :: "fs \<Rightarrow> string \<Rightarrow> read_result" where
  \<comment> \<open>a directory, or a path below a regular file, fails with another error than not-exist\<close>
  "repo_read t p =
     (case read_file t p of
        Some s \<Rightarrow> Content s
      | None \<Rightarrow>
          if is_dir t p \<or> list_ex (\<lambda>f. has_prefix p (fst f @ ''/'')) (fs_files t) then ReadFailed
          else Absent)"

definition under :: "string \<Rightarrow> string list \<Rightarrow> string list" where
  \<comment> \<open>the paths below a directory, relative to it\<close>
  "under d ps = map (\<lambda>p. trim_prefix p (d @ ''/'')) (filter (\<lambda>p. has_prefix p (d @ ''/'')) ps)"

definition child_names :: "fs \<Rightarrow> string \<Rightarrow> string list" where
  "child_names t d = map (\<lambda>p. hd (split_on CHR ''/'' p)) (under d (map fst (fs_files t) @ fs_dirs t))"

definition stage :: "file_change \<Rightarrow> rstate \<Rightarrow> rstate" where
  "stage fc st = st\<lparr>rs_changes := AList.update (fc_path fc) fc (rs_changes st)\<rparr>"

definition set_file :: "renv \<Rightarrow> string \<Rightarrow> string \<Rightarrow> rstate \<Rightarrow> rresult" where
  "set_file E path content st =
     (case validateChangePath (L_of E) path of
        Some e \<Rightarrow> Inl e
      | None \<Rightarrow>
          (case repo_read (re_repo E) path of
             ReadFailed \<Rightarrow> Inl (errorf (''read '' @ path))
           | Absent \<Rightarrow>
               if content = [] then Inr st
               else Inr (stage \<lparr>fc_path = path, fc_action = ActCreate, fc_content = content,
                                fc_before = []\<rparr> st)
           | Content before_text \<Rightarrow>
               if before_text = content then Inr st
               else Inr (stage \<lparr>fc_path = path, fc_action = ActUpdate, fc_content = content,
                                fc_before = before_text\<rparr> st)))"

definition remove_file :: "renv \<Rightarrow> string \<Rightarrow> rstate \<Rightarrow> rresult" where
  "remove_file E path st =
     (case validateChangePath (L_of E) path of
        Some e \<Rightarrow> Inl e
      | None \<Rightarrow>
          (case repo_read (re_repo E) path of
             Content before_text \<Rightarrow>
               Inr (stage \<lparr>fc_path = path, fc_action = ActDelete, fc_content = [],
                           fc_before = before_text\<rparr> st)
           | _ \<Rightarrow> Inl (exitError ExitNotFound (''cannot finalize missing file '' @ path))))"

fun foldE :: "('a \<Rightarrow> 's \<Rightarrow> 'e + 's) \<Rightarrow> 'a list \<Rightarrow> 's \<Rightarrow> 'e + 's" where
  \<comment> \<open>a loop that returns on the first error\<close>
  "foldE f [] s = Inr s"
| "foldE f (x # xs) s = on_ok (f x s) (foldE f xs)"

definition kustomization_text :: "string \<Rightarrow> string" where
  "kustomization_text manifest =
     ''apiVersion: kustomize.config.k8s.io/v1beta1'' @ [CHR 0x0A] @ ''kind: Kustomization'' @ [CHR 0x0A]
     @ ''resources:'' @ [CHR 0x0A] @ ''  - '' @ manifest @ [CHR 0x0A]"

definition writeLeaf :: "renv \<Rightarrow> string \<Rightarrow> string \<Rightarrow> json \<Rightarrow> rstate \<Rightarrow> rresult" where
  "writeLeaf E path manifest obj st =
     on_ok (set_file E (path @ ''/'' @ manifest) (yaml_marshal (re_lib E) obj) st)
       (set_file E (path @ ''/kustomization.yaml'') (kustomization_text manifest))"

definition deleteLeaf :: "renv \<Rightarrow> string \<Rightarrow> string \<Rightarrow> rstate \<Rightarrow> rresult" where
  "deleteLeaf E path manifest st =
     (case validateChangePath (L_of E) (path @ ''/'' @ manifest) of
        Some e \<Rightarrow> Inl e
      | None \<Rightarrow>
          if \<not> is_dir (re_repo E) path then Inl (exitError ExitNotFound (''cannot inspect leaf '' @ path))
          else
            (case List.find (\<lambda>n. n \<notin> {manifest, ''kustomization.yaml''}) (child_names (re_repo E) path) of
               Some n \<Rightarrow> Inl (exitError ExitConflict (''leaf '' @ path @ '' contains unexpected file '' @ n))
             | None \<Rightarrow>
                 foldE (\<lambda>file. remove_file E (path @ ''/'' @ file)) [manifest, ''kustomization.yaml''] st))"

subsection \<open>Manifests\<close>

definition jget :: "(string \<times> json) list \<Rightarrow> string \<Rightarrow> (string \<times> json) list option" where
  \<comment> \<open>\<open>m[k].(map[string]any)\<close>, \<open>None\<close> when it is absent or of another type\<close>
  "jget m k = (case map_of m k of Some (JObj es) \<Rightarrow> Some es | _ \<Rightarrow> None)"

definition mark_for_deletion :: "string \<Rightarrow> bool \<Rightarrow> (string \<times> json) list \<Rightarrow> (string \<times> json) list" where
  "mark_for_deletion requestID force obj =
     (let metadata = (case jget obj ''metadata'' of Some m \<Rightarrow> m | None \<Rightarrow> []);
          annotations = (case jget metadata ''annotations'' of Some a \<Rightarrow> a | None \<Rightarrow> []);
          a1 = AList.delete ''argocd.argoproj.io/sync-options'' annotations;
          a2 = AList.update ''steadystate.dev/deletion-request'' (JStr requestID) a1;
          a3 = (if force then AList.update ''steadystate.dev/force-delete'' (JStr ''true'') a2 else a2) in
      AList.update ''metadata'' (JObj (AList.update ''annotations'' (JObj a3) metadata)) obj)"

definition approveManifest :: "renv \<Rightarrow> string \<Rightarrow> string \<Rightarrow> bool \<Rightarrow> rstate \<Rightarrow> rresult" where
  "approveManifest E path requestID force st =
     (case validateChangePath (L_of E) path of
        Some e \<Rightarrow> Inl e
      | None \<Rightarrow>
          (case repo_read (re_repo E) path of
             Content data \<Rightarrow>
               (case yaml_unmarshal (re_lib E) data of
                  Inl e \<Rightarrow> Inl (errorf e)
                | Inr None \<Rightarrow> Inl (errorf ''panic: assignment to entry in nil map'')
                | Inr (Some obj) \<Rightarrow>
                    set_file E path (yaml_marshal (re_lib E) (JObj (mark_for_deletion requestID force obj))) st)
           | _ \<Rightarrow> Inl (exitError ExitNotFound (''read protected manifest '' @ path))))"

definition metadata :: "string \<Rightarrow> string \<Rightarrow> string \<Rightarrow> json" where
  "metadata n namespace wave = JObj (
     [(''name'', JStr n),
      (''annotations'', JObj [
         (''argocd.argoproj.io/sync-wave'', JStr wave),
         (''argocd.argoproj.io/sync-options'', JStr ''Prune=false'')])]
     @ (if namespace \<noteq> [] then [(''namespace'', JStr namespace)] else []))"

definition platform_api :: json where "platform_api = JStr ''platform.steadystate.dev/v1alpha1''"

definition writeTeam :: "renv \<Rightarrow> string \<Rightarrow> change_parameters \<Rightarrow> rstate \<Rightarrow> rresult" where
  "writeTeam E n p = writeLeaf E (teamPath n) ''team.yaml'' (JObj [
     (''apiVersion'', platform_api), (''kind'', JStr ''Team''), (''metadata'', metadata n [] ''-1''),
     (''spec'', JObj [
        (''owners'', JArr (map JStr (normalizeStrings (p_owners p)))),
        (''quota'', JObj [(''cpu'', JStr (p_cpuQuota p)), (''memory'', JStr (p_memoryQuota p))]),
        (''allowedRepositories'', JArr (map JStr (normalizeStrings (p_allowedRepositories p))))])])"

definition canaryStep :: "int \<Rightarrow> json" where
  "canaryStep weight = JObj [(''weight'', JInt weight), (''pause'', JStr ''30s'')]"

definition writeApplicationWithIsolation ::
    "renv \<Rightarrow> string \<Rightarrow> change_parameters \<Rightarrow> bool \<Rightarrow> rstate \<Rightarrow> rresult" where
  "writeApplicationWithIsolation E team p networkIsolation =
     writeLeaf E (applicationPath (p_name p)) ''application.yaml'' (JObj [
       (''apiVersion'', platform_api), (''kind'', JStr ''Application''),
       (''metadata'', metadata (p_name p) (''team-'' @ team) ''1''),
       (''spec'', JObj [
          (''owner'', JStr (p_owner p)),
          (''image'', JObj [(''repository'', JStr (p_imageRepository p)), (''tag'', JStr (p_imageTag p))]),
          (''runtime'', JObj [(''port'', JInt (p_port p)),
             (''replicas'', JObj [(''min'', JInt (p_minReplicas p)), (''max'', JInt (p_maxReplicas p))])]),
          (''resources'', JObj [
             (''requests'', JObj [(''cpu'', JStr ''50m''), (''memory'', JStr ''32Mi'')]),
             (''limits'', JObj [(''cpu'', JStr ''200m''), (''memory'', JStr ''128Mi'')])]),
          (''deployment'', JObj [(''strategy'', JStr ''canary''), (''automaticRollback'', JBool True),
             (''steps'', JArr (map canaryStep [10, 25, 50, 100]))]),
          (''reliability'', JObj [(''availabilityTarget'', JStr ''99.9%''),
             (''maximumP95Latency'', JStr ''250ms''), (''maximumErrorRate'', JStr ''1%'')]),
          (''observability'', JObj [(''metrics'', JBool True), (''logs'', JBool True),
             (''traces'', JBool True)]),
          (''security'', JObj [(''requireSignedImage'', JBool True), (''runAsNonRoot'', JBool True),
             (''networkIsolation'', JBool networkIsolation)])])])"

definition writeApplication :: "renv \<Rightarrow> string \<Rightarrow> change_parameters \<Rightarrow> rstate \<Rightarrow> rresult" where
  "writeApplication E team p = writeApplicationWithIsolation E team p True"

definition jstring :: "(string \<times> json) list \<Rightarrow> string \<Rightarrow> string option" where
  "jstring m k = (case map_of m k of Some (JStr s) \<Rightarrow> Some s | _ \<Rightarrow> None)"

definition base_database_spec :: "change_parameters \<Rightarrow> string \<Rightarrow> (string \<times> json) list" where
  "base_database_spec p class = [
     (''engine'', JStr ''postgres''), (''instances'', JInt (p_instances p)),
     (''storage'', JObj [(''size'', JStr (p_storageSize p)), (''storageClassName'', JStr class)]),
     (''backups'', JObj [(''enabled'', JBool True), (''schedule'', JStr (p_backupSchedule p)),
        (''retention'', JStr (p_backupRetention p))])]"

definition updated_database_spec ::
    "lib \<Rightarrow> change_parameters \<Rightarrow> (string \<times> json) list option \<Rightarrow> cli_error + (string \<times> json) list" where
  \<comment> \<open>The \<open>database.update\<close> case: recovery and storage class are kept, the size may only grow.\<close>
  "updated_database_spec L p existing =
     (let existingSpec = (case existing of None \<Rightarrow> [] | Some e \<Rightarrow>
            (case jget e ''spec'' of Some s \<Rightarrow> s | None \<Rightarrow> []));
          recovery = (case jget existingSpec ''recovery'' of
            Some rec \<Rightarrow> [(''recovery'', JObj rec)] | None \<Rightarrow> []) in
      case jget existingSpec ''storage'' of
        None \<Rightarrow> Inr (base_database_spec p ''local-path'' @ recovery)
      | Some storage \<Rightarrow>
          let class = (case jstring storage ''storageClassName'' of
                 Some c \<Rightarrow> if c \<noteq> [] then c else ''local-path'' | None \<Rightarrow> ''local-path'');
              spec = base_database_spec p class @ recovery in
          (case jstring storage ''size'' of
             None \<Rightarrow> Inr spec
           | Some currentSize \<Rightarrow>
               (case (q_parse L currentSize, q_parse L (p_storageSize p)) of
                  (Some oldQuantity, Some newQuantity) \<Rightarrow>
                    if q_cmp L newQuantity oldQuantity < 0 then
                      Inl (exitError ExitUsage
                        (''Database storage size may only increase from '' @ currentSize))
                    else Inr spec
                | _ \<Rightarrow> Inl (exitError ExitUsage
                        (''Database storage size may only increase from '' @ currentSize)))))"

definition database_spec :: "renv \<Rightarrow> change_parameters \<Rightarrow> cli_error + (string \<times> json) list" where
  "database_spec E p =
     (if cr_operation (re_request E) = ''database.restore'' then
        Inr (base_database_spec p ''local-path'' @
          [(''recovery'', JObj ([(''sourceServerName'', JStr (p_sourceServerName p))]
             @ (if p_targetTime p \<noteq> [] then [(''targetTime'', JStr (p_targetTime p))] else [])))])
      else if cr_operation (re_request E) = ''database.update'' then
        (case validateChangePath (L_of E) (databaseManifestPath (p_name p)) of
           Some e \<Rightarrow> Inl e
         | None \<Rightarrow>
             (case repo_read (re_repo E) (databaseManifestPath (p_name p)) of
                Content data \<Rightarrow>
                  (case yaml_unmarshal (re_lib E) data of
                     Inl e \<Rightarrow> Inl (errorf e)
                   | Inr existing \<Rightarrow> updated_database_spec (L_of E) p existing)
              | _ \<Rightarrow> Inl (errorf (''read '' @ databaseManifestPath (p_name p)))))
      else Inr (base_database_spec p ''local-path''))"

definition writeDatabase :: "renv \<Rightarrow> string \<Rightarrow> change_parameters \<Rightarrow> rstate \<Rightarrow> rresult" where
  "writeDatabase E team p st =
     on_ok (database_spec E p) (\<lambda>spec.
       writeLeaf E (databasePath (p_name p)) ''database.yaml'' (JObj [
         (''apiVersion'', platform_api), (''kind'', JStr ''Database''),
         (''metadata'', metadata (p_name p) (''team-'' @ team) ''0''), (''spec'', JObj spec)]) st)"

subsection \<open>Service sources\<close>

definition serviceDescriptorFor :: "catalog_service \<Rightarrow> service_descriptor" where
  "serviceDescriptorFor s = \<lparr>sd_name = sv_name s, sd_template = sv_template s, sd_version = sv_version s,
     sd_components =
       (let api = (\<lambda>app. \<lparr>sc_name = ''api'', sc_application = app, sc_path = ''api'', sc_runtime = ''go'',
              sc_port = 8080, sc_dockerfile = ''api/Dockerfile''\<rparr>);
            web = \<lparr>sc_name = ''web'', sc_application = sv_name s, sc_path = ''web'',
              sc_runtime = ''react-go'', sc_port = 8080, sc_dockerfile = ''web/Dockerfile''\<rparr> in
        if sv_template s = ''go-api'' then [api (sv_name s)]
        else web # (if sv_template s = ''full-stack'' then [api (sv_name s @ ''-api'')] else []))\<rparr>"

definition react_paths :: "string list" where
  "react_paths = [''package.json'', ''package-lock.json'', ''index.html'', ''tsconfig.json'',
     ''vite.config.ts'', ''src/main.tsx'', ''src/style.css'', ''test/template.test.js'',
     ''server/main.go'', ''server/main_test.go'', ''server/static/index.html'', ''Dockerfile'']"

definition readme_text :: "catalog_service \<Rightarrow> string" where
  "readme_text s = ''# '' @ sv_name s @ [CHR 0x0A, CHR 0x0A] @ ''Generated by `platformctl` from the `''
     @ sv_template s @ ''` golden template.'' @ [CHR 0x0A, CHR 0x0A] @ ''Run `platformctl dev '' @ sv_name s
     @ ''` for the host-native development loop. Production changes are built, signed, attested, and activated through Git.''
     @ [CHR 0x0A]"

definition go_api_files :: "renv \<Rightarrow> catalog_service \<Rightarrow> cli_error + (string \<times> string) list" where
  "go_api_files E s =
     (if sv_template s = ''go-api'' \<or> sv_template s = ''full-stack'' then
        (case repo_read (re_repo E) ''apps/demo-app/main.go'' of
           Content mainSource \<Rightarrow>
             (case repo_read (re_repo E) ''apps/demo-app/main_test.go'' of
                Content testSource \<Rightarrow> Inr [
                  (''api/main.go'', mainSource), (''api/main_test.go'', testSource),
                  (''api/Dockerfile'', dockerfile_text (re_lib E) (sv_name s) ''api'')]
              | _ \<Rightarrow> Inl (errorf ''read Go API golden tests''))
         | _ \<Rightarrow> Inl (errorf ''read Go API golden source''))
      else Inr [])"

definition web_files :: "renv \<Rightarrow> catalog_service \<Rightarrow> (string \<times> string) list" where
  "web_files E s =
     (if sv_template s = ''react-static'' \<or> sv_template s = ''full-stack'' then
        map (\<lambda>path. (''web/'' @ path,
          react_text (re_lib E) (sv_name s) (sv_template s = ''full-stack'') path)) react_paths
      else [])"

fun format_files :: "renv \<Rightarrow> (string \<times> string) list \<Rightarrow> cli_error + (string \<times> string) list" where
  "format_files E [] = Inr []"
| "format_files E ((path, content) # files) =
     on_ok (if \<not> has_suffix path ''.go'' then Inr content
            else case go_format (re_lib E) content of
                Inl e \<Rightarrow> Inl (errorf (''format generated Go source '' @ path @ '': '' @ e))
              | Inr formatted \<Rightarrow> Inr formatted) (\<lambda>formatted.
     on_ok (format_files E files) (\<lambda>rest. Inr ((path, formatted) # rest)))"

definition serviceFiles :: "renv \<Rightarrow> catalog_service \<Rightarrow> cli_error + (string \<times> string) list" where
  "serviceFiles E s =
     on_ok (go_api_files E s) (\<lambda>api.
       format_files E ([
         (''VERSION'', sv_version s @ [CHR 0x0A]),
         (''service.yaml'', descriptor_marshal (re_lib E) (serviceDescriptorFor s)),
         (''README.md'', readme_text s)] @ api @ web_files E s))"

definition writeServiceSource :: "renv \<Rightarrow> catalog_service \<Rightarrow> rstate \<Rightarrow> rresult" where
  "writeServiceSource E s st =
     on_ok (serviceFiles E s) (\<lambda>files.
       foldE (\<lambda>path. set_file E (sv_path s @ ''/'' @ path) (the (map_of files path)))
         (sort (map fst files)) st)"

definition writeServiceVersion :: "renv \<Rightarrow> catalog_service \<Rightarrow> rstate \<Rightarrow> rresult" where
  "writeServiceVersion E s st =
     on_ok (set_file E (sv_path s @ ''/VERSION'') (sv_version s @ [CHR 0x0A]) st)
       (set_file E (sv_path s @ ''/service.yaml'') (descriptor_marshal (re_lib E) (serviceDescriptorFor s)))"

definition deleteServiceSource :: "renv \<Rightarrow> catalog_service \<Rightarrow> rstate \<Rightarrow> rresult" where
  "deleteServiceSource E s st =
     on_ok (serviceFiles E s) (\<lambda>expected.
       if \<not> is_dir (re_repo E) (sv_path s) then
         Inl (exitError ExitConflict (''inspect service source: '' @ sv_path s))
       else
         let actual = sort (under (sv_path s) (map fst (fs_files (re_repo E)))) in
         if nul_join actual \<noteq> nul_join (sort (map fst expected)) then
           Inl (exitError ExitConflict (''service '' @ go_quote (L_of E) (sv_name s)
                  @ '' contains files outside its generated template''))
         else foldE (\<lambda>path. remove_file E (sv_path s @ ''/'' @ path)) actual st)"

definition serviceImageTag :: "catalog_service \<Rightarrow> string \<Rightarrow> string \<Rightarrow> string" where
  "serviceImageTag s application version =
     (let role = (if sv_template s = ''go-api'' \<or> application = sv_name s @ ''-api'' then ''api'' else ''web'') in
      sv_name s @ ''-'' @ role @ ''-'' @ version)"

definition serviceImageRepository :: string where
  "serviceImageRepository = ''ghcr.io/saadabdullaah/steadystate-services''"

subsection \<open>Entries of the catalog\<close>

definition tenant_of :: "renv \<Rightarrow> string \<Rightarrow> rstate \<Rightarrow> cli_error + tenant" where
  "tenant_of E n st =
     (case find_by ten_name n (cat_tenants (rs_catalog st)) of
        Some t \<Rightarrow> Inr t
      | None \<Rightarrow> Inl (exitError ExitNotFound (''Team '' @ go_quote (L_of E) n @ '' is not present in the catalog'')))"

definition tenantExists :: "string \<Rightarrow> rstate \<Rightarrow> bool" where
  "tenantExists n st = (find_by ten_name n (cat_tenants (rs_catalog st)) \<noteq> None)"

definition activeTenant :: "renv \<Rightarrow> string \<Rightarrow> rstate \<Rightarrow> cli_error + tenant" where
  "activeTenant E n st =
     on_ok (tenant_of E n st) (\<lambda>t.
       if ten_lifecycle t \<noteq> Active then
         Inl (exitError ExitConflict (''Team '' @ go_quote (L_of E) n @ '' is retiring''))
       else Inr t)"

definition put_tenant :: "tenant \<Rightarrow> rstate \<Rightarrow> rstate" where
  \<comment> \<open>the writes through the tenant pointer\<close>
  "put_tenant t st = st\<lparr>rs_catalog := (rs_catalog st)
     \<lparr>cat_tenants := update_first ten_name (ten_name t) (\<lambda>_. t) (cat_tenants (rs_catalog st))\<rparr>\<rparr>"

definition applicationEntry :: "renv \<Rightarrow> tenant \<Rightarrow> string \<Rightarrow> cli_error + catalog_application" where
  "applicationEntry E t n =
     (case find_by ca_name n (ten_applications t) of
        Some a \<Rightarrow> Inr a
      | None \<Rightarrow> Inl (exitError ExitNotFound (''Application '' @ go_quote (L_of E) n
                 @ '' is not present in Team '' @ go_quote (L_of E) (ten_name t))))"

definition databaseEntry :: "renv \<Rightarrow> tenant \<Rightarrow> string \<Rightarrow> cli_error + catalog_database" where
  "databaseEntry E t n =
     (case find_by cd_name n (ten_databases t) of
        Some d \<Rightarrow> Inr d
      | None \<Rightarrow> Inl (exitError ExitNotFound (''Database '' @ go_quote (L_of E) n
                 @ '' is not present in Team '' @ go_quote (L_of E) (ten_name t))))"

definition databaseExists :: "tenant \<Rightarrow> string \<Rightarrow> bool" where
  "databaseExists t n =
     (case find_by cd_name n (ten_databases t) of Some d \<Rightarrow> cd_lifecycle d = Active | None \<Rightarrow> False)"

definition serviceEntry :: "renv \<Rightarrow> tenant \<Rightarrow> string \<Rightarrow> cli_error + catalog_service" where
  "serviceEntry E t n =
     (case find_by sv_name n (ten_services t) of
        Some s \<Rightarrow> Inr s
      | None \<Rightarrow> Inl (exitError ExitNotFound (''service '' @ go_quote (L_of E) n
                 @ '' is not present in Team '' @ go_quote (L_of E) (ten_name t))))"

definition set_application ::
    "string \<Rightarrow> (catalog_application \<Rightarrow> catalog_application) \<Rightarrow> tenant \<Rightarrow> tenant" where
  "set_application n f t = t\<lparr>ten_applications := update_first ca_name n f (ten_applications t)\<rparr>"

definition set_database ::
    "string \<Rightarrow> (catalog_database \<Rightarrow> catalog_database) \<Rightarrow> tenant \<Rightarrow> tenant" where
  "set_database n f t = t\<lparr>ten_databases := update_first cd_name n f (ten_databases t)\<rparr>"

definition set_service :: "string \<Rightarrow> (catalog_service \<Rightarrow> catalog_service) \<Rightarrow> tenant \<Rightarrow> tenant" where
  "set_service n f t = t\<lparr>ten_services := update_first sv_name n f (ten_services t)\<rparr>"

definition retire_application :: "string \<Rightarrow> catalog_application \<Rightarrow> catalog_application" where
  "retire_application rid a = a\<lparr>ca_lifecycle := Retiring, ca_deletionRequest := rid\<rparr>"

definition retire_database :: "string \<Rightarrow> catalog_database \<Rightarrow> catalog_database" where
  "retire_database rid d = d\<lparr>cd_lifecycle := Retiring, cd_deletionRequest := rid\<rparr>"

definition retire_service :: "string \<Rightarrow> catalog_service \<Rightarrow> catalog_service" where
  "retire_service rid s = s\<lparr>sv_lifecycle := Retiring, sv_deletionRequest := rid\<rparr>"

definition retire_tenant :: "string \<Rightarrow> tenant \<Rightarrow> tenant" where
  "retire_tenant rid t = t\<lparr>ten_lifecycle := Retiring, ten_deletionRequest := rid\<rparr>"

definition requireRetiring :: "renv \<Rightarrow> lifecycle \<Rightarrow> string \<Rightarrow> change_parameters \<Rightarrow> cli_error option" where
  "requireRetiring E lc request p =
     (if lc \<noteq> Retiring \<or> request \<noteq> p_deletionRequest p then
        Some (exitError ExitConflict (''resource is not retiring under deletion request ''
                @ go_quote (L_of E) (p_deletionRequest p)))
      else None)"

subsection \<open>Teams\<close>

definition new_tenant :: "string \<Rightarrow> string list \<Rightarrow> tenant" where
  "new_tenant n owners = \<lparr>ten_name = n, ten_teamPath = teamPath n, ten_owners = normalizeStrings owners,
     ten_lifecycle = Active, ten_deletionRequest = [], ten_applications = [], ten_databases = [],
     ten_services = []\<rparr>"

definition set_tenants :: "tenant list \<Rightarrow> rstate \<Rightarrow> rstate" where
  "set_tenants ts st = st\<lparr>rs_catalog := (rs_catalog st)\<lparr>cat_tenants := ts\<rparr>\<rparr>"

definition tenants_of :: "rstate \<Rightarrow> tenant list" where
  "tenants_of st = cat_tenants (rs_catalog st)"

definition createTeam :: "renv \<Rightarrow> change_parameters \<Rightarrow> rstate \<Rightarrow> rresult" where
  "createTeam E p st =
     (if tenantExists (p_name p) st then
        Inl (exitError ExitConflict (''Team '' @ go_quote (L_of E) (p_name p) @ '' already exists''))
      else writeTeam E (p_name p) p
        (set_tenants (tenants_of st @ [new_tenant (p_name p) (p_owners p)]) st))"

definition updateTeam :: "renv \<Rightarrow> change_parameters \<Rightarrow> rstate \<Rightarrow> rresult" where
  "updateTeam E p st =
     on_ok (activeTenant E (p_name p) st) (\<lambda>t.
       writeTeam E (p_name p) p (put_tenant (t\<lparr>ten_owners := normalizeStrings (p_owners p)\<rparr>) st))"

definition approveTeamDeletion :: "renv \<Rightarrow> change_parameters \<Rightarrow> rstate \<Rightarrow> rresult" where
  "approveTeamDeletion E p st =
     (let rid = cr_requestID (re_request E) in
      on_ok (activeTenant E (p_name p) st) (\<lambda>t.
      on_ok (approveManifest E (teamManifestPath (p_name p)) rid (p_force p) st) (\<lambda>st.
      on_ok (foldE (\<lambda>a. approveManifest E (applicationManifestPath (ca_name a)) rid (p_force p))
               (ten_applications t) st) (\<lambda>st.
      on_ok (foldE (\<lambda>d. approveManifest E (databaseManifestPath (cd_name d)) rid (p_force p))
               (ten_databases t) st) (\<lambda>st.
        Inr (put_tenant ((retire_tenant rid t)
               \<lparr>ten_applications := map (retire_application rid) (ten_applications t),
                ten_databases := map (retire_database rid) (ten_databases t),
                ten_services := map (retire_service rid) (ten_services t)\<rparr>) st))))))"

definition finalizeTeam :: "renv \<Rightarrow> change_parameters \<Rightarrow> rstate \<Rightarrow> rresult" where
  "finalizeTeam E p st =
     on_ok (tenant_of E (p_name p) st) (\<lambda>t.
     on_ok (check_ok (requireRetiring E (ten_lifecycle t) (ten_deletionRequest t) p)) (\<lambda>_.
     on_ok (deleteLeaf E (teamPath (p_name p)) ''team.yaml'' st) (\<lambda>st.
     on_ok (foldE (\<lambda>a. deleteLeaf E (ca_path a) ''application.yaml'') (ten_applications t) st) (\<lambda>st.
     on_ok (foldE (\<lambda>d. deleteLeaf E (cd_path d) ''database.yaml'') (ten_databases t) st) (\<lambda>st.
     on_ok (foldE (deleteServiceSource E) (ten_services t) st) (\<lambda>st.
       Inr (set_tenants (filter_array (\<lambda>_ item. ten_name item \<noteq> p_name p) (tenants_of st)) st)))))))"

subsection \<open>Applications\<close>

definition new_application :: "change_parameters \<Rightarrow> catalog_application" where
  "new_application p = \<lparr>ca_name = p_name p, ca_path = applicationPath (p_name p),
     ca_databaseRef = p_databaseRef p, ca_lifecycle = Active, ca_deletionRequest = []\<rparr>"

definition add_application :: "catalog_application \<Rightarrow> tenant \<Rightarrow> tenant" where
  "add_application a t = t\<lparr>ten_applications := ten_applications t @ [a]\<rparr>"

definition sort_applications :: "tenant \<Rightarrow> tenant" where
  "sort_applications t = t\<lparr>ten_applications := sort_key ca_name (ten_applications t)\<rparr>"

definition createApplication :: "renv \<Rightarrow> change_parameters \<Rightarrow> rstate \<Rightarrow> rresult" where
  "createApplication E p st =
     on_ok (activeTenant E (p_team p) st) (\<lambda>t.
       if p_name p \<in> set (all_applications (tenants_of st))
           \<or> p_name p \<in> ca_name ` set (ten_applications t) then
         Inl (exitError ExitConflict (''Application '' @ go_quote (L_of E) (p_name p) @ '' already exists''))
       else if p_databaseRef p \<noteq> [] \<and> \<not> databaseExists t (p_databaseRef p) then
         Inl (exitError ExitNotFound (''Database '' @ go_quote (L_of E) (p_databaseRef p)
                @ '' is not active in Team '' @ go_quote (L_of E) (p_team p)))
       else writeApplication E (p_team p) p
         (put_tenant (sort_applications (add_application (new_application p) t)) st))"

definition updateApplication :: "renv \<Rightarrow> change_parameters \<Rightarrow> rstate \<Rightarrow> rresult" where
  "updateApplication E p st =
     on_ok (activeTenant E (p_team p) st) (\<lambda>t.
     on_ok (applicationEntry E t (p_name p)) (\<lambda>a.
       if ca_lifecycle a \<noteq> Active then
         Inl (exitError ExitConflict (''Application '' @ go_quote (L_of E) (p_name p) @ '' is retiring''))
       else if p_databaseRef p \<noteq> [] \<and> \<not> databaseExists t (p_databaseRef p) then
         Inl (exitError ExitNotFound (''Database '' @ go_quote (L_of E) (p_databaseRef p)
                @ '' is not active in Team '' @ go_quote (L_of E) (p_team p)))
       else writeApplication E (p_team p) p
         (put_tenant (set_application (p_name p) (\<lambda>a. a\<lparr>ca_databaseRef := p_databaseRef p\<rparr>) t) st)))"

definition approveApplicationDeletion :: "renv \<Rightarrow> change_parameters \<Rightarrow> rstate \<Rightarrow> rresult" where
  "approveApplicationDeletion E p st =
     (let rid = cr_requestID (re_request E) in
      on_ok (activeTenant E (p_team p) st) (\<lambda>t.
      on_ok (applicationEntry E t (p_name p)) (\<lambda>a.
        if ca_lifecycle a \<noteq> Active then
          Inl (exitError ExitConflict (''Application '' @ go_quote (L_of E) (p_name p)
                 @ '' is already retiring''))
        else approveManifest E (applicationManifestPath (p_name p)) rid (p_force p)
          (put_tenant (set_application (p_name p) (retire_application rid) t) st))))"

definition finalizeApplication :: "renv \<Rightarrow> change_parameters \<Rightarrow> rstate \<Rightarrow> rresult" where
  "finalizeApplication E p st =
     on_ok (activeTenant E (p_team p) st) (\<lambda>t.
     on_ok (applicationEntry E t (p_name p)) (\<lambda>a.
     on_ok (check_ok (requireRetiring E (ca_lifecycle a) (ca_deletionRequest a) p)) (\<lambda>_.
     on_ok (deleteLeaf E (ca_path a) ''application.yaml'' st) (\<lambda>st.
       Inr (put_tenant (t\<lparr>ten_applications :=
              filter_array (\<lambda>_ item. ca_name item \<noteq> p_name p) (ten_applications t)\<rparr>) st)))))"

subsection \<open>Databases\<close>

definition new_database :: "string \<Rightarrow> catalog_database" where
  "new_database n = \<lparr>cd_name = n, cd_path = databasePath n, cd_lifecycle = Active,
     cd_deletionRequest = []\<rparr>"

definition add_database :: "catalog_database \<Rightarrow> tenant \<Rightarrow> tenant" where
  "add_database d t = t\<lparr>ten_databases := sort_key cd_name (ten_databases t @ [d])\<rparr>"

definition createDatabase :: "renv \<Rightarrow> change_parameters \<Rightarrow> rstate \<Rightarrow> rresult" where
  "createDatabase E p st =
     on_ok (activeTenant E (p_team p) st) (\<lambda>t.
       if p_name p \<in> set (all_databases (tenants_of st)) \<or> p_name p \<in> cd_name ` set (ten_databases t) then
         Inl (exitError ExitConflict (''Database '' @ go_quote (L_of E) (p_name p) @ '' already exists''))
       else writeDatabase E (p_team p) p (put_tenant (add_database (new_database (p_name p)) t) st))"

definition updateDatabase :: "renv \<Rightarrow> change_parameters \<Rightarrow> rstate \<Rightarrow> rresult" where
  "updateDatabase E p st =
     on_ok (activeTenant E (p_team p) st) (\<lambda>t.
     on_ok (databaseEntry E t (p_name p)) (\<lambda>d.
       if cd_lifecycle d \<noteq> Active then
         Inl (exitError ExitConflict (''Database '' @ go_quote (L_of E) (p_name p) @ '' is retiring''))
       else writeDatabase E (p_team p) p st))"

definition approveDatabaseDeletion :: "renv \<Rightarrow> change_parameters \<Rightarrow> rstate \<Rightarrow> rresult" where
  "approveDatabaseDeletion E p st =
     (let rid = cr_requestID (re_request E) in
      on_ok (activeTenant E (p_team p) st) (\<lambda>t.
        case List.find (\<lambda>a. ca_databaseRef a = p_name p \<and> ca_lifecycle a = Active) (ten_applications t) of
          Some a \<Rightarrow> Inl (exitError ExitConflict (''Database '' @ go_quote (L_of E) (p_name p)
                      @ '' is still referenced by Application '' @ go_quote (L_of E) (ca_name a)))
        | None \<Rightarrow>
            on_ok (databaseEntry E t (p_name p)) (\<lambda>d.
              if cd_lifecycle d \<noteq> Active then
                Inl (exitError ExitConflict (''Database '' @ go_quote (L_of E) (p_name p)
                       @ '' is already retiring''))
              else approveManifest E (databaseManifestPath (p_name p)) rid (p_force p)
                (put_tenant (set_database (p_name p) (retire_database rid) t) st))))"

definition finalizeDatabase :: "renv \<Rightarrow> change_parameters \<Rightarrow> rstate \<Rightarrow> rresult" where
  "finalizeDatabase E p st =
     on_ok (activeTenant E (p_team p) st) (\<lambda>t.
     on_ok (databaseEntry E t (p_name p)) (\<lambda>d.
     on_ok (check_ok (requireRetiring E (cd_lifecycle d) (cd_deletionRequest d) p)) (\<lambda>_.
     on_ok (deleteLeaf E (cd_path d) ''database.yaml'' st) (\<lambda>st.
       Inr (put_tenant (t\<lparr>ten_databases :=
              filter_array (\<lambda>_ item. cd_name item \<noteq> p_name p) (ten_databases t)\<rparr>) st)))))"

subsection \<open>Services\<close>

definition service_team_parameters :: "string \<Rightarrow> change_parameters" where
  "service_team_parameters team = no_parameters\<lparr>p_name := team, p_owners := [team @ ''-owners''],
     p_allowedRepositories := [serviceImageRepository], p_cpuQuota := ''2'', p_memoryQuota := ''4Gi''\<rparr>"

definition service_database_parameters :: "string \<Rightarrow> string \<Rightarrow> change_parameters" where
  "service_database_parameters team n = no_parameters\<lparr>p_team := team, p_name := n, p_instances := 1,
     p_storageSize := ''1Gi'', p_backupSchedule := ''0 0 2 * * *'', p_backupRetention := ''7d''\<rparr>"

definition scaffold_tenant :: "renv \<Rightarrow> change_parameters \<Rightarrow> rstate \<Rightarrow> cli_error + (tenant \<times> rstate)" where
  \<comment> \<open>The tenant of a new service, created when \<open>--create-team\<close> asks for it.\<close>
  "scaffold_tenant E p st =
     (case tenant_of E (p_team p) st of
        Inl e \<Rightarrow>
          if \<not> p_createTeam p \<or> p_team p \<noteq> p_name p then Inl e
          else
            let tp = service_team_parameters (p_team p);
                st' = set_tenants (sort_key ten_name
                        (tenants_of st @ [new_tenant (p_team p) (p_owners tp)])) st in
            on_ok (tenant_of E (p_team p) st') (\<lambda>t.
            on_ok (writeTeam E (p_team p) tp st') (\<lambda>st''. Inr (t, st'')))
      | Inr t \<Rightarrow>
          if p_createTeam p then
            Inl (exitError ExitConflict (''Team '' @ go_quote (L_of E) (p_team p)
                   @ '' already exists; omit --create-team''))
          else Inr (t, st))"

definition scaffold_database ::
    "renv \<Rightarrow> change_parameters \<Rightarrow> tenant \<Rightarrow> rstate \<Rightarrow> cli_error + (tenant \<times> rstate)" where
  "scaffold_database E p t st =
     (if \<not> p_withDatabase p then Inr (t, st)
      else if databaseExists t (p_name p) then
        Inl (exitError ExitConflict (''Database '' @ go_quote (L_of E) (p_name p) @ '' already exists''))
      else on_ok (writeDatabase E (p_team p) (service_database_parameters (p_team p) (p_name p)) st)
        (\<lambda>st'. Inr (add_database (new_database (p_name p)) t, st')))"

definition new_service :: "change_parameters \<Rightarrow> catalog_service" where
  "new_service p = \<lparr>sv_name = p_name p, sv_path = servicePath (p_name p), sv_template = p_template p,
     sv_version = p_version p, sv_components = templateComponents (p_name p) (p_template p),
     sv_databaseRef = (if p_withDatabase p then p_name p else []), sv_ownsTeam = p_createTeam p,
     sv_ownsDatabase = p_withDatabase p, sv_lifecycle = Scaffolded, sv_deletionRequest = []\<rparr>"

definition add_service :: "catalog_service \<Rightarrow> tenant \<Rightarrow> tenant" where
  "add_service s t = t\<lparr>ten_services := sort_key sv_name (ten_services t @ [s])\<rparr>"

definition scaffoldService :: "renv \<Rightarrow> change_parameters \<Rightarrow> rstate \<Rightarrow> rresult" where
  "scaffoldService E p st =
     (if p_name p \<in> set (all_services (tenants_of st)) then
        Inl (exitError ExitConflict (''service '' @ go_quote (L_of E) (p_name p) @ '' already exists''))
      else on_ok (scaffold_tenant E p st) (\<lambda>(t, st).
        if ten_lifecycle t \<noteq> Active then
          Inl (exitError ExitConflict (''Team '' @ go_quote (L_of E) (p_team p) @ '' is retiring''))
        else on_ok (scaffold_database E p t st) (\<lambda>(t, st).
          writeServiceSource E (new_service p) (put_tenant (add_service (new_service p) t) st))))"

definition component_parameters :: "change_parameters \<Rightarrow> catalog_service \<Rightarrow> string \<Rightarrow> change_parameters" where
  "component_parameters p s component = no_parameters\<lparr>p_team := p_team p, p_name := component,
     p_owner := p_team p @ ''-owners'', p_imageRepository := serviceImageRepository,
     p_imageTag := serviceImageTag s component (p_version p), p_port := 8080, p_minReplicas := 1,
     p_maxReplicas := 3,
     p_databaseRef := (if sv_template s = ''full-stack'' \<and> component = p_name p @ ''-api''
                       then sv_databaseRef s else [])\<rparr>"

definition activate_component ::
    "renv \<Rightarrow> change_parameters \<Rightarrow> catalog_service \<Rightarrow> string \<Rightarrow> tenant \<times> rstate \<Rightarrow> cli_error + (tenant \<times> rstate)"
  where
  "activate_component E p s component = (\<lambda>(t, st).
     let parameters = component_parameters p s component in
     on_ok (case find_by ca_name component (ten_applications t) of
              None \<Rightarrow> Inr (add_application (new_application parameters) t)
            | Some entry \<Rightarrow>
                if ca_lifecycle entry \<noteq> Active then
                  Inl (exitError ExitConflict (''Application '' @ go_quote (L_of E) component @ '' is retiring''))
                else Inr (set_application component
                       (\<lambda>a. a\<lparr>ca_databaseRef := p_databaseRef parameters\<rparr>) t)) (\<lambda>t.
     on_ok (writeApplicationWithIsolation E (p_team p) parameters (sv_template s \<noteq> ''full-stack'') st)
       (\<lambda>st. Inr (t, st))))"

definition activateService :: "renv \<Rightarrow> change_parameters \<Rightarrow> rstate \<Rightarrow> rresult" where
  "activateService E p st =
     on_ok (activeTenant E (p_team p) st) (\<lambda>t.
     on_ok (serviceEntry E t (p_name p)) (\<lambda>s.
       if sv_lifecycle s = Retiring then
         Inl (exitError ExitConflict (''service '' @ go_quote (L_of E) (p_name p) @ '' is retiring''))
       else
         let s1 = s\<lparr>sv_version := p_version p\<rparr>; s2 = s1\<lparr>sv_lifecycle := Active\<rparr> in
         on_ok (foldE (activate_component E p s1) (sv_components s1) (t, st)) (\<lambda>(t, st).
           writeServiceVersion E s2
             (put_tenant (set_service (p_name p) (\<lambda>_. s2) (sort_applications t)) st))))"

definition retire_component ::
    "renv \<Rightarrow> change_parameters \<Rightarrow> string \<Rightarrow> tenant \<times> rstate \<Rightarrow> cli_error + (tenant \<times> rstate)" where
  "retire_component E p component = (\<lambda>(t, st).
     (let rid = cr_requestID (re_request E) in
      case find_by ca_name component (ten_applications t) of
        None \<Rightarrow> Inr (t, st)
      | Some _ \<Rightarrow>
          on_ok (approveManifest E (applicationManifestPath component) rid (p_force p) st)
            (\<lambda>st. Inr (set_application component (retire_application rid) t, st))))"

definition retire_service_database ::
    "renv \<Rightarrow> change_parameters \<Rightarrow> catalog_service \<Rightarrow> tenant \<times> rstate \<Rightarrow> cli_error + (tenant \<times> rstate)" where
  "retire_service_database E p s = (\<lambda>(t, st).
     (let rid = cr_requestID (re_request E) in
      if sv_ownsDatabase s \<and> sv_databaseRef s \<noteq> [] then
        (case find_by cd_name (sv_databaseRef s) (ten_databases t) of
           None \<Rightarrow> Inr (t, st)
         | Some d \<Rightarrow>
             on_ok (approveManifest E (databaseManifestPath (cd_name d)) rid (p_force p) st)
               (\<lambda>st. Inr (set_database (sv_databaseRef s) (retire_database rid) t, st)))
      else Inr (t, st)))"

definition retireService :: "renv \<Rightarrow> change_parameters \<Rightarrow> rstate \<Rightarrow> rresult" where
  "retireService E p st =
     (let rid = cr_requestID (re_request E) in
      on_ok (activeTenant E (p_team p) st) (\<lambda>t.
      on_ok (serviceEntry E t (p_name p)) (\<lambda>s.
        if sv_lifecycle s = Retiring then
          Inl (exitError ExitConflict (''service '' @ go_quote (L_of E) (p_name p) @ '' is already retiring''))
        else
          on_ok (foldE (retire_component E p) (sv_components s)
                  (set_service (p_name p) (retire_service rid) t, st)) (\<lambda>x.
          on_ok (retire_service_database E p s x) (\<lambda>(t, st).
            if sv_ownsTeam s then
              on_ok (approveManifest E (teamManifestPath (ten_name t)) rid (p_force p) st)
                (\<lambda>st. Inr (put_tenant (retire_tenant rid t) st))
            else Inr (put_tenant t st))))))"

definition finalize_component ::
    "renv \<Rightarrow> change_parameters \<Rightarrow> tenant \<Rightarrow> string \<Rightarrow> rstate \<Rightarrow> rresult" where
  "finalize_component E p t component st =
     (case find_by ca_name component (ten_applications t) of
        None \<Rightarrow> Inr st
      | Some entry \<Rightarrow>
          on_ok (check_ok (requireRetiring E (ca_lifecycle entry) (ca_deletionRequest entry) p)) (\<lambda>_.
            deleteLeaf E (ca_path entry) ''application.yaml'' st))"

definition finalize_service_database ::
    "renv \<Rightarrow> change_parameters \<Rightarrow> tenant \<Rightarrow> catalog_service \<Rightarrow> rstate \<Rightarrow> rresult" where
  "finalize_service_database E p t s st =
     (if sv_ownsDatabase s \<and> sv_databaseRef s \<noteq> [] then
        (case find_by cd_name (sv_databaseRef s) (ten_databases t) of
           None \<Rightarrow> Inr st
         | Some entry \<Rightarrow>
             on_ok (check_ok (requireRetiring E (cd_lifecycle entry) (cd_deletionRequest entry) p)) (\<lambda>_.
               deleteLeaf E (cd_path entry) ''database.yaml'' st))
      else Inr st)"

fun first_index :: "('a \<Rightarrow> string) \<Rightarrow> string \<Rightarrow> 'a list \<Rightarrow> nat" where
  "first_index f n [] = 0"
| "first_index f n (x # xs) = (if f x = n then 0 else Suc (first_index f n xs))"

definition drop_tenant :: "string \<Rightarrow> tenant list \<Rightarrow> tenant list" where
  \<comment> \<open>\<open>candidate.Name != tenant.Name\<close> with \<open>tenant\<close> a pointer into the array being filtered\<close>
  "drop_tenant n ts =
     filter_array (\<lambda>arr candidate. ten_name candidate \<noteq> ten_name (arr ! first_index ten_name n ts)) ts"

definition drop_service :: "string \<Rightarrow> catalog_service list \<Rightarrow> catalog_service list" where
  \<comment> \<open>\<open>candidate.Name != service.Name\<close> with \<open>service\<close> a pointer into the array being filtered\<close>
  "drop_service n ss =
     filter_array (\<lambda>arr candidate. sv_name candidate \<noteq> sv_name (arr ! first_index sv_name n ss)) ss"

definition strip_service :: "catalog_service \<Rightarrow> tenant \<Rightarrow> tenant" where
  "strip_service s t = t\<lparr>
     ten_applications := filter_array (\<lambda>_ a. ca_name a \<notin> set (sv_components s)) (ten_applications t),
     ten_databases := (if sv_ownsDatabase s
        then filter_array (\<lambda>_ d. cd_name d \<noteq> sv_databaseRef s) (ten_databases t) else ten_databases t),
     ten_services := drop_service (sv_name s) (ten_services t)\<rparr>"

definition finalizeService :: "renv \<Rightarrow> change_parameters \<Rightarrow> rstate \<Rightarrow> rresult" where
  "finalizeService E p st =
     on_ok (tenant_of E (p_team p) st) (\<lambda>t.
     on_ok (serviceEntry E t (p_name p)) (\<lambda>s.
     on_ok (check_ok (requireRetiring E (sv_lifecycle s) (sv_deletionRequest s) p)) (\<lambda>_.
     on_ok (foldE (finalize_component E p t) (sv_components s) st) (\<lambda>st.
     on_ok (finalize_service_database E p t s st) (\<lambda>st.
     on_ok (deleteServiceSource E s st) (\<lambda>st.
       if sv_ownsTeam s then
         on_ok (check_ok (requireRetiring E (ten_lifecycle t) (ten_deletionRequest t) p)) (\<lambda>_.
         on_ok (deleteLeaf E (ten_teamPath t) ''team.yaml'' st) (\<lambda>st.
           Inr (set_tenants (drop_tenant (ten_name t) (tenants_of st)) st)))
       else Inr (put_tenant (strip_service s t) st)))))))"

subsection \<open>Rendering\<close>

definition render :: "renv \<Rightarrow> rstate \<Rightarrow> rresult" where
  "render E st =
     (let p = cr_parameters (re_request E); op = cr_operation (re_request E) in
      if op = ''team.create'' then createTeam E p st
      else if op = ''team.update'' then updateTeam E p st
      else if op = ''team.delete'' then approveTeamDeletion E p st
      else if op = ''team.finalize'' then finalizeTeam E p st
      else if op = ''app.create'' then createApplication E p st
      else if op = ''app.update'' then updateApplication E p st
      else if op = ''app.delete'' then approveApplicationDeletion E p st
      else if op = ''app.finalize'' then finalizeApplication E p st
      else if op = ''database.create'' \<or> op = ''database.restore'' then createDatabase E p st
      else if op = ''database.update'' then updateDatabase E p st
      else if op = ''database.delete'' then approveDatabaseDeletion E p st
      else if op = ''database.finalize'' then finalizeDatabase E p st
      else if op = ''service.scaffold'' then scaffoldService E p st
      else if op = ''service.activate'' then activateService E p st
      else if op = ''service.retire'' then retireService E p st
      else if op = ''service.finalize'' then finalizeService E p st
      else Inl (exitError ExitUsage (''unsupported operation '' @ go_quote (L_of E) op)))"

definition action_text :: "action \<Rightarrow> string" where
  "action_text a = (case a of
     ActCreate \<Rightarrow> ''create'' | ActUpdate \<Rightarrow> ''update'' | ActDelete \<Rightarrow> ''delete'' | ActOther s \<Rightarrow> s)"

definition hashed :: "file_change list \<Rightarrow> string" where
  \<comment> \<open>the bytes the render digest is computed over\<close>
  "hashed files = concat (map (\<lambda>c. action_text (fc_action c) @ [CHR 0x00] @ fc_path c @ [CHR 0x00]
     @ fc_content c) files)"

definition RenderChange :: "rlib \<Rightarrow> fs \<Rightarrow> change_request \<Rightarrow> cli_error + change_set" where
  "RenderChange R repo request =
     (let E = \<lparr>re_lib = R, re_repo = repo, re_request = request\<rparr> in
      on_ok (check_ok (ChangeRequest_Validate (rl_lib R) request)) (\<lambda>_.
      on_ok (LoadCatalog (catalog_unmarshal R) (rl_lib R) repo) (\<lambda>c.
      on_ok (render E \<lparr>rs_catalog = c, rs_changes = []\<rparr>) (\<lambda>st.
      on_ok (set_file E CatalogRelativePath (catalog_marshal R (rs_catalog st)) st) (\<lambda>st.
        if length (rs_changes st) = 0 then
          Inl (exitError ExitConflict ''operation produces no repository change'')
        else
          let files = map (\<lambda>path. the (map_of (rs_changes st) path)) (sort (map fst (rs_changes st))) in
          Inr \<lparr>cs_requestID = cr_requestID request, cs_operation = cr_operation request,
               cs_proposalDigest = Digest (rl_codec R) request,
               cs_renderDigest = ''sha256:'' @ sha256_hex (hashed files),
               cs_files = files\<rparr>)))))"

subsection \<open>Applying a change set\<close>

definition dir_of :: "string \<Rightarrow> string" where
  \<comment> \<open>\<open>filepath.Dir\<close> of a clean relative path\<close>
  "dir_of p = (case butlast (split_on CHR ''/'' p) of [] \<Rightarrow> ''.'' | ds \<Rightarrow> join ''/'' ds)"

definition ancestors :: "string \<Rightarrow> string list" where
  \<comment> \<open>the directory of a path and the directories above it\<close>
  "ancestors p = map (\<lambda>k. join ''/'' (take k (split_on CHR ''/'' p)))
     [1..<length (split_on CHR ''/'' p)]"

definition write_file :: "string \<Rightarrow> string \<Rightarrow> fs \<Rightarrow> fs" where
  "write_file p content t = t\<lparr>fs_files := AList.update p content (fs_files t),
     fs_dirs := remdups (fs_dirs t @ ancestors p)\<rparr>"

definition unlink :: "string \<Rightarrow> fs \<Rightarrow> fs" where
  "unlink p t = t\<lparr>fs_files := AList.delete p (fs_files t)\<rparr>"

definition rmdir_if_empty :: "string \<Rightarrow> fs \<Rightarrow> fs" where
  \<comment> \<open>\<open>Remove\<close> of a directory, its error ignored\<close>
  "rmdir_if_empty d t =
     (if under d (map fst (fs_files t) @ fs_dirs t) = [] then t\<lparr>fs_dirs := removeAll d (fs_dirs t)\<rparr> else t)"

definition blocked :: "string \<Rightarrow> fs \<Rightarrow> bool" where
  \<comment> \<open>\<open>MkdirAll\<close> and \<open>WriteFile\<close> fail when an ancestor is a file or the path is a directory\<close>
  "blocked p t = (is_dir t p \<or> list_ex (\<lambda>d. read_file t d \<noteq> None) (ancestors p))"

definition apply_change :: "lib \<Rightarrow> file_change \<Rightarrow> fs \<Rightarrow> cli_error + fs" where
  "apply_change L c t =
     (case validateChangePath L (fc_path c) of
        Some e \<Rightarrow> Inl e
      | None \<Rightarrow>
          let current = repo_read t (fc_path c) in
          if fc_action c = ActCreate \<and> current \<noteq> Absent then
            Inl (exitError ExitConflict (''create target '' @ fc_path c @ '' changed after rendering''))
          else if fc_action c \<noteq> ActCreate \<and> current \<noteq> Content (fc_before c) then
            Inl (exitError ExitConflict (''target '' @ fc_path c @ '' changed after rendering''))
          else case fc_action c of
              ActDelete \<Rightarrow> Inr (unlink (fc_path c) t)
            | ActOther s \<Rightarrow> Inl (exitError ExitUsage (''unsupported file action '' @ go_quote L s))
            | _ \<Rightarrow> if blocked (fc_path c) t then Inl (errorf (''write '' @ fc_path c))
                   else Inr (write_file (fc_path c) (fc_content c) t))"

definition ApplyChangeSet :: "lib \<Rightarrow> change_set \<Rightarrow> fs \<Rightarrow> cli_error + fs" where
  "ApplyChangeSet L cs t =
     on_ok (foldE (apply_change L) (cs_files cs) t) (\<lambda>t.
       Inr (fold (\<lambda>c t. if fc_action c = ActDelete then rmdir_if_empty (dir_of (fc_path c)) t else t)
              (cs_files cs) t))"

end
