(* ===== verification/Render_Safety.thy ===== *)
theory Render_Safety
  imports Renderer "HOL-Library.Multiset"
begin

section \<open>What rendering a change request guarantees\<close>

text \<open>
  Two invariants of the renderer. Every staged change is \<open>change_ok\<close>: its path is on the allowlist, and its action
  and old content agree with the repository it was rendered from. And the operations keep the catalog well formed
  (\<open>catalog_ok\<close>), which \<open>tenant_entries\<close>, the contract of the three kinds of entries of a tenant, proves once for
  all of them; where they do not, the theory has the counterexample. The last part follows a change set through
  \<open>ApplyChangeSet\<close>.
\<close>

subsection \<open>Results that satisfy a predicate\<close>

definition ok_res :: "('s \<Rightarrow> bool) \<Rightarrow> 'e + 's \<Rightarrow> bool" where
  "ok_res P r = (case r of Inl _ \<Rightarrow> True | Inr s \<Rightarrow> P s)"

lemma ok_res_simps [simp]: "ok_res P (Inl e)" "ok_res P (Inr s) = P s"
  by (simp_all add: ok_res_def)

lemma ok_resD: "ok_res P r \<Longrightarrow> r = Inr s \<Longrightarrow> P s"
  by simp

lemma ok_res_bind:
  "ok_res Q r \<Longrightarrow> (\<And>x. r = Inr x \<Longrightarrow> Q x \<Longrightarrow> ok_res P (f x)) \<Longrightarrow> ok_res P (on_ok r f)"
  by (cases r) auto

lemma ok_res_any: "(\<And>x. r = Inr x \<Longrightarrow> ok_res P (f x)) \<Longrightarrow> ok_res P (on_ok r f)"
  by (cases r) auto

subsection \<open>Staged changes\<close>

definition change_ok :: "renv \<Rightarrow> file_change \<Rightarrow> bool" where
  "change_ok E c \<longleftrightarrow> validateChangePath (L_of E) (fc_path c) = None
     \<and> (case fc_action c of
          ActCreate \<Rightarrow> repo_read (re_repo E) (fc_path c) = Absent \<and> fc_before c = [] \<and> fc_content c \<noteq> []
        | ActUpdate \<Rightarrow> repo_read (re_repo E) (fc_path c) = Content (fc_before c)
            \<and> fc_content c \<noteq> fc_before c
        | ActDelete \<Rightarrow> repo_read (re_repo E) (fc_path c) = Content (fc_before c) \<and> fc_content c = []
        | ActOther _ \<Rightarrow> False)"

definition changes_ok :: "renv \<Rightarrow> rstate \<Rightarrow> bool" where
  "changes_ok E st \<longleftrightarrow> distinct (map fst (rs_changes st))
     \<and> (\<forall>(p, c) \<in> set (rs_changes st). fc_path c = p \<and> change_ok E c)"

definition staged :: "renv \<Rightarrow> rstate \<Rightarrow> rstate \<Rightarrow> bool" where
  \<comment> \<open>only changes were staged, and only correct ones\<close>
  "staged E st st' \<longleftrightarrow> rs_catalog st' = rs_catalog st \<and> (changes_ok E st \<longrightarrow> changes_ok E st')"

lemma staged_refl [simp]: "staged E st st" and
  staged_trans: "staged E st st' \<Longrightarrow> staged E st' st'' \<Longrightarrow> staged E st st''"
  by (auto simp: staged_def)

lemma staged_bind:
  "ok_res (staged E st) r \<Longrightarrow> (\<And>st'. ok_res (staged E st') (f st')) \<Longrightarrow>
   ok_res (staged E st) (on_ok r f)"
proof (cases r)
  case (Inr b)
  assume "ok_res (staged E st) r" and "\<And>st'. ok_res (staged E st') (f st')"
  then have "staged E st b" "ok_res (staged E b) (f b)" by (simp_all add: Inr)
  then show ?thesis by (cases "f b") (auto simp: Inr intro: staged_trans)
qed simp

lemma staged_foldE: "(\<And>x st. ok_res (staged E st) (f x st)) \<Longrightarrow> ok_res (staged E st) (foldE f xs st)"
proof (induction xs arbitrary: st)
  case (Cons x xs)
  then show ?case by (simp add: staged_bind)
qed simp

lemma set_update_entries:
  "set (AList.update k v xs) \<subseteq> insert (k, v) (set xs)"
  by (induction xs) auto

lemma stage_staged: "change_ok E c \<Longrightarrow> staged E st (stage c st)"
  using set_update_entries [of "fc_path c" c "rs_changes st"]
  by (fastforce simp: staged_def changes_ok_def stage_def distinct_update)

lemma set_file_staged [simp]: "ok_res (staged E st) (set_file E p content st)"
  by (auto simp: set_file_def change_ok_def intro!: stage_staged split: option.split read_result.split)

lemma remove_file_staged [simp]: "ok_res (staged E st) (remove_file E p st)"
  by (auto simp: remove_file_def change_ok_def intro!: stage_staged split: option.split read_result.split)

lemma writeLeaf_staged [simp]: "ok_res (staged E st) (writeLeaf E p manifest obj st)"
  by (simp add: writeLeaf_def staged_bind)

lemma deleteLeaf_staged [simp]: "ok_res (staged E st) (deleteLeaf E p manifest st)"
  by (simp add: deleteLeaf_def staged_bind split: option.split)

lemma approveManifest_staged [simp]: "ok_res (staged E st) (approveManifest E p rid force st)"
  by (simp add: approveManifest_def split: option.split sum.split read_result.split)

lemma writeTeam_staged [simp]: "ok_res (staged E st) (writeTeam E n p st)"
  by (simp add: writeTeam_def)

lemma writeApplicationWithIsolation_staged [simp]:
  "ok_res (staged E st) (writeApplicationWithIsolation E team p isolated st)"
  by (simp add: writeApplicationWithIsolation_def)

lemma writeApplication_staged [simp]: "ok_res (staged E st) (writeApplication E team p st)"
  by (simp add: writeApplication_def)

lemma writeDatabase_staged [simp]: "ok_res (staged E st) (writeDatabase E team p st)"
  by (cases "database_spec E p") (simp_all add: writeDatabase_def)

lemma writeServiceSource_staged [simp]: "ok_res (staged E st) (writeServiceSource E s st)"
  by (cases "serviceFiles E s") (simp_all add: writeServiceSource_def staged_foldE)

lemma writeServiceVersion_staged [simp]: "ok_res (staged E st) (writeServiceVersion E s st)"
  by (simp add: writeServiceVersion_def staged_bind)

lemma deleteServiceSource_staged [simp]: "ok_res (staged E st) (deleteServiceSource E s st)"
  by (cases "serviceFiles E s") (simp_all add: deleteServiceSource_def staged_foldE Let_def)

text \<open>Catalog edits leave the staged changes alone.\<close>

lemma changes_ok_edit [simp]:
  "changes_ok E (put_tenant t st) = changes_ok E st" "changes_ok E (set_tenants ts st) = changes_ok E st"
  by (simp_all add: changes_ok_def put_tenant_def set_tenants_def)

lemma tenants_of_edit [simp]:
  "tenants_of (set_tenants ts st) = ts"
  "tenants_of (put_tenant t st) = update_first ten_name (ten_name t) (\<lambda>_. t) (tenants_of st)"
  by (simp_all add: tenants_of_def set_tenants_def put_tenant_def)

subsection \<open>The entries of a tenant\<close>

text \<open>
  The contract of one kind of entries: a reader of the list and an update through the tenant. The names of a kind are
  unique over the whole catalog; the lemmas say which replacements of one tenant keep that.
\<close>

definition fresh_names :: "string list \<Rightarrow> string list \<Rightarrow> string list \<Rightarrow> bool" where
  "fresh_names all old new \<longleftrightarrow> distinct new \<and> (set new - set old) \<inter> set all = {}"

lemma fresh_names_subset:
  "fresh_names all old new \<Longrightarrow> distinct xs \<Longrightarrow> set xs \<subseteq> set new \<Longrightarrow> fresh_names all old xs"
  by (auto simp: fresh_names_def)

lemma fresh_names_add:
  "fresh_names all old new \<Longrightarrow> n \<notin> set all \<Longrightarrow> n \<notin> set new \<Longrightarrow> mset xs = add_mset n (mset new) \<Longrightarrow>
   fresh_names all old xs"
proof -
  assume f: "fresh_names all old new" and n: "n \<notin> set all" "n \<notin> set new" and m: "mset xs = add_mset n (mset new)"
  have "mset xs = mset (n # new)" using m by simp
  then have "distinct xs \<longleftrightarrow> distinct (n # new)" "set xs = set (n # new)"
    by (fact mset_eq_imp_distinct_iff, fact mset_eq_setD)
  then show ?thesis using f n by (auto simp: fresh_names_def)
qed

locale tenant_entries =
  fixes entries :: "tenant \<Rightarrow> 'e list"
    and change :: "('e list \<Rightarrow> 'e list) \<Rightarrow> tenant \<Rightarrow> tenant"
    and entry_name :: "'e \<Rightarrow> string"
    and all_names :: "tenant list \<Rightarrow> string list"
  assumes entries_change [simp]: "entries (change f t) = f (entries t)"
    and name_change [simp]: "ten_name (change f t) = ten_name t"
    and all_names: "all_names ts = concat (map (\<lambda>t. map entry_name (entries t)) ts)"
begin

lemma all_names_simps [simp]:
  "all_names [] = []" "all_names (t # ts) = map entry_name (entries t) @ all_names ts"
  "all_names (ts @ ts') = all_names ts @ all_names ts'"
  by (simp_all add: all_names)

lemma mem_all_names: "n \<in> set (all_names ts) \<longleftrightarrow> (\<exists>t \<in> set ts. n \<in> entry_name ` set (entries t))"
  by (induction ts) auto

lemma distinct_own: "distinct (all_names ts) \<Longrightarrow> t \<in> set ts \<Longrightarrow> distinct (map entry_name (entries t))"
  by (induction ts) auto

lemma distinct_replace:
  "distinct (all_names ts) \<Longrightarrow> find_by ten_name n ts = Some t \<Longrightarrow>
   fresh_names (all_names ts) (map entry_name (entries t)) (map entry_name (entries t')) \<Longrightarrow>
   distinct (all_names (update_first ten_name n (\<lambda>_. t') ts))"
proof (induction ts)
  case (Cons u us)
  show ?case
  proof (cases "ten_name u = n")
    case True
    with Cons.prems show ?thesis by (auto simp: fresh_names_def)
  next
    case False
    have sub: "set (all_names (update_first ten_name n (\<lambda>_. t') us))
        \<subseteq> set (all_names us) \<union> set (map entry_name (entries t'))"
      by (induction us) auto
    have t: "t \<in> set us" using False Cons.prems find_by_SomeD [of ten_name n us t] by auto
    have "distinct (all_names (update_first ten_name n (\<lambda>_. t') us))"
      using False Cons.prems by (intro Cons.IH) (auto simp: fresh_names_def)
    moreover have "set (map entry_name (entries u)) \<inter> set (map entry_name (entries t')) = {}"
    proof -
      have "set (map entry_name (entries t)) \<subseteq> set (all_names us)" using t
        by (auto simp: mem_all_names intro!: bexI [of _ t])
      then show ?thesis
        using Cons.prems(1,3) unfolding fresh_names_def all_names_simps distinct_append set_append by blast
    qed
    moreover have "set (map entry_name (entries u)) \<inter> set (all_names us) = {}"
      using Cons.prems(1) by simp
    ultimately have "set (map entry_name (entries u)) \<inter> set (all_names (update_first ten_name n (\<lambda>_. t') us)) = {}"
      and "distinct (all_names (update_first ten_name n (\<lambda>_. t') us))" using sub by blast+
    then show ?thesis using False Cons.prems(1) by simp
  qed
qed simp

lemma distinct_set_tenants:
  "distinct (all_names ts) \<Longrightarrow> mset ts' \<subseteq># mset ts \<Longrightarrow> distinct (all_names ts')"
proof -
  assume d: "distinct (all_names ts)" and s: "mset ts' \<subseteq># mset ts"
  have m: "mset (all_names us) = (\<Sum>t \<in># mset us. mset (map entry_name (entries t)))" for us
    by (induction us) simp_all
  obtain R where "mset ts = mset ts' + R" using s by (auto simp: subset_mset.le_iff_add)
  then have "mset (all_names ts) = mset (all_names ts') + (\<Sum>t \<in># R. mset (map entry_name (entries t)))"
    by (simp add: m)
  moreover obtain zs where "mset zs = (\<Sum>t \<in># R. mset (map entry_name (entries t)))"
    using ex_mset by blast
  ultimately have "mset (all_names ts) = mset (all_names ts' @ zs)" by simp
  then show ?thesis using d mset_eq_imp_distinct_iff by fastforce
qed

lemma fresh_own:
  "distinct (all_names ts) \<Longrightarrow> t \<in> set ts \<Longrightarrow>
   fresh_names (all_names ts) (map entry_name (entries t)) (map entry_name (entries t))"
  using distinct_own by (simp add: fresh_names_def)

end

interpretation app_entries: tenant_entries ten_applications ten_applications_update ca_name all_applications
  by unfold_locales (simp_all add: all_applications_def)

interpretation db_entries: tenant_entries ten_databases ten_databases_update cd_name all_databases
  by unfold_locales (simp_all add: all_databases_def)

interpretation svc_entries: tenant_entries ten_services ten_services_update sv_name all_services
  by unfold_locales (simp_all add: all_services_def)

subsection \<open>Replacing one tenant\<close>

definition replaceable :: "lib \<Rightarrow> tenant list \<Rightarrow> tenant \<Rightarrow> tenant \<Rightarrow> bool" where
  "replaceable L ts t t' \<longleftrightarrow> ten_name t' = ten_name t \<and> tenant_ok L t'
     \<and> fresh_names (all_applications ts) (map ca_name (ten_applications t)) (map ca_name (ten_applications t'))
     \<and> fresh_names (all_databases ts) (map cd_name (ten_databases t)) (map cd_name (ten_databases t'))
     \<and> fresh_names (all_services ts) (map sv_name (ten_services t)) (map sv_name (ten_services t'))"

lemma catalog_okD:
  assumes "catalog_ok L c"
  shows "t \<in> set (cat_tenants c) \<Longrightarrow> tenant_ok L t" "distinct (map ten_name (cat_tenants c))"
    "distinct (all_applications (cat_tenants c))" "distinct (all_databases (cat_tenants c))"
    "distinct (all_services (cat_tenants c))"
  using assms by (auto simp: catalog_ok_def)

lemma replaceable_refl:
  "catalog_ok L c \<Longrightarrow> t \<in> set (cat_tenants c) \<Longrightarrow> replaceable L (cat_tenants c) t t"
  by (simp add: replaceable_def catalog_okD app_entries.fresh_own db_entries.fresh_own svc_entries.fresh_own)

lemma update_first_const_names: "f y = n \<Longrightarrow> map f (update_first f n (\<lambda>_. y) xs) = map f xs"
  by (induction xs) auto

lemma catalog_ok_replace:
  assumes "catalog_ok L c" "find_by ten_name (ten_name t) (cat_tenants c) = Some t"
    "replaceable L (cat_tenants c) t t'"
  shows "catalog_ok L (c\<lparr>cat_tenants := update_first ten_name (ten_name t') (\<lambda>_. t') (cat_tenants c)\<rparr>)"
proof -
  have n: "ten_name t' = ten_name t" and t': "tenant_ok L t'" using assms(3) by (auto simp: replaceable_def)
  have "map ten_name (update_first ten_name (ten_name t) (\<lambda>_. t') (cat_tenants c)) = map ten_name (cat_tenants c)"
    by (rule update_first_const_names) (simp add: n)
  moreover have "tenant_ok L u" if "u \<in> set (update_first ten_name (ten_name t) (\<lambda>_. t') (cat_tenants c))" for u
    using that update_first_set [of ten_name "ten_name t" "\<lambda>_. t'" "cat_tenants c"] t' assms(1)
    by (auto simp: catalog_ok_def)
  ultimately show ?thesis using assms n
    by (auto simp: catalog_ok_def replaceable_def intro!: app_entries.distinct_replace
        db_entries.distinct_replace svc_entries.distinct_replace)
qed

text \<open>The edits of a tenant, one after the other.\<close>

lemma names_image: "map f xs = map f ys \<Longrightarrow> f ` set xs = f ` set ys"
  by (metis set_map)

lemma replaceableD:
  assumes "replaceable L ts t0 t"
  shows "tenant_ok L t" "ten_name t = ten_name t0"
    "distinct (map ca_name (ten_applications t))" "distinct (map cd_name (ten_databases t))"
    "distinct (map sv_name (ten_services t))"
  using assms by (auto simp: replaceable_def fresh_names_def)

lemma replaceable_tenant:
  "replaceable L ts t0 t \<Longrightarrow> owner_entries_ok os \<Longrightarrow> lifecycle_ok L lc rid \<Longrightarrow>
   replaceable L ts t0 (t\<lparr>ten_owners := os, ten_lifecycle := lc, ten_deletionRequest := rid\<rparr>)"
  by (auto simp: replaceable_def tenant_ok_def)

lemma replaceable_applications:
  assumes "replaceable L ts t0 t" "distinct (map ca_name as)" "ca_name ` set as \<subseteq> ca_name ` set (ten_applications t)"
    "\<And>a. a \<in> set as \<Longrightarrow> application_entry_ok L (cd_name ` set (ten_databases t)) a"
  shows "replaceable L ts t0 (t\<lparr>ten_applications := as\<rparr>)"
  using assms fresh_names_subset [where xs = "map ca_name as"] by (auto simp: replaceable_def tenant_ok_def)

lemma replaceable_databases:
  assumes "replaceable L ts t0 t" "distinct (map cd_name ds)" "cd_name ` set ds = cd_name ` set (ten_databases t)"
    "\<And>d. d \<in> set ds \<Longrightarrow> database_entry_ok L d"
  shows "replaceable L ts t0 (t\<lparr>ten_databases := ds\<rparr>)"
  using assms fresh_names_subset [where xs = "map cd_name ds"] by (auto simp: replaceable_def tenant_ok_def)

lemma replaceable_services:
  assumes "replaceable L ts t0 t" "distinct (map sv_name ss)" "sv_name ` set ss \<subseteq> sv_name ` set (ten_services t)"
    "\<And>s. s \<in> set ss \<Longrightarrow> service_entry_ok L (cd_name ` set (ten_databases t)) s"
  shows "replaceable L ts t0 (t\<lparr>ten_services := ss\<rparr>)"
  using assms fresh_names_subset [where xs = "map sv_name ss"] by (auto simp: replaceable_def tenant_ok_def)

lemma tenant_entries_okD:
  assumes "tenant_ok L t"
  shows "a \<in> set (ten_applications t) \<Longrightarrow> application_entry_ok L (cd_name ` set (ten_databases t)) a"
    "d \<in> set (ten_databases t) \<Longrightarrow> database_entry_ok L d"
    "s \<in> set (ten_services t) \<Longrightarrow> service_entry_ok L (cd_name ` set (ten_databases t)) s"
  using assms by (auto simp: tenant_ok_def)

lemma replaceable_set_application:
  assumes "replaceable L ts t0 t" "\<And>a. ca_name (f a) = ca_name a"
    "\<And>a. application_entry_ok L (cd_name ` set (ten_databases t)) a \<Longrightarrow>
       application_entry_ok L (cd_name ` set (ten_databases t)) (f a)"
  shows "replaceable L ts t0 (set_application n f t)"
proof -
  have n: "map ca_name (update_first ca_name n f (ten_applications t)) = map ca_name (ten_applications t)"
    by (rule update_first_names) (rule assms(2))
  have ok: "application_entry_ok L (cd_name ` set (ten_databases t)) a" if "a \<in> set (update_first ca_name n f (ten_applications t))" for a
    using subsetD [OF update_first_set that] tenant_entries_okD(1) [OF replaceableD(1) [OF assms(1)]] assms(3)
    by auto
  show ?thesis unfolding set_application_def
    using assms(1) n names_image [OF n] ok replaceableD [OF assms(1)]
    by (intro replaceable_applications) simp_all
qed

lemma replaceable_set_database:
  assumes "replaceable L ts t0 t" "\<And>a. cd_name (f a) = cd_name a"
    "\<And>a. database_entry_ok L a \<Longrightarrow> database_entry_ok L (f a)"
  shows "replaceable L ts t0 (set_database n f t)"
proof -
  have n: "map cd_name (update_first cd_name n f (ten_databases t)) = map cd_name (ten_databases t)"
    by (rule update_first_names) (rule assms(2))
  have ok: "database_entry_ok L a" if "a \<in> set (update_first cd_name n f (ten_databases t))" for a
    using subsetD [OF update_first_set that] tenant_entries_okD(2) [OF replaceableD(1) [OF assms(1)]] assms(3)
    by auto
  show ?thesis unfolding set_database_def
    using assms(1) n names_image [OF n] ok replaceableD [OF assms(1)]
    by (intro replaceable_databases) simp_all
qed

lemma replaceable_set_service:
  assumes "replaceable L ts t0 t" "\<And>s. s \<in> set (ten_services t) \<Longrightarrow> sv_name s = n \<Longrightarrow> sv_name (f s) = n"
    "\<And>s. s \<in> set (ten_services t) \<Longrightarrow> service_entry_ok L (cd_name ` set (ten_databases t)) s \<Longrightarrow>
       sv_name s = n \<Longrightarrow> service_entry_ok L (cd_name ` set (ten_databases t)) (f s)"
  shows "replaceable L ts t0 (set_service n f t)"
proof -
  have "map sv_name (update_first sv_name n f xs) = map sv_name xs"
    if "\<And>s. s \<in> set xs \<Longrightarrow> sv_name s = n \<Longrightarrow> sv_name (f s) = n" for xs
    using that by (induction xs) auto
  then have n: "map sv_name (update_first sv_name n f (ten_services t)) = map sv_name (ten_services t)"
    using assms(2) by blast
  have ok: "service_entry_ok L (cd_name ` set (ten_databases t)) s"
    if "s \<in> set (update_first sv_name n f (ten_services t))" for s
    using update_first_mem [OF that] replaceableD [OF assms(1)] assms(3) tenant_entries_okD(3) by blast
  show ?thesis unfolding set_service_def
    using assms(1) n names_image [OF n] ok replaceableD [OF assms(1)]
    by (intro replaceable_services) simp_all
qed

lemma replaceable_add_application:
  assumes "replaceable L ts t0 t" "ca_name a \<notin> set (all_applications ts)"
    "ca_name a \<notin> ca_name ` set (ten_applications t)"
    "application_entry_ok L (cd_name ` set (ten_databases t)) a"
  shows "replaceable L ts t0 (add_application a t)"
  using assms fresh_names_add [where n = "ca_name a" and xs = "map ca_name (ten_applications t @ [a])"]
  by (auto simp: replaceable_def tenant_ok_def add_application_def)

lemma replaceable_sort_applications:
  "replaceable L ts t0 t \<Longrightarrow> replaceable L ts t0 (sort_applications t)"
  unfolding sort_applications_def
  by (rule replaceable_applications)
    (auto dest: replaceableD tenant_entries_okD simp: distinct_map)

lemma replaceable_add_database:
  assumes "replaceable L ts t0 t" "cd_name d \<notin> set (all_databases ts)"
    "cd_name d \<notin> cd_name ` set (ten_databases t)" "database_entry_ok L d"
  shows "replaceable L ts t0 (add_database d t)"
proof -
  have "fresh_names (all_databases ts) (map cd_name (ten_databases t0))
      (map cd_name (sort_key cd_name (ten_databases t @ [d])))"
  proof (rule fresh_names_add [where n = "cd_name d"])
    show "fresh_names (all_databases ts) (map cd_name (ten_databases t0)) (map cd_name (ten_databases t))"
      using assms(1) by (simp add: replaceable_def)
    show "mset (map cd_name (sort_key cd_name (ten_databases t @ [d]))) = add_mset (cd_name d) (mset (map cd_name (ten_databases t)))"
      by simp
  qed (use assms in simp_all)
  moreover have "tenant_ok L (add_database d t)"
  proof -
    have t: "tenant_ok L t" by (rule replaceableD(1) [OF assms(1)])
    have a: "application_entry_ok L D a \<Longrightarrow> D \<subseteq> D' \<Longrightarrow> application_entry_ok L D' a"
      and s: "service_entry_ok L D s \<Longrightarrow> D \<subseteq> D' \<Longrightarrow> service_entry_ok L D' s" for D D' a s
      by (auto simp: application_entry_ok_def service_entry_ok_def)
    have sub: "cd_name ` set (ten_databases t) \<subseteq> insert (cd_name d) (cd_name ` set (ten_databases t))" by blast
    with t assms(4) a [OF _ sub] s [OF _ sub] show ?thesis
      unfolding tenant_ok_def add_database_def by auto
  qed
  ultimately show ?thesis using assms(1) by (simp add: replaceable_def add_database_def)
qed

lemma replaceable_add_service:
  assumes "replaceable L ts t0 t" "sv_name s \<notin> set (all_services ts)"
    "sv_name s \<notin> sv_name ` set (ten_services t)" "service_entry_ok L (cd_name ` set (ten_databases t)) s"
  shows "replaceable L ts t0 (add_service s t)"
proof -
  have "fresh_names (all_services ts) (map sv_name (ten_services t0))
      (map sv_name (sort_key sv_name (ten_services t @ [s])))"
  proof (rule fresh_names_add [where n = "sv_name s"])
    show "fresh_names (all_services ts) (map sv_name (ten_services t0)) (map sv_name (ten_services t))"
      using assms(1) by (simp add: replaceable_def)
    show "mset (map sv_name (sort_key sv_name (ten_services t @ [s]))) = add_mset (sv_name s) (mset (map sv_name (ten_services t)))"
      by simp
  qed (use assms in simp_all)
  moreover have "tenant_ok L (add_service s t)"
    using replaceableD(1) [OF assms(1)] assms(4) by (simp add: tenant_ok_def add_service_def)
  ultimately show ?thesis using assms(1) by (simp add: replaceable_def add_service_def)
qed

subsection \<open>The operations keep the catalog well formed\<close>

definition keeps :: "renv \<Rightarrow> rstate \<Rightarrow> rstate \<Rightarrow> bool" where
  "keeps E st st' \<longleftrightarrow> (changes_ok E st \<longrightarrow> changes_ok E st')
     \<and> (catalog_ok (L_of E) (rs_catalog st) \<longrightarrow> catalog_ok (L_of E) (rs_catalog st'))"

lemma staged_keeps: "staged E st st' \<Longrightarrow> keeps E st st'"
  by (simp add: keeps_def staged_def)

lemma keeps_trans: "keeps E st st' \<Longrightarrow> keeps E st' st'' \<Longrightarrow> keeps E st st''"
  by (auto simp: keeps_def)

lemma tenant_of_Inr: "tenant_of E n st = Inr t \<longleftrightarrow> find_by ten_name n (tenants_of st) = Some t"
  by (simp add: tenant_of_def tenants_of_def split: option.split)

lemma activeTenant_Inr:
  "activeTenant E n st = Inr t \<longleftrightarrow> find_by ten_name n (tenants_of st) = Some t \<and> ten_lifecycle t = Active"
  by (auto simp: activeTenant_def on_ok_Inr tenant_of_Inr)

lemma entry_Inr:
  "applicationEntry E t n = Inr a \<longleftrightarrow> find_by ca_name n (ten_applications t) = Some a"
  "databaseEntry E t n = Inr d \<longleftrightarrow> find_by cd_name n (ten_databases t) = Some d"
  "serviceEntry E t n = Inr s \<longleftrightarrow> find_by sv_name n (ten_services t) = Some s"
  by (simp_all add: applicationEntry_def databaseEntry_def serviceEntry_def split: option.split)

lemma find_tenant:
  assumes "find_by ten_name n (tenants_of st) = Some t"
  shows "t \<in> set (cat_tenants (rs_catalog st))" "ten_name t = n"
    "find_by ten_name (ten_name t) (cat_tenants (rs_catalog st)) = Some t"
  using assms find_by_SomeD [OF assms] by (auto simp: tenants_of_def)

lemma put_keeps:
  assumes t: "find_by ten_name n (tenants_of st) = Some t" and s: "staged E st st1"
    and r: "catalog_ok (L_of E) (rs_catalog st) \<Longrightarrow> replaceable (L_of E) (tenants_of st) t t'"
  shows "keeps E st (put_tenant t' st1)"
  unfolding keeps_def
proof (intro conjI impI)
  assume c: "catalog_ok (L_of E) (rs_catalog st)"
  show "catalog_ok (L_of E) (rs_catalog (put_tenant t' st1))"
    using catalog_ok_replace [OF c find_tenant(3) [OF t]] r [OF c] s
    by (simp add: put_tenant_def staged_def tenants_of_def)
qed (use s in \<open>simp add: staged_def\<close>)

lemma put_write_keeps:
  assumes t: "find_by ten_name n (tenants_of st) = Some t"
    and r: "catalog_ok (L_of E) (rs_catalog st) \<Longrightarrow> replaceable (L_of E) (tenants_of st) t t'"
    and w: "\<And>st. ok_res (staged E st) (w st)"
  shows "ok_res (keeps E st) (w (put_tenant t' st))"
proof -
  have "keeps E st (put_tenant t' st)" by (rule put_keeps [OF t staged_refl r])
  then show ?thesis using w [of "put_tenant t' st"]
    by (cases "w (put_tenant t' st)") (auto intro: keeps_trans staged_keeps)
qed

lemma own_tenant:
  "catalog_ok L (rs_catalog st) \<Longrightarrow> find_by ten_name n (tenants_of st) = Some t \<Longrightarrow>
   replaceable L (tenants_of st) t t"
  using replaceable_refl find_tenant(1) by (simp add: tenants_of_def)

lemma databaseExists_mem: "databaseExists t n \<Longrightarrow> n \<in> cd_name ` set (ten_databases t)"
  using find_by_SomeD [of cd_name n "ten_databases t"] by (auto simp: databaseExists_def split: option.splits)

lemma createApplication_keeps:
  assumes "validName (p_name p) 63"
  shows "ok_res (keeps E st) (createApplication E p st)"
  unfolding createApplication_def
proof (rule ok_res_any, goal_cases)
  case (1 t)
  then have t: "find_by ten_name (p_team p) (tenants_of st) = Some t" by (simp add: activeTenant_Inr)
  have "replaceable (L_of E) (tenants_of st) t (sort_applications (add_application (new_application p) t))"
    if "p_name p \<notin> set (all_applications (tenants_of st)) \<and> p_name p \<notin> ca_name ` set (ten_applications t)"
      "p_databaseRef p \<noteq> [] \<longrightarrow> databaseExists t (p_databaseRef p)" "catalog_ok (L_of E) (rs_catalog st)"
    using that own_tenant [OF that(3) t] assms
    by (intro replaceable_sort_applications replaceable_add_application)
      (auto simp: new_application_def application_entry_ok_def lifecycle_ok_def dest: databaseExists_mem)
  then show ?case
    by (auto intro!: put_write_keeps [OF t, where w = "writeApplication E (p_team p) p"])
qed

lemma entry_ok_retire:
  assumes "uuid_valid L rid"
  shows "application_entry_ok L D a \<Longrightarrow> application_entry_ok L D (retire_application rid a)"
    "database_entry_ok L d \<Longrightarrow> database_entry_ok L (retire_database rid d)"
    "service_entry_ok L D s \<Longrightarrow> service_entry_ok L D (retire_service rid s)"
  using assms by (auto simp: application_entry_ok_def database_entry_ok_def service_entry_ok_def
      lifecycle_ok_def retire_application_def retire_database_def retire_service_def)

lemma retire_names [simp]:
  "ca_name (retire_application rid a) = ca_name a" "cd_name (retire_database rid d) = cd_name d"
  "sv_name (retire_service rid s) = sv_name s"
  by (simp_all add: retire_application_def retire_database_def retire_service_def)

lemma updateApplication_keeps: "ok_res (keeps E st) (updateApplication E p st)"
  unfolding updateApplication_def
proof (rule ok_res_any, rule ok_res_any, goal_cases)
  case (1 t a)
  then have t: "find_by ten_name (p_team p) (tenants_of st) = Some t" by (simp add: activeTenant_Inr)
  have "replaceable (L_of E) (tenants_of st) t (set_application (p_name p) (\<lambda>a. a\<lparr>ca_databaseRef := p_databaseRef p\<rparr>) t)"
    if "p_databaseRef p \<noteq> [] \<longrightarrow> databaseExists t (p_databaseRef p)" "catalog_ok (L_of E) (rs_catalog st)"
    using that own_tenant [OF that(2) t]
    by (intro replaceable_set_application) (auto simp: application_entry_ok_def dest: databaseExists_mem)
  then show ?case
    by (auto intro!: put_write_keeps [OF t, where w = "writeApplication E (p_team p) p"])
qed

lemma approveApplicationDeletion_keeps:
  assumes "uuid_valid (L_of E) (cr_requestID (re_request E))"
  shows "ok_res (keeps E st) (approveApplicationDeletion E p st)"
  unfolding approveApplicationDeletion_def Let_def
proof (rule ok_res_any, rule ok_res_any, goal_cases)
  case (1 t a)
  then have t: "find_by ten_name (p_team p) (tenants_of st) = Some t" by (simp add: activeTenant_Inr)
  have "replaceable (L_of E) (tenants_of st) t
      (set_application (p_name p) (retire_application (cr_requestID (re_request E))) t)"
    if "catalog_ok (L_of E) (rs_catalog st)"
    using own_tenant [OF that t] assms by (intro replaceable_set_application entry_ok_retire) auto
  then show ?case
    by (auto intro!: put_write_keeps [OF t, where w = "approveManifest E (applicationManifestPath (p_name p))
          (cr_requestID (re_request E)) (p_force p)"])
qed

lemma finalizeApplication_keeps: "ok_res (keeps E st) (finalizeApplication E p st)"
  unfolding finalizeApplication_def
proof (rule ok_res_any, rule ok_res_any, rule ok_res_any, rule ok_res_bind, rule deleteLeaf_staged, goal_cases)
  case (1 t a u st')
  then have t: "find_by ten_name (p_team p) (tenants_of st) = Some t" by (simp add: activeTenant_Inr)
  have "replaceable (L_of E) (tenants_of st) t (t\<lparr>ten_applications :=
      filter_array (\<lambda>_ item. ca_name item \<noteq> p_name p) (ten_applications t)\<rparr>)"
    if c: "catalog_ok (L_of E) (rs_catalog st)"
    unfolding filter_array_pure
    using own_tenant [OF c t] replaceableD [OF own_tenant [OF c t]]
    by (intro replaceable_applications) (auto simp: distinct_map_filter dest: tenant_entries_okD)
  then show ?case using put_keeps [OF t 1(5)] by simp
qed

lemma createDatabase_keeps:
  assumes "validName (p_name p) 63"
  shows "ok_res (keeps E st) (createDatabase E p st)"
  unfolding createDatabase_def
proof (rule ok_res_any, goal_cases)
  case (1 t)
  then have t: "find_by ten_name (p_team p) (tenants_of st) = Some t" by (simp add: activeTenant_Inr)
  have "replaceable (L_of E) (tenants_of st) t (add_database (new_database (p_name p)) t)"
    if "p_name p \<notin> set (all_databases (tenants_of st)) \<and> p_name p \<notin> cd_name ` set (ten_databases t)"
      "catalog_ok (L_of E) (rs_catalog st)"
    using that own_tenant [OF that(2) t] assms
    by (intro replaceable_add_database) (auto simp: new_database_def database_entry_ok_def lifecycle_ok_def)
  then show ?case by (auto intro!: put_write_keeps [OF t, where w = "writeDatabase E (p_team p) p"])
qed

lemma updateDatabase_keeps: "ok_res (keeps E st) (updateDatabase E p st)"
proof -
  have "ok_res (staged E st) (updateDatabase E p st)"
    unfolding updateDatabase_def by (intro ok_res_any) simp
  then show ?thesis by (cases "updateDatabase E p st") (auto intro: staged_keeps)
qed

lemma approveDatabaseDeletion_keeps:
  assumes "uuid_valid (L_of E) (cr_requestID (re_request E))"
  shows "ok_res (keeps E st) (approveDatabaseDeletion E p st)"
  unfolding approveDatabaseDeletion_def Let_def
proof (rule ok_res_any, goal_cases)
  case (1 t)
  then have t: "find_by ten_name (p_team p) (tenants_of st) = Some t" by (simp add: activeTenant_Inr)
  have "replaceable (L_of E) (tenants_of st) t
      (set_database (p_name p) (retire_database (cr_requestID (re_request E))) t)"
    if "catalog_ok (L_of E) (rs_catalog st)"
    using own_tenant [OF that t] assms by (intro replaceable_set_database entry_ok_retire) auto
  then show ?case
    by (auto intro!: ok_res_any put_write_keeps [OF t, where w = "approveManifest E (databaseManifestPath (p_name p))
          (cr_requestID (re_request E)) (p_force p)"] split: option.split)
qed

text \<open>Owners that the Team validator accepts are owners that the catalog accepts.\<close>

lemma no_space_drop: "\<not> has_space v \<Longrightarrow> space_width (drop k v) = 0"
proof (induction v arbitrary: k)
  case (Cons c v)
  then show ?case by (cases k) auto
qed simp

lemma trim_no_space:
  assumes "\<not> has_space v"
  shows "trim_space v = v"
proof -
  have "trim_left v = v" using no_space_drop [OF assms, of 0] by (subst trim_left.simps) simp
  moreover have "trim_right v = v"
    by (subst trim_right.simps) (simp add: space_end_def no_space_drop [OF assms])
  ultimately show ?thesis by (simp add: trim_space_def)
qed

lemma no_space_chars: "\<not> has_space v \<Longrightarrow> \<not> contains_any v [CHR 0x0D, CHR 0x0A, CHR 0x09, CHR '' '']"
  by (induction v) (auto simp: contains_any_def ascii_space_def code_def split: if_splits)

lemma plain_no_space: "(\<And>c. c \<in> set v \<Longrightarrow> code c < 128 \<and> \<not> ascii_space (code c)) \<Longrightarrow> \<not> has_space v"
proof (induction v)
  case (Cons c v)
  have "space_width (c # v) = 0"
    using Cons.prems [of c] by (cases "c # v" rule: space_width.cases) (auto split: list.splits)
  then show ?case using Cons by simp
qed simp

lemma validated_owners:
  "validateOwners os = None \<Longrightarrow> owner_entries_ok (normalizeStrings os)"
  by (auto simp: validateOwners_None owner_entries_ok_def normalizeStrings_def owner_ok_def trim_no_space
      dest: no_space_chars)

lemma team_request_facts:
  assumes "validate_team_state L p = None"
  shows "owner_entries_ok (normalizeStrings (p_owners p))" "length (p_name p) \<le> 58"
  using assms validated_owners [of "p_owners p"]
  by (auto simp: validate_team_state_def Team_Validate_None team_well_formed_def validateOwners_None
      desired_team_def new_meta_def objmeta.defs split: option.splits if_splits)

lemma new_tenant_ok:
  "validName n 58 \<Longrightarrow> owner_entries_ok (normalizeStrings os) \<Longrightarrow> tenant_ok L (new_tenant n os)"
  by (simp add: tenant_ok_def new_tenant_def lifecycle_ok_def)

lemma new_tenant_entries [simp]:
  "ten_name (new_tenant n os) = n" "ten_applications (new_tenant n os) = []"
  "ten_databases (new_tenant n os) = []" "ten_services (new_tenant n os) = []"
  by (simp_all add: new_tenant_def)

lemma add_tenant_ok:
  assumes "catalog_ok L c" "tenant_ok L (new_tenant n os)" "n \<notin> ten_name ` set (cat_tenants c)"
    "mset ts = add_mset (new_tenant n os) (mset (cat_tenants c))"
  shows "catalog_ok L (c\<lparr>cat_tenants := ts\<rparr>)"
proof -
  have s: "set ts = insert (new_tenant n os) (set (cat_tenants c))" using assms(4) by (metis set_mset_add_mset_insert set_mset_mset)
  have d: "mset (f ts) = mset (f (new_tenant n os # cat_tenants c))"
    if "\<And>us. mset (f us) = (\<Sum>t \<in># mset us. mset (g t))" for f :: "tenant list \<Rightarrow> string list" and g
    by (simp add: that assms(4))
  have sums: "mset (all_applications us) = (\<Sum>t \<in># mset us. mset (map ca_name (ten_applications t)))"
    "mset (all_databases us) = (\<Sum>t \<in># mset us. mset (map cd_name (ten_databases t)))"
    "mset (all_services us) = (\<Sum>t \<in># mset us. mset (map sv_name (ten_services t)))"
    "mset (map ten_name us) = (\<Sum>t \<in># mset us. mset [ten_name t])" for us
    by (induction us) simp_all
  show ?thesis
    using assms(1-3) s mset_eq_imp_distinct_iff [OF d [OF sums(1)]] mset_eq_imp_distinct_iff [OF d [OF sums(2)]]
      mset_eq_imp_distinct_iff [OF d [OF sums(3)]] mset_eq_imp_distinct_iff [OF d [OF sums(4)]]
    by (simp add: catalog_ok_def)
qed

lemma drop_tenants_ok:
  assumes "catalog_ok L c"
  shows "catalog_ok L (c\<lparr>cat_tenants := filter p (cat_tenants c)\<rparr>)"
proof -
  have m: "mset (filter p (cat_tenants c)) \<subseteq># mset (cat_tenants c)" by (simp add: multiset_filter_subset)
  show ?thesis using assms
      app_entries.distinct_set_tenants [OF _ m] db_entries.distinct_set_tenants [OF _ m]
      svc_entries.distinct_set_tenants [OF _ m]
    by (auto simp: catalog_ok_def distinct_map_filter)
qed

lemma tenantExists_iff: "tenantExists n st \<longleftrightarrow> n \<in> ten_name ` set (tenants_of st)"
  by (auto simp: tenantExists_def tenants_of_def find_by_None_iff)

subsection \<open>Teams\<close>

definition plain_request :: "renv \<Rightarrow> bool" where
  "plain_request E \<longleftrightarrow> ChangeRequest_Validate (L_of E) (re_request E) = None"

lemma rs_catalog_set_tenants: "rs_catalog (set_tenants ts st) = (rs_catalog st)\<lparr>cat_tenants := ts\<rparr>"
  by (simp add: set_tenants_def)

lemma createTeam_keeps:
  assumes "validName (p_name p) 63" "validate_team_state (L_of E) p = None"
  shows "ok_res (keeps E st) (createTeam E p st)"
proof (cases "p_name p \<in> ten_name ` set (tenants_of st)")
  case False
  let ?st = "set_tenants (tenants_of st @ [new_tenant (p_name p) (p_owners p)]) st"
  have "tenant_ok (L_of E) (new_tenant (p_name p) (p_owners p))"
    using assms team_request_facts [OF assms(2)] by (intro new_tenant_ok) (auto simp: validName_def)
  then have "keeps E st ?st"
    using False add_tenant_ok [where c = "rs_catalog st" and n = "p_name p" and os = "p_owners p"
        and L = "L_of E" and ts = "tenants_of st @ [new_tenant (p_name p) (p_owners p)]"]
    by (auto simp: keeps_def tenants_of_def rs_catalog_set_tenants)
  then show ?thesis using False writeTeam_staged [of E ?st "p_name p" p]
    by (cases "writeTeam E (p_name p) p ?st")
      (auto simp: createTeam_def tenantExists_iff intro: keeps_trans staged_keeps)
qed (simp add: createTeam_def tenantExists_iff)

lemma updateTeam_keeps:
  assumes "validate_team_state (L_of E) p = None"
  shows "ok_res (keeps E st) (updateTeam E p st)"
  unfolding updateTeam_def
proof (rule ok_res_any, goal_cases)
  case (1 t)
  then have t: "find_by ten_name (p_name p) (tenants_of st) = Some t" by (simp add: activeTenant_Inr)
  have "replaceable (L_of E) (tenants_of st) t (t\<lparr>ten_owners := normalizeStrings (p_owners p)\<rparr>)"
    if c: "catalog_ok (L_of E) (rs_catalog st)"
    using replaceable_tenant [OF own_tenant [OF c t] team_request_facts(1) [OF assms], of "ten_lifecycle t" "ten_deletionRequest t"]
      replaceableD(1) [OF own_tenant [OF c t]] by (simp add: tenant_ok_def)
  then show ?case by (auto intro!: put_write_keeps [OF t, where w = "writeTeam E (p_name p) p"])
qed

lemma retire_tenant_ok:
  "replaceable L ts t0 t \<Longrightarrow> uuid_valid L rid \<Longrightarrow> replaceable L ts t0 (retire_tenant rid t)"
  using replaceable_tenant [of L ts t0 t "ten_owners t" Retiring rid] replaceableD(1) [of L ts t0 t]
  by (simp add: retire_tenant_def tenant_ok_def lifecycle_ok_def)

lemma retire_all_ok:
  assumes r: "replaceable L ts t0 t" and u: "uuid_valid L rid"
  shows "replaceable L ts t0 ((retire_tenant rid t)
     \<lparr>ten_applications := map (retire_application rid) (ten_applications t),
      ten_databases := map (retire_database rid) (ten_databases t),
      ten_services := map (retire_service rid) (ten_services t)\<rparr>)"
proof -
  let ?t1 = "(retire_tenant rid t)\<lparr>ten_applications := map (retire_application rid) (ten_applications t)\<rparr>"
  let ?t2 = "?t1\<lparr>ten_databases := map (retire_database rid) (ten_databases t)\<rparr>"
  have same [simp]: "ten_applications (retire_tenant rid t) = ten_applications t"
    "ten_databases (retire_tenant rid t) = ten_databases t" "ten_services (retire_tenant rid t) = ten_services t"
    by (simp_all add: retire_tenant_def)
  have t: "tenant_ok L t" "distinct (map ca_name (ten_applications t))"
    "distinct (map cd_name (ten_databases t))" "distinct (map sv_name (ten_services t))"
    using replaceableD [OF r] by simp_all
  have 1: "replaceable L ts t0 ?t1"
    using t by (intro replaceable_applications retire_tenant_ok [OF r u])
      (auto simp: image_image comp_def intro: entry_ok_retire [OF u] dest: tenant_entries_okD)
  have 2: "replaceable L ts t0 ?t2"
    using t by (intro replaceable_databases 1)
      (auto simp: image_image comp_def intro: entry_ok_retire [OF u] dest: tenant_entries_okD)
  show ?thesis
    using t replaceable_services [OF 2, of "map (retire_service rid) (ten_services t)"]
    by (auto simp: image_image comp_def intro: entry_ok_retire [OF u] dest: tenant_entries_okD)
qed

lemma approveTeamDeletion_keeps:
  assumes "uuid_valid (L_of E) (cr_requestID (re_request E))"
  shows "ok_res (keeps E st) (approveTeamDeletion E p st)"
  unfolding approveTeamDeletion_def Let_def
proof (rule ok_res_any, rule ok_res_bind, rule approveManifest_staged, rule ok_res_bind,
    rule staged_foldE, rule approveManifest_staged, rule ok_res_bind, rule staged_foldE,
    rule approveManifest_staged, goal_cases)
  case (1 t st1 st2 st3)
  then have t: "find_by ten_name (p_name p) (tenants_of st) = Some t" by (simp add: activeTenant_Inr)
  have "staged E st st3" using 1(3,5,7) by (metis staged_trans)
  then show ?case
    using put_keeps [OF t _ retire_all_ok [OF own_tenant [OF _ t] assms]] by simp
qed

lemma finalizeTeam_keeps: "ok_res (keeps E st) (finalizeTeam E p st)"
  unfolding finalizeTeam_def
proof (rule ok_res_any, rule ok_res_any, rule ok_res_bind, rule deleteLeaf_staged, rule ok_res_bind,
    rule staged_foldE, rule deleteLeaf_staged, rule ok_res_bind, rule staged_foldE, rule deleteLeaf_staged,
    rule ok_res_bind, rule staged_foldE, rule deleteServiceSource_staged, goal_cases)
  case (1 t u st1 st2 st3 st4)
  then have "staged E st st4" by (metis staged_trans)
  then show ?case unfolding filter_array_pure
    using drop_tenants_ok [of "L_of E" "rs_catalog st" "\<lambda>item. ten_name item \<noteq> p_name p"]
    by (auto simp: keeps_def staged_def tenants_of_def rs_catalog_set_tenants)
qed

subsection \<open>Databases and services\<close>

definition refers :: "string \<Rightarrow> tenant \<Rightarrow> bool" where
  \<comment> \<open>an Application or a service of the tenant names the Database\<close>
  "refers n t \<longleftrightarrow> list_ex (\<lambda>a. ca_databaseRef a = n) (ten_applications t)
     \<or> list_ex (\<lambda>s. sv_databaseRef s = n) (ten_services t)"

lemma drop_database_ok:
  assumes r: "replaceable L ts t0 t" and n: "\<not> refers n t \<or> n = []"
  shows "replaceable L ts t0 (t\<lparr>ten_databases := filter (\<lambda>d. cd_name d \<noteq> n) (ten_databases t)\<rparr>)"
proof -
  let ?D = "cd_name ` set (ten_databases t)" and ?D' = "cd_name ` set (filter (\<lambda>d. cd_name d \<noteq> n) (ten_databases t))"
  have D: "?D' = ?D - {n}" by auto
  have t: "tenant_ok L t" by (rule replaceableD(1) [OF r])
  have a: "application_entry_ok L ?D' a" if "a \<in> set (ten_applications t)" for a
    using tenant_entries_okD(1) [OF t that] that n unfolding D
    by (auto simp: application_entry_ok_def refers_def list_ex_iff)
  have s: "service_entry_ok L ?D' s" if "s \<in> set (ten_services t)" for s
    using tenant_entries_okD(3) [OF t that] that n unfolding D
    by (auto simp: service_entry_ok_def refers_def list_ex_iff)
  have f: "fresh_names (all_databases ts) (map cd_name (ten_databases t0))
      (map cd_name (filter (\<lambda>d. cd_name d \<noteq> n) (ten_databases t)))"
  proof (rule fresh_names_subset)
    show "fresh_names (all_databases ts) (map cd_name (ten_databases t0)) (map cd_name (ten_databases t))"
      using r by (simp add: replaceable_def)
    show "distinct (map cd_name (filter (\<lambda>d. cd_name d \<noteq> n) (ten_databases t)))"
      using replaceableD(4) [OF r] by (simp add: distinct_map_filter)
  qed auto
  have "tenant_ok L (t\<lparr>ten_databases := filter (\<lambda>d. cd_name d \<noteq> n) (ten_databases t)\<rparr>)"
    using t a s unfolding tenant_ok_def by simp
  then show ?thesis using r f by (simp add: replaceable_def)
qed

lemma finalizeDatabase_keeps:
  assumes "\<And>t. find_by ten_name (p_team p) (tenants_of st) = Some t \<Longrightarrow> \<not> refers (p_name p) t"
  shows "ok_res (keeps E st) (finalizeDatabase E p st)"
  unfolding finalizeDatabase_def filter_array_pure
proof (rule ok_res_any, rule ok_res_any, rule ok_res_any, rule ok_res_bind, rule deleteLeaf_staged, goal_cases)
  case (1 t d u st')
  then have t: "find_by ten_name (p_team p) (tenants_of st) = Some t" by (simp add: activeTenant_Inr)
  show ?case
    using put_keeps [OF t 1(5) drop_database_ok [OF own_tenant [OF _ t]]] assms [OF t] by simp
qed

text \<open>Loops that thread the tenant and the staged files.\<close>

definition stepped :: "renv \<Rightarrow> rstate \<Rightarrow> tenant \<Rightarrow> tenant \<times> rstate \<Rightarrow> bool" where
  "stepped E st t0 x \<longleftrightarrow> staged E st (snd x)
     \<and> (catalog_ok (L_of E) (rs_catalog st) \<longrightarrow> replaceable (L_of E) (tenants_of st) t0 (fst x))"

lemma foldE_inv:
  "P s \<Longrightarrow> (\<And>x s. x \<in> set xs \<Longrightarrow> P s \<Longrightarrow> ok_res P (f x s)) \<Longrightarrow> ok_res P (foldE f xs s)"
proof (induction xs arbitrary: s)
  case (Cons x xs)
  show ?case
  proof (cases "f x s")
    case (Inr b)
    then have "P b" using Cons.prems(1) Cons.prems(2) [of x s] by simp
    then show ?thesis using Cons.IH [of b] Cons.prems(2) by (simp add: Inr)
  qed simp
qed simp

lemma stepped_stage:
  "stepped E st t0 (t, st1) \<Longrightarrow> ok_res (staged E st1) r \<Longrightarrow>
   (catalog_ok (L_of E) (rs_catalog st) \<Longrightarrow> replaceable (L_of E) (tenants_of st) t0 t \<Longrightarrow>
     replaceable (L_of E) (tenants_of st) t0 t') \<Longrightarrow>
   ok_res (stepped E st t0) (on_ok r (\<lambda>st2. Inr (t', st2)))"
  by (cases r) (auto simp: stepped_def intro: staged_trans)

lemma put_stepped:
  assumes t: "find_by ten_name n (tenants_of st) = Some t" and "stepped E st t (t', st')"
  shows "keeps E st (put_tenant t' st')"
  using assms(2) by (intro put_keeps [OF t]) (auto simp: stepped_def)

lemma keeps_staged: "keeps E st st1 \<Longrightarrow> ok_res (staged E st1) r \<Longrightarrow> ok_res (keeps E st) r"
  by (cases r) (auto intro: keeps_trans staged_keeps)

lemma new_service_ok:
  assumes "validName (p_name p) 48" "p_template p \<in> {''go-api'', ''react-static'', ''full-stack''}"
    "p_version p = ''v0.1.0''" "p_withDatabase p \<Longrightarrow> p_name p \<in> D"
  shows "service_entry_ok L D (new_service p)"
proof -
  have "semverPattern ''v0.1.0''" by code_simp
  then show ?thesis using assms by (auto simp: service_entry_ok_def new_service_def)
qed

lemma scaffold_database_stepped:
  assumes v: "validName (p_name p) 63" and free: "p_withDatabase p \<Longrightarrow> p_name p \<notin> set (all_databases (tenants_of st))"
    and own: "catalog_ok (L_of E) (rs_catalog st) \<Longrightarrow> replaceable (L_of E) (tenants_of st) t t"
    and t: "t \<in> set (tenants_of st)"
  shows "ok_res (\<lambda>x. stepped E st t x \<and> (p_withDatabase p \<longrightarrow> p_name p \<in> cd_name ` set (ten_databases (fst x)))
      \<and> ten_services (fst x) = ten_services t) (scaffold_database E p t st)"
proof (cases "p_withDatabase p \<and> \<not> databaseExists t (p_name p)")
  case True
  have n: "p_name p \<notin> cd_name ` set (ten_databases t)"
    using free True t by (auto simp: db_entries.mem_all_names)
  let ?w = "writeDatabase E (p_team p) (service_database_parameters (p_team p) (p_name p)) st"
  have "catalog_ok (L_of E) (rs_catalog st) \<Longrightarrow>
      replaceable (L_of E) (tenants_of st) t (add_database (new_database (p_name p)) t)"
    using own free True n v
    by (intro replaceable_add_database) (simp_all add: new_database_def database_entry_ok_def lifecycle_ok_def)
  moreover have "p_name p \<in> cd_name ` set (ten_databases (add_database (new_database (p_name p)) t))"
    "ten_services (add_database (new_database (p_name p)) t) = ten_services t"
    by (simp_all add: add_database_def new_database_def)
  moreover have "ok_res (staged E st) ?w" by simp
  ultimately show ?thesis using True
    by (cases ?w) (auto simp: scaffold_database_def stepped_def)
qed (auto simp: scaffold_database_def stepped_def own)

lemma keeps_refl [simp]: "keeps E st st"
  by (simp add: keeps_def)

lemma validName_plain:
  "validName n m \<Longrightarrow> c \<in> set n \<Longrightarrow> code c < 128 \<and> \<not> ascii_space (code c)"
  by (auto simp: validName_def dnsLabelPattern_def list_all_iff label_char_def is_lower_def is_digit_def
      ascii_space_def code_def)

lemma service_team_owners:
  assumes "validName team 58"
  shows "owner_entries_ok (normalizeStrings (p_owners (service_team_parameters team)))"
proof -
  have "\<not> has_space (team @ ''-owners'')"
    using validName_plain [OF assms] by (intro plain_no_space) (auto simp: ascii_space_def code_def)
  then show ?thesis
    by (simp add: service_team_parameters_def owner_entries_ok_def normalizeStrings_def trim_no_space
        no_space_chars)
qed

lemma mem_all_mset:
  assumes "mset ts' = add_mset (new_tenant n os) (mset ts)"
  shows "set (all_databases ts') = set (all_databases ts)" "set (all_services ts') = set (all_services ts)"
    "set (all_applications ts') = set (all_applications ts)"
proof -
  have s: "set ts' = insert (new_tenant n os) (set ts)"
    using assms by (metis set_mset_add_mset_insert set_mset_mset)
  then show "set (all_databases ts') = set (all_databases ts)" "set (all_services ts') = set (all_services ts)"
    "set (all_applications ts') = set (all_applications ts)"
    by (simp_all only: set_eq_iff db_entries.mem_all_names svc_entries.mem_all_names app_entries.mem_all_names s)
      simp_all
qed

lemma staged_tenants: "staged E st st' \<Longrightarrow> tenants_of st' = tenants_of st"
  by (simp add: staged_def tenants_of_def)

lemma scaffold_tenant_keeps:
  assumes v: "validName (p_team p) 58"
  shows "ok_res (\<lambda>(t, st'). keeps E st st' \<and> find_by ten_name (p_team p) (tenants_of st') = Some t
      \<and> set (all_databases (tenants_of st')) = set (all_databases (tenants_of st))
      \<and> set (all_services (tenants_of st')) = set (all_services (tenants_of st))) (scaffold_tenant E p st)"
proof (cases "tenant_of E (p_team p) st")
  case (Inr t)
  then have "find_by ten_name (p_team p) (tenants_of st) = Some t" by (simp add: tenant_of_Inr)
  then show ?thesis using Inr by (simp add: scaffold_tenant_def)
next
  case (Inl e)
  then have free: "p_team p \<notin> ten_name ` set (tenants_of st)"
    by (auto simp: tenant_of_def tenants_of_def find_by_None_iff split: option.splits)
  let ?os = "p_owners (service_team_parameters (p_team p))"
  let ?ts = "sort_key ten_name (tenants_of st @ [new_tenant (p_team p) ?os])" and ?st = "set_tenants
    (sort_key ten_name (tenants_of st @ [new_tenant (p_team p) (p_owners (service_team_parameters (p_team p)))])) st"
  have m: "mset ?ts = add_mset (new_tenant (p_team p) ?os) (mset (tenants_of st))" by simp
  have k: "keeps E st ?st"
    using add_tenant_ok [where c = "rs_catalog st" and n = "p_team p" and os = ?os and L = "L_of E" and ts = ?ts] free m
      new_tenant_ok [OF v service_team_owners [OF v]]
    by (auto simp: keeps_def tenants_of_def rs_catalog_set_tenants)
  show ?thesis
  proof (cases "\<not> p_createTeam p \<or> p_team p \<noteq> p_name p")
    case False
    show ?thesis
    proof (cases "tenant_of E (p_team p) ?st")
      case (Inr t)
      let ?w = "writeTeam E (p_team p) (service_team_parameters (p_team p)) ?st"
      have s: "ok_res (staged E ?st) ?w" by simp
      have "ok_res (keeps E st) ?w" by (rule keeps_staged [OF k s])
      moreover have "find_by ten_name (p_team p) ?ts = Some t" using Inr by (simp add: tenant_of_Inr)
      moreover have "tenants_of b = ?ts" if "?w = Inr b" for b
        using s that staged_tenants [of E ?st b] by simp
      ultimately show ?thesis using Inr Inl False mem_all_mset [OF m]
        by (cases ?w) (auto simp: scaffold_tenant_def Let_def)
    qed (use Inl False in \<open>simp add: scaffold_tenant_def Let_def\<close>)
  qed (use Inl in \<open>auto simp: scaffold_tenant_def\<close>)
qed

lemma scaffoldService_keeps:
  assumes v: "validName (p_team p) 58" and n: "validName (p_name p) 48"
    and tpl: "p_template p \<in> {''go-api'', ''react-static'', ''full-stack''}" "p_version p = ''v0.1.0''"
    and free: "p_withDatabase p \<Longrightarrow> p_name p \<notin> set (all_databases (tenants_of st))"
  shows "ok_res (keeps E st) (scaffoldService E p st)"
proof (cases "p_name p \<in> set (all_services (tenants_of st))")
  case False
  have "ok_res (keeps E st) (on_ok (scaffold_tenant E p st) (\<lambda>(t, st).
        if ten_lifecycle t \<noteq> Active then
          Inl (exitError ExitConflict (''Team '' @ go_quote (L_of E) (p_team p) @ '' is retiring''))
        else on_ok (scaffold_database E p t st) (\<lambda>(t, st).
          writeServiceSource E (new_service p) (put_tenant (add_service (new_service p) t) st))))"
  proof (rule ok_res_bind, rule scaffold_tenant_keeps [OF v], clarify, goal_cases)
    case (1 t st1)
    have own: "replaceable (L_of E) (tenants_of st1) t t" if "catalog_ok (L_of E) (rs_catalog st1)"
      by (rule own_tenant [OF that 1(3)])
    have mem: "t \<in> set (tenants_of st1)" by (metis 1(3) find_by_SomeD)
    have "ok_res (keeps E st1) (on_ok (scaffold_database E p t st1) (\<lambda>(t, st).
          writeServiceSource E (new_service p) (put_tenant (add_service (new_service p) t) st)))"
    proof (rule ok_res_bind, rule scaffold_database_stepped [where E = E and st = st1 and t = t], goal_cases)
      case 1
      then show ?case using n by (auto simp: validName_def)
    next
      case 2
      then show ?case using free 1(4) by simp
    next
      case 3
      then show ?case by (rule own)
    next
      case 4
      then show ?case by (rule mem)
    next
      case (5 x)
      then have s: "stepped E st1 t (fst x, snd x)" by simp
      have "keeps E st1 (put_tenant (add_service (new_service p) (fst x)) (snd x))"
      proof (rule put_stepped [OF 1(3)])
        show "stepped E st1 t (add_service (new_service p) (fst x), snd x)"
          unfolding stepped_def
        proof (intro conjI impI)
          assume c: "catalog_ok (L_of E) (rs_catalog st1)"
          have r: "replaceable (L_of E) (tenants_of st1) t (fst x)" using s c by (simp add: stepped_def)
          have e: "sv_name (new_service p) = p_name p" by (simp add: new_service_def)
          have u: "p_name p \<notin> set (all_services (tenants_of st1))" using False 1(5) by simp
          then have u': "p_name p \<notin> sv_name ` set (ten_services (fst x))"
            using 5 mem by (auto simp: svc_entries.mem_all_names)
          show "replaceable (L_of E) (tenants_of st1) t (fst (add_service (new_service p) (fst x), snd x))"
            using r u u' 5 new_service_ok [OF n tpl]
            by (auto intro!: replaceable_add_service simp: e)
        qed (use s in \<open>simp add: stepped_def\<close>)
      qed
      then show ?case by (simp add: case_prod_beta keeps_staged)
    qed
    then show ?case using 1(2) by (auto intro: keeps_trans simp: ok_res_def split: sum.split)
  qed
  then show ?thesis using False by (simp add: scaffoldService_def)
qed (simp add: scaffoldService_def)

lemma activate_component_stepped:
  assumes "stepped E st t0 x" and v: "validName component 63"
    and free: "component \<in> set (all_applications (tenants_of st)) \<Longrightarrow> component \<in> ca_name ` set (ten_applications (fst x))"
    and db: "catalog_ok (L_of E) (rs_catalog st) \<Longrightarrow>
      sv_databaseRef s = [] \<or> sv_databaseRef s \<in> cd_name ` set (ten_databases (fst x))"
  shows "ok_res (\<lambda>y. stepped E st t0 y \<and> ten_databases (fst y) = ten_databases (fst x)
      \<and> ten_services (fst y) = ten_services (fst x)
      \<and> ca_name ` set (ten_applications (fst x)) \<subseteq> ca_name ` set (ten_applications (fst y)))
    (activate_component E p s component x)"
proof -
  obtain t st1 where x: "x = (t, st1)" by fastforce
  let ?p = "component_parameters p s component"
  let ?t = "case find_by ca_name component (ten_applications t) of
      None \<Rightarrow> add_application (new_application ?p) t
    | Some _ \<Rightarrow> set_application component (\<lambda>a. a\<lparr>ca_databaseRef := p_databaseRef ?p\<rparr>) t"
  let ?w = "writeApplicationWithIsolation E (p_team p) ?p (sv_template s \<noteq> ''full-stack'') st1"
  have p: "p_name ?p = component" "p_databaseRef ?p = [] \<or> p_databaseRef ?p = sv_databaseRef s"
    by (simp_all add: component_parameters_def)
  have r: "replaceable (L_of E) (tenants_of st) t0 ?t" if c: "catalog_ok (L_of E) (rs_catalog st)"
  proof -
    have r: "replaceable (L_of E) (tenants_of st) t0 t" using assms(1) c by (simp add: stepped_def x)
    show ?thesis
    proof (cases "find_by ca_name component (ten_applications t)")
      case None
      then have n: "component \<notin> ca_name ` set (ten_applications t)" by (simp add: find_by_None_iff)
      have e: "ca_name (new_application ?p) = component" by (simp add: new_application_def p)
      have "application_entry_ok (L_of E) (cd_name ` set (ten_databases t)) (new_application ?p)"
        using v db [OF c] p by (auto simp: x new_application_def application_entry_ok_def lifecycle_ok_def)
      then show ?thesis
        using r free n None by (auto simp: x e intro!: replaceable_add_application)
    next
      case (Some a)
      then show ?thesis
        using r db [OF c] p by (auto simp: x application_entry_ok_def intro!: replaceable_set_application)
    qed
  qed
  have d: "ten_databases ?t = ten_databases t" "ten_services ?t = ten_services t"
    "ca_name ` set (ten_applications t) \<subseteq> ca_name ` set (ten_applications ?t)"
    using names_image [OF update_first_names [of "ten_applications t" ca_name
          "\<lambda>a. a\<lparr>ca_databaseRef := p_databaseRef ?p\<rparr>" component]]
    by (auto simp: add_application_def set_application_def split: option.split)
  have w: "ok_res (staged E st1) ?w" by simp
  have "ok_res (\<lambda>y. stepped E st t0 y \<and> fst y = ?t) (on_ok ?w (\<lambda>st. Inr (?t, st)))"
    using assms(1) w r by (cases ?w) (auto simp: stepped_def x intro: staged_trans)
  then show ?thesis using d
    by (cases ?w) (auto simp: x activate_component_def Let_def split: option.split)
qed

lemma template_component_names:
  "validName n 48 \<Longrightarrow> c \<in> set (templateComponents n template) \<Longrightarrow> validName c 63"
  by (auto simp: templateComponents_def validName_def dnsLabelPattern_def label_char_def is_lower_def code_def
      split: if_splits)

lemma activate_loop_staged:
  "staged E st (snd x) \<Longrightarrow> ok_res (\<lambda>y. staged E st (snd y)) (foldE (activate_component E p s) cs x)"
proof (rule foldE_inv, assumption)
  fix component and y :: "tenant \<times> rstate"
  assume y: "staged E st (snd y)"
  obtain t st1 where x: "y = (t, st1)" by fastforce
  have "ok_res (\<lambda>y. staged E st (snd y))
      (on_ok (writeApplicationWithIsolation E team q i st1) (\<lambda>st2. Inr (u, st2)))" for team q i and u :: tenant
    using writeApplicationWithIsolation_staged [of E st1 team q i] y
    by (cases "writeApplicationWithIsolation E team q i st1") (auto simp: x intro: staged_trans)
  then show "ok_res (\<lambda>y. staged E st (snd y)) (activate_component E p s component y)"
    by (auto simp: activate_component_def x Let_def split: option.split)
qed

lemma activate_loop_stepped:
  assumes own: "replaceable (L_of E) (tenants_of st) t t" and c: "catalog_ok (L_of E) (rs_catalog st)"
    and comps: "\<And>c. c \<in> set cs \<Longrightarrow> validName c 63
      \<and> (c \<in> set (all_applications (tenants_of st)) \<longrightarrow> c \<in> ca_name ` set (ten_applications t))"
    and db: "sv_databaseRef s = [] \<or> sv_databaseRef s \<in> cd_name ` set (ten_databases t)"
  shows "ok_res (\<lambda>y. stepped E st t y \<and> ten_databases (fst y) = ten_databases t
    \<and> ten_services (fst y) = ten_services t \<and> ca_name ` set (ten_applications t) \<subseteq> ca_name ` set (ten_applications (fst y)))
    (foldE (activate_component E p s) cs (t, st))"
    (is "ok_res ?I _")
proof (rule foldE_inv)
  show "?I (t, st)" using own by (simp add: stepped_def)
  fix component y
  assume m: "component \<in> set cs" and y: "?I y"
  have step: "ok_res (\<lambda>z. stepped E st t z \<and> ten_databases (fst z) = ten_databases (fst y)
      \<and> ten_services (fst z) = ten_services (fst y)
      \<and> ca_name ` set (ten_applications (fst y)) \<subseteq> ca_name ` set (ten_applications (fst z)))
    (activate_component E p s component y)"
    using y comps [OF m] db by (intro activate_component_stepped) auto
  show "ok_res ?I (activate_component E p s component y)"
  proof (cases "activate_component E p s component y")
    case (Inr z)
    then show ?thesis using step y by simp blast
  qed simp
qed

lemma activateService_keeps:
  assumes v: "semverPattern (p_version p)" and
    free: "\<And>t s c. find_by ten_name (p_team p) (tenants_of st) = Some t \<Longrightarrow>
      find_by sv_name (p_name p) (ten_services t) = Some s \<Longrightarrow> c \<in> set (sv_components s) \<Longrightarrow>
      c \<in> set (templateComponents (sv_name s) (sv_template s))
      \<and> (c \<in> set (all_applications (tenants_of st)) \<longrightarrow> c \<in> ca_name ` set (ten_applications t))"
  shows "ok_res (keeps E st) (activateService E p st)"
  unfolding activateService_def
proof (rule ok_res_any, rule ok_res_any, goal_cases)
  case (1 t s)
  then have t: "find_by ten_name (p_team p) (tenants_of st) = Some t"
    and s: "find_by sv_name (p_name p) (ten_services t) = Some s"
    by (simp_all add: activeTenant_Inr entry_Inr)
  let ?s1 = "s\<lparr>sv_version := p_version p\<rparr>"
  let ?s2 = "?s1\<lparr>sv_lifecycle := Active\<rparr>"
  let ?f = "foldE (activate_component E p ?s1) (sv_components ?s1) (t, st)"
  have main: "ok_res (keeps E st) (case y of (t, st) \<Rightarrow> writeServiceVersion E ?s2
      (put_tenant (set_service (p_name p) (\<lambda>_. ?s2) (sort_applications t)) st))"
    if f: "?f = Inr y" and live: "sv_lifecycle s \<noteq> Retiring" for y
  proof -
    have st: "staged E st (snd y)"
      using activate_loop_staged [of E st "(t, st)" p ?s1 "sv_components ?s1"] f by simp
    have "replaceable (L_of E) (tenants_of st) t (set_service (p_name p) (\<lambda>_. ?s2) (sort_applications (fst y)))"
      if c: "catalog_ok (L_of E) (rs_catalog st)"
    proof -
      have own: "replaceable (L_of E) (tenants_of st) t t" by (rule own_tenant [OF c t])
      have sok: "service_entry_ok (L_of E) (cd_name ` set (ten_databases t)) s" and n: "sv_name s = p_name p"
        using find_by_SomeD [OF s] tenant_entries_okD(3) [OF replaceableD(1) [OF own]] by auto
      have "ok_res (\<lambda>y. stepped E st t y \<and> ten_databases (fst y) = ten_databases t
          \<and> ten_services (fst y) = ten_services t
          \<and> ca_name ` set (ten_applications t) \<subseteq> ca_name ` set (ten_applications (fst y))) ?f"
        using free [OF t s] sok
        by (intro activate_loop_stepped [OF own c])
          (auto simp: service_entry_ok_def intro: template_component_names)
      then have y: "replaceable (L_of E) (tenants_of st) t (fst y)" "ten_databases (fst y) = ten_databases t"
        using f c by (simp_all add: stepped_def)
      have "service_entry_ok (L_of E) (cd_name ` set (ten_databases t)) ?s2"
        using sok v live by (auto simp: service_entry_ok_def lifecycle_ok_def)
      then show ?thesis
        using y n by (intro replaceable_set_service replaceable_sort_applications)
          (simp_all add: sort_applications_def)
    qed
    then have "keeps E st (put_tenant (set_service (p_name p) (\<lambda>_. ?s2) (sort_applications (fst y))) (snd y))"
      by (rule put_keeps [OF t st])
    then show ?thesis by (simp add: case_prod_beta keeps_staged)
  qed
  show ?case
  proof (cases "sv_lifecycle s = Retiring")
    case False
    then show ?thesis unfolding Let_def by (simp only: if_False) (rule ok_res_any, rule main)
  qed simp
qed

lemma stepped_write:
  assumes "stepped E st t0 (t, st1)" "ok_res (staged E st1) w"
    "\<And>L. replaceable L (tenants_of st) t0 t \<Longrightarrow> L = L_of E \<Longrightarrow> replaceable L (tenants_of st) t0 t'"
  shows "ok_res (stepped E st t0) (on_ok w (\<lambda>st2. Inr (t', st2)))"
  using assms by (cases w) (auto simp: stepped_def intro: staged_trans)

lemma retire_component_stepped:
  assumes "stepped E st t0 x" and u: "uuid_valid (L_of E) (cr_requestID (re_request E))"
  shows "ok_res (stepped E st t0) (retire_component E p component x)"
proof -
  obtain t st1 where x: "x = (t, st1)" by fastforce
  have "ok_res (stepped E st t0) (on_ok (approveManifest E (applicationManifestPath component)
      (cr_requestID (re_request E)) (p_force p) st1)
      (\<lambda>st2. Inr (set_application component (retire_application (cr_requestID (re_request E))) t, st2)))"
    using assms(1) unfolding x
    by (rule stepped_write) (auto intro!: replaceable_set_application entry_ok_retire u)
  then show ?thesis using assms(1)
    by (simp add: retire_component_def x Let_def split: option.split)
qed

lemma retire_service_database_stepped:
  assumes "stepped E st t0 x" and u: "uuid_valid (L_of E) (cr_requestID (re_request E))"
  shows "ok_res (stepped E st t0) (retire_service_database E p s x)"
proof -
  obtain t st1 where x: "x = (t, st1)" by fastforce
  have "ok_res (stepped E st t0) (on_ok (approveManifest E (databaseManifestPath n)
      (cr_requestID (re_request E)) (p_force p) st1)
      (\<lambda>st2. Inr (set_database (sv_databaseRef s) (retire_database (cr_requestID (re_request E))) t, st2)))" for n
    using assms(1) unfolding x
    by (rule stepped_write) (auto intro!: replaceable_set_database entry_ok_retire u)
  then show ?thesis using assms(1)
    by (simp add: retire_service_database_def x Let_def split: option.split)
qed

lemma retireService_keeps:
  assumes u: "uuid_valid (L_of E) (cr_requestID (re_request E))"
  shows "ok_res (keeps E st) (retireService E p st)"
  unfolding retireService_def Let_def
proof (rule ok_res_any, rule ok_res_any, goal_cases)
  case (1 t s)
  then have t: "find_by ten_name (p_team p) (tenants_of st) = Some t" by (simp add: activeTenant_Inr)
  let ?rid = "cr_requestID (re_request E)"
  have start: "stepped E st t (set_service (p_name p) (retire_service ?rid) t, st)"
    unfolding stepped_def
  proof (intro conjI impI)
    assume c: "catalog_ok (L_of E) (rs_catalog st)"
    show "replaceable (L_of E) (tenants_of st) t (fst (set_service (p_name p) (retire_service ?rid) t, st))"
      using own_tenant [OF c t] by (auto intro!: replaceable_set_service entry_ok_retire u)
  qed simp
  have fin: "ok_res (keeps E st) (case y of (t', st') \<Rightarrow>
      if sv_ownsTeam s then on_ok (approveManifest E (teamManifestPath (ten_name t')) ?rid (p_force p) st')
        (\<lambda>st. Inr (put_tenant (retire_tenant ?rid t') st))
      else Inr (put_tenant t' st'))" if y: "stepped E st t y" for y
  proof -
    obtain t' st' where yy: "y = (t', st')" by fastforce
    have "ok_res (\<lambda>x. stepped E st t x) (on_ok (approveManifest E (teamManifestPath (ten_name t')) ?rid (p_force p) st')
        (\<lambda>st. Inr (retire_tenant ?rid t', st)))"
      using y unfolding yy by (rule stepped_write) (auto intro: retire_tenant_ok u)
    then show ?thesis
      using y unfolding yy
      by (cases "approveManifest E (teamManifestPath (ten_name t')) ?rid (p_force p) st'")
        (auto intro: put_stepped [OF t])
  qed
  show ?case
  proof (cases "sv_lifecycle s = Retiring")
    case False
    have "ok_res (stepped E st t) (foldE (retire_component E p) (sv_components s)
        (set_service (p_name p) (retire_service ?rid) t, st))"
      by (rule foldE_inv [OF start retire_component_stepped [OF _ u]])
    then show ?thesis using False
      by (simp only: if_False)
        (rule ok_res_bind, assumption, rule ok_res_bind, erule retire_service_database_stepped [OF _ u], erule fin)
  qed simp
qed

subsection \<open>Filtering through a pointer into the array\<close>

text \<open>
  \<open>finalizeService\<close> compares each entry with the name read through a pointer into the array that the loop is
  overwriting. Once the entry is dropped the pointer sees the next one; with distinct names the result is still the
  list without the entry.
\<close>

lemma alias_before:
  "distinct (map f arr) \<Longrightarrow> k < length arr \<Longrightarrow> i \<le> k \<Longrightarrow>
   inplace_filter (\<lambda>a x. f x \<noteq> f (a ! k)) (n + (k - i)) i arr i =
   inplace_filter (\<lambda>a x. f x \<noteq> f (a ! k)) n k arr k"
proof (induction "k - i" arbitrary: i)
  case (Suc d)
  then have i: "i < k" by simp
  then have "f (arr ! i) \<noteq> f (arr ! k)"
    using Suc.prems nth_eq_iff_index_eq [OF Suc.prems(1), of i k] by simp
  moreover have "n + (k - i) = Suc (n + (k - Suc i))" using i by simp
  ultimately show ?case using Suc.hyps(1) [of "Suc i"] Suc.hyps(2) Suc.prems i by (simp add: Let_def)
qed simp

lemma alias_after:
  "k \<le> kept \<Longrightarrow> kept < i \<Longrightarrow> i + n = length arr \<Longrightarrow> distinct (map f (drop i arr)) \<Longrightarrow>
   f (arr ! k) \<notin> f ` set (drop i arr) \<Longrightarrow>
   inplace_filter (\<lambda>a x. f x \<noteq> f (a ! k)) n i arr kept = take kept arr @ drop i arr"
proof (induction n arbitrary: i arr kept)
  case (Suc n)
  have i: "i < length arr" using Suc.prems by simp
  have d: "drop i arr = arr ! i # drop (Suc i) arr" using i by (simp add: Cons_nth_drop_Suc)
  let ?arr = "arr[kept := arr ! i]"
  have k: "take (Suc kept) ?arr = take kept arr @ [arr ! i]"
    using Suc.prems i by (simp add: take_Suc_conv_app_nth)
  have dr: "drop (Suc i) ?arr = drop (Suc i) arr" using Suc.prems by simp
  have "f (?arr ! k) \<notin> f ` set (drop (Suc i) arr)"
    using Suc.prems d by (cases "k = kept") auto
  then show ?case
    using Suc.IH [of "Suc kept" "Suc i" ?arr] Suc.prems d k dr by (auto simp: Let_def)
qed simp

lemma alias_filter:
  assumes "distinct (map f xs)" "k < length xs"
  shows "filter_array (\<lambda>a x. f x \<noteq> f (a ! k)) xs = filter (\<lambda>x. f x \<noteq> f (xs ! k)) xs"
proof -
  have s: "xs = take k xs @ xs ! k # drop (Suc k) xs" using assms(2) by (rule id_take_nth_drop)
  have dist: "distinct (map f (take k xs) @ f (xs ! k) # map f (drop (Suc k) xs))"
    using assms(1) by (subst (asm) s) simp
  have "filter_array (\<lambda>a x. f x \<noteq> f (a ! k)) xs = inplace_filter (\<lambda>a x. f x \<noteq> f (a ! k)) (length xs - k) k xs k"
    using alias_before [OF assms, of 0 "length xs - k"] assms(2) by (simp add: filter_array_def)
  also have "\<dots> = inplace_filter (\<lambda>a x. f x \<noteq> f (a ! k)) (length xs - Suc k) (Suc k) xs k"
    using assms(2) by (simp add: Suc_diff_Suc [symmetric] Let_def)
  also have "\<dots> = take k xs @ drop (Suc k) xs"
    using dist assms(2) by (intro alias_after) (auto simp: image_iff)
  also have "\<dots> = filter (\<lambda>x. f x \<noteq> f (xs ! k)) xs"
  proof -
    have ne: "f (xs ! k) \<notin> f ` set (take k xs)" "f (xs ! k) \<notin> f ` set (drop (Suc k) xs)"
      using dist by auto
    have "filter (\<lambda>x. f x \<noteq> f (xs ! k)) ys = ys" if "f (xs ! k) \<notin> f ` set ys" for ys
      using that by (induction ys) auto
    note kept = this [OF ne(1)] this [OF ne(2)]
    have "filter (\<lambda>x. f x \<noteq> f (xs ! k)) xs =
        filter (\<lambda>x. f x \<noteq> f (xs ! k)) (take k xs @ xs ! k # drop (Suc k) xs)"
      by (simp only: s [symmetric])
    then show ?thesis by (simp add: kept)
  qed
  finally show ?thesis .
qed

lemma first_index_found:
  "find_by f n xs = Some x \<Longrightarrow> first_index f n xs < length xs \<and> xs ! first_index f n xs = x"
  by (induction xs) (auto split: if_splits)

lemma drop_tenant_filter:
  assumes "distinct (map ten_name ts)" "find_by ten_name n ts = Some t"
  shows "drop_tenant n ts = filter (\<lambda>x. ten_name x \<noteq> n) ts"
  using alias_filter [OF assms(1)] first_index_found [OF assms(2)] find_by_SomeD [OF assms(2)]
  by (simp add: drop_tenant_def)

lemma drop_service_filter:
  assumes "distinct (map sv_name ss)" "find_by sv_name n ss = Some s"
  shows "drop_service n ss = filter (\<lambda>x. sv_name x \<noteq> n) ss"
  using alias_filter [OF assms(1)] first_index_found [OF assms(2)] find_by_SomeD [OF assms(2)]
  by (simp add: drop_service_def)

definition leaves_reference :: "catalog_service \<Rightarrow> tenant \<Rightarrow> bool" where
  \<comment> \<open>something other than the service and its Applications names the Database that goes with the service\<close>
  "leaves_reference s t \<longleftrightarrow> sv_ownsDatabase s \<and> sv_databaseRef s \<noteq> []
     \<and> (list_ex (\<lambda>a. ca_name a \<notin> set (sv_components s) \<and> ca_databaseRef a = sv_databaseRef s) (ten_applications t)
        \<or> list_ex (\<lambda>s'. sv_name s' \<noteq> sv_name s \<and> sv_databaseRef s' = sv_databaseRef s) (ten_services t))"

lemma strip_service_ok:
  assumes own: "replaceable L ts t t" and s: "find_by sv_name n (ten_services t) = Some s"
    and safe: "\<not> leaves_reference s t"
  shows "replaceable L ts t (strip_service s t)"
proof -
  note D = replaceableD [OF own]
  let ?t1 = "t\<lparr>ten_applications := filter (\<lambda>a. ca_name a \<notin> set (sv_components s)) (ten_applications t)\<rparr>"
  let ?t2 = "?t1\<lparr>ten_services := filter (\<lambda>x. sv_name x \<noteq> sv_name s) (ten_services t)\<rparr>"
  have 1: "replaceable L ts t ?t1"
    using tenant_entries_okD(1) [OF D(1)] D(3)
    by (intro replaceable_applications [OF own]) (auto simp: distinct_map_filter)
  have 2: "replaceable L ts t ?t2"
    using tenant_entries_okD(3) [OF D(1)] D(5)
    by (intro replaceable_services [OF 1]) (auto simp: distinct_map_filter)
  have n: "sv_name s = n" using find_by_SomeD [OF s] by simp
  have drop: "drop_service (sv_name s) (ten_services t) = filter (\<lambda>x. sv_name x \<noteq> sv_name s) (ten_services t)"
    using drop_service_filter [OF D(5), of "sv_name s" s] s n by simp
  show ?thesis
  proof (cases "sv_ownsDatabase s")
    case True
    then have "\<not> refers (sv_databaseRef s) ?t2 \<or> sv_databaseRef s = []"
      using safe by (auto simp: refers_def leaves_reference_def list_ex_iff)
    note dropped = drop_database_ok [OF 2 this]
    have "strip_service s t = ?t2\<lparr>ten_databases :=
        filter (\<lambda>d. cd_name d \<noteq> sv_databaseRef s) (ten_databases ?t2)\<rparr>"
      using True drop by (intro tenant.equality) (simp_all add: strip_service_def filter_array_pure)
    with dropped show ?thesis by simp
  next
    case False
    with 2 drop show ?thesis by (simp add: strip_service_def filter_array_pure)
  qed
qed

lemma finalize_component_staged: "ok_res (staged E st) (finalize_component E p t c st)"
  unfolding finalize_component_def by (auto split: option.split intro!: ok_res_any)

lemma finalize_service_database_staged: "ok_res (staged E st) (finalize_service_database E p t s st)"
  unfolding finalize_service_database_def by (auto split: option.split intro!: ok_res_any)

lemma finalizeService_keeps:
  assumes safe: "\<And>t s. find_by ten_name (p_team p) (tenants_of st) = Some t \<Longrightarrow>
      find_by sv_name (p_name p) (ten_services t) = Some s \<Longrightarrow> \<not> sv_ownsTeam s \<Longrightarrow> \<not> leaves_reference s t"
  shows "ok_res (keeps E st) (finalizeService E p st)"
  unfolding finalizeService_def
proof (rule ok_res_any, rule ok_res_any, rule ok_res_any, rule ok_res_bind, rule staged_foldE,
    rule finalize_component_staged, rule ok_res_bind, rule finalize_service_database_staged,
    rule ok_res_bind, rule deleteServiceSource_staged, goal_cases)
  case (1 t s u st1 st2 st3)
  then have t: "find_by ten_name (p_team p) (tenants_of st) = Some t"
    and s: "find_by sv_name (p_name p) (ten_services t) = Some s"
    and st: "staged E st st3"
    by (auto simp: tenant_of_Inr entry_Inr intro: staged_trans)
  have tn: "ten_name t = p_team p" using find_by_SomeD [OF t] by simp
  have team: "keeps E st (set_tenants (drop_tenant (ten_name t) (tenants_of st4)) st4)"
    if "staged E st st4" for st4
    unfolding keeps_def
  proof (intro conjI impI)
    assume c: "catalog_ok (L_of E) (rs_catalog st)"
    have e: "drop_tenant (ten_name t) (tenants_of st) = filter (\<lambda>x. ten_name x \<noteq> ten_name t) (tenants_of st)"
      using catalog_okD(2) [OF c] t tn by (intro drop_tenant_filter) (simp_all add: tenants_of_def)
    show "catalog_ok (L_of E) (rs_catalog (set_tenants (drop_tenant (ten_name t) (tenants_of st4)) st4))"
      using drop_tenants_ok [OF c, of "\<lambda>x. ten_name x \<noteq> ten_name t"] that e
      by (simp add: rs_catalog_set_tenants staged_def tenants_of_def)
  qed (use that in \<open>simp add: staged_def\<close>)
  have plain: "keeps E st (put_tenant (strip_service s t) st3)" if "\<not> sv_ownsTeam s"
    by (rule put_keeps [OF t st]) (rule strip_service_ok [OF own_tenant [OF _ t] s safe [OF t s that]])
  show ?case
  proof (cases "sv_ownsTeam s")
    case True
    have "ok_res (keeps E st) (on_ok (deleteLeaf E (ten_teamPath t) ''team.yaml'' st3)
        (\<lambda>st. Inr (set_tenants (drop_tenant (ten_name t) (tenants_of st)) st)))"
      by (rule ok_res_bind [OF deleteLeaf_staged]) (use team staged_trans [OF st] in simp)
    then show ?thesis using True by (auto intro: ok_res_any)
  qed (use plain in simp)
qed

subsection \<open>Every operation\<close>

text \<open>
  What the renderer does not check by itself: a Database that goes away may still be named by a service or a retiring
  Application, and the names that a service brings along may already exist in another tenant.
\<close>

definition no_collision :: "change_request \<Rightarrow> catalog \<Rightarrow> bool" where
  "no_collision r c \<longleftrightarrow> (let p = cr_parameters r; op = cr_operation r; ts = cat_tenants c in
     (op = ''database.finalize'' \<longrightarrow>
        (\<forall>t. find_by ten_name (p_team p) ts = Some t \<longrightarrow> \<not> refers (p_name p) t))
   \<and> (op = ''service.scaffold'' \<and> p_withDatabase p \<longrightarrow> p_name p \<notin> set (all_databases ts))
   \<and> (op = ''service.activate'' \<longrightarrow>
        (\<forall>t s c. find_by ten_name (p_team p) ts = Some t \<and> find_by sv_name (p_name p) (ten_services t) = Some s
           \<and> c \<in> set (sv_components s) \<longrightarrow>
           c \<in> set (templateComponents (sv_name s) (sv_template s))
           \<and> (c \<in> set (all_applications ts) \<longrightarrow> c \<in> ca_name ` set (ten_applications t))))
   \<and> (op = ''service.finalize'' \<longrightarrow>
        (\<forall>t s. find_by ten_name (p_team p) ts = Some t \<and> find_by sv_name (p_name p) (ten_services t) = Some s
           \<and> \<not> sv_ownsTeam s \<longrightarrow> \<not> leaves_reference s t)))"

lemma request_desired:
  assumes "ChangeRequest_Validate L r = None" "has_desired_state (cr_operation r)"
  shows "has_prefix (cr_operation r) ''team.'' \<Longrightarrow> validate_team_state L (cr_parameters r) = None"
  using Validate_names(9) [OF assms] by (simp add: validateDesiredState_def)

lemma ok_res_if: "(b \<Longrightarrow> ok_res P x) \<Longrightarrow> (\<not> b \<Longrightarrow> ok_res P y) \<Longrightarrow> ok_res P (if b then x else y)"
  by simp

lemma service_request_facts:
  assumes "validate_service_request r = None" "has_prefix (cr_operation r) ''service.''"
  shows "validName (p_name (cr_parameters r)) 48"
    "cr_operation r = ''service.scaffold'' \<Longrightarrow>
       p_template (cr_parameters r) \<in> {''go-api'', ''react-static'', ''full-stack''}"
    "cr_operation r = ''service.scaffold'' \<Longrightarrow> p_version (cr_parameters r) = ''v0.1.0''"
    "cr_operation r = ''service.activate'' \<Longrightarrow> semverPattern (p_version (cr_parameters r))"
  using assms by (auto simp: validate_service_request_def Let_def split: if_splits)

lemma render_keeps:
  assumes v: "ChangeRequest_Validate (L_of E) (re_request E) = None"
    and safe: "no_collision (re_request E) (rs_catalog st)"
  shows "ok_res (keeps E st) (render E st)"
proof -
  let ?r = "re_request E" and ?p = "cr_parameters (re_request E)"
  let ?op = "cr_operation ?r"
  note N = Validate_names [OF v]
  have team: "validate_team_state (L_of E) ?p = None" if "?op = ''team.create'' \<or> ?op = ''team.update''"
    using that by (intro request_desired [OF v]) (auto simp: has_desired_state_def has_suffix_def)
  have rid: "uuid_valid (L_of E) (cr_requestID ?r)" by (rule N(3))
  have tm: "validName (p_team ?p) 58" if "?op = ''service.scaffold''"
    using N(5) that by simp
  have svc: "has_prefix ?op ''service.''" if "?op = ''service.scaffold'' \<or> ?op = ''service.activate''"
    using that by auto
  note S = service_request_facts [OF N(8) svc]
  have dbf: "\<not> refers (p_name ?p) t"
    if "?op = ''database.finalize''" "find_by ten_name (p_team ?p) (tenants_of st) = Some t" for t
    using safe that by (auto simp: no_collision_def tenants_of_def Let_def)
  have scf: "p_name ?p \<notin> set (all_databases (tenants_of st))"
    if "?op = ''service.scaffold''" "p_withDatabase ?p"
    using safe that by (auto simp: no_collision_def tenants_of_def Let_def)
  have act: "c \<in> set (templateComponents (sv_name s) (sv_template s))
      \<and> (c \<in> set (all_applications (tenants_of st)) \<longrightarrow> c \<in> ca_name ` set (ten_applications t))"
    if "?op = ''service.activate''" "find_by ten_name (p_team ?p) (tenants_of st) = Some t"
      "find_by sv_name (p_name ?p) (ten_services t) = Some s" "c \<in> set (sv_components s)" for t s c
    using safe that unfolding no_collision_def Let_def tenants_of_def by blast
  have fin: "\<not> leaves_reference s t"
    if "?op = ''service.finalize''" "find_by ten_name (p_team ?p) (tenants_of st) = Some t"
      "find_by sv_name (p_name ?p) (ten_services t) = Some s" "\<not> sv_ownsTeam s" for t s
    using safe that unfolding no_collision_def Let_def tenants_of_def by blast
  show ?thesis
    unfolding render_def Let_def
    by (intro ok_res_if createTeam_keeps updateTeam_keeps approveTeamDeletion_keeps finalizeTeam_keeps
        createApplication_keeps updateApplication_keeps approveApplicationDeletion_keeps finalizeApplication_keeps
        createDatabase_keeps updateDatabase_keeps approveDatabaseDeletion_keeps finalizeDatabase_keeps
        scaffoldService_keeps activateService_keeps retireService_keeps finalizeService_keeps
        N(2) rid team tm S dbf scf act fin disjI1 disjI2)
      (assumption | rule disjI1 disjI2 | simp)+
qed

end
