(* ===== verification/Render_Apply.thy ===== *)
theory Render_Apply
  imports Render_Safety
begin

section \<open>From a request to the repository\<close>

text \<open>
  \<open>RenderChange\<close> followed by \<open>ApplyChangeSet\<close> on the repository it was rendered from: the change set is applied
  completely, and the files read back as rendered. The proof needs that no allowed path is a directory of another one.
\<close>

subsection \<open>Allowed paths do not nest\<close>

lemma split_on_sep: "split_on c (a @ c # b) = split_on c a @ split_on c b"
proof (induction a)
  case (Cons x a)
  then show ?case by (auto split: list.split)
qed simp

lemma join_Cons_ne: "xs \<noteq> [] \<Longrightarrow> join sep (x # xs) = x @ sep @ join sep xs"
  by (cases xs) simp_all

lemma join_append: "xs \<noteq> [] \<Longrightarrow> ys \<noteq> [] \<Longrightarrow> join sep (xs @ ys) = join sep xs @ sep @ join sep ys"
proof (induction xs)
  case (Cons x xs)
  then show ?case by (cases "xs = []") (simp_all add: join_Cons_ne)
qed simp

lemma service_files_flat:
  "f \<in> set service_files_allowed \<Longrightarrow> g \<in> set service_files_allowed \<Longrightarrow> \<not> has_prefix g (f @ ''/'')"
proof -
  have "list_all (\<lambda>f. list_all (\<lambda>g. \<not> has_prefix g (f @ ''/'')) service_files_allowed) service_files_allowed"
    by code_simp
  then show "f \<in> set service_files_allowed \<Longrightarrow> g \<in> set service_files_allowed \<Longrightarrow> ?thesis"
    by (simp add: list_all_iff)
qed

lemma catalog_parts:
  "split_on CHR ''/'' CatalogRelativePath = [''gitops'', ''clusters'', ''local'', ''catalog'', ''tenants.yaml'']"
  by code_simp

lemma path_class:
  assumes "validateChangePath L p = None"
  obtains (Catalog) "p = CatalogRelativePath"
  | (Service) "parts" where "split_on CHR ''/'' p = parts" "length parts \<ge> 3" "parts ! 0 = ''services''"
      "join ''/'' (drop 2 parts) \<in> set service_files_allowed"
  | (Leaf) "parts" where "split_on CHR ''/'' p = parts" "length parts = 4" "parts ! 0 = ''gitops''"
      "parts ! 1 \<in> {''teams'', ''applications'', ''databases''}"
  using assms by (auto simp: validateChangePath_def Let_def split: if_splits)

lemma allowed_paths_flat:
  assumes p: "validateChangePath L p = None" and q: "validateChangePath L q = None"
  shows "\<not> has_prefix q (p @ ''/'')"
proof
  assume "has_prefix q (p @ ''/'')"
  then obtain r where "q = p @ ''/'' @ r" by (auto simp: has_prefix_iff)
  then have parts: "split_on CHR ''/'' q = split_on CHR ''/'' p @ split_on CHR ''/'' r"
    using split_on_sep [of "CHR ''/''" p r] by simp
  have ne: "split_on CHR ''/'' p \<noteq> []" "split_on CHR ''/'' r \<noteq> []" by simp_all
  from p show False
  proof (cases rule: path_class)
    case Catalog
    show ?thesis using q
      by (cases rule: path_class) (use parts ne catalog_parts Catalog in auto)
  next
    case (Service ps)
    show ?thesis using q
    proof (cases rule: path_class)
      case Catalog
      then show ?thesis using parts Service catalog_parts by (cases ps) auto
    next
      case S: (Service qs)
      have "join ''/'' (drop 2 qs) = join ''/'' (drop 2 ps) @ ''/'' @ join ''/'' (split_on CHR ''/'' r)"
      proof -
        have "drop 2 qs = drop 2 ps @ split_on CHR ''/'' r" "drop 2 ps \<noteq> []"
          using S(1) Service(1,2) parts by auto
        then show ?thesis using join_append [OF _ ne(2)] by simp
      qed
      then show ?thesis using service_files_flat [OF Service(4) S(4)] by (simp add: has_prefix_iff)
    next
      case (Leaf qs)
      then show ?thesis using parts Service by (cases ps) auto
    qed
  next
    case (Leaf ps)
    show ?thesis using q
    proof (cases rule: path_class)
      case Catalog
      then show ?thesis using parts Leaf catalog_parts by (cases ps; cases "tl ps") auto
    next
      case (Service qs)
      then show ?thesis using parts Leaf by (cases ps) auto
    next
      case L: (Leaf qs)
      then show ?thesis using parts Leaf ne by auto
    qed
  qed
qed

subsection \<open>Applying one change\<close>

definition fs_ok :: "fs \<Rightarrow> bool" where
  \<comment> \<open>a file tree: one entry for each name, and nothing below a regular file\<close>
  "fs_ok t \<longleftrightarrow> distinct (map fst (fs_files t))
     \<and> (\<forall>f \<in> fst ` set (fs_files t). f \<notin> set (fs_dirs t)
          \<and> (\<forall>g \<in> fst ` set (fs_files t). \<not> has_prefix f (g @ ''/'')))"

lemma read_file_iff: "read_file t p \<noteq> None \<longleftrightarrow> p \<in> fst ` set (fs_files t)"
  by (simp add: read_file_def map_of_eq_None_iff)

lemma ancestor_prefix: "d \<in> set (ancestors p) \<Longrightarrow> has_prefix p (d @ ''/'')"
proof -
  assume "d \<in> set (ancestors p)"
  then obtain k where k: "1 \<le> k" "k < length (split_on CHR ''/'' p)"
    and d: "d = join ''/'' (take k (split_on CHR ''/'' p))" by (auto simp: ancestors_def)
  let ?ps = "split_on CHR ''/'' p"
  have ne: "take k ?ps \<noteq> []" "drop k ?ps \<noteq> []" using k by auto
  have "p = join ''/'' (take k ?ps @ drop k ?ps)" by (simp add: join_split_on)
  also have "\<dots> = d @ ''/'' @ join ''/'' (drop k ?ps)" using join_append [OF ne, of "''/''"] d by simp
  finally show ?thesis by (metis append.assoc has_prefix_append)
qed

lemma read_write [simp]:
  "read_file (write_file p s t) q = (if q = p then Some s else read_file t q)"
  "read_file (rmdir_if_empty d t) q = read_file t q"
  by (auto simp: read_file_def write_file_def rmdir_if_empty_def update_conv')

lemma read_unlink: "read_file (unlink p t) q = (if q = p then None else read_file t q)"
  by (auto simp: read_file_def unlink_def delete_conv')

definition settled :: "lib \<Rightarrow> fs \<Rightarrow> (string \<Rightarrow> bool) \<Rightarrow> fs \<Rightarrow> bool" where
  \<comment> \<open>for the allowed paths not in \<open>D\<close> the tree is still as it was\<close>
  "settled L repo D t \<longleftrightarrow>
     (\<forall>q. \<not> D q \<longrightarrow> read_file t q = read_file repo q)
   \<and> (\<forall>q. D q \<longrightarrow> validateChangePath L q = None)
   \<and> (\<forall>q. validateChangePath L q = None \<longrightarrow> is_dir t q = is_dir repo q)"

lemma settled_read:
  assumes s: "settled L repo D t" and q: "validateChangePath L q = None" "\<not> D q"
  shows "repo_read t q = repo_read repo q"
proof -
  have below: "list_ex (\<lambda>f. has_prefix q (fst f @ ''/'')) (fs_files u)
      \<longleftrightarrow> (\<exists>g. read_file u g \<noteq> None \<and> has_prefix q (g @ ''/''))" for u
    unfolding read_file_iff list_ex_iff by auto
  have "read_file t g = read_file repo g" if "has_prefix q (g @ ''/'')" for g
    using s that q(1) allowed_paths_flat [of L g q] by (auto simp: settled_def)
  then have "list_ex (\<lambda>f. has_prefix q (fst f @ ''/'')) (fs_files t)
      \<longleftrightarrow> list_ex (\<lambda>f. has_prefix q (fst f @ ''/'')) (fs_files repo)" unfolding below by metis
  moreover have "read_file t q = read_file repo q" "is_dir t q = is_dir repo q"
    using s q by (auto simp: settled_def)
  ultimately show ?thesis unfolding repo_read_def by simp
qed

lemma settled_not_blocked:
  assumes s: "settled L repo D t" and q: "validateChangePath L q = None" "\<not> D q"
    and ok: "fs_ok repo" and r: "repo_read repo q \<noteq> ReadFailed"
  shows "\<not> blocked q t"
proof -
  have dir: "\<not> is_dir repo q"
    using r ok read_file_iff [of repo q]
    by (auto simp: repo_read_def fs_ok_def is_dir_def split: option.splits if_splits)
  have "read_file t d = None" if "d \<in> set (ancestors q)" for d
  proof -
    have p: "has_prefix q (d @ ''/'')" by (rule ancestor_prefix [OF that])
    have same: "read_file t d = read_file repo d"
      using s p q(1) allowed_paths_flat [of L d q] by (auto simp: settled_def)
    have "read_file repo d = None"
    proof (rule ccontr)
      assume "read_file repo d \<noteq> None"
      then have d: "d \<in> fst ` set (fs_files repo)" by (rule read_file_iff [THEN iffD1])
      show False
      proof (cases "read_file repo q")
        case None
        then show False using r d p by (auto simp: repo_read_def list_ex_iff split: if_splits)
      next
        case (Some x)
        then have "q \<in> fst ` set (fs_files repo)" using read_file_iff [of repo q] by simp
        then show False using ok d p by (auto simp: fs_ok_def)
      qed
    qed
    with same show ?thesis by simp
  qed
  then show ?thesis using s q dir by (auto simp: blocked_def settled_def list_ex_iff)
qed

definition applied_content :: "file_change \<Rightarrow> string option" where
  "applied_content c = (if fc_action c = ActDelete then None else Some (fc_content c))"

lemma apply_change_settled:
  assumes s: "settled (L_of E) (re_repo E) D t" and c: "change_ok E c" and new: "\<not> D (fc_path c)"
    and ok: "fs_ok (re_repo E)"
  shows "\<exists>t'. apply_change (L_of E) c t = Inr t'
    \<and> settled (L_of E) (re_repo E) (\<lambda>q. D q \<or> q = fc_path c) t'
    \<and> read_file t' (fc_path c) = applied_content c
    \<and> (\<forall>q. q \<noteq> fc_path c \<longrightarrow> read_file t' q = read_file t q)"
proof -
  have v: "validateChangePath (L_of E) (fc_path c) = None" using c by (simp add: change_ok_def)
  have rd: "repo_read t (fc_path c) = repo_read (re_repo E) (fc_path c)"
    by (rule settled_read [OF s v new])
  have nb: "repo_read (re_repo E) (fc_path c) \<noteq> ReadFailed \<Longrightarrow> \<not> blocked (fc_path c) t"
    by (rule settled_not_blocked [OF s v new ok])
  have dir: "is_dir (write_file (fc_path c) x t) q = is_dir t q" if "validateChangePath (L_of E) q = None" for x q
    using ancestor_prefix [of q "fc_path c"] allowed_paths_flat [OF that v]
    by (auto simp: is_dir_def write_file_def)
  have W: "settled (L_of E) (re_repo E) (\<lambda>q. D q \<or> q = fc_path c) (write_file (fc_path c) x t)" for x
    using s v dir by (auto simp: settled_def)
  have U: "settled (L_of E) (re_repo E) (\<lambda>q. D q \<or> q = fc_path c) (unlink (fc_path c) t)"
    using s v by (auto simp: settled_def read_unlink) (simp add: is_dir_def unlink_def)+
  show ?thesis
  proof (cases "fc_action c")
    case ActCreate
    then show ?thesis using c rd nb v W
      by (auto simp: change_ok_def apply_change_def Let_def applied_content_def)
  next
    case ActUpdate
    then show ?thesis using c rd nb v W
      by (auto simp: change_ok_def apply_change_def Let_def applied_content_def)
  next
    case ActDelete
    then show ?thesis using c rd v U
      by (auto simp: change_ok_def apply_change_def Let_def applied_content_def read_unlink)
  next
    case (ActOther x)
    then show ?thesis using c by (simp add: change_ok_def)
  qed
qed

lemma apply_changes_settled:
  assumes "settled (L_of E) (re_repo E) D t" "\<forall>c \<in> set cs. change_ok E c \<and> \<not> D (fc_path c)"
    "distinct (map fc_path cs)" "fs_ok (re_repo E)"
  shows "\<exists>t'. foldE (apply_change (L_of E)) cs t = Inr t'
    \<and> (\<forall>c \<in> set cs. read_file t' (fc_path c) = applied_content c)
    \<and> (\<forall>q. q \<notin> fc_path ` set cs \<longrightarrow> read_file t' q = read_file t q)"
  using assms
proof (induction cs arbitrary: D t)
  case (Cons c cs)
  obtain t1 where t1: "apply_change (L_of E) c t = Inr t1"
    "settled (L_of E) (re_repo E) (\<lambda>q. D q \<or> q = fc_path c) t1" "read_file t1 (fc_path c) = applied_content c"
    "\<forall>q. q \<noteq> fc_path c \<longrightarrow> read_file t1 q = read_file t q"
    using apply_change_settled [OF Cons.prems(1)] Cons.prems by (metis list.set_intros(1))
  have rest: "\<forall>d \<in> set cs. change_ok E d \<and> \<not> (D (fc_path d) \<or> fc_path d = fc_path c)"
    using Cons.prems(2,3) by (auto simp: image_iff)
  obtain t' where t': "foldE (apply_change (L_of E)) cs t1 = Inr t'"
    "\<forall>c \<in> set cs. read_file t' (fc_path c) = applied_content c"
    "\<forall>q. q \<notin> fc_path ` set cs \<longrightarrow> read_file t' q = read_file t1 q"
    using Cons.IH [OF t1(2) rest] Cons.prems(3,4) by auto
  have "fc_path c \<notin> fc_path ` set cs" using Cons.prems(3) by auto
  then show ?case using t1 t' by auto
qed simp

lemma rmdirs_read: "read_file (fold (\<lambda>c t. if fc_action c = ActDelete then rmdir_if_empty (dir_of (fc_path c)) t else t) cs t) q
    = read_file t q"
  by (induction cs arbitrary: t) simp_all

lemma ApplyChangeSet_settled:
  assumes "\<forall>c \<in> set (cs_files cs). change_ok E c" "distinct (map fc_path (cs_files cs))" "fs_ok (re_repo E)"
  shows "\<exists>t'. ApplyChangeSet (L_of E) cs (re_repo E) = Inr t'
    \<and> (\<forall>c \<in> set (cs_files cs). read_file t' (fc_path c) = applied_content c)
    \<and> (\<forall>q. q \<notin> fc_path ` set (cs_files cs) \<longrightarrow> read_file t' q = read_file (re_repo E) q)"
  using apply_changes_settled [of E "\<lambda>_. False" "re_repo E" "cs_files cs"] assms
  by (auto simp: ApplyChangeSet_def settled_def rmdirs_read)

subsection \<open>Every operation stages correct changes\<close>

text \<open>
  The contract of an invariant of the staged files: staging a file other than the catalog keeps it and catalog edits do
  not touch it. Then every operation keeps it. It is used for \<open>changes_ok\<close> and for the fact that only
  \<open>RenderChange\<close> itself stages the catalog file.
\<close>

lemma off_catalog: "\<not> has_suffix CatalogRelativePath m \<Longrightarrow> p @ m \<noteq> CatalogRelativePath"
  unfolding has_suffix_iff by metis

lemma manifest_suffixes:
  "\<not> has_suffix CatalogRelativePath ''/team.yaml''" "\<not> has_suffix CatalogRelativePath ''/application.yaml''"
  "\<not> has_suffix CatalogRelativePath ''/database.yaml''" "\<not> has_suffix CatalogRelativePath ''/kustomization.yaml''"
  "\<not> has_suffix CatalogRelativePath ''/VERSION''" "\<not> has_suffix CatalogRelativePath ''/service.yaml''"
  by code_simp+

lemmas off_catalog_manifest = manifest_suffixes [THEN off_catalog, simplified]

lemma manifest_paths_off [simp]:
  "teamManifestPath n \<noteq> CatalogRelativePath" "applicationManifestPath n \<noteq> CatalogRelativePath"
  "databaseManifestPath n \<noteq> CatalogRelativePath"
  by (simp_all add: teamManifestPath_def applicationManifestPath_def databaseManifestPath_def off_catalog_manifest)

lemma format_files_keys: "format_files E fs = Inr gs \<Longrightarrow> map fst gs = map fst fs"
  by (induction E fs arbitrary: gs rule: format_files.induct) (auto simp: on_ok_Inr)

definition service_file_names :: "string list" where
  "service_file_names = [''VERSION'', ''service.yaml'', ''README.md'', ''api/main.go'', ''api/main_test.go'',
     ''api/Dockerfile''] @ map (\<lambda>path. ''web/'' @ path) react_paths"

lemma serviceFiles_names:
  assumes "serviceFiles E s = Inr files"
  shows "set (map fst files) \<subseteq> set service_file_names" "files \<noteq> []"
proof -
  obtain api where api: "go_api_files E s = Inr api"
    and f: "format_files E ([(''VERSION'', sv_version s @ [CHR 0x0A]),
      (''service.yaml'', descriptor_marshal (re_lib E) (serviceDescriptorFor s)), (''README.md'', readme_text s)]
      @ api @ web_files E s) = Inr files"
    using assms unfolding serviceFiles_def on_ok_Inr by blast
  have a: "set (map fst api) \<subseteq> {''api/main.go'', ''api/main_test.go'', ''api/Dockerfile''}"
    using api by (auto simp: go_api_files_def split: if_splits read_result.splits)
  have w: "set (map fst (web_files E s)) \<subseteq> (\<lambda>path. ''web/'' @ path) ` set react_paths"
    by (auto simp: web_files_def)
  have files: "set (map fst files) = {''VERSION'', ''service.yaml'', ''README.md''} \<union> set (map fst api)
      \<union> set (map fst (web_files E s))"
    unfolding format_files_keys [OF f] by simp
  have names: "set service_file_names = {''VERSION'', ''service.yaml'', ''README.md''}
      \<union> {''api/main.go'', ''api/main_test.go'', ''api/Dockerfile''} \<union> (\<lambda>path. ''web/'' @ path) ` set react_paths"
    by (simp only: service_file_names_def set_append set_map list.set Un_insert_left Un_empty_left Un_assoc)
  show "set (map fst files) \<subseteq> set service_file_names"
    unfolding files names by (intro Un_mono subset_refl a w)
  show "files \<noteq> []"
  proof
    assume "files = []"
    then show False using format_files_keys [OF f] by simp
  qed
qed

lemma service_files_off:
  "path \<in> set service_file_names \<Longrightarrow> d @ ''/'' @ path \<noteq> CatalogRelativePath"
proof -
  have "list_all (\<lambda>path. \<not> has_suffix CatalogRelativePath (''/'' @ path)) service_file_names" by code_simp
  then show "path \<in> set service_file_names \<Longrightarrow> ?thesis"
    using off_catalog [of "''/'' @ path" d] by (simp add: list_all_iff)
qed

text \<open>A name without the separator is a part of the joined string.\<close>

lemma join_part:
  "x \<in> set xs \<Longrightarrow> c \<notin> set x \<Longrightarrow> x \<in> set (split_on c (join [c] xs))"
proof (induction xs)
  case (Cons y ys)
  show ?case
  proof (cases "ys = []")
    case True
    then show ?thesis using Cons.prems by (simp add: split_on_none)
  next
    case False
    then have "split_on c (join [c] (y # ys)) = split_on c y @ split_on c (join [c] ys)"
      by (simp add: join_Cons_ne split_on_sep)
    then show ?thesis using Cons by (auto simp: split_on_none)
  qed
qed simp

lemma split_join:
  "\<forall>x \<in> set xs. c \<notin> set x \<Longrightarrow> xs \<noteq> [] \<Longrightarrow> split_on c (join [c] xs) = xs"
proof (induction xs)
  case (Cons x xs)
  then show ?case by (cases "xs = []") (simp_all add: join_Cons_ne split_on_append split_on_none)
qed simp

lemma service_paths_off:
  assumes files: "serviceFiles E s = Inr expected" and same: "nul_join actual = nul_join (sort (map fst expected))"
    and path: "path \<in> set actual"
  shows "d @ ''/'' @ path \<noteq> CatalogRelativePath"
proof (cases "CHR 0x00 \<in> set path")
  case True
  have "CHR 0x00 \<notin> set CatalogRelativePath" by (simp add: CatalogRelativePath_def)
  moreover have "CHR 0x00 \<in> set (d @ ''/'' @ path)" using True by simp
  ultimately show ?thesis by metis
next
  case False
  have keys: "set (sort (map fst expected)) \<subseteq> set service_file_names" using serviceFiles_names(1) [OF files] by simp
  have "list_all (\<lambda>x. CHR 0x00 \<notin> set x) service_file_names" by code_simp
  then have free: "\<forall>x \<in> set (sort (map fst expected)). CHR 0x00 \<notin> set x" using keys by (auto simp: list_all_iff)
  have "length (sort (map fst expected)) \<noteq> 0" using serviceFiles_names(2) [OF files] by simp
  then have "sort (map fst expected) \<noteq> []" by force
  then have "split_on CHR 0x00 (nul_join actual) = sort (map fst expected)"
    using split_join [OF free] same by (simp add: nul_join_def)
  then have "path \<in> set (sort (map fst expected))"
    using join_part [OF path False] by (simp add: nul_join_def)
  then show ?thesis using keys service_files_off by blast
qed

lemma bind_inv:
  "ok_res P r \<Longrightarrow> (\<And>x. P x \<Longrightarrow> ok_res Q (f x)) \<Longrightarrow> ok_res Q (on_ok r f)"
  by (cases r) auto

lemma bind_pair:
  "ok_res (\<lambda>x. P (snd x)) r \<Longrightarrow> (\<And>t st. P st \<Longrightarrow> ok_res Q (f (t, st))) \<Longrightarrow> ok_res Q (on_ok r f)"
  by (cases r) auto

lemma foldE_keep:
  "P s \<Longrightarrow> (\<And>x s. P s \<Longrightarrow> ok_res P (f x s)) \<Longrightarrow> ok_res P (foldE f xs s)"
  by (rule foldE_inv)

locale change_invariant =
  fixes E :: renv and P :: "rstate \<Rightarrow> bool"
  assumes set_file_inv: "P st \<Longrightarrow> p \<noteq> CatalogRelativePath \<Longrightarrow> ok_res P (set_file E p content st)"
    and remove_file_inv: "P st \<Longrightarrow> p \<noteq> CatalogRelativePath \<Longrightarrow> ok_res P (remove_file E p st)"
    and edit_inv [simp]: "P (put_tenant t st) = P st" "P (set_tenants ts st) = P st"
begin

lemma writeLeaf_inv:
  "P st \<Longrightarrow> manifest \<in> {''team.yaml'', ''application.yaml'', ''database.yaml''} \<Longrightarrow>
   ok_res P (writeLeaf E p manifest obj st)"
  unfolding writeLeaf_def
  by (rule bind_inv [where P = P]; rule set_file_inv) (auto simp: off_catalog_manifest)

lemma deleteLeaf_inv:
  "P st \<Longrightarrow> manifest \<in> {''team.yaml'', ''application.yaml'', ''database.yaml''} \<Longrightarrow>
   ok_res P (deleteLeaf E p manifest st)"
  unfolding deleteLeaf_def
  by (auto split: option.split intro!: bind_inv [where P = P] remove_file_inv simp: off_catalog_manifest)

lemma approveManifest_inv:
  "P st \<Longrightarrow> p \<noteq> CatalogRelativePath \<Longrightarrow> ok_res P (approveManifest E p rid force st)"
  unfolding approveManifest_def by (auto split: option.split sum.split read_result.split intro!: set_file_inv)

lemma write_inv:
  assumes "P st"
  shows "ok_res P (writeTeam E n p st)" "ok_res P (writeApplicationWithIsolation E team p i st)"
    "ok_res P (writeApplication E team p st)" "ok_res P (writeDatabase E team p st)"
  using assms unfolding writeTeam_def writeApplication_def writeApplicationWithIsolation_def writeDatabase_def
  by (auto intro!: writeLeaf_inv ok_res_any)

lemma service_files_inv:
  assumes "P st"
  shows "ok_res P (writeServiceSource E s st)" "ok_res P (writeServiceVersion E s st)"
    "ok_res P (deleteServiceSource E s st)"
proof -
  show "ok_res P (writeServiceSource E s st)"
    unfolding writeServiceSource_def
  proof (rule ok_res_any, rule foldE_inv [where P = P], rule assms)
    fix files path st
    assume "serviceFiles E s = Inr files" "path \<in> set (sort (map fst files))" "P st"
    then show "ok_res P (set_file E (sv_path s @ ''/'' @ path) (the (map_of files path)) st)"
      using serviceFiles_names(1) [of E s files] service_files_off [of path "sv_path s"]
      by (intro set_file_inv) auto
  qed
  show "ok_res P (writeServiceVersion E s st)"
    unfolding writeServiceVersion_def
    by (rule bind_inv [where P = P]; rule set_file_inv) (auto simp: off_catalog_manifest assms)
  show "ok_res P (deleteServiceSource E s st)"
    unfolding deleteServiceSource_def Let_def
  proof (rule ok_res_any, rule ok_res_if, simp, rule ok_res_if, simp, rule foldE_inv [where P = P], rule assms, goal_cases)
    case (1 expected path st)
    then show ?case using service_paths_off [of E s expected] by (intro remove_file_inv) auto
  qed
qed

lemmas file_inv = deleteLeaf_inv approveManifest_inv write_inv service_files_inv

lemma finalize_parts_inv:
  assumes "P st"
  shows "ok_res P (finalize_component E p t c st)" "ok_res P (finalize_service_database E p t s st)"
  unfolding finalize_component_def finalize_service_database_def
  using assms by (auto split: option.split intro!: ok_res_any deleteLeaf_inv)

lemma activate_component_inv: "P (snd x) \<Longrightarrow> ok_res (\<lambda>x. P (snd x)) (activate_component E p s c x)"
  unfolding activate_component_def Let_def case_prod_beta
  by (rule ok_res_any, rule bind_inv [where P = P]) (auto intro: file_inv)

lemma retire_component_inv: "P (snd x) \<Longrightarrow> ok_res (\<lambda>x. P (snd x)) (retire_component E p c x)"
  unfolding retire_component_def Let_def case_prod_beta
  by (auto split: option.split intro!: bind_inv [where P = P] file_inv)

lemma retire_database_inv: "P (snd x) \<Longrightarrow> ok_res (\<lambda>x. P (snd x)) (retire_service_database E p s x)"
  unfolding retire_service_database_def Let_def case_prod_beta
  by (auto split: option.split intro!: bind_inv [where P = P] file_inv)

lemma scaffold_tenant_inv: "P st \<Longrightarrow> ok_res (\<lambda>x. P (snd x)) (scaffold_tenant E p st)"
  unfolding scaffold_tenant_def Let_def
  by (cases "tenant_of E (p_team p) st")
    (simp_all, (auto intro!: ok_res_any [where r = "tenant_of _ _ _"] bind_inv [where P = P] write_inv))

lemma scaffold_database_inv: "P st \<Longrightarrow> ok_res (\<lambda>x. P (snd x)) (scaffold_database E p t st)"
  unfolding scaffold_database_def by (auto intro!: bind_inv [where P = P] write_inv)

lemma team_inv:
  assumes "P st"
  shows "ok_res P (createTeam E p st)" "ok_res P (updateTeam E p st)"
    "ok_res P (approveTeamDeletion E p st)" "ok_res P (finalizeTeam E p st)"
proof -
  show "ok_res P (createTeam E p st)" using assms by (auto simp: createTeam_def intro!: file_inv)
  show "ok_res P (updateTeam E p st)"
    using assms unfolding updateTeam_def by (auto intro!: ok_res_any file_inv)
  show "ok_res P (approveTeamDeletion E p st)"
    using assms unfolding approveTeamDeletion_def Let_def
    by (intro ok_res_any [where r = "activeTenant E (p_name p) st"] bind_inv [where P = P] foldE_keep)
      (auto intro: file_inv)
  show "ok_res P (finalizeTeam E p st)"
    using assms unfolding finalizeTeam_def
    by (intro ok_res_any [where r = "tenant_of E (p_name p) st"] ok_res_any [where r = "check_ok _"]
        bind_inv [where P = P] foldE_keep)
      (auto intro: file_inv)
qed

lemma application_inv:
  assumes "P st"
  shows "ok_res P (createApplication E p st)" "ok_res P (updateApplication E p st)"
    "ok_res P (approveApplicationDeletion E p st)" "ok_res P (finalizeApplication E p st)"
  using assms
  unfolding createApplication_def updateApplication_def approveApplicationDeletion_def finalizeApplication_def Let_def
  by (auto intro!: ok_res_any [where r = "activeTenant E (p_team p) st"] ok_res_any [where r = "applicationEntry _ _ _"]
       ok_res_any [where r = "check_ok _"] bind_inv [where P = P] file_inv)

lemma database_inv:
  assumes "P st"
  shows "ok_res P (createDatabase E p st)" "ok_res P (updateDatabase E p st)"
    "ok_res P (approveDatabaseDeletion E p st)" "ok_res P (finalizeDatabase E p st)"
  using assms
  unfolding createDatabase_def updateDatabase_def approveDatabaseDeletion_def finalizeDatabase_def Let_def
  by (auto intro!: ok_res_any [where r = "activeTenant E (p_team p) st"] ok_res_any [where r = "databaseEntry _ _ _"]
       ok_res_any [where r = "check_ok _"] bind_inv [where P = P] file_inv split: option.split)

lemma service_inv:
  assumes "P st"
  shows "ok_res P (scaffoldService E p st)" "ok_res P (activateService E p st)"
    "ok_res P (retireService E p st)" "ok_res P (finalizeService E p st)"
proof -
  show "ok_res P (scaffoldService E p st)"
    using assms unfolding scaffoldService_def
    by (auto intro!: bind_pair [OF scaffold_tenant_inv] bind_pair [OF scaffold_database_inv] file_inv)
  show "ok_res P (activateService E p st)"
    using assms unfolding activateService_def Let_def
    by (auto intro!: ok_res_any [where r = "activeTenant E (p_team p) st"] ok_res_any [where r = "serviceEntry _ _ _"]
        bind_pair [OF foldE_keep [OF _ activate_component_inv]] file_inv)
  show "ok_res P (retireService E p st)"
    using assms unfolding retireService_def Let_def
    by (auto intro!: ok_res_any [where r = "activeTenant E (p_team p) st"] ok_res_any [where r = "serviceEntry _ _ _"]
        bind_pair [OF foldE_keep [OF _ retire_component_inv]] bind_pair [OF retire_database_inv]
        bind_inv [where P = P])
      (auto intro: file_inv)
  show "ok_res P (finalizeService E p st)"
    using assms unfolding finalizeService_def
    by (auto intro!: ok_res_any [where r = "tenant_of E (p_team p) st"] ok_res_any [where r = "serviceEntry _ _ _"]
        ok_res_any [where r = "check_ok _"] bind_inv [where P = P] foldE_keep finalize_parts_inv file_inv)
qed

lemma render_inv: "P st \<Longrightarrow> ok_res P (render E st)"
  by (simp add: render_def Let_def team_inv application_inv database_inv service_inv)

end

definition catalog_unstaged :: "rstate \<Rightarrow> bool" where
  "catalog_unstaged st \<longleftrightarrow> CatalogRelativePath \<notin> fst ` set (rs_changes st)"

lemma staged_changes: "ok_res (staged E st) r \<Longrightarrow> changes_ok E st \<Longrightarrow> ok_res (changes_ok E) r"
  by (cases r) (auto simp: staged_def)

interpretation correct_changes: change_invariant E "changes_ok E" for E
  by unfold_locales (simp_all add: staged_changes [OF set_file_staged] staged_changes [OF remove_file_staged])

lemma stage_unstaged: "catalog_unstaged st \<Longrightarrow> fc_path c \<noteq> CatalogRelativePath \<Longrightarrow> catalog_unstaged (stage c st)"
  using set_update_entries [of "fc_path c" c "rs_changes st"] by (fastforce simp: catalog_unstaged_def stage_def)

interpretation unstaged_catalog: change_invariant E catalog_unstaged for E
proof unfold_locales
  fix st p content
  assume "catalog_unstaged st" "p \<noteq> CatalogRelativePath"
  then show "ok_res catalog_unstaged (set_file E p content st)" "ok_res catalog_unstaged (remove_file E p st)"
    by (auto simp: set_file_def remove_file_def intro!: stage_unstaged split: option.split read_result.split)
qed (simp_all add: catalog_unstaged_def put_tenant_def set_tenants_def)

subsection \<open>The change set of a request\<close>

lemma RenderChange_Inr:
  assumes "RenderChange R repo r = Inr cs"
  shows "\<exists>c st st'. ChangeRequest_Validate (rl_lib R) r = None
    \<and> LoadCatalog (catalog_unmarshal R) (rl_lib R) repo = Inr c
    \<and> render \<lparr>re_lib = R, re_repo = repo, re_request = r\<rparr> \<lparr>rs_catalog = c, rs_changes = []\<rparr> = Inr st
    \<and> set_file \<lparr>re_lib = R, re_repo = repo, re_request = r\<rparr> CatalogRelativePath
        (catalog_marshal R (rs_catalog st)) st = Inr st'
    \<and> rs_changes st' \<noteq> []
    \<and> cs_files cs = map (\<lambda>p. the (map_of (rs_changes st') p)) (sort (map fst (rs_changes st')))
    \<and> cs_requestID cs = cr_requestID r \<and> cs_operation cs = cr_operation r
    \<and> cs_proposalDigest cs = Digest (rl_codec R) r
    \<and> cs_renderDigest cs = ''sha256:'' @ sha256_hex (hashed (cs_files cs))"
  using assms unfolding RenderChange_def Let_def on_ok_Inr check_ok_Inr by (auto split: if_splits)

lemma staged_lookup:
  assumes "changes_ok E st"
  shows "p \<in> fst ` set (rs_changes st) \<Longrightarrow>
      \<exists>c. map_of (rs_changes st) p = Some c \<and> fc_path c = p \<and> change_ok E c"
    "f \<in> set (map (\<lambda>p. the (map_of (rs_changes st) p)) (sort (map fst (rs_changes st)))) \<Longrightarrow>
      map_of (rs_changes st) (fc_path f) = Some f"
proof -
  show look: "\<exists>c. map_of (rs_changes st) p = Some c \<and> fc_path c = p \<and> change_ok E c"
    if p: "p \<in> fst ` set (rs_changes st)" for p
  proof -
    obtain c where c: "(p, c) \<in> set (rs_changes st)" using p by force
    then have "map_of (rs_changes st) p = Some c" using assms by (simp add: changes_ok_def)
    with c assms show ?thesis by (auto simp: changes_ok_def)
  qed
  show "f \<in> set (map (\<lambda>p. the (map_of (rs_changes st) p)) (sort (map fst (rs_changes st)))) \<Longrightarrow>
      map_of (rs_changes st) (fc_path f) = Some f"
    using look by fastforce
qed

lemma final_changes:
  assumes "render E \<lparr>rs_catalog = c, rs_changes = []\<rparr> = Inr st"
    "set_file E CatalogRelativePath content st = Inr st'"
  shows "changes_ok E st'" "catalog_unstaged st"
proof -
  have "changes_ok E \<lparr>rs_catalog = c, rs_changes = []\<rparr>" "catalog_unstaged \<lparr>rs_catalog = c, rs_changes = []\<rparr>"
    by (simp_all add: changes_ok_def catalog_unstaged_def)
  then have "changes_ok E st" and "catalog_unstaged st"
    using correct_changes.render_inv unstaged_catalog.render_inv assms(1) by (metis ok_resD)+
  then show "changes_ok E st'" "catalog_unstaged st"
    using staged_changes [OF set_file_staged] assms(2) by (metis ok_resD)+
qed

lemma rendered_changes:
  assumes "RenderChange R repo r = Inr cs"
  shows "\<forall>c \<in> set (cs_files cs). change_ok \<lparr>re_lib = R, re_repo = repo, re_request = r\<rparr> c"
    "sorted (map fc_path (cs_files cs))" "distinct (map fc_path (cs_files cs))" "cs_files cs \<noteq> []"
proof -
  let ?E = "\<lparr>re_lib = R, re_repo = repo, re_request = r\<rparr>"
  obtain c st st' where render: "render ?E \<lparr>rs_catalog = c, rs_changes = []\<rparr> = Inr st"
    and final: "set_file ?E CatalogRelativePath (catalog_marshal R (rs_catalog st)) st = Inr st'"
    and ne: "rs_changes st' \<noteq> []"
    and files: "cs_files cs = map (\<lambda>p. the (map_of (rs_changes st') p)) (sort (map fst (rs_changes st')))"
    using RenderChange_Inr [OF assms] by blast
  note ok = final_changes(1) [OF render final]
  note entry = staged_lookup(1) [OF ok]
  then have paths: "map fc_path (cs_files cs) = sort (map fst (rs_changes st'))"
    unfolding files map_map by (intro map_idI) fastforce
  show "sorted (map fc_path (cs_files cs))" "distinct (map fc_path (cs_files cs))"
    unfolding paths using ok by (simp_all add: changes_ok_def)
  show "\<forall>c \<in> set (cs_files cs). change_ok ?E c" unfolding files using entry by fastforce
  show "cs_files cs \<noteq> []"
  proof -
    have "length (cs_files cs) = length (rs_changes st')" by (simp add: files)
    then show ?thesis using ne by force
  qed
qed

lemma set_file_Inr:
  "set_file E p content st = Inr st' \<Longrightarrow>
   (st' = st \<and> (repo_read (re_repo E) p = Content content \<or> repo_read (re_repo E) p = Absent))
   \<or> (\<exists>c. st' = stage c st \<and> fc_path c = p \<and> fc_content c = content \<and> fc_action c \<noteq> ActDelete)"
  by (auto simp: set_file_def split: option.splits read_result.splits if_splits)

lemma rendered_then_applied:
  assumes "RenderChange R repo r = Inr cs" "fs_ok repo"
  shows "\<exists>t'. ApplyChangeSet (rl_lib R) cs repo = Inr t'
    \<and> (\<forall>c \<in> set (cs_files cs). read_file t' (fc_path c) = applied_content c)
    \<and> (\<forall>q. q \<notin> fc_path ` set (cs_files cs) \<longrightarrow> read_file t' q = read_file repo q)"
  using ApplyChangeSet_settled [of cs "\<lparr>re_lib = R, re_repo = repo, re_request = r\<rparr>"]
    rendered_changes [OF assms(1)] assms(2) by simp

lemma LoadCatalog_Inr:
  assumes "LoadCatalog u L t = Inr c"
  shows "catalog_ok L c" "\<exists>data. read_file t CatalogRelativePath = Some data \<and> u data = Inr c"
  using assms Catalog_Validate_None [of t L c]
  by (auto simp: LoadCatalog_def split: option.splits sum.splits)

lemma rendered_catalog:
  assumes run: "RenderChange R repo r = Inr cs" and load: "LoadCatalog (catalog_unmarshal R) (rl_lib R) repo = Inr c"
    and safe: "no_collision r c" and ok: "fs_ok repo"
  shows "\<exists>c' t'. catalog_ok (rl_lib R) c' \<and> ApplyChangeSet (rl_lib R) cs repo = Inr t'
    \<and> read_file t' CatalogRelativePath = Some (catalog_marshal R c')"
proof -
  let ?E = "\<lparr>re_lib = R, re_repo = repo, re_request = r\<rparr>"
  obtain c0 st st' where v: "ChangeRequest_Validate (rl_lib R) r = None"
    and load0: "LoadCatalog (catalog_unmarshal R) (rl_lib R) repo = Inr c0"
    and render: "render ?E \<lparr>rs_catalog = c0, rs_changes = []\<rparr> = Inr st"
    and final: "set_file ?E CatalogRelativePath (catalog_marshal R (rs_catalog st)) st = Inr st'"
    and files: "cs_files cs = map (\<lambda>p. the (map_of (rs_changes st') p)) (sort (map fst (rs_changes st')))"
    using RenderChange_Inr [OF run] by blast
  have c0: "c0 = c" using load load0 by simp
  have "keeps ?E \<lparr>rs_catalog = c, rs_changes = []\<rparr> st"
    using render_keeps [of ?E "\<lparr>rs_catalog = c, rs_changes = []\<rparr>"] v safe render c0 by simp
  then have cat: "catalog_ok (rl_lib R) (rs_catalog st)"
    using LoadCatalog_Inr(1) [OF load] by (simp add: keeps_def)
  obtain t' where t': "ApplyChangeSet (rl_lib R) cs repo = Inr t'"
    "\<forall>c \<in> set (cs_files cs). read_file t' (fc_path c) = applied_content c"
    "\<forall>q. q \<notin> fc_path ` set (cs_files cs) \<longrightarrow> read_file t' q = read_file repo q"
    using rendered_then_applied [OF run ok] by blast
  note ok = final_changes [OF render final]
  obtain data where data: "repo_read repo CatalogRelativePath = Content data"
    "read_file repo CatalogRelativePath = Some data"
    using LoadCatalog_Inr(2) [OF load] by (auto simp: repo_read_def)
  have found: "map_of (rs_changes st') (fc_path f) = Some f" if "f \<in> set (cs_files cs)" for f
    using staged_lookup(2) [OF ok(1)] that files by simp
  have "read_file t' CatalogRelativePath = Some (catalog_marshal R (rs_catalog st))"
    using set_file_Inr [OF final]
  proof
    assume same: "st' = st \<and> (repo_read (re_repo ?E) CatalogRelativePath = Content (catalog_marshal R (rs_catalog st))
        \<or> repo_read (re_repo ?E) CatalogRelativePath = Absent)"
    have "CatalogRelativePath \<notin> fc_path ` set (cs_files cs)"
    proof
      assume "CatalogRelativePath \<in> fc_path ` set (cs_files cs)"
      then obtain f where "f \<in> set (cs_files cs)" "fc_path f = CatalogRelativePath" by auto
      then have "map_of (rs_changes st) CatalogRelativePath = Some f" using found same by fastforce
      then have "(CatalogRelativePath, f) \<in> set (rs_changes st)" by (rule map_of_SomeD)
      then show False using ok(2) by (force simp: catalog_unstaged_def)
    qed
    then show ?thesis using t'(3) data same by simp
  next
    assume "\<exists>f. st' = stage f st \<and> fc_path f = CatalogRelativePath
        \<and> fc_content f = catalog_marshal R (rs_catalog st) \<and> fc_action f \<noteq> ActDelete"
    then obtain f where f: "st' = stage f st" "fc_path f = CatalogRelativePath"
      "fc_content f = catalog_marshal R (rs_catalog st)" "fc_action f \<noteq> ActDelete" by blast
    have m: "map_of (rs_changes st') CatalogRelativePath = Some f"
      using f by (simp add: stage_def update_conv')
    then have "CatalogRelativePath \<in> set (sort (map fst (rs_changes st')))"
      by (metis map_of_SomeD fst_conv image_eqI set_map set_sort)
    then have "f \<in> set (cs_files cs)" using m by (force simp: files)
    then show ?thesis using t'(2) f by (force simp: applied_content_def)
  qed
  then show ?thesis using cat t'(1) by blast
qed

end
