(* ===== verification/Render_Claims.thy ===== *)
theory Render_Claims
  imports Render_Apply
begin

section \<open>The guarantees of the catalog, the requests and the renderer\<close>

text \<open>
  The properties of the command line's change pipeline, from validation of a catalog or a request to the files of the
  repository, each with a concrete run where it has hypotheses.
\<close>

subsection \<open>A concrete repository\<close>

definition demo_id :: string where "demo_id = replicate 36 CHR ''a''"
definition demo_sha :: string where "demo_sha = replicate 40 CHR ''b''"

definition demo_codec :: "change_request \<Rightarrow> codec" where
  "demo_codec r = \<lparr>json_of_request = (\<lambda>_. ''{}''), request_of_json = (\<lambda>_. Inr r),
     base64_encode = (\<lambda>s. s), base64_decode = Some\<rparr>"

definition demo_rlib :: "catalog \<Rightarrow> change_request \<Rightarrow> rlib" where
  "demo_rlib c r = \<lparr>rl_lib = demo_lib, rl_codec = demo_codec r, yaml_marshal = (\<lambda>_. ''yaml''),
     yaml_unmarshal = (\<lambda>_. Inr (Some [])), catalog_marshal = (\<lambda>_. ''catalog''),
     catalog_unmarshal = (\<lambda>_. Inr c), descriptor_marshal = (\<lambda>_. ''descriptor''), go_format = Inr,
     react_text = (\<lambda>_ _ p. p), dockerfile_text = (\<lambda>_ _. ''FROM'')\<rparr>"

definition demo_app :: "string \<Rightarrow> string \<Rightarrow> lifecycle \<Rightarrow> catalog_application" where
  "demo_app n db lc = \<lparr>ca_name = n, ca_path = applicationPath n, ca_databaseRef = db, ca_lifecycle = lc,
     ca_deletionRequest = (if lc = Retiring then demo_id else [])\<rparr>"

definition demo_db :: "string \<Rightarrow> lifecycle \<Rightarrow> catalog_database" where
  "demo_db n lc = \<lparr>cd_name = n, cd_path = databasePath n, cd_lifecycle = lc,
     cd_deletionRequest = (if lc = Retiring then demo_id else [])\<rparr>"


definition demo_tenant ::
    "string \<Rightarrow> lifecycle \<Rightarrow> catalog_application list \<Rightarrow> catalog_database list \<Rightarrow> catalog_service list \<Rightarrow> tenant" where
  "demo_tenant n lc as ds ss = \<lparr>ten_name = n, ten_teamPath = teamPath n, ten_owners = [''alice''],
     ten_lifecycle = lc, ten_deletionRequest = (if lc = Retiring then demo_id else []),
     ten_applications = as, ten_databases = ds, ten_services = ss\<rparr>"

definition demo_catalog :: "tenant list \<Rightarrow> catalog" where
  "demo_catalog ts = \<lparr>cat_apiVersion = CatalogAPIVersion, cat_kind = CatalogKind, cat_tenants = ts\<rparr>"

definition demo_repo :: "catalog \<Rightarrow> fs" where
  "demo_repo c = \<lparr>fs_files = (CatalogRelativePath, ''old'') #
       concat (map (\<lambda>t. (teamManifestPath (ten_name t), ''old'')
         # (teamPath (ten_name t) @ ''/kustomization.yaml'', ''old'')
         # concat (map (\<lambda>a. [(applicationManifestPath (ca_name a), ''old''),
             (applicationPath (ca_name a) @ ''/kustomization.yaml'', ''old'')]) (ten_applications t))
         @ concat (map (\<lambda>d. [(databaseManifestPath (cd_name d), ''old''),
             (databasePath (cd_name d) @ ''/kustomization.yaml'', ''old'')]) (ten_databases t))
         @ concat (map (\<lambda>s. map (\<lambda>f. (sv_path s @ ''/'' @ f, ''old''))
             [''VERSION'', ''service.yaml'', ''README.md'', ''api/main.go'', ''api/main_test.go'', ''api/Dockerfile''])
             (ten_services t))) (cat_tenants c))
       @ [(''apps/demo-app/main.go'', ''package main''), (''apps/demo-app/main_test.go'', ''package main'')],
     fs_dirs = catalog_paths c\<rparr>"

definition demo_request :: "string \<Rightarrow> change_parameters \<Rightarrow> change_request" where
  "demo_request op p = NewChangeRequest demo_id op demo_sha p"

definition demo_retire_app :: change_request where
  "demo_retire_app = demo_request ''app.delete'' (no_parameters\<lparr>p_team := ''alpha'', p_name := ''web''\<rparr>)"

definition demo_one :: catalog where
  "demo_one = demo_catalog [demo_tenant ''alpha'' Active [demo_app ''web'' ''main'' Active] [demo_db ''main'' Active] []]"

text \<open>A run succeeds when its stages do; the digests need not be computed to see that.\<close>

definition rendered_state :: "rlib \<Rightarrow> fs \<Rightarrow> change_request \<Rightarrow> cli_error + rstate" where
  "rendered_state R repo r = (let E = \<lparr>re_lib = R, re_repo = repo, re_request = r\<rparr> in
     on_ok (check_ok (ChangeRequest_Validate (rl_lib R) r)) (\<lambda>_.
     on_ok (LoadCatalog (catalog_unmarshal R) (rl_lib R) repo) (\<lambda>c.
     on_ok (render E \<lparr>rs_catalog = c, rs_changes = []\<rparr>) (\<lambda>st.
       set_file E CatalogRelativePath (catalog_marshal R (rs_catalog st)) st))))"

lemma rendered_state_run:
  "(case rendered_state R repo r of Inr st \<Rightarrow> rs_changes st \<noteq> [] | Inl _ \<Rightarrow> False) \<Longrightarrow>
   \<exists>cs. RenderChange R repo r = Inr cs"
  by (auto simp: rendered_state_def RenderChange_def Let_def on_ok_def check_ok_def split: sum.splits)

definition demo_state :: "catalog \<Rightarrow> change_request \<Rightarrow> cli_error + rstate" where
  "demo_state c r = rendered_state (demo_rlib c r) (demo_repo c) r"

lemma demo_run: "\<exists>cs. RenderChange (demo_rlib demo_one demo_retire_app) (demo_repo demo_one) demo_retire_app = Inr cs"
  by (rule rendered_state_run) code_simp

lemma demo_repo_ok: "fs_ok (demo_repo demo_one)"
  by code_simp

lemma demo_loaded:
  "LoadCatalog (catalog_unmarshal (demo_rlib demo_one demo_retire_app))
     (rl_lib (demo_rlib demo_one demo_retire_app)) (demo_repo demo_one) = Inr demo_one"
  by code_simp

subsection \<open>Catalog and requests\<close>

text \<open>
  C26: The catalog validator accepts exactly the well-formed catalogs (unique valid names over all tenants, paths
  derived from the names, consistent lifecycles, owners and Database references) whose paths are all directories of
  the repository.
\<close>

theorem catalog_accepted_iff_well_formed:
  "Catalog_Validate t L c = None \<longleftrightarrow> catalog_ok L c \<and> (\<forall>p \<in> set (catalog_paths c). is_dir t p)"
  by (rule Catalog_Validate_None)

theorem catalog_accepted_iff_well_formed_witness:
  "Catalog_Validate (demo_repo demo_one) demo_lib demo_one = None
   \<and> catalog_ok demo_lib demo_one"
proof -
  have "Catalog_Validate (demo_repo demo_one) demo_lib demo_one = None" by code_simp
  then show ?thesis using catalog_accepted_iff_well_formed [of "demo_repo demo_one" demo_lib demo_one] by blast
qed



subsection \<open>Rendering and applying\<close>

text \<open>
  C24: Whatever the request, a rendered change set is not empty, lists distinct paths in order, stays inside the
  allowlist, creates only files that the repository does not have, and records the present content of every file it
  updates or deletes.
\<close>

theorem rendered_change_set_correct:
  assumes "RenderChange R repo r = Inr cs"
  shows "cs_files cs \<noteq> [] \<and> sorted (map fc_path (cs_files cs)) \<and> distinct (map fc_path (cs_files cs))
    \<and> (\<forall>c \<in> set (cs_files cs). change_ok \<lparr>re_lib = R, re_repo = repo, re_request = r\<rparr> c)
    \<and> cs_proposalDigest cs = Digest (rl_codec R) r"
  using rendered_changes [OF assms] RenderChange_Inr [OF assms] by blast

theorem rendered_change_set_correct_witness:
  "\<exists>cs. RenderChange (demo_rlib demo_one demo_retire_app) (demo_repo demo_one) demo_retire_app = Inr cs
    \<and> cs_files cs \<noteq> [] \<and> sorted (map fc_path (cs_files cs))"
  using demo_run rendered_change_set_correct by blast

text \<open>
  C23: A rendered change set applies without error to the repository it was rendered from; afterwards every file of the
  change set has its new content (or is gone, when deleted) and no other file has changed.
\<close>

theorem rendered_change_set_applies:
  assumes "RenderChange R repo r = Inr cs" "fs_ok repo"
  shows "\<exists>t'. ApplyChangeSet (rl_lib R) cs repo = Inr t'
    \<and> (\<forall>c \<in> set (cs_files cs). read_file t' (fc_path c) = applied_content c)
    \<and> (\<forall>q. q \<notin> fc_path ` set (cs_files cs) \<longrightarrow> read_file t' q = read_file repo q)"
  by (rule rendered_then_applied [OF assms])

theorem rendered_change_set_applies_witness:
  "\<exists>cs t'. RenderChange (demo_rlib demo_one demo_retire_app) (demo_repo demo_one) demo_retire_app = Inr cs
    \<and> ApplyChangeSet demo_lib cs (demo_repo demo_one) = Inr t'"
proof -
  obtain cs where cs: "RenderChange (demo_rlib demo_one demo_retire_app) (demo_repo demo_one) demo_retire_app = Inr cs"
    using demo_run by blast
  have "rl_lib (demo_rlib demo_one demo_retire_app) = demo_lib" by (simp add: demo_rlib_def)
  then show ?thesis using rendered_change_set_applies [OF cs demo_repo_ok] cs by auto
qed

text \<open>
  C22: For every valid request that does not collide with other entries of the catalog, rendering a well-formed catalog and
  applying the result leaves a well-formed catalog in the repository's catalog file.
\<close>

theorem rendered_catalog_well_formed:
  assumes "RenderChange R repo r = Inr cs"
    "LoadCatalog (catalog_unmarshal R) (rl_lib R) repo = Inr c" "no_collision r c" "fs_ok repo"
  shows "\<exists>c' t'. catalog_ok (rl_lib R) c' \<and> ApplyChangeSet (rl_lib R) cs repo = Inr t'
    \<and> read_file t' CatalogRelativePath = Some (catalog_marshal R c')"
  by (rule rendered_catalog [OF assms])

theorem rendered_catalog_well_formed_witness:
  "\<exists>cs c' t'. RenderChange (demo_rlib demo_one demo_retire_app) (demo_repo demo_one) demo_retire_app = Inr cs
    \<and> catalog_ok demo_lib c' \<and> ApplyChangeSet demo_lib cs (demo_repo demo_one) = Inr t'
    \<and> read_file t' CatalogRelativePath = Some ''catalog''"
proof -
  obtain cs where cs: "RenderChange (demo_rlib demo_one demo_retire_app) (demo_repo demo_one) demo_retire_app = Inr cs"
    using demo_run by blast
  have "no_collision demo_retire_app demo_one"
    by (simp add: no_collision_def demo_retire_app_def demo_request_def NewChangeRequest_def)
  then show ?thesis
    using rendered_catalog_well_formed [OF cs demo_loaded _ demo_repo_ok] cs by (auto simp: demo_rlib_def)
qed

text \<open>
  C25: Finalization follows approval: an entry is finalized only if it is retiring under exactly the deletion
  request that the finalization names.
\<close>

theorem finalization_needs_approval:
  assumes "render E st = Inr st'" "p = cr_parameters (re_request E)" "ts = tenants_of st"
  shows "(cr_operation (re_request E) = ''team.finalize'' \<longrightarrow>
       (\<exists>t. find_by ten_name (p_name p) ts = Some t \<and> ten_lifecycle t = Retiring
          \<and> ten_deletionRequest t = p_deletionRequest p))
    \<and> (cr_operation (re_request E) = ''app.finalize'' \<longrightarrow>
       (\<exists>t a. find_by ten_name (p_team p) ts = Some t \<and> find_by ca_name (p_name p) (ten_applications t) = Some a
          \<and> ca_lifecycle a = Retiring \<and> ca_deletionRequest a = p_deletionRequest p))
    \<and> (cr_operation (re_request E) = ''database.finalize'' \<longrightarrow>
       (\<exists>t d. find_by ten_name (p_team p) ts = Some t \<and> find_by cd_name (p_name p) (ten_databases t) = Some d
          \<and> cd_lifecycle d = Retiring \<and> cd_deletionRequest d = p_deletionRequest p))
    \<and> (cr_operation (re_request E) = ''service.finalize'' \<longrightarrow>
       (\<exists>t s. find_by ten_name (p_team p) ts = Some t \<and> find_by sv_name (p_name p) (ten_services t) = Some s
          \<and> sv_lifecycle s = Retiring \<and> sv_deletionRequest s = p_deletionRequest p))"
  using assms
  by (auto simp: render_def Let_def finalizeTeam_def finalizeApplication_def finalizeDatabase_def finalizeService_def
      on_ok_Inr activeTenant_Inr tenant_of_Inr entry_Inr requireRetiring_def)

text \<open>
  C28: An update of a Database never shrinks its storage: when the manifest has a size, the update is rendered only if both
  sizes parse and the new one is not smaller; recovery settings are kept.
\<close>

theorem database_storage_never_shrinks:
  assumes "updateDatabase E p st = Inr st'" "cr_operation (re_request E) = ''database.update''"
    "repo_read (re_repo E) (databaseManifestPath (p_name p)) = Content data"
    "yaml_unmarshal (re_lib E) data = Inr (Some obj)" "jget obj ''spec'' = Some spec"
    "jget spec ''storage'' = Some storage" "jstring storage ''size'' = Some current"
  shows "\<exists>old new. q_parse (L_of E) current = Some old \<and> q_parse (L_of E) (p_storageSize p) = Some new
    \<and> \<not> q_cmp (L_of E) new old < 0"
  using assms
  by (auto simp: updateDatabase_def on_ok_Inr writeDatabase_def database_spec_def updated_database_spec_def Let_def
      split: if_splits option.splits)

definition demo_finalize_db :: change_request where
  "demo_finalize_db = demo_request ''database.finalize'' (no_parameters\<lparr>p_team := ''alpha'', p_name := ''main'',
     p_deletionRequest := demo_id, p_approvalRevision := demo_sha\<rparr>)"

definition demo_two :: catalog where
  \<comment> \<open>a retiring Database that a retiring Application still names\<close>
  "demo_two = demo_catalog [demo_tenant ''alpha'' Active [demo_app ''web'' ''main'' Retiring]
     [demo_db ''main'' Retiring] []]"

definition demo_env :: "catalog \<Rightarrow> change_request \<Rightarrow> renv" where
  "demo_env c r = \<lparr>re_lib = demo_rlib c r, re_repo = demo_repo c, re_request = r\<rparr>"

definition demo_start :: "catalog \<Rightarrow> rstate" where
  "demo_start c = \<lparr>rs_catalog = c, rs_changes = []\<rparr>"

lemma demo_finalize_run:
  "\<exists>st'. render (demo_env demo_two demo_finalize_db) (demo_start demo_two) = Inr st'"
proof -
  have "\<not> is_err (render (demo_env demo_two demo_finalize_db) (demo_start demo_two))" by code_simp
  then show ?thesis by (cases "render (demo_env demo_two demo_finalize_db) (demo_start demo_two)") auto
qed

theorem finalization_needs_approval_witness:
  "\<exists>t d. find_by ten_name ''alpha'' (cat_tenants demo_two) = Some t \<and> find_by cd_name ''main'' (ten_databases t) = Some d
     \<and> cd_lifecycle d = Retiring \<and> cd_deletionRequest d = demo_id"
proof -
  obtain st' where st': "render (demo_env demo_two demo_finalize_db) (demo_start demo_two) = Inr st'"
    using demo_finalize_run by blast
  show ?thesis
    using finalization_needs_approval [OF st' refl refl]
    by (simp add: demo_env_def demo_start_def demo_finalize_db_def demo_request_def NewChangeRequest_def tenants_of_def)
qed

definition demo_grow :: change_request where
  "demo_grow = demo_request ''database.update'' (no_parameters\<lparr>p_team := ''alpha'', p_name := ''main'',
     p_instances := 1, p_storageSize := ''2Gi'', p_backupSchedule := ''0 0 2 * * *'', p_backupRetention := ''7d''\<rparr>)"

definition demo_manifest :: "(string \<times> json) list" where
  "demo_manifest = [(''spec'', JObj [(''storage'', JObj [(''size'', JStr ''1Gi'')])])]"

definition demo_grow_env :: renv where
  "demo_grow_env = (demo_env demo_one demo_grow)\<lparr>re_lib := (demo_rlib demo_one demo_grow)
     \<lparr>yaml_unmarshal := (\<lambda>_. Inr (Some demo_manifest))\<rparr>\<rparr>"

theorem database_storage_never_shrinks_witness:
  "\<exists>old new. q_parse demo_lib ''1Gi'' = Some old \<and> q_parse demo_lib ''2Gi'' = Some new \<and> \<not> q_cmp demo_lib new old < 0"
proof -
  let ?p = "cr_parameters demo_grow"
  have "\<not> is_err (updateDatabase demo_grow_env ?p (demo_start demo_one))" by code_simp
  then obtain st' where run: "updateDatabase demo_grow_env ?p (demo_start demo_one) = Inr st'"
    by (cases "updateDatabase demo_grow_env ?p (demo_start demo_one)") auto
  have n: "p_name ?p = ''main''" "p_storageSize ?p = ''2Gi''" and op: "cr_operation (re_request demo_grow_env) = ''database.update''"
    and L: "L_of demo_grow_env = demo_lib" and y: "yaml_unmarshal (re_lib demo_grow_env) ''old'' = Inr (Some demo_manifest)"
    by (simp_all add: demo_grow_def demo_request_def NewChangeRequest_def demo_grow_env_def demo_env_def demo_rlib_def)
  have r: "repo_read (re_repo demo_grow_env) (databaseManifestPath (p_name ?p)) = Content ''old''" by code_simp
  have s: "jget demo_manifest ''spec'' = Some [(''storage'', JObj [(''size'', JStr ''1Gi'')])]"
    "jget [(''storage'', JObj [(''size'', JStr ''1Gi'')])] ''storage'' = Some [(''size'', JStr ''1Gi'')]"
    "jstring [(''size'', JStr ''1Gi'')] ''size'' = Some ''1Gi''"
    by (simp_all add: jget_def jstring_def demo_manifest_def)
  show ?thesis using database_storage_never_shrinks [OF run op r y s] by (simp add: L n)
qed

subsection \<open>Requests that the renderer accepts and should not\<close>

text \<open>
  C29: Finalizing a Database does not look at what still names it: if an Application (retiring, say) or a service of the
  tenant refers to the Database, the operation, when it succeeds, turns a well-formed catalog into one that the
  catalog validator rejects.
\<close>

theorem database_finalization_leaves_reference:
  assumes "finalizeDatabase E p st = Inr st'" "catalog_ok (L_of E) (rs_catalog st)"
    "find_by ten_name (p_team p) (tenants_of st) = Some t" "refers (p_name p) t" "p_name p \<noteq> []"
  shows "\<not> catalog_ok (L_of E) (rs_catalog st')"
proof -
  obtain t1 st1 and d :: catalog_database where t1: "find_by ten_name (p_team p) (tenants_of st) = Some t1"
    and del: "deleteLeaf E (cd_path d) ''database.yaml'' st = Inr st1"
    and "Inr (put_tenant (t1\<lparr>ten_databases := filter (\<lambda>item. cd_name item \<noteq> p_name p) (ten_databases t1)\<rparr>) st1)
        = (Inr st' :: rresult)"
    using assms(1) unfolding finalizeDatabase_def on_ok_Inr activeTenant_Inr filter_array_pure by blast
  then have "st' = put_tenant (t\<lparr>ten_databases := filter (\<lambda>item. cd_name item \<noteq> p_name p) (ten_databases t)\<rparr>) st1"
    using assms(3) by simp
  moreover have "staged E st st1" by (rule ok_resD [OF deleteLeaf_staged del])
  ultimately have ts: "tenants_of st' = update_first ten_name (ten_name t) (\<lambda>_. t\<lparr>ten_databases :=
      filter (\<lambda>item. cd_name item \<noteq> p_name p) (ten_databases t)\<rparr>) (tenants_of st)"
    by (simp add: staged_tenants)
  let ?t = "t\<lparr>ten_databases := filter (\<lambda>item. cd_name item \<noteq> p_name p) (ten_databases t)\<rparr>"
  have "x \<in> set (update_first f n (\<lambda>_. x) xs)" if "find_by f n xs = Some y" for f :: "tenant \<Rightarrow> string" and n x xs y
    using that by (induction xs) (auto split: if_splits)
  then have m: "?t \<in> set (tenants_of st')"
    unfolding ts using find_tenant(3) [OF assms(3)] by (simp add: tenants_of_def)
  have "\<not> tenant_ok (L_of E) ?t"
  proof
    assume ok: "tenant_ok (L_of E) ?t"
    have gone: "p_name p \<notin> cd_name ` set (ten_databases ?t)" by auto
    from assms(4) consider a where "a \<in> set (ten_applications ?t)" "ca_databaseRef a = p_name p"
      | s where "s \<in> set (ten_services ?t)" "sv_databaseRef s = p_name p"
      by (auto simp: refers_def list_ex_iff)
    then show False
    proof cases
      case 1
      then show False
        using tenant_entries_okD(1) [OF ok 1(1)] gone assms(5) unfolding application_entry_ok_def by metis
    next
      case 2
      then show False
        using tenant_entries_okD(3) [OF ok 2(1)] gone assms(5) unfolding service_entry_ok_def by metis
    qed
  qed
  then show ?thesis using m by (auto simp: catalog_ok_def tenants_of_def)
qed

theorem database_finalization_leaves_reference_witness:
  "\<exists>st'. finalizeDatabase (demo_env demo_two demo_finalize_db) (cr_parameters demo_finalize_db) (demo_start demo_two) = Inr st'
    \<and> \<not> catalog_ok demo_lib (rs_catalog st')"
proof -
  let ?E = "demo_env demo_two demo_finalize_db" and ?p = "cr_parameters demo_finalize_db"
  let ?t = "demo_tenant ''alpha'' Active [demo_app ''web'' ''main'' Retiring] [demo_db ''main'' Retiring] []"
  have "\<not> is_err (finalizeDatabase ?E ?p (demo_start demo_two))" by code_simp
  then obtain st' where run: "finalizeDatabase ?E ?p (demo_start demo_two) = Inr st'"
    by (cases "finalizeDatabase ?E ?p (demo_start demo_two)") auto
  have L: "L_of ?E = demo_lib" and c: "rs_catalog (demo_start demo_two) = demo_two" and n: "p_name ?p = ''main''"
    by (simp_all add: demo_env_def demo_rlib_def demo_start_def demo_finalize_db_def demo_request_def NewChangeRequest_def)
  have "Catalog_Validate (demo_repo demo_two) demo_lib demo_two = None" by code_simp
  then have ok: "catalog_ok (L_of ?E) (rs_catalog (demo_start demo_two))" by (simp add: Catalog_Validate_None L c)
  have t: "find_by ten_name (p_team ?p) (tenants_of (demo_start demo_two)) = Some ?t" by code_simp
  have r: "refers (p_name ?p) ?t" by code_simp
  show ?thesis using database_finalization_leaves_reference [OF run ok t r] run by (simp add: L n)
qed




end
