(* ===== verification/Session_Specs.thy ===== *)
theory Session_Specs
  imports Sessions
begin

section \<open>What a program does against one service\<close>

text \<open>
  \<open>does api C R m\<close>: in every run of \<open>m\<close> against \<open>api\<close>, each new call with its answer satisfies \<open>C\<close>, and the result and the
  list of new calls satisfy \<open>R\<close>. It is proved along the text of a program, like \<open>makes\<close>. \<open>keeps\<close> is the same with
  a guard in place of \<open>C\<close>: a condition on each call and the calls and answers before it.
\<close>

subsection \<open>Programs and their calls\<close>

definition does ::
    "(('c \<times> 'r) list \<Rightarrow> 'c \<Rightarrow> 'r) \<Rightarrow> ('c \<Rightarrow> 'r \<Rightarrow> bool) \<Rightarrow> ('a \<Rightarrow> ('c \<times> 'r) list \<Rightarrow> bool) \<Rightarrow> ('c, 'r, 'a) prog_of \<Rightarrow> bool"
  where
  "does api C R m \<longleftrightarrow> (\<forall>s. ses_api s = api \<longrightarrow>
     (\<exists>evs. appends s (snd (run_state m s)) evs \<and> (\<forall>(c, r) \<in> set evs. C c r) \<and> R (fst (run_state m s)) evs))"

abbreviation calls ::
    "(('c \<times> 'r) list \<Rightarrow> 'c \<Rightarrow> 'r) \<Rightarrow> ('c \<Rightarrow> 'r \<Rightarrow> bool) \<Rightarrow> ('c, 'r, 'a) prog_of \<Rightarrow> bool" where
  "calls api C m \<equiv> does api C (\<lambda>_ _. True) m"

lemma does_ret: "R a [] \<Longrightarrow> does api C R (ret a)"
  unfolding does_def by (intro allI impI exI [of _ "[]"]) simp

lemma does_bind:
  assumes "does api C R m" "\<And>a e1. R a e1 \<Longrightarrow> does api C (\<lambda>b e2. T b (e1 @ e2)) (f a)"
  shows "does api C T (m \<bind> f)"
  unfolding does_def
proof (intro allI impI)
  fix s :: "(_, _) session_of"
  assume s: "ses_api s = api"
  obtain a s' where m: "run_state m s = (a, s')" by fastforce
  obtain e1 where e1: "appends s s' e1" "\<forall>(c, r) \<in> set e1. C c r" "R a e1"
    using assms(1) s m unfolding does_def by (metis fst_conv snd_conv)
  have "ses_api s' = api" using e1(1) s by (simp add: appends_def)
  then obtain e2 where e2: "appends s' (snd (run_state (f a) s')) e2" "\<forall>(c, r) \<in> set e2. C c r"
    "T (fst (run_state (f a) s')) (e1 @ e2)"
    using assms(2) [OF e1(3)] unfolding does_def by blast
  show "\<exists>evs. appends s (snd (run_state (m \<bind> f) s)) evs \<and> (\<forall>(c, r) \<in> set evs. C c r)
      \<and> T (fst (run_state (m \<bind> f) s)) evs"
    using appends_trans [OF e1(1) e2(1)] e1(2) e2(2,3) m
    by (intro exI [of _ "e1 @ e2"]) auto
qed

lemma does_weaken:
  assumes "does api C R m" "\<And>c r. C c r \<Longrightarrow> D c r"
    and "\<And>a evs. (\<And>c r. (c, r) \<in> set evs \<Longrightarrow> C c r) \<Longrightarrow> R a evs \<Longrightarrow> S a evs"
  shows "does api D S m"
  unfolding does_def
proof (intro allI impI)
  fix s :: "(_, _) session_of"
  assume "ses_api s = api"
  then obtain e where "appends s (snd (run_state m s)) e" "\<forall>(c, r) \<in> set e. C c r" "R (fst (run_state m s)) e"
    using assms(1) unfolding does_def by blast
  with assms(2,3) show "\<exists>evs. appends s (snd (run_state m s)) evs \<and> (\<forall>(c, r) \<in> set evs. D c r)
      \<and> S (fst (run_state m s)) evs"
    by (intro exI [of _ e] conjI) (auto intro: assms(3))
qed

lemma does_calls: "does api C R m \<Longrightarrow> calls api C m"
  by (erule does_weaken) auto

lemma calls_makes: "makes C m \<Longrightarrow> calls api C m"
  unfolding does_def makes_def by blast

lemma does_invoke:
  "(\<And>tr. C c (api tr c) \<and> R (api tr c) [(c, api tr c)]) \<Longrightarrow> does api C R (invoke c)"
  unfolding does_def
  by (intro allI impI exI [of _ "[(c, _)]"]) (auto simp: invoke_def appends_def log_call_def answer_def)

subsection \<open>Programs that order their calls\<close>

text \<open>
  \<open>keeps api G tr R m\<close>: when \<open>m\<close> runs after the calls \<open>tr\<close>, each of its calls satisfies \<open>G\<close> of all the calls and
  answers before it, and the result and the calls up to the end satisfy \<open>R\<close>.
\<close>

definition keeps ::
    "(('c \<times> 'r) list \<Rightarrow> 'c \<Rightarrow> 'r) \<Rightarrow> (('c \<times> 'r) list \<Rightarrow> 'c \<Rightarrow> bool) \<Rightarrow> ('c \<times> 'r) list \<Rightarrow> ('a \<Rightarrow> ('c \<times> 'r) list \<Rightarrow> bool)
     \<Rightarrow> ('c, 'r, 'a) prog_of \<Rightarrow> bool"
  where
  "keeps api G tr R m \<longleftrightarrow> (\<forall>s. ses_api s = api \<longrightarrow>
     (\<exists>evs. appends s (snd (run_state m s)) evs \<and> guarded (\<lambda>pre. G (tr @ pre)) evs
        \<and> R (fst (run_state m s)) (tr @ evs)))"

lemma guarded_join:
  "guarded P (e1 @ e2) \<longleftrightarrow> guarded P e1 \<and> guarded (\<lambda>pre. P (e1 @ pre)) e2"
proof (induction e2 rule: rev_induct)
  case (snoc x xs)
  then show ?case by (cases x) (simp flip: append_assoc)
qed simp

lemma guarded_mono: "guarded P tr \<Longrightarrow> (\<And>pre c. P pre c \<Longrightarrow> Q pre c) \<Longrightarrow> guarded Q tr"
  by (auto simp: guarded_def)

lemma guarded_all: "(\<And>pre c r. (c, r) \<in> set evs \<Longrightarrow> P pre c) \<Longrightarrow> guarded P evs"
  unfolding guarded_def by (metis in_set_conv_decomp)

lemma keeps_ret: "R a tr \<Longrightarrow> keeps api G tr R (ret a)"
  unfolding keeps_def by (intro allI impI exI [of _ "[]"]) simp

lemma keeps_bind:
  assumes "keeps api G tr R m" "\<And>a e. R a (tr @ e) \<Longrightarrow> keeps api G (tr @ e) T (f a)"
  shows "keeps api G tr T (m \<bind> f)"
  unfolding keeps_def
proof (intro allI impI)
  fix s :: "(_, _) session_of"
  assume s: "ses_api s = api"
  obtain a s' where m: "run_state m s = (a, s')" by fastforce
  obtain e1 where e1: "appends s s' e1" "guarded (\<lambda>pre. G (tr @ pre)) e1" "R a (tr @ e1)"
    using assms(1) s m unfolding keeps_def by (metis fst_conv snd_conv)
  have "ses_api s' = api" using e1(1) s by (simp add: appends_def)
  then obtain e2 where e2: "appends s' (snd (run_state (f a) s')) e2"
    "guarded (\<lambda>pre. G ((tr @ e1) @ pre)) e2" "T (fst (run_state (f a) s')) ((tr @ e1) @ e2)"
    using assms(2) [OF e1(3)] unfolding keeps_def by blast
  show "\<exists>evs. appends s (snd (run_state (m \<bind> f) s)) evs \<and> guarded (\<lambda>pre. G (tr @ pre)) evs
      \<and> T (fst (run_state (m \<bind> f) s)) (tr @ evs)"
    using appends_trans [OF e1(1) e2(1)] e1(2) e2(2,3) m
    by (intro exI [of _ "e1 @ e2"]) (auto simp: guarded_join)
qed

lemma keeps_guard:
  assumes "keeps api G tr R m" "\<And>e c. G (tr @ e) c \<Longrightarrow> H (tr @ e) c" "\<And>a e. R a (tr @ e) \<Longrightarrow> S a (tr @ e)"
  shows "keeps api H tr S m"
  unfolding keeps_def
proof (intro allI impI)
  fix s :: "(_, _) session_of"
  assume "ses_api s = api"
  then obtain e where "appends s (snd (run_state m s)) e" "guarded (\<lambda>pre. G (tr @ pre)) e"
    "R (fst (run_state m s)) (tr @ e)"
    using assms(1) unfolding keeps_def by blast
  then show "\<exists>evs. appends s (snd (run_state m s)) evs \<and> guarded (\<lambda>pre. H (tr @ pre)) evs
      \<and> S (fst (run_state m s)) (tr @ evs)"
    using assms(2,3) by (intro exI [of _ e] conjI) (auto elim: guarded_mono)
qed

lemma keeps_does:
  assumes "does api C R m" "\<And>e c r. C c r \<Longrightarrow> G (tr @ e) c" "\<And>a e. R a e \<Longrightarrow> S a (tr @ e)"
  shows "keeps api G tr S m"
  unfolding keeps_def
proof (intro allI impI)
  fix s :: "(_, _) session_of"
  assume "ses_api s = api"
  then obtain e where e: "appends s (snd (run_state m s)) e" "\<forall>(c, r) \<in> set e. C c r" "R (fst (run_state m s)) e"
    using assms(1) unfolding does_def by blast
  moreover have "guarded (\<lambda>pre. G (tr @ pre)) e"
    using e(2) assms(2) by (intro guarded_all) auto
  ultimately show "\<exists>evs. appends s (snd (run_state m s)) evs \<and> guarded (\<lambda>pre. G (tr @ pre)) evs
      \<and> S (fst (run_state m s)) (tr @ evs)"
    using assms(3) by blast
qed

lemma keeps_if:
  "(b \<Longrightarrow> keeps api G tr R m) \<Longrightarrow> (\<not> b \<Longrightarrow> keeps api G tr R n) \<Longrightarrow> keeps api G tr R (if b then m else n)"
  by simp

lemma keeps_case_sum:
  "(\<And>e. x = Inl e \<Longrightarrow> keeps api G tr R (f e)) \<Longrightarrow> (\<And>a. x = Inr a \<Longrightarrow> keeps api G tr R (g a))
    \<Longrightarrow> keeps api G tr R (case x of Inl e \<Rightarrow> f e | Inr a \<Rightarrow> g a)"
  by (cases x) auto

lemma keeps_case_prod:
  "(\<And>a b. p = (a, b) \<Longrightarrow> keeps api G tr R (f a b)) \<Longrightarrow> keeps api G tr R (case p of (a, b) \<Rightarrow> f a b)"
  by (cases p) auto

lemma keeps_case_option:
  "(x = None \<Longrightarrow> keeps api G tr R f) \<Longrightarrow> (\<And>a. x = Some a \<Longrightarrow> keeps api G tr R (g a))
    \<Longrightarrow> keeps api G tr R (case x of None \<Rightarrow> f | Some a \<Rightarrow> g a)"
  by (cases x) auto

lemma keeps_run: "keeps api G [] R m \<Longrightarrow> guarded G (snd (run api m))"
  unfolding keeps_def run_def
  by (drule spec [where x = "\<lparr>ses_api = api, ses_trace = []\<rparr>"]) (auto simp: appends_def case_prod_beta Let_def)

subsection \<open>One call\<close>

lemma calls_bind [intro!]: "calls api C m \<Longrightarrow> (\<And>a. calls api C (f a)) \<Longrightarrow> calls api C (m \<bind> f)"
  by (rule does_bind) auto

lemma calls_ret [intro!]: "calls api C (ret a)"
  by (rule does_ret) simp

lemma calls_if [intro!]: "(b \<Longrightarrow> calls api C m) \<Longrightarrow> (\<not> b \<Longrightarrow> calls api C n) \<Longrightarrow> calls api C (if b then m else n)"
  by simp

lemma does_answer:
  assumes "\<And>tr. C c (api tr c)" "\<And>tr. R (f (api tr c)) [(c, api tr c)]"
  shows "does api C R (do { r \<leftarrow> invoke c; ret (f r) })"
  by (rule does_bind [OF does_invoke [where R = "\<lambda>r evs. R (f r) evs"]])
    (use assms in \<open>auto intro!: does_ret\<close>)

lemma keeps_answer:
  assumes "\<And>e. G (tr @ e) c" "\<And>h. S (f (api h c)) (tr @ [(c, api h c)])"
  shows "keeps api G tr S (do { r \<leftarrow> invoke c; ret (f r) })"
proof (rule keeps_bind)
  show "keeps api G tr (\<lambda>r t. (\<exists>h. r = api h c) \<and> t = tr @ [(c, r)]) (invoke c)"
    by (rule keeps_does [OF does_invoke [where C = "\<lambda>x r. x = c" and R = "\<lambda>r evs. (\<exists>h. r = api h c) \<and> evs = [(c, r)]"]])
      (use assms(1) in auto)
qed (use assms(2) in \<open>auto intro!: keeps_ret\<close>)

end
