(* ===== verification/Specs.thy ===== *)
theory Specs
  imports Kube Session_Specs
begin

section \<open>What a program does against one API\<close>

text \<open>
  The documented behaviour of the Kubernetes API that the theorems rely on, and the specifications of the client's
  operations in the sense of \<open>does\<close> and \<open>keeps\<close>.
\<close>

subsection \<open>Documented behaviour of the API\<close>

definition faithful_api :: "((call \<times> resp) list \<Rightarrow> call \<Rightarrow> resp) \<Rightarrow> bool" where
  \<comment> \<open>Reads, writes and patches are answered with the object of that name.\<close>
  "faithful_api api \<longleftrightarrow> honest_api api
     \<and> (\<forall>tr w op res. api tr (UpsertWrite w) = RWritten op res \<longrightarrow> okey res = okey w)
     \<and> (\<forall>tr a b res. api tr (Patch a b) = RObj res \<longrightarrow> okey res = okey b)"

lemma faithful_apiD:
  assumes "faithful_api api"
  shows "api tr (Get k key) = RObj obj \<Longrightarrow> okey obj = key"
    and "api tr (UpsertRead o1) = RObj o2 \<Longrightarrow> okey o2 = okey o1"
    and "api tr (UpsertWrite w) = RWritten op res \<Longrightarrow> okey res = okey w"
    and "api tr (Patch a b) = RObj res \<Longrightarrow> okey res = okey b"
  using assms unfolding faithful_api_def honest_api_def by blast+

subsection \<open>Specifications of the client's operations\<close>

lemma calls_retry [intro!]: "calls api C m \<Longrightarrow> calls api C (retry_on_conflict n m)"
  by (induction n) (auto split: sum.split)

lemmas does_client =
  does_answer [where c = "Get k key" and f = "object_of k" for k key, folded client_get_def]
  does_answer [where c = "ListObjects k ns ls" and f = "items_of k" for k ns ls, folded client_list_def]
  does_answer [where c = "Delete k key" and f = error_of for k key, folded client_delete_def]
  does_answer [where c = "Patch b obj" and f = "object_of (okind obj)" for b obj, folded client_patch_def]

lemma calls_client [intro]:
  "(\<And>tr. C (Get k key) (api tr (Get k key))) \<Longrightarrow> calls api C (client_get k key)"
  "(\<And>tr. C (ListObjects k ns ls) (api tr (ListObjects k ns ls))) \<Longrightarrow> calls api C (client_list k ns ls)"
  "(\<And>tr. C (Delete k key) (api tr (Delete k key))) \<Longrightarrow> calls api C (client_delete k key)"
  "(\<And>tr. C (Patch b obj) (api tr (Patch b obj))) \<Longrightarrow> calls api C (client_patch b obj)"
  "(\<And>r. C (Event (okind obj) (okey obj) ty re me) r) \<Longrightarrow> calls api C (send_event obj ty re me)"
  "(\<And>r. C Now r) \<Longrightarrow> calls api C current_time"
  by (auto simp: client_get_def client_list_def client_delete_def client_patch_def send_event_def
      current_time_def intro!: does_invoke)

lemma does_create_or_update:
  assumes "\<And>tr. C (UpsertRead obj) (api tr (UpsertRead obj))"
    and "\<And>tr tr' cur w. api tr (UpsertRead obj) = RObj cur \<Longrightarrow> okind cur = okind obj \<Longrightarrow> mutate cur = Inr w
      \<Longrightarrow> C (UpsertWrite w) (api tr' (UpsertWrite w))"
    and "\<And>tr tr' cur w op res. api tr (UpsertRead obj) = RObj cur \<Longrightarrow> okind cur = okind obj \<Longrightarrow>
      mutate cur = Inr w \<Longrightarrow> api tr' (UpsertWrite w) = RWritten op res \<Longrightarrow> okind res = okind obj \<Longrightarrow>
      R (Inr (op, res)) [(UpsertRead obj, RObj cur), (UpsertWrite w, RWritten op res)]"
    and "\<And>e evs. R (Inl e) evs"
  shows "does api C R (create_or_update obj mutate)"
  unfolding create_or_update_def
proof (rule does_bind)
  show "does api C (\<lambda>r evs. (\<exists>tr. r = api tr (UpsertRead obj)) \<and> evs = [(UpsertRead obj, r)]) (invoke (UpsertRead obj))"
    by (rule does_invoke) (use assms(1) in blast)
next
  fix r e1
  assume r: "(\<exists>tr. r = api tr (UpsertRead obj)) \<and> e1 = [(UpsertRead obj, r)]"
  show "does api C (\<lambda>b e2. R b (e1 @ e2)) (case object_of (okind obj) r of
       Inl e \<Rightarrow> ret (Inl e)
     | Inr current \<Rightarrow>
         (case mutate current of
            Inl e \<Rightarrow> ret (Inl e)
          | Inr wanted \<Rightarrow> do {
              w \<leftarrow> invoke (UpsertWrite wanted);
              ret (written_of (okind obj) w) }))"
  proof (cases "object_of (okind obj) r")
    case (Inr cur)
    then have cur: "r = RObj cur" "okind cur = okind obj" by (simp_all add: object_of_Inr)
    show ?thesis
    proof (cases "mutate cur")
      case m: (Inr w)
      have "does api C (\<lambda>b e2. R b (e1 @ e2)) (do { w \<leftarrow> invoke (UpsertWrite w); ret (written_of (okind obj) w) })"
      proof (rule does_answer)
        show "C (UpsertWrite w) (api tr (UpsertWrite w))" for tr
          using assms(2) r cur m by metis
        show "R (written_of (okind obj) (api tr (UpsertWrite w))) (e1 @ [(UpsertWrite w, api tr (UpsertWrite w))])" for tr
          using assms(3) [OF _ cur(2) m] assms(4) r cur
          by (cases "api tr (UpsertWrite w)") (auto simp: written_of_def)
      qed
      then show ?thesis by (simp add: Inr m)
    qed (use Inr assms(4) in \<open>auto intro!: does_ret\<close>)
  qed (use assms(4) in \<open>auto intro!: does_ret\<close>)
qed

lemma calls_create_or_update [intro]:
  assumes "\<And>tr. C (UpsertRead obj) (api tr (UpsertRead obj))"
    and "\<And>tr tr' cur w. api tr (UpsertRead obj) = RObj cur \<Longrightarrow> okind cur = okind obj \<Longrightarrow> mutate cur = Inr w
      \<Longrightarrow> C (UpsertWrite w) (api tr' (UpsertWrite w))"
  shows "calls api C (create_or_update obj mutate)"
  by (rule does_create_or_update) (use assms in auto)

lemmas keeps_client =
  keeps_answer [where c = "Get k key" and f = "object_of k" for k key, folded client_get_def]
  keeps_answer [where c = "ListObjects k ns ls" and f = "items_of k" for k ns ls, folded client_list_def]
  keeps_answer [where c = "Delete k key" and f = error_of for k key, folded client_delete_def]
  keeps_answer [where c = "Patch b obj" and f = "object_of (okind obj)" for b obj, folded client_patch_def]

end
