(* ===== verification/Go_Time.thy ===== *)
theory Go_Time
  imports Api_Types
begin

section \<open>Durations and float arithmetic of Go\<close>

text \<open>
  What the program uses of Go's \<open>time.Duration\<close>, a 64-bit count of nanoseconds: its text
  (\<open>Duration.String\<close>), its seconds as a float, and the subtraction of instants, which saturates, while the
  arithmetic on durations wraps around. The float operations round with \<open>f_round\<close>, as the processor does.
\<close>

subsection \<open>The text of a duration\<close>

fun show_digits :: "nat \<Rightarrow> nat \<Rightarrow> string" where
  \<comment> \<open>the last \<open>k\<close> decimal digits\<close>
  "show_digits 0 n = []"
| "show_digits (Suc k) n = show_digits k (n div 10) @ [digit_char (n mod 10)]"

lemma show_digits_numeral:
  "show_digits (numeral k) n = show_digits (pred_numeral k) (n div 10) @ [digit_char (n mod 10)]"
  by (simp only: numeral_eq_Suc [of k] show_digits.simps)

definition strip_zeros :: "string \<Rightarrow> string" where
  "strip_zeros s = rev (dropWhile (\<lambda>c. c = CHR ''0'') (rev s))"

definition fmtFrac :: "nat \<Rightarrow> nat \<Rightarrow> string" where
  "fmtFrac u prec =
     (let ds = strip_zeros (show_digits prec u) in if ds = [] then [] else CHR ''.'' # ds)"

definition micro_sign :: string where "micro_sign = [CHR 0xC2, CHR 0xB5]"

definition duration_text :: "nat \<Rightarrow> string" where
  "duration_text u =
     (if u < 10 ^ 9 then
        if u = 0 then ''0s''
        else if u < 10 ^ 3 then show_nat u @ ''ns''
        else if u < 10 ^ 6 then show_nat (u div 10 ^ 3) @ fmtFrac u 3 @ micro_sign @ ''s''
        else show_nat (u div 10 ^ 6) @ fmtFrac u 6 @ ''ms''
      else
        let frac = fmtFrac u 9; s = u div 10 ^ 9; m = s div 60; h = m div 60;
            secs = show_nat (s mod 60) @ frac @ ''s'' in
        if m = 0 then secs
        else if h = 0 then show_nat (m mod 60) @ ''m'' @ secs
        else show_nat h @ ''h'' @ show_nat (m mod 60) @ ''m'' @ secs)"

definition duration_string :: "int \<Rightarrow> string" where
  "duration_string d = (if d < 0 then CHR ''-'' # duration_text (nat (- d)) else duration_text (nat d))"

lemma digit_chars:
  "char_of (48::nat) = CHR ''0''" "char_of (49::nat) = CHR ''1''" "char_of (50::nat) = CHR ''2''"
  "char_of (51::nat) = CHR ''3''" "char_of (53::nat) = CHR ''5''"
  by code_simp+

lemma duration_examples:
  "duration_string 0 = ''0s''"
  "duration_string (30 * 10 ^ 9) = ''30s''"
  "duration_string (90 * 10 ^ 9) = ''1m30s''"
  "duration_string (7200 * 10 ^ 9) = ''2h0m0s''"
  "duration_string 1500000 = ''1.5ms''"
  "duration_string (- 2500000000) = ''-2.5s''"
  by (simp_all add: duration_string_def duration_text_def show_nat.simps fmtFrac_def strip_zeros_def
      digit_char_def Let_def show_digits_numeral digit_chars)

subsection \<open>The text of an instant\<close>

text \<open>
  The layout \<open>2006-01-02 15:04:05.000000+00\<close> in UTC, for an instant in nanoseconds since 1970 of a
  year from 0 to 9999. The date is computed from the day number with the 400-year cycle of the calendar.
\<close>

definition civil_date :: "int \<Rightarrow> int \<times> int \<times> int" where
  \<comment> \<open>year, month and day of a day number counted from 1970-01-01\<close>
  "civil_date days =
     (let z = days + 719468; era = z div 146097; doe = z mod 146097;
          yoe = (doe - doe div 1460 + doe div 36524 - doe div 146096) div 365;
          doy = doe - (365 * yoe + yoe div 4 - yoe div 100);
          mp = (5 * doy + 2) div 153;
          d = doy - (153 * mp + 2) div 5 + 1;
          m = (if mp < 10 then mp + 3 else mp - 9) in
      (yoe + era * 400 + (if m \<le> 2 then 1 else 0), m, d))"

definition pad :: "nat \<Rightarrow> int \<Rightarrow> string" where
  "pad k n = show_digits k (nat n)"

definition format_micro :: "int \<Rightarrow> string" where
  "format_micro t =
     (let s = t div 10 ^ 9; (y, m, d) = civil_date (s div 86400); r = s mod 86400 in
      pad 4 y @ ''-'' @ pad 2 m @ ''-'' @ pad 2 d @ '' '' @ pad 2 (r div 3600) @ '':''
      @ pad 2 (r div 60 mod 60) @ '':'' @ pad 2 (r mod 60) @ ''.'' @ pad 6 (t mod 10 ^ 9 div 1000) @ ''+00'')"

lemma civil_date_examples:
  "civil_date 0 = (1970, 1, 1)" "civil_date 19782 = (2024, 2, 29)" "civil_date 19783 = (2024, 3, 1)"
  "civil_date (- 1) = (1969, 12, 31)" "civil_date 20454 = (2026, 1, 1)"
  by code_simp+

subsection \<open>Instants and durations\<close>

definition wrap64 :: "int \<Rightarrow> int" where
  "wrap64 x = (x + 2 ^ 63) mod 2 ^ 64 - 2 ^ 63"

definition saturate64 :: "int \<Rightarrow> int" where
  "saturate64 x = max (- (2 ^ 63)) (min (2 ^ 63 - 1) x)"

definition zero_time :: int where
  \<comment> \<open>the zero \<open>time.Time\<close>: the start of the year 1\<close>
  "zero_time = - 62135596800 * 10 ^ 9"

definition time_sub :: "int \<Rightarrow> int \<Rightarrow> int" where
  \<comment> \<open>\<open>t.Sub(u)\<close>\<close>
  "time_sub t u = saturate64 (t - u)"

lemma wrap64_id: "- (2 ^ 63) \<le> x \<Longrightarrow> x < 2 ^ 63 \<Longrightarrow> wrap64 x = x"
  by (simp add: wrap64_def)

lemma wrap64_range: "- (2 ^ 63) \<le> wrap64 x \<and> wrap64 x < 2 ^ 63"
  by (simp add: wrap64_def)

lemma saturate64_id: "- (2 ^ 63) \<le> x \<Longrightarrow> x < 2 ^ 63 \<Longrightarrow> saturate64 x = x"
  by (simp add: saturate64_def)

subsection \<open>Floats\<close>

fun f_less_eq_zero :: "float64 \<Rightarrow> bool" where
  "f_less_eq_zero (Fin q) = (q \<le> 0)"
| "f_less_eq_zero NegInf = True"
| "f_less_eq_zero _ = False"

fun f_one_minus :: "lib \<Rightarrow> float64 \<Rightarrow> float64" where
  "f_one_minus L (Fin q) = f_round L (1 - q)"
| "f_one_minus L PosInf = NegInf"
| "f_one_minus L NegInf = PosInf"
| "f_one_minus L NaN = NaN"

fun f_div_by :: "lib \<Rightarrow> float64 \<Rightarrow> rat \<Rightarrow> float64" where
  \<comment> \<open>by a positive constant\<close>
  "f_div_by L (Fin q) r = f_round L (q / r)"
| "f_div_by L x r = x"

fun f_plus :: "lib \<Rightarrow> float64 \<Rightarrow> float64 \<Rightarrow> float64" where
  "f_plus L (Fin p) (Fin q) = f_round L (p + q)"
| "f_plus L (Fin p) y = y"
| "f_plus L NaN y = NaN"
| "f_plus L x (Fin q) = x"
| "f_plus L x y = (if x = y then x else NaN)"

definition duration_seconds :: "lib \<Rightarrow> int \<Rightarrow> float64" where
  \<comment> \<open>\<open>float64(sec) + float64(nsec)/1e9\<close>; \<open>/\<close> and \<open>%\<close> of Go truncate\<close>
  "duration_seconds L d =
     (let sec = sgn d * (\<bar>d\<bar> div 10 ^ 9); nsec = sgn d * (\<bar>d\<bar> mod 10 ^ 9) in
      f_plus L (f_round L (of_int sec)) (f_div_by L (f_round L (of_int nsec)) (10 ^ 9)))"

lemma duration_seconds_exact:
  assumes "\<And>q. f_round L q = Fin q"
  shows "duration_seconds L d = Fin (of_int d / 10 ^ 9)"
proof -
  have "d = sgn d * (\<bar>d\<bar> div 10 ^ 9 * 10 ^ 9 + \<bar>d\<bar> mod 10 ^ 9)"
    unfolding div_mult_mod_eq by (rule sgn_mult_abs [symmetric])
  then have "d = sgn d * (\<bar>d\<bar> div 10 ^ 9) * 10 ^ 9 + sgn d * (\<bar>d\<bar> mod 10 ^ 9)"
    by (metis distrib_left mult.assoc)
  then have "(of_int d :: rat) = of_int (sgn d * (\<bar>d\<bar> div 10 ^ 9)) * 10 ^ 9 + of_int (sgn d * (\<bar>d\<bar> mod 10 ^ 9))"
    by (metis of_int_add of_int_mult of_int_numeral of_int_power)
  then show ?thesis
    by (simp add: duration_seconds_def assms Let_def field_simps)
qed

end
