(* ===== verification/Db_Resources.thy ===== *)
theory Db_Resources
  imports Team_Resources Go_Time
begin

section \<open>The objects generated for a Database\<close>

text \<open>
  The builders of \<open>internal/resources/database.go\<close>: the CloudNativePG Cluster, ScheduledBackup and final Backup, the
  Barman ObjectStore, the backup credential, the NetworkPolicies, the monitoring objects, and the legacy
  monitoring objects of an earlier release. The unstructured ones are \<open>databaseUnstructured\<close>: metadata with the
  Database's identity, and a spec.
\<close>

subsection \<open>Constants\<close>

definition DefaultBackupStoreEndpoint :: string where
  "DefaultBackupStoreEndpoint = ''http://172.30.240.10:8333''"
definition BackupStoreSourceSecretName :: string where
  "BackupStoreSourceSecretName = ''steadystate-backup-store''"
definition BackupStoreSourceNamespace :: string where "BackupStoreSourceNamespace = ''cnpg-system''"
definition BackupStoreBucket :: string where "BackupStoreBucket = ''steadystate-backups''"
definition BarmanPluginName :: string where
  "BarmanPluginName = ''barman-cloud.cloudnative-pg.io''"
definition PostgreSQLImage :: string where
  "PostgreSQLImage = ''ghcr.io/cloudnative-pg/postgresql:18.4-system-trixie@sha256:1e6adb18ff3d5a538ff8fcc422c47652cc3b2cc133d5c87b6fd306660f36ffe9''"
definition KubernetesAPIServiceCIDR :: string where "KubernetesAPIServiceCIDR = ''10.96.0.1/32''"
definition KubernetesAPIEndpointCIDRs :: "string list" where
  "KubernetesAPIEndpointCIDRs = [''10.0.0.0/8'', ''172.16.0.0/12'', ''192.168.0.0/16'']"

definition cnpg_gvk :: "string \<Rightarrow> gvk" where
  "cnpg_gvk k = \<lparr>gvk_group = ''postgresql.cnpg.io'', gvk_version = ''v1'', gvk_kind = k\<rparr>"
definition CNPGClusterGVK :: gvk where "CNPGClusterGVK = cnpg_gvk ''Cluster''"
definition CNPGBackupGVK :: gvk where "CNPGBackupGVK = cnpg_gvk ''Backup''"
definition CNPGScheduledGVK :: gvk where "CNPGScheduledGVK = cnpg_gvk ''ScheduledBackup''"
definition BarmanObjectStoreGVK :: gvk where
  "BarmanObjectStoreGVK = \<lparr>gvk_group = ''barmancloud.cnpg.io'', gvk_version = ''v1'',
     gvk_kind = ''ObjectStore''\<rparr>"
definition DatabaseServiceMonitorGVK :: gvk where
  "DatabaseServiceMonitorGVK = \<lparr>gvk_group = ''monitoring.coreos.com'', gvk_version = ''v1'',
     gvk_kind = ''ServiceMonitor''\<rparr>"
definition DatabasePrometheusRuleGVK :: gvk where
  "DatabasePrometheusRuleGVK = \<lparr>gvk_group = ''monitoring.coreos.com'', gvk_version = ''v1'',
     gvk_kind = ''PrometheusRule''\<rparr>"

lemmas gvk_defs =
  cnpg_gvk_def CNPGClusterGVK_def CNPGBackupGVK_def CNPGScheduledGVK_def BarmanObjectStoreGVK_def
  DatabaseServiceMonitorGVK_def DatabasePrometheusRuleGVK_def

subsection \<open>Unstructured objects\<close>

definition db_object_meta :: "database \<Rightarrow> string \<Rightarrow> objmeta" where
  "db_object_meta d n = (new_meta (onamespace d) n)
     \<lparr>olabels := DatabaseLabels d, oannotations := DatabaseAnnotations d\<rparr>"

definition databaseUnstructured :: "database \<Rightarrow> gvk \<Rightarrow> string \<Rightarrow> (string \<times> json) list \<Rightarrow> kobject" where
  "databaseUnstructured d g name spec =
     with_body (db_object_meta d name) (BUnstructured g (JObj [(''spec'', JObj spec)]))"

definition key_ref :: "string \<Rightarrow> string \<Rightarrow> json" where
  "key_ref n k = JObj [(''name'', JStr n), (''key'', JStr k)]"

definition env_entry :: "string \<Rightarrow> string \<Rightarrow> json" where
  "env_entry n v = JObj [(''name'', JStr n), (''value'', JStr v)]"

definition cpu_memory :: "string \<Rightarrow> string \<Rightarrow> json" where
  "cpu_memory c m = JObj [(''cpu'', JStr c), (''memory'', JStr m)]"

definition DatabaseObjectStore :: "database \<Rightarrow> string \<Rightarrow> kobject" where
  "DatabaseObjectStore d endpoint =
     (let endpoint = (if endpoint = [] then DefaultBackupStoreEndpoint else endpoint) in
      databaseUnstructured d BarmanObjectStoreGVK (DatabaseObjectStoreName d) [
       (''configuration'', JObj [
          (''destinationPath'', JStr (''s3://'' @ BackupStoreBucket @ ''/'')),
          (''endpointURL'', JStr endpoint),
          (''s3Credentials'', JObj [
             (''accessKeyId'', key_ref (DatabaseBackupCredentialName d) ''ACCESS_KEY_ID''),
             (''secretAccessKey'', key_ref (DatabaseBackupCredentialName d) ''ACCESS_SECRET_KEY'')]),
          (''wal'', JObj [(''compression'', JStr ''gzip'')])]),
       (''retentionPolicy'', JStr (bk_retention (db_bk (dspec d)))),
       (''instanceSidecarConfiguration'', JObj [
          (''env'', JArr [env_entry ''AWS_REQUEST_CHECKSUM_CALCULATION'' ''when_required'',
             env_entry ''AWS_RESPONSE_CHECKSUM_VALIDATION'' ''when_required'']),
          (''resources'', JObj [(''requests'', cpu_memory ''25m'' ''64Mi''),
             (''limits'', cpu_memory ''200m'' ''256Mi'')])])])"

definition storage_json :: "database \<Rightarrow> json" where
  "storage_json d = JObj ((''size'', JStr (st_size (db_st (dspec d))))
     # (case st_class (db_st (dspec d)) of None \<Rightarrow> [] | Some c \<Rightarrow> [(''storageClass'', JStr c)]))"

definition plugin_parameters :: "database \<Rightarrow> string \<Rightarrow> json" where
  "plugin_parameters d server = JObj [(''barmanObjectName'', JStr (DatabaseObjectStoreName d)),
     (''serverName'', JStr server)]"

definition cluster_plugins :: "database \<Rightarrow> (string \<times> json) list" where
  "cluster_plugins d =
     (if bk_enabled (db_bk (dspec d)) then
        [(''plugins'', JArr [JObj [(''name'', JStr BarmanPluginName), (''isWALArchiver'', JBool True),
           (''parameters'', plugin_parameters d (DatabaseBackupServerName d))]])]
      else [])"

definition cluster_bootstrap :: "database \<Rightarrow> (string \<times> json) list" where
  "cluster_bootstrap d =
     (case db_rec (dspec d) of
        None \<Rightarrow> [(''bootstrap'', JObj [(''initdb'', JObj [])])]
      | Some recovery \<Rightarrow> [
          (''bootstrap'', JObj [(''recovery'', JObj ((''source'', JStr ''steadystate-recovery'')
             # (case rec_targetTime recovery of
                  None \<Rightarrow> []
                | Some t \<Rightarrow> [(''recoveryTarget'', JObj [(''targetTime'', JStr (format_micro (t_instant t)))])])))]),
          (''externalClusters'', JArr [JObj [(''name'', JStr ''steadystate-recovery''),
             (''plugin'', JObj [(''name'', JStr BarmanPluginName),
                (''parameters'', plugin_parameters d (rec_sourceServerName recovery))])]])])"

definition DatabaseCluster :: "database \<Rightarrow> kobject" where
  "DatabaseCluster d = databaseUnstructured d CNPGClusterGVK (DatabaseClusterName d) (
     [(''instances'', JInt (db_instances (dspec d))),
      (''imageName'', JStr PostgreSQLImage),
      (''storage'', storage_json d),
      (''monitoring'', JObj [(''enablePodMonitor'', JBool True)]),
      (''resources'', JObj [(''requests'', cpu_memory ''100m'' ''256Mi''),
         (''limits'', cpu_memory ''500m'' ''1Gi'')])]
     @ cluster_plugins d @ cluster_bootstrap d)"

definition cluster_ref :: "database \<Rightarrow> json" where
  "cluster_ref d = JObj [(''name'', JStr (DatabaseClusterName d))]"

definition plugin_ref :: json where
  "plugin_ref = JObj [(''name'', JStr BarmanPluginName)]"

definition DatabaseScheduledBackup :: "database \<Rightarrow> kobject" where
  "DatabaseScheduledBackup d = databaseUnstructured d CNPGScheduledGVK (DatabaseScheduledBackupName d) [
     (''schedule'', JStr (bk_schedule (db_bk (dspec d)))),
     (''cluster'', cluster_ref d),
     (''method'', JStr ''plugin''),
     (''pluginConfiguration'', plugin_ref),
     (''backupOwnerReference'', JStr ''self''),
     (''immediate'', JBool True)]"

definition DatabaseFinalBackup :: "database \<Rightarrow> kobject" where
  "DatabaseFinalBackup d = databaseUnstructured d CNPGBackupGVK (DatabaseFinalBackupName d) [
     (''cluster'', cluster_ref d), (''method'', JStr ''plugin''), (''pluginConfiguration'', plugin_ref)]"

definition secret_data :: "kobject \<Rightarrow> strmap" where
  "secret_data s = (case kbody s of BSecret ty data \<Rightarrow> data | _ \<Rightarrow> Map.empty)"

definition backup_keys :: "string list" where
  "backup_keys = [''ACCESS_KEY_ID'', ''ACCESS_SECRET_KEY'']"

definition DatabaseBackupCredential :: "database \<Rightarrow> kobject \<Rightarrow> kobject" where
  "DatabaseBackupCredential d source = with_body (db_object_meta d (DatabaseBackupCredentialName d))
     (BSecret ''Opaque'' (\<lambda>k. if k \<in> set backup_keys then secret_data source k else None))"

definition blank_secret :: kobject where
  "blank_secret = with_body (new_meta [] []) (BSecret [] Map.empty)"

subsection \<open>Network policies\<close>

definition cluster_selector :: "database \<Rightarrow> label_selector" where
  "cluster_selector d = match_labels [''cnpg.io/cluster'' \<mapsto> DatabaseClusterName d]"

definition db_policy :: "database \<Rightarrow> string \<Rightarrow> np_spec \<Rightarrow> kobject" where
  "db_policy d suffix sp = with_body (db_object_meta d (suffixedName (oname d) suffix)) (BNetworkPolicy sp)"

definition db_ingress :: "database \<Rightarrow> np_peer \<Rightarrow> int \<Rightarrow> np_spec" where
  "db_ingress d p port = \<lparr>np_selector = cluster_selector d, np_types = [PolicyIngress],
     np_ingress = [\<lparr>rule_peers = [p], rule_ports = [np_port_of TCP (PortInt port)]\<rparr>], np_egress = []\<rparr>"

definition DatabaseBackupNetworkPolicy :: "database \<Rightarrow> string \<Rightarrow> kobject" where
  "DatabaseBackupNetworkPolicy d endpointCIDR = db_policy d ''-allow-backup''
     \<lparr>np_selector = cluster_selector d, np_types = [PolicyEgress], np_ingress = [],
      np_egress = [
       \<lparr>rule_peers = [cidr_peer endpointCIDR], rule_ports = [np_port_of TCP (PortInt 8333)]\<rparr>,
       \<lparr>rule_peers = [cidr_peer KubernetesAPIServiceCIDR], rule_ports = [np_port_of TCP (PortInt 443)]\<rparr>,
       \<lparr>rule_peers = map cidr_peer KubernetesAPIEndpointCIDRs,
        rule_ports = [np_port_of TCP (PortInt 6443)]\<rparr>,
       \<lparr>rule_peers = [pod_peer (cluster_selector d)],
        rule_ports = [np_port_of TCP (PortInt 5432), np_port_of TCP (PortInt 8000)]\<rparr>]\<rparr>"

definition DatabaseNetworkPolicies :: "database \<Rightarrow> string \<Rightarrow> kobject list" where
  "DatabaseNetworkPolicies d endpointCIDR =
     [db_policy d ''-allow-app''
        (db_ingress d (pod_peer (match_labels [DatabaseLabelKey \<mapsto> oname d])) 5432),
      db_policy d ''-allow-monitoring''
        (db_ingress d (ns_pod_peer (match_labels [metadata_name_label \<mapsto> ''monitoring''])
           (match_labels [''app.kubernetes.io/name'' \<mapsto> ''prometheus''])) 9187),
      db_policy d ''-allow-operator''
        (db_ingress d (ns_pod_peer (match_labels [metadata_name_label \<mapsto> ''cnpg-system''])
           (match_labels [''app.kubernetes.io/name'' \<mapsto> ''cloudnative-pg''])) 8000)]
     @ (if bk_enabled (db_bk (dspec d)) then [DatabaseBackupNetworkPolicy d endpointCIDR] else [])"

subsection \<open>Monitoring\<close>

definition DatabaseServiceMonitor :: "database \<Rightarrow> kobject" where
  "DatabaseServiceMonitor d = databaseUnstructured d DatabaseServiceMonitorGVK (DatabaseServiceMonitorName d) [
     (''selector'', JObj [(''matchLabels'', JObj [(''cnpg.io/cluster'', JStr (DatabaseClusterName d))])]),
     (''endpoints'', JArr [JObj [(''port'', JStr ''metrics''), (''interval'', JStr ''15s'')]])]"

definition backup_selector :: "lib \<Rightarrow> database \<Rightarrow> string" where
  "backup_selector L d = ''{namespace='' @ go_quote L (onamespace d) @ '',database=''
     @ go_quote L (oname d) @ ''}''"

definition db_alert :: "string \<Rightarrow> string \<Rightarrow> string \<Rightarrow> string \<Rightarrow> json" where
  "db_alert alert expr severity summary = JObj [(''alert'', JStr alert), (''expr'', JStr expr),
     (''for'', JStr ''1m''), (''labels'', JObj [(''severity'', JStr severity)]),
     (''annotations'', JObj [(''summary'', JStr summary)])]"

definition DatabasePrometheusRule :: "lib \<Rightarrow> database \<Rightarrow> kobject" where
  "DatabasePrometheusRule L d =
     (let healthy = ''steadystate_database_backup_healthy'' @ backup_selector L d @ '' == 0'' in
      databaseUnstructured d DatabasePrometheusRuleGVK (DatabasePrometheusRuleName d) [
       (''groups'', JArr [JObj [
          (''name'', JStr (''steadystate.database.'' @ oname d)),
          (''rules'', JArr [
             db_alert ''SteadyStateDatabaseBackupStale''
               (healthy @ '' or time() - steadystate_database_last_successful_backup_timestamp_seconds''
                @ backup_selector L d @ '' > 90000'')
               ''warning'' ''Database backup is older than 25 hours'',
             db_alert ''SteadyStateDatabaseBackupFailed'' healthy
               ''critical'' ''Database backup is failing''])]])])"

definition LegacyDatabaseMonitoringResources :: "database \<Rightarrow> kobject list" where
  "LegacyDatabaseMonitoringResources d = [
     databaseUnstructured d DatabaseServiceMonitorGVK (suffixedName (oname d) ''-monitor'') [],
     databaseUnstructured d DatabasePrometheusRuleGVK (suffixedName (oname d) ''-alerts'') []]"

lemma databaseUnstructured_simps [simp]:
  "oname (databaseUnstructured d g n sp) = n"
  "onamespace (databaseUnstructured d g n sp) = onamespace d"
  "okind (databaseUnstructured d g n sp) = KUnstructured g"
  "olabels (databaseUnstructured d g n sp) = DatabaseLabels d"
  "oannotations (databaseUnstructured d g n sp) = DatabaseAnnotations d"
  by (simp_all add: databaseUnstructured_def db_object_meta_def)

end
