(* ===== verification/App_Resources.thy ===== *)
theory App_Resources
  imports Team_Resources Go_Time
begin

section \<open>The objects generated for an Application\<close>

text \<open>
  The builders of \<open>internal/resources\<close> for an Application: Deployment, Services, HTTPRoute, ConfigMap, egress
  NetworkPolicies, Rollout, AnalysisTemplate, ServiceMonitor and PrometheusRule. An unstructured object is
  its metadata and the JSON of its other fields. The Prometheus queries are the texts the code
  formats; names enter them through \<open>%q\<close>.
\<close>

subsection \<open>Deployment\<close>

definition httpProbe :: "string \<Rightarrow> int \<Rightarrow> probe" where
  "httpProbe path port = \<lparr>pb_path = path, pb_port = port, pb_scheme = ''HTTP'',
     pb_timeoutSeconds = 1, pb_periodSeconds = 10, pb_successThreshold = 1, pb_failureThreshold = 3\<rparr>"

definition database_bindings :: "(string \<times> string) list" where
  "database_bindings = [(''DATABASE_URL'', ''uri''), (''PGHOST'', ''host''), (''PGPORT'', ''port''),
     (''PGUSER'', ''user''), (''PGPASSWORD'', ''password''), (''PGDATABASE'', ''dbname'')]"

definition app_environment :: "application \<Rightarrow> env_var list" where
  "app_environment app =
     (case app_databaseRef (aspec app) of
        None \<Rightarrow> []
      | Some db \<Rightarrow> map (\<lambda>(e, k). \<lparr>env_name = e, env_value = [],
            env_secret = Some (DatabaseConnectionSecretNameFor db, k)\<rparr>) database_bindings)
     @ (if obs_traces (app_obs (aspec app)) then
          [\<lparr>env_name = ''OTEL_EXPORTER_OTLP_ENDPOINT'',
            env_value = ''otel-collector.monitoring.svc.cluster.local:4317'', env_secret = None\<rparr>,
           \<lparr>env_name = ''OTEL_SERVICE_NAME'', env_value = oname app, env_secret = None\<rparr>]
        else [])"

definition template_labels :: "application \<Rightarrow> strmap" where
  "template_labels app =
     (let s = aspec app;
          m = (Labels app)(
            VersionLabelKey \<mapsto> img_tag (app_img s),
            LogsLabelKey \<mapsto> show_bool (obs_logs (app_obs s)),
            TracesLabelKey \<mapsto> show_bool (obs_traces (app_obs s)),
            WorkloadKindLabelKey \<mapsto> ''application'',
            RequireSignedImageLabelKey \<mapsto> show_bool (sec_requireSignedImage (app_sec s)),
            NetworkIsolationLabelKey \<mapsto> show_bool (sec_networkIsolation (app_sec s))) in
      case app_databaseRef s of None \<Rightarrow> m | Some db \<Rightarrow> m(DatabaseLabelKey \<mapsto> db))"

definition resource_list :: "resource_values \<Rightarrow> strmap" where
  "resource_list v = [''cpu'' \<mapsto> rv_cpu v, ''memory'' \<mapsto> rv_memory v]"

definition app_container :: "application \<Rightarrow> container" where
  "app_container app =
     (let s = aspec app; port = rt_port (app_rt s) in
      \<lparr>ct_name = ''application'',
       ct_image = img_repository (app_img s) @ '':'' @ img_tag (app_img s),
       ct_ports = [\<lparr>cp_name = ''http'', cp_containerPort = port, cp_protocol = TCP\<rparr>],
       ct_envFrom = [ConfigMapName app],
       ct_env = app_environment app,
       ct_livenessProbe = Some (httpProbe ''/healthz'' port),
       ct_readinessProbe = Some (httpProbe ''/readyz'' port),
       ct_preStopSleep = Some 15,
       ct_requests = resource_list (res_requests (app_res s)),
       ct_limits = resource_list (res_limits (app_res s)),
       ct_security = Some \<lparr>cs_allowPrivilegeEscalation = Some False, cs_capabilitiesDrop = [''ALL''],
         cs_readOnlyRootFilesystem = Some True, cs_runAsNonRoot = Some (sec_runAsNonRoot (app_sec s))\<rparr>\<rparr>)"

definition app_object_meta :: "application \<Rightarrow> string \<Rightarrow> strmap \<Rightarrow> objmeta" where
  "app_object_meta app n labels = (new_meta (onamespace app) n)\<lparr>olabels := labels\<rparr>"

definition blank_deployment_status :: deployment_status where
  "blank_deployment_status = \<lparr>dps_observedGeneration = 0, dps_availableReplicas = 0,
     dps_updatedReplicas = 0, dps_conditions = []\<rparr>"

definition deployment_spec_for :: "application \<Rightarrow> deployment_spec" where
  "deployment_spec_for app =
     (let d = dep_strategy (app_dep (aspec app));
          replicas = (if d = Canary then 0 else rep_min (rt_replicas (app_rt (aspec app)))) in
      \<lparr>dp_replicas = Some replicas,
       dp_selector = Some (match_labels (SelectorLabels app)),
       dp_strategyType = ''RollingUpdate'',
       dp_maxUnavailable = Some (PortInt 0),
       dp_maxSurge = Some (PortInt 1),
       dp_templateLabels = template_labels app,
       dp_pod = \<lparr>ps_automountToken = Some False, ps_gracePeriod = Some 30,
         ps_seccomp = Some ''RuntimeDefault'', ps_containers = [app_container app]\<rparr>\<rparr>)"

definition Deployment :: "application \<Rightarrow> kobject" where
  "Deployment app = with_body (app_object_meta app (oname app) (Labels app))
     (BDeployment (deployment_spec_for app) blank_deployment_status)"

subsection \<open>Services\<close>

definition http_port :: "application \<Rightarrow> service_port" where
  "http_port app = \<lparr>sp_name = ''http'', sp_protocol = TCP, sp_port = 80,
     sp_targetPort = PortInt (rt_port (app_rt (aspec app)))\<rparr>"

definition app_service_spec :: "application \<Rightarrow> service_spec" where
  "app_service_spec app = \<lparr>svc_selector = SelectorLabels app, svc_ports = [http_port app]\<rparr>"

definition Service :: "application \<Rightarrow> kobject" where
  "Service app = with_body
     (app_object_meta app (oname app) ((Labels app)(ServiceRoleLabelKey \<mapsto> ''base'')))
     (BService (app_service_spec app))"

definition rolloutService :: "application \<Rightarrow> string \<Rightarrow> string \<Rightarrow> kobject" where
  "rolloutService app name role = with_body
     (app_object_meta app name ((Labels app)(ServiceRoleLabelKey \<mapsto> role)))
     (BService (app_service_spec app))"

definition StableService :: "application \<Rightarrow> kobject" where
  "StableService app = rolloutService app (StableServiceName app) ''stable''"

definition CanaryService :: "application \<Rightarrow> kobject" where
  "CanaryService app = rolloutService app (CanaryServiceName app) ''canary''"

subsection \<open>Routes\<close>

definition backend_to :: "string \<Rightarrow> int \<Rightarrow> backend_ref" where
  "backend_to n w = \<lparr>br_group = Some [], br_kind = Some ''Service'', br_namespace = None,
     br_name = n, br_port = Some 80, br_weight = Some w\<rparr>"

definition gateway_ref :: parent_ref where
  "gateway_ref = \<lparr>pr_group = Some ''gateway.networking.k8s.io'', pr_kind = Some ''Gateway'',
     pr_namespace = Some ''steadystate-system'', pr_name = ''steadystate''\<rparr>"

definition app_route_spec :: "application \<Rightarrow> backend_ref list \<Rightarrow> route_spec" where
  "app_route_spec app backends = \<lparr>rs_parents = [gateway_ref], rs_hostnames = [Hostname app],
     rs_rules = [\<lparr>rl_matches = [\<lparr>rm_pathType = Some ''PathPrefix'', rm_path = Some ''/''\<rparr>],
       rl_backends = backends\<rparr>]\<rparr>"

definition HTTPRoute :: "application \<Rightarrow> kobject" where
  "HTTPRoute app = with_body (app_object_meta app (oname app) (Labels app))
     (BHTTPRoute (app_route_spec app [backend_to (oname app) 1]) [])"

definition CanaryHTTPRouteName :: "application \<Rightarrow> string" where
  "CanaryHTTPRouteName app = oname app"

definition CanaryHTTPRoute :: "application \<Rightarrow> kobject" where
  "CanaryHTTPRoute app = (HTTPRoute app)\<lparr>kbody := BHTTPRoute (app_route_spec app
     [backend_to (StableServiceName app) 100, backend_to (CanaryServiceName app) 0]) []\<rparr>"

subsection \<open>Configuration and egress policies\<close>

definition ConfigMap :: "application \<Rightarrow> kobject" where
  "ConfigMap app = with_body (app_object_meta app (ConfigMapName app) (Labels app))
     (BConfigMap [
        ''PORT'' \<mapsto> show_int (rt_port (app_rt (aspec app))),
        ''STEADYSTATE_APP_NAME'' \<mapsto> oname app,
        ''STEADYSTATE_APP_NAMESPACE'' \<mapsto> onamespace app,
        ''STEADYSTATE_APP_OWNER'' \<mapsto> app_owner (aspec app),
        ''STEADYSTATE_APP_VERSION'' \<mapsto> img_tag (app_img (aspec app))])"

definition otel_pods :: label_selector where
  "otel_pods = match_labels [''app.kubernetes.io/instance'' \<mapsto> ''otel-collector'',
     ''app.kubernetes.io/name'' \<mapsto> ''opentelemetry-collector'']"

definition OTelEgressNetworkPolicy :: "application \<Rightarrow> kobject" where
  "OTelEgressNetworkPolicy app = with_body
     (app_object_meta app (OTelEgressPolicyName app) (Labels app))
     (BNetworkPolicy \<lparr>np_selector = match_labels (SelectorLabels app), np_types = [PolicyEgress],
        np_ingress = [],
        np_egress = [\<lparr>
          rule_peers = [ns_pod_peer (match_labels [metadata_name_label \<mapsto> ''monitoring'']) otel_pods],
          rule_ports = [np_port_of TCP (PortInt 4317)]\<rparr>]\<rparr>)"

definition DatabaseEgressNetworkPolicy :: "application \<Rightarrow> kobject" where
  "DatabaseEgressNetworkPolicy app =
     (let clusterName = (case app_databaseRef (aspec app) of
            None \<Rightarrow> [] | Some db \<Rightarrow> DatabaseClusterNameFor db) in
      with_body (app_object_meta app (DatabaseEgressPolicyName app) (Labels app))
       (BNetworkPolicy \<lparr>np_selector = match_labels (SelectorLabels app), np_types = [PolicyEgress],
          np_ingress = [],
          np_egress = [\<lparr>
            rule_peers = [pod_peer (match_labels [''cnpg.io/cluster'' \<mapsto> clusterName])],
            rule_ports = [np_port_of TCP (PortInt 5432)]\<rparr>]\<rparr>))"

subsection \<open>Progressive delivery\<close>

definition GatewayPluginName :: string where "GatewayPluginName = ''argoproj-labs/gatewayAPI''"
definition PrometheusAddress :: string where
  "PrometheusAddress = ''http://monitoring-kube-prometheus-prometheus.monitoring.svc:9090''"

definition plugin_config :: "lib \<Rightarrow> application \<Rightarrow> string" where
  \<comment> \<open>\<open>json.Marshal\<close> of a string map: the keys in order\<close>
  "plugin_config L app =
     ''{'' @ json_string L ''httpRoute'' @ '':'' @ json_string L (CanaryHTTPRouteName app) @ '',''
     @ json_string L ''namespace'' @ '':'' @ json_string L (onamespace app) @ ''}''"

definition rollout_steps :: "application \<Rightarrow> canary_step \<Rightarrow> rollout_step list" where
  "rollout_steps app desired = [
     SetWeight (step_weight desired),
     PauseFor (duration_string (step_pause desired)),
     RunAnalysis (AnalysisTemplateName app)
       [(''candidate-version'', Some (img_tag (app_img (aspec app)))), (''candidate-hash'', None)]]"

definition Rollout :: "lib \<Rightarrow> application \<Rightarrow> rollout_spec" where
  "Rollout L app =
     \<lparr>ro_replicas = Some (rep_min (rt_replicas (app_rt (aspec app)))),
      ro_workloadRef = Some \<lparr>wr_apiVersion = ''apps/v1'', wr_kind = ''Deployment'',
        wr_name = oname app, wr_scaleDown = ''onsuccess''\<rparr>,
      ro_revisionHistoryLimit = Some 2,
      ro_progressDeadlineSeconds = Some 600,
      ro_progressDeadlineAbort = dep_automaticRollback (app_dep (aspec app)),
      ro_analysisHistory = Some (Some 2, Some 2),
      ro_canary = Some \<lparr>cn_stableService = StableServiceName app,
        cn_canaryService = CanaryServiceName app,
        cn_steps = concat (map (rollout_steps app) (dep_steps (app_dep (aspec app)))),
        cn_maxUnavailable = Some (PortInt 0), cn_maxSurge = Some (PortInt 1),
        cn_scaleDownDelaySeconds = Some 30, cn_abortScaleDownDelaySeconds = Some 30,
        cn_minPodsPerReplicaSet = Some 1,
        cn_trafficRouting = Some [GatewayPluginName \<mapsto> plugin_config L app]\<rparr>\<rparr>"

definition rollout_gvk :: gvk where
  "rollout_gvk = \<lparr>gvk_group = ''argoproj.io'', gvk_version = ''v1alpha1'', gvk_kind = ''Rollout''\<rparr>"

definition RolloutObject :: "lib \<Rightarrow> application \<Rightarrow> kobject" where
  "RolloutObject L app =
     (let m = app_object_meta app (oname app) (Labels app);
          j = to_unstructured L ''Rollout'' m (Rollout L app) in
      with_body m (BUnstructured rollout_gvk
        (remove_nested_field L (remove_nested_field L j [''spec'', ''template''])
          [''spec'', ''selector''])))"

subsection \<open>Thresholds\<close>

definition percentageFraction :: "lib \<Rightarrow> string \<Rightarrow> float64" where
  "percentageFraction L value =
     f_div_by L (case parse_float L (trim_suffix value ''%'') of Some x \<Rightarrow> x | None \<Rightarrow> Fin 0) 100"

definition formatNumber :: "lib \<Rightarrow> float64 \<Rightarrow> string" where
  "formatNumber L value = format_float L value"

subsection \<open>Queries\<close>

definition applicationSelector :: "lib \<Rightarrow> application \<Rightarrow> string" where
  \<open>applicationSelector L app =
     ''application='' @ go_quote L (oname app) @ '',namespace='' @ go_quote L (onamespace app)\<close>

definition candidate_selector :: "lib \<Rightarrow> application \<Rightarrow> string" where
  \<open>candidate_selector L app = applicationSelector L app @ '',version="{{args.candidate-version}}"''\<close>

definition successRateQuery :: "lib \<Rightarrow> application \<Rightarrow> string" where
  \<open>successRateQuery L app =
     (let selector = candidate_selector L app in
      ''(sum(rate(http_requests_total{'' @ selector @ '',status=~"2.."}[1m])) / clamp_min(sum(rate(http_requests_total{''
      @ selector @ ''}[1m])), 0.000001)) or vector(-1)'')\<close>

definition p95_histogram :: "string \<Rightarrow> string \<Rightarrow> string" where
  \<open>p95_histogram selector window =
     ''histogram_quantile(0.95, sum by (le) (rate(http_request_duration_seconds_bucket{'' @ selector
     @ ''}['' @ window @ ''])))''\<close>

definition p95Query :: "lib \<Rightarrow> application \<Rightarrow> string" where
  \<open>p95Query L app = p95_histogram (candidate_selector L app) ''1m'' @ '' or vector(1000000000)''\<close>

definition restart_sum :: "lib \<Rightarrow> application \<Rightarrow> string" where
  \<open>restart_sum L app =
     ''sum(clamp_min(increase(kube_pod_container_status_restarts_total{namespace='' @ go_quote L (onamespace app)
     @ '',container="application"}[1m]), 0) * on(namespace,pod) group_left() kube_pod_labels{namespace=''
     @ go_quote L (onamespace app) @ '',label_app_kubernetes_io_instance='' @ go_quote L (oname app)\<close>

definition restartQuery :: "lib \<Rightarrow> application \<Rightarrow> string" where
  \<open>restartQuery L app = restart_sum L app
     @ '',label_rollouts_pod_template_hash="{{args.candidate-hash}}"}) or vector(0)''\<close>

definition alert_selector :: "lib \<Rightarrow> application \<Rightarrow> string" where
  \<open>alert_selector L app =
     applicationSelector L app @ '',version='' @ go_quote L (img_tag (app_img (aspec app)))\<close>

definition candidateErrorRateAlertQuery :: "lib \<Rightarrow> application \<Rightarrow> float64 \<Rightarrow> string" where
  \<open>candidateErrorRateAlertQuery L app threshold =
     (let selector = alert_selector L app in
      ''(sum(rate(http_requests_total{'' @ selector @ '',status!~"2.."}[1m])) / clamp_min(sum(rate(http_requests_total{''
      @ selector @ ''}[1m])), 0.000001)) > '' @ formatNumber L threshold)\<close>

definition candidateP95AlertQuery :: "lib \<Rightarrow> application \<Rightarrow> float64 \<Rightarrow> string" where
  \<open>candidateP95AlertQuery L app threshold =
     p95_histogram (alert_selector L app) ''1m'' @ '' > '' @ formatNumber L threshold\<close>

definition candidateRestartAlertQuery :: "lib \<Rightarrow> application \<Rightarrow> string" where
  \<open>candidateRestartAlertQuery L app = restart_sum L app
     @ '',label_steadystate_dev_version='' @ go_quote L (img_tag (app_img (aspec app))) @ ''}) > 0''\<close>

definition requestRateQuery :: "lib \<Rightarrow> application \<Rightarrow> string \<Rightarrow> string" where
  \<open>requestRateQuery L app window =
     ''sum(rate(http_requests_total{'' @ applicationSelector L app @ ''}['' @ window @ '']))''\<close>

definition errorRatioQuery :: "lib \<Rightarrow> application \<Rightarrow> string \<Rightarrow> string" where
  \<open>errorRatioQuery L app window =
     (let selector = applicationSelector L app in
      ''clamp_max(1 - (sum(rate(http_requests_total{'' @ selector @ '',status=~"2.."}['' @ window
      @ ''])) / clamp_min(sum(rate(http_requests_total{'' @ selector @ ''}['' @ window
      @ ''])), 0.000001)), 1)'')\<close>

definition availabilityQuery :: "lib \<Rightarrow> application \<Rightarrow> string \<Rightarrow> string" where
  "availabilityQuery L app window = ''1 - ('' @ errorRatioQuery L app window @ '')''"

definition applicationP95Query :: "lib \<Rightarrow> application \<Rightarrow> string \<Rightarrow> string" where
  "applicationP95Query L app window =
     p95_histogram (applicationSelector L app) window @ '' or vector(1000000000)''"

definition burnRateQuery :: "lib \<Rightarrow> application \<Rightarrow> string \<Rightarrow> float64 \<Rightarrow> string" where
  "burnRateQuery L app window budget =
     ''('' @ errorRatioQuery L app window @ '') / '' @ formatNumber L budget"

definition burnPairQuery ::
    "lib \<Rightarrow> application \<Rightarrow> string \<Rightarrow> string \<Rightarrow> float64 \<Rightarrow> float64 \<Rightarrow> string" where
  "burnPairQuery L app shortWindow longWindow budget threshold =
     ''('' @ burnRateQuery L app shortWindow budget @ '' > '' @ formatNumber L threshold @ '') and (''
     @ burnRateQuery L app longWindow budget @ '' > '' @ formatNumber L threshold @ '')''"

subsection \<open>Analysis\<close>

definition analysisMetric :: "application \<Rightarrow> string \<Rightarrow> string \<Rightarrow> string \<Rightarrow> analysis_metric" where
  "analysisMetric app name query successCondition =
     (let metric = \<lparr>am_name = name, am_initialDelay = ''30s'', am_interval = ''30s'', am_count = Some 3,
            am_successCondition = successCondition,
            am_failureCondition = ''!('' @ successCondition @ '')'',
            am_failureLimit = Some 1, am_inconclusiveLimit = None, am_consecutiveErrorLimit = Some 1,
            am_consecutiveSuccessLimit = Some 2, am_address = PrometheusAddress, am_query = query\<rparr> in
      if \<not> dep_automaticRollback (app_dep (aspec app))
      then metric\<lparr>am_failureCondition := ''false'', am_inconclusiveLimit := Some 1\<rparr>
      else metric)"

definition AnalysisTemplate :: "lib \<Rightarrow> application \<Rightarrow> kobject" where
  "AnalysisTemplate L app =
     (let rel = app_rel (aspec app);
          errorThreshold = f_one_minus L (percentageFraction L (rel_maximumErrorRate rel));
          latencyThreshold = duration_seconds L (rel_maximumP95Latency rel) in
      with_body (app_object_meta app (AnalysisTemplateName app) (Labels app))
       (BAnalysisTemplate \<lparr>an_args = [''candidate-version'', ''candidate-hash''],
          an_metrics = [
            analysisMetric app ''candidate-success-rate'' (successRateQuery L app)
              (''result[0] >= '' @ formatNumber L errorThreshold),
            analysisMetric app ''candidate-p95-latency'' (p95Query L app)
              (''result[0] <= '' @ formatNumber L latencyThreshold),
            analysisMetric app ''candidate-container-restarts'' (restartQuery L app)
              ''result[0] <= 0'']\<rparr>))"

subsection \<open>Monitoring\<close>

definition monitoring_gvk :: "string \<Rightarrow> gvk" where
  "monitoring_gvk kindname =
     \<lparr>gvk_group = ''monitoring.coreos.com'', gvk_version = ''v1'', gvk_kind = kindname\<rparr>"

definition label_entries :: "application \<Rightarrow> (string \<times> string) list" where
  "label_entries app = [
     (''app.kubernetes.io/instance'', oname app), (''app.kubernetes.io/managed-by'', ManagedBy),
     (''app.kubernetes.io/name'', oname app), (''app.kubernetes.io/part-of'', ''steadystate'')]"

definition stringMapAny :: "(string \<times> string) list \<Rightarrow> json" where
  "stringMapAny values = JObj (map (\<lambda>(k, v). (k, JStr v)) values)"

definition ServiceMonitor :: "application \<Rightarrow> kobject" where
  "ServiceMonitor app = with_body (app_object_meta app (ServiceMonitorName app) (Labels app))
     (BUnstructured (monitoring_gvk ''ServiceMonitor'') (JObj [(''spec'', JObj [
        (''selector'', JObj [(''matchLabels'',
           stringMapAny (label_entries app @ [(ServiceRoleLabelKey, ''base'')]))]),
        (''endpoints'', JArr [JObj [(''port'', JStr ''http''), (''path'', JStr ''/metrics''),
           (''interval'', JStr ''15s'')]])])]))"

definition recordingRule :: "string \<Rightarrow> string \<Rightarrow> (string \<times> string) list \<Rightarrow> json" where
  "recordingRule name expression labels = JObj [(''record'', JStr name), (''expr'', JStr expression),
     (''labels'', stringMapAny labels)]"

definition alertRule :: "string \<Rightarrow> string \<Rightarrow> (string \<times> string) list \<Rightarrow> string \<Rightarrow> json" where
  "alertRule name expression labels summary = JObj [(''alert'', JStr name), (''expr'', JStr expression),
     (''for'', JStr ''30s''), (''labels'', stringMapAny labels),
     (''annotations'', JObj [(''summary'', JStr summary)])]"

definition error_budget :: "lib \<Rightarrow> application \<Rightarrow> float64" where
  "error_budget L app =
     (let b = f_one_minus L (percentageFraction L (rel_availabilityTarget (app_rel (aspec app)))) in
      if f_less_eq_zero b then f_round L (1 / 10 ^ 6) else b)"

definition record_rules :: "lib \<Rightarrow> application \<Rightarrow> (string \<times> string) list \<Rightarrow> json list" where
  "record_rules L app recordLabels = [
     recordingRule ''steadystate:application_request_rate:5m'' (requestRateQuery L app ''5m'') recordLabels,
     recordingRule ''steadystate:application_error_rate:5m'' (errorRatioQuery L app ''5m'') recordLabels,
     recordingRule ''steadystate:application_availability:5m'' (availabilityQuery L app ''5m'') recordLabels,
     recordingRule ''steadystate:application_p95_latency_seconds:5m''
       (applicationP95Query L app ''5m'') recordLabels,
     recordingRule ''steadystate:application_error_budget_burn:5m''
       (burnRateQuery L app ''5m'' (error_budget L app)) recordLabels]"

definition candidate_rules :: "lib \<Rightarrow> application \<Rightarrow> (string \<times> string) list \<Rightarrow> json list" where
  "candidate_rules L app labels = [
     alertRule ''SteadyStateCandidateHighErrorRate''
       (candidateErrorRateAlertQuery L app (percentageFraction L (rel_maximumErrorRate (app_rel (aspec app)))))
       labels ''Candidate error rate exceeds the Application reliability target.'',
     alertRule ''SteadyStateCandidateHighP95Latency''
       (candidateP95AlertQuery L app (duration_seconds L (rel_maximumP95Latency (app_rel (aspec app)))))
       labels ''Candidate P95 latency exceeds the Application reliability target.'',
     alertRule ''SteadyStateCandidateRestarts'' (candidateRestartAlertQuery L app)
       labels ''Candidate containers restarted during the analysis window.'']"

definition burn_rules :: "lib \<Rightarrow> application \<Rightarrow> (string \<times> string) list \<Rightarrow> json list" where
  "burn_rules L app recordLabels = [
     alertRule ''SteadyStateAvailabilityFastBurn''
       (burnPairQuery L app ''5m'' ''1h'' (error_budget L app) (f_round L (144 / 10)))
       (recordLabels @ [(''severity'', ''critical'')])
       ''Availability error budget is burning at the fast multi-window threshold.'',
     alertRule ''SteadyStateAvailabilitySlowBurn''
       (burnPairQuery L app ''30m'' ''6h'' (error_budget L app) (f_round L 6))
       (recordLabels @ [(''severity'', ''warning'')])
       ''Availability error budget is burning at the slow multi-window threshold.'']"

definition PrometheusRule :: "lib \<Rightarrow> application \<Rightarrow> kobject" where
  "PrometheusRule L app =
     (let recordLabels = [(''application'', oname app), (''namespace'', onamespace app)];
          labels = recordLabels @ [(''version'', img_tag (app_img (aspec app))), (''severity'', ''warning'')] in
      with_body (app_object_meta app (PrometheusRuleName app) (Labels app))
       (BUnstructured (monitoring_gvk ''PrometheusRule'') (JObj [(''spec'', JObj [(''groups'', JArr [JObj [
          (''name'', JStr (''steadystate.'' @ onamespace app @ ''.'' @ oname app @ ''.service'')),
          (''rules'', JArr (record_rules L app recordLabels @ candidate_rules L app labels
             @ burn_rules L app recordLabels))]])])])))"

end
