(* ===== verification/App_Status.thy ===== *)
theory App_Status
  imports App_Resources App_Policy Status
begin

section \<open>What an Application reports\<close>

text \<open>
  The observations and statuses of the Application controller: the state of a Deployment, a route and a
  Rollout, the runtime image digest that the Pods report (\<open>application_provenance.go\<close>), and the status each outcome
  of a reconcile pass writes (\<open>application_controller.go\<close>, \<open>application_progressive.go\<close>).
\<close>

subsection \<open>Constants\<close>

definition ApplicationFinalizer :: string where "ApplicationFinalizer = ''steadystate.dev/finalizer''"
definition conditionConfigurationReady :: string where
  "conditionConfigurationReady = ''ConfigurationReady''"
definition conditionSecurityPolicyReady :: string where
  "conditionSecurityPolicyReady = ''SecurityPolicyReady''"
definition conditionServiceHealth :: string where "conditionServiceHealth = ''ServiceHealth''"
definition conditionApplicationDatabaseReady :: string where
  "conditionApplicationDatabaseReady = ''DatabaseReady''"
definition conditionRolloutHealthy :: string where "conditionRolloutHealthy = ''RolloutHealthy''"
definition conditionReady :: string where "conditionReady = ''Ready''"

lemmas app_condition_defs =
  conditionConfigurationReady_def conditionSecurityPolicyReady_def conditionServiceHealth_def
  conditionApplicationDatabaseReady_def conditionRolloutHealthy_def conditionReady_def

definition gatewayPluginInProgressLabel :: string where
  "gatewayPluginInProgressLabel = ''rollouts.argoproj.io/gatewayapi-canary''"
definition gatewayPluginInProgressValue :: string where
  "gatewayPluginInProgressValue = ''in-progress''"

subsection \<open>Reading generated objects\<close>

text \<open>A typed Go object always has its fields; the model's objects are read through their bodies.\<close>

definition deployment_status_of :: "kobject \<Rightarrow> deployment_status" where
  "deployment_status_of obj =
     (case kbody obj of BDeployment sp st \<Rightarrow> st | _ \<Rightarrow> blank_deployment_status)"

definition route_spec_of :: "kobject \<Rightarrow> route_spec" where
  "route_spec_of obj = (case kbody obj of BHTTPRoute sp ps \<Rightarrow> sp
     | _ \<Rightarrow> \<lparr>rs_parents = [], rs_hostnames = [], rs_rules = []\<rparr>)"

definition route_parents_of :: "kobject \<Rightarrow> route_parent list" where
  "route_parents_of obj = (case kbody obj of BHTTPRoute sp ps \<Rightarrow> ps | _ \<Rightarrow> [])"

definition blank_rollout_spec :: rollout_spec where
  "blank_rollout_spec = \<lparr>ro_replicas = None, ro_workloadRef = None, ro_revisionHistoryLimit = None,
     ro_progressDeadlineSeconds = None, ro_progressDeadlineAbort = False, ro_analysisHistory = None,
     ro_canary = None\<rparr>"

definition blank_rollout_status :: rollout_status where
  "blank_rollout_status = \<lparr>ros_observedGeneration = [], ros_phase = [], ros_message = [],
     ros_stableRS = [], ros_availableReplicas = 0, ros_abort = False, ros_stepAnalysis = None\<rparr>"

definition rollout_spec_of :: "kobject \<Rightarrow> rollout_spec" where
  "rollout_spec_of obj = (case kbody obj of BRollout sp st \<Rightarrow> sp | _ \<Rightarrow> blank_rollout_spec)"

definition rollout_status_of :: "kobject \<Rightarrow> rollout_status" where
  "rollout_status_of obj = (case kbody obj of BRollout sp st \<Rightarrow> st | _ \<Rightarrow> blank_rollout_status)"

subsection \<open>Deployment, route and Rollout states\<close>

fun deployment_conditions :: "kobject \<Rightarrow> int \<Rightarrow> bool \<Rightarrow> wcondition list \<Rightarrow> bool \<times> bool" where
  "deployment_conditions d desired ready [] = (ready, False)"
| "deployment_conditions d desired ready (c # cs) =
     (if wc_type c = ''Progressing'' \<and> wc_status c = ''False'' \<and> wc_reason c = ''ProgressDeadlineExceeded''
      then (False, True)
      else deployment_conditions d desired
        (ready \<or> (wc_type c = ''Available'' \<and> wc_status c = ''True''
           \<and> dps_observedGeneration (deployment_status_of d) \<ge> ogeneration d
           \<and> dps_availableReplicas (deployment_status_of d) \<ge> desired
           \<and> dps_updatedReplicas (deployment_status_of d) \<ge> desired)) cs)"

definition deploymentState :: "kobject option \<Rightarrow> int \<Rightarrow> bool \<times> bool" where
  \<comment> \<open>ready, failed\<close>
  "deploymentState deployment desired =
     (case deployment of
        None \<Rightarrow> (False, False)
      | Some d \<Rightarrow> deployment_conditions d desired False (dps_conditions (deployment_status_of d)))"

definition parent_condition_is :: "lib \<Rightarrow> kobject \<Rightarrow> route_parent \<Rightarrow> string \<Rightarrow> cond_status \<Rightarrow> bool" where
  "parent_condition_is L route p ty st =
     (case find_status_condition L (rp_conditions p) ty of
        None \<Rightarrow> False
      | Some c \<Rightarrow> cobserved c \<ge> ogeneration route \<and> cstatus c = st)"

definition parent_is_gateway :: "route_parent \<Rightarrow> bool" where
  "parent_is_gateway p \<longleftrightarrow> pr_name (rp_ref p) = ''steadystate''
     \<and> pr_namespace (rp_ref p) = Some ''steadystate-system''"

fun route_parents_state :: "lib \<Rightarrow> kobject \<Rightarrow> route_parent list \<Rightarrow> bool \<times> bool" where
  "route_parents_state L route [] = (False, False)"
| "route_parents_state L route (p # ps) =
     (if \<not> parent_is_gateway p then route_parents_state L route ps
      else if parent_condition_is L route p ''Accepted'' CondFalse
          \<or> parent_condition_is L route p ''ResolvedRefs'' CondFalse then (False, True)
      else if parent_condition_is L route p ''Accepted'' CondTrue
          \<and> parent_condition_is L route p ''ResolvedRefs'' CondTrue then (True, False)
      else route_parents_state L route ps)"

definition routeState :: "lib \<Rightarrow> kobject \<Rightarrow> bool \<times> bool" where
  \<comment> \<open>ready, rejected\<close>
  "routeState L route = route_parents_state L route (route_parents_of route)"

definition rolloutHealthy :: "kobject option \<Rightarrow> int \<Rightarrow> bool" where
  "rolloutHealthy rollout desired =
     (case rollout of
        None \<Rightarrow> False
      | Some r \<Rightarrow>
          ros_observedGeneration (rollout_status_of r) = show_int (ogeneration r)
        \<and> ros_phase (rollout_status_of r) = ''Healthy''
        \<and> ros_stableRS (rollout_status_of r) \<noteq> []
        \<and> ros_availableReplicas (rollout_status_of r) \<ge> desired)"

definition rolloutTrafficRoutingActive :: "kobject \<Rightarrow> bool" where
  "rolloutTrafficRoutingActive rollout =
     (case ro_canary (rollout_spec_of rollout) of
        None \<Rightarrow> False
      | Some c \<Rightarrow> cn_trafficRouting c \<noteq> None \<and> length (cn_steps c) > 0)"

definition shouldHoldServingDeployment :: "application \<Rightarrow> kobject \<Rightarrow> bool \<Rightarrow> bool \<Rightarrow> bool" where
  "shouldHoldServingDeployment app rollout rolloutExists canaryRouteReady =
     (if as_activeVersion (astatus app) = [] then False
      else if \<not> rolloutExists \<or> ros_stableRS (rollout_status_of rollout) = [] then True
      else \<not> canaryRouteReady \<and> \<not> rolloutTrafficRoutingActive rollout)"

definition single_rule_backends :: "kobject \<Rightarrow> backend_ref list option" where
  "single_rule_backends route =
     (case rs_rules (route_spec_of route) of [r] \<Rightarrow> Some (rl_backends r) | _ \<Rightarrow> None)"

definition routeUsesCanaryServices :: "kobject \<Rightarrow> application \<Rightarrow> bool" where
  "routeUsesCanaryServices route app =
     (case single_rule_backends route of
        None \<Rightarrow> False
      | Some bs \<Rightarrow> length bs = 2 \<and> StableServiceName app \<in> br_name ` set bs
          \<and> CanaryServiceName app \<in> br_name ` set bs)"

definition routeUsesBaseService :: "kobject \<Rightarrow> application \<Rightarrow> bool" where
  "routeUsesBaseService route app =
     (case single_rule_backends route of Some [b] \<Rightarrow> br_name b = oname app | _ \<Rightarrow> False)"

definition backend_weights :: "backend_ref list \<Rightarrow> string \<rightharpoonup> int" where
  \<comment> \<open>the last weight given to a name\<close>
  "backend_weights bs = map_of (rev (List.map_filter
     (\<lambda>b. map_option (\<lambda>w. (br_name b, w)) (br_weight b)) bs))"

definition routeIsStableOnly :: "kobject \<Rightarrow> application \<Rightarrow> bool" where
  "routeIsStableOnly route app =
     (if \<not> routeUsesCanaryServices route app
          \<or> map_get (olabels route) gatewayPluginInProgressLabel = gatewayPluginInProgressValue
      then False
      else
        let w = (\<lambda>n. case single_rule_backends route of
              None \<Rightarrow> 0
            | Some bs \<Rightarrow> (case backend_weights bs n of None \<Rightarrow> 0 | Some k \<Rightarrow> k)) in
        w (StableServiceName app) = 100 \<and> w (CanaryServiceName app) = 0)"

subsection \<open>The runtime image digest\<close>

datatype imageDigestState =
  imageDigestPending | imageDigestResolved | imageDigestInvalid | imageDigestConflict

record imageDigestResolution =
  dr_state :: imageDigestState
  dr_digest :: string
  dr_message :: string

text \<open>\<open>sha256:[0-9a-f]{64}\<close>\<close>

definition sha256_digest :: "string \<Rightarrow> bool" where
  "sha256_digest s \<longleftrightarrow> has_prefix s ''sha256:'' \<and> length s = 71 \<and> list_all is_lower_hex (drop 7 s)"

text \<open>
  \<open>(^|[@/])(sha256:[0-9a-f]{64})$\<close>: the match is at the end, so its second group is the last 71 bytes, and it begins
  the text or follows a separator.
\<close>

definition imageDigestPattern :: "string \<Rightarrow> string option" where
  "imageDigestPattern s =
     (let k = length s - 71; d = drop k s in
      if sha256_digest d \<and> (k = 0 \<or> s ! (k - 1) = CHR ''@'' \<or> s ! (k - 1) = CHR ''/'')
      then Some d else None)"

definition normalizeImageDigest :: "string \<Rightarrow> string option" where
  "normalizeImageDigest imageID = imageDigestPattern imageID"

definition podImageMatchesDesired :: "string \<Rightarrow> string \<Rightarrow> bool" where
  "podImageMatchesDesired observed desired =
     (if observed = desired then True
      else case last_index CHR '':'' desired of
          None \<Rightarrow> False
        | Some separator \<Rightarrow> has_prefix observed (take separator desired @ ''@sha256:'')
            \<and> imageDigestPattern observed \<noteq> None)"

definition pod_containers :: "kobject \<Rightarrow> container list" where
  "pod_containers pod = (case kbody pod of BPod cs st \<Rightarrow> cs | _ \<Rightarrow> [])"

definition pod_status_of :: "kobject \<Rightarrow> pod_status" where
  "pod_status_of pod = (case kbody pod of BPod cs st \<Rightarrow> st
     | _ \<Rightarrow> \<lparr>pst_conditions = [], pst_containerStatuses = []\<rparr>)"

definition podIsReady :: "kobject \<Rightarrow> bool" where
  "podIsReady pod = list_ex (\<lambda>c. wc_type c = ''Ready'' \<and> wc_status c = ''True'')
     (pst_conditions (pod_status_of pod))"

definition podContainerImage :: "kobject \<Rightarrow> string \<Rightarrow> string" where
  "podContainerImage pod name =
     (case find_by ct_name name (pod_containers pod) of None \<Rightarrow> [] | Some c \<Rightarrow> ct_image c)"

definition podContainerStatus :: "kobject \<Rightarrow> string \<Rightarrow> container_status option" where
  "podContainerStatus pod name = find_by cst_name name (pst_containerStatuses (pod_status_of pod))"

definition pod_counts :: "string \<Rightarrow> kobject \<Rightarrow> bool" where
  "pod_counts desiredImage pod \<longleftrightarrow> \<not> odeleting pod \<and> podIsReady pod
     \<and> podImageMatchesDesired (podContainerImage pod ''application'') desiredImage"

datatype pod_report = NoReport | Malformed string | Digest string

definition pod_report_of :: "kobject \<Rightarrow> pod_report" where
  "pod_report_of pod =
     (case podContainerStatus pod ''application'' of
        None \<Rightarrow> NoReport
      | Some c \<Rightarrow>
          if \<not> cst_ready c \<or> cst_imageID c = [] then NoReport
          else case normalizeImageDigest (cst_imageID c) of
              None \<Rightarrow> Malformed (cst_imageID c)
            | Some d \<Rightarrow> Digest d)"

fun digest_loop ::
    "lib \<Rightarrow> string \<Rightarrow> kobject list \<Rightarrow> string list \<times> nat \<times> bool
     \<Rightarrow> imageDigestResolution + string list \<times> nat \<times> bool" where
  \<comment> \<open>The digests found so far, the number of ready desired Pods, and whether one reported none.\<close>
  "digest_loop L wanted [] acc = Inr acc"
| "digest_loop L wanted (pod # pods) (digests, ready, missing) =
     (if \<not> pod_counts wanted pod then digest_loop L wanted pods (digests, ready, missing)
      else case pod_report_of pod of
          NoReport \<Rightarrow> digest_loop L wanted pods (digests, Suc ready, True)
        | Malformed imageID \<Rightarrow> Inl \<lparr>dr_state = imageDigestInvalid, dr_digest = [],
            dr_message = ''ready Pod '' @ oname pod @ '' reports malformed imageID '' @ go_quote L imageID\<rparr>
        | Digest d \<Rightarrow> digest_loop L wanted pods (List.insert d digests, Suc ready, missing))"

definition resolvePodImageDigest :: "lib \<Rightarrow> kobject list \<Rightarrow> string \<Rightarrow> imageDigestResolution" where
  "resolvePodImageDigest L pods desiredImage =
     (case digest_loop L desiredImage pods ([], 0, False) of
        Inl invalid \<Rightarrow> invalid
      | Inr (digests, ready, missing) \<Rightarrow>
          if length digests > 1 then
            \<lparr>dr_state = imageDigestConflict, dr_digest = [],
             dr_message = ''ready Pods for the desired image report multiple digests: ''
               @ join '', '' (sort digests)\<rparr>
          else if ready = 0 \<or> missing \<or> length digests = 0 then
            \<lparr>dr_state = imageDigestPending, dr_digest = [],
             dr_message = ''waiting for every ready desired Pod to report its runtime image digest''\<rparr>
          else \<lparr>dr_state = imageDigestResolved, dr_digest = hd digests, dr_message = []\<rparr>)"

definition resolvedSourceRevision :: "application \<Rightarrow> go_error + string" where
  "resolvedSourceRevision app =
     (case oannotations app SourceRevisionAnnotationKey of
        None \<Rightarrow> Inr []
      | Some revision \<Rightarrow>
          if \<not> git_object_id revision then
            Inl (plain_error (''annotation '' @ SourceRevisionAnnotationKey
              @ '' must be a full lowercase 40- or 64-character Git object ID''))
          else Inr revision)"

subsection \<open>Statuses\<close>

definition setCondition ::
    "lib \<Rightarrow> application \<Rightarrow> string \<Rightarrow> cond_status \<Rightarrow> string \<Rightarrow> string \<Rightarrow> app_status \<Rightarrow> app_status" where
  "setCondition L app conditionType conditionStatus reason message status =
     status\<lparr>as_conditions := set_status_condition L (as_conditions status)
       (mk_condition conditionType conditionStatus (ogeneration app) reason message)\<rparr>"

definition baseStatus :: "application \<Rightarrow> app_status" where
  "baseStatus app = (astatus app)\<lparr>as_observedGeneration := ogeneration app\<rparr>"

definition conditionFromBool :: "bool \<Rightarrow> cond_status" where
  "conditionFromBool value = (if value then CondTrue else CondUnknown)"

definition app_tag :: "application \<Rightarrow> string" where
  "app_tag app = img_tag (app_img (aspec app))"

definition min_replicas :: "application \<Rightarrow> int" where
  "min_replicas app = rep_min (rt_replicas (app_rt (aspec app)))"

definition setSecurityPolicyReady :: "lib \<Rightarrow> application \<Rightarrow> app_status \<Rightarrow> app_status" where
  "setSecurityPolicyReady L app =
     (if sec_requireSignedImage (app_sec (aspec app)) then
        setCondition L app conditionSecurityPolicyReady CondTrue ''SignatureVerificationRequested''
          ''Kyverno signature and SPDX attestation enforcement is requested for the current workload''
      else
        setCondition L app conditionSecurityPolicyReady CondTrue ''SignatureVerificationNotRequested''
          ''The workload meets baseline policy; signature verification was not requested'')"

definition setServiceHealth :: "lib \<Rightarrow> application \<Rightarrow> bool \<Rightarrow> bool \<Rightarrow> app_status \<Rightarrow> app_status" where
  "setServiceHealth L app available routeRejected =
     (if available then
        setCondition L app conditionServiceHealth CondTrue ''ServiceAvailable''
          ''The active workload is available and its HTTPRoute is accepted with resolved references''
      else if routeRejected then
        setCondition L app conditionServiceHealth CondFalse ''RouteRejected''
          ''HTTPRoute was rejected or has unresolved references''
      else
        setCondition L app conditionServiceHealth CondFalse ''ServiceUnavailable''
          ''Waiting for an available active workload and an accepted HTTPRoute'')"

definition setCandidateVersion :: "application \<Rightarrow> app_status \<Rightarrow> app_status" where
  "setCandidateVersion app status =
     status\<lparr>as_candidateVersion :=
       (if as_activeVersion status = [] \<or> as_activeVersion status \<noteq> app_tag app then app_tag app else [])\<rparr>"

definition degradedStatus :: "lib \<Rightarrow> application \<Rightarrow> string \<Rightarrow> string \<Rightarrow> app_status" where
  "degradedStatus L app reason message =
     (let s0 = (baseStatus app)\<lparr>as_phase := AppDegraded, as_candidateVersion := []\<rparr>;
          s1 = setCondition L app conditionConfigurationReady CondFalse reason message s0;
          securityStatus = (if reason = ''SecurityPolicyRejected''
              \<or> (reason = ''UnsupportedFeature'' \<and> (sec_requireSignedImage (app_sec (aspec app))
                   \<or> sec_networkIsolation (app_sec (aspec app))))
            then CondFalse else CondUnknown);
          s2 = setCondition L app conditionSecurityPolicyReady securityStatus reason message s1;
          s3 = setCondition L app conditionRolloutHealthy CondUnknown reason
                 ''No child resources were mutated'' s2;
          s4 = (if app_databaseRef (aspec app) = None
            then setCondition L app conditionApplicationDatabaseReady CondTrue ''DatabaseNotRequested''
                   ''No database binding was requested'' s3
            else setCondition L app conditionApplicationDatabaseReady CondUnknown reason
                   ''Database readiness was not evaluated'' s3) in
      setCondition L app conditionReady CondFalse reason message s4)"

definition databaseBlockedStatus :: "lib \<Rightarrow> application \<Rightarrow> string \<Rightarrow> app_status" where
  "databaseBlockedStatus L app message =
     (let b = baseStatus app;
          s0 = b\<lparr>as_phase := (if as_activeVersion b = [] then AppPending else AppDegraded),
                 as_candidateVersion := []\<rparr>;
          s1 = setCondition L app conditionConfigurationReady CondFalse ''DatabaseUnavailable''
                 ''No generated children were mutated'' s0;
          s2 = setCondition L app conditionApplicationDatabaseReady CondFalse ''DatabaseUnavailable''
                 message s1;
          s3 = setCondition L app conditionRolloutHealthy CondUnknown ''DatabaseUnavailable''
                 ''Last healthy workload state is preserved'' s2 in
      setCondition L app conditionReady CondFalse ''DatabaseUnavailable'' message s3)"

definition set_outcome ::
    "lib \<Rightarrow> application \<Rightarrow> app_phase \<Rightarrow> cond_status \<Rightarrow> string \<Rightarrow> string \<Rightarrow> string \<Rightarrow> string
     \<Rightarrow> app_status \<Rightarrow> app_status" where
  \<comment> \<open>The phase, then \<open>RolloutHealthy\<close>, then a false \<open>Ready\<close>: reason and message of each.\<close>
  "set_outcome L app phase healthy reason message readyReason readyMessage status =
     setCondition L app conditionReady CondFalse readyReason readyMessage
       (setCondition L app conditionRolloutHealthy healthy reason message
         (status\<lparr>as_phase := phase\<rparr>))"

definition set_promoted ::
    "lib \<Rightarrow> application \<Rightarrow> imageDigestResolution \<Rightarrow> string \<Rightarrow> string \<Rightarrow> string \<Rightarrow> string
     \<Rightarrow> app_status \<Rightarrow> app_status" where
  "set_promoted L app digest sourceRevision reason message readyMessage status =
     setCondition L app conditionReady CondTrue ''ApplicationReady'' readyMessage
       (setCondition L app conditionRolloutHealthy CondTrue reason message
         (status\<lparr>as_phase := AppHealthy, as_activeVersion := app_tag app, as_candidateVersion := [],
            as_resolvedImageDigest := dr_digest digest, as_resolvedGitRevision := sourceRevision\<rparr>))"

definition workloadStatus ::
    "lib \<Rightarrow> application \<Rightarrow> kobject option \<Rightarrow> kobject \<Rightarrow> imageDigestResolution \<Rightarrow> string
     \<Rightarrow> app_status \<times> bool" where
  "workloadStatus L app deployment route digest sourceRevision =
     (let (deploymentReady, deploymentFailed) = deploymentState deployment (min_replicas app);
          (routeReady, routeRejected) = routeState L route;
          s0 = setCondition L app conditionConfigurationReady CondTrue ''ResourcesReconciled''
                 ''All generated resources match the Application specification'' (baseStatus app);
          s1 = setSecurityPolicyReady L app s0;
          s2 = setServiceHealth L app (deploymentReady \<and> routeReady) routeRejected s1;
          idle = s2\<lparr>as_candidateVersion := []\<rparr>;
          candidate = s2\<lparr>as_candidateVersion := app_tag app\<rparr> in
      (if deploymentFailed then
         set_outcome L app AppDegraded CondFalse ''DeploymentFailed'' ''Deployment reported a rollout failure''
           ''DeploymentFailed'' ''Application rollout failed'' idle
       else if routeRejected then
         set_outcome L app AppDegraded (conditionFromBool deploymentReady) ''DeploymentObserved''
           ''Deployment readiness has been observed'' ''RouteRejected''
           ''HTTPRoute was rejected or has unresolved references'' idle
       else if deploymentReady \<and> routeReady \<and> dr_state digest = imageDigestInvalid then
         set_outcome L app AppDegraded CondFalse ''ImageDigestInvalid'' (dr_message digest)
           ''ImageDigestInvalid'' (dr_message digest) idle
       else if deploymentReady \<and> routeReady \<and> dr_state digest = imageDigestConflict then
         set_outcome L app AppDegraded CondFalse ''ImageDigestConflict'' (dr_message digest)
           ''ImageDigestConflict'' (dr_message digest) idle
       else if deploymentReady \<and> routeReady \<and> dr_state digest \<noteq> imageDigestResolved then
         set_outcome L app AppProgressing CondUnknown ''ResolvingImageDigest'' (dr_message digest)
           ''ResolvingImageDigest'' (dr_message digest) candidate
       else if deploymentReady \<and> routeReady then
         set_promoted L app digest sourceRevision ''DeploymentAvailable''
           ''Desired Deployment replicas are available at one runtime image digest''
           ''Deployment, runtime image digest, and HTTPRoute are ready'' s2
       else
         set_outcome L app AppProgressing CondUnknown ''Progressing''
           ''Waiting for Deployment availability and HTTPRoute acceptance''
           ''Progressing'' ''Application is progressing'' candidate,
       routeRejected))"

subsection \<open>Canary and migration statuses\<close>

record applicationRuntimeState =
  rs_deployment :: "kobject option"
  rs_route :: "kobject option"
  rs_rollout :: "kobject option"
  rs_mutated :: bool
  rs_migrating :: bool
  rs_migrationDetail :: string
  rs_analysisFailure :: string
  rs_requeueAfter :: int

definition blank_route :: kobject where
  "blank_route = with_body (new_meta [] []) (BHTTPRoute
     \<lparr>rs_parents = [], rs_hostnames = [], rs_rules = []\<rparr> [])"

definition state_route :: "applicationRuntimeState \<Rightarrow> kobject" where
  \<comment> \<open>The status functions are called with a route; every pass that succeeds sets one.\<close>
  "state_route state = (case rs_route state of Some r \<Rightarrow> r | None \<Rightarrow> blank_route)"

definition rollout_available :: "application \<Rightarrow> applicationRuntimeState \<Rightarrow> bool" where
  "rollout_available app state =
     (case rs_rollout state of
        None \<Rightarrow> False
      | Some r \<Rightarrow> ros_availableReplicas (rollout_status_of r) \<ge> min_replicas app)"

definition or_text :: "string \<Rightarrow> string \<Rightarrow> string" where
  \<comment> \<open>\<open>if message == "" { message = t }\<close>\<close>
  "or_text s t = (if s = [] then t else s)"

definition aborted_status ::
    "lib \<Rightarrow> application \<Rightarrow> applicationRuntimeState \<Rightarrow> rollout_status \<Rightarrow> app_status \<Rightarrow> app_status" where
  \<comment> \<open>An aborted or degraded Rollout, in \<open>canaryWorkloadStatus\<close>.\<close>
  "aborted_status L app state st status =
     (let message = or_text (or_text (rs_analysisFailure state) (ros_message st)) ''canary analysis failed'' in
      if routeIsStableOnly (state_route state) app then
        set_outcome L app AppDegraded CondFalse ''CanaryAnalysisFailed'' message
          ''CanaryAnalysisFailed'' message status
      else
        set_outcome L app AppRollingBack CondFalse ''CanaryRollbackInProgress'' message
          ''CanaryRollbackInProgress'' ''Returning all traffic to the last healthy release'' status)"

definition promotion_status ::
    "lib \<Rightarrow> application \<Rightarrow> bool \<Rightarrow> imageDigestResolution \<Rightarrow> string \<Rightarrow> app_status \<Rightarrow> app_status" where
  \<comment> \<open>The last switch of \<open>canaryWorkloadStatus\<close>; \<open>ready\<close> is that the Rollout is healthy and the route ready.\<close>
  "promotion_status L app ready digest sourceRevision status =
     (if ready \<and> dr_state digest = imageDigestInvalid then
        set_outcome L app AppDegraded CondFalse ''ImageDigestInvalid'' (dr_message digest)
          ''ImageDigestInvalid'' (dr_message digest) status
      else if ready \<and> dr_state digest = imageDigestConflict then
        set_outcome L app AppDegraded CondFalse ''ImageDigestConflict'' (dr_message digest)
          ''ImageDigestConflict'' (dr_message digest) status
      else if ready \<and> dr_state digest \<noteq> imageDigestResolved then
        set_outcome L app AppProgressing CondUnknown ''ResolvingImageDigest'' (dr_message digest)
          ''ResolvingImageDigest'' (dr_message digest) status
      else if ready then
        set_promoted L app digest sourceRevision ''CanaryPromoted''
          ''Rollout is Healthy at one runtime image digest''
          ''Rollout, runtime image digest, and HTTPRoute are ready'' status
      else
        let message = ''candidate is progressing through metric-gated traffic weights'' in
        set_outcome L app AppProgressing CondUnknown ''CanaryProgressing'' message
          ''CanaryProgressing'' message status)"

definition analysis_inconclusive :: "application \<Rightarrow> rollout_status \<Rightarrow> bool" where
  "analysis_inconclusive app st \<longleftrightarrow>
     (case ros_stepAnalysis st of None \<Rightarrow> False | Some a \<Rightarrow> sa_status a = ''Inconclusive'')
   \<and> \<not> dep_automaticRollback (app_dep (aspec app)) \<and> \<not> ros_abort st"

definition canaryWorkloadStatus ::
    "lib \<Rightarrow> application \<Rightarrow> applicationRuntimeState \<Rightarrow> imageDigestResolution \<Rightarrow> string
     \<Rightarrow> app_status \<times> bool" where
  "canaryWorkloadStatus L app state digest sourceRevision =
     (let (routeReady, routeRejected) = routeState L (state_route state);
          deploymentReady = fst (deploymentState (rs_deployment state) (min_replicas app));
          s0 = setCondition L app conditionConfigurationReady CondTrue ''ResourcesReconciled''
                 ''Progressive-delivery resources match the Application specification'' (baseStatus app);
          s1 = setCandidateVersion app (setSecurityPolicyReady L app s0);
          status = setServiceHealth L app (routeReady \<and> (deploymentReady \<or> rollout_available app state))
                 routeRejected s1 in
      if routeRejected then
        (set_outcome L app AppDegraded CondFalse ''RouteRejected''
           ''HTTPRoute was rejected or has unresolved references'' ''RouteRejected''
           ''HTTPRoute was rejected or has unresolved references'' status, True)
      else if rs_migrating state then
        (set_outcome L app AppProgressing CondUnknown ''StrategyMigration'' (rs_migrationDetail state)
           ''StrategyMigration'' (rs_migrationDetail state) status, False)
      else case rs_rollout state of
        None \<Rightarrow>
          (set_outcome L app AppProgressing CondUnknown ''CreatingRollout''
             ''Waiting for the Rollout controller'' ''CreatingRollout''
             ''Waiting for the Rollout controller'' status, False)
      | Some rollout \<Rightarrow>
          let st = rollout_status_of rollout in
          if analysis_inconclusive app st then
            let message = or_text (rs_analysisFailure state)
                  ''canary analysis is Inconclusive and requires an explicit promote or abort'' in
            (set_outcome L app AppProgressing CondUnknown ''CanaryAnalysisInconclusive'' message
               ''CanaryAnalysisInconclusive'' message status, False)
          else if ros_abort st \<or> ros_phase st = ''Degraded'' then
            (aborted_status L app state st status, False)
          else
            (promotion_status L app (rolloutHealthy (rs_rollout state) (min_replicas app) \<and> routeReady)
               digest sourceRevision status, False))"

definition strategyMigrationStatus :: "lib \<Rightarrow> application \<Rightarrow> applicationRuntimeState \<Rightarrow> app_status" where
  "strategyMigrationStatus L app state =
     (let s0 = setCandidateVersion app ((baseStatus app)\<lparr>as_phase := AppProgressing\<rparr>);
          s1 = setCondition L app conditionConfigurationReady CondTrue ''ResourcesReconciled''
                 ''Migration resources are reconciled'' s0;
          s2 = setSecurityPolicyReady L app s1;
          deploymentReady = fst (deploymentState (rs_deployment state) (min_replicas app));
          (routeReady, routeRejected) = routeState L (state_route state);
          s3 = setServiceHealth L app (routeReady \<and> (deploymentReady \<or> rollout_available app state))
                 routeRejected s2 in
      set_outcome L app AppProgressing CondUnknown ''StrategyMigration'' (rs_migrationDetail state)
        ''StrategyMigration'' (rs_migrationDetail state) s3)"

definition app_ops :: "(application, app_status) status_ops" where
  "app_ops = \<lparr>so_kind = KApplication, so_decode = object_application, so_encode = application_object,
     so_key = okey, so_generation = ogeneration,
     so_status = astatus, so_set_status = (\<lambda>a s. a\<lparr>astatus := s\<rparr>),
     so_observed = as_observedGeneration, so_conditions = as_conditions,
     so_set_conditions = (\<lambda>s cs. s\<lparr>as_conditions := cs\<rparr>)\<rparr>"

definition patchStatus :: "lib \<Rightarrow> nat \<Rightarrow> application \<Rightarrow> app_status \<Rightarrow> (bool \<times> go_error option) prog" where
  "patchStatus L retries app desired = patch_status app_ops L retries app desired"

interpretation app_status_object: status_object app_ops
  by unfold_locales (simp_all add: app_ops_def)

end
