(* ===== verification/Db_Status.thy ===== *)
theory Db_Status
  imports Db_Resources Db_Policy App_Status
begin

section \<open>What a Database reports\<close>

text \<open>
  The statuses of the Database controller and what they are computed from: the readiness that CloudNativePG
  reports in the Cluster, and the state of the backups of that Cluster. A \<open>metav1.Time\<close> is an instant;
  the zero time is an instant too, as it is in Go.
\<close>

subsection \<open>Reading unstructured objects\<close>

definition json_of :: "kobject \<Rightarrow> json" where
  "json_of obj = (case kbody obj of BUnstructured g j \<Rightarrow> j | _ \<Rightarrow> JObj [])"

definition nested_string :: "lib \<Rightarrow> kobject \<Rightarrow> string list \<Rightarrow> string option" where
  "nested_string L obj path = (case nested_field L (json_of obj) path of Some (JStr s) \<Rightarrow> Some s | _ \<Rightarrow> None)"

definition text_or_empty :: "string option \<Rightarrow> string" where
  "text_or_empty s = (case s of None \<Rightarrow> [] | Some t \<Rightarrow> t)"

definition created_at :: "kobject \<Rightarrow> int" where
  "created_at obj = (case ocreated obj of None \<Rightarrow> zero_time | Some t \<Rightarrow> t)"

subsection \<open>Backups\<close>

record databaseBackupState =
  bs_lastSuccessful :: "int option"
  bs_latestPhase :: string

definition parsed_field :: "lib \<Rightarrow> kobject \<Rightarrow> string \<Rightarrow> int option" where
  "parsed_field L backup field =
     (case nested_string L backup [''status'', field] of
        None \<Rightarrow> None
      | Some value \<Rightarrow> map_option t_instant (parse_rfc3339 L value))"

definition backupTimestamp :: "lib \<Rightarrow> kobject \<Rightarrow> int" where
  "backupTimestamp L backup =
     (case parsed_field L backup ''stoppedAt'' of
        Some t \<Rightarrow> t
      | None \<Rightarrow> (case parsed_field L backup ''startedAt'' of Some t \<Rightarrow> t | None \<Rightarrow> created_at backup))"

definition backup_phase :: "lib \<Rightarrow> kobject \<Rightarrow> string" where
  "backup_phase L backup = text_or_empty (nested_string L backup [''status'', ''phase''])"

definition backup_of_cluster :: "lib \<Rightarrow> string \<Rightarrow> kobject \<Rightarrow> bool" where
  "backup_of_cluster L clusterName backup \<longleftrightarrow>
     text_or_empty (nested_string L backup [''spec'', ''cluster'', ''name'']) = clusterName"

fun backup_loop ::
    "lib \<Rightarrow> string \<Rightarrow> int \<Rightarrow> databaseBackupState \<Rightarrow> kobject list \<Rightarrow> databaseBackupState" where
  "backup_loop L clusterName latestAttempt state [] = state"
| "backup_loop L clusterName latestAttempt state (backup # rest) =
     (if \<not> backup_of_cluster L clusterName backup
      then backup_loop L clusterName latestAttempt state rest
      else
        let phase = backup_phase L backup; attemptTime = backupTimestamp L backup;
            newer = (latestAttempt = zero_time \<or> attemptTime > latestAttempt);
            s1 = (if newer then state\<lparr>bs_latestPhase := to_lower phase\<rparr> else state);
            s2 = (if equal_fold phase ''completed''
                    \<and> (case bs_lastSuccessful s1 of None \<Rightarrow> True | Some t \<Rightarrow> attemptTime > t)
                  then s1\<lparr>bs_lastSuccessful := Some attemptTime\<rparr> else s1) in
        backup_loop L clusterName (if newer then attemptTime else latestAttempt) s2 rest)"

definition no_backups :: databaseBackupState where
  "no_backups = \<lparr>bs_lastSuccessful = None, bs_latestPhase = []\<rparr>"

definition observeDatabaseBackups :: "lib \<Rightarrow> database \<Rightarrow> (go_error + databaseBackupState) prog" where
  "observeDatabaseBackups L d = do {
     r \<leftarrow> client_list (KUnstructured CNPGBackupGVK) (Some (onamespace d)) Map.empty;
     case r of
       Inl e \<Rightarrow> if err_reason e = NoMatch then ret (Inr no_backups) else ret (Inl e)
     | Inr items \<Rightarrow> ret (Inr (backup_loop L (DatabaseClusterName d) zero_time no_backups items)) }"

subsection \<open>Statuses\<close>

definition conditionDatabaseConfigurationReady :: string where
  "conditionDatabaseConfigurationReady = ''ConfigurationReady''"
definition conditionDatabaseClusterReady :: string where
  "conditionDatabaseClusterReady = ''ClusterReady''"
definition conditionDatabaseBackupHealthy :: string where
  "conditionDatabaseBackupHealthy = ''BackupHealthy''"
definition conditionManagedDatabaseReady :: string where "conditionManagedDatabaseReady = ''Ready''"

lemmas db_condition_defs =
  conditionDatabaseConfigurationReady_def conditionDatabaseClusterReady_def
  conditionDatabaseBackupHealthy_def conditionManagedDatabaseReady_def

definition setDatabaseCondition ::
    "lib \<Rightarrow> database \<Rightarrow> string \<Rightarrow> cond_status \<Rightarrow> string \<Rightarrow> string \<Rightarrow> db_status \<Rightarrow> db_status" where
  "setDatabaseCondition L d conditionType conditionStatus reason message status =
     status\<lparr>ds_conditions := set_status_condition L (ds_conditions status)
       (mk_condition conditionType conditionStatus (ogeneration d) reason message)\<rparr>"

definition databaseBaseStatus :: "lib \<Rightarrow> database \<Rightarrow> db_status" where
  "databaseBaseStatus L d =
     (let s = dstatus d in
      s\<lparr>ds_conditions := remove_status_condition L (ds_conditions s) conditionApplicationDatabaseReady,
        ds_observedGeneration := ogeneration d,
        ds_connectionSecretName := DatabaseConnectionSecretName d,
        ds_backupServerName := DatabaseBackupServerName d,
        ds_resolvedGitRevision := (case ResolvedSourceRevision d of
           Inr revision \<Rightarrow> revision | Inl _ \<Rightarrow> ds_resolvedGitRevision s),
        ds_recoverySourceServerName := (case db_rec (dspec d) of
           Some recovery \<Rightarrow> rec_sourceServerName recovery | None \<Rightarrow> ds_recoverySourceServerName s)\<rparr>)"

definition db_layers :: "string list" where
  "db_layers = [conditionDatabaseConfigurationReady, conditionDatabaseClusterReady,
     conditionDatabaseBackupHealthy, conditionManagedDatabaseReady]"

definition databaseFailureStatus :: "lib \<Rightarrow> database \<Rightarrow> string \<Rightarrow> string \<Rightarrow> db_status" where
  "databaseFailureStatus L d reason message =
     fold (\<lambda>ty. setDatabaseCondition L d ty CondFalse reason message) db_layers
       ((databaseBaseStatus L d)\<lparr>ds_phase := DbDegraded\<rparr>)"

definition databaseDeletingStatus :: "lib \<Rightarrow> database \<Rightarrow> bool \<Rightarrow> string \<Rightarrow> db_status" where
  "databaseDeletingStatus L d backupReady message =
     setDatabaseCondition L d conditionManagedDatabaseReady CondFalse ''Deleting'' message
       (setDatabaseCondition L d conditionDatabaseBackupHealthy (if backupReady then CondTrue else CondFalse)
          ''FinalBackup'' message ((databaseBaseStatus L d)\<lparr>ds_phase := DbDeleting\<rparr>))"

definition is_ready_condition :: "json \<Rightarrow> bool" where
  "is_ready_condition raw = (case raw of
     JObj es \<Rightarrow> map_of es ''type'' = Some (JStr ''Ready'') \<and> map_of es ''status'' = Some (JStr ''True'')
   | _ \<Rightarrow> False)"

definition cluster_ready :: "lib \<Rightarrow> kobject \<Rightarrow> bool" where
  "cluster_ready L cluster =
     (case nested_field L (json_of cluster) [''status'', ''conditions''] of
        Some (JArr conditions) \<Rightarrow> list_ex is_ready_condition conditions
      | _ \<Rightarrow> False)"

definition backup_outcome ::
    "lib \<Rightarrow> database \<Rightarrow> db_phase \<Rightarrow> cond_status \<Rightarrow> string \<Rightarrow> string \<Rightarrow> cond_status \<Rightarrow> string \<Rightarrow> string
     \<Rightarrow> db_status \<Rightarrow> db_status" where
  "backup_outcome L d phase healthy reason message ready readyReason readyMessage status =
     setDatabaseCondition L d conditionManagedDatabaseReady ready readyReason readyMessage
       (setDatabaseCondition L d conditionDatabaseBackupHealthy healthy reason message
         (status\<lparr>ds_phase := phase\<rparr>))"

definition ready_cluster_status :: "lib \<Rightarrow> database \<Rightarrow> databaseBackupState \<Rightarrow> db_status \<Rightarrow> db_status" where
  \<comment> \<open>The switch of \<open>databaseStatusFromCluster\<close> for a ready cluster.\<close>
  "ready_cluster_status L d backupState status =
     (if \<not> bk_enabled (db_bk (dspec d)) then
        backup_outcome L d DbHealthy CondTrue ''BackupsDisabled'' ''Backups are explicitly disabled''
          CondTrue ''DatabaseReady'' ''PostgreSQL is ready'' status
      else if bs_latestPhase backupState = ''failed'' then
        backup_outcome L d DbDegraded CondFalse ''BackupFailed'' ''The latest Barman backup failed''
          CondFalse ''BackupFailed'' ''PostgreSQL is available but backup health is degraded'' status
      else if bs_lastSuccessful backupState = None then
        backup_outcome L d DbBackingUp CondUnknown ''AwaitingFirstBackup''
          ''Waiting for the first successful Barman backup''
          CondFalse ''AwaitingFirstBackup'' ''Database readiness requires a successful backup'' status
      else if bs_latestPhase backupState = ''pending'' \<or> bs_latestPhase backupState = ''running'' then
        backup_outcome L d DbBackingUp CondTrue ''BackupInProgress''
          ''A new backup is running after a successful backup''
          CondTrue ''DatabaseReady'' ''PostgreSQL is ready and has a successful backup'' status
      else
        backup_outcome L d DbHealthy CondTrue ''BackupSucceeded'' ''A successful Barman backup is available''
          CondTrue ''DatabaseReady'' ''PostgreSQL and backup health are ready'' status)"

definition databaseStatusFromCluster :: "lib \<Rightarrow> database \<Rightarrow> kobject \<Rightarrow> databaseBackupState \<Rightarrow> db_status" where
  "databaseStatusFromCluster L d cluster backupState =
     (let s0 = (databaseBaseStatus L d)\<lparr>ds_lastSuccessfulBackup := bs_lastSuccessful backupState\<rparr>;
          s1 = (if cluster_ready L cluster then
                  ready_cluster_status L d backupState
                    (setDatabaseCondition L d conditionDatabaseClusterReady CondTrue ''ClusterReady''
                       ''CloudNativePG reports the PostgreSQL cluster Ready'' s0)
                else
                  backup_outcome L d (if db_rec (dspec d) \<noteq> None then DbRestoring else DbProvisioning)
                    CondUnknown ''ClusterProgressing'' ''Backup health awaits PostgreSQL readiness''
                    CondFalse ''ClusterProgressing'' ''Database is progressing''
                    (setDatabaseCondition L d conditionDatabaseClusterReady CondFalse
                       ''ClusterProgressing'' ''Waiting for CloudNativePG readiness'' s0)) in
      setDatabaseCondition L d conditionDatabaseConfigurationReady CondTrue ''ResourcesReconciled''
        ''Database configuration and generated resources are valid'' s1)"

definition database_ops :: "(database, db_status) status_ops" where
  "database_ops = \<lparr>so_kind = KDatabase, so_decode = object_database, so_encode = database_object,
     so_key = okey, so_generation = ogeneration,
     so_status = dstatus, so_set_status = (\<lambda>d s. d\<lparr>dstatus := s\<rparr>),
     so_observed = ds_observedGeneration, so_conditions = ds_conditions,
     so_set_conditions = (\<lambda>s cs. s\<lparr>ds_conditions := cs\<rparr>)\<rparr>"

definition patchDatabaseStatus ::
    "lib \<Rightarrow> nat \<Rightarrow> database \<Rightarrow> db_status \<Rightarrow> (bool \<times> go_error option) prog" where
  "patchDatabaseStatus L retries d desired = patch_status database_ops L retries d desired"

interpretation db_status_object: status_object database_ops
  by unfold_locales (simp_all add: database_ops_def)

end
