(* ===== verification/Db_Controller.thy ===== *)
theory Db_Controller
  imports Db_Status Team_Controller
begin

section \<open>The Database controller\<close>

text \<open>
  \<open>internal/controller/database_controller.go\<close>: the reconcile pass of a Database, which writes the backup
  objects, the CloudNativePG Cluster, the NetworkPolicies and the monitoring objects, and reports what it
  observes; and the deletion, which takes a final backup before it deletes the Cluster and releases the
  finalizer. \<open>endpoint\<close> is the reconciler's \<open>BackupStoreEndpoint\<close>.
\<close>

subsection \<open>Owned objects\<close>

definition set_controller :: "lib \<Rightarrow> 'a objmeta_scheme \<Rightarrow> kobject \<Rightarrow> go_error + kobject" where
  \<comment> \<open>\<open>controllerutil.SetControllerReference(owner, obj)\<close>\<close>
  "set_controller L owner obj =
     (case set_controller_reference L (objmeta.truncate owner) (objmeta.truncate obj) of
        Inl e \<Rightarrow> Inl (plain_error e)
      | Inr m \<Rightarrow> Inr (with_body m (kbody obj)))"

definition upsert_changed :: "go_error + op_result \<times> kobject \<Rightarrow> go_error + bool" where
  "upsert_changed r = (case r of Inl e \<Rightarrow> Inl e | Inr (op, _) \<Rightarrow> Inr (op \<noteq> OpNone))"

definition current_or :: "kobject \<Rightarrow> go_error + kobject \<Rightarrow> go_error + kobject" where
  \<comment> \<open>What \<open>Get\<close> leaves in \<open>current\<close>: an absent object leaves it as it was.\<close>
  "current_or blank r = (case r of
     Inr obj \<Rightarrow> Inr obj
   | Inl e \<Rightarrow> if err_reason e = NotFound then Inr blank else Inl e)"

definition reconcileDatabaseObject ::
    "lib \<Rightarrow> database \<Rightarrow> kobject \<Rightarrow> (body \<Rightarrow> body) \<Rightarrow> (go_error + bool) prog" where
  "reconcileDatabaseObject L d desired mutate = do {
     g \<leftarrow> client_get (okind desired) (okey desired);
     case current_or (desired\<lparr>ouid := [], ocontroller := None\<rparr>) g of
       Inl e \<Rightarrow> ret (Inl e)
     | Inr start \<Rightarrow> do {
         r \<leftarrow> create_or_update start (\<lambda>current.
             case set_controller L d (current\<lparr>olabels := olabels desired,
                    oannotations := oannotations desired\<rparr>) of
               Inl e \<Rightarrow> Inl e
             | Inr current \<Rightarrow> Inr (current\<lparr>kbody := mutate (kbody current)\<rparr>));
         ret (upsert_changed r) } }"

definition nested_error :: go_error where
  "nested_error = plain_error ''value of an unstructured field has the wrong type''"

definition gvk_of :: "kobject \<Rightarrow> gvk" where
  "gvk_of obj = (case kbody obj of BUnstructured g j \<Rightarrow> g
     | _ \<Rightarrow> \<lparr>gvk_group = [], gvk_version = [], gvk_kind = []\<rparr>)"

definition copy_spec_map :: "lib \<Rightarrow> string \<Rightarrow> kobject \<Rightarrow> kobject \<Rightarrow> go_error + kobject" where
  \<comment> \<open>\<open>NestedMap(desired, "spec")\<close>, then \<open>SetNestedMap(current, spec, "spec")\<close>\<close>
  "copy_spec_map L missing desired current =
     (case nested_field L (json_of desired) [''spec''] of
        Some (JObj spec) \<Rightarrow>
          (case set_nested_field L (json_of current) [''spec''] (JObj spec) of
             None \<Rightarrow> Inl nested_error
           | Some j \<Rightarrow> Inr (current\<lparr>kbody := BUnstructured (gvk_of current) j\<rparr>))
      | _ \<Rightarrow> Inl (plain_error missing))"

definition blank_unstructured :: "kobject \<Rightarrow> kobject" where
  "blank_unstructured desired = with_body (new_meta (onamespace desired) (oname desired))
     (BUnstructured (gvk_of desired) (JObj []))"

definition reconcileDatabaseUnstructured :: "lib \<Rightarrow> database \<Rightarrow> kobject \<Rightarrow> (go_error + bool) prog" where
  "reconcileDatabaseUnstructured L d desired = do {
     g \<leftarrow> client_get (okind desired) (okey desired);
     case current_or (blank_unstructured desired) g of
       Inl e \<Rightarrow> ret (Inl e)
     | Inr start \<Rightarrow> do {
         r \<leftarrow> create_or_update start (\<lambda>current.
             case set_controller L d (current\<lparr>olabels := olabels desired,
                    oannotations := oannotations desired\<rparr>) of
               Inl e \<Rightarrow> Inl e
             | Inr current \<Rightarrow>
                 copy_spec_map L (''desired '' @ gvk_kind (gvk_of desired) @ '' spec: %!w(<nil>)'') desired current);
         ret (upsert_changed r) } }"

definition reconcileDatabaseFinalBackup :: "lib \<Rightarrow> kobject \<Rightarrow> (go_error + bool) prog" where
  "reconcileDatabaseFinalBackup L desired = do {
     g \<leftarrow> client_get (okind desired) (okey desired);
     case current_or (blank_unstructured desired) g of
       Inl e \<Rightarrow> ret (Inl e)
     | Inr start \<Rightarrow> do {
         r \<leftarrow> create_or_update start (\<lambda>current.
             copy_spec_map L ''desired final Backup spec is missing'' desired
               (current\<lparr>olabels := olabels desired, oannotations := oannotations desired,
                  ocontroller := None\<rparr>));
         ret (upsert_changed r) } }"

definition deleted :: "go_error option \<Rightarrow> go_error + bool" where
  \<comment> \<open>\<open>return true, client.IgnoreNotFound(err)\<close>\<close>
  "deleted err = (case err of
     Some e \<Rightarrow> if err_reason e = NotFound then Inr True else Inl e
   | None \<Rightarrow> Inr True)"

definition deleteDatabaseObject :: "kobject \<Rightarrow> (go_error + bool) prog" where
  "deleteDatabaseObject obj = do {
     g \<leftarrow> client_get (okind obj) (okey obj);
     case g of
       Inl e \<Rightarrow> ret (if err_reason e = NotFound then Inr False else Inl e)
     | Inr current \<Rightarrow> do { err \<leftarrow> client_delete (okind obj) (okey current); ret (deleted err) } }"

definition deleteDatabaseObjectIfControlledBy :: "database \<Rightarrow> kobject \<Rightarrow> (go_error + bool) prog" where
  "deleteDatabaseObjectIfControlledBy d obj = do {
     g \<leftarrow> client_get (okind obj) (okey obj);
     case g of
       Inl e \<Rightarrow> ret (if err_reason e = NotFound then Inr False else Inl e)
     | Inr current \<Rightarrow>
         if ocontroller current \<noteq> Some (ouid d) then ret (Inr False)
         else do { err \<leftarrow> client_delete (okind obj) (okey current); ret (deleted err) } }"

subsection \<open>Tenancy, endpoint, metrics and events\<close>

definition endpointCIDR :: "lib \<Rightarrow> string \<Rightarrow> string" where
  "endpointCIDR L endpoint =
     (if endpoint = [] then ''172.30.240.10/32''
      else case url_hostname L endpoint of
          Some hostname \<Rightarrow>
            if hostname \<noteq> [] \<and> length (filter (\<lambda>c. c = CHR ''.'') hostname) = 3
            then hostname @ ''/32'' else ''172.30.240.10/32''
        | None \<Rightarrow> ''172.30.240.10/32'')"

definition validateDatabaseTenancy :: "database \<Rightarrow> go_error option prog" where
  "validateDatabaseTenancy d = do {
     r \<leftarrow> client_get KNamespace ([], onamespace d);
     ret (case r of
       Inl _ \<Rightarrow> Some (plain_error ''managed Team namespace is unavailable'')
     | Inr namespace \<Rightarrow>
         if map_get (olabels namespace) TeamLabelKey = []
            \<or> map_get (olabels namespace) ''app.kubernetes.io/managed-by'' \<noteq> ManagedBy
         then Some (plain_error ''database must be created in a SteadyState Team namespace'')
         else None) }"

definition databaseBackupHealthyMetric :: string where
  "databaseBackupHealthyMetric = ''steadystate_database_backup_healthy''"
definition databaseLastSuccessfulBackupMetric :: string where
  "databaseLastSuccessfulBackupMetric = ''steadystate_database_last_successful_backup_timestamp_seconds''"

definition set_gauge :: "string \<Rightarrow> nsname \<Rightarrow> rat \<Rightarrow> unit prog" where
  "set_gauge g key v = do { _ \<leftarrow> invoke (SetGauge g key v); ret () }"

definition drop_gauge :: "string \<Rightarrow> nsname \<Rightarrow> unit prog" where
  "drop_gauge g key = do { _ \<leftarrow> invoke (DropGauge g key); ret () }"

definition backup_health_value :: "lib \<Rightarrow> db_status \<Rightarrow> rat" where
  "backup_health_value L status =
     (case find_status_condition L (ds_conditions status) conditionDatabaseBackupHealthy of
        None \<Rightarrow> -1
      | Some c \<Rightarrow> (case cstatus c of CondTrue \<Rightarrow> 1 | CondFalse \<Rightarrow> 0 | CondUnknown \<Rightarrow> -1))"

definition updateDatabaseBackupMetrics :: "lib \<Rightarrow> database \<Rightarrow> db_status \<Rightarrow> unit prog" where
  "updateDatabaseBackupMetrics L d status = do {
     _ \<leftarrow> set_gauge databaseBackupHealthyMetric (okey d) (backup_health_value L status);
     (case ds_lastSuccessfulBackup status of
        None \<Rightarrow> ret ()
      | Some t \<Rightarrow> set_gauge databaseLastSuccessfulBackupMetric (okey d) (of_int (t div 10 ^ 9))) }"

definition eventDatabase :: "database \<Rightarrow> string \<Rightarrow> string \<Rightarrow> string \<Rightarrow> unit prog" where
  "eventDatabase d eventType reason message = send_event (database_object d) eventType reason message"

subsection \<open>Deletion\<close>

definition force_deleted :: "database \<Rightarrow> bool" where
  "force_deleted d = equal_fold (map_get (oannotations d) ForceDeleteAnnotationKey) ''true''"

definition finalization_event :: "bool \<Rightarrow> database \<Rightarrow> string \<times> string" where
  "finalization_event force d =
     (if force then
        (EventTypeWarning, ''Database finalizer was force-released with explicit data-loss acceptance'')
      else if bk_enabled (db_bk (dspec d)) then
        (EventTypeNormal, ''Final backup completed and external backup objects were retained'')
      else (EventTypeNormal, ''Database finalization completed; backups were disabled''))"

definition release_database :: "lib \<Rightarrow> database \<Rightarrow> reconcile_result prog" where
  \<comment> \<open>The end of \<open>reconcileDatabaseDeletion\<close>, from the deletion of the Cluster on.\<close>
  "release_database L d = do {
     err \<leftarrow> client_delete (KUnstructured CNPGClusterGVK) (okey (DatabaseCluster d));
     if err \<noteq> None \<and> err_reason (the err) \<noteq> NotFound then ret (0, err)
     else do {
       r \<leftarrow> client_patch (database_object d) (database_object
             (d\<lparr>ofinalizers := remove_finalizer L (ofinalizers d) DatabaseFinalizer\<rparr>));
       case decoded object_database r of
         Inl e \<Rightarrow> ret (0, Some e)
       | Inr patched \<Rightarrow>
           let (eventType, message) = finalization_event (force_deleted d) patched in do {
           _ \<leftarrow> drop_gauge databaseBackupHealthyMetric (okey patched);
           _ \<leftarrow> drop_gauge databaseLastSuccessfulBackupMetric (okey patched);
           _ \<leftarrow> eventDatabase patched eventType ''FinalizerReleased'' message;
           ret (0, None) } } }"

definition final_backup_message :: "string \<Rightarrow> string" where
  "final_backup_message phase =
     (if equal_fold phase ''failed''
      then ''final Barman backup failed; repair backup storage or set steadystate.dev/force-delete=true to accept data-loss risk''
      else ''waiting for the deterministic final Barman backup to complete'')"

definition delete_final_backup :: "lib \<Rightarrow> database \<Rightarrow> reconcile_result prog" where
  "delete_final_backup L d = do {
     err \<leftarrow> client_delete (KUnstructured CNPGBackupGVK) (okey (DatabaseFinalBackup d));
     if err \<noteq> None \<and> err_reason (the err) \<noteq> NotFound then ret (0, err)
     else release_database L d }"

definition await_final_backup :: "lib \<Rightarrow> nat \<Rightarrow> database \<Rightarrow> reconcile_result prog" where
  "await_final_backup L n d = do {
     r \<leftarrow> client_get (KUnstructured CNPGBackupGVK) (okey (DatabaseFinalBackup d));
     case r of
       Inl e \<Rightarrow> ret (0, Some e)
     | Inr finalBackup \<Rightarrow>
         let phase = backup_phase L finalBackup in
         if \<not> equal_fold phase ''completed'' then do {
           _ \<leftarrow> patchDatabaseStatus L n d (databaseDeletingStatus L d False (final_backup_message phase));
           ret (0, None) }
         else delete_final_backup L d }"

definition reconcileDatabaseDeletion :: "lib \<Rightarrow> nat \<Rightarrow> database \<Rightarrow> reconcile_result prog" where
  "reconcileDatabaseDeletion L n d =
     (if \<not> contains_finalizer L (ofinalizers d) DatabaseFinalizer then ret (0, None)
      else if bk_enabled (db_bk (dspec d)) \<and> \<not> force_deleted d then do {
        r \<leftarrow> reconcileDatabaseFinalBackup L (DatabaseFinalBackup d);
        case r of
          Inl e \<Rightarrow> do {
            _ \<leftarrow> patchDatabaseStatus L n d (databaseDeletingStatus L d False (err_text e));
            ret (0, Some e) }
        | Inr _ \<Rightarrow> await_final_backup L n d }
      else if force_deleted d then delete_final_backup L d
      else release_database L d)"

subsection \<open>The reconcile pass\<close>

definition cut_message :: "string \<Rightarrow> string" where
  \<comment> \<open>\<open>strings.Join(strings.Fields(s), " ")\<close>, cut at 512 bytes\<close>
  "cut_message s = take 512 (join '' '' (str_fields s))"

definition databaseReconcileFailure :: "lib \<Rightarrow> nat \<Rightarrow> database \<Rightarrow> go_error \<Rightarrow> reconcile_result prog" where
  "databaseReconcileFailure L n d reconcileErr = do {
     (_, statusErr) \<leftarrow> patchDatabaseStatus L n d
        (databaseFailureStatus L d ''ReconciliationFailed'' (cut_message (err_text reconcileErr)));
     case statusErr of
       Some e \<Rightarrow> ret (0, Some (wrap_error ''reconcile Database: '' reconcileErr (''; status: '' @ err_text e)))
     | None \<Rightarrow> ret (0, Some reconcileErr) }"

fun database_steps ::
    "lib \<Rightarrow> nat \<Rightarrow> database \<Rightarrow> (go_error + bool) prog list \<Rightarrow> bool \<Rightarrow> (bool \<Rightarrow> reconcile_result prog)
     \<Rightarrow> reconcile_result prog" where
  \<comment> \<open>\<open>changed, err = step(); mutated = mutated || changed; if err != nil { return failure }\<close>, one after the other\<close>
  "database_steps L n d [] mutated rest = rest mutated"
| "database_steps L n d (step # steps) mutated rest = do {
     r \<leftarrow> step;
     case r of
       Inl e \<Rightarrow> databaseReconcileFailure L n d e
     | Inr changed \<Rightarrow> database_steps L n d steps (mutated \<or> changed) rest }"

definition backup_write_steps :: "lib \<Rightarrow> string \<Rightarrow> database \<Rightarrow> kobject \<Rightarrow> (go_error + bool) prog list" where
  "backup_write_steps L endpoint d source =
     (let credential = DatabaseBackupCredential d source in
      [reconcileDatabaseObject L d credential (\<lambda>_. kbody credential),
       reconcileDatabaseUnstructured L d (DatabaseObjectStore d endpoint),
       reconcileDatabaseUnstructured L d (DatabaseScheduledBackup d)])"

definition backup_removal_steps :: "lib \<Rightarrow> string \<Rightarrow> database \<Rightarrow> (go_error + bool) prog list" where
  "backup_removal_steps L endpoint d = map deleteDatabaseObject
     [DatabaseBackupCredential d blank_secret, DatabaseObjectStore d endpoint, DatabaseScheduledBackup d,
      DatabaseBackupNetworkPolicy d (endpointCIDR L endpoint)]"

definition cluster_steps :: "lib \<Rightarrow> string \<Rightarrow> database \<Rightarrow> (go_error + bool) prog list" where
  "cluster_steps L endpoint d =
     reconcileDatabaseUnstructured L d (DatabaseCluster d)
     # map (\<lambda>p. reconcileDatabaseObject L d p (\<lambda>_. kbody p))
         (DatabaseNetworkPolicies d (endpointCIDR L endpoint))
     @ map (reconcileDatabaseUnstructured L d) [DatabaseServiceMonitor d, DatabasePrometheusRule L d]
     @ map (deleteDatabaseObjectIfControlledBy d) (LegacyDatabaseMonitoringResources d)"

definition database_status_step :: "lib \<Rightarrow> nat \<Rightarrow> database \<Rightarrow> bool \<Rightarrow> reconcile_result prog" where
  \<comment> \<open>The end of \<open>Reconcile\<close>: observe the Cluster and the backups, report.\<close>
  "database_status_step L n d mutated = do {
     g \<leftarrow> client_get (KUnstructured CNPGClusterGVK) (okey (DatabaseCluster d));
     case g of
       Inl e \<Rightarrow> databaseReconcileFailure L n d e
     | Inr cluster \<Rightarrow> do {
         b \<leftarrow> observeDatabaseBackups L d;
         case b of
           Inl e \<Rightarrow> databaseReconcileFailure L n d e
         | Inr backupState \<Rightarrow>
             let status = databaseStatusFromCluster L d cluster backupState in do {
             _ \<leftarrow> updateDatabaseBackupMetrics L d status;
             (statusChanged, err) \<leftarrow> patchDatabaseStatus L n d status;
             if err \<noteq> None then ret (0, err)
             else do {
               _ \<leftarrow> (if mutated \<or> statusChanged then eventDatabase d EventTypeNormal ''Reconciled''
                       ''Database, backup, monitoring, and network resources were reconciled''
                     else ret ());
               ret (0, None) } } } }"

definition report_failure :: "lib \<Rightarrow> nat \<Rightarrow> database \<Rightarrow> string \<Rightarrow> string \<Rightarrow> reconcile_result prog" where
  \<comment> \<open>\<open>_, statusErr := r.patchDatabaseStatus(...); return ctrl.Result{}, statusErr\<close>\<close>
  "report_failure L n d reason message = do {
     (_, statusErr) \<leftarrow> patchDatabaseStatus L n d (databaseFailureStatus L d reason message);
     ret (0, statusErr) }"

definition reconcile_database :: "lib \<Rightarrow> string \<Rightarrow> nat \<Rightarrow> database \<Rightarrow> reconcile_result prog" where
  \<comment> \<open>\<open>Reconcile\<close> of a valid Database in a Team namespace\<close>
  "reconcile_database L endpoint n d =
     (let finish = database_steps L n d (cluster_steps L endpoint d) in
      if bk_enabled (db_bk (dspec d)) then do {
        g \<leftarrow> client_get KSecret (BackupStoreSourceNamespace, BackupStoreSourceSecretName);
        case g of
          Inl e \<Rightarrow> do {
            (_, statusErr) \<leftarrow> patchDatabaseStatus L n d (databaseFailureStatus L d
               ''BackupCredentialUnavailable'' ''platform backup credential is unavailable'');
            ret (0, if statusErr \<noteq> None then statusErr else ignore_not_found e) }
        | Inr source \<Rightarrow>
            if map_get (secret_data source) ''ACCESS_KEY_ID'' = []
               \<or> map_get (secret_data source) ''ACCESS_SECRET_KEY'' = [] then
              report_failure L n d ''BackupCredentialInvalid''
                ''platform backup credential is missing required keys''
            else database_steps L n d (backup_write_steps L endpoint d source) False
              (\<lambda>mutated. finish mutated (database_status_step L n d)) }
      else database_steps L n d (backup_removal_steps L endpoint d) False
        (\<lambda>mutated. finish mutated (database_status_step L n d)))"

definition ensure_database_finalizer :: "lib \<Rightarrow> database \<Rightarrow> (go_error + database) prog" where
  "ensure_database_finalizer L d =
     (if \<not> contains_finalizer L (ofinalizers d) DatabaseFinalizer then do {
        r \<leftarrow> client_patch (database_object d) (database_object
              (d\<lparr>ofinalizers := add_finalizer L (ofinalizers d) DatabaseFinalizer\<rparr>));
        ret (decoded object_database r) }
      else ret (Inr d))"

definition Database_Reconcile :: "lib \<Rightarrow> string \<Rightarrow> nat \<Rightarrow> nsname \<Rightarrow> reconcile_result prog" where
  "Database_Reconcile L endpoint n req = do {
     r \<leftarrow> client_get KDatabase req;
     case decoded object_database r of
       Inl e \<Rightarrow> ret (0, ignore_not_found e)
     | Inr d \<Rightarrow>
         if odeleting d then reconcileDatabaseDeletion L n d
         else do {
           f \<leftarrow> ensure_database_finalizer L d;
           case f of
             Inl e \<Rightarrow> ret (0, Some e)
           | Inr d \<Rightarrow>
               (case Db_Validate L d of
                  Some err \<Rightarrow> report_failure L n d ''InvalidConfiguration'' (db_error_text err)
                | None \<Rightarrow> do {
                    t \<leftarrow> validateDatabaseTenancy d;
                    case t of
                      Some e \<Rightarrow> report_failure L n d ''TenancyRejected'' (err_text e)
                    | None \<Rightarrow> reconcile_database L endpoint n d }) } }"

subsection \<open>Requests for a Database\<close>

definition databaseRequestsForApplication :: "kobject \<Rightarrow> nsname list" where
  "databaseRequestsForApplication obj =
     (case object_application obj of
        None \<Rightarrow> []
      | Some app \<Rightarrow> (case app_databaseRef (aspec app) of
            None \<Rightarrow> [] | Some db \<Rightarrow> [(onamespace app, db)]))"

definition databasesForBackupCredential :: "kobject \<Rightarrow> nsname list prog" where
  "databasesForBackupCredential obj =
     (if onamespace obj \<noteq> BackupStoreSourceNamespace \<or> oname obj \<noteq> BackupStoreSourceSecretName then ret []
      else do {
        r \<leftarrow> client_list KDatabase None Map.empty;
        case r of Inl _ \<Rightarrow> ret [] | Inr items \<Rightarrow> ret (map okey items) })"

definition databaseForBackup :: "lib \<Rightarrow> kobject \<Rightarrow> nsname list prog" where
  "databaseForBackup L backup =
     (case nested_string L backup [''spec'', ''cluster'', ''name''] of
        None \<Rightarrow> ret []
      | Some clusterName \<Rightarrow>
          if clusterName = [] then ret []
          else do {
            r \<leftarrow> client_list KDatabase (Some (onamespace backup)) Map.empty;
            case r of
              Inl _ \<Rightarrow> ret []
            | Inr items \<Rightarrow>
                ret (case List.find (\<lambda>i. DatabaseClusterNameFor (oname i) = clusterName) items of
                  None \<Rightarrow> [] | Some i \<Rightarrow> [okey i]) })"

end
