(* ===== verification/App_Controller.thy ===== *)
theory App_Controller
  imports Db_Controller
begin

section \<open>The Application controller\<close>

text \<open>
  \<open>application_controller.go\<close>, \<open>application_provenance.go\<close> and \<open>application_progressive.go\<close>: the reconcile pass of
  an Application, the admission checks before it (validation, tenancy, database), the objects it writes for a
  rolling or a canary strategy, the migration between the two, and the reports at the end. \<open>pd\<close> is the
  reconciler's \<open>hasProgressiveDelivery()\<close>.
\<close>

subsection \<open>Errors in sequence\<close>

definition and_then :: "(go_error + 'a) prog \<Rightarrow> ('a \<Rightarrow> (go_error + 'b) prog) \<Rightarrow> (go_error + 'b) prog" where
  \<comment> \<open>\<open>a, err := m(); if err != nil { return err }\<close>, then \<open>f(a)\<close>\<close>
  "and_then m f = do { r \<leftarrow> m; case r of Inl e \<Rightarrow> ret (Inl e) | Inr a \<Rightarrow> f a }"

definition wrapping :: "string \<Rightarrow> (go_error + 'a) prog \<Rightarrow> (go_error + 'a) prog" where
  \<comment> \<open>\<open>fmt.Errorf("prefix: %w", err)\<close>\<close>
  "wrapping prefix m = do {
     r \<leftarrow> m; ret (case r of Inl e \<Rightarrow> Inl (wrap_error prefix e []) | Inr a \<Rightarrow> Inr a) }"

definition ok :: "'a \<Rightarrow> (go_error + 'a) prog" where "ok a = ret (Inr a)"

subsection \<open>Admission of an Application\<close>

type_synonym applicationTenancyFailure = "string \<times> string"   \<comment> \<open>reason and message\<close>

definition validateApplicationTenancy ::
    "lib \<Rightarrow> application \<Rightarrow> kobject \<Rightarrow> team \<Rightarrow> applicationTenancyFailure option" where
  "validateApplicationTenancy L app namespace t =
     (if map_get (olabels namespace) TeamLabelKey \<noteq> oname t \<or> oname namespace \<noteq> TeamNamespaceName t
         \<or> map_get (oannotations namespace) TeamUIDAnnotationKey \<noteq> ouid t then
        Some (''NamespaceOwnershipMismatch'', ''Namespace '' @ oname namespace
          @ '' does not belong to the current Team '' @ oname t @ '' incarnation'')
      else if odeleting t then Some (''TeamTerminating'', ''Team '' @ oname t @ '' is terminating'')
      else case Team_Validate L t of
          Some err \<Rightarrow> Some (''TeamInvalid'',
            ''Team '' @ oname t @ '' configuration is invalid: '' @ team_error_text L err)
        | None \<Rightarrow>
            if \<not> RepositoryAllowed t (img_repository (app_img (aspec app))) then
              Some (''RepositoryNotAllowed'', ''repository '' @ img_repository (app_img (aspec app))
                @ '' is not allowed by Team '' @ oname t)
            else None)"

definition applicationTenancy ::
    "lib \<Rightarrow> application \<Rightarrow> (go_error + applicationTenancyFailure option) prog" where
  "applicationTenancy L app = do {
     r \<leftarrow> client_get KNamespace ([], onamespace app);
     case r of
       Inl e \<Rightarrow>
         if err_reason e = NotFound then ok (Some (''NamespaceNotManaged'',
           ''Namespace '' @ onamespace app @ '' is not managed by a SteadyState Team''))
         else ret (Inl e)
     | Inr namespace \<Rightarrow>
         let teamName = map_get (olabels namespace) TeamLabelKey in
         if teamName = [] \<or> oname namespace \<noteq> TeamNamespacePrefix @ teamName
            \<or> map_get (oannotations namespace) TeamUIDAnnotationKey = [] then
           ok (Some (''NamespaceNotManaged'',
             ''Namespace '' @ onamespace app @ '' is not a verified SteadyState Team namespace''))
         else do {
           r \<leftarrow> client_get KTeam ([], teamName);
           case decoded object_team r of
             Inl e \<Rightarrow>
               if err_reason e = NotFound then ok (Some (''TeamNotFound'',
                 ''Team '' @ teamName @ '' referenced by Namespace '' @ onamespace app @ '' does not exist''))
               else ret (Inl e)
           | Inr t \<Rightarrow> ok (validateApplicationTenancy L app namespace t) } }"

definition database_current_ready :: "lib \<Rightarrow> database \<Rightarrow> bool" where
  "database_current_ready L d \<longleftrightarrow>
     ds_observedGeneration (dstatus d) = ogeneration d
   \<and> (case find_status_condition L (ds_conditions (dstatus d)) conditionManagedDatabaseReady of
        None \<Rightarrow> False
      | Some c \<Rightarrow> cobserved c = ogeneration d \<and> cstatus c = CondTrue)"

definition applicationDatabaseReady :: "lib \<Rightarrow> application \<Rightarrow> (go_error + bool \<times> string) prog" where
  "applicationDatabaseReady L app =
     (case app_databaseRef (aspec app) of
        None \<Rightarrow> ok (True, ''No database binding was requested'')
      | Some db \<Rightarrow>
          let key = (onamespace app, db) in do {
          r \<leftarrow> client_get KDatabase key;
          case decoded object_database r of
            Inl e \<Rightarrow>
              if err_reason e = NotFound then ok (False, ''Database '' @ key_text key @ '' is missing'')
              else ret (Inl e)
          | Inr d \<Rightarrow>
              if \<not> database_current_ready L d then
                ok (False, ''Database '' @ key_text key @ '' is not current-generation Ready'')
              else ok (True, ''Database '' @ key_text key @ '' is ready'') })"

definition databaseReadyMessage :: "application \<Rightarrow> string" where
  "databaseReadyMessage app =
     (case app_databaseRef (aspec app) of
        None \<Rightarrow> ''No database binding was requested''
      | Some db \<Rightarrow> ''Database '' @ onamespace app @ ''/'' @ db @ '' is current-generation Ready'')"

definition isSecurityAdmissionRejection :: "go_error \<Rightarrow> bool" where
  "isSecurityAdmissionRejection e =
     (let message = to_lower (err_text e) in
      str_contains message ''denied the request'' \<or> str_contains message ''imagevalidatingpolicy''
      \<or> str_contains message ''validatingpolicy'' \<or> str_contains message ''kyverno'')"

definition admission_prefix :: string where
  "admission_prefix = ''workload admission was rejected by platform security policy: ''"

definition sanitizedAdmissionMessage :: "go_error \<Rightarrow> string" where
  "sanitizedAdmissionMessage e = admission_prefix @ cut_message (err_text e)"

definition condition_text :: "wcondition \<Rightarrow> string" where
  "condition_text c = join '' '' (str_fields (wc_reason c @ '' '' @ wc_message c))"

definition rejected_condition :: "wcondition \<Rightarrow> bool" where
  "rejected_condition c \<longleftrightarrow> wc_type c = ''ReplicaFailure'' \<and> wc_status c = ''True''
     \<and> (let lower = to_lower (condition_text c) in
         str_contains lower ''denied'' \<or> str_contains lower ''kyverno''
         \<or> str_contains lower ''validatingpolicy'' \<or> str_contains lower ''signature''
         \<or> str_contains lower ''attestation'')"

definition replica_set_conditions :: "kobject \<Rightarrow> wcondition list" where
  "replica_set_conditions obj = (case kbody obj of BReplicaSet cs \<Rightarrow> cs | _ \<Rightarrow> [])"

definition securityAdmissionFailure :: "application \<Rightarrow> (go_error + string) prog" where
  "securityAdmissionFailure app = do {
     r \<leftarrow> client_list KReplicaSet (Some (onamespace app)) (SelectorLabels app);
     case r of
       Inl e \<Rightarrow> ret (Inl e)
     | Inr items \<Rightarrow>
         ok (case List.find rejected_condition (concat (map replica_set_conditions items)) of
           None \<Rightarrow> []
         | Some c \<Rightarrow> admission_prefix @ take 512 (condition_text c)) }"

definition resolveImageDigest :: "lib \<Rightarrow> application \<Rightarrow> (go_error + imageDigestResolution) prog" where
  "resolveImageDigest L app = do {
     r \<leftarrow> wrapping ''list Application Pods: ''
            (client_list KPod (Some (onamespace app)) (SelectorLabels app));
     case r of
       Inl e \<Rightarrow> ret (Inl e)
     | Inr pods \<Rightarrow> ok (resolvePodImageDigest L pods
         (img_repository (app_img (aspec app)) @ '':'' @ app_tag app)) }"

subsection \<open>Writing generated objects\<close>

definition mergeLabels :: "kobject \<Rightarrow> strmap \<Rightarrow> kobject" where
  "mergeLabels obj desired = obj\<lparr>olabels := mergeStringMap (olabels obj) desired\<rparr>"

definition set_container :: "container \<Rightarrow> container \<Rightarrow> container" where
  \<comment> \<open>The fields of the container that \<open>mutateDeployment\<close> assigns.\<close>
  "set_container desired c = c\<lparr>ct_image := ct_image desired, ct_ports := ct_ports desired,
     ct_envFrom := ct_envFrom desired, ct_env := ct_env desired,
     ct_livenessProbe := ct_livenessProbe desired, ct_readinessProbe := ct_readinessProbe desired,
     ct_requests := ct_requests desired, ct_limits := ct_limits desired,
     ct_security := ct_security desired\<rparr>"

definition mutate_containers :: "container \<Rightarrow> container list \<Rightarrow> container list" where
  "mutate_containers desired cs =
     (if find_by ct_name (ct_name desired) cs \<noteq> None
      then update_first ct_name (ct_name desired) (set_container desired) cs
      else cs @ [desired])"

definition mutateDeployment ::
    "deployment_spec \<Rightarrow> deployment_spec \<Rightarrow> bool \<Rightarrow> go_error + deployment_spec" where
  "mutateDeployment current desired manageReplicas =
     (if dp_selector current \<noteq> None \<and> dp_selector current \<noteq> dp_selector desired then
        Inl (plain_error ''immutable selector does not match the Application identity'')
      else Inr (current\<lparr>
        dp_replicas := (if manageReplicas then dp_replicas desired else dp_replicas current),
        dp_selector := dp_selector desired,
        dp_strategyType := dp_strategyType desired,
        dp_maxUnavailable := dp_maxUnavailable desired,
        dp_maxSurge := dp_maxSurge desired,
        dp_templateLabels := mergeStringMap (dp_templateLabels current) (dp_templateLabels desired),
        dp_pod := (dp_pod current)\<lparr>
          ps_automountToken := ps_automountToken (dp_pod desired),
          ps_seccomp := ps_seccomp (dp_pod desired),
          ps_containers := mutate_containers (hd (ps_containers (dp_pod desired)))
            (ps_containers (dp_pod current))\<rparr>\<rparr>))"

definition upsert ::
    "string \<Rightarrow> kobject \<Rightarrow> (kobject \<Rightarrow> go_error + kobject) \<Rightarrow> (go_error + kobject \<times> bool) prog" where
  "upsert what blank mutate = do {
     r \<leftarrow> wrapping what (create_or_update blank mutate);
     ret (case r of Inl e \<Rightarrow> Inl e | Inr (op, written) \<Rightarrow> Inr (written, op \<noteq> OpNone)) }"

definition rollingMigrationLabelKey :: string where
  "rollingMigrationLabelKey = ''steadystate.dev/rolling-migration''"

definition applyRollingMigrationIdentity :: "application \<Rightarrow> kobject \<Rightarrow> kobject" where
  \<comment> \<open>The template labels of a Deployment, the selector of a Service.\<close>
  "applyRollingMigrationIdentity app obj =
     (let value = show_int (ogeneration app) in
      case kbody obj of
        BDeployment sp st \<Rightarrow> obj\<lparr>kbody := BDeployment
          (sp\<lparr>dp_templateLabels := (dp_templateLabels sp)(rollingMigrationLabelKey \<mapsto> value)\<rparr>) st\<rparr>
      | BService sp \<Rightarrow> obj\<lparr>kbody := BService
          (sp\<lparr>svc_selector := (svc_selector sp)(rollingMigrationLabelKey \<mapsto> value)\<rparr>)\<rparr>
      | _ \<Rightarrow> obj)"

definition blank_deployment_spec :: deployment_spec where
  "blank_deployment_spec = \<lparr>dp_replicas = None, dp_selector = None, dp_strategyType = [],
     dp_maxUnavailable = None, dp_maxSurge = None, dp_templateLabels = Map.empty,
     dp_pod = \<lparr>ps_automountToken = None, ps_gracePeriod = None, ps_seccomp = None, ps_containers = []\<rparr>\<rparr>"

definition deployment_spec_of :: "kobject \<Rightarrow> deployment_spec" where
  "deployment_spec_of obj =
     (case kbody obj of BDeployment sp st \<Rightarrow> sp | _ \<Rightarrow> blank_deployment_spec)"

definition service_spec_of :: "kobject \<Rightarrow> service_spec" where
  "service_spec_of obj =
     (case kbody obj of BService sp \<Rightarrow> sp | _ \<Rightarrow> \<lparr>svc_selector = Map.empty, svc_ports = []\<rparr>)"

definition configMap_mutation :: "lib \<Rightarrow> application \<Rightarrow> kobject \<Rightarrow> go_error + kobject" where
  "configMap_mutation L app current =
     set_controller L app ((mergeLabels current (olabels (ConfigMap app)))\<lparr>kbody := kbody (ConfigMap app)\<rparr>)"

definition deployment_mutation ::
    "lib \<Rightarrow> application \<Rightarrow> application \<Rightarrow> bool \<Rightarrow> bool \<Rightarrow> kobject \<Rightarrow> go_error + kobject" where
  "deployment_mutation L app deploymentApplication manageReplicas isolateRollingMigration current =
     (let built = Deployment deploymentApplication;
          desired = (if isolateRollingMigration then applyRollingMigrationIdentity app built else built);
          merged = mergeLabels current (olabels desired);
          st = deployment_status_of current in
      if ocreated current = None then
        set_controller L app (merged\<lparr>kbody := BDeployment (deployment_spec_of desired) st\<rparr>)
      else case mutateDeployment (deployment_spec_of current) (deployment_spec_of desired) manageReplicas of
          Inl e \<Rightarrow> Inl e
        | Inr sp \<Rightarrow> set_controller L app (merged\<lparr>kbody := BDeployment sp st\<rparr>))"

definition service_mutation :: "lib \<Rightarrow> application \<Rightarrow> bool \<Rightarrow> kobject \<Rightarrow> go_error + kobject" where
  "service_mutation L app isolateRollingMigration current =
     (let built = Service app;
          desired = (if isolateRollingMigration then applyRollingMigrationIdentity app built else built) in
      set_controller L app ((mergeLabels current (olabels desired))\<lparr>kbody := BService
        ((service_spec_of current)\<lparr>svc_selector := svc_selector (service_spec_of desired),
           svc_ports := svc_ports (service_spec_of desired)\<rparr>)\<rparr>))"

definition app_blank :: "application \<Rightarrow> string \<Rightarrow> body \<Rightarrow> kobject" where
  "app_blank app n b = with_body (new_meta (onamespace app) n) b"

definition blank_service :: body where
  "blank_service = BService \<lparr>svc_selector = Map.empty, svc_ports = []\<rparr>"

definition reconcileSharedChildren ::
    "lib \<Rightarrow> application \<Rightarrow> application \<Rightarrow> bool \<Rightarrow> bool \<Rightarrow> (go_error + kobject \<times> bool) prog" where
  "reconcileSharedChildren L app deploymentApplication manageReplicas isolateRollingMigration =
     and_then (upsert ''config map: '' (app_blank app (ConfigMapName app) (BConfigMap Map.empty))
       (configMap_mutation L app)) (\<lambda>(_, c1).
     and_then (upsert ''deployment: ''
       (app_blank app (oname app) (BDeployment blank_deployment_spec blank_deployment_status))
       (deployment_mutation L app deploymentApplication manageReplicas isolateRollingMigration))
       (\<lambda>(deployment, c2).
     and_then (upsert ''service: '' (app_blank app (oname app) blank_service)
       (service_mutation L app isolateRollingMigration)) (\<lambda>(_, c3).
     ok (deployment, c1 \<or> c2 \<or> c3))))"

subsection \<open>Unstructured objects\<close>

definition reconcileUnstructured :: "lib \<Rightarrow> application \<Rightarrow> kobject \<Rightarrow> (go_error + bool) prog" where
  "reconcileUnstructured L app desired =
     (let kindname = gvk_kind (gvk_of desired) in do {
      r \<leftarrow> upsert (kindname @ '' '' @ oname desired @ '': '') (blank_unstructured desired) (\<lambda>current.
          let merged = mergeLabels current (olabels desired) in
          case nested_field L (json_of desired) [''spec''] of
            None \<Rightarrow> Inl (plain_error (''read desired '' @ kindname @ '' spec: found=false: %!w(<nil>)''))
          | Some spec \<Rightarrow>
              (case set_nested_field L (json_of merged) [''spec''] spec of
                 None \<Rightarrow> Inl (wrap_error (''set desired '' @ kindname @ '' spec: '') nested_error [])
               | Some j \<Rightarrow> set_controller L app (merged\<lparr>kbody := BUnstructured (gvk_of merged) j\<rparr>)));
      ret (case r of Inl e \<Rightarrow> Inl e | Inr (_, changed) \<Rightarrow> Inr changed) })"

definition bootstrap_removed :: "string list" where
  "bootstrap_removed = [''steps'', ''trafficRouting'', ''scaleDownDelaySeconds'',
     ''abortScaleDownDelaySeconds'', ''minPodsPerReplicaSet'']"

definition configureBootstrapRollout :: "lib \<Rightarrow> kobject \<Rightarrow> go_error + kobject" where
  "configureBootstrapRollout L rolloutObject =
     (case set_nested_field L (json_of rolloutObject) [''spec'', ''workloadRef'', ''scaleDown''] (JStr ''never'') of
        None \<Rightarrow> Inl nested_error
      | Some j \<Rightarrow> Inr (rolloutObject\<lparr>kbody := BUnstructured (gvk_of rolloutObject)
          (fold (\<lambda>field j. remove_nested_field L j [''spec'', ''strategy'', ''canary'', field])
             bootstrap_removed j)\<rparr>))"

definition deleteOwnedObject :: "kobject \<Rightarrow> (go_error + bool) prog" where
  "deleteOwnedObject obj = do {
     g \<leftarrow> client_get (okind obj) (okey obj);
     case g of
       Inl e \<Rightarrow> if err_reason e = NotFound \<or> err_reason e = NoMatch then ok False else ret (Inl e)
     | Inr current \<Rightarrow> do {
         err \<leftarrow> client_delete (okind obj) (okey current);
         if err \<noteq> None \<and> err_reason (the err) \<noteq> NotFound then ret (Inl (the err)) else ok True } }"

end
