(* ===== verification/App_Progressive.thy ===== *)
theory App_Progressive
  imports App_Controller
begin

section \<open>Rolling and canary Applications\<close>

text \<open>
  \<open>application_progressive.go\<close> and the reconcile pass itself: the HTTPRoute and the identities of its backends,
  the Rollout and its Services, the order in which a migration from canary to rolling drains the
  route before anything is deleted, and \<open>Reconcile\<close>, which admits an Application, writes its objects and reports.
\<close>

subsection \<open>Constants\<close>

definition backendServiceUIDsAnnotation :: string where
  "backendServiceUIDsAnnotation = ''steadystate.dev/backend-service-uids''"
definition rollingCutoverStartedAtKey :: string where
  "rollingCutoverStartedAtKey = ''steadystate.dev/rolling-cutover-started-at''"
definition rollingCleanupStartedAtKey :: string where
  "rollingCleanupStartedAtKey = ''steadystate.dev/rolling-cleanup-started-at''"
definition rollingCutoverDrainDelay :: int where "rollingCutoverDrainDelay = 15 * 10 ^ 9"
definition rollingCleanupDrainDelay :: int where "rollingCleanupDrainDelay = 30 * 10 ^ 9"

subsection \<open>Routes\<close>

definition preserveRouteWeights :: "route_spec \<Rightarrow> route_spec \<Rightarrow> route_spec" where
  \<comment> \<open>The desired spec with the current weights; its first rule exists, as every built route has one.\<close>
  "preserveRouteWeights desired current =
     (let weights = (case rs_rules current of [] \<Rightarrow> Map.empty | r # _ \<Rightarrow> backend_weights (rl_backends r));
          keep = (\<lambda>b. case weights (br_name b) of None \<Rightarrow> b | Some w \<Rightarrow> b\<lparr>br_weight := Some w\<rparr>) in
      case rs_rules desired of
        [] \<Rightarrow> desired
      | r # rs \<Rightarrow> desired\<lparr>rs_rules := r\<lparr>rl_backends := map keep (rl_backends r)\<rparr> # rs\<rparr>)"

definition backend_service :: "kobject \<Rightarrow> backend_ref \<Rightarrow> nsname option" where
  \<comment> \<open>The Service a backend names, if it names one.\<close>
  "backend_service route b =
     (if br_group b \<noteq> None \<and> br_group b \<noteq> Some [] then None
      else if br_kind b \<noteq> None \<and> br_kind b \<noteq> Some ''Service'' then None
      else Some (case br_namespace b of None \<Rightarrow> onamespace route | Some ns \<Rightarrow> ns, br_name b))"

fun backend_uids_loop ::
    "nsname list \<Rightarrow> nsname list \<Rightarrow> string list \<Rightarrow> (go_error + string list) prog" where
  "backend_uids_loop seen [] identities = ok identities"
| "backend_uids_loop seen (key # keys) identities =
     (if key \<in> set seen then backend_uids_loop seen keys identities
      else do {
        r \<leftarrow> wrapping (''service '' @ key_text key @ '': '') (client_get KService key);
        case r of
          Inl e \<Rightarrow> ret (Inl e)
        | Inr service \<Rightarrow> backend_uids_loop (key # seen) keys
            (identities @ [fst key @ ''/'' @ oname service @ ''='' @ ouid service]) })"

definition routeBackendServiceUIDs :: "kobject \<Rightarrow> (go_error + string) prog" where
  "routeBackendServiceUIDs route =
     and_then (backend_uids_loop []
       (List.map_filter (backend_service route)
          (concat (map rl_backends (rs_rules (route_spec_of route))))) [])
       (\<lambda>identities. ok (join '','' (sort identities)))"

definition route_mutation ::
    "lib \<Rightarrow> application \<Rightarrow> bool \<Rightarrow> string \<Rightarrow> kobject \<Rightarrow> kobject \<Rightarrow> go_error + kobject" where
  "route_mutation L app canary uids template current =
     (let desired = (if canary
            \<and> map_get (olabels current) gatewayPluginInProgressLabel = gatewayPluginInProgressValue
            then preserveRouteWeights (route_spec_of template) (route_spec_of current)
            else route_spec_of template);
          merged = mergeLabels current (olabels template) in
      set_controller L app (merged\<lparr>
        oannotations := (oannotations merged)(backendServiceUIDsAnnotation \<mapsto> uids),
        kbody := BHTTPRoute desired (route_parents_of current)\<rparr>))"

definition route_template :: "application \<Rightarrow> bool \<Rightarrow> kobject" where
  "route_template app canary = (if canary then CanaryHTTPRoute app else HTTPRoute app)"

definition reconcileRoute ::
    "lib \<Rightarrow> nat \<Rightarrow> application \<Rightarrow> bool \<Rightarrow> (go_error + kobject \<times> bool) prog" where
  "reconcileRoute L n app canary =
     (let template = route_template app canary in
      and_then (wrapping ''resolve HTTP route backends: '' (routeBackendServiceUIDs template)) (\<lambda>uids.
      and_then (wrapping ''HTTP route: '' (retry_on_conflict n
        (create_or_update (app_blank app (oname app)
           (BHTTPRoute \<lparr>rs_parents = [], rs_hostnames = [], rs_rules = []\<rparr> []))
           (route_mutation L app canary uids template))))
      (\<lambda>(op, route). ok (route, op \<noteq> OpNone))))"

subsection \<open>Draining a route\<close>

definition routeDrainRemaining :: "lib \<Rightarrow> kobject \<Rightarrow> string \<Rightarrow> int \<Rightarrow> int \<Rightarrow> int option" where
  "routeDrainRemaining L route annotation delay now =
     (case split2 CHR '','' (map_get (oannotations route) annotation) of
        [g, started] \<Rightarrow>
          (case parse_int64 g of
             None \<Rightarrow> None
           | Some generation \<Rightarrow>
               if generation \<noteq> ogeneration route then None
               else (case parse_nano L started of
                   None \<Rightarrow> None
                 | Some startedAt \<Rightarrow>
                     let remaining = wrap64 (delay - time_sub now startedAt) in
                     Some (if remaining < 0 then 0 else remaining)))
      | _ \<Rightarrow> None)"

definition rollingCutoverRemaining :: "lib \<Rightarrow> kobject \<Rightarrow> int \<Rightarrow> int option" where
  "rollingCutoverRemaining L route now =
     routeDrainRemaining L route rollingCutoverStartedAtKey rollingCutoverDrainDelay now"

definition drain_mark :: "lib \<Rightarrow> kobject \<Rightarrow> string \<Rightarrow> int \<Rightarrow> kobject" where
  "drain_mark L route annotation now = route\<lparr>oannotations := (oannotations route)
     (annotation \<mapsto> show_int (ogeneration route) @ '','' @ format_nano L now)\<rparr>"

record drain_result =
  dn_drained :: bool
  dn_marked :: bool
  dn_remaining :: int
  dn_route :: kobject       \<comment> \<open>the route, which the patch updates in place\<close>

definition waitForRouteDrain ::
    "lib \<Rightarrow> kobject \<Rightarrow> string \<Rightarrow> int \<Rightarrow> (go_error + drain_result) prog" where
  "waitForRouteDrain L route annotation delay = do {
     now \<leftarrow> current_time;
     case routeDrainRemaining L route annotation delay now of
       Some remaining \<Rightarrow> ok \<lparr>dn_drained = (remaining \<le> 0), dn_marked = False,
         dn_remaining = remaining, dn_route = route\<rparr>
     | None \<Rightarrow> do {
         r \<leftarrow> client_patch route (drain_mark L route annotation now);
         case r of
           Inl e \<Rightarrow> ret (Inl e)
         | Inr patched \<Rightarrow> ok \<lparr>dn_drained = False, dn_marked = True, dn_remaining = delay,
             dn_route = patched\<rparr> } }"

definition waitForRollingCutoverDrain :: "lib \<Rightarrow> kobject \<Rightarrow> (go_error + drain_result) prog" where
  "waitForRollingCutoverDrain L route =
     waitForRouteDrain L route rollingCutoverStartedAtKey rollingCutoverDrainDelay"

definition waitForProgressiveEndpointDrain :: "lib \<Rightarrow> kobject \<Rightarrow> (go_error + drain_result) prog" where
  "waitForProgressiveEndpointDrain L route =
     waitForRouteDrain L route rollingCleanupStartedAtKey rollingCleanupDrainDelay"

subsection \<open>Rollout, Services and analysis\<close>

definition rollout_service_mutation :: "lib \<Rightarrow> application \<Rightarrow> kobject \<Rightarrow> kobject \<Rightarrow> go_error + kobject" where
  "rollout_service_mutation L app desired current =
     (let sp = service_spec_of current;
          selector = (if ocreated current = None then svc_selector (service_spec_of desired)
            else svc_selector sp) in
      set_controller L app ((mergeLabels current (olabels desired))\<lparr>kbody := BService
        (sp\<lparr>svc_selector := selector, svc_ports := svc_ports (service_spec_of desired)\<rparr>)\<rparr>))"

definition rollout_service_step :: "lib \<Rightarrow> application \<Rightarrow> kobject \<Rightarrow> (go_error + kobject \<times> bool) prog" where
  "rollout_service_step L app desired =
     upsert (''rollout Service '' @ oname desired @ '': '') (app_blank app (oname desired) blank_service)
       (rollout_service_mutation L app desired)"

definition body_mutation :: "lib \<Rightarrow> application \<Rightarrow> kobject \<Rightarrow> kobject \<Rightarrow> go_error + kobject" where
  \<comment> \<open>Labels merged, spec replaced, owner set.\<close>
  "body_mutation L app desired current =
     set_controller L app ((mergeLabels current (olabels desired))\<lparr>kbody := kbody desired\<rparr>)"

definition held_rollout :: "lib \<Rightarrow> application \<Rightarrow> bool \<Rightarrow> (go_error + kobject) prog" where
  "held_rollout L app holdServingDeployment =
     (if holdServingDeployment then
        wrapping ''hold serving Deployment during migration: ''
          (ret (configureBootstrapRollout L (RolloutObject L app)))
      else ok (RolloutObject L app))"

definition reconcileProgressiveResources :: "lib \<Rightarrow> application \<Rightarrow> bool \<Rightarrow> (go_error + bool) prog" where
  "reconcileProgressiveResources L app holdServingDeployment =
     and_then (rollout_service_step L app (StableService app)) (\<lambda>(_, c1).
     and_then (rollout_service_step L app (CanaryService app)) (\<lambda>(_, c2).
     and_then (upsert ''AnalysisTemplate: ''
       (app_blank app (AnalysisTemplateName app) (BAnalysisTemplate \<lparr>an_args = [], an_metrics = []\<rparr>))
       (body_mutation L app (AnalysisTemplate L app))) (\<lambda>(_, c3).
     and_then (held_rollout L app holdServingDeployment) (\<lambda>rolloutObject.
     and_then (reconcileUnstructured L app rolloutObject) (\<lambda>c4.
     ok (c1 \<or> c2 \<or> c3 \<or> c4))))))"

definition egress_policy_step ::
    "lib \<Rightarrow> application \<Rightarrow> bool \<Rightarrow> string \<Rightarrow> kobject \<Rightarrow> (go_error + bool) prog" where
  \<comment> \<open>An egress policy is written when it is wanted and deleted when it is not.\<close>
  "egress_policy_step L app wanted what policy =
     (if \<not> wanted then deleteOwnedObject policy
      else and_then (upsert what (policy\<lparr>kbody := blank_policy\<rparr>) (body_mutation L app policy))
        (\<lambda>(_, changed). ok changed))"

definition monitoring_step :: "lib \<Rightarrow> application \<Rightarrow> kobject \<Rightarrow> (go_error + bool) prog" where
  "monitoring_step L app desired =
     (if obs_metrics (app_obs (aspec app)) then reconcileUnstructured L app desired
      else deleteOwnedObject desired)"

definition reconcileObservabilityResources :: "lib \<Rightarrow> application \<Rightarrow> (go_error + bool) prog" where
  "reconcileObservabilityResources L app =
     and_then (monitoring_step L app (ServiceMonitor app)) (\<lambda>c1.
     and_then (monitoring_step L app (PrometheusRule L app)) (\<lambda>c2.
     and_then (egress_policy_step L app (obs_traces (app_obs (aspec app)))
       ''trace egress NetworkPolicy: '' (OTelEgressNetworkPolicy app)) (\<lambda>c3.
     and_then (egress_policy_step L app (app_databaseRef (aspec app) \<noteq> None)
       ''database egress NetworkPolicy: '' (DatabaseEgressNetworkPolicy app)) (\<lambda>c4.
     ok (c1 \<or> c2 \<or> c3 \<or> c4)))))"

definition blank_rollout :: kobject where
  "blank_rollout = with_body (new_meta [] []) (BRollout blank_rollout_spec blank_rollout_status)"

definition getRollout :: "bool \<Rightarrow> application \<Rightarrow> (go_error + kobject \<times> bool) prog" where
  \<comment> \<open>The Rollout and whether it exists; the zero Rollout otherwise.\<close>
  "getRollout pd app =
     (if \<not> pd then ok (blank_rollout, False)
      else do {
        r \<leftarrow> client_get KRollout (okey app);
        case r of
          Inl e \<Rightarrow> if err_reason e = NotFound \<or> err_reason e = NoMatch then ok (blank_rollout, False)
                   else ret (Inl e)
        | Inr rollout \<Rightarrow> ok (rollout, True) })"

definition getRoute :: "application \<Rightarrow> (go_error + kobject \<times> bool) prog" where
  "getRoute app = do {
     r \<leftarrow> client_get KHTTPRoute (okey app);
     case r of
       Inl e \<Rightarrow> if err_reason e = NotFound then ok (blank_route, False) else ret (Inl e)
     | Inr route \<Rightarrow> ok (route, True) }"

definition freezeRollout :: "lib \<Rightarrow> application \<Rightarrow> (go_error + bool) prog" where
  "freezeRollout L app = do {
     g \<leftarrow> client_get (KUnstructured rollout_gvk) (okey app);
     case g of
       Inl e \<Rightarrow> ret (case ignore_not_found e of None \<Rightarrow> Inr False | Some e \<Rightarrow> Inl e)
     | Inr current \<Rightarrow>
         (case set_nested_field L (json_of current) [''spec'', ''paused''] (JBool True) of
            None \<Rightarrow> ret (Inl nested_error)
          | Some j \<Rightarrow>
              (case set_nested_field L j [''spec'', ''workloadRef'', ''scaleDown''] (JStr ''never'') of
                 None \<Rightarrow> ret (Inl nested_error)
               | Some j \<Rightarrow>
                   if j = json_of current then ok False
                   else do {
                     r \<leftarrow> client_patch current (current\<lparr>kbody := BUnstructured (gvk_of current) j\<rparr>);
                     ret (case r of Inl e \<Rightarrow> Inl e | Inr _ \<Rightarrow> Inr True) })) }"

fun deleteProgressiveObjects :: "(kind \<times> nsname) list \<Rightarrow> bool \<Rightarrow> (go_error + bool) prog" where
  "deleteProgressiveObjects [] mutated = ok mutated"
| "deleteProgressiveObjects ((k, key) # objects) mutated = do {
     g \<leftarrow> client_get k key;
     case g of
       Inl e \<Rightarrow> if err_reason e = NotFound then deleteProgressiveObjects objects mutated else ret (Inl e)
     | Inr _ \<Rightarrow> do {
         err \<leftarrow> client_delete k key;
         if err \<noteq> None \<and> err_reason (the err) \<noteq> NotFound then ret (Inl (the err))
         else deleteProgressiveObjects objects True } }"

definition progressive_services :: "application \<Rightarrow> (kind \<times> nsname) list" where
  "progressive_services app = [(KService, (onamespace app, StableServiceName app)),
     (KService, (onamespace app, CanaryServiceName app))]"

definition progressive_controllers :: "application \<Rightarrow> (kind \<times> nsname) list" where
  "progressive_controllers app = [(KUnstructured rollout_gvk, okey app),
     (KAnalysisTemplate, (onamespace app, AnalysisTemplateName app))]"

definition deleteProgressiveServices :: "application \<Rightarrow> (go_error + bool) prog" where
  "deleteProgressiveServices app = deleteProgressiveObjects (progressive_services app) False"

definition deleteProgressiveControllerResources :: "application \<Rightarrow> (go_error + bool) prog" where
  "deleteProgressiveControllerResources app = deleteProgressiveObjects (progressive_controllers app) False"

subsection \<open>Analysis messages\<close>

definition run_status_of :: "kobject \<Rightarrow> run_status" where
  "run_status_of obj = (case kbody obj of BAnalysisRun st \<Rightarrow> st | _ \<Rightarrow> \<lparr>run_message = [], run_metrics = []\<rparr>)"

definition failedMetricMessage :: "kobject \<Rightarrow> string" where
  "failedMetricMessage analysisRun =
     (case List.find (\<lambda>m. mr_phase m \<in> {''Failed'', ''Error'', ''Inconclusive''})
        (run_metrics (run_status_of analysisRun)) of
        None \<Rightarrow> []
      | Some m \<Rightarrow>
          ''metric '' @ mr_name m @ '' is '' @ mr_phase m @ '': ''
          @ or_text (trim_space (mr_message m)) (trim_space (run_message (run_status_of analysisRun))))"

definition first_failure :: "kobject list \<Rightarrow> string \<Rightarrow> string" where
  \<comment> \<open>The first non-empty message.\<close>
  "first_failure runs final =
     (case List.find (\<lambda>m. m \<noteq> []) (map failedMetricMessage runs) of Some m \<Rightarrow> m | None \<Rightarrow> final)"

definition recent_analysis_failure :: "application \<Rightarrow> kobject \<Rightarrow> (go_error + string) prog" where
  \<comment> \<open>The runs in the order of their creation, the newest first; runs of one instant in the listed order.\<close>
  "recent_analysis_failure app rollout = do {
     r \<leftarrow> client_list KAnalysisRun (Some (onamespace app)) (SelectorLabels app);
     case r of
       Inl e \<Rightarrow> ret (Inl e)
     | Inr runs \<Rightarrow> ok (first_failure (sort_key (\<lambda>analysisRun. - created_at analysisRun) runs)
         (ros_message (rollout_status_of rollout))) }"

definition analysisFailure :: "application \<Rightarrow> kobject \<Rightarrow> (go_error + string) prog" where
  "analysisFailure app rollout =
     (case ros_stepAnalysis (rollout_status_of rollout) of
        None \<Rightarrow> recent_analysis_failure app rollout
      | Some step \<Rightarrow>
          if sa_name step = [] then recent_analysis_failure app rollout
          else do {
            r \<leftarrow> client_get KAnalysisRun (onamespace app, sa_name step);
            let otherwise = (if sa_message step \<noteq> [] then ok (sa_message step)
                  else recent_analysis_failure app rollout) in
            case r of
              Inl e \<Rightarrow> if err_reason e = NotFound then otherwise else ret (Inl e)
            | Inr analysisRun \<Rightarrow>
                if failedMetricMessage analysisRun \<noteq> [] then ok (failedMetricMessage analysisRun) else otherwise })"

end
