(* ===== verification/App_Reconcile.thy ===== *)
theory App_Reconcile
  imports App_Progressive
begin

section \<open>The reconcile pass of an Application\<close>

text \<open>
  \<open>reconcileCanaryChildren\<close>, \<open>reconcileRollingChildren\<close>, \<open>reconcileRuntimeChildren\<close> and \<open>Reconcile\<close>, and the
  requests that other objects cause. A pass returns the requeue delay and the error.
\<close>

subsection \<open>Canary\<close>

definition servingApplicationAtVersion :: "application \<Rightarrow> string \<Rightarrow> application" where
  "servingApplicationAtVersion app version =
     app\<lparr>aspec := (aspec app)\<lparr>
       app_img := (app_img (aspec app))\<lparr>img_tag := version\<rparr>,
       app_dep := (app_dep (aspec app))\<lparr>dep_strategy := Rolling, dep_steps := []\<rparr>\<rparr>\<rparr>"

definition new_state :: applicationRuntimeState where
  "new_state = \<lparr>rs_deployment = None, rs_route = None, rs_rollout = None, rs_mutated = False,
     rs_migrating = False, rs_migrationDetail = [], rs_analysisFailure = [], rs_requeueAfter = 0\<rparr>"

definition canary_route_step ::
    "lib \<Rightarrow> nat \<Rightarrow> application \<Rightarrow> bool \<Rightarrow> bool \<Rightarrow> kobject \<Rightarrow> applicationRuntimeState
     \<Rightarrow> (go_error + applicationRuntimeState) prog" where
  \<comment> \<open>The switch on the current route, with the Rollout of the state.\<close>
  "canary_route_step L n app routeExists canaryRouteConfigured currentRoute state =
     (if \<not> routeExists \<or> canaryRouteConfigured \<or> rolloutHealthy (rs_rollout state) (min_replicas app) then
        and_then (reconcileRoute L n app True) (\<lambda>(route, changed).
          ok (state\<lparr>rs_route := Some route, rs_mutated := rs_mutated state \<or> changed\<rparr>))
      else ok (state\<lparr>rs_route := Some currentRoute, rs_migrating := True,
        rs_migrationDetail := ''waiting for a healthy Rollout baseline before switching the HTTPRoute''\<rparr>))"

definition canary_migration :: "lib \<Rightarrow> application \<Rightarrow> applicationRuntimeState \<Rightarrow> applicationRuntimeState" where
  \<comment> \<open>Whether the route still has to be cut over.\<close>
  "canary_migration L app state =
     (let s1 = (if \<not> routeUsesCanaryServices (state_route state) app
            then state\<lparr>rs_migrating := True\<rparr> else state);
          (routeReady, routeRejected) = routeState L (state_route state);
          s2 = (if as_activeVersion (astatus app) \<noteq> [] \<and> (\<not> routeReady \<or> routeRejected)
            then s1\<lparr>rs_migrating := True,
              rs_migrationDetail := ''waiting for the canary HTTPRoute cutover to be accepted''\<rparr> else s1) in
      if rs_migrating s2 \<and> rs_migrationDetail s2 = []
      then s2\<lparr>rs_migrationDetail := ''waiting for the canary HTTPRoute cutover''\<rparr> else s2)"

definition reconcileCanaryChildren ::
    "lib \<Rightarrow> bool \<Rightarrow> nat \<Rightarrow> application \<Rightarrow> (go_error + applicationRuntimeState) prog" where
  "reconcileCanaryChildren L pd n app =
     and_then (getRollout pd app) (\<lambda>(rollout, rolloutExists).
     and_then (getRoute app) (\<lambda>(currentRoute, routeExists).
     let canaryRouteConfigured = (routeExists \<and> routeUsesCanaryServices currentRoute app);
         (currentRouteReady, currentRouteRejected) = routeState L currentRoute;
         canaryRouteReady = (canaryRouteConfigured \<and> currentRouteReady \<and> \<not> currentRouteRejected);
         hold = shouldHoldServingDeployment app rollout rolloutExists canaryRouteReady;
         anchor = (if hold then servingApplicationAtVersion app (as_activeVersion (astatus app)) else app) in
     and_then (reconcileSharedChildren L app anchor (hold \<and> \<not> rolloutExists) False) (\<lambda>(deployment, c1).
     and_then (reconcileProgressiveResources L app hold) (\<lambda>c2.
     and_then (getRollout pd app) (\<lambda>(rollout, _).
     and_then (canary_route_step L n app routeExists canaryRouteConfigured currentRoute
       (new_state\<lparr>rs_deployment := Some deployment, rs_mutated := c1 \<or> c2, rs_rollout := Some rollout\<rparr>))
       (\<lambda>state.
     and_then (analysisFailure app rollout) (\<lambda>failure.
     ok ((canary_migration L app state)\<lparr>rs_analysisFailure := failure\<rparr>))))))))"

subsection \<open>Rolling\<close>

definition migrate_cleanup ::
    "lib \<Rightarrow> application \<Rightarrow> kobject \<Rightarrow> applicationRuntimeState
     \<Rightarrow> (go_error + applicationRuntimeState) prog" where
  \<comment> \<open>After the removal of the Services: wait for the endpoints, then delete the Rollout.\<close>
  "migrate_cleanup L app rollout state =
     and_then (wrapping ''wait for removed progressive endpoints to drain: ''
       (waitForProgressiveEndpointDrain L (state_route state))) (\<lambda>dr.
     let state = state\<lparr>rs_route := Some (dn_route dr), rs_mutated := rs_mutated state \<or> dn_marked dr\<rparr> in
     if \<not> dn_drained dr then ok (state\<lparr>rs_rollout := Some rollout, rs_migrating := True,
        rs_migrationDetail := ''waiting for Envoy to remove progressive endpoints before deleting their Pods'',
        rs_requeueAfter := dn_remaining dr\<rparr>)
     else and_then (deleteProgressiveControllerResources app) (\<lambda>changed.
        ok (state\<lparr>rs_mutated := rs_mutated state \<or> changed, rs_rollout := None, rs_migrating := False\<rparr>)))"

definition migrate_cutover ::
    "lib \<Rightarrow> application \<Rightarrow> kobject \<Rightarrow> applicationRuntimeState
     \<Rightarrow> (go_error + applicationRuntimeState) prog" where
  \<comment> \<open>The accepted rolling route drains before the Services are removed.\<close>
  "migrate_cutover L app rollout state =
     and_then (wrapping ''wait for rolling HTTPRoute cutover drain: ''
       (waitForRollingCutoverDrain L (state_route state))) (\<lambda>dr.
     let state = state\<lparr>rs_route := Some (dn_route dr), rs_mutated := rs_mutated state \<or> dn_marked dr\<rparr> in
     if \<not> dn_drained dr then ok (state\<lparr>rs_rollout := Some rollout, rs_migrating := True,
        rs_migrationDetail := ''waiting for the accepted rolling HTTPRoute to propagate before draining canary resources'',
        rs_requeueAfter := dn_remaining dr\<rparr>)
     else and_then (deleteProgressiveServices app) (\<lambda>servicesRemoved.
        migrate_cleanup L app rollout (state\<lparr>rs_mutated := rs_mutated state \<or> servicesRemoved\<rparr>)))"

definition freeze_step :: "lib \<Rightarrow> application \<Rightarrow> bool \<Rightarrow> (go_error + applicationRuntimeState) prog" where
  "freeze_step L app rolloutExists =
     (if rolloutExists then
        and_then (wrapping ''freeze Rollout for rolling migration: '' (freezeRollout L app)) (\<lambda>changed.
        ok (new_state\<lparr>rs_mutated := changed, rs_migrating := True, rs_migrationDetail :=
          ''scaling and verifying the rolling Deployment before switching the HTTPRoute''\<rparr>))
      else ok new_state)"

definition rolling_route_step ::
    "lib \<Rightarrow> nat \<Rightarrow> application \<Rightarrow> bool \<Rightarrow> kobject \<Rightarrow> applicationRuntimeState
     \<Rightarrow> (go_error + applicationRuntimeState) prog" where
  \<comment> \<open>Whether the route is switched is decided by the caller.\<close>
  "rolling_route_step L n app switch currentRoute state =
     (if switch then
        and_then (reconcileRoute L n app False) (\<lambda>(route, changed).
          ok (state\<lparr>rs_route := Some route, rs_mutated := rs_mutated state \<or> changed\<rparr>))
      else ok (state\<lparr>rs_route := Some currentRoute\<rparr>))"

definition route_accepted :: "lib \<Rightarrow> kobject \<Rightarrow> bool" where
  "route_accepted L route = (let (routeReady, routeRejected) = routeState L route in
     routeReady \<and> \<not> routeRejected)"

definition reconcileRollingChildren ::
    "lib \<Rightarrow> bool \<Rightarrow> nat \<Rightarrow> application \<Rightarrow> (go_error + applicationRuntimeState) prog" where
  "reconcileRollingChildren L pd n app =
     and_then (getRollout pd app) (\<lambda>(rollout, rolloutExists).
     and_then (freeze_step L app rolloutExists) (\<lambda>state.
     and_then (reconcileSharedChildren L app app True rolloutExists) (\<lambda>(deployment, changed).
     let state = state\<lparr>rs_deployment := Some deployment, rs_mutated := rs_mutated state \<or> changed\<rparr>;
         deploymentReady = fst (deploymentState (Some deployment) (min_replicas app)) in
     and_then (getRoute app) (\<lambda>(currentRoute, routeExists).
     and_then (rolling_route_step L n app (\<not> routeExists \<or> \<not> rolloutExists \<or> deploymentReady)
       currentRoute state) (\<lambda>state.
     if rolloutExists \<and> deploymentReady \<and> routeUsesBaseService (state_route state) app then
       if route_accepted L (state_route state) then migrate_cutover L app rollout state else ok state
     else ok (state\<lparr>rs_rollout := Some rollout\<rparr>))))))"

definition reconcileRuntimeChildren ::
    "lib \<Rightarrow> bool \<Rightarrow> nat \<Rightarrow> application \<Rightarrow> (go_error + applicationRuntimeState) prog" where
  "reconcileRuntimeChildren L pd n app =
     and_then (if dep_strategy (app_dep (aspec app)) = Canary then reconcileCanaryChildren L pd n app
       else reconcileRollingChildren L pd n app) (\<lambda>state.
     and_then (reconcileObservabilityResources L app) (\<lambda>changed.
     ok (state\<lparr>rs_mutated := rs_mutated state \<or> changed\<rparr>)))"

subsection \<open>Reports\<close>

definition app_event :: "application \<Rightarrow> string \<Rightarrow> string \<Rightarrow> string \<Rightarrow> unit prog" where
  "app_event app eventType reason message = send_event (application_object app) eventType reason message"

definition report :: "lib \<Rightarrow> nat \<Rightarrow> application \<Rightarrow> app_status \<Rightarrow> string \<Rightarrow> string \<Rightarrow> reconcile_result prog" where
  \<comment> \<open>\<open>changed, err := r.patchStatus(...); if changed { r.event(Warning) }; return ctrl.Result{}, err\<close>\<close>
  "report L n app status reason message = do {
     (changed, statusErr) \<leftarrow> patchStatus L n app status;
     _ \<leftarrow> (if changed then app_event app EventTypeWarning reason message else ret ());
     ret (0, statusErr) }"

definition reject :: "lib \<Rightarrow> nat \<Rightarrow> application \<Rightarrow> string \<Rightarrow> string \<Rightarrow> reconcile_result prog" where
  "reject L n app reason message = report L n app (degradedStatus L app reason message) reason message"

definition fail_pass ::
    "lib \<Rightarrow> nat \<Rightarrow> application \<Rightarrow> string \<Rightarrow> go_error \<Rightarrow> string \<Rightarrow> string \<Rightarrow> reconcile_result prog" where
  \<comment> \<open>A failure that is reported, always with an event, and returned.\<close>
  "fail_pass L n app what err reason message = do {
     (_, statusErr) \<leftarrow> patchStatus L n app (degradedStatus L app reason message);
     _ \<leftarrow> app_event app EventTypeWarning reason message;
     (case statusErr of
        Some e \<Rightarrow> ret (0, Some (wrap_error (what @ '': '') err (''; patch status: '' @ err_text e)))
      | None \<Rightarrow> ret (0, Some err)) }"

definition children_failed :: "lib \<Rightarrow> nat \<Rightarrow> application \<Rightarrow> go_error \<Rightarrow> reconcile_result prog" where
  "children_failed L n app err =
     (if isSecurityAdmissionRejection err then
        fail_pass L n app ''reconcile children'' err ''SecurityPolicyRejected'' (sanitizedAdmissionMessage err)
      else
        fail_pass L n app ''reconcile children'' err ''ReconciliationFailed''
          (''failed to reconcile owned resources: '' @ err_text err))"

definition desired_status ::
    "lib \<Rightarrow> application \<Rightarrow> applicationRuntimeState \<Rightarrow> imageDigestResolution \<Rightarrow> string
     \<Rightarrow> app_status \<times> bool" where
  \<comment> \<open>The status of the pass, and whether the route was rejected.\<close>
  "desired_status L app state digest sourceRevision =
     (let (status, routeRejected) =
            (if dep_strategy (app_dep (aspec app)) = Canary then
               canaryWorkloadStatus L app state digest sourceRevision
             else if rs_migrating state then (strategyMigrationStatus L app state, False)
             else workloadStatus L app (rs_deployment state) (state_route state) digest sourceRevision) in
      (setCondition L app conditionApplicationDatabaseReady CondTrue ''DatabaseReady''
         (databaseReadyMessage app) status, routeRejected))"

definition final_report ::
    "lib \<Rightarrow> nat \<Rightarrow> application \<Rightarrow> applicationRuntimeState \<Rightarrow> app_status \<times> bool \<Rightarrow> reconcile_result prog" where
  "final_report L n app state desired = do {
     (statusChanged, err) \<leftarrow> patchStatus L n app (fst desired);
     if err \<noteq> None then ret (0, err)
     else do {
       _ \<leftarrow> (if snd desired \<and> statusChanged then
               app_event app EventTypeWarning ''RouteRejected'' ''HTTPRoute was rejected by the shared Gateway''
             else if rs_mutated state \<or> statusChanged then
               app_event app EventTypeNormal ''Reconciled'' ''Application resources and status were reconciled''
             else ret ());
       ret (rs_requeueAfter state, None) } }"

subsection \<open>The pass\<close>

definition observe_workload ::
    "lib \<Rightarrow> nat \<Rightarrow> application \<Rightarrow> string \<Rightarrow> applicationRuntimeState \<Rightarrow> reconcile_result prog" where
  \<comment> \<open>\<open>Reconcile\<close> once the children are written.\<close>
  "observe_workload L n app sourceRevision state = do {
     f \<leftarrow> securityAdmissionFailure app;
     case f of
       Inl e \<Rightarrow> ret (0, Some (wrap_error ''inspect workload admission state: '' e []))
     | Inr securityFailure \<Rightarrow>
         if securityFailure \<noteq> [] then reject L n app ''SecurityPolicyRejected'' securityFailure
         else do {
           g \<leftarrow> resolveImageDigest L app;
           case g of
             Inl e \<Rightarrow> fail_pass L n app ''resolve image digest'' e ''ReconciliationFailed''
               (''failed to resolve runtime image digest: '' @ err_text e)
           | Inr digest \<Rightarrow>
               final_report L n app state (desired_status L app state digest sourceRevision) } }"

definition reconcile_workload ::
    "lib \<Rightarrow> bool \<Rightarrow> nat \<Rightarrow> application \<Rightarrow> string \<Rightarrow> reconcile_result prog" where
  \<comment> \<open>\<open>Reconcile\<close> of an admitted Application\<close>
  "reconcile_workload L pd n app sourceRevision = do {
     c \<leftarrow> reconcileRuntimeChildren L pd n app;
     case c of
       Inl e \<Rightarrow> children_failed L n app e
     | Inr state \<Rightarrow> observe_workload L n app sourceRevision state }"

definition check_database ::
    "lib \<Rightarrow> bool \<Rightarrow> nat \<Rightarrow> application \<Rightarrow> string \<Rightarrow> reconcile_result prog" where
  "check_database L pd n app sourceRevision = do {
     d \<leftarrow> applicationDatabaseReady L app;
     case d of
       Inl e \<Rightarrow> ret (0, Some (wrap_error ''verify Application database: '' e []))
     | Inr (databaseReady, databaseMessage) \<Rightarrow>
         if \<not> databaseReady then
           report L n app (databaseBlockedStatus L app databaseMessage) ''DatabaseUnavailable'' databaseMessage
         else reconcile_workload L pd n app sourceRevision }"

definition check_capabilities ::
    "lib \<Rightarrow> bool \<Rightarrow> nat \<Rightarrow> application \<Rightarrow> string \<Rightarrow> reconcile_result prog" where
  "check_capabilities L pd n app sourceRevision =
     (let unsupported = UnsupportedFeatures app in
      if length unsupported > 0 then
        reject L n app ''UnsupportedFeature'' (''unsupported capabilities requested: '' @ join '', '' unsupported)
      else if dep_strategy (app_dep (aspec app)) = Canary \<and> \<not> pd then
        reject L n app ''ProgressiveDeliveryUnavailable''
          ''progressive delivery requires the Argo Rollouts and Prometheus Operator CRDs''
      else check_database L pd n app sourceRevision)"

definition check_tenancy ::
    "lib \<Rightarrow> bool \<Rightarrow> nat \<Rightarrow> application \<Rightarrow> string \<Rightarrow> reconcile_result prog" where
  "check_tenancy L pd n app sourceRevision = do {
     t \<leftarrow> applicationTenancy L app;
     case t of
       Inl e \<Rightarrow> ret (0, Some (wrap_error ''verify Application tenancy: '' e []))
     | Inr (Some (reason, message)) \<Rightarrow> reject L n app reason message
     | Inr None \<Rightarrow> check_capabilities L pd n app sourceRevision }"

definition release_application :: "lib \<Rightarrow> application \<Rightarrow> reconcile_result prog" where
  "release_application L app =
     (if contains_finalizer L (ofinalizers app) ApplicationFinalizer then do {
        r \<leftarrow> client_patch (application_object app) (application_object
              (app\<lparr>ofinalizers := remove_finalizer L (ofinalizers app) ApplicationFinalizer\<rparr>));
        case decoded object_application r of
          Inl e \<Rightarrow> ret (0, Some e)
        | Inr patched \<Rightarrow> do {
            _ \<leftarrow> app_event patched EventTypeNormal ''FinalizerReleased''
                   ''Application has no external cleanup and is ready for garbage collection'';
            ret (0, None) } }
      else ret (0, None))"

definition ensure_app_finalizer :: "lib \<Rightarrow> application \<Rightarrow> (go_error + application) prog" where
  "ensure_app_finalizer L app =
     (if \<not> contains_finalizer L (ofinalizers app) ApplicationFinalizer then do {
        r \<leftarrow> client_patch (application_object app) (application_object
              (app\<lparr>ofinalizers := add_finalizer L (ofinalizers app) ApplicationFinalizer\<rparr>));
        ret (decoded object_application r) }
      else ret (Inr app))"

definition Application_Reconcile :: "lib \<Rightarrow> bool \<Rightarrow> nat \<Rightarrow> nsname \<Rightarrow> reconcile_result prog" where
  "Application_Reconcile L pd n req = do {
     r \<leftarrow> client_get KApplication req;
     case decoded object_application r of
       Inl e \<Rightarrow> ret (0, ignore_not_found e)
     | Inr app \<Rightarrow>
         if odeleting app then release_application L app
         else do {
           f \<leftarrow> ensure_app_finalizer L app;
           case f of
             Inl e \<Rightarrow> ret (0, Some e)
           | Inr app \<Rightarrow>
               (case App_Validate L app of
                  Some err \<Rightarrow> reject L n app ''InvalidConfiguration'' (app_error_text L err)
                | None \<Rightarrow>
                    (case resolvedSourceRevision app of
                       Inl e \<Rightarrow> reject L n app ''InvalidSourceRevision'' (err_text e)
                     | Inr revision \<Rightarrow> check_tenancy L pd n app revision)) } }"

subsection \<open>Requests for Applications\<close>

definition applicationRequestForPod :: "kobject \<Rightarrow> nsname list" where
  "applicationRequestForPod obj =
     (let name = map_get (olabels obj) ''app.kubernetes.io/instance'' in
      if name = [] \<or> map_get (olabels obj) ''app.kubernetes.io/managed-by'' \<noteq> ManagedBy then []
      else [(onamespace obj, name)])"

definition applicationRequestsInNamespace :: "string \<Rightarrow> nsname list prog" where
  "applicationRequestsInNamespace namespace = do {
     r \<leftarrow> client_list KApplication (Some namespace) Map.empty;
     case r of
       Inl _ \<Rightarrow> ret []
     | Inr items \<Rightarrow> ret (map (\<lambda>n. (namespace, n)) (sort (map oname items))) }"

definition applicationsForNamespace :: "kobject \<Rightarrow> nsname list prog" where
  "applicationsForNamespace obj = applicationRequestsInNamespace (oname obj)"

definition applicationsForTeam :: "kobject \<Rightarrow> nsname list prog" where
  "applicationsForTeam obj = applicationRequestsInNamespace (TeamNamespacePrefix @ oname obj)"

definition refers_to :: "string \<Rightarrow> kobject \<Rightarrow> bool" where
  "refers_to db obj = (case object_application obj of
     None \<Rightarrow> False | Some app \<Rightarrow> app_databaseRef (aspec app) = Some db)"

definition applicationsForDatabase :: "kobject \<Rightarrow> nsname list prog" where
  "applicationsForDatabase obj = do {
     r \<leftarrow> client_list KApplication (Some (onamespace obj)) Map.empty;
     case r of
       Inl _ \<Rightarrow> ret []
     | Inr items \<Rightarrow> ret (sort_key snd (map okey (filter (refers_to (oname obj)) items))) }"

definition applicationsForSecurityReport :: "kobject \<Rightarrow> nsname list prog" where
  "applicationsForSecurityReport obj = applicationRequestsInNamespace (onamespace obj)"

definition optionalResourceAvailable :: "go_error option \<Rightarrow> string \<Rightarrow> go_error + bool" where
  \<comment> \<open>\<open>err\<close> is the answer of \<open>RESTMapping\<close>, \<open>g\<close> the text of the kind.\<close>
  "optionalResourceAvailable err g =
     (case err of
        None \<Rightarrow> Inr True
      | Some e \<Rightarrow>
          if err_reason e = NoMatch then Inr False
          else Inl (wrap_error (''discover optional resource '' @ g @ '': '') e []))"

definition hasProgressiveDelivery :: "bool option \<Rightarrow> bool" where
  \<comment> \<open>Discovered at setup; unset in a reconciler without a manager.\<close>
  "hasProgressiveDelivery available = (case available of None \<Rightarrow> True | Some b \<Rightarrow> b)"

end
