(* ===== verification/App_Status_Facts.thy ===== *)
theory App_Status_Facts
  imports App_Reconcile
begin

section \<open>When an Application is Ready\<close>

text \<open>
  The conditions that each status function of the Application controller writes, the exact condition under which the
  pass reports \<open>Ready\<close>, what the image digest resolution means for the Pods, and the claims on both.
\<close>

subsection \<open>Reading the conditions\<close>

lemma setCondition_reads [status_simps]:
  "conditions_ok L \<Longrightarrow>
   cond_of L (as_conditions (setCondition L app ty st reason message status)) ty' =
     (if ty' = ty then Some (st, reason, message, ogeneration app)
      else cond_of L (as_conditions status) ty')"
  "as_phase (setCondition L app ty st reason message status) = as_phase status"
  "as_observedGeneration (setCondition L app ty st reason message status) = as_observedGeneration status"
  "as_activeVersion (setCondition L app ty st reason message status) = as_activeVersion status"
  "as_candidateVersion (setCondition L app ty st reason message status) = as_candidateVersion status"
  "as_resolvedImageDigest (setCondition L app ty st reason message status) = as_resolvedImageDigest status"
  "as_resolvedGitRevision (setCondition L app ty st reason message status) = as_resolvedGitRevision status"
  by (simp_all add: setCondition_def cond_of_set)

lemma setter_reads [status_simps]:
  "as_activeVersion (setServiceHealth L app a r status) = as_activeVersion status"
  "as_observedGeneration (setServiceHealth L app a r status) = as_observedGeneration status"
  "as_resolvedImageDigest (setServiceHealth L app a r status) = as_resolvedImageDigest status"
  "as_resolvedGitRevision (setServiceHealth L app a r status) = as_resolvedGitRevision status"
  "as_activeVersion (setSecurityPolicyReady L app status) = as_activeVersion status"
  "as_observedGeneration (setSecurityPolicyReady L app status) = as_observedGeneration status"
  "as_resolvedImageDigest (setSecurityPolicyReady L app status) = as_resolvedImageDigest status"
  "as_resolvedGitRevision (setSecurityPolicyReady L app status) = as_resolvedGitRevision status"
  "as_activeVersion (setCandidateVersion app status) = as_activeVersion status"
  "as_observedGeneration (setCandidateVersion app status) = as_observedGeneration status"
  "as_resolvedImageDigest (setCandidateVersion app status) = as_resolvedImageDigest status"
  "as_resolvedGitRevision (setCandidateVersion app status) = as_resolvedGitRevision status"
  by (simp_all add: setServiceHealth_def setSecurityPolicyReady_def setCandidateVersion_def status_simps)

lemma baseStatus_reads [status_simps]:
  "as_observedGeneration (baseStatus app) = ogeneration app"
  "as_activeVersion (baseStatus app) = as_activeVersion (astatus app)"
  "as_resolvedImageDigest (baseStatus app) = as_resolvedImageDigest (astatus app)"
  "as_resolvedGitRevision (baseStatus app) = as_resolvedGitRevision (astatus app)"
  by (simp_all add: baseStatus_def)

lemma condition_names [simp]:
  "conditionReady \<noteq> conditionRolloutHealthy" "conditionRolloutHealthy \<noteq> conditionReady"
  "conditionReady \<noteq> conditionApplicationDatabaseReady" "conditionApplicationDatabaseReady \<noteq> conditionReady"
  "conditionReady \<noteq> conditionServiceHealth" "conditionReady \<noteq> conditionConfigurationReady"
  "conditionReady \<noteq> conditionSecurityPolicyReady"
  by (simp_all add: app_condition_defs)

text \<open>What a reader takes from a status: whether it is ready, and the release it names as active.\<close>

definition reported_ready :: "lib \<Rightarrow> app_status \<Rightarrow> bool" where
  "reported_ready L status \<longleftrightarrow>
     (\<exists>reason message gen. cond_of L (as_conditions status) conditionReady = Some (CondTrue, reason, message, gen))"

definition active_release :: "app_status \<Rightarrow> string \<times> string \<times> string" where
  "active_release status = (as_activeVersion status, as_resolvedImageDigest status, as_resolvedGitRevision status)"

lemma outcome_reads [status_simps]:
  assumes "conditions_ok L"
  shows "\<not> reported_ready L (set_outcome L app phase h re me re2 me2 status)"
    and "as_phase (set_outcome L app phase h re me re2 me2 status) = phase"
    and "as_observedGeneration (set_outcome L app phase h re me re2 me2 status) = as_observedGeneration status"
    and "active_release (set_outcome L app phase h re me re2 me2 status) = active_release status"
  using assms by (simp_all add: set_outcome_def reported_ready_def active_release_def status_simps)

lemma promoted_reads [status_simps]:
  assumes "conditions_ok L"
  shows "reported_ready L (set_promoted L app digest srev re me rm status)"
    and "as_phase (set_promoted L app digest srev re me rm status) = AppHealthy"
    and "as_observedGeneration (set_promoted L app digest srev re me rm status) = as_observedGeneration status"
    and "active_release (set_promoted L app digest srev re me rm status) = (app_tag app, dr_digest digest, srev)"
  using assms by (simp_all add: set_promoted_def reported_ready_def active_release_def status_simps)

lemma database_condition_reads [status_simps]:
  assumes "conditions_ok L"
  shows "reported_ready L (setCondition L app conditionApplicationDatabaseReady st re me status)
      = reported_ready L status"
    and "active_release (setCondition L app conditionApplicationDatabaseReady st re me status)
      = active_release status"
  using assms by (simp_all add: reported_ready_def active_release_def status_simps)

lemma release_setters [status_simps]:
  "active_release (setServiceHealth L app a r status) = active_release status"
  "active_release (setSecurityPolicyReady L app status) = active_release status"
  "active_release (setCandidateVersion app status) = active_release status"
  "active_release (setCondition L app ty st re me status) = active_release status"
  "active_release (baseStatus app) = active_release (astatus app)"
  "active_release (status\<lparr>as_candidateVersion := c\<rparr>) = active_release status"
  "active_release (status\<lparr>as_phase := p\<rparr>) = active_release status"
  by (simp_all add: active_release_def status_simps)

subsection \<open>The three statuses of a pass\<close>

definition rolling_promotable :: "lib \<Rightarrow> application \<Rightarrow> kobject option \<Rightarrow> kobject \<Rightarrow> imageDigestResolution \<Rightarrow> bool" where
  "rolling_promotable L app deployment route digest \<longleftrightarrow>
     deploymentState deployment (min_replicas app) = (True, False)
   \<and> routeState L route = (True, False) \<and> dr_state digest = imageDigestResolved"

definition canary_promotable :: "lib \<Rightarrow> application \<Rightarrow> applicationRuntimeState \<Rightarrow> imageDigestResolution \<Rightarrow> bool" where
  "canary_promotable L app state digest \<longleftrightarrow>
     \<not> rs_migrating state \<and> routeState L (state_route state) = (True, False)
   \<and> rolloutHealthy (rs_rollout state) (min_replicas app)
   \<and> (case rs_rollout state of
        None \<Rightarrow> False
      | Some r \<Rightarrow> \<not> ros_abort (rollout_status_of r) \<and> \<not> analysis_inconclusive app (rollout_status_of r))
   \<and> dr_state digest = imageDigestResolved"

definition promotable :: "lib \<Rightarrow> application \<Rightarrow> applicationRuntimeState \<Rightarrow> imageDigestResolution \<Rightarrow> bool" where
  "promotable L app state digest \<longleftrightarrow>
     (if dep_strategy (app_dep (aspec app)) = Canary then canary_promotable L app state digest
      else \<not> rs_migrating state
        \<and> rolling_promotable L app (rs_deployment state) (state_route state) digest)"

lemma deployment_conditions_exclusive:
  "deployment_conditions d n r cs = (ready, failed) \<Longrightarrow> \<not> (ready \<and> failed)"
  by (induction d n r cs arbitrary: ready failed rule: deployment_conditions.induct)
    (auto split: if_splits)

lemma deploymentState_cases:
  "deploymentState d n = (True, False) \<or> deploymentState d n = (False, True)
   \<or> deploymentState d n = (False, False)"
proof (cases "deploymentState d n")
  case (Pair a b)
  have "\<not> (a \<and> b)"
  proof (cases d)
    case None
    with Pair show ?thesis by (simp add: deploymentState_def)
  next
    case (Some e)
    with Pair show ?thesis
      by (intro deployment_conditions_exclusive) (simp add: deploymentState_def)
  qed
  with Pair show ?thesis by auto
qed

lemma route_parents_exclusive:
  "route_parents_state L r ps = (ready, rejected) \<Longrightarrow> \<not> (ready \<and> rejected)"
  by (induction L r ps arbitrary: ready rejected rule: route_parents_state.induct)
    (auto split: if_splits)

lemma routeState_cases:
  "routeState L r = (True, False) \<or> routeState L r = (False, True) \<or> routeState L r = (False, False)"
  using route_parents_exclusive [of L r "route_parents_of r"]
  by (cases "routeState L r") (auto simp: routeState_def)

lemma workloadStatus_reads:
  assumes "conditions_ok L"
  shows "reported_ready L (fst (workloadStatus L app d r digest srev)) = rolling_promotable L app d r digest"
    and "active_release (fst (workloadStatus L app d r digest srev)) =
      (if rolling_promotable L app d r digest then (app_tag app, dr_digest digest, srev)
       else active_release (astatus app))"
    and "as_phase (fst (workloadStatus L app d r digest srev)) = AppHealthy
      \<longleftrightarrow> rolling_promotable L app d r digest"
  using assms deploymentState_cases [of d "min_replicas app"] routeState_cases [of L r]
  by (cases "dr_state digest"; elim disjE;
      simp add: workloadStatus_def rolling_promotable_def Let_def status_simps)+

lemma strategyMigrationStatus_reads:
  assumes "conditions_ok L"
  shows "\<not> reported_ready L (strategyMigrationStatus L app state)"
    and "active_release (strategyMigrationStatus L app state) = active_release (astatus app)"
    and "as_phase (strategyMigrationStatus L app state) \<noteq> AppHealthy"
  using assms by (simp_all add: strategyMigrationStatus_def Let_def case_prod_beta status_simps)

lemma aborted_reads [status_simps]:
  assumes "conditions_ok L"
  shows "\<not> reported_ready L (aborted_status L app state st status)"
    and "active_release (aborted_status L app state st status) = active_release status"
    and "as_phase (aborted_status L app state st status) \<noteq> AppHealthy"
  using assms by (simp_all add: aborted_status_def Let_def status_simps)

lemma promotion_reads [status_simps]:
  assumes "conditions_ok L"
  shows "reported_ready L (promotion_status L app ready digest srev status)
      = (ready \<and> dr_state digest = imageDigestResolved)"
    and "active_release (promotion_status L app ready digest srev status) =
      (if ready \<and> dr_state digest = imageDigestResolved then (app_tag app, dr_digest digest, srev)
       else active_release status)"
    and "(as_phase (promotion_status L app ready digest srev status) = AppHealthy)
      = (ready \<and> dr_state digest = imageDigestResolved)"
  using assms by (auto simp: promotion_status_def Let_def status_simps)

lemma healthy_not_degraded:
  "rolloutHealthy (Some r) n \<Longrightarrow> ros_phase (rollout_status_of r) \<noteq> ''Degraded''"
  by (simp add: rolloutHealthy_def)

lemma canaryWorkloadStatus_reads:
  assumes "conditions_ok L"
  shows "reported_ready L (fst (canaryWorkloadStatus L app state digest srev))
      = canary_promotable L app state digest" (is ?ready)
    and "active_release (fst (canaryWorkloadStatus L app state digest srev)) =
      (if canary_promotable L app state digest then (app_tag app, dr_digest digest, srev)
       else active_release (astatus app))" (is ?release)
    and "as_phase (fst (canaryWorkloadStatus L app state digest srev)) = AppHealthy
      \<longleftrightarrow> canary_promotable L app state digest" (is ?phase)
proof -
  have "?ready \<and> ?release \<and> ?phase"
  proof (cases "rs_rollout state")
    case None
    then show ?thesis
      using assms routeState_cases [of L "state_route state"]
      by (elim disjE; cases "rs_migrating state";
          simp add: canaryWorkloadStatus_def canary_promotable_def rolloutHealthy_def Let_def status_simps)
  next
    case (Some r)
    have inner: "?ready \<and> ?release \<and> ?phase"
      if "routeState L (state_route state) = (rr, False)" "\<not> rs_migrating state" for rr
      using that Some assms healthy_not_degraded [of r "min_replicas app"]
      by (cases "analysis_inconclusive app (rollout_status_of r)"; cases "ros_abort (rollout_status_of r)";
          cases "ros_phase (rollout_status_of r) = ''Degraded''")
        (auto simp: canaryWorkloadStatus_def canary_promotable_def Let_def status_simps)
    have "?ready \<and> ?release \<and> ?phase"
      if "routeState L (state_route state) = (False, True) \<or> rs_migrating state"
      using that Some assms routeState_cases [of L "state_route state"]
      by (elim disjE; simp add: canaryWorkloadStatus_def canary_promotable_def Let_def status_simps)
    with inner show ?thesis
      using routeState_cases [of L "state_route state"] by blast
  qed
  then show ?ready ?release ?phase by blast+
qed

lemma desired_status_reads:
  assumes "conditions_ok L"
  shows "reported_ready L (fst (desired_status L app state digest srev)) = promotable L app state digest"
    and "active_release (fst (desired_status L app state digest srev)) =
      (if promotable L app state digest then (app_tag app, dr_digest digest, srev)
       else active_release (astatus app))"
    and "as_phase (fst (desired_status L app state digest srev)) = AppHealthy
      \<longleftrightarrow> promotable L app state digest"
  using assms canaryWorkloadStatus_reads [OF assms, of app state digest srev]
    workloadStatus_reads [OF assms, of app "rs_deployment state" "state_route state" digest srev]
    strategyMigrationStatus_reads [OF assms, of app state]
  by (auto simp: desired_status_def promotable_def Let_def case_prod_beta status_simps)

end
