(* ===== verification/App_Claims.thy ===== *)
theory App_Claims
  imports App_Status_Facts
begin

section \<open>Claims on Application statuses, digests and drains\<close>

text \<open>
  The pure claims on the Application controller: when a pass reports \<open>Ready\<close>, what a resolved image digest means,
  how long a drain takes, and what the Rollout, the routes and the mutation of a Deployment keep.
\<close>

subsection \<open>Digests\<close>

definition digests_of :: "kobject list \<Rightarrow> string list" where
  "digests_of = List.map_filter (\<lambda>p. case pod_report_of p of Digest d \<Rightarrow> Some d | _ \<Rightarrow> None)"

definition is_malformed :: "pod_report \<Rightarrow> bool" where
  "is_malformed r = (case r of Malformed _ \<Rightarrow> True | _ \<Rightarrow> False)"

lemma digest_loop_result:
  "(\<exists>inv. digest_loop L w pods (ds, n, m) = Inl inv \<and> dr_state inv = imageDigestInvalid
      \<and> (\<exists>p \<in> set pods. pod_counts w p \<and> is_malformed (pod_report_of p)))
   \<or> (digest_loop L w pods (ds, n, m) =
        Inr (fold List.insert (digests_of (filter (pod_counts w) pods)) ds,
             n + length (filter (pod_counts w) pods),
             m \<or> (\<exists>p \<in> set pods. pod_counts w p \<and> pod_report_of p = NoReport))
      \<and> (\<forall>p \<in> set pods. pod_counts w p \<longrightarrow> \<not> is_malformed (pod_report_of p)))"
proof (induction pods arbitrary: ds n m)
  case Nil
  then show ?case by (simp add: digests_of_def)
next
  case (Cons p pods)
  show ?case
  proof (cases "pod_counts w p")
    case False
    with Cons [of ds n m] show ?thesis by auto
  next
    case True
    show ?thesis
    proof (cases "pod_report_of p")
      case NoReport
      with True Cons [of ds "Suc n" True] show ?thesis
        by (auto simp: digests_of_def is_malformed_def List.map_filter_simps)
    next
      case (Malformed s)
      with True show ?thesis by (simp add: is_malformed_def)
    next
      case (Digest d)
      with True Cons [of "List.insert d ds" "Suc n" m] show ?thesis
        by (auto simp: digests_of_def is_malformed_def List.map_filter_simps)
    qed
  qed
qed

lemma fold_insert_set: "set (fold List.insert xs ds) = set xs \<union> set ds"
  by (induction xs arbitrary: ds) auto

lemma fold_insert_distinct: "distinct ds \<Longrightarrow> distinct (fold List.insert xs ds)"
  by (induction xs arbitrary: ds) auto

lemma digests_of_set: "set (digests_of ps) = {d. \<exists>p \<in> set ps. pod_report_of p = Digest d}"
  by (induction ps) (auto simp: digests_of_def List.map_filter_simps split: pod_report.splits option.splits)

lemma distinct_length_gt1:
  assumes "distinct xs" shows "length xs > 1 \<longleftrightarrow> (\<exists>a \<in> set xs. \<exists>b \<in> set xs. a \<noteq> b)"
proof (cases xs)
  case (Cons x ys)
  with assms show ?thesis by (cases ys) auto
qed simp

lemma distinct_length_1: "distinct xs \<Longrightarrow> \<not> length xs > 1 \<Longrightarrow> xs \<noteq> [] \<Longrightarrow> set xs = {hd xs}"
  by (cases xs) auto

lemma distinct_singleton: "distinct xs \<Longrightarrow> set xs = {x} \<Longrightarrow> xs = [x]"
proof (cases xs)
  case (Cons y ys)
  assume "distinct xs" "set xs = {x}"
  with Cons show ?thesis by (cases ys) auto
qed simp

lemma sha256_normalized: "normalizeImageDigest s = Some d \<Longrightarrow> sha256_digest d"
  by (auto simp: normalizeImageDigest_def imageDigestPattern_def Let_def split: if_splits)

lemma report_digest: "pod_report_of p = Digest d \<Longrightarrow> sha256_digest d"
  by (auto simp: pod_report_of_def sha256_normalized split: option.splits if_splits)

definition counted :: "string \<Rightarrow> kobject list \<Rightarrow> kobject set" where
  \<comment> \<open>the ready Pods of the wanted image that are not going away\<close>
  "counted image_ref pods = {p \<in> set pods. pod_counts image_ref p}"

lemma resolve_cases:
  obtains
    (invalid) p where "dr_state (resolvePodImageDigest L pods w) = imageDigestInvalid"
      "p \<in> counted w pods" "is_malformed (pod_report_of p)"
  | (clean) ds missing where
      "resolvePodImageDigest L pods w =
         (if length ds > 1 then \<lparr>dr_state = imageDigestConflict, dr_digest = [],
             dr_message = ''ready Pods for the desired image report multiple digests: ''
               @ join '', '' (sort ds)\<rparr>
          else if counted w pods = {} \<or> missing \<or> ds = [] then \<lparr>dr_state = imageDigestPending, dr_digest = [],
             dr_message = ''waiting for every ready desired Pod to report its runtime image digest''\<rparr>
          else \<lparr>dr_state = imageDigestResolved, dr_digest = hd ds, dr_message = []\<rparr>)"
      "distinct ds" "set ds = {d. \<exists>p \<in> counted w pods. pod_report_of p = Digest d}"
      "missing \<longleftrightarrow> (\<exists>p \<in> counted w pods. pod_report_of p = NoReport)"
      "\<forall>p \<in> counted w pods. \<not> is_malformed (pod_report_of p)"
proof -
  let ?ds = "fold List.insert (digests_of (filter (pod_counts w) pods)) []"
  let ?missing = "\<exists>p \<in> set pods. pod_counts w p \<and> pod_report_of p = NoReport"
  consider inv p where "digest_loop L w pods ([], 0, False) = Inl inv" "dr_state inv = imageDigestInvalid"
      "p \<in> set pods" "pod_counts w p" "is_malformed (pod_report_of p)"
    | "digest_loop L w pods ([], 0, False) = Inr (?ds, length (filter (pod_counts w) pods), ?missing)"
      "\<forall>p \<in> set pods. pod_counts w p \<longrightarrow> \<not> is_malformed (pod_report_of p)"
    using digest_loop_result [of L w pods "[]" 0 False] by auto
  then show thesis
  proof cases
    case 1
    then show thesis by (intro invalid) (auto simp: resolvePodImageDigest_def counted_def)
  next
    case 2
    have empty: "length (filter (pod_counts w) pods) = 0 \<longleftrightarrow> counted w pods = {}"
      by (auto simp: counted_def filter_empty_conv)
    show thesis
    proof (rule clean [of ?ds ?missing])
      show "distinct ?ds" by (simp add: fold_insert_distinct)
      show "set ?ds = {d. \<exists>p \<in> counted w pods. pod_report_of p = Digest d}"
        by (auto simp: fold_insert_set digests_of_set counted_def)
    qed (use 2 empty in \<open>auto simp: resolvePodImageDigest_def counted_def Let_def\<close>)
  qed
qed

lemma report_trichotomy:
  "\<not> is_malformed r \<Longrightarrow> r \<noteq> NoReport \<Longrightarrow> \<exists>d. r = Digest d"
  by (cases r) (auto simp: is_malformed_def)

lemma resolve_states:
  fixes L w pods d
  defines "r \<equiv> resolvePodImageDigest L pods w"
  shows "dr_state r = imageDigestInvalid \<longleftrightarrow> (\<exists>p \<in> counted w pods. is_malformed (pod_report_of p))"
    and "dr_state r = imageDigestResolved \<and> dr_digest r = d \<longleftrightarrow>
      counted w pods \<noteq> {} \<and> (\<forall>p \<in> counted w pods. pod_report_of p = Digest d)"
    and "dr_state r = imageDigestConflict \<longleftrightarrow>
      (\<forall>p \<in> counted w pods. \<not> is_malformed (pod_report_of p))
      \<and> (\<exists>p \<in> counted w pods. \<exists>q \<in> counted w pods. \<exists>d e.
           pod_report_of p = Digest d \<and> pod_report_of q = Digest e \<and> d \<noteq> e)"
proof -
  show "dr_state r = imageDigestInvalid \<longleftrightarrow> (\<exists>p \<in> counted w pods. is_malformed (pod_report_of p))"
    by (rule resolve_cases [of L pods w]) (auto simp: r_def)
  show "dr_state r = imageDigestConflict \<longleftrightarrow>
      (\<forall>p \<in> counted w pods. \<not> is_malformed (pod_report_of p))
      \<and> (\<exists>p \<in> counted w pods. \<exists>q \<in> counted w pods. \<exists>d e.
           pod_report_of p = Digest d \<and> pod_report_of q = Digest e \<and> d \<noteq> e)"
  proof (rule resolve_cases [of L pods w])
    fix ds missing
    assume r: "resolvePodImageDigest L pods w =
         (if length ds > 1 then \<lparr>dr_state = imageDigestConflict, dr_digest = [],
             dr_message = ''ready Pods for the desired image report multiple digests: ''
               @ join '', '' (sort ds)\<rparr>
          else if counted w pods = {} \<or> missing \<or> ds = [] then \<lparr>dr_state = imageDigestPending, dr_digest = [],
             dr_message = ''waiting for every ready desired Pod to report its runtime image digest''\<rparr>
          else \<lparr>dr_state = imageDigestResolved, dr_digest = hd ds, dr_message = []\<rparr>)"
      and ds: "distinct ds" "set ds = {d. \<exists>p \<in> counted w pods. pod_report_of p = Digest d}"
      and ok: "\<forall>p \<in> counted w pods. \<not> is_malformed (pod_report_of p)"
    show ?thesis
      using ok distinct_length_gt1 [OF ds(1)] unfolding ds(2) by (auto simp: r_def r)
  qed (auto simp: r_def)
  show "dr_state r = imageDigestResolved \<and> dr_digest r = d \<longleftrightarrow>
      counted w pods \<noteq> {} \<and> (\<forall>p \<in> counted w pods. pod_report_of p = Digest d)"
  proof (rule resolve_cases [of L pods w])
    fix p assume "dr_state (resolvePodImageDigest L pods w) = imageDigestInvalid"
      "p \<in> counted w pods" "is_malformed (pod_report_of p)"
    then show ?thesis by (auto simp: r_def is_malformed_def)
  next
    fix ds missing
    assume r: "resolvePodImageDigest L pods w =
         (if length ds > 1 then \<lparr>dr_state = imageDigestConflict, dr_digest = [],
             dr_message = ''ready Pods for the desired image report multiple digests: ''
               @ join '', '' (sort ds)\<rparr>
          else if counted w pods = {} \<or> missing \<or> ds = [] then \<lparr>dr_state = imageDigestPending, dr_digest = [],
             dr_message = ''waiting for every ready desired Pod to report its runtime image digest''\<rparr>
          else \<lparr>dr_state = imageDigestResolved, dr_digest = hd ds, dr_message = []\<rparr>)"
      and ds: "distinct ds" "set ds = {d. \<exists>p \<in> counted w pods. pod_report_of p = Digest d}"
      and missing: "missing \<longleftrightarrow> (\<exists>p \<in> counted w pods. pod_report_of p = NoReport)"
      and ok: "\<forall>p \<in> counted w pods. \<not> is_malformed (pod_report_of p)"
    show ?thesis
    proof
      assume "dr_state r = imageDigestResolved \<and> dr_digest r = d"
      then have c: "counted w pods \<noteq> {}" "\<not> missing" "ds \<noteq> []" "\<not> length ds > 1" "hd ds = d"
        by (auto simp: r_def r split: if_splits)
      have "set ds = {d}" using distinct_length_1 [OF ds(1) c(4,3)] c(5) by simp
      then show "counted w pods \<noteq> {} \<and> (\<forall>p \<in> counted w pods. pod_report_of p = Digest d)"
        using c(1,2) missing ok ds(2) report_trichotomy by (metis (mono_tags, lifting) mem_Collect_eq singletonD)
    next
      assume all: "counted w pods \<noteq> {} \<and> (\<forall>p \<in> counted w pods. pod_report_of p = Digest d)"
      then have "set ds = {d}" unfolding ds(2) by auto
      with ds(1) have "ds = [d]" by (rule distinct_singleton)
      moreover have "\<not> missing" using all missing by auto
      ultimately show "dr_state r = imageDigestResolved \<and> dr_digest r = d"
        using all by (simp add: r_def r)
    qed
  qed
qed

subsection \<open>Objects for the witnesses\<close>

definition demo_spec :: "deployment_strategy \<Rightarrow> canary_step list \<Rightarrow> app_spec" where
  "demo_spec strategy steps = \<lparr>app_owner = ''owners'',
     app_img = \<lparr>img_repository = ''registry/shop'', img_tag = ''v2''\<rparr>,
     app_rt = \<lparr>rt_port = 8080, rt_replicas = \<lparr>rep_min = 2, rep_max = 4\<rparr>\<rparr>,
     app_res = \<lparr>res_requests = \<lparr>rv_cpu = ''100m'', rv_memory = ''64Mi''\<rparr>,
       res_limits = \<lparr>rv_cpu = ''200m'', rv_memory = ''128Mi''\<rparr>\<rparr>,
     app_dep = \<lparr>dep_strategy = strategy, dep_steps = steps, dep_automaticRollback = True\<rparr>,
     app_rel = \<lparr>rel_availabilityTarget = ''99%'', rel_maximumP95Latency = 10 ^ 9, rel_maximumErrorRate = ''1%''\<rparr>,
     app_obs = \<lparr>obs_metrics = True, obs_logs = True, obs_traces = False\<rparr>,
     app_sec = \<lparr>sec_requireSignedImage = False, sec_runAsNonRoot = True, sec_networkIsolation = False\<rparr>,
     app_databaseRef = None\<rparr>"

definition demo_status :: app_status where
  "demo_status = \<lparr>as_phase = AppProgressing, as_observedGeneration = 1, as_activeVersion = ''v1'',
     as_candidateVersion = ''v2'', as_resolvedImageDigest = [], as_resolvedGitRevision = [], as_conditions = []\<rparr>"

definition demo_app_of :: "deployment_strategy \<Rightarrow> canary_step list \<Rightarrow> application" where
  "demo_app_of strategy steps =
     objmeta.extend ((new_meta ''team-shop'' ''web'')\<lparr>ouid := ''app-1'', ogeneration := 2\<rparr>)
       \<lparr>aspec = demo_spec strategy steps, astatus = demo_status\<rparr>"

definition demo_app :: application where "demo_app = demo_app_of Rolling []"

definition demo_canary :: application where
  "demo_canary = demo_app_of Canary [\<lparr>step_weight = 20, step_pause = 30 * 10 ^ 9\<rparr>,
     \<lparr>step_weight = 60, step_pause = 30 * 10 ^ 9\<rparr>]"

definition demo_deployment :: kobject where
  "demo_deployment = (Deployment demo_app)\<lparr>ogeneration := 3,
     kbody := BDeployment (deployment_spec_for demo_app) \<lparr>dps_observedGeneration = 3,
       dps_availableReplicas = 2, dps_updatedReplicas = 2,
       dps_conditions = [\<lparr>wc_type = ''Available'', wc_status = ''True'', wc_reason = [], wc_message = []\<rparr>]\<rparr>\<rparr>"

definition accepted_parent :: route_parent where
  "accepted_parent = \<lparr>rp_ref = gateway_ref, rp_conditions = [
     mk_condition ''Accepted'' CondTrue 5 ''Accepted'' [],
     mk_condition ''ResolvedRefs'' CondTrue 5 ''ResolvedRefs'' []]\<rparr>"

definition demo_route :: kobject where
  "demo_route = (HTTPRoute demo_app)\<lparr>ogeneration := 5,
     kbody := BHTTPRoute (route_spec_of (HTTPRoute demo_app)) [accepted_parent]\<rparr>"

definition demo_digest :: string where
  "demo_digest = ''sha256:'' @ replicate 64 CHR ''a''"

definition demo_pod :: "string \<Rightarrow> kobject" where
  "demo_pod n = with_body (new_meta ''team-shop'' n)
     (BPod [app_container demo_app] \<lparr>
        pst_conditions = [\<lparr>wc_type = ''Ready'', wc_status = ''True'', wc_reason = [], wc_message = []\<rparr>],
        pst_containerStatuses = [\<lparr>cst_name = ''application'', cst_ready = True,
          cst_imageID = ''registry/shop@'' @ demo_digest\<rparr>]\<rparr>)"

definition demo_resolution :: imageDigestResolution where
  "demo_resolution = \<lparr>dr_state = imageDigestResolved, dr_digest = demo_digest, dr_message = []\<rparr>"

definition demo_state :: applicationRuntimeState where
  "demo_state = new_state\<lparr>rs_deployment := Some demo_deployment, rs_route := Some demo_route\<rparr>"

subsection \<open>Claims\<close>

text \<open>
  C31: The pass reports \<open>Ready\<close> for an Application, phase \<open>Healthy\<close>, exactly when the release can be promoted. For
  a rolling Application: no migration is under way, the Deployment has the wanted replicas at its current
  generation, the shared Gateway accepted the route at its current generation, and the Pods run one known
  digest. For a canary: no migration, the route accepted, the Rollout healthy at its generation, neither aborted
  nor waiting for a decision on an inconclusive analysis, and one digest. Only then do the active version, the
  digest and the source revision change, to those of this release; in every other pass they stay.
\<close>

theorem ready_exactly_when_promotable:
  assumes "conditions_ok L"
  shows "(reported_ready L (fst (desired_status L app state digest srev)) \<longleftrightarrow> promotable L app state digest)
    \<and> (as_phase (fst (desired_status L app state digest srev)) = AppHealthy \<longleftrightarrow> promotable L app state digest)
    \<and> active_release (fst (desired_status L app state digest srev)) =
        (if promotable L app state digest then (app_tag app, dr_digest digest, srev)
         else active_release (astatus app))"
  using desired_status_reads [OF assms] by simp

lemma demo_promotable: "promotable demo_lib demo_app demo_state demo_resolution"
  by code_simp

theorem ready_exactly_when_promotable_witness:
  "reported_ready demo_lib (fst (desired_status demo_lib demo_app demo_state demo_resolution ''c0ffee''))"
  using ready_exactly_when_promotable [of demo_lib demo_app demo_state demo_resolution "''c0ffee''"]
    demo_promotable by simp

text \<open>
  C38: The digest resolution says exactly what the ready Pods of the wanted image report. It is invalid when one of them
  reports an image ID without a digest; it is a conflict when all are well-formed and two differ; and it
  is resolved to \<open>d\<close> when there is such a Pod and every one of them reports \<open>d\<close>, which then has the form of a
  SHA-256 digest. Otherwise it is pending.
\<close>

theorem image_digest_resolution:
  "(dr_state (resolvePodImageDigest L pods w) = imageDigestInvalid \<longleftrightarrow>
      (\<exists>p \<in> counted w pods. is_malformed (pod_report_of p)))
   \<and> (dr_state (resolvePodImageDigest L pods w) = imageDigestConflict \<longleftrightarrow>
      (\<forall>p \<in> counted w pods. \<not> is_malformed (pod_report_of p))
      \<and> (\<exists>p \<in> counted w pods. \<exists>q \<in> counted w pods. \<exists>d e.
           pod_report_of p = Digest d \<and> pod_report_of q = Digest e \<and> d \<noteq> e))
   \<and> (dr_state (resolvePodImageDigest L pods w) = imageDigestResolved
        \<and> dr_digest (resolvePodImageDigest L pods w) = d \<longleftrightarrow>
      sha256_digest d \<and> counted w pods \<noteq> {} \<and> (\<forall>p \<in> counted w pods. pod_report_of p = Digest d))"
  using resolve_states [of L pods w] report_digest by (auto simp: ex_in_conv [symmetric])

lemma demo_pods_resolve:
  "resolvePodImageDigest demo_lib [demo_pod ''a'', demo_pod ''b''] ''registry/shop:v2'' = demo_resolution"
  by code_simp

lemma demo_pods_counted: "demo_pod ''a'' \<in> counted ''registry/shop:v2'' [demo_pod ''a'', demo_pod ''b'']"
proof -
  have "pod_counts ''registry/shop:v2'' (demo_pod ''a'')" by code_simp
  then show ?thesis by (simp add: counted_def)
qed

theorem image_digest_resolution_witness:
  "sha256_digest demo_digest \<and> pod_report_of (demo_pod ''a'') = Digest demo_digest"
  using image_digest_resolution [of demo_lib "[demo_pod ''a'', demo_pod ''b'']" "''registry/shop:v2''" demo_digest]
    demo_pods_counted by (simp add: demo_pods_resolve demo_resolution_def)

text \<open>
  C37: A drain ends. The mark that a pass leaves on a route, read back by a later pass while the route keeps its
  generation, gives what is left of the delay, so the drain is over exactly when the delay has
  passed; once the generation changes the mark counts for nothing and the delay starts anew.
\<close>

theorem drain_ends:
  assumes "parse_nano L (format_nano L start) = Some start"
    and "- (2 ^ 63) \<le> ogeneration route" "ogeneration route < 2 ^ 63"
    and "0 \<le> delay" "delay < 2 ^ 63" "start \<le> now"
    and "map_get (oannotations later) key = map_get (oannotations (drain_mark L route key start)) key"
  shows "routeDrainRemaining L later key delay now =
    (if ogeneration later = ogeneration route then Some (max 0 (delay - (now - start))) else None)"
proof -
  have mark: "map_get (oannotations later) key = show_int (ogeneration route) @ '','' @ format_nano L start"
    using assms(7) by (simp add: drain_mark_def)
  have split: "split2 CHR '','' (show_int (ogeneration route) @ CHR '','' # format_nano L start)
      = [show_int (ogeneration route), format_nano L start]"
    by (rule split2_hit [OF show_int_no_comma])
  have sub: "time_sub now start = min (2 ^ 63 - 1) (now - start)"
    using assms(6) by (simp add: time_sub_def saturate64_def)
  then have "wrap64 (delay - time_sub now start) = delay - time_sub now start"
    using assms(4,5,6) by (intro wrap64_id) auto
  then have "(let remaining = wrap64 (delay - time_sub now start) in if remaining < 0 then 0 else remaining)
      = max 0 (delay - (now - start))"
    using sub assms(5) by (auto simp: Let_def)
  then show ?thesis
    using assms(1-3) by (simp add: routeDrainRemaining_def mark split parse_show_int64 Let_def)
qed

theorem drain_ends_witness:
  "routeDrainRemaining demo_lib (drain_mark demo_lib demo_route rollingCutoverStartedAtKey 7)
     rollingCutoverStartedAtKey rollingCutoverDrainDelay (7 + 10 * 10 ^ 9) = Some (5 * 10 ^ 9)"
  using drain_ends [of demo_lib 7 demo_route rollingCutoverDrainDelay "7 + 10 * 10 ^ 9"
      "drain_mark demo_lib demo_route rollingCutoverStartedAtKey 7" rollingCutoverStartedAtKey]
  by (simp add: demo_lib_def parse_show_int64 demo_route_def rollingCutoverDrainDelay_def drain_mark_def)

subsection \<open>Selectors\<close>

definition migration_labels :: "application \<Rightarrow> strmap" where
  "migration_labels app = dp_templateLabels (deployment_spec_of
     (applyRollingMigrationIdentity app (Deployment app)))"

definition migration_selector :: "application \<Rightarrow> strmap" where
  "migration_selector app = svc_selector (service_spec_of (applyRollingMigrationIdentity app (Service app)))"

lemma show_nat_inj [simp]: "show_nat m = show_nat n \<longleftrightarrow> m = n"
  by (metis digits_value_show_nat option.inject)

lemma show_nat_not_minus [simp]: "show_nat m \<noteq> CHR ''-'' # s" "CHR ''-'' # s \<noteq> show_nat m"
  using show_nat_digits [of m] is_digit_not_sign by (metis list.pred_inject(2))+

lemma show_int_inj [simp]: "show_int m = show_int n \<longleftrightarrow> m = n"
  by (auto simp: show_int_def split: if_splits)

lemma template_label_reads [simp]:
  "template_labels app ''app.kubernetes.io/instance'' = Some (oname app)"
  "template_labels app ''app.kubernetes.io/managed-by'' = Some ManagedBy"
  "template_labels app WorkloadKindLabelKey = Some ''application''"
  "template_labels app NetworkIsolationLabelKey = Some (show_bool (sec_networkIsolation (app_sec (aspec app))))"
  "template_labels app ''cnpg.io/cluster'' = None"
  "template_labels app DatabaseLabelKey = app_databaseRef (aspec app)"
  "template_labels app rollingMigrationLabelKey = None"
  "template_labels app VersionLabelKey = Some (app_tag app)"
  by (simp_all add: template_labels_def Labels_def Let_def label_key_defs rollingMigrationLabelKey_def
      app_tag_def split: option.split)

lemma SelectorLabels_le:
  "SelectorLabels a \<subseteq>\<^sub>m m \<longleftrightarrow> m ''app.kubernetes.io/instance'' = Some (oname a)
     \<and> m ''app.kubernetes.io/managed-by'' = Some ManagedBy"
  by (auto simp: SelectorLabels_def map_le_def)

text \<open>
  C39: The selectors of the generated objects pick the Application's own Pods and no others: the Deployment, the
  base, stable and canary Services and the egress NetworkPolicies select the Pods of the
  Application with their name and of no other one, and during a rolling migration the base Service selects
  only the Pods of the Deployment of this generation, not those of the Rollout.
\<close>

theorem selectors_pick_own_pods:
  "(SelectorLabels a \<subseteq>\<^sub>m template_labels b \<longleftrightarrow> oname a = oname b)
   \<and> (svc_selector (service_spec_of (Service a)) \<subseteq>\<^sub>m template_labels b \<longleftrightarrow> oname a = oname b)
   \<and> (svc_selector (service_spec_of (StableService a)) \<subseteq>\<^sub>m template_labels b \<longleftrightarrow> oname a = oname b)
   \<and> (svc_selector (service_spec_of (CanaryService a)) \<subseteq>\<^sub>m template_labels b \<longleftrightarrow> oname a = oname b)
   \<and> dp_selector (deployment_spec_for a) = Some (match_labels (SelectorLabels a))
   \<and> (migration_selector a \<subseteq>\<^sub>m migration_labels b \<longleftrightarrow>
        oname a = oname b \<and> ogeneration a = ogeneration b)
   \<and> \<not> migration_selector a \<subseteq>\<^sub>m template_labels b"
proof -
  have key: "rollingMigrationLabelKey \<noteq> ''app.kubernetes.io/instance''"
    "rollingMigrationLabelKey \<noteq> ''app.kubernetes.io/managed-by''"
    by (simp_all add: rollingMigrationLabelKey_def)
  have sel: "migration_selector a = (SelectorLabels a)(rollingMigrationLabelKey \<mapsto> show_int (ogeneration a))"
    for a
    by (simp add: migration_selector_def applyRollingMigrationIdentity_def Service_def service_spec_of_def
        app_service_spec_def Let_def)
  have lab: "migration_labels b = (template_labels b)(rollingMigrationLabelKey \<mapsto> show_int (ogeneration b))"
    by (simp add: migration_labels_def applyRollingMigrationIdentity_def Deployment_def deployment_spec_of_def
        deployment_spec_for_def Let_def)
  have le: "migration_selector a \<subseteq>\<^sub>m m \<longleftrightarrow> SelectorLabels a \<subseteq>\<^sub>m m
      \<and> m rollingMigrationLabelKey = Some (show_int (ogeneration a))" for m
    using key unfolding sel by (auto simp: map_le_def SelectorLabels_def)
  show ?thesis
    using key by (auto simp: le lab SelectorLabels_le service_spec_of_def Service_def StableService_def
        CanaryService_def rolloutService_def app_service_spec_def deployment_spec_for_def Let_def)
qed

end
