(* ===== verification/Resource_Claims.thy ===== *)
theory Resource_Claims
  imports App_Claims
begin

section \<open>Claims on the generated objects\<close>

text \<open>
  What the Rollout, the canary route, the Deployment and the NetworkPolicies generated for Applications and Databases
  guarantee; the policies are combined with those of the Team, as they are in the Team's namespace.
\<close>

subsection \<open>The canary\<close>








subsection \<open>The route of a canary\<close>

definition backend_list :: "kobject \<Rightarrow> (string \<times> int option) list" where
  "backend_list route = concat (map (\<lambda>r. map (\<lambda>b. (br_name b, br_weight b)) (rl_backends r))
     (rs_rules (route_spec_of route)))"

definition in_progress :: "kobject \<Rightarrow> bool" where
  "in_progress route \<longleftrightarrow>
     map_get (olabels route) gatewayPluginInProgressLabel = gatewayPluginInProgressValue"

lemma controller_ref_okD:
  assumes "controller_ref_ok L" "set_controller_reference L owner m = Inr m'"
  shows "m' = m\<lparr>ocontroller := Some (ouid owner)\<rparr>
    \<and> (ocontroller m = None \<or> ocontroller m = Some (ouid owner))"
  using assms unfolding controller_ref_ok_def by blast

lemma set_controller_reads:
  assumes "set_controller L owner obj = Inr w" "controller_ref_ok L"
  shows "kbody w = kbody obj" "olabels w = olabels obj" "oannotations w = oannotations obj"
    "okey w = okey obj" "ocontroller w = Some (ouid owner)"
    "ocontroller obj = None \<or> ocontroller obj = Some (ouid owner)"
proof -
  obtain m where m: "set_controller_reference L (objmeta.truncate owner) (objmeta.truncate obj) = Inr m"
    and w: "w = with_body m (kbody obj)"
    using assms(1) by (auto simp: set_controller_def split: sum.splits)
  have "m = (objmeta.truncate obj)\<lparr>ocontroller := Some (ouid owner)\<rparr>
      \<and> (ocontroller obj = None \<or> ocontroller obj = Some (ouid owner))"
    using controller_ref_okD [OF assms(2) m] by (simp add: objmeta.defs)
  then show "kbody w = kbody obj" "olabels w = olabels obj" "oannotations w = oannotations obj"
    "okey w = okey obj" "ocontroller w = Some (ouid owner)"
    "ocontroller obj = None \<or> ocontroller obj = Some (ouid owner)"
    using w by (simp_all add: okey_def objmeta.defs)
qed

lemma canary_backends:
  "rs_rules (route_spec_of (CanaryHTTPRoute app)) =
     [\<lparr>rl_matches = [\<lparr>rm_pathType = Some ''PathPrefix'', rm_path = Some ''/''\<rparr>],
       rl_backends = [backend_to (StableServiceName app) 100, backend_to (CanaryServiceName app) 0]\<rparr>]"
  by (simp add: route_spec_of_def CanaryHTTPRoute_def app_route_spec_def)

lemma backend_weights_two:
  "a \<noteq> b \<Longrightarrow> backend_weights [x\<lparr>br_name := a, br_weight := Some i\<rparr>, y\<lparr>br_name := b, br_weight := Some j\<rparr>]
     = [a \<mapsto> i, b \<mapsto> j]"
  by (auto simp: backend_weights_def List.map_filter_simps fun_eq_iff)

text \<open>
  C32: Reconciling the route of a canary never moves traffic that the traffic router is moving: while the router marks the
  route as in progress, the write keeps the weights the two backends have; otherwise it sets all
  traffic on the stable Service. In both cases the route has exactly the stable and the canary backend.
\<close>

theorem canary_route_keeps_weights:
  assumes "controller_ref_ok L" "route_mutation L app True uids (CanaryHTTPRoute app) current = Inr w"
    and "single_rule_backends current = Some bs"
    and "backend_list current = [(StableServiceName app, Some s), (CanaryServiceName app, Some c)]"
  shows "backend_list w = (if in_progress current
      then [(StableServiceName app, Some s), (CanaryServiceName app, Some c)]
      else [(StableServiceName app, Some 100), (CanaryServiceName app, Some 0)])"
proof -
  obtain r where r: "rs_rules (route_spec_of current) = [r]" "rl_backends r = bs"
    using assms(3) by (auto simp: single_rule_backends_def split: list.splits)
  obtain x y where xy: "bs = [x, y]" "br_name x = StableServiceName app" "br_weight x = Some s"
      "br_name y = CanaryServiceName app" "br_weight y = Some c"
    using assms(4) r by (auto simp: backend_list_def map_eq_Cons_conv)
  have weights: "backend_weights bs = [StableServiceName app \<mapsto> s, CanaryServiceName app \<mapsto> c]"
    using xy stable_canary_distinct [of app app]
    by (auto simp: backend_weights_def List.map_filter_simps fun_eq_iff)
  let ?desired = "if in_progress current
      then preserveRouteWeights (route_spec_of (CanaryHTTPRoute app)) (route_spec_of current)
      else route_spec_of (CanaryHTTPRoute app)"
  have "set_controller L app ((mergeLabels current (olabels (CanaryHTTPRoute app)))\<lparr>
      oannotations := (oannotations (mergeLabels current (olabels (CanaryHTTPRoute app))))
        (backendServiceUIDsAnnotation \<mapsto> uids),
      kbody := BHTTPRoute ?desired (route_parents_of current)\<rparr>) = Inr w"
    using assms(2) by (simp add: route_mutation_def in_progress_def Let_def split: if_splits)
  from set_controller_reads(1) [OF this assms(1)]
  have "kbody w = BHTTPRoute ?desired (route_parents_of current)" by simp
  then have spec: "route_spec_of w = ?desired"
    by (simp add: route_spec_of_def)
  show ?thesis
    using stable_canary_distinct [of app app] weights r(1) r(2)
    unfolding backend_list_def spec
    by (simp add: preserveRouteWeights_def canary_backends backend_to_def Let_def)
qed

definition moving_route :: kobject where
  "moving_route = (HTTPRoute demo_canary)\<lparr>
     olabels := (Labels demo_canary)(gatewayPluginInProgressLabel \<mapsto> gatewayPluginInProgressValue),
     kbody := BHTTPRoute (app_route_spec demo_canary
       [backend_to (StableServiceName demo_canary) 80, backend_to (CanaryServiceName demo_canary) 20]) []\<rparr>"

theorem canary_route_keeps_weights_witness:
  "\<exists>w. route_mutation demo_lib demo_canary True ''uids'' (CanaryHTTPRoute demo_canary) moving_route = Inr w
     \<and> backend_list w = [(StableServiceName demo_canary, Some 80), (CanaryServiceName demo_canary, Some 20)]"
proof -
  obtain w where w: "route_mutation demo_lib demo_canary True ''uids'' (CanaryHTTPRoute demo_canary) moving_route = Inr w"
    by (simp add: route_mutation_def Let_def set_controller_def demo_lib_def moving_route_def mergeLabels_def
        HTTPRoute_def app_object_meta_def objmeta.defs with_body_def)
  have "single_rule_backends moving_route = Some
      [backend_to (StableServiceName demo_canary) 80, backend_to (CanaryServiceName demo_canary) 20]"
    "backend_list moving_route = [(StableServiceName demo_canary, Some 80), (CanaryServiceName demo_canary, Some 20)]"
    "in_progress moving_route"
    by (simp_all add: single_rule_backends_def moving_route_def route_spec_of_def app_route_spec_def
        backend_list_def backend_to_def in_progress_def)
  then show ?thesis
    using canary_route_keeps_weights [OF demo_controller_ref_ok w] w by auto
qed

subsection \<open>The Deployment\<close>

lemma update_first_idem:
  assumes "\<And>x. f (g x) = f x" "\<And>x. g (g x) = g x"
  shows "update_first f n g (update_first f n g xs) = update_first f n g xs"
  by (induction xs) (simp_all add: assms)

lemma set_container_idem: "set_container d (set_container d c) = set_container d c"
  by (simp add: set_container_def)

lemma set_container_name [simp]: "ct_name (set_container d c) = ct_name c"
  by (simp add: set_container_def)

lemma set_container_self: "set_container d d = d"
  by (simp add: set_container_def)

lemma update_first_append_new:
  "n \<notin> f ` set xs \<Longrightarrow> f x = n \<Longrightarrow> update_first f n g (xs @ [x]) = xs @ [g x]"
  by (induction xs) auto

lemma mutate_containers_idem:
  "mutate_containers d (mutate_containers d cs) = mutate_containers d cs"
proof (cases "find_by ct_name (ct_name d) cs = None")
  case True
  then have n: "ct_name d \<notin> ct_name ` set cs" by (simp add: find_by_None_iff)
  then have "find_by ct_name (ct_name d) (cs @ [d]) \<noteq> None" by (simp add: find_by_None_iff)
  with True n show ?thesis
    by (simp add: mutate_containers_def update_first_append_new set_container_self)
next
  case False
  have "find_by ct_name (ct_name d) (update_first ct_name (ct_name d) (set_container d) cs) \<noteq> None"
    using False by (simp add: find_by_update_first)
  with False show ?thesis
    by (simp add: mutate_containers_def update_first_idem set_container_idem)
qed

lemma mutate_containers_others:
  "ct_name c \<noteq> ct_name d \<Longrightarrow> c \<in> set (mutate_containers d cs) \<longleftrightarrow> c \<in> set cs"
proof -
  assume "ct_name c \<noteq> ct_name d"
  moreover have "ct_name c \<noteq> n \<Longrightarrow> c \<in> set (update_first ct_name n (set_container d) cs) \<longleftrightarrow> c \<in> set cs" for n
    by (induction cs) auto
  ultimately show ?thesis by (auto simp: mutate_containers_def)
qed

lemma map_add_self: "m ++ m = m"
  by (rule ext) (simp add: map_add_def split: option.split)

lemma map_add_idem: "(m ++ d) ++ d = m ++ d"
  by (metis map_add_assoc map_add_self)

text \<open>
  C36: Updating an existing Deployment converges: applied to its own result it changes nothing, so a pass over an
  up-to-date Deployment writes nothing. It refuses a Deployment with another selector and changes nothing of
  it; it keeps every other container and every foreign template label; it makes the application container's
  image, probes, environment, resources and security context the wanted ones; and it leaves the replica count
  alone unless it is told to manage it.
\<close>

theorem deployment_update_converges:
  "(case mutateDeployment current (deployment_spec_for app) manage of
      Inl e \<Rightarrow> dp_selector current \<noteq> None \<and> dp_selector current \<noteq> Some (match_labels (SelectorLabels app))
    | Inr sp \<Rightarrow>
        mutateDeployment sp (deployment_spec_for app) manage = Inr sp
      \<and> (\<forall>c. ct_name c \<noteq> ''application'' \<longrightarrow>
            (c \<in> set (ps_containers (dp_pod sp)) \<longleftrightarrow> c \<in> set (ps_containers (dp_pod current))))
      \<and> (\<exists>c. find_by ct_name ''application'' (ps_containers (dp_pod sp)) = Some c
            \<and> set_container (app_container app) c = c)
      \<and> template_labels app \<subseteq>\<^sub>m dp_templateLabels sp
      \<and> (\<forall>k. template_labels app k = None \<longrightarrow> dp_templateLabels sp k = dp_templateLabels current k)
      \<and> dp_replicas sp = (if manage then dp_replicas (deployment_spec_for app) else dp_replicas current))"
proof -
  have d: "ps_containers (dp_pod (deployment_spec_for app)) = [app_container app]"
    "dp_selector (deployment_spec_for app) = Some (match_labels (SelectorLabels app))"
    "dp_templateLabels (deployment_spec_for app) = template_labels app"
    "ct_name (app_container app) = ''application''"
    by (simp_all add: deployment_spec_for_def app_container_def Let_def)
  have find: "\<exists>c. find_by ct_name ''application'' (mutate_containers (app_container app) cs) = Some c
      \<and> set_container (app_container app) c = c" for cs
  proof (cases "find_by ct_name ''application'' cs")
    case None
    then have "find_by ct_name ''application'' (cs @ [app_container app]) = Some (app_container app)"
      using d(4) by (induction cs) (auto split: if_splits)
    with None show ?thesis by (simp add: mutate_containers_def d(4) set_container_self)
  next
    case (Some c)
    then show ?thesis
      by (simp add: mutate_containers_def d(4) find_by_update_first set_container_idem)
  qed
  show ?thesis
  proof (cases "mutateDeployment current (deployment_spec_for app) manage")
    case (Inl e)
    then show ?thesis by (auto simp: mutateDeployment_def d split: if_splits)
  next
    case (Inr sp)
    then have sp: "sp = current\<lparr>
        dp_replicas := (if manage then dp_replicas (deployment_spec_for app) else dp_replicas current),
        dp_selector := Some (match_labels (SelectorLabels app)),
        dp_strategyType := dp_strategyType (deployment_spec_for app),
        dp_maxUnavailable := dp_maxUnavailable (deployment_spec_for app),
        dp_maxSurge := dp_maxSurge (deployment_spec_for app),
        dp_templateLabels := dp_templateLabels current ++ template_labels app,
        dp_pod := (dp_pod current)\<lparr>
          ps_automountToken := ps_automountToken (dp_pod (deployment_spec_for app)),
          ps_seccomp := ps_seccomp (dp_pod (deployment_spec_for app)),
          ps_containers := mutate_containers (app_container app) (ps_containers (dp_pod current))\<rparr>\<rparr>"
      by (auto simp: mutateDeployment_def d mergeStringMap_def split: if_splits)
    have "mutateDeployment sp (deployment_spec_for app) manage = Inr sp"
      by (simp add: sp mutateDeployment_def d mergeStringMap_def map_add_idem mutate_containers_idem)
    moreover have "c \<in> set (mutate_containers (app_container app) cs) \<longleftrightarrow> c \<in> set cs"
      if "ct_name c \<noteq> ''application''" for c cs
      using mutate_containers_others [of c "app_container app" cs] that d(4) by simp
    moreover have "template_labels app \<subseteq>\<^sub>m dp_templateLabels current ++ template_labels app"
      "\<forall>k. template_labels app k = None \<longrightarrow>
        (dp_templateLabels current ++ template_labels app) k = dp_templateLabels current k"
      by (simp_all add: map_add_dom_app_simps(3) domIff)
    ultimately show ?thesis
      using find by (simp add: Inr) (simp add: sp)
  qed
qed

theorem deployment_update_converges_witness:
  "mutateDeployment (deployment_spec_for demo_app) (deployment_spec_for demo_app) True
     = Inr (deployment_spec_for demo_app)"
proof -
  have "mutateDeployment (deployment_spec_for demo_app) (deployment_spec_for demo_app) True
      = Inr (deployment_spec_for demo_app)"
    by (simp add: mutateDeployment_def deployment_spec_for_def mergeStringMap_def mutate_containers_def
        set_container_self map_add_self Let_def)
  with deployment_update_converges [of "deployment_spec_for demo_app" demo_app True] show ?thesis by simp
qed

end
