(* ===== verification/App_Footprint.thy ===== *)
theory App_Footprint
  imports Specs Resource_Claims
begin

section \<open>What the steps of an Application's pass touch\<close>

text \<open>
  The footprint of the steps of a pass: the calls that write, each confined to the Application's namespace, to the kinds
  and names that belong to it, and carrying its ownership; and what the results of the steps say about the
  answers they came from.
\<close>

subsection \<open>The footprint\<close>

definition monitor_names :: "application \<Rightarrow> (kind \<times> string) list" where
  \<comment> \<open>The objects that come and go with the observability and the database binding of the Application.\<close>
  "monitor_names app = [(KUnstructured (monitoring_gvk ''ServiceMonitor''), ServiceMonitorName app),
     (KUnstructured (monitoring_gvk ''PrometheusRule''), PrometheusRuleName app),
     (KNetworkPolicy, OTelEgressPolicyName app), (KNetworkPolicy, DatabaseEgressPolicyName app)]"

definition progressive_names :: "application \<Rightarrow> (kind \<times> string) list" where
  "progressive_names app = [(KService, StableServiceName app), (KService, CanaryServiceName app),
     (KUnstructured rollout_gvk, oname app), (KAnalysisTemplate, AnalysisTemplateName app)]"

definition base_names :: "application \<Rightarrow> (kind \<times> string) list" where
  "base_names app = [(KConfigMap, ConfigMapName app), (KDeployment, oname app), (KService, oname app)]"

definition patched_as :: "kobject \<Rightarrow> kobject \<Rightarrow> bool" where
  \<comment> \<open>A route gets a drain mark; a Rollout gets another content.\<close>
  "patched_as a b \<longleftrightarrow>
     (okind a = KHTTPRoute \<and> (\<exists>mark \<in> {rollingCutoverStartedAtKey, rollingCleanupStartedAtKey}. \<exists>v.
        b = a\<lparr>oannotations := (oannotations a)(mark \<mapsto> v)\<rparr>))
   \<or> (okind a = KUnstructured rollout_gvk \<and> (\<exists>j. b = a\<lparr>kbody := BUnstructured rollout_gvk j\<rparr>))"

definition touches ::
    "(kind \<times> string) list \<Rightarrow> (kind \<times> string) list \<Rightarrow> application \<Rightarrow> call \<Rightarrow> bool" where
  \<comment> \<open>Upserts of these objects, with the Application as the controller, deletions of those, marks on the route,
     and reads.\<close>
  "touches upserted removed app c = (case c of
     UpsertRead obj \<Rightarrow> onamespace obj = onamespace app \<and> (okind obj, oname obj) \<in> set upserted
   | UpsertWrite w \<Rightarrow> onamespace w = onamespace app \<and> (okind w, oname w) \<in> set upserted
        \<and> ocontroller w = Some (ouid app)
   | Delete k (ns, n) \<Rightarrow> ns = onamespace app \<and> (k, n) \<in> set removed
   | Patch a b \<Rightarrow> okey a = okey app \<and> patched_as a b
   | StatusPatch _ _ \<Rightarrow> False
   | SetGauge _ _ _ \<Rightarrow> False | DropGauge _ _ \<Rightarrow> False
   | _ \<Rightarrow> True)"

definition written_names :: "application \<Rightarrow> (kind \<times> string) list" where
  "written_names app = base_names app @ progressive_names app @ monitor_names app"

definition quiet :: "application \<Rightarrow> call \<Rightarrow> bool" where
  \<comment> \<open>No route is written and nothing of a progressive delivery is deleted.\<close>
  "quiet app c \<longleftrightarrow> touches (written_names app) (monitor_names app) app c"

definition confined :: "application \<Rightarrow> call \<Rightarrow> bool" where
  "confined app c \<longleftrightarrow> touches ((KHTTPRoute, oname app) # written_names app)
     (progressive_names app @ monitor_names app) app c"

lemmas names_defs = monitor_names_def progressive_names_def base_names_def written_names_def

lemma touches_mono:
  "touches U D app c \<Longrightarrow> set U \<subseteq> set U' \<Longrightarrow> set D \<subseteq> set D' \<Longrightarrow> touches U' D' app c"
  unfolding touches_def by (cases c) auto

lemma quiet_confined: "quiet app c \<Longrightarrow> confined app c"
  unfolding quiet_def confined_def by (erule touches_mono) auto

lemma touches_reads [simp]:
  "touches U D app (Get k key)" "touches U D app (ListObjects k n ls)" "touches U D app (Event k key a b m)"
  "touches U D app Now"
  by (simp_all add: touches_def)

lemma quiet_reads [simp]:
  "quiet app (Get k key)" "quiet app (ListObjects k n ls)" "quiet app (Event k key a b m)" "quiet app Now"
  by (simp_all add: quiet_def)

subsection \<open>Sequences with errors\<close>

lemma does_and_then:
  assumes "does api C R m" "\<And>e evs. R (Inl e) evs \<Longrightarrow> S (Inl e) evs"
    and "\<And>a e1. R (Inr a) e1 \<Longrightarrow> does api C (\<lambda>b e2. S b (e1 @ e2)) (f a)"
  shows "does api C S (and_then m f)"
  unfolding and_then_def
  by (rule does_bind [OF assms(1)]) (use assms(2,3) in \<open>auto intro: does_ret split: sum.split\<close>)

lemma does_ok: "R (Inr a) [] \<Longrightarrow> does api C R (ok a)"
  unfolding ok_def by (rule does_ret)

lemma does_wrapping:
  assumes "does api C R m" "\<And>e evs. R (Inl e) evs \<Longrightarrow> S (Inl (wrap_error p e [])) evs"
    "\<And>a evs. R (Inr a) evs \<Longrightarrow> S (Inr a) evs"
  shows "does api C S (wrapping p m)"
  unfolding wrapping_def
  by (rule does_bind [OF assms(1)]) (use assms(2,3) in \<open>auto intro!: does_ret split: sum.split\<close>)

lemma calls_sequence [intro!]:
  "calls api C m \<Longrightarrow> (\<And>a. calls api C (f a)) \<Longrightarrow> calls api C (and_then m f)"
  "calls api C m \<Longrightarrow> calls api C (wrapping p m)"
  "calls api C (ok a)"
  by (auto intro: does_and_then does_wrapping does_ok)

lemma does_then_later:
  assumes "calls api C m" "\<And>a. does api C R (f a)"
    and "\<And>b e1 e2. R b e2 \<Longrightarrow> R b (e1 @ e2)" "\<And>e evs. R (Inl e) evs"
  shows "does api C R (and_then m f)"
  by (rule does_and_then [OF assms(1)]) (use assms(3,4) in \<open>auto intro: does_weaken [OF assms(2)]\<close>)

lemma calls_case_sum [intro!]:
  "(\<And>e. x = Inl e \<Longrightarrow> calls api C (f e)) \<Longrightarrow> (\<And>a. x = Inr a \<Longrightarrow> calls api C (g a))
    \<Longrightarrow> calls api C (case x of Inl e \<Rightarrow> f e | Inr a \<Rightarrow> g a)"
  by (cases x) auto

lemma calls_case_option [intro!]:
  "(x = None \<Longrightarrow> calls api C f) \<Longrightarrow> (\<And>a. x = Some a \<Longrightarrow> calls api C (g a))
    \<Longrightarrow> calls api C (case x of None \<Rightarrow> f | Some a \<Rightarrow> g a)"
  by (cases x) auto

lemma calls_case_prod [intro!]:
  "(\<And>a b. p = (a, b) \<Longrightarrow> calls api C (f a b)) \<Longrightarrow> calls api C (case p of (a, b) \<Rightarrow> f a b)"
  by (cases p) auto

subsection \<open>Upserts\<close>

definition owned_mutation :: "application \<Rightarrow> kind \<Rightarrow> (kobject \<Rightarrow> go_error + kobject) \<Rightarrow> bool" where
  \<comment> \<open>The mutation keeps the identity of what it is applied to and makes the Application its controller.\<close>
  "owned_mutation app k mutate \<longleftrightarrow> (\<forall>cur w. okind cur = k \<longrightarrow> mutate cur = Inr w \<longrightarrow>
     okey w = okey cur \<and> okind w = k \<and> ocontroller w = Some (ouid app)
     \<and> (ocontroller cur = None \<or> ocontroller cur = Some (ouid app)))"

lemma set_controller_owned:
  assumes "controller_ref_ok L" "set_controller L owner obj = Inr w"
  shows "okey w = okey obj \<and> okind w = okind obj \<and> ocontroller w = Some (ouid owner)
    \<and> (ocontroller obj = None \<or> ocontroller obj = Some (ouid owner))"
  using set_controller_reads [OF assms(2,1)] by (simp add: okind_def)

lemma mergeLabels_reads [simp]:
  "okey (mergeLabels obj m) = okey obj" "ocontroller (mergeLabels obj m) = ocontroller obj"
  "kbody (mergeLabels obj m) = kbody obj" "onamespace (mergeLabels obj m) = onamespace obj"
  "oname (mergeLabels obj m) = oname obj"
  by (simp_all add: mergeLabels_def okey_def)

lemma okey_updates [simp]:
  "okey (obj\<lparr>oannotations := m\<rparr>) = okey obj" "okind (obj\<lparr>kbody := b\<rparr>) = kind_of b"
  by (simp_all add: okey_def okind_def)

lemma owned_mutations:
  assumes "controller_ref_ok L"
  shows "owned_mutation app KConfigMap (configMap_mutation L app)"
    "owned_mutation app KDeployment (deployment_mutation L app served manage isolate)"
    "owned_mutation app KService (service_mutation L app isolate)"
    "owned_mutation app KService (rollout_service_mutation L app desired)"
    "owned_mutation app (okind desired) (body_mutation L app desired)"
    "owned_mutation app KHTTPRoute (route_mutation L app canary uids template)"
proof -
  note d = set_controller_owned [OF assms]
  show "owned_mutation app KConfigMap (configMap_mutation L app)"
    unfolding owned_mutation_def configMap_mutation_def by (auto dest!: d simp: ConfigMap_def)
  show "owned_mutation app KDeployment (deployment_mutation L app served manage isolate)"
    unfolding owned_mutation_def deployment_mutation_def Let_def
    by (auto dest!: d split: if_splits sum.splits)
  show "owned_mutation app KService (service_mutation L app isolate)"
    unfolding owned_mutation_def service_mutation_def Let_def by (auto dest!: d)
  show "owned_mutation app KService (rollout_service_mutation L app desired)"
    unfolding owned_mutation_def rollout_service_mutation_def Let_def by (auto dest!: d)
  show "owned_mutation app (okind desired) (body_mutation L app desired)"
    unfolding owned_mutation_def body_mutation_def by (auto dest!: d simp: okind_def)
  show "owned_mutation app KHTTPRoute (route_mutation L app canary uids template)"
    unfolding owned_mutation_def route_mutation_def Let_def by (auto dest!: d)
qed

text \<open>An upsert with such a mutation stays confined, and a success is a write in the trace.\<close>

lemma does_upsert:
  assumes "faithful_api api" "owned_mutation app (okind blank) mutate"
    and "onamespace blank = onamespace app" "(okind blank, oname blank) \<in> set U"
    and "\<And>e evs. R (Inl e) evs"
    and "\<And>cur w op res. okey cur = okey blank \<Longrightarrow> okind cur = okind blank \<Longrightarrow> mutate cur = Inr w \<Longrightarrow>
      okey res = okey blank \<Longrightarrow> okind res = okind blank \<Longrightarrow>
      R (Inr (op, res)) [(UpsertRead blank, RObj cur), (UpsertWrite w, RWritten op res)]"
  shows "does api (\<lambda>c r. touches U D app c) R (create_or_update blank mutate)"
proof (rule does_create_or_update)
  show "touches U D app (UpsertRead blank)"
    using assms(3,4) by (simp add: touches_def)
  fix tr tr' cur w
  assume cur: "api tr (UpsertRead blank) = RObj cur" "okind cur = okind blank" "mutate cur = Inr w"
  have k: "okey cur = okey blank" using faithful_apiD(2) [OF assms(1) cur(1)] .
  have w: "okey w = okey blank" "okind w = okind blank" "ocontroller w = Some (ouid app)"
    using assms(2) [unfolded owned_mutation_def, rule_format, OF cur(2,3)] k by simp_all
  show "touches U D app (UpsertWrite w)"
    using w assms(3,4) by (simp add: touches_def okey_def)
  show "R (Inr (op, res)) [(UpsertRead blank, RObj cur), (UpsertWrite w, RWritten op res)]"
    if "api tr' (UpsertWrite w) = RWritten op res" "okind res = okind blank" for op res
    using assms(6) [OF k cur(2,3)] faithful_apiD(3) [OF assms(1) that(1)] w(1) that(2) by simp
qed (rule assms(5))

lemma does_upsert_step:
  assumes "faithful_api api" "owned_mutation app (okind blank) mutate"
    and "onamespace blank = onamespace app" "(okind blank, oname blank) \<in> set U"
    and "\<And>e evs. R (Inl e) evs"
    and "\<And>cur w op res. okey cur = okey blank \<Longrightarrow> okind cur = okind blank \<Longrightarrow> mutate cur = Inr w \<Longrightarrow>
      okey res = okey blank \<Longrightarrow> okind res = okind blank \<Longrightarrow>
      R (Inr (res, op \<noteq> OpNone)) [(UpsertRead blank, RObj cur), (UpsertWrite w, RWritten op res)]"
  shows "does api (\<lambda>c r. touches U D app c) R (upsert what blank mutate)"
  unfolding upsert_def
proof (rule does_bind [where R = "\<lambda>r evs. (\<exists>e. r = Inl e) \<or> (\<exists>op res. r = Inr (op, res)
    \<and> R (Inr (res, op \<noteq> OpNone)) evs)"])
  show "does api (\<lambda>c r. touches U D app c) (\<lambda>r evs. (\<exists>e. r = Inl e) \<or> (\<exists>op res. r = Inr (op, res)
      \<and> R (Inr (res, op \<noteq> OpNone)) evs)) (wrapping what (create_or_update blank mutate))"
    by (rule does_wrapping, rule does_upsert [OF assms(1-4), where R = "\<lambda>r evs. (\<exists>e. r = Inl e) \<or>
        (\<exists>op res. r = Inr (op, res) \<and> R (Inr (res, op \<noteq> OpNone)) evs)"]) (use assms(6) in auto)
qed (use assms(5) in \<open>auto intro!: does_ret\<close>)

lemma confines_upsert:
  assumes "faithful_api api" "owned_mutation app (okind blank) mutate"
    and "onamespace blank = onamespace app" "(okind blank, oname blank) \<in> set U"
  shows "calls api (\<lambda>c r. touches U D app c) (upsert what blank mutate)"
    "calls api (\<lambda>c r. touches U D app c) (create_or_update blank mutate)"
  by (rule does_upsert_step [OF assms] does_upsert [OF assms]; simp)+

lemmas quiet_upsert_step = does_upsert_step [where U = "written_names app" and D = "monitor_names app"
  and app = app for app, folded quiet_def]

lemmas quiet_upserts = confines_upsert [where U = "written_names app" and D = "monitor_names app"
  and app = app for app, folded quiet_def]

lemma app_blank_reads [simp]:
  "okind (app_blank app n b) = kind_of b" "onamespace (app_blank app n b) = onamespace app"
  "oname (app_blank app n b) = n"
  by (simp_all add: app_blank_def)

lemma gvk_of_kind: "okind obj = KUnstructured g \<Longrightarrow> gvk_of obj = g"
  by (cases "kbody obj") (auto simp: okind_def gvk_of_def)

lemma merged_gvk: "gvk_of (mergeLabels obj m) = gvk_of obj"
  by (simp add: gvk_of_def)

lemma confines_unstructured:
  assumes "faithful_api api" "controller_ref_ok L" "okind desired = KUnstructured g"
    and "onamespace desired = onamespace app" "(KUnstructured g, oname desired) \<in> set (written_names app)"
  shows "calls api (\<lambda>c r. quiet app c) (reconcileUnstructured L app desired)"
proof -
  have "owned_mutation app (okind (blank_unstructured desired)) (\<lambda>current.
          let merged = mergeLabels current (olabels desired) in
          case nested_field L (json_of desired) [''spec''] of
            None \<Rightarrow> Inl e1
          | Some spec \<Rightarrow>
              (case set_nested_field L (json_of merged) [''spec''] spec of
                 None \<Rightarrow> Inl e2
               | Some j \<Rightarrow> set_controller L app (merged\<lparr>kbody := BUnstructured (gvk_of merged) j\<rparr>)))" for e1 e2
    unfolding owned_mutation_def Let_def
    using assms(3) gvk_of_kind [OF assms(3)]
    by (auto simp: blank_unstructured_def merged_gvk gvk_of_kind split: option.splits
        dest!: set_controller_owned [OF assms(2)])
  then show ?thesis
    unfolding reconcileUnstructured_def Let_def
    using assms(3-5) gvk_of_kind [OF assms(3)]
    by (intro calls_bind quiet_upserts [OF assms(1)] calls_ret)
      (simp_all add: blank_unstructured_def)
qed

subsection \<open>Reads, deletions and patches\<close>

lemma confines_deleteOwned:
  assumes "faithful_api api" "onamespace obj = onamespace app" "(okind obj, oname obj) \<in> set (monitor_names app)"
  shows "calls api (\<lambda>c r. quiet app c) (deleteOwnedObject obj)"
  unfolding deleteOwnedObject_def
proof (rule does_bind)
  show "does api (\<lambda>c r. quiet app c) (\<lambda>r evs. \<forall>cur. r = Inr cur \<longrightarrow> okey cur = okey obj)
      (client_get (okind obj) (okey obj))"
    by (rule does_client) (auto simp: object_of_Inr dest: faithful_apiD(1) [OF assms(1)])
qed (use assms(2,3) in \<open>auto simp: Let_def quiet_def touches_def okey_def\<close>)

definition own_route :: "application \<Rightarrow> kobject \<Rightarrow> bool" where
  "own_route app route \<longleftrightarrow> okey route = okey app \<and> okind route = KHTTPRoute"

lemma drain_mark_reads [simp]:
  "okey (drain_mark L route a t) = okey route" "okind (drain_mark L route a t) = okind route"
  "kbody (drain_mark L route a t) = kbody route"
  by (simp_all add: drain_mark_def okey_def okind_def)

lemma drain_confined:
  "own_route app route \<Longrightarrow> a \<in> {rollingCutoverStartedAtKey, rollingCleanupStartedAtKey} \<Longrightarrow>
    quiet app (Patch route (drain_mark L route a t))"
  unfolding own_route_def quiet_def touches_def patched_as_def drain_mark_def by auto

definition time_of :: "resp \<Rightarrow> int" where
  "time_of r = (case r of RTime t \<Rightarrow> t | _ \<Rightarrow> 0)"

definition drained :: "lib \<Rightarrow> kobject \<Rightarrow> string \<Rightarrow> int \<Rightarrow> trace \<Rightarrow> bool" where
  \<comment> \<open>The clock was read, and by it the drain of the route is over.\<close>
  "drained L route a delay tr \<longleftrightarrow> (\<exists>r left. (Now, r) \<in> set tr
     \<and> routeDrainRemaining L route a delay (time_of r) = Some left \<and> left \<le> 0)"

lemma does_waitForRouteDrain:
  assumes "faithful_api api" "own_route app route" "a \<in> {rollingCutoverStartedAtKey, rollingCleanupStartedAtKey}"
  shows "does api (\<lambda>c r. quiet app c) (\<lambda>r evs. \<forall>dr. r = Inr dr \<longrightarrow> own_route app (dn_route dr)
      \<and> (dn_drained dr \<longrightarrow> dn_route dr = route \<and> drained L route a delay evs)
      \<and> (dn_route dr = route \<or> (\<exists>b. (Patch route b, RObj (dn_route dr)) \<in> set evs)))
    (waitForRouteDrain L route a delay)"
proof -
  have mark: "does api (\<lambda>c r. quiet app c) (\<lambda>r e. \<forall>obj. r = Inr obj \<longrightarrow> own_route app obj
      \<and> (\<exists>b. (Patch route b, RObj obj) \<in> set e))
      (client_patch route (drain_mark L route a t))" for t
    by (rule does_client)
      (use assms(2) drain_confined [OF assms(2,3)] faithful_apiD(4) [OF assms(1)] in
        \<open>auto simp: object_of_Inr own_route_def\<close>)
  have now: "does api (\<lambda>c r. quiet app c) (\<lambda>t evs. \<exists>r. evs = [(Now, r)] \<and> t = time_of r) current_time"
    unfolding current_time_def time_of_def [symmetric] by (rule does_answer) auto
  show ?thesis
    unfolding waitForRouteDrain_def
  proof (rule does_bind [OF now])
    fix t e1
    assume t: "\<exists>r. e1 = [(Now, r)] \<and> t = time_of r"
    show "does api (\<lambda>c r. quiet app c) (\<lambda>b e2. \<forall>dr. b = Inr dr \<longrightarrow> own_route app (dn_route dr)
        \<and> (dn_drained dr \<longrightarrow> dn_route dr = route \<and> drained L route a delay (e1 @ e2))
        \<and> (dn_route dr = route \<or> (\<exists>b. (Patch route b, RObj (dn_route dr)) \<in> set (e1 @ e2))))
      (case routeDrainRemaining L route a delay t of
         Some remaining \<Rightarrow> ok \<lparr>dn_drained = (remaining \<le> 0), dn_marked = False,
           dn_remaining = remaining, dn_route = route\<rparr>
       | None \<Rightarrow> do {
           r \<leftarrow> client_patch route (drain_mark L route a t);
           case r of
             Inl e \<Rightarrow> ret (Inl e)
           | Inr patched \<Rightarrow> ok \<lparr>dn_drained = False, dn_marked = True, dn_remaining = delay,
               dn_route = patched\<rparr> })"
    proof (cases "routeDrainRemaining L route a delay t")
      case None
      then show ?thesis
        by (auto intro!: does_bind [OF mark] does_ret does_ok split: sum.split)
    next
      case (Some left)
      then show ?thesis
        using t assms(2) by (auto intro!: does_ok simp: drained_def)
    qed
  qed
qed

lemma drained_append: "drained L route a delay evs \<Longrightarrow> drained L route a delay (tr @ evs)"
  by (auto simp: drained_def)

lemma does_getRoute:
  assumes "faithful_api api"
  shows "does api (\<lambda>c r. quiet app c) (\<lambda>r evs. \<forall>route found. r = Inr (route, found) \<longrightarrow>
      (if found then own_route app route \<and> (Get KHTTPRoute (okey app), RObj route) \<in> set evs
       else route = blank_route \<and> (\<exists>e. (Get KHTTPRoute (okey app), RErr e) \<in> set evs \<and> err_reason e = NotFound)))
    (getRoute app)"
  unfolding getRoute_def
  by (rule does_bind [OF does_client(1) [where R = "\<lambda>r evs. \<exists>a. r = object_of KHTTPRoute a \<and> evs = [(Get KHTTPRoute (okey app), a)]
      \<and> (\<forall>obj. a = RObj obj \<longrightarrow> okey obj = okey app)"]])
    (auto simp: object_of_Inr own_route_def dest: faithful_apiD(1) [OF assms] object_of_error
      intro!: does_ret does_ok split: sum.split)

definition rollout_absent :: "bool \<Rightarrow> application \<Rightarrow> trace \<Rightarrow> bool" where
  "rollout_absent pd app tr \<longleftrightarrow> \<not> pd \<or>
     (\<exists>e. (Get KRollout (okey app), RErr e) \<in> set tr \<and> err_reason e \<in> {NotFound, NoMatch})"

lemma does_getRollout:
  assumes "faithful_api api"
  shows "does api (\<lambda>c r. quiet app c) (\<lambda>r evs. \<forall>rollout found. r = Inr (rollout, found) \<longrightarrow>
      (if found then okey rollout = okey app \<and> (Get KRollout (okey app), RObj rollout) \<in> set evs
       else rollout = blank_rollout \<and> rollout_absent pd app evs))
    (getRollout pd app)"
proof (cases pd)
  case True
  then show ?thesis
    unfolding getRollout_def
    by (simp, intro does_bind [OF does_client(1) [where R = "\<lambda>r evs. \<exists>a. r = object_of KRollout a
        \<and> evs = [(Get KRollout (okey app), a)] \<and> (\<forall>obj. a = RObj obj \<longrightarrow> okey obj = okey app)"]])
      (auto simp: object_of_Inr rollout_absent_def dest: faithful_apiD(1) [OF assms] object_of_error
        intro!: does_ret does_ok split: sum.split)
qed (auto simp: getRollout_def rollout_absent_def intro!: does_ok)

lemma freeze_confined:
  "okey cur = okey app \<Longrightarrow> okind cur = KUnstructured rollout_gvk \<Longrightarrow>
    quiet app (Patch cur (cur\<lparr>kbody := BUnstructured rollout_gvk j\<rparr>))"
  unfolding quiet_def touches_def patched_as_def by auto

lemma confines_freeze:
  assumes "faithful_api api"
  shows "calls api (\<lambda>c r. quiet app c) (freezeRollout L app)"
  unfolding freezeRollout_def
proof (rule does_bind)
  show "does api (\<lambda>c r. quiet app c) (\<lambda>r evs. \<forall>cur. r = Inr cur \<longrightarrow> okey cur = okey app
      \<and> okind cur = KUnstructured rollout_gvk) (client_get (KUnstructured rollout_gvk) (okey app))"
    by (rule does_client) (auto simp: object_of_Inr dest: faithful_apiD(1) [OF assms])
qed (auto simp: gvk_of_kind freeze_confined)

lemma confines_backends:
  "calls api (\<lambda>c r. touches U D app c) (backend_uids_loop seen keys identities)"
  by (induction seen keys identities rule: backend_uids_loop.induct) auto

lemma confines_analysis:
  "calls api (\<lambda>c r. quiet app c) (analysisFailure app rollout)"
  unfolding analysisFailure_def recent_analysis_failure_def Let_def by auto

subsection \<open>The children\<close>

definition wrote :: "trace \<Rightarrow> kind \<Rightarrow> kobject \<Rightarrow> bool" where
  \<comment> \<open>An object of this kind was written, and the API answered with \<open>res\<close>.\<close>
  "wrote tr k res \<longleftrightarrow> (\<exists>w op. (UpsertWrite w, RWritten op res) \<in> set tr \<and> okind w = k \<and> okey w = okey res)"

lemma wrote_append [intro]:
  "wrote tr k res \<Longrightarrow> wrote (pre @ tr) k res" "wrote tr k res \<Longrightarrow> wrote (tr @ post) k res"
  by (auto simp: wrote_def)

lemma does_reconcileRoute:
  assumes "faithful_api api" "controller_ref_ok L"
  shows "does api (\<lambda>c r. touches [(KHTTPRoute, oname app)] [] app c) (\<lambda>r evs. \<forall>route b. r = Inr (route, b) \<longrightarrow>
      own_route app route \<and> wrote evs KHTTPRoute route) (reconcileRoute L n app canary)"
proof -
  define template where "template = route_template app canary"
  define blank where "blank = app_blank app (oname app)
      (BHTTPRoute \<lparr>rs_parents = [], rs_hostnames = [], rs_rules = []\<rparr> [])"
  define R where "R = (\<lambda>(r :: go_error + op_result \<times> kobject) evs. \<forall>op route. r = Inr (op, route) \<longrightarrow>
      own_route app route \<and> wrote evs KHTTPRoute route)"
  have up: "does api (\<lambda>c r. touches [(KHTTPRoute, oname app)] [] app c) R (create_or_update blank (route_mutation L app canary uids template))" for uids
    unfolding R_def
  proof (rule does_upsert [OF assms(1)])
    show "owned_mutation app (okind blank) (route_mutation L app canary uids template)"
      using owned_mutations(6) [OF assms(2)] by (simp add: blank_def)
    fix cur w op res
    assume w: "okey cur = okey blank" "okind cur = okind blank" "route_mutation L app canary uids template cur = Inr w"
      and res: "okey res = okey blank" "okind res = okind blank"
    have "okind w = KHTTPRoute" "okey w = okey blank"
      using owned_mutations(6) [OF assms(2)] w unfolding owned_mutation_def by (simp_all add: blank_def)
    then show "\<forall>op' route. Inr (op, res) = Inr (op', route) \<longrightarrow> own_route app route
        \<and> wrote [(UpsertRead blank, RObj cur), (UpsertWrite w, RWritten op res)] KHTTPRoute route"
      using res by (auto simp: own_route_def wrote_def blank_def okey_def)
  qed (simp_all add: blank_def)
  have retry: "does api (\<lambda>c r. touches [(KHTTPRoute, oname app)] [] app c) R (retry_on_conflict k
      (create_or_update blank (route_mutation L app canary uids template)))" for k uids
  proof (induction k)
    case (Suc k)
    have mono: "does api (\<lambda>c r. touches [(KHTTPRoute, oname app)] [] app c) (\<lambda>b e2. R b (e1 @ e2)) m"
      if "does api (\<lambda>c r. touches [(KHTTPRoute, oname app)] [] app c) R m" for m e1
      by (rule does_weaken [OF that]) (auto simp: R_def)
    show ?case
      unfolding retry_on_conflict.simps
      by (rule does_bind [OF up]) (use mono [OF Suc] in \<open>auto intro!: does_ret simp: R_def split: sum.split\<close>)
  qed (simp add: up)
  have route: "does api (\<lambda>c r. touches [(KHTTPRoute, oname app)] [] app c) (\<lambda>r evs. \<forall>route b. r = Inr (route, b) \<longrightarrow>
      own_route app route \<and> wrote evs KHTTPRoute route)
    (and_then (wrapping p (retry_on_conflict n (create_or_update blank (route_mutation L app canary uids template))))
      (\<lambda>(op, route). ok (route, op \<noteq> OpNone)))" for uids p
    by (rule does_and_then, rule does_wrapping [OF retry, where S = R]) (auto simp: R_def intro!: does_ok)
  have backends: "calls api (\<lambda>c r. touches [(KHTTPRoute, oname app)] [] app c) (wrapping p (routeBackendServiceUIDs template))" for p
    unfolding routeBackendServiceUIDs_def by (auto intro!: confines_backends)
  show ?thesis
    unfolding reconcileRoute_def Let_def template_def [symmetric] blank_def [symmetric]
    by (rule does_then_later [OF backends route]) auto
qed

lemma does_upsert_child:
  assumes "faithful_api api" "owned_mutation app (okind blank) mutate"
    and "onamespace blank = onamespace app" "(okind blank, oname blank) \<in> set (written_names app)"
  shows "does api (\<lambda>c r. quiet app c) (\<lambda>r evs. \<forall>obj b. r = Inr (obj, b) \<longrightarrow>
      wrote evs (okind blank) obj \<and> okey obj = okey blank) (upsert what blank mutate)"
proof (rule quiet_upsert_step [OF assms])
  fix cur w res :: kobject and op
  assume cur: "okey cur = okey blank" "okind cur = okind blank" "mutate cur = Inr w" and res: "okey res = okey blank"
  show "\<forall>obj b. Inr (res, op \<noteq> OpNone) = Inr (obj, b) \<longrightarrow>
      wrote [(UpsertRead blank, RObj cur), (UpsertWrite w, RWritten op res)] (okind blank) obj \<and> okey obj = okey blank"
    using assms(2) [unfolded owned_mutation_def, rule_format, OF cur(2,3)] cur(1) res by (simp add: wrote_def)
qed simp

text \<open>The base objects, which both strategies write first.\<close>

definition base_written :: "application \<Rightarrow> trace \<Rightarrow> kobject \<Rightarrow> bool" where
  \<comment> \<open>ConfigMap, Service and Deployment were written; \<open>dep\<close> is the Deployment as the API returned it.\<close>
  "base_written app tr dep \<longleftrightarrow>
     wrote tr KDeployment dep \<and> okey dep = okey app
   \<and> (\<exists>cm. wrote tr KConfigMap cm \<and> okey cm = (onamespace app, ConfigMapName app))
   \<and> (\<exists>svc. wrote tr KService svc \<and> okey svc = okey app)"

lemma base_written_append [intro]:
  "base_written app tr dep \<Longrightarrow> base_written app (pre @ tr) dep"
  "base_written app tr dep \<Longrightarrow> base_written app (tr @ post) dep"
  unfolding base_written_def by blast+

lemma does_shared:
  assumes "faithful_api api" "controller_ref_ok L"
  shows "does api (\<lambda>c r. quiet app c) (\<lambda>r evs. \<forall>dep b. r = Inr (dep, b) \<longrightarrow> base_written app evs dep)
    (reconcileSharedChildren L app served manage isolate)"
proof -
  note up = does_upsert_child [OF assms(1)]
  have cm: "does api (\<lambda>c r. quiet app c) (\<lambda>r evs. \<forall>obj b. r = Inr (obj, b) \<longrightarrow>
      wrote evs KConfigMap obj \<and> okey obj = (onamespace app, ConfigMapName app))
      (upsert ''config map: '' (app_blank app (ConfigMapName app) (BConfigMap Map.empty)) (configMap_mutation L app))"
    using up [of app "app_blank app (ConfigMapName app) (BConfigMap Map.empty)" "configMap_mutation L app"]
      owned_mutations(1) [OF assms(2)] by (simp add: names_defs okey_def)
  have dep: "does api (\<lambda>c r. quiet app c) (\<lambda>r evs. \<forall>obj b. r = Inr (obj, b) \<longrightarrow>
      wrote evs KDeployment obj \<and> okey obj = okey app)
      (upsert ''deployment: '' (app_blank app (oname app) (BDeployment blank_deployment_spec blank_deployment_status))
        (deployment_mutation L app served manage isolate))"
    using up [of app "app_blank app (oname app) (BDeployment blank_deployment_spec blank_deployment_status)"
        "deployment_mutation L app served manage isolate"]
      owned_mutations(2) [OF assms(2)] by (simp add: names_defs okey_def)
  have svc: "does api (\<lambda>c r. quiet app c) (\<lambda>r evs. \<forall>obj b. r = Inr (obj, b) \<longrightarrow>
      wrote evs KService obj \<and> okey obj = okey app)
      (upsert ''service: '' (app_blank app (oname app) blank_service) (service_mutation L app isolate))"
    using up [of app "app_blank app (oname app) blank_service" "service_mutation L app isolate"]
      owned_mutations(3) [OF assms(2)] by (simp add: names_defs okey_def blank_service_def)
  show ?thesis
    unfolding reconcileSharedChildren_def
    by (intro does_and_then [OF cm] allI, simp, clarify)
      (intro does_and_then [OF dep], simp, clarify, intro does_and_then [OF svc], simp, clarify,
        rule does_ok, auto simp: base_written_def)
qed

lemma confines_shared:
  assumes "faithful_api api" "controller_ref_ok L"
  shows "calls api (\<lambda>c r. quiet app c) (reconcileSharedChildren L app served manage isolate)"
  by (rule does_calls [OF does_shared [OF assms]])

lemma RolloutObject_reads [simp]:
  "okind (RolloutObject L app) = KUnstructured rollout_gvk" "oname (RolloutObject L app) = oname app"
  "onamespace (RolloutObject L app) = onamespace app"
  by (simp_all add: RolloutObject_def Let_def app_object_meta_def)

lemma bootstrap_reads:
  "configureBootstrapRollout L obj = Inr obj' \<Longrightarrow> okind obj = KUnstructured g \<Longrightarrow>
    okind obj' = KUnstructured g \<and> oname obj' = oname obj \<and> onamespace obj' = onamespace obj"
  by (auto simp: configureBootstrapRollout_def gvk_of_kind split: option.splits)

lemma confines_progressive:
  assumes "faithful_api api" "controller_ref_ok L"
  shows "calls api (\<lambda>c r. quiet app c) (reconcileProgressiveResources L app hold)"
proof -
  have svc: "calls api (\<lambda>c r. quiet app c) (rollout_service_step L app desired)"
    if "oname desired \<in> {StableServiceName app, CanaryServiceName app}" for desired
    unfolding rollout_service_step_def
    by (rule quiet_upserts(1) [OF assms(1)])
      (use that owned_mutations(4) [OF assms(2), of app desired] in \<open>auto simp: blank_service_def names_defs\<close>)
  have names: "oname (StableService app) = StableServiceName app" "oname (CanaryService app) = CanaryServiceName app"
    by (simp_all add: StableService_def CanaryService_def rolloutService_def app_object_meta_def Let_def)
  have an: "calls api (\<lambda>c r. quiet app c) (upsert ''AnalysisTemplate: ''
       (app_blank app (AnalysisTemplateName app) (BAnalysisTemplate \<lparr>an_args = [], an_metrics = []\<rparr>))
       (body_mutation L app (AnalysisTemplate L app)))"
    by (rule quiet_upserts(1) [OF assms(1)])
      (use owned_mutations(5) [OF assms(2), of app "AnalysisTemplate L app"] in
        \<open>auto simp: names_defs AnalysisTemplate_def Let_def\<close>)
  have held: "does api (\<lambda>c r. quiet app c) (\<lambda>r evs. \<forall>obj. r = Inr obj \<longrightarrow>
      okind obj = KUnstructured rollout_gvk \<and> oname obj = oname app \<and> onamespace obj = onamespace app)
      (held_rollout L app hold)"
    unfolding held_rollout_def
    by (auto intro!: does_ok does_wrapping [OF does_ret, where R = "\<lambda>r evs. r = configureBootstrapRollout L (RolloutObject L app)"]
        dest!: bootstrap_reads [OF sym RolloutObject_reads(1)])
  have ro: "calls api (\<lambda>c r. quiet app c) (and_then (held_rollout L app hold) (\<lambda>rolloutObject.
      and_then (reconcileUnstructured L app rolloutObject) (\<lambda>c4. ok (f c4))))" for f
    by (rule does_and_then [OF held])
      (auto intro!: confines_unstructured [OF assms] simp: names_defs)
  show ?thesis
    unfolding reconcileProgressiveResources_def
    by (auto intro!: svc an ro simp: names)
qed

lemma generated_reads [simp]:
  "okind (ServiceMonitor app) = KUnstructured (monitoring_gvk ''ServiceMonitor'')"
  "okind (PrometheusRule L app) = KUnstructured (monitoring_gvk ''PrometheusRule'')"
  "okind (OTelEgressNetworkPolicy app) = KNetworkPolicy" "okind (DatabaseEgressNetworkPolicy app) = KNetworkPolicy"
  "oname (ServiceMonitor app) = ServiceMonitorName app" "oname (PrometheusRule L app) = PrometheusRuleName app"
  "oname (OTelEgressNetworkPolicy app) = OTelEgressPolicyName app"
  "oname (DatabaseEgressNetworkPolicy app) = DatabaseEgressPolicyName app"
  "onamespace (ServiceMonitor app) = onamespace app" "onamespace (PrometheusRule L app) = onamespace app"
  "onamespace (OTelEgressNetworkPolicy app) = onamespace app"
  "onamespace (DatabaseEgressNetworkPolicy app) = onamespace app"
  by (simp_all add: ServiceMonitor_def PrometheusRule_def OTelEgressNetworkPolicy_def DatabaseEgressNetworkPolicy_def
      Let_def app_object_meta_def)

lemma confines_observability:
  assumes "faithful_api api" "controller_ref_ok L"
  shows "calls api (\<lambda>c r. quiet app c) (reconcileObservabilityResources L app)"
proof -
  have mon: "calls api (\<lambda>c r. quiet app c) (monitoring_step L app desired)"
    if "okind desired = KUnstructured g" "onamespace desired = onamespace app"
      "(KUnstructured g, oname desired) \<in> set (written_names app)"
      "(KUnstructured g, oname desired) \<in> set (monitor_names app)" for desired g
    unfolding monitoring_step_def
    using that by (intro calls_if confines_unstructured [OF assms] confines_deleteOwned [OF assms(1)]) auto
  have pol: "calls api (\<lambda>c r. quiet app c) (egress_policy_step L app wanted what policy)"
    if "okind policy = KNetworkPolicy" "onamespace policy = onamespace app"
      "(KNetworkPolicy, oname policy) \<in> set (written_names app)"
      "(KNetworkPolicy, oname policy) \<in> set (monitor_names app)" for wanted what policy
    unfolding egress_policy_step_def
  proof (intro calls_if calls_sequence(1) confines_deleteOwned [OF assms(1)] quiet_upserts(1) [OF assms(1)])
    show "owned_mutation app (okind (policy\<lparr>kbody := blank_policy\<rparr>)) (body_mutation L app policy)"
      using owned_mutations(5) [OF assms(2), of app policy] that(1) by (simp add: blank_policy_def)
  qed (use that in \<open>auto simp: blank_policy_def\<close>)
  show ?thesis
    unfolding reconcileObservabilityResources_def
    by (intro calls_sequence mon [of _ "monitoring_gvk ''ServiceMonitor''"] mon [of _ "monitoring_gvk ''PrometheusRule''"] pol)
      (simp_all add: names_defs)
qed

end
