(* ===== verification/App_Order.thy ===== *)
theory App_Order
  imports App_Footprint
begin

section \<open>The order of a pass over an Application's objects\<close>

text \<open>
  The guard that the writing of the children keeps: the HTTPRoute is written only when the workload behind it is ready, when
  it already goes to that workload, or when there is no route yet; and the objects of a progressive delivery are
  deleted only after the Deployment was seen ready, the shared Gateway accepted the route to it and the drains
  are over, the Services before the Rollout.
\<close>

subsection \<open>The guard\<close>

definition route_absent :: "application \<Rightarrow> trace \<Rightarrow> bool" where
  "route_absent app tr \<longleftrightarrow> (\<exists>e. (Get KHTTPRoute (okey app), RErr e) \<in> set tr \<and> err_reason e = NotFound)"

definition on_canary_services :: "application \<Rightarrow> trace \<Rightarrow> bool" where
  "on_canary_services app tr \<longleftrightarrow>
     (\<exists>route. (Get KHTTPRoute (okey app), RObj route) \<in> set tr \<and> routeUsesCanaryServices route app)"

definition rollout_ready :: "application \<Rightarrow> trace \<Rightarrow> bool" where
  "rollout_ready app tr \<longleftrightarrow>
     (\<exists>rollout. (Get KRollout (okey app), RObj rollout) \<in> set tr \<and> rolloutHealthy (Some rollout) (min_replicas app))"

definition deployment_ready :: "application \<Rightarrow> trace \<Rightarrow> bool" where
  "deployment_ready app tr \<longleftrightarrow>
     (\<exists>dep. base_written app tr dep \<and> fst (deploymentState (Some dep) (min_replicas app)))"

definition may_write_route :: "bool \<Rightarrow> application \<Rightarrow> trace \<Rightarrow> bool" where
  "may_write_route pd app tr \<longleftrightarrow> (\<exists>dep. base_written app tr dep) \<and>
     (route_absent app tr \<or>
      (if dep_strategy (app_dep (aspec app)) = Canary then on_canary_services app tr \<or> rollout_ready app tr
       else rollout_absent pd app tr \<or> deployment_ready app tr))"

definition route_seen :: "application \<Rightarrow> trace \<Rightarrow> kobject \<Rightarrow> bool" where
  \<comment> \<open>The route as an answer of this pass gave it.\<close>
  "route_seen app tr route \<longleftrightarrow> own_route app route \<and>
     ((Get KHTTPRoute (okey app), RObj route) \<in> set tr \<or> wrote tr KHTTPRoute route
      \<or> (\<exists>a b. (Patch a b, RObj route) \<in> set tr \<and> okind a = KHTTPRoute))"

definition cut_over :: "lib \<Rightarrow> application \<Rightarrow> trace \<Rightarrow> bool" where
  "cut_over L app tr \<longleftrightarrow> deployment_ready app tr
     \<and> (\<exists>route. route_seen app tr route \<and> routeUsesBaseService route app \<and> route_accepted L route
          \<and> drained L route rollingCutoverStartedAtKey rollingCutoverDrainDelay tr)"

definition removed :: "kind \<Rightarrow> nsname \<Rightarrow> trace \<Rightarrow> bool" where
  "removed k n tr \<longleftrightarrow>
     (\<exists>e. (Get k n, RErr e) \<in> set tr \<and> err_reason e = NotFound)
   \<or> (\<exists>r. (Delete k n, r) \<in> set tr \<and> (\<forall>e. error_of r = Some e \<longrightarrow> err_reason e = NotFound))"

definition services_removed :: "lib \<Rightarrow> application \<Rightarrow> trace \<Rightarrow> bool" where
  "services_removed L app tr \<longleftrightarrow> removed KService (onamespace app, StableServiceName app) tr
     \<and> removed KService (onamespace app, CanaryServiceName app) tr
     \<and> (\<exists>route. route_seen app tr route \<and> drained L route rollingCleanupStartedAtKey rollingCleanupDrainDelay tr)"

definition ordered :: "lib \<Rightarrow> bool \<Rightarrow> application \<Rightarrow> trace \<Rightarrow> call \<Rightarrow> bool" where
  "ordered L pd app tr c = (case c of
     UpsertRead obj \<Rightarrow> okind obj = KHTTPRoute \<longrightarrow> may_write_route pd app tr
   | Delete k (ns, n) \<Rightarrow> (k, n) \<in> set (progressive_names app) \<longrightarrow>
       dep_strategy (app_dep (aspec app)) \<noteq> Canary \<and> cut_over L app tr \<and> (k \<noteq> KService \<longrightarrow> services_removed L app tr)
   | _ \<Rightarrow> True)"

definition in_order :: "lib \<Rightarrow> bool \<Rightarrow> application \<Rightarrow> trace \<Rightarrow> call \<Rightarrow> bool" where
  "in_order L pd app tr c \<longleftrightarrow> confined app c \<and> ordered L pd app tr c"

lemma quiet_in_order: "quiet app c \<Longrightarrow> in_order L pd app tr c"
  unfolding in_order_def using quiet_confined [of app c]
  by (auto simp: ordered_def quiet_def touches_def names_defs monitoring_gvk_def rollout_gvk_def split: call.splits)

lemma route_in_order:
  "touches [(KHTTPRoute, oname app)] [] app c \<Longrightarrow> may_write_route pd app tr \<Longrightarrow> in_order L pd app tr c"
  unfolding in_order_def confined_def
  by (auto simp: ordered_def touches_def split: call.splits)

subsection \<open>More is known later\<close>

lemma append_facts [intro]:
  "drained L route a delay tr \<Longrightarrow> drained L route a delay (tr @ post)"
  "rollout_absent pd app tr \<Longrightarrow> rollout_absent pd app (tr @ post)"
  "rollout_absent pd app tr \<Longrightarrow> rollout_absent pd app (pre @ tr)"
  "route_absent app tr \<Longrightarrow> route_absent app (tr @ post)"
  "route_seen app tr route \<Longrightarrow> route_seen app (tr @ post) route"
  "route_seen app tr route \<Longrightarrow> route_seen app (pre @ tr) route"
  "removed k n tr \<Longrightarrow> removed k n (tr @ post)"
  "removed k n tr \<Longrightarrow> removed k n (pre @ tr)"
  unfolding drained_def rollout_absent_def route_absent_def route_seen_def removed_def wrote_def by auto

lemma deployment_ready_append [intro]:
  "deployment_ready app tr \<Longrightarrow> deployment_ready app (tr @ post)"
  unfolding deployment_ready_def by blast

lemma cut_over_append [intro]: "cut_over L app tr \<Longrightarrow> cut_over L app (tr @ post)"
  unfolding cut_over_def by blast

subsection \<open>The steps that decide\<close>

lemma keeps_and_then:
  assumes "keeps api G tr R m" "\<And>e t. R (Inl e) (tr @ t) \<Longrightarrow> S (Inl e) (tr @ t)"
    and "\<And>a e1. R (Inr a) (tr @ e1) \<Longrightarrow> keeps api G (tr @ e1) S (f a)"
  shows "keeps api G tr S (and_then m f)"
  unfolding and_then_def
  by (rule keeps_bind [OF assms(1)]) (use assms(2,3) in \<open>auto intro!: keeps_ret keeps_case_sum\<close>)

lemma keeps_ok: "R (Inr a) tr \<Longrightarrow> keeps api G tr R (ok a)"
  unfolding ok_def by (rule keeps_ret)

lemma keeps_quiet:
  assumes "does api (\<lambda>c r. quiet app c) R m" "\<And>a e. R a e \<Longrightarrow> S a (tr @ e)"
  shows "keeps api (in_order L pd app) tr S m"
  by (rule keeps_does [OF assms(1)]) (auto intro: quiet_in_order assms(2))

definition deletes_only :: "(kind \<times> nsname) list \<Rightarrow> call \<Rightarrow> bool" where
  "deletes_only objs c \<longleftrightarrow> (\<exists>(k, n) \<in> set objs. c = Get k n \<or> c = Delete k n)"

lemma does_deletes:
  "does api (\<lambda>c r. deletes_only objs c) (\<lambda>r evs. \<forall>b. r = Inr b \<longrightarrow> (\<forall>(k, n) \<in> set objs. removed k n evs))
     (deleteProgressiveObjects objs b0)"
proof (induction objs b0 rule: deleteProgressiveObjects.induct)
  case (1 b)
  show ?case by (auto intro: does_ok)
next
  case (2 k n objs b)
  let ?C = "\<lambda>c (r :: resp). deletes_only ((k, n) # objs) c"
  let ?R = "\<lambda>r evs. \<forall>b. r = Inr b \<longrightarrow> (\<forall>(k, n) \<in> set ((k, n) # objs). removed k n evs)"
  have later: "does api ?C (\<lambda>r e2. ?R r (e1 @ e2)) m"
    if "does api (\<lambda>c r. deletes_only objs c) (\<lambda>r evs. \<forall>b. r = Inr b \<longrightarrow> (\<forall>(k, n) \<in> set objs. removed k n evs)) m"
      "removed k n e1" for m :: "(go_error + bool) prog" and e1
    by (rule does_weaken [OF that(1)]) (use that(2) in \<open>auto simp: deletes_only_def\<close>)
  have get: "does api ?C (\<lambda>r evs. \<forall>e. r = Inl e \<and> err_reason e = NotFound \<longrightarrow> removed k n evs) (client_get k n)"
    by (rule does_client) (auto simp: deletes_only_def removed_def dest: object_of_error)
  have del: "does api ?C (\<lambda>err evs. err = None \<or> err_reason (the err) = NotFound \<longrightarrow> removed k n evs) (client_delete k n)"
    by (rule does_client) (auto simp: deletes_only_def removed_def)
  show ?case
    unfolding deleteProgressiveObjects.simps
  proof (rule does_bind [OF get])
    fix g :: "go_error + kobject" and e1
    assume absent: "\<forall>e. g = Inl e \<and> err_reason e = NotFound \<longrightarrow> removed k n e1"
    show "does api ?C (\<lambda>r e2. ?R r (e1 @ e2)) (case g of
         Inl e \<Rightarrow> if err_reason e = NotFound then deleteProgressiveObjects objs b else ret (Inl e)
       | Inr _ \<Rightarrow> do {
           err \<leftarrow> client_delete k n;
           if err \<noteq> None \<and> err_reason (the err) \<noteq> NotFound then ret (Inl (the err))
           else deleteProgressiveObjects objs True })"
    proof (cases g)
      case (Inl e)
      then show ?thesis using absent later [OF 2(1)] by (auto intro!: does_ret)
    next
      case (Inr cur)
      have "does api ?C (\<lambda>r e2. ?R r (e1 @ e2)) (do {
           err \<leftarrow> client_delete k n;
           if err \<noteq> None \<and> err_reason (the err) \<noteq> NotFound then ret (Inl (the err))
           else deleteProgressiveObjects objs True })"
      proof (rule does_bind [OF del])
        fix err :: "go_error option" and e2
        assume gone: "err = None \<or> err_reason (the err) = NotFound \<longrightarrow> removed k n e2"
        show "does api ?C (\<lambda>r e3. ?R r (e1 @ e2 @ e3))
          (if err \<noteq> None \<and> err_reason (the err) \<noteq> NotFound then ret (Inl (the err))
           else deleteProgressiveObjects objs True)"
          using later [OF 2(2), of err "e1 @ e2"] gone
          by (auto intro!: does_ret simp flip: append_assoc)
      qed
      then show ?thesis by (simp add: Inr)
    qed
  qed
qed

lemma deletes_in_order:
  assumes "deletes_only objs c" "set objs \<subseteq> set (progressive_services app @ progressive_controllers app)"
    and "dep_strategy (app_dep (aspec app)) \<noteq> Canary" "cut_over L app tr"
    and "\<forall>(k, n) \<in> set objs. k \<noteq> KService \<longrightarrow> services_removed L app tr"
  shows "in_order L pd app tr c"
proof -
  obtain k n where n: "(k, n) \<in> set objs" "c = Get k n \<or> c = Delete k n"
    using assms(1) by (auto simp: deletes_only_def)
  from n(1) assms(2) have "fst n = onamespace app" "(k, snd n) \<in> set (progressive_names app)"
    by (auto simp: names_defs progressive_services_def progressive_controllers_def okey_def)
  moreover have "k \<noteq> KService \<longrightarrow> services_removed L app tr" using n(1) assms(5) by blast
  ultimately have "in_order L pd app tr (Delete k n)"
    using assms(3,4) by (cases n) (simp add: in_order_def confined_def touches_def ordered_def)
  moreover have "in_order L pd app tr (Get k n)"
    by (simp add: in_order_def confined_def ordered_def)
  ultimately show ?thesis using n(2) by blast
qed

lemma services_removed_append [intro]: "services_removed L app tr \<Longrightarrow> services_removed L app (tr @ post)"
  unfolding services_removed_def by blast

lemma keeps_delete_services:
  assumes "dep_strategy (app_dep (aspec app)) \<noteq> Canary" "cut_over L app tr"
  shows "keeps api (in_order L pd app) tr (\<lambda>r t. (\<exists>e. tr @ e = t) \<and> (\<forall>b. r = Inr b \<longrightarrow>
      removed KService (onamespace app, StableServiceName app) t \<and> removed KService (onamespace app, CanaryServiceName app) t))
    (deleteProgressiveServices app)"
  unfolding deleteProgressiveServices_def
  by (rule keeps_does [OF does_deletes])
    (use assms in \<open>auto simp: progressive_services_def intro: deletes_in_order\<close>)

lemma keeps_delete_controllers:
  assumes "dep_strategy (app_dep (aspec app)) \<noteq> Canary" "cut_over L app tr" "services_removed L app tr"
  shows "keeps api (in_order L pd app) tr (\<lambda>r t. \<exists>e. t = tr @ e) (deleteProgressiveControllerResources app)"
  unfolding deleteProgressiveControllerResources_def
  by (rule keeps_does [OF does_deletes])
    (use assms in \<open>auto simp: progressive_controllers_def intro: deletes_in_order\<close>)

subsection \<open>The migration to rolling\<close>

definition children_seen :: "application \<Rightarrow> trace \<Rightarrow> applicationRuntimeState \<Rightarrow> bool" where
  \<comment> \<open>The Deployment and the route of the state, and for a canary the Rollout, are answers of this pass.\<close>
  "children_seen app tr state \<longleftrightarrow>
     (\<exists>dep. rs_deployment state = Some dep \<and> base_written app tr dep)
   \<and> (\<exists>route. rs_route state = Some route \<and> route_seen app tr route)
   \<and> (dep_strategy (app_dep (aspec app)) = Canary \<longrightarrow> rolloutHealthy (rs_rollout state) (min_replicas app) \<longrightarrow>
        rollout_ready app tr)"

lemma rollout_ready_append [intro]:
  "rollout_ready app tr \<Longrightarrow> rollout_ready app (tr @ post)" "rollout_ready app tr \<Longrightarrow> rollout_ready app (pre @ tr)"
  by (auto simp: rollout_ready_def)

lemma children_seen_append [intro]: "children_seen app tr state \<Longrightarrow> children_seen app (tr @ post) state"
  unfolding children_seen_def by blast

lemma children_seen_updates [simp]:
  "children_seen app tr (state\<lparr>rs_mutated := b\<rparr>) = children_seen app tr state"
  "children_seen app tr (state\<lparr>rs_migrating := b\<rparr>) = children_seen app tr state"
  "children_seen app tr (state\<lparr>rs_migrationDetail := d\<rparr>) = children_seen app tr state"
  "children_seen app tr (state\<lparr>rs_requeueAfter := i\<rparr>) = children_seen app tr state"
  "dep_strategy (app_dep (aspec app)) \<noteq> Canary \<Longrightarrow>
    children_seen app tr (state\<lparr>rs_rollout := ro\<rparr>) = children_seen app tr state"
  "children_seen app tr (state\<lparr>rs_analysisFailure := d\<rparr>) = children_seen app tr state"
  by (simp_all add: children_seen_def)

definition seen_result :: "application \<Rightarrow> go_error + applicationRuntimeState \<Rightarrow> trace \<Rightarrow> bool" where
  "seen_result app r tr \<longleftrightarrow> (\<forall>state. r = Inr state \<longrightarrow> children_seen app tr state)"

lemma seen_result_simps [simp]:
  "seen_result app (Inl e) tr" "seen_result app (Inr state) tr = children_seen app tr state"
  by (simp_all add: seen_result_def)

lemma keeps_drain:
  assumes "faithful_api api" "route_seen app tr route" "children_seen app tr state" "rs_route state = Some route"
    and "a \<in> {rollingCutoverStartedAtKey, rollingCleanupStartedAtKey}"
  shows "keeps api (in_order L pd app) tr (\<lambda>r t. \<forall>dr. r = Inr dr \<longrightarrow> (\<exists>e. t = tr @ e)
      \<and> children_seen app t (state\<lparr>rs_route := Some (dn_route dr)\<rparr>)
      \<and> (dn_drained dr \<longrightarrow> dn_route dr = route \<and> drained L route a delay t))
    (wrapping p (waitForRouteDrain L route a delay))"
proof (rule keeps_quiet [OF does_wrapping [OF does_waitForRouteDrain [OF assms(1) _ assms(5)]]])
  show "own_route app route" using assms(2) by (simp add: route_seen_def)
qed (use assms(2-4) in \<open>auto simp: children_seen_def route_seen_def own_route_def drained_def\<close>)

lemma keeps_cleanup:
  assumes "faithful_api api" "dep_strategy (app_dep (aspec app)) \<noteq> Canary" "cut_over L app tr"
    and "removed KService (onamespace app, StableServiceName app) tr"
    and "removed KService (onamespace app, CanaryServiceName app) tr"
    and "children_seen app tr state" "rs_route state = Some route" "route_seen app tr route"
  shows "keeps api (in_order L pd app) tr (seen_result app) (migrate_cleanup L app rollout state)"
  unfolding migrate_cleanup_def waitForProgressiveEndpointDrain_def state_route_def assms(7) option.case
proof (rule keeps_and_then [OF keeps_drain [OF assms(1,8,6,7)]])
  fix dr e1
  assume "\<forall>d. Inr dr = Inr d \<longrightarrow> (\<exists>e. tr @ e1 = tr @ e)
      \<and> children_seen app (tr @ e1) (state\<lparr>rs_route := Some (dn_route d)\<rparr>)
      \<and> (dn_drained d \<longrightarrow> dn_route d = route \<and> drained L route rollingCleanupStartedAtKey rollingCleanupDrainDelay (tr @ e1))"
  then have dr: "children_seen app (tr @ e1) (state\<lparr>rs_route := Some (dn_route dr)\<rparr>)"
    "dn_drained dr \<Longrightarrow> drained L route rollingCleanupStartedAtKey rollingCleanupDrainDelay (tr @ e1)"
    by simp_all
  have del: "keeps api (in_order L pd app) (tr @ e1) (seen_result app)
      (and_then (deleteProgressiveControllerResources app) (\<lambda>changed.
        ok (state\<lparr>rs_route := Some (dn_route dr), rs_mutated := m changed, rs_rollout := None, rs_migrating := False\<rparr>)))"
    if "dn_drained dr" for m :: "bool \<Rightarrow> bool"
  proof (rule keeps_and_then [OF keeps_delete_controllers])
    show "services_removed L app (tr @ e1)"
      using assms(4,5,8) dr(2) [OF that] unfolding services_removed_def by blast
  qed (use assms(2,3) dr(1) in \<open>auto intro!: keeps_ok simp del: append_assoc\<close>)
  show "keeps api (in_order L pd app) (tr @ e1) (seen_result app)
      (let state = state\<lparr>rs_route := Some (dn_route dr), rs_mutated := rs_mutated state \<or> dn_marked dr\<rparr> in
       if \<not> dn_drained dr then ok (state\<lparr>rs_rollout := Some rollout, rs_migrating := True,
          rs_migrationDetail := ''waiting for Envoy to remove progressive endpoints before deleting their Pods'',
          rs_requeueAfter := dn_remaining dr\<rparr>)
       else and_then (deleteProgressiveControllerResources app) (\<lambda>changed.
          ok (state\<lparr>rs_mutated := rs_mutated state \<or> changed, rs_rollout := None, rs_migrating := False\<rparr>)))"
    using del dr(1) assms(2) by (auto simp: Let_def intro!: keeps_if keeps_ok)
qed auto

lemma keeps_cutover:
  assumes "faithful_api api" "dep_strategy (app_dep (aspec app)) \<noteq> Canary" "deployment_ready app tr"
    and "children_seen app tr state" "rs_route state = Some route" "route_seen app tr route"
    and "routeUsesBaseService route app" "route_accepted L route"
  shows "keeps api (in_order L pd app) tr (seen_result app) (migrate_cutover L app rollout state)"
  unfolding migrate_cutover_def waitForRollingCutoverDrain_def state_route_def assms(5) option.case
proof (rule keeps_and_then [OF keeps_drain [OF assms(1,6,4,5)]])
  fix dr e1
  assume "\<forall>d. Inr dr = Inr d \<longrightarrow> (\<exists>e. tr @ e1 = tr @ e)
      \<and> children_seen app (tr @ e1) (state\<lparr>rs_route := Some (dn_route d)\<rparr>)
      \<and> (dn_drained d \<longrightarrow> dn_route d = route \<and> drained L route rollingCutoverStartedAtKey rollingCutoverDrainDelay (tr @ e1))"
  then have dr: "children_seen app (tr @ e1) (state\<lparr>rs_route := Some (dn_route dr)\<rparr>)"
    "dn_drained dr \<Longrightarrow> dn_route dr = route"
    "dn_drained dr \<Longrightarrow> drained L route rollingCutoverStartedAtKey rollingCutoverDrainDelay (tr @ e1)"
    by simp_all
  have del: "keeps api (in_order L pd app) (tr @ e1) (seen_result app)
      (and_then (deleteProgressiveServices app) (\<lambda>servicesRemoved.
        migrate_cleanup L app rollout (state\<lparr>rs_route := Some (dn_route dr), rs_mutated := m servicesRemoved\<rparr>)))"
    if "dn_drained dr" for m :: "bool \<Rightarrow> bool"
  proof (rule keeps_and_then [OF keeps_delete_services])
    show cut: "cut_over L app (tr @ e1)"
      using assms(3,6-8) dr(3) [OF that] unfolding cut_over_def by blast
    fix b :: bool and e2
    assume "(\<exists>e. (tr @ e1) @ e = (tr @ e1) @ e2) \<and> (\<forall>b'. Inr b = Inr b' \<longrightarrow>
        removed KService (onamespace app, StableServiceName app) ((tr @ e1) @ e2)
        \<and> removed KService (onamespace app, CanaryServiceName app) ((tr @ e1) @ e2))"
    then show "keeps api (in_order L pd app) ((tr @ e1) @ e2) (seen_result app)
        (migrate_cleanup L app rollout (state\<lparr>rs_route := Some (dn_route dr), rs_mutated := m b\<rparr>))"
      using cut dr(1) dr(2) [OF that] assms(2,6)
      by (intro keeps_cleanup [OF assms(1), where route = route]) (auto simp del: append_assoc)
  qed (use assms(2) in auto)
  show "keeps api (in_order L pd app) (tr @ e1) (seen_result app)
      (let state = state\<lparr>rs_route := Some (dn_route dr), rs_mutated := rs_mutated state \<or> dn_marked dr\<rparr> in
       if \<not> dn_drained dr then ok (state\<lparr>rs_rollout := Some rollout, rs_migrating := True,
          rs_migrationDetail := ''waiting for the accepted rolling HTTPRoute to propagate before draining canary resources'',
          rs_requeueAfter := dn_remaining dr\<rparr>)
       else and_then (deleteProgressiveServices app) (\<lambda>servicesRemoved.
          migrate_cleanup L app rollout (state\<lparr>rs_mutated := rs_mutated state \<or> servicesRemoved\<rparr>)))"
    using del dr(1) assms(2) by (auto simp: Let_def intro!: keeps_if keeps_ok)
qed auto

lemma keeps_later:
  \<comment> \<open>A step without orders of its own, after which what was known is still known.\<close>
  assumes "calls api (\<lambda>c r. quiet app c) m" "\<And>e. K (tr @ e)"
  shows "keeps api (in_order L pd app) tr (\<lambda>r t. K t) m"
  by (rule keeps_quiet [OF assms(1)]) (rule assms(2))

lemma keeps_route:
  assumes "faithful_api api" "controller_ref_ok L" "\<And>e. may_write_route pd app (tr @ e)"
  shows "keeps api (in_order L pd app) tr (\<lambda>r t. (\<exists>e. t = tr @ e) \<and>
      (\<forall>route b. r = Inr (route, b) \<longrightarrow> route_seen app t route)) (reconcileRoute L n app canary)"
  by (rule keeps_does [OF does_reconcileRoute [OF assms(1,2)]])
    (use assms(3) in \<open>auto intro: route_in_order simp: route_seen_def\<close>)

lemma may_write_append [intro]: "may_write_route pd app tr \<Longrightarrow> may_write_route pd app (tr @ post)"
proof -
  have "on_canary_services app tr \<Longrightarrow> on_canary_services app (tr @ post)"
    "rollout_ready app tr \<Longrightarrow> rollout_ready app (tr @ post)"
    by (auto simp: on_canary_services_def rollout_ready_def)
  then show "may_write_route pd app tr \<Longrightarrow> may_write_route pd app (tr @ post)"
    unfolding may_write_route_def by (auto split: if_splits)
qed

lemma keeps_rolling_route:
  assumes "faithful_api api" "controller_ref_ok L" "switch \<Longrightarrow> may_write_route pd app tr"
    and "dep_strategy (app_dep (aspec app)) \<noteq> Canary"
    and "\<not> switch \<Longrightarrow> route_seen app tr current" "rs_deployment state = Some dep" "base_written app tr dep"
  shows "keeps api (in_order L pd app) tr (\<lambda>r t. (\<exists>e. t = tr @ e) \<and> (\<forall>st. r = Inr st \<longrightarrow>
      children_seen app t st \<and> rs_deployment st = Some dep)) (rolling_route_step L n app switch current state)"
  unfolding rolling_route_step_def
proof (rule keeps_if)
  assume switch
  have w: "may_write_route pd app (tr @ e)" for e using assms(3) [OF \<open>switch\<close>] by blast
  show "keeps api (in_order L pd app) tr (\<lambda>r t. (\<exists>e. t = tr @ e) \<and> (\<forall>st. r = Inr st \<longrightarrow>
      children_seen app t st \<and> rs_deployment st = Some dep))
    (and_then (reconcileRoute L n app False) (\<lambda>(route, changed).
          ok (state\<lparr>rs_route := Some route, rs_mutated := rs_mutated state \<or> changed\<rparr>)))"
    by (rule keeps_and_then [OF keeps_route [OF assms(1,2) w]])
      (use assms(4,6,7) in \<open>auto intro!: keeps_ok simp: children_seen_def\<close>)
next
  assume "\<not> switch"
  then show "keeps api (in_order L pd app) tr (\<lambda>r t. (\<exists>e. t = tr @ e) \<and> (\<forall>st. r = Inr st \<longrightarrow>
      children_seen app t st \<and> rs_deployment st = Some dep)) (ok (state\<lparr>rs_route := Some current\<rparr>))"
    using assms(4-7) by (intro keeps_ok) (auto simp: children_seen_def)
qed

lemma keeps_freeze:
  assumes "faithful_api api" "\<And>e. K (tr @ e)"
  shows "keeps api (in_order L pd app) tr (\<lambda>r t. K t) (freeze_step L app found)"
  unfolding freeze_step_def
  by (rule keeps_later, use assms(2) in \<open>auto intro: confines_freeze [OF assms(1)]\<close>)

lemma keeps_rolling:
  assumes "faithful_api api" "controller_ref_ok L" "dep_strategy (app_dep (aspec app)) \<noteq> Canary"
  shows "keeps api (in_order L pd app) tr (seen_result app) (reconcileRollingChildren L pd n app)"
proof -
  let ?ready = "\<lambda>dep. fst (deploymentState (Some dep) (min_replicas app))"
  let ?finish = "\<lambda>found dep rollout state.
      if found \<and> ?ready dep \<and> routeUsesBaseService (state_route state) app then
        if route_accepted L (state_route state) then migrate_cutover L app rollout state else ok state
      else ok (state\<lparr>rs_rollout := Some rollout\<rparr>)"
  let ?route = "\<lambda>found dep rollout state. and_then (getRoute app) (\<lambda>(current, exists).
      and_then (rolling_route_step L n app (exists \<longrightarrow> found \<longrightarrow> ?ready dep) current state) (?finish found dep rollout))"
  define known where "known = (\<lambda>found t. found \<or> rollout_absent pd app t)"
  have known_append: "known found t \<Longrightarrow> known found (t @ e)" for found t e
    by (auto simp: known_def)
  have finish: "keeps api (in_order L pd app) t (seen_result app) (?finish found dep rollout state)"
    if "children_seen app t state" "base_written app t dep" for t state dep found rollout
  proof -
    obtain route where route: "rs_route state = Some route" "route_seen app t route"
      using \<open>children_seen app t state\<close> unfolding children_seen_def by blast
    have "?ready dep \<Longrightarrow> deployment_ready app t" using that(2) by (auto simp: deployment_ready_def)
    with route that(1) assms(3) show ?thesis
      by (intro keeps_if keeps_cutover [OF assms(1,3)]) (auto intro!: keeps_ok simp: state_route_def)
  qed
  have step: "keeps api (in_order L pd app) t (seen_result app)
      (and_then (rolling_route_step L n app (exists \<longrightarrow> found \<longrightarrow> ?ready dep) current state) (?finish found dep rollout))"
    if t: "base_written app t dep" "rs_deployment state = Some dep" "known found t"
      "if exists then route_seen app t current else route_absent app t"
    for t state dep found exists current rollout
  proof (rule keeps_and_then [OF keeps_rolling_route [OF assms(1,2), where dep = dep]])
    have "?ready dep \<Longrightarrow> deployment_ready app t" using t(1) by (auto simp: deployment_ready_def)
    then show "exists \<longrightarrow> found \<longrightarrow> ?ready dep \<Longrightarrow> may_write_route pd app t"
      using t(1,3,4) assms(3) by (auto simp: may_write_route_def known_def)
    show "keeps api (in_order L pd app) (t @ e1) (seen_result app) (?finish found dep rollout st)"
      if "(\<exists>e. t @ e1 = t @ e) \<and> (\<forall>s. Inr st = Inr s \<longrightarrow> children_seen app (t @ e1) s \<and> rs_deployment s = Some dep)"
      for st e1 using that t(1) by (intro finish) auto
  qed (use t assms(3) in auto)
  have route: "keeps api (in_order L pd app) t (seen_result app) (?route found dep rollout state)"
    if "base_written app t dep" "rs_deployment state = Some dep" "known found t" for t state dep found rollout
    by (rule keeps_and_then [OF keeps_quiet [OF does_getRoute [OF assms(1)], where
        S = "\<lambda>r t. known found t \<and> base_written app t dep \<and> (\<forall>current exists. r = Inr (current, exists) \<longrightarrow>
          (if exists then route_seen app t current else route_absent app t))"]])
      (use that in \<open>auto intro!: step known_append simp: route_seen_def route_absent_def\<close>)
  have shared: "keeps api (in_order L pd app) t (seen_result app)
      (and_then (reconcileSharedChildren L app app True found) (\<lambda>(dep, b). ?route found dep rollout
        (state\<lparr>rs_deployment := Some dep, rs_mutated := rs_mutated state \<or> b\<rparr>)))"
    if "known found t" for t state found rollout
    by (rule keeps_and_then [OF keeps_quiet [OF does_shared [OF assms(1,2)], where
        S = "\<lambda>r t. known found t \<and> (\<forall>dep b. r = Inr (dep, b) \<longrightarrow> base_written app t dep)"]])
      (use that in \<open>auto intro!: route known_append\<close>)
  have freeze: "keeps api (in_order L pd app) t (seen_result app)
      (and_then (freeze_step L app found) (\<lambda>state. and_then (reconcileSharedChildren L app app True found) (\<lambda>(dep, b).
        ?route found dep rollout (state\<lparr>rs_deployment := Some dep, rs_mutated := rs_mutated state \<or> b\<rparr>))))"
    if "known found t" for t found rollout
    by (rule keeps_and_then [OF keeps_freeze [OF assms(1), where K = "known found"]])
      (use that in \<open>auto intro!: shared known_append\<close>)
  have rollout: "keeps api (in_order L pd app) tr (\<lambda>r t. \<forall>rollout found. r = Inr (rollout, found) \<longrightarrow> known found t)
      (getRollout pd app)"
    by (rule keeps_quiet [OF does_getRollout [OF assms(1)]]) (auto simp: known_def split: if_splits)
  show ?thesis
    unfolding reconcileRollingChildren_def Let_def imp_conv_disj [symmetric]
    by (rule keeps_and_then [OF rollout]) (simp, rule keeps_case_prod, rule freeze, simp)
qed

subsection \<open>Canary\<close>

lemma children_seen_migration [simp]:
  "children_seen app tr (canary_migration L app state) = children_seen app tr state"
  by (simp add: canary_migration_def Let_def case_prod_beta)

lemma blank_rollout_not_healthy: "\<not> rolloutHealthy (Some blank_rollout) k"
  by (simp add: rolloutHealthy_def blank_rollout_def rollout_status_of_def blank_rollout_status_def)

lemma does_getRollout_healthy:
  assumes "faithful_api api"
  shows "does api (\<lambda>c r. quiet app c) (\<lambda>r evs. \<forall>rollout found. r = Inr (rollout, found) \<longrightarrow>
      rolloutHealthy (Some rollout) (min_replicas app) \<longrightarrow> rollout_ready app evs) (getRollout pd app)"
proof (rule does_weaken [OF does_getRollout [OF assms]], assumption, intro allI impI)
  fix r evs rollout found
  assume r: "r = Inr (rollout, found)" "rolloutHealthy (Some rollout) (min_replicas app)"
    and "\<forall>rollout found. r = Inr (rollout, found) \<longrightarrow>
      (if found then okey rollout = okey app \<and> (Get KRollout (okey app), RObj rollout) \<in> set evs
       else rollout = blank_rollout \<and> rollout_absent pd app evs)"
  then have "if found then (Get KRollout (okey app), RObj rollout) \<in> set evs else rollout = blank_rollout"
    by (auto split: if_splits)
  then show "rollout_ready app evs"
    using r(2) blank_rollout_not_healthy unfolding rollout_ready_def by (auto split: if_splits)
qed

text \<open>What is known of the route that a pass of a canary has read.\<close>

definition route_known :: "application \<Rightarrow> trace \<Rightarrow> kobject \<Rightarrow> bool \<Rightarrow> bool" where
  "route_known app tr route found \<longleftrightarrow>
     (if found then route_seen app tr route \<and> (Get KHTTPRoute (okey app), RObj route) \<in> set tr
      else route_absent app tr)"

lemma route_known_append [intro]: "route_known app tr route found \<Longrightarrow> route_known app (tr @ post) route found"
  unfolding route_known_def by (auto split: if_splits)

lemma keeps_canary_route:
  assumes "faithful_api api" "controller_ref_ok L" "dep_strategy (app_dep (aspec app)) = Canary"
    and "route_known app tr current found" "base_written app tr dep" "rs_deployment state = Some dep"
    and "rolloutHealthy (rs_rollout state) (min_replicas app) \<Longrightarrow> rollout_ready app tr"
  shows "keeps api (in_order L pd app) tr (\<lambda>r t. (\<exists>e. t = tr @ e) \<and> (\<forall>st. r = Inr st \<longrightarrow> children_seen app t st))
    (canary_route_step L n app found (found \<and> routeUsesCanaryServices current app) current state)"
  unfolding canary_route_step_def
proof (rule keeps_if)
  assume "\<not> found \<or> found \<and> routeUsesCanaryServices current app
      \<or> rolloutHealthy (rs_rollout state) (min_replicas app)"
  then have "may_write_route pd app tr"
    using assms(3-5,7) by (auto simp: may_write_route_def route_known_def on_canary_services_def split: if_splits)
  then have w: "may_write_route pd app (tr @ e)" for e by blast
  show "keeps api (in_order L pd app) tr (\<lambda>r t. (\<exists>e. t = tr @ e) \<and> (\<forall>st. r = Inr st \<longrightarrow> children_seen app t st))
    (and_then (reconcileRoute L n app True) (\<lambda>(route, changed).
          ok (state\<lparr>rs_route := Some route, rs_mutated := rs_mutated state \<or> changed\<rparr>)))"
    by (rule keeps_and_then [OF keeps_route [OF assms(1,2) w]])
      (use assms(5-7) in \<open>auto intro!: keeps_ok simp: children_seen_def\<close>)
qed (use assms(4-7) in \<open>auto intro!: keeps_ok simp: children_seen_def route_known_def split: if_splits\<close>)

lemma keeps_canary:
  assumes "faithful_api api" "controller_ref_ok L" "dep_strategy (app_dep (aspec app)) = Canary"
  shows "keeps api (in_order L pd app) tr (seen_result app) (reconcileCanaryChildren L pd n app)"
proof -
  let ?finish = "\<lambda>rollout state. and_then (analysisFailure app rollout) (\<lambda>failure.
     ok ((canary_migration L app state)\<lparr>rs_analysisFailure := failure\<rparr>))"
  let ?switch = "\<lambda>found current dep m. and_then (getRollout pd app) (\<lambda>(rollout, _).
     and_then (canary_route_step L n app found (found \<and> routeUsesCanaryServices current app) current
       (new_state\<lparr>rs_deployment := Some dep, rs_mutated := m, rs_rollout := Some rollout\<rparr>)) (?finish rollout))"
  have fin: "keeps api (in_order L pd app) t (seen_result app) (?finish rollout state)"
    if "children_seen app t state" for t state rollout
    by (rule keeps_and_then [OF keeps_later [OF confines_analysis, where K = "\<lambda>t. children_seen app t state"]])
      (use that in \<open>auto intro!: keeps_ok\<close>)
  have switch: "keeps api (in_order L pd app) t (seen_result app) (?switch found current dep m)"
    if "route_known app t current found" "base_written app t dep" for t found current dep m
  proof (rule keeps_and_then [OF keeps_quiet [OF does_getRollout_healthy [OF assms(1)], where
        S = "\<lambda>r t. route_known app t current found \<and> base_written app t dep \<and> (\<forall>rollout found. r = Inr (rollout, found) \<longrightarrow>
          rolloutHealthy (Some rollout) (min_replicas app) \<longrightarrow> rollout_ready app t)"]])
    fix rf e1
    assume known: "route_known app (t @ e1) current found \<and> base_written app (t @ e1) dep \<and>
        (\<forall>rollout found. Inr rf = Inr (rollout, found) \<longrightarrow>
          rolloutHealthy (Some rollout) (min_replicas app) \<longrightarrow> rollout_ready app (t @ e1))"
    show "keeps api (in_order L pd app) (t @ e1) (seen_result app) (case rf of (rollout, _) \<Rightarrow>
       and_then (canary_route_step L n app found (found \<and> routeUsesCanaryServices current app) current
         (new_state\<lparr>rs_deployment := Some dep, rs_mutated := m, rs_rollout := Some rollout\<rparr>)) (?finish rollout))"
      by (rule keeps_case_prod, rule keeps_and_then [OF keeps_canary_route [OF assms, where dep = dep]])
        (use known in \<open>auto intro!: fin\<close>)
  qed (use that in auto)
  have prog: "keeps api (in_order L pd app) t (seen_result app)
      (and_then (reconcileProgressiveResources L app hold) (\<lambda>c2. ?switch found current dep (m c2)))"
    if "route_known app t current found" "base_written app t dep" for t hold found current dep m
    by (rule keeps_and_then [OF keeps_later [OF confines_progressive [OF assms(1,2)],
          where K = "\<lambda>t. route_known app t current found \<and> base_written app t dep"]])
      (use that in \<open>auto intro!: switch\<close>)
  have shared: "keeps api (in_order L pd app) t (seen_result app)
      (and_then (reconcileSharedChildren L app served manage isolate) (\<lambda>(dep, c1).
         and_then (reconcileProgressiveResources L app hold) (\<lambda>c2. ?switch found current dep (c1 \<or> c2))))"
    if "route_known app t current found" for t served manage isolate hold found current
    by (rule keeps_and_then [OF keeps_quiet [OF does_shared [OF assms(1,2)], where
        S = "\<lambda>r t. route_known app t current found \<and> (\<forall>dep b. r = Inr (dep, b) \<longrightarrow> base_written app t dep)"]])
      (use that in \<open>auto intro!: prog\<close>)
  have route: "keeps api (in_order L pd app) t (\<lambda>r t. \<forall>route found. r = Inr (route, found) \<longrightarrow> route_known app t route found)
      (getRoute app)" for t
    by (rule keeps_quiet [OF does_getRoute [OF assms(1)]])
      (auto simp: route_known_def route_seen_def route_absent_def split: if_splits)
  show ?thesis
    unfolding reconcileCanaryChildren_def Let_def
    by (rule keeps_and_then [OF keeps_later [OF does_calls [OF does_getRollout [OF assms(1)]], where K = "\<lambda>_. True"]],
        simp, simp, rule keeps_case_prod, rule keeps_and_then [OF route], simp, rule keeps_case_prod,
        rule keeps_case_prod, rule shared, simp)
qed

lemma children_order:
  assumes "faithful_api api" "controller_ref_ok L"
  shows "keeps api (in_order L pd app) tr (seen_result app) (reconcileRuntimeChildren L pd n app)"
proof -
  have main: "keeps api (in_order L pd app) tr (seen_result app)
      (if dep_strategy (app_dep (aspec app)) = Canary then reconcileCanaryChildren L pd n app
       else reconcileRollingChildren L pd n app)"
    by (intro keeps_if keeps_canary keeps_rolling assms) auto
  have obs: "keeps api (in_order L pd app) t (\<lambda>r t. children_seen app t state) (reconcileObservabilityResources L app)"
    if "children_seen app t state" for t state
    by (rule keeps_later [OF confines_observability [OF assms]]) (use that in blast)
  show ?thesis
    unfolding reconcileRuntimeChildren_def
    by (rule keeps_and_then [OF main], simp, rule keeps_and_then [OF obs]) (auto intro!: keeps_ok)
qed

end
