(* ===== verification/App_Safety.thy ===== *)
theory App_Safety
  imports App_Order
begin

section \<open>The reconcile pass of an Application, from admission to report\<close>

text \<open>
  The guard over all calls of a pass: nothing is written for an Application before this pass has validated it,
  verified the Namespace and the Team that admit it and found its Database ready; what is written is confined to
  it and in order; and \<open>Ready\<close> is reported only on what the pass has read back from the API.
\<close>

subsection \<open>Admission\<close>

definition admits_application :: "lib \<Rightarrow> kobject \<Rightarrow> team \<Rightarrow> application \<Rightarrow> bool" where
  "admits_application L ns t app \<longleftrightarrow>
     oname ns = TeamNamespaceName t \<and> map_get (olabels ns) TeamLabelKey = oname t
   \<and> map_get (oannotations ns) TeamUIDAnnotationKey = ouid t
   \<and> \<not> odeleting t \<and> team_well_formed L t
   \<and> RepositoryAllowed t (img_repository (app_img (aspec app)))"

definition tenancy_verified :: "lib \<Rightarrow> application \<Rightarrow> trace \<Rightarrow> bool" where
  "tenancy_verified L app tr \<longleftrightarrow> (\<exists>ns obj t.
     (Get KNamespace ([], onamespace app), RObj ns) \<in> set tr
   \<and> (Get KTeam ([], map_get (olabels ns) TeamLabelKey), RObj obj) \<in> set tr
   \<and> object_team obj = Some t \<and> admits_application L ns t app)"

definition database_verified :: "lib \<Rightarrow> application \<Rightarrow> trace \<Rightarrow> bool" where
  "database_verified L app tr \<longleftrightarrow> (\<forall>db. app_databaseRef (aspec app) = Some db \<longrightarrow>
     (\<exists>obj d. (Get KDatabase (onamespace app, db), RObj obj) \<in> set tr
        \<and> object_database obj = Some d \<and> database_current_ready L d))"

definition application_read :: "nsname \<Rightarrow> application \<Rightarrow> trace \<Rightarrow> bool" where
  \<comment> \<open>The Application of this pass, as it was read, or as the patch of its finalizer returned it.\<close>
  "application_read req app tr \<longleftrightarrow> (\<exists>c obj. (c, RObj obj) \<in> set tr \<and> object_application obj = Some app
     \<and> (c = Get KApplication req \<or> (\<exists>a b. c = Patch a b \<and> okind a = KApplication \<and> okey a = req)))"

definition admitted :: "lib \<Rightarrow> bool \<Rightarrow> nsname \<Rightarrow> application \<Rightarrow> trace \<Rightarrow> bool" where
  "admitted L pd req app tr \<longleftrightarrow> application_read req app tr \<and> app_well_formed L app \<and> UnsupportedFeatures app = []
   \<and> (dep_strategy (app_dep (aspec app)) = Canary \<longrightarrow> pd)
   \<and> tenancy_verified L app tr \<and> database_verified L app tr"

lemma admission_append [intro]:
  "tenancy_verified L app tr \<Longrightarrow> tenancy_verified L app (tr @ post)"
  "database_verified L app tr \<Longrightarrow> database_verified L app (tr @ post)"
  "application_read req app tr \<Longrightarrow> application_read req app (tr @ post)"
  "tenancy_verified L app tr \<Longrightarrow> tenancy_verified L app (pre @ tr)"
  "database_verified L app tr \<Longrightarrow> database_verified L app (pre @ tr)"
  unfolding tenancy_verified_def database_verified_def application_read_def by (simp, blast)+

lemma admitted_append [intro]: "admitted L pd req app tr \<Longrightarrow> admitted L pd req app (tr @ post)"
  unfolding admitted_def by blast

lemma validateApplicationTenancy_None:
  "validateApplicationTenancy L app ns t = None \<longleftrightarrow> admits_application L ns t app"
  by (auto simp: validateApplicationTenancy_def admits_application_def Team_Validate_None [symmetric]
      split: option.split)

subsection \<open>What a Ready report rests on\<close>

definition route_ready :: "lib \<Rightarrow> application \<Rightarrow> trace \<Rightarrow> bool" where
  "route_ready L app tr \<longleftrightarrow> (\<exists>route. route_seen app tr route \<and> routeState L route = (True, False))"

definition digest_resolved :: "lib \<Rightarrow> application \<Rightarrow> trace \<Rightarrow> bool" where
  "digest_resolved L app tr \<longleftrightarrow> (\<exists>pods.
     (ListObjects KPod (Some (onamespace app)) (SelectorLabels app), RItems pods) \<in> set tr
   \<and> dr_state (resolvePodImageDigest L pods (img_repository (app_img (aspec app)) @ '':'' @ app_tag app)) = imageDigestResolved)"

definition no_rejection :: "application \<Rightarrow> trace \<Rightarrow> bool" where
  "no_rejection app tr \<longleftrightarrow> (\<exists>items.
     (ListObjects KReplicaSet (Some (onamespace app)) (SelectorLabels app), RItems items) \<in> set tr
   \<and> List.find rejected_condition (concat (map replica_set_conditions items)) = None)"

definition workload_ready :: "application \<Rightarrow> trace \<Rightarrow> bool" where
  "workload_ready app tr \<longleftrightarrow>
     (if dep_strategy (app_dep (aspec app)) = Canary then rollout_ready app tr else deployment_ready app tr)"

definition ready_evidence :: "lib \<Rightarrow> application \<Rightarrow> trace \<Rightarrow> bool" where
  "ready_evidence L app tr \<longleftrightarrow> workload_ready app tr \<and> route_ready L app tr \<and> digest_resolved L app tr
     \<and> no_rejection app tr \<and> (\<exists>dep. base_written app tr dep)"

subsection \<open>The guard of the pass\<close>

definition reports_ready :: "lib \<Rightarrow> kobject \<Rightarrow> bool" where
  "reports_ready L obj \<longleftrightarrow> (case object_application obj of None \<Rightarrow> False | Some app \<Rightarrow> reported_ready L (astatus app))"

definition app_guard :: "lib \<Rightarrow> bool \<Rightarrow> nsname \<Rightarrow> trace \<Rightarrow> call \<Rightarrow> bool" where
  "app_guard L pd req tr c = (case c of
     StatusPatch a b \<Rightarrow> (\<exists>desired. status_write_ok app_ops desired c)
       \<and> (reports_ready L b \<longrightarrow> (\<exists>app. admitted L pd req app tr \<and> ready_evidence L app tr))
   | Patch a b \<Rightarrow>
       if okind a = KApplication then okey a = req \<and> (\<exists>fs. b = a\<lparr>ofinalizers := fs\<rparr>)
       else \<exists>app. admitted L pd req app tr \<and> in_order L pd app tr c
   | Get _ _ \<Rightarrow> True | ListObjects _ _ _ \<Rightarrow> True | Event _ _ _ _ _ \<Rightarrow> True | Now \<Rightarrow> True
   | _ \<Rightarrow> \<exists>app. admitted L pd req app tr \<and> in_order L pd app tr c)"

lemma app_guard_reads [simp]:
  "app_guard L pd req tr (Get k key)" "app_guard L pd req tr (ListObjects k n ls)"
  "app_guard L pd req tr (Event k key a b m)" "app_guard L pd req tr Now"
  by (simp_all add: app_guard_def)

lemma in_order_guard:
  "admitted L pd req app tr \<Longrightarrow> in_order L pd app tr c \<Longrightarrow> app_guard L pd req tr c"
  by (cases c) (auto simp: app_guard_def in_order_def confined_def touches_def patched_as_def)

subsection \<open>Reports\<close>

lemma app_status_write:
  assumes "conditions_ok L" "status_write_ok app_ops desired (StatusPatch a b)"
  shows "reports_ready L b = reported_ready L desired"
proof -
  obtain u where u: "object_application b = Some u"
    using assms(2) by (auto simp: status_write_ok_def app_ops_def split: option.splits)
  then obtain cs where 1: "astatus u = desired\<lparr>as_conditions := cs\<rparr>"
    and 2: "map (\<lambda>c. c\<lparr>ctransition := 0\<rparr>) cs = map (\<lambda>c. c\<lparr>ctransition := 0\<rparr>) (as_conditions desired)"
    using assms(2) by (auto simp: status_write_ok_def app_ops_def split: option.splits)
  show ?thesis using cond_of_same [OF assms(1) 2] 1 u by (simp add: reports_ready_def reported_ready_def)
qed

lemma keeps_patch:
  assumes "conditions_ok L" "reported_ready L desired \<Longrightarrow> \<exists>app. admitted L pd req app tr \<and> ready_evidence L app tr"
    and "\<And>app e. ready_evidence L app tr \<Longrightarrow> ready_evidence L app (tr @ e)"
  shows "keeps api (app_guard L pd req) tr (\<lambda>_ _. True) (patchStatus L n app desired)"
  unfolding patchStatus_def
proof (rule keeps_does [OF calls_makes [OF app_status_object.patch_makes]])
  fix e c and r :: resp
  assume w: "status_write_ok app_ops desired c"
  show "app_guard L pd req (tr @ e) c"
  proof (cases c)
    case (StatusPatch a b)
    have "reports_ready L b \<Longrightarrow> \<exists>app. admitted L pd req app (tr @ e) \<and> ready_evidence L app (tr @ e)"
      using assms(2,3) w app_status_write [OF assms(1)] unfolding StatusPatch by blast
    with w show ?thesis unfolding app_guard_def StatusPatch by auto
  qed (use w in \<open>auto simp: status_write_ok_def\<close>)
qed simp

lemma keeps_event: "keeps api (app_guard L pd req) tr (\<lambda>_ _. True) (app_event app ty re me)"
  unfolding app_event_def by (rule keeps_does [OF calls_client(5) [where C = "\<lambda>c _. \<exists>k key a b m. c = Event k key a b m"]]) auto

lemma evidence_append [intro]: "ready_evidence L app tr \<Longrightarrow> ready_evidence L app (tr @ post)"
  unfolding ready_evidence_def workload_ready_def route_ready_def digest_resolved_def no_rejection_def
  by (auto 0 3 split: if_splits)

lemma not_ready_reports [status_simps]:
  assumes "conditions_ok L"
  shows "\<not> reported_ready L (degradedStatus L app reason message)"
    and "\<not> reported_ready L (databaseBlockedStatus L app message)"
  using assms by (simp_all add: degradedStatus_def databaseBlockedStatus_def reported_ready_def status_simps Let_def)

lemma keeps_report:
  assumes "conditions_ok L" "\<not> reported_ready L status"
  shows "keeps api (app_guard L pd req) tr (\<lambda>_ _. True) (report L n app status reason message)"
  unfolding report_def
  by (rule keeps_bind [OF keeps_patch [OF assms(1)]])
    (use assms(2) in \<open>auto intro!: keeps_case_prod keeps_bind [OF keeps_if [OF keeps_event keeps_ret]] keeps_ret\<close>)

lemma keeps_reject:
  assumes "conditions_ok L"
  shows "keeps api (app_guard L pd req) tr (\<lambda>_ _. True) (reject L n app reason message)"
  unfolding reject_def by (rule keeps_report [OF assms not_ready_reports(1) [OF assms]])

lemma keeps_fail:
  assumes "conditions_ok L"
  shows "keeps api (app_guard L pd req) tr (\<lambda>_ _. True) (fail_pass L n app what err reason message)"
  unfolding fail_pass_def
  by (rule keeps_bind [OF keeps_patch [OF assms]])
    (auto intro!: keeps_case_prod keeps_bind [OF keeps_event] keeps_ret split: option.split
      simp: not_ready_reports(1) [OF assms])

lemma keeps_final:
  assumes "conditions_ok L" "reported_ready L (fst desired) \<Longrightarrow> \<exists>app. admitted L pd req app tr \<and> ready_evidence L app tr"
  shows "keeps api (app_guard L pd req) tr (\<lambda>_ _. True) (final_report L n app state desired)"
  unfolding final_report_def
  by (rule keeps_bind [OF keeps_patch [OF assms]], assumption)
    (auto intro!: keeps_case_prod keeps_if keeps_bind [OF keeps_if [OF keeps_event keeps_if [OF keeps_event keeps_ret]]]
      keeps_ret)

subsection \<open>The observation at the end\<close>

definition reads_only :: "call \<Rightarrow> bool" where
  "reads_only c \<longleftrightarrow> (case c of Get _ _ \<Rightarrow> True | ListObjects _ _ _ \<Rightarrow> True | _ \<Rightarrow> False)"

lemma reads_only_simps [simp]: "reads_only (Get k n)" "reads_only (ListObjects k ns ls)"
  by (simp_all add: reads_only_def)

lemma keeps_reads:
  assumes "does api (\<lambda>c r. reads_only c) R m" "\<And>a e. R a e \<Longrightarrow> S a (tr @ e)"
  shows "keeps api (app_guard L pd req) tr S m"
  by (rule keeps_does [OF assms(1)]) (use assms(2) in \<open>auto simp: reads_only_def split: call.splits\<close>)

lemma does_securityAdmissionFailure:
  "does api (\<lambda>c r. reads_only c) (\<lambda>r evs. r = Inr [] \<longrightarrow> no_rejection app evs) (securityAdmissionFailure app)"
  unfolding securityAdmissionFailure_def
  by (rule does_bind [OF does_client(2) [where R = "\<lambda>r evs. \<exists>a. r = items_of KReplicaSet a
        \<and> evs = [(ListObjects KReplicaSet (Some (onamespace app)) (SelectorLabels app), a)]"]])
    (auto intro!: does_ret does_ok split: sum.split option.splits dest!: items_of_Inr
      simp: no_rejection_def admission_prefix_def)

lemma does_resolveImageDigest:
  "does api (\<lambda>c r. reads_only c) (\<lambda>r evs. \<forall>digest. r = Inr digest \<longrightarrow>
      dr_state digest = imageDigestResolved \<longrightarrow> digest_resolved L app evs) (resolveImageDigest L app)"
  unfolding resolveImageDigest_def
  by (rule does_bind [OF does_wrapping [OF does_client(2) [where R = "\<lambda>r evs. \<exists>a. r = items_of KPod a
        \<and> evs = [(ListObjects KPod (Some (onamespace app)) (SelectorLabels app), a)]"], where
        S = "\<lambda>r evs. \<forall>pods. r = Inr pods \<longrightarrow>
          evs = [(ListObjects KPod (Some (onamespace app)) (SelectorLabels app), RItems pods)]"]])
    (auto intro!: does_ret does_ok split: sum.split dest!: items_of_Inr [OF sym] simp: digest_resolved_def)

lemma promotable_evidence:
  assumes "promotable L app state digest" "children_seen app tr state"
  shows "workload_ready app tr" "route_ready L app tr" "dr_state digest = imageDigestResolved"
    "\<exists>dep. base_written app tr dep"
proof -
  obtain dep route where d: "rs_deployment state = Some dep" "base_written app tr dep"
    and r: "rs_route state = Some route" "route_seen app tr route"
    using assms(2) by (auto simp: children_seen_def)
  then show "\<exists>dep. base_written app tr dep" by blast
  show "workload_ready app tr"
    using assms d by (auto simp: workload_ready_def promotable_def canary_promotable_def rolling_promotable_def
        children_seen_def deployment_ready_def split: if_splits)
  show "route_ready L app tr"
    using assms(1) r by (auto simp: route_ready_def promotable_def canary_promotable_def rolling_promotable_def
        state_route_def split: if_splits)
  show "dr_state digest = imageDigestResolved"
    using assms(1) by (auto simp: promotable_def canary_promotable_def rolling_promotable_def split: if_splits)
qed

lemma fact_append:
  "no_rejection app tr \<Longrightarrow> no_rejection app (tr @ post)" "no_rejection app tr \<Longrightarrow> no_rejection app (pre @ tr)"
  "digest_resolved L app tr \<Longrightarrow> digest_resolved L app (pre @ tr)"
  unfolding no_rejection_def digest_resolved_def by auto

lemma keeps_observe:
  assumes "conditions_ok L" "admitted L pd req app tr" "children_seen app tr state"
  shows "keeps api (app_guard L pd req) tr (\<lambda>_ _. True) (observe_workload L n app srev state)"
proof -
  let ?known = "\<lambda>t. admitted L pd req app t \<and> children_seen app t state"
  have report: "keeps api (app_guard L pd req) t (\<lambda>_ _. True) (final_report L n app state (desired_status L app state digest srev))"
    if "?known t" "no_rejection app t" "dr_state digest = imageDigestResolved \<longrightarrow> digest_resolved L app t" for t digest
  proof (rule keeps_final [OF assms(1)])
    assume "reported_ready L (fst (desired_status L app state digest srev))"
    then have p: "promotable L app state digest" using desired_status_reads(1) [OF assms(1)] by simp
    show "\<exists>app. admitted L pd req app t \<and> ready_evidence L app t"
      using that promotable_evidence [OF p] unfolding ready_evidence_def by blast
  qed
  have digest: "keeps api (app_guard L pd req) t (\<lambda>_ _. True) (do {
      g \<leftarrow> resolveImageDigest L app;
      case g of
        Inl e \<Rightarrow> fail_pass L n app ''resolve image digest'' e ''ReconciliationFailed''
          (''failed to resolve runtime image digest: '' @ err_text e)
      | Inr digest \<Rightarrow> final_report L n app state (desired_status L app state digest srev) })"
    if "?known t" "no_rejection app t" for t
    by (rule keeps_bind [OF keeps_reads [OF does_resolveImageDigest, where
        S = "\<lambda>r t. ?known t \<and> no_rejection app t \<and> (\<forall>digest. r = Inr digest \<longrightarrow>
          dr_state digest = imageDigestResolved \<longrightarrow> digest_resolved L app t)"]])
      (use that in \<open>auto intro!: keeps_case_sum keeps_fail [OF assms(1)] report intro: fact_append\<close>)
  show ?thesis
    unfolding observe_workload_def
    by (rule keeps_bind [OF keeps_reads [OF does_securityAdmissionFailure, where
        S = "\<lambda>r t. ?known t \<and> (r = Inr [] \<longrightarrow> no_rejection app t)"]])
      (use assms in \<open>auto intro!: keeps_case_sum keeps_if keeps_ret keeps_reject digest intro: fact_append\<close>)
qed

subsection \<open>From admission on\<close>

text \<open>The parts of the model's library and of the API that the theorem relies on.\<close>

definition cluster_ok :: "lib \<Rightarrow> ((call \<times> resp) list \<Rightarrow> call \<Rightarrow> resp) \<Rightarrow> bool" where
  "cluster_ok L api \<longleftrightarrow> conditions_ok L \<and> controller_ref_ok L \<and> faithful_api api"

lemma keeps_workload:
  assumes "cluster_ok L api" "admitted L pd req app tr"
  shows "keeps api (app_guard L pd req) tr (\<lambda>_ _. True) (reconcile_workload L pd n app srev)"
proof -
  have c: "conditions_ok L" "controller_ref_ok L" "faithful_api api"
    using assms(1) by (simp_all add: cluster_ok_def)
  have children: "keeps api (app_guard L pd req) tr (\<lambda>r t. admitted L pd req app t \<and> seen_result app r t)
      (reconcileRuntimeChildren L pd n app)"
    by (rule keeps_guard [OF children_order [OF c(3,2)]])
      (use assms(2) in \<open>auto intro: in_order_guard [OF admitted_append]\<close>)
  have failed: "keeps api (app_guard L pd req) t (\<lambda>_ _. True) (children_failed L n app e)" for t e
    unfolding children_failed_def by (auto intro!: keeps_fail c(1))
  show ?thesis
    unfolding reconcile_workload_def
    by (rule keeps_bind [OF children])
      (auto intro!: keeps_case_sum failed keeps_observe [OF c(1)])
qed

lemma does_databaseReady:
  "does api (\<lambda>c r. reads_only c) (\<lambda>r evs. \<forall>message. r = Inr (True, message) \<longrightarrow> database_verified L app evs)
     (applicationDatabaseReady L app)"
proof (cases "app_databaseRef (aspec app)")
  case None
  then show ?thesis by (auto simp: applicationDatabaseReady_def database_verified_def intro!: does_ok)
next
  case (Some db)
  have get: "does api (\<lambda>c r. reads_only c) (\<lambda>r evs. \<forall>obj. r = Inr obj \<longrightarrow>
      evs = [(Get KDatabase (onamespace app, db), RObj obj)]) (client_get KDatabase (onamespace app, db))"
    by (rule does_client) (auto simp: object_of_Inr)
  show ?thesis
    unfolding applicationDatabaseReady_def Some option.case Let_def
    by (rule does_bind [OF get])
      (auto intro!: does_ok does_ret simp: decoded_def database_verified_def Some split: sum.split option.split)
qed

lemma does_tenancy:
  "does api (\<lambda>c r. reads_only c) (\<lambda>r evs. r = Inr None \<longrightarrow> tenancy_verified L app evs) (applicationTenancy L app)"
proof -
  have ns: "does api (\<lambda>c r. reads_only c) (\<lambda>r evs. \<forall>obj. r = Inr obj \<longrightarrow>
      evs = [(Get KNamespace ([], onamespace app), RObj obj)]) (client_get KNamespace ([], onamespace app))"
    by (rule does_client) (auto simp: object_of_Inr)
  have team: "does api (\<lambda>c r. reads_only c) (\<lambda>r evs. \<forall>obj. r = Inr obj \<longrightarrow>
      evs = [(Get KTeam ([], name), RObj obj)]) (client_get KTeam ([], name))" for name
    by (rule does_client) (auto simp: object_of_Inr)
  show ?thesis
    unfolding applicationTenancy_def Let_def
    by (rule does_bind [OF ns])
      (auto intro!: does_ok does_ret does_bind [OF team] split: sum.split option.split
        simp: decoded_def tenancy_verified_def validateApplicationTenancy_None)
qed

lemma keeps_admission:
  assumes "cluster_ok L api" "application_read req app tr" "app_well_formed L app"
  shows "keeps api (app_guard L pd req) tr (\<lambda>_ _. True) (check_tenancy L pd n app srev)"
proof -
  have c: "conditions_ok L" using assms(1) by (simp add: cluster_ok_def)
  have database: "keeps api (app_guard L pd req) t (\<lambda>_ _. True) (check_database L pd n app srev)"
    if "application_read req app t" "tenancy_verified L app t" "UnsupportedFeatures app = []"
      "dep_strategy (app_dep (aspec app)) = Canary \<longrightarrow> pd" for t
  proof -
    have "admitted L pd req app u" if "application_read req app u" "tenancy_verified L app u" "database_verified L app u" for u
      using that \<open>UnsupportedFeatures app = []\<close> \<open>_ \<longrightarrow> pd\<close> assms(3) by (simp add: admitted_def)
    then have run: "keeps api (app_guard L pd req) u (\<lambda>_ _. True) (reconcile_workload L pd n app srev)"
      if "application_read req app u" "tenancy_verified L app u" "database_verified L app u" for u
      using that by (intro keeps_workload [OF assms(1)])
    show ?thesis
      unfolding check_database_def
      by (rule keeps_bind [OF keeps_reads [OF does_databaseReady, where S = "\<lambda>r t. application_read req app t
            \<and> tenancy_verified L app t \<and> (\<forall>message. r = Inr (True, message) \<longrightarrow> database_verified L app t)"]])
        (use that in \<open>auto intro!: keeps_case_sum keeps_case_prod keeps_if keeps_ret run
          keeps_report [OF c not_ready_reports(2) [OF c]]\<close>)
  qed
  have capable: "keeps api (app_guard L pd req) t (\<lambda>_ _. True) (check_capabilities L pd n app srev)"
    if "application_read req app t" "tenancy_verified L app t" for t
    unfolding check_capabilities_def Let_def
    by (auto intro!: keeps_if keeps_reject [OF c] database that)
  show ?thesis
    unfolding check_tenancy_def
    by (rule keeps_bind [OF keeps_reads [OF does_tenancy, where S = "\<lambda>r t. application_read req app t
          \<and> (r = Inr None \<longrightarrow> tenancy_verified L app t)"]])
      (use assms(2) in \<open>auto intro!: keeps_case_sum keeps_ret keeps_reject [OF c] capable keeps_case_option keeps_case_prod\<close>)
qed

lemma App_Validate_well_formed: "App_Validate L app = None \<Longrightarrow> app_well_formed L app"
  by (simp add: App_Validate_None)

lemma finalizer_patch:
  "okind (application_object app) = KApplication" "okind ((application_object app)\<lparr>ofinalizers := fs\<rparr>) = KApplication"
  "okey (application_object app) = okey app"
  "application_object (app\<lparr>ofinalizers := fs\<rparr>) = (application_object app)\<lparr>ofinalizers := fs\<rparr>"
  by (simp_all add: application_object_def with_body_def okey_def okind_def objmeta.defs)

lemma object_application_key: "object_application obj = Some app \<Longrightarrow> okey app = okey obj"
  by (auto simp: object_application_def okey_def objmeta.defs split: body.splits)

lemma application_read_patch:
  "(Patch a b, RObj obj) \<in> set tr \<Longrightarrow> okind a = KApplication \<Longrightarrow> okey a = req \<Longrightarrow>
    object_application obj = Some app \<Longrightarrow> application_read req app tr"
  unfolding application_read_def by blast

lemma keeps_finalizer_patch:
  assumes "okey app = req"
  shows "keeps api (app_guard L pd req) tr (\<lambda>r t. \<forall>patched. decoded object_application r = Inr patched \<longrightarrow>
      application_read req patched t)
    (client_patch (application_object app) (application_object (app\<lparr>ofinalizers := fs\<rparr>)))"
proof (rule keeps_does [OF does_client(4) [where R = "\<lambda>r evs. \<exists>a. evs = [(Patch (application_object app)
      (application_object (app\<lparr>ofinalizers := fs\<rparr>)), a)] \<and> r = object_of KApplication a" and
      C = "\<lambda>c _. c = Patch (application_object app) (application_object (app\<lparr>ofinalizers := fs\<rparr>))"]])
  show "app_guard L pd req (tr @ e) c"
    if "c = Patch (application_object app) (application_object (app\<lparr>ofinalizers := fs\<rparr>))" for e c
    using that assms by (auto simp: app_guard_def finalizer_patch)
  show "\<forall>patched. decoded object_application r = Inr patched \<longrightarrow> application_read req patched (tr @ e)"
    if "\<exists>a. e = [(Patch (application_object app) (application_object (app\<lparr>ofinalizers := fs\<rparr>)), a)]
        \<and> r = object_of KApplication a" for r e
    using that assms
    by (auto simp: decoded_def finalizer_patch object_of_Inr split: sum.splits option.splits
        intro!: application_read_patch)
qed (simp_all add: finalizer_patch)

lemma Application_keeps:
  assumes "cluster_ok L api"
  shows "keeps api (app_guard L pd req) [] (\<lambda>_ _. True) (Application_Reconcile L pd n req)"
proof -
  have c: "conditions_ok L" "faithful_api api" using assms by (simp_all add: cluster_ok_def)
  let ?valid = "\<lambda>app. case App_Validate L app of
       Some err \<Rightarrow> reject L n app ''InvalidConfiguration'' (app_error_text L err)
     | None \<Rightarrow> (case resolvedSourceRevision app of
           Inl e \<Rightarrow> reject L n app ''InvalidSourceRevision'' (err_text e)
         | Inr revision \<Rightarrow> check_tenancy L pd n app revision)"
  have valid: "keeps api (app_guard L pd req) t (\<lambda>_ _. True) (?valid app)"
    if "application_read req app t" for t app
    using that
    by (auto intro!: keeps_reject [OF c(1)] keeps_case_sum keeps_admission [OF assms] App_Validate_well_formed
        split: option.split)
  have finalizer: "keeps api (app_guard L pd req) t (\<lambda>_ _. True) (do {
           f \<leftarrow> ensure_app_finalizer L app;
           case f of Inl e \<Rightarrow> ret (0, Some e) | Inr app \<Rightarrow> ?valid app })"
    if "application_read req app t" "okey app = req" for t app
  proof (rule keeps_bind)
    show "keeps api (app_guard L pd req) t (\<lambda>r t. \<forall>app. r = Inr app \<longrightarrow> application_read req app t)
        (ensure_app_finalizer L app)"
      unfolding ensure_app_finalizer_def
      by (intro keeps_if keeps_bind [OF keeps_finalizer_patch [OF that(2)]])
        (use that in \<open>auto intro!: keeps_ret\<close>)
  qed (auto intro!: keeps_case_sum keeps_ret valid)
  have release: "keeps api (app_guard L pd req) t (\<lambda>_ _. True) (release_application L app)"
    if "okey app = req" for t app
    unfolding release_application_def
    by (intro keeps_if keeps_bind [OF keeps_finalizer_patch [OF that]] keeps_case_sum keeps_bind [OF keeps_event] keeps_ret)
      auto
  have get: "keeps api (app_guard L pd req) [] (\<lambda>r t. \<forall>app. decoded object_application r = Inr app \<longrightarrow>
      application_read req app t \<and> okey app = req) (client_get KApplication req)"
    by (rule keeps_reads [OF does_client(1) [where R = "\<lambda>r evs. \<exists>a. evs = [(Get KApplication req, a)]
        \<and> r = object_of KApplication a \<and> (\<forall>obj. a = RObj obj \<longrightarrow> okey obj = req)"]])
      (auto simp: decoded_def application_read_def object_of_Inr object_application_key split: sum.splits option.splits
        dest: faithful_apiD(1) [OF c(2)])
  show ?thesis
    unfolding Application_Reconcile_def
    by (rule keeps_bind [OF get]) (auto intro!: keeps_case_sum keeps_if keeps_ret release finalizer)
qed

subsection \<open>A concrete pass\<close>

definition shop_owner :: team where
  "shop_owner = objmeta.extend ((new_meta [] ''shop'')\<lparr>ouid := ''team-1''\<rparr>)
     \<lparr>tspec = \<lparr>team_owners = [''owners''], team_qt = \<lparr>quota_cpu = ''4'', quota_memory = ''8Gi''\<rparr>,
        team_allowedRepositories = [''registry/*'']\<rparr>,
      tstatus = \<lparr>ts_observedGeneration = 0, ts_namespace = [], ts_conditions = []\<rparr>\<rparr>"

definition shop_namespace :: kobject where
  "shop_namespace = with_body ((new_meta [] ''team-shop'')\<lparr>olabels := [TeamLabelKey \<mapsto> ''shop''],
     oannotations := [TeamUIDAnnotationKey \<mapsto> ''team-1'']\<rparr>) BNamespace"

definition demo_app_api :: "(call \<times> resp) list \<Rightarrow> call \<Rightarrow> resp" where
  \<comment> \<open>A cluster in which the Application's release runs and its route is accepted.\<close>
  "demo_app_api tr c = (case c of
     Get k n \<Rightarrow>
       if k = KApplication \<and> n = okey demo_app
         then RObj (application_object (demo_app\<lparr>ofinalizers := [ApplicationFinalizer]\<rparr>))
       else if k = KNamespace \<and> n = ([], ''team-shop'') then RObj shop_namespace
       else if k = KTeam \<and> n = ([], ''shop'') then RObj (team_object shop_owner)
       else if k = KService then RObj (with_body (new_meta (fst n) (snd n)) blank_service)
       else RErr \<lparr>err_reason = NotFound, err_text = ''not found''\<rparr>
   | ListObjects k _ _ \<Rightarrow> RItems (if k = KPod then [demo_pod ''a'', demo_pod ''b''] else [])
   | UpsertRead obj \<Rightarrow> RObj obj
   | UpsertWrite w \<Rightarrow> RWritten OpUpdated
       (if okind w = KDeployment \<and> okey w = okey demo_app then demo_deployment
        else if okind w = KHTTPRoute \<and> okey w = okey demo_app then demo_route else w)
   | StatusPatch _ b \<Rightarrow> RObj b
   | Patch _ b \<Rightarrow> RObj b
   | Now \<Rightarrow> RTime 0
   | _ \<Rightarrow> ROk)"

lemma demo_cluster_ok: "cluster_ok demo_lib demo_app_api"
proof -
  have "okey demo_deployment = okey demo_app" "okey demo_route = okey demo_app" "okey shop_namespace = ([], ''team-shop'')"
    "okey (team_object shop_owner) = ([], ''shop'')"
    "okey (application_object (demo_app\<lparr>ofinalizers := [ApplicationFinalizer]\<rparr>)) = okey demo_app"
    by (simp_all add: demo_deployment_def demo_route_def shop_namespace_def okey_def demo_app_def demo_app_of_def
        objmeta.defs Deployment_def HTTPRoute_def app_object_meta_def team_object_def shop_owner_def
        application_object_def with_body_def)
  then have "faithful_api demo_app_api"
    by (auto simp: faithful_api_def honest_api_def demo_app_api_def okey_def split: if_splits)
  then show ?thesis by (simp add: cluster_ok_def)
qed

subsection \<open>Claims\<close>

definition child_write :: "call \<Rightarrow> bool" where
  \<comment> \<open>The calls that change something other than the Application itself.\<close>
  "child_write c \<longleftrightarrow> (case c of
     UpsertRead _ \<Rightarrow> True | UpsertWrite _ \<Rightarrow> True | Delete _ _ \<Rightarrow> True
   | Patch a _ \<Rightarrow> okind a \<noteq> KApplication | StatusPatch a _ \<Rightarrow> okind a \<noteq> KApplication
   | SetGauge _ _ _ \<Rightarrow> True | DropGauge _ _ \<Rightarrow> True | _ \<Rightarrow> False)"

lemma app_status_kind: "status_write_ok app_ops desired (StatusPatch a b) \<Longrightarrow> okind a = KApplication"
  by (auto simp: status_write_ok_def app_ops_def object_application_def okind_def split: option.splits body.splits)

lemma guard_child_write:
  "app_guard L pd req tr c \<Longrightarrow> child_write c \<Longrightarrow> \<exists>app. admitted L pd req app tr \<and> in_order L pd app tr c"
  using app_status_kind by (cases c) (auto simp: app_guard_def child_write_def)

lemma pass_guarded:
  assumes "cluster_ok L api"
  shows "guarded (app_guard L pd req) (snd (run api (Application_Reconcile L pd n req)))"
  by (rule keeps_run [OF Application_keeps [OF assms]])

definition write_admitted :: "lib \<Rightarrow> bool \<Rightarrow> nsname \<Rightarrow> trace \<Rightarrow> call \<Rightarrow> bool" where
  "write_admitted L pd req pre c \<longleftrightarrow>
     (child_write c \<longrightarrow> (\<exists>app. admitted L pd req app pre \<and> confined app c))"

definition write_ordered :: "lib \<Rightarrow> bool \<Rightarrow> nsname \<Rightarrow> trace \<Rightarrow> call \<Rightarrow> bool" where
  "write_ordered L pd req pre c \<longleftrightarrow>
     (child_write c \<longrightarrow> (\<exists>app. application_read req app pre \<and> ordered L pd app pre c))"

definition report_supported :: "lib \<Rightarrow> bool \<Rightarrow> nsname \<Rightarrow> trace \<Rightarrow> call \<Rightarrow> bool" where
  "report_supported L pd req pre c \<longleftrightarrow> (\<forall>a b. c = StatusPatch a b \<longrightarrow>
     (\<exists>desired. status_write_ok app_ops desired c)
   \<and> (reports_ready L b \<longrightarrow> (\<exists>app. admitted L pd req app pre \<and> ready_evidence L app pre)))"

lemma app_guard_parts:
  assumes "app_guard L pd req pre c"
  shows "write_admitted L pd req pre c" "write_ordered L pd req pre c" "report_supported L pd req pre c"
proof -
  have "\<exists>app. admitted L pd req app pre \<and> in_order L pd app pre c" if "child_write c"
    using guard_child_write [OF assms that] .
  then show "write_admitted L pd req pre c" "write_ordered L pd req pre c"
    unfolding write_admitted_def write_ordered_def in_order_def admitted_def by blast+
  show "report_supported L pd req pre c"
    using assms by (auto simp: app_guard_def report_supported_def)
qed

text \<open>
  C1: A pass changes nothing but the Application's finalizer and status before it has admitted the Application: it was read
  from the API and is well-formed, requests nothing unsupported, its Namespace was read and belongs to the current
  incarnation of a valid Team that is not being deleted and allows its image repository, and its Database, if it
  names one, was read and is ready at its current generation. And what it changes then is confined: only
  objects of its own namespace with the names the Application owns are written, with the Application as their
  controller, and only its progressive and monitoring objects are deleted.
\<close>

theorem application_writes_admitted:
  assumes "cluster_ok L api"
  shows "guarded (write_admitted L pd req)
    (snd (run api (Application_Reconcile L pd n req)))"
  by (rule guarded_mono [OF pass_guarded [OF assms]]) (rule app_guard_parts)

theorem application_writes_admitted_witness:
  "guarded (write_admitted demo_lib True (okey demo_app))
    (snd (run demo_app_api (Application_Reconcile demo_lib True 3 (okey demo_app))))"
  by (rule application_writes_admitted [OF demo_cluster_ok])

text \<open>
  C2: Traffic is switched and old workloads are removed in a safe order. A pass writes the HTTPRoute only after it wrote the
  ConfigMap, Service and Deployment, and only if there is no route, or the workload behind the new backends is
  ready: for a canary, the route already goes to the canary Services or the Rollout was read healthy with the wanted
  replicas; for a rolling Application, there is no Rollout or the Deployment was seen ready. It deletes the canary
  Services only for a rolling Application, after the Deployment was seen ready, the shared Gateway accepted a
  route to the base Service and the cutover drain is over, and the Rollout and its analysis only when
  the Services are gone and the second drain is over.
\<close>

theorem application_migration_order:
  assumes "cluster_ok L api"
  shows "guarded (write_ordered L pd req)
    (snd (run api (Application_Reconcile L pd n req)))"
  by (rule guarded_mono [OF pass_guarded [OF assms]]) (rule app_guard_parts)

theorem application_migration_order_witness:
  "guarded (write_ordered demo_lib True (okey demo_app))
    (snd (run demo_app_api (Application_Reconcile demo_lib True 3 (okey demo_app))))"
  by (rule application_migration_order [OF demo_cluster_ok])

text \<open>
  C3: A pass writes a status with \<open>Ready\<close> true only for an admitted Application and only on what it has read back in the same
  pass: the workload is ready (for a canary the Rollout, otherwise the Deployment it wrote), the HTTPRoute is
  accepted at its current generation, the listed Pods resolve to one digest, and no listed ReplicaSet was
  rejected by the platform's admission policies. Every status write changes the status only.
\<close>

theorem application_ready_rests_on_reads:
  assumes "cluster_ok L api"
  shows "guarded (report_supported L pd req)
    (snd (run api (Application_Reconcile L pd n req)))"
  by (rule guarded_mono [OF pass_guarded [OF assms]]) (rule app_guard_parts)

theorem application_ready_rests_on_reads_witness:
  "guarded (report_supported demo_lib True (okey demo_app))
    (snd (run demo_app_api (Application_Reconcile demo_lib True 3 (okey demo_app))))"
  by (rule application_ready_rests_on_reads [OF demo_cluster_ok])

end
