(* ===== verification/Network_Claims.thy ===== *)
theory Network_Claims
  imports Resource_Claims
begin

section \<open>Who can talk to whom in a Team's namespace\<close>

text \<open>
  The NetworkPolicies of a Team, of its Applications and of its Databases together, in the semantics of
  \<open>traffic_allowed\<close>: the egress of an Application's Pod, the ingress of a Database's Pod, and the
  connections between the two.
\<close>

subsection \<open>Policies in union\<close>

definition app_policies :: "application \<Rightarrow> kobject list" where
  \<comment> \<open>those that \<open>reconcileObservabilityResources\<close> keeps\<close>
  "app_policies app =
     (if obs_traces (app_obs (aspec app)) then [OTelEgressNetworkPolicy app] else [])
     @ (if app_databaseRef (aspec app) \<noteq> None then [DatabaseEgressNetworkPolicy app] else [])"

definition namespace_policies ::
    "team \<Rightarrow> application list \<Rightarrow> database list \<Rightarrow> string \<Rightarrow> kobject list" where
  "namespace_policies t apps dbs cidr = team_network_policies t @ concat (map app_policies apps)
     @ concat (map (\<lambda>d. DatabaseNetworkPolicies d cidr) dbs)"

definition rules_in :: "policy_type \<Rightarrow> np_spec \<Rightarrow> np_rule list" where
  "rules_in dir sp = (case dir of PolicyIngress \<Rightarrow> np_ingress sp | PolicyEgress \<Rightarrow> np_egress sp)"

definition admits ::
    "policy_type \<Rightarrow> kobject list \<Rightarrow> string \<Rightarrow> strmap \<Rightarrow> endpoint \<Rightarrow> protocol \<Rightarrow> int_or_string set \<Rightarrow> bool"
  where
  "admits dir policies ns pod e proto names \<longleftrightarrow>
     (\<exists>sp \<in> set (policy_specs policies). dir \<in> set (np_types sp) \<and> selects (np_selector sp) pod
        \<and> (\<exists>r \<in> set (rules_in dir sp). rule_admits ns r e proto names))"

lemma policy_specs_append [simp]: "policy_specs (a @ b) = policy_specs a @ policy_specs b"
  by (simp add: policy_specs_def List.map_filter_def)

lemma admits_append [simp]:
  "admits dir (a @ b) ns pod e proto names \<longleftrightarrow>
     admits dir a ns pod e proto names \<or> admits dir b ns pod e proto names"
  by (auto simp: admits_def)

lemma admits_Nil [simp]: "\<not> admits dir [] ns pod e proto names"
  by (simp add: admits_def)

lemma admits_concat:
  "admits dir (concat ps) ns pod e proto names \<longleftrightarrow> (\<exists>p \<in> set ps. admits dir p ns pod e proto names)"
  by (induction ps) auto

lemma traffic_admits:
  "traffic_allowed dir policies ns pod e proto names \<longleftrightarrow>
     filter (\<lambda>sp. dir \<in> set (np_types sp) \<and> selects (np_selector sp) pod) (policy_specs policies) = []
     \<or> admits dir policies ns pod e proto names"
  unfolding traffic_allowed_def admits_def rules_in_def Let_def by auto

lemma team_denies:
  "filter (\<lambda>sp. dir \<in> set (np_types sp) \<and> selects (np_selector sp) pod)
     (policy_specs (team_network_policies t @ others)) \<noteq> []"
  by (cases dir) (simp_all add: team_policy_specs)

lemma namespace_traffic:
  "traffic_allowed dir (namespace_policies t apps dbs cidr) ns pod e proto names \<longleftrightarrow>
     traffic_allowed dir (team_network_policies t) ns pod e proto names
   \<or> (\<exists>a \<in> set apps. admits dir (app_policies a) ns pod e proto names)
   \<or> (\<exists>d \<in> set dbs. admits dir (DatabaseNetworkPolicies d cidr) ns pod e proto names)"
  using team_denies [of dir pod t "[]"] team_denies [of dir pod t "concat (map app_policies apps)
     @ concat (map (\<lambda>d. DatabaseNetworkPolicies d cidr) dbs)"]
  by (simp add: traffic_admits namespace_policies_def admits_concat)

subsection \<open>The policies of Applications and Databases\<close>

definition to_collector :: "endpoint \<Rightarrow> bool" where
  "to_collector e \<longleftrightarrow> ep_nsLabels e metadata_name_label = Some ''monitoring'' \<and> selects otel_pods (ep_podLabels e)"

definition from_operator :: "endpoint \<Rightarrow> bool" where
  "from_operator e \<longleftrightarrow> ep_nsLabels e metadata_name_label = Some ''cnpg-system''
     \<and> ep_podLabels e ''app.kubernetes.io/name'' = Some ''cloudnative-pg''"

lemma policy_spec_one [simp]:
  "policy_specs (with_body m (BNetworkPolicy sp) # ps) = sp # policy_specs ps"
  by (simp add: policy_specs_def List.map_filter_simps)

lemma selects_selector_labels: "selects (match_labels (SelectorLabels a)) m \<longleftrightarrow> SelectorLabels a \<subseteq>\<^sub>m m"
  by (simp add: selects_def match_labels_def)

lemma app_policies_admit:
  "admits dir (app_policies a) ns pod e proto names \<longleftrightarrow>
     dir = PolicyEgress \<and> SelectorLabels a \<subseteq>\<^sub>m pod \<and> proto = TCP
   \<and> ((obs_traces (app_obs (aspec a)) \<and> to_collector e \<and> PortInt 4317 \<in> names)
      \<or> (\<exists>db. app_databaseRef (aspec a) = Some db \<and> ep_namespace e = ns
           \<and> ep_podLabels e ''cnpg.io/cluster'' = Some (DatabaseClusterNameFor db) \<and> PortInt 5432 \<in> names))"
  by (cases dir)
    (auto simp: app_policies_def admits_def OTelEgressNetworkPolicy_def DatabaseEgressNetworkPolicy_def
      rules_in_def rule_admits_def peer_matches_def port_matches_def np_port_of_def ns_pod_peer_def pod_peer_def
      to_collector_def selects_selector_labels Let_def)

lemma db_policies_admit_ingress:
  "admits PolicyIngress (DatabaseNetworkPolicies d cidr) ns pod e proto names \<longleftrightarrow>
     pod ''cnpg.io/cluster'' = Some (DatabaseClusterName d) \<and> proto = TCP
   \<and> ((ep_namespace e = ns \<and> ep_podLabels e DatabaseLabelKey = Some (oname d) \<and> PortInt 5432 \<in> names)
      \<or> (from_prometheus e \<and> PortInt 9187 \<in> names) \<or> (from_operator e \<and> PortInt 8000 \<in> names))"
  by (auto simp: DatabaseNetworkPolicies_def DatabaseBackupNetworkPolicy_def admits_def db_policy_def db_ingress_def
      cluster_selector_def rules_in_def rule_admits_def peer_matches_def port_matches_def np_port_of_def
      ns_pod_peer_def pod_peer_def from_prometheus_def from_operator_def)

lemma db_policies_admit_egress:
  assumes "admits PolicyEgress (DatabaseNetworkPolicies d cidr) ns pod e proto names"
  shows "pod ''cnpg.io/cluster'' = Some (DatabaseClusterName d)"
  using assms
  by (auto simp: DatabaseNetworkPolicies_def DatabaseBackupNetworkPolicy_def admits_def db_policy_def db_ingress_def
      cluster_selector_def rules_in_def split: if_splits)

lemma open_application_template:
  "open_application (template_labels app) \<longleftrightarrow> \<not> sec_networkIsolation (app_sec (aspec app))"
  by (simp add: open_application_def show_bool_def)

lemma own_policies:
  assumes "app \<in> set apps" "distinct (map oname apps)" "a \<in> set apps"
  shows "SelectorLabels a \<subseteq>\<^sub>m template_labels app \<longleftrightarrow> a = app"
  using assms by (auto simp: SelectorLabels_le distinct_map inj_on_def)

subsection \<open>Claims\<close>

text \<open>
  C34: The egress of an Application's Pod, with all policies of the namespace in place, is exactly: DNS; the open Pods of
  other Applications of the Team, unless it is isolated; the trace collector, if it exports traces; and port 5432 of the
  cluster of the Database it is bound to, if it is bound to one. No policy of another Application or of a
  Database opens anything more.
\<close>

theorem application_egress:
  assumes "app \<in> set apps" "distinct (map oname apps)"
  shows "traffic_allowed PolicyEgress (namespace_policies t apps dbs cidr) (TeamNamespaceName t)
      (template_labels app) e proto names \<longleftrightarrow>
     (to_dns e \<and> PortInt 53 \<in> names)
   \<or> (\<not> sec_networkIsolation (app_sec (aspec app)) \<and> ep_namespace e = TeamNamespaceName t
        \<and> open_application (ep_podLabels e))
   \<or> (obs_traces (app_obs (aspec app)) \<and> to_collector e \<and> proto = TCP \<and> PortInt 4317 \<in> names)
   \<or> (\<exists>db. app_databaseRef (aspec app) = Some db \<and> ep_namespace e = TeamNamespaceName t
        \<and> ep_podLabels e ''cnpg.io/cluster'' = Some (DatabaseClusterNameFor db)
        \<and> proto = TCP \<and> PortInt 5432 \<in> names)"
proof -
  have "\<not> admits PolicyEgress (DatabaseNetworkPolicies d cidr) (TeamNamespaceName t) (template_labels app) e proto names"
    for d using db_policies_admit_egress by fastforce
  moreover have "(\<exists>a \<in> set apps. admits PolicyEgress (app_policies a) (TeamNamespaceName t) (template_labels app) e proto names)
      \<longleftrightarrow> admits PolicyEgress (app_policies app) (TeamNamespaceName t) (template_labels app) e proto names"
    using assms own_policies [OF assms] by (auto simp: app_policies_admit)
  ultimately show ?thesis
    using own_policies [OF assms assms(1)]
    by (auto simp: namespace_traffic team_egress open_application_template app_policies_admit)
qed

definition quiet_app :: application where
  "quiet_app = demo_app\<lparr>oname := ''worker'', aspec := (aspec demo_app)\<lparr>
     app_sec := (app_sec (aspec demo_app))\<lparr>sec_networkIsolation := True\<rparr>\<rparr>\<rparr>"

definition shop_team :: team where
  "shop_team = objmeta.extend (new_meta [] ''shop'') \<lparr>tspec = \<lparr>team_owners = [''owners''],
     team_qt = \<lparr>quota_cpu = ''4'', quota_memory = ''8Gi''\<rparr>, team_allowedRepositories = []\<rparr>,
     tstatus = \<lparr>ts_observedGeneration = 0, ts_namespace = [], ts_conditions = []\<rparr>\<rparr>"

definition web_pod :: endpoint where
  "web_pod = \<lparr>ep_nsLabels = [metadata_name_label \<mapsto> ''team-shop''], ep_podLabels = template_labels demo_app,
     ep_namespace = ''team-shop'', ep_address = (\<lambda>_. False)\<rparr>"

theorem application_egress_witness:
  "\<not> traffic_allowed PolicyEgress (namespace_policies shop_team [demo_app, quiet_app] [] []) (TeamNamespaceName shop_team)
      (template_labels quiet_app) web_pod TCP {PortInt 8080}"
  using application_egress [of quiet_app "[demo_app, quiet_app]" shop_team "[]" "[]" web_pod TCP "{PortInt 8080}"]
  by (simp add: quiet_app_def demo_app_def demo_app_of_def objmeta.defs demo_spec_def)

subsection \<open>Connections between Pods\<close>

definition pod_endpoint :: "team \<Rightarrow> strmap \<Rightarrow> endpoint" where
  "pod_endpoint t labels = \<lparr>ep_nsLabels = [metadata_name_label \<mapsto> TeamNamespaceName t], ep_podLabels = labels,
     ep_namespace = TeamNamespaceName t, ep_address = (\<lambda>_. False)\<rparr>"

definition can_connect ::
    "kobject list \<Rightarrow> team \<Rightarrow> strmap \<Rightarrow> strmap \<Rightarrow> protocol \<Rightarrow> int_or_string set \<Rightarrow> bool" where
  \<comment> \<open>both directions of the policies, between two Pods of the Team's namespace\<close>
  "can_connect policies t source dest proto names \<longleftrightarrow>
     traffic_allowed PolicyEgress policies (TeamNamespaceName t) source (pod_endpoint t dest) proto names
   \<and> traffic_allowed PolicyIngress policies (TeamNamespaceName t) dest (pod_endpoint t source) proto names"

definition instance_labels :: "database \<Rightarrow> strmap" where
  \<comment> \<open>the label that the operator puts on the Pods of the Cluster and the policies select by\<close>
  "instance_labels d = [''cnpg.io/cluster'' \<mapsto> DatabaseClusterName d]"

lemma instance_label_reads [simp]:
  "instance_labels d ''cnpg.io/cluster'' = Some (DatabaseClusterName d)"
  "instance_labels d DatabaseLabelKey = None" "\<not> open_application (instance_labels d)"
  by (simp_all add: instance_labels_def label_key_defs open_application_def)

lemma team_namespace_not_system:
  "TeamNamespaceName t \<noteq> ''kube-system''" "TeamNamespaceName t \<noteq> ''monitoring''"
  "TeamNamespaceName t \<noteq> ''cnpg-system''" "TeamNamespaceName t \<noteq> ''envoy-gateway-system''"
  by (simp_all add: TeamNamespaceName_def TeamNamespacePrefix_def)

lemma pod_endpoint_reads [simp]:
  "\<not> to_dns (pod_endpoint t m)" "\<not> to_collector (pod_endpoint t m)" "\<not> from_envoy (pod_endpoint t m)"
  "\<not> from_prometheus (pod_endpoint t m)" "\<not> from_operator (pod_endpoint t m)"
  "ep_namespace (pod_endpoint t m) = TeamNamespaceName t" "ep_podLabels (pod_endpoint t m) = m"
  by (simp_all add: pod_endpoint_def to_dns_def to_collector_def from_envoy_def from_prometheus_def
      from_operator_def team_namespace_not_system)

lemma egress_between_pods:
  assumes "app \<in> set apps" "distinct (map oname apps)"
  shows "traffic_allowed PolicyEgress (namespace_policies t apps dbs cidr) (TeamNamespaceName t)
      (template_labels app) (pod_endpoint t dest) proto names \<longleftrightarrow>
     (\<not> sec_networkIsolation (app_sec (aspec app)) \<and> open_application dest)
   \<or> (\<exists>db. app_databaseRef (aspec app) = Some db
        \<and> dest ''cnpg.io/cluster'' = Some (DatabaseClusterNameFor db)
        \<and> proto = TCP \<and> PortInt 5432 \<in> names)"
proof -
  have "\<not> admits PolicyEgress (DatabaseNetworkPolicies d cidr) (TeamNamespaceName t) (template_labels app) (pod_endpoint t dest) proto names"
    for d using db_policies_admit_egress by fastforce
  moreover have "(\<exists>a \<in> set apps. admits PolicyEgress (app_policies a) (TeamNamespaceName t) (template_labels app) (pod_endpoint t dest) proto names)
      \<longleftrightarrow> admits PolicyEgress (app_policies app) (TeamNamespaceName t) (template_labels app) (pod_endpoint t dest) proto names"
    using assms own_policies [OF assms] by (auto simp: app_policies_admit)
  ultimately show ?thesis
    using own_policies [OF assms assms(1)]
    by (auto simp: namespace_traffic team_egress open_application_template app_policies_admit)
qed

lemma ingress_of_instance:
  "traffic_allowed PolicyIngress (namespace_policies t apps dbs cidr) (TeamNamespaceName t)
      (instance_labels d) (pod_endpoint t source) proto names \<longleftrightarrow>
     (\<exists>e \<in> set dbs. DatabaseClusterName e = DatabaseClusterName d \<and> proto = TCP
        \<and> source DatabaseLabelKey = Some (oname e) \<and> PortInt 5432 \<in> names)"
  by (simp add: namespace_traffic team_ingress app_policies_admit db_policies_admit_ingress eq_commute
      [of "DatabaseClusterName d"] conj_ac)

text \<open>
  C35: An Application's Pod can open a PostgreSQL connection to an instance of a Database of its Team exactly when the
  Application names that Database: the egress policy of the Application and the ingress policies of the
  Database, with all the others in place, both let it through, and for any other Application one of the
  two sides refuses.
\<close>

theorem database_reached_by_bound_application:
  assumes "app \<in> set apps" "distinct (map oname apps)" "d \<in> set dbs"
    and "\<forall>e \<in> set dbs. DatabaseClusterName e = DatabaseClusterName d \<longrightarrow> oname e = oname d"
  shows "can_connect (namespace_policies t apps dbs cidr) t (template_labels app) (instance_labels d)
      TCP {PortInt 5432} \<longleftrightarrow> app_databaseRef (aspec app) = Some (oname d)"
proof -
  have "(\<exists>e \<in> set dbs. DatabaseClusterName e = DatabaseClusterName d \<and> app_databaseRef (aspec app) = Some (oname e))
      \<longleftrightarrow> app_databaseRef (aspec app) = Some (oname d)"
    using assms(3,4) by metis
  moreover have "DatabaseClusterName d = DatabaseClusterNameFor (oname d)" by (simp add: DatabaseClusterName_def)
  ultimately show ?thesis
    unfolding can_connect_def egress_between_pods [OF assms(1,2)] ingress_of_instance by auto
qed

definition demo_db :: database where
  "demo_db = objmeta.extend ((new_meta ''team-shop'' ''orders'')\<lparr>ouid := ''db-1''\<rparr>)
     \<lparr>dspec = \<lparr>db_engine = ''postgres'', db_instances = 3, db_st = \<lparr>st_size = ''1Gi'', st_class = None\<rparr>,
        db_bk = \<lparr>bk_enabled = True, bk_schedule = ''0 0 2 * * *'', bk_retention = ''7d''\<rparr>, db_rec = None\<rparr>,
      dstatus = \<lparr>ds_phase = DbPhaseNone, ds_observedGeneration = 0, ds_connectionSecretName = [],
        ds_backupServerName = [], ds_recoverySourceServerName = [], ds_lastSuccessfulBackup = None,
        ds_resolvedGitRevision = [], ds_conditions = []\<rparr>\<rparr>"

definition bound_app :: application where
  "bound_app = demo_app\<lparr>aspec := (aspec demo_app)\<lparr>app_databaseRef := Some ''orders''\<rparr>\<rparr>"

theorem database_reached_by_bound_application_witness:
  "can_connect (namespace_policies shop_team [bound_app, quiet_app] [demo_db] []) shop_team
      (template_labels bound_app) (instance_labels demo_db) TCP {PortInt 5432}"
  using database_reached_by_bound_application [of bound_app "[bound_app, quiet_app]" demo_db "[demo_db]" shop_team "[]"]
  by (simp add: bound_app_def quiet_app_def demo_app_def demo_app_of_def demo_db_def objmeta.defs)

text \<open>
  C40: The instances of one Database cannot reach each other. The backup policy lets an instance send to port 5432 of the
  other instances, but no policy lets an instance receive from one: the ingress policies of the Database
  name Applications, Prometheus and the operator only, and the Team denies the rest. So a Database of two
  or three instances, which validation accepts, cannot stream from its primary, as long as the instances carry
  only the operator's label.
\<close>

theorem database_replication_blocked:
  "\<not> can_connect (namespace_policies t apps dbs cidr) t (instance_labels d) (instance_labels d) proto names"
  by (simp add: can_connect_def ingress_of_instance)

end
