(* ===== verification/Db_Claims.thy ===== *)
theory Db_Claims
  imports Db_Controller
begin

section \<open>What a Database reports, and from which backups\<close>

text \<open>
  The loop over the Backups of a Database against its specification (the newest attempt, the newest success), the
  conditions that the status functions of the Database controller write, and when a Database is reported ready.
\<close>

subsection \<open>The observation of the backups\<close>

definition own_backups :: "lib \<Rightarrow> string \<Rightarrow> kobject list \<Rightarrow> kobject list" where
  "own_backups L clusterName items = filter (backup_of_cluster L clusterName) items"

definition backup_completed :: "lib \<Rightarrow> kobject \<Rightarrow> bool" where
  "backup_completed L b \<longleftrightarrow> equal_fold (backup_phase L b) ''completed''"

definition completed_times :: "lib \<Rightarrow> string \<Rightarrow> kobject list \<Rightarrow> int set" where
  "completed_times L clusterName items =
     backupTimestamp L ` set (filter (backup_completed L) (own_backups L clusterName items))"

definition newest :: "int set \<Rightarrow> int option" where
  "newest A = (if A = {} then None else Some (Max A))"

fun latest_attempt :: "lib \<Rightarrow> kobject list \<Rightarrow> kobject option" where
  \<comment> \<open>the first of the newest ones\<close>
  "latest_attempt L [] = None"
| "latest_attempt L (b # bs) = (case latest_attempt L bs of
     None \<Rightarrow> Some b
   | Some c \<Rightarrow> if backupTimestamp L b \<ge> backupTimestamp L c then Some b else Some c)"

lemma latest_attempt_None [simp]: "latest_attempt L bs = None \<longleftrightarrow> bs = []"
  by (cases bs) (auto split: option.split)

lemma latest_attempt_Some:
  "latest_attempt L bs = Some b \<Longrightarrow> b \<in> set bs \<and> (\<forall>c \<in> set bs. backupTimestamp L c \<le> backupTimestamp L b)"
  by (induction bs arbitrary: b) (fastforce split: option.splits if_splits)+

lemma newest_insert:
  "finite A \<Longrightarrow> newest (insert t A) = (case newest A of None \<Rightarrow> Some t | Some m \<Rightarrow> Some (max t m))"
  by (simp add: newest_def)

lemma newest_Un:
  assumes "finite A" "finite B"
  shows "newest (A \<union> B) = (case newest A of None \<Rightarrow> newest B
    | Some a \<Rightarrow> (case newest B of None \<Rightarrow> Some a | Some b \<Rightarrow> Some (max a b)))"
  using assms by (auto simp: newest_def Max_Un)

lemma loop_successful:
  "bs_lastSuccessful (backup_loop L c latest state items) =
     newest (set_option (bs_lastSuccessful state) \<union> completed_times L c items)"
proof (induction items arbitrary: latest state)
  case Nil
  then show ?case
    by (cases "bs_lastSuccessful state") (simp_all add: completed_times_def own_backups_def newest_def)
next
  case (Cons b items)
  show ?case
  proof (cases "backup_of_cluster L c b \<and> backup_completed L b")
    case True
    have "newest (insert (backupTimestamp L b) (set_option s) \<union> completed_times L c items)
       = newest (set_option (if (case s of None \<Rightarrow> True | Some t \<Rightarrow> backupTimestamp L b > t)
            then Some (backupTimestamp L b) else s) \<union> completed_times L c items)" for s
      by (subst (1 2) newest_Un)
        (auto simp: completed_times_def newest_def split: option.splits)
    moreover have "set_option (bs_lastSuccessful state) \<union> completed_times L c (b # items)
        = insert (backupTimestamp L b) (set_option (bs_lastSuccessful state)) \<union> completed_times L c items"
      using True by (auto simp: completed_times_def own_backups_def)
    ultimately show ?thesis
      using True unfolding backup_completed_def
      by (simp add: Cons.IH Let_def if_distrib [of bs_lastSuccessful] cong: if_cong)
  next
    case False
    then have "completed_times L c (b # items) = completed_times L c items"
      by (auto simp: completed_times_def own_backups_def)
    with False show ?thesis
      by (auto simp: Cons.IH Let_def backup_completed_def)
  qed
qed

text \<open>The latest phase is that of the newest attempt, when no attempt carries the zero time.\<close>

definition dated :: "lib \<Rightarrow> kobject list \<Rightarrow> bool" where
  "dated L bs \<longleftrightarrow> list_all (\<lambda>b. backupTimestamp L b > zero_time) bs"

lemma loop_phase:
  assumes "dated L (own_backups L c items)"
  shows "bs_latestPhase (backup_loop L c latest state items) =
    (case latest_attempt L (own_backups L c items) of
       None \<Rightarrow> bs_latestPhase state
     | Some b \<Rightarrow> if latest = zero_time \<or> latest < backupTimestamp L b then to_lower (backup_phase L b)
         else bs_latestPhase state)"
  using assms
proof (induction items arbitrary: latest state)
  case Nil
  then show ?case by (simp add: own_backups_def)
next
  case (Cons b items)
  show ?case
  proof (cases "backup_of_cluster L c b")
    case False
    with Cons show ?thesis by (simp add: own_backups_def)
  next
    case own: True
    define newer where "newer = (latest = zero_time \<or> backupTimestamp L b > latest)"
    define l where "l = (if newer then backupTimestamp L b else latest)"
    define s1 where "s1 = (if newer then state\<lparr>bs_latestPhase := to_lower (backup_phase L b)\<rparr> else state)"
    obtain s2 where s2: "backup_loop L c latest state (b # items) = backup_loop L c l s2 items"
      "bs_latestPhase s2 = bs_latestPhase s1"
      using own by (auto simp: Let_def newer_def [symmetric] l_def s1_def)
    have own_Cons: "own_backups L c (b # items) = b # own_backups L c items"
      using own by (simp add: own_backups_def)
    have t: "zero_time < backupTimestamp L b" "dated L (own_backups L c items)"
      using Cons.prems by (simp_all add: own_Cons dated_def)
    then have l: "l \<noteq> zero_time" by (auto simp: l_def newer_def)
    show ?thesis
      unfolding s2(1) Cons.IH [OF t(2)] own_Cons
      using l t(1) s2(2) by (cases newer) (auto simp: s1_def l_def newer_def split: option.split)
  qed
qed

lemma backups_observed:
  assumes "dated L (own_backups L c items)"
  shows "bs_latestPhase (backup_loop L c zero_time no_backups items) =
    (case latest_attempt L (own_backups L c items) of None \<Rightarrow> [] | Some b \<Rightarrow> to_lower (backup_phase L b))"
  unfolding loop_phase [OF assms] by (simp add: no_backups_def split: option.split)

subsection \<open>The conditions of the statuses\<close>

definition database_reported :: "lib \<Rightarrow> db_status \<Rightarrow> bool" where
  "database_reported L s \<longleftrightarrow> (\<exists>reason message gen.
     cond_of L (ds_conditions s) conditionManagedDatabaseReady = Some (CondTrue, reason, message, gen))"

definition backups_reported_healthy :: "lib \<Rightarrow> db_status \<Rightarrow> bool" where
  "backups_reported_healthy L s \<longleftrightarrow> (\<exists>reason message gen.
     cond_of L (ds_conditions s) conditionDatabaseBackupHealthy = Some (CondTrue, reason, message, gen))"

lemma db_condition_names [simp]:
  "conditionManagedDatabaseReady \<noteq> conditionDatabaseBackupHealthy"
  "conditionDatabaseBackupHealthy \<noteq> conditionManagedDatabaseReady"
  "conditionManagedDatabaseReady \<noteq> conditionDatabaseConfigurationReady"
  "conditionDatabaseBackupHealthy \<noteq> conditionDatabaseConfigurationReady"
  "conditionManagedDatabaseReady \<noteq> conditionDatabaseClusterReady"
  "conditionDatabaseBackupHealthy \<noteq> conditionDatabaseClusterReady"
  by (simp_all add: db_condition_defs)

lemma db_condition_reads [status_simps]:
  "conditions_ok L \<Longrightarrow> cond_of L (ds_conditions (setDatabaseCondition L d ty st re me s)) ty' =
     (if ty' = ty then Some (st, re, me, ogeneration d) else cond_of L (ds_conditions s) ty')"
  "ds_phase (setDatabaseCondition L d ty st re me s) = ds_phase s"
  "ds_observedGeneration (setDatabaseCondition L d ty st re me s) = ds_observedGeneration s"
  "ds_lastSuccessfulBackup (setDatabaseCondition L d ty st re me s) = ds_lastSuccessfulBackup s"
  by (simp_all add: setDatabaseCondition_def cond_of_set)

lemma backup_outcome_reads [status_simps]:
  assumes "conditions_ok L"
  shows "database_reported L (backup_outcome L d phase h re me r re2 me2 s) \<longleftrightarrow> r = CondTrue"
    and "backups_reported_healthy L (backup_outcome L d phase h re me r re2 me2 s) \<longleftrightarrow> h = CondTrue"
    and "ds_phase (backup_outcome L d phase h re me r re2 me2 s) = phase"
    and "ds_lastSuccessfulBackup (backup_outcome L d phase h re me r re2 me2 s) = ds_lastSuccessfulBackup s"
    and "ds_observedGeneration (backup_outcome L d phase h re me r re2 me2 s) = ds_observedGeneration s"
  using assms by (auto simp: backup_outcome_def database_reported_def backups_reported_healthy_def status_simps)

lemma configuration_reads [status_simps]:
  assumes "conditions_ok L"
  shows "database_reported L (setDatabaseCondition L d conditionDatabaseConfigurationReady st re me s)
      = database_reported L s"
    and "backups_reported_healthy L (setDatabaseCondition L d conditionDatabaseConfigurationReady st re me s)
      = backups_reported_healthy L s"
  using assms by (simp_all add: database_reported_def backups_reported_healthy_def status_simps)

lemma not_reported [status_simps]:
  assumes "conditions_ok L"
  shows "\<not> database_reported L (databaseFailureStatus L d reason message)"
    and "\<not> database_reported L (databaseDeletingStatus L d ready message)"
  using assms by (simp_all add: databaseFailureStatus_def databaseDeletingStatus_def db_layers_def
      database_reported_def status_simps)

lemma base_status_reads [status_simps]:
  "ds_observedGeneration (databaseBaseStatus L d) = ogeneration d"
  by (simp add: databaseBaseStatus_def Let_def)

definition backups_good :: "database \<Rightarrow> databaseBackupState \<Rightarrow> bool" where
  "backups_good d b \<longleftrightarrow> \<not> bk_enabled (db_bk (dspec d))
     \<or> bs_latestPhase b \<noteq> ''failed'' \<and> bs_lastSuccessful b \<noteq> None"

lemma cluster_status_reads:
  assumes "conditions_ok L"
  shows "database_reported L (databaseStatusFromCluster L d cluster b) \<longleftrightarrow> cluster_ready L cluster \<and> backups_good d b"
    and "backups_reported_healthy L (databaseStatusFromCluster L d cluster b) \<longleftrightarrow> cluster_ready L cluster \<and> backups_good d b"
    and "ds_lastSuccessfulBackup (databaseStatusFromCluster L d cluster b) = bs_lastSuccessful b"
    and "ds_observedGeneration (databaseStatusFromCluster L d cluster b) = ogeneration d"
  using assms by (simp_all add: databaseStatusFromCluster_def ready_cluster_status_def backups_good_def Let_def
      status_simps)

subsection \<open>Claims\<close>

definition latest_failed :: "lib \<Rightarrow> kobject list \<Rightarrow> bool" where
  "latest_failed L bs \<longleftrightarrow> (case latest_attempt L bs of
     None \<Rightarrow> False | Some b \<Rightarrow> to_lower (backup_phase L b) = ''failed'')"

lemma newest_None [simp]: "newest A = None \<longleftrightarrow> A = {}"
  by (simp add: newest_def)

lemma observed_success: "bs_lastSuccessful (backup_loop L c t no_backups items) = newest (completed_times L c items)"
  by (simp add: loop_successful no_backups_def)

lemma backups_good_iff:
  assumes "dated L (own_backups L c items)"
  shows "backups_good d (backup_loop L c zero_time no_backups items) \<longleftrightarrow> \<not> bk_enabled (db_bk (dspec d))
    \<or> \<not> latest_failed L (own_backups L c items) \<and> completed_times L c items \<noteq> {}"
  by (auto simp: backups_good_def backups_observed [OF assms] observed_success latest_failed_def
      split: option.split)

definition orders_db :: database where
  "orders_db = objmeta.extend ((new_meta ''team-shop'' ''orders'')\<lparr>ouid := ''db-1'', ogeneration := 4\<rparr>)
     \<lparr>dspec = \<lparr>db_engine = ''postgres'', db_instances = 1, db_st = \<lparr>st_size = ''2Gi'', st_class = None\<rparr>,
        db_bk = \<lparr>bk_enabled = True, bk_schedule = ''0 0 2 * * *'', bk_retention = ''7d''\<rparr>, db_rec = None\<rparr>,
      dstatus = \<lparr>ds_phase = DbPhaseNone, ds_observedGeneration = 0, ds_connectionSecretName = [],
        ds_backupServerName = [], ds_recoverySourceServerName = [], ds_lastSuccessfulBackup = None,
        ds_resolvedGitRevision = [], ds_conditions = []\<rparr>\<rparr>"

definition orders_backup :: "string \<Rightarrow> string \<Rightarrow> string \<Rightarrow> kobject" where
  "orders_backup n phase stopped = with_body (new_meta ''team-shop'' n) (BUnstructured CNPGBackupGVK
     (JObj [(''spec'', JObj [(''cluster'', JObj [(''name'', JStr (DatabaseClusterName orders_db))])]),
       (''status'', JObj [(''phase'', JStr phase), (''stoppedAt'', JStr stopped)])]))"

definition orders_cluster :: kobject where
  "orders_cluster = with_body (new_meta ''team-shop'' (DatabaseClusterName orders_db)) (BUnstructured CNPGClusterGVK
     (JObj [(''status'', JObj [(''conditions'', JArr [JObj [(''type'', JStr ''Ready''), (''status'', JStr ''True'')]])])]))"

text \<open>
  C13: A Database is reported \<open>Ready\<close> exactly when CloudNativePG reports its Cluster ready and its backups are good: they are
  disabled, or at least one Backup of this Cluster completed and the newest attempt (the first of the
  newest in the list) did not fail. The time of the last success that it reports is that of the newest completed
  Backup. Backups of other Clusters do not count, in any order of the list. The hypothesis on the times says
  that no Backup of the Cluster is dated at or before the zero time, which the loop takes for no attempt.
\<close>

theorem database_ready_exactly_when:
  assumes "conditions_ok L" "dated L (own_backups L (DatabaseClusterName d) items)"
  shows "(database_reported L (databaseStatusFromCluster L d cluster
        (backup_loop L (DatabaseClusterName d) zero_time no_backups items)) \<longleftrightarrow>
      cluster_ready L cluster
      \<and> (\<not> bk_enabled (db_bk (dspec d)) \<or> \<not> latest_failed L (own_backups L (DatabaseClusterName d) items)
           \<and> completed_times L (DatabaseClusterName d) items \<noteq> {}))
    \<and> ds_lastSuccessfulBackup (databaseStatusFromCluster L d cluster
        (backup_loop L (DatabaseClusterName d) zero_time no_backups items)) =
      newest (completed_times L (DatabaseClusterName d) items)"
  using assms by (simp_all add: cluster_status_reads backups_good_iff observed_success)

definition orders_backups :: "kobject list" where
  "orders_backups = [orders_backup ''a'' ''completed'' ''100'', orders_backup ''b'' ''failed'' ''50'']"

theorem database_ready_exactly_when_witness:
  "database_reported demo_lib (databaseStatusFromCluster demo_lib orders_db orders_cluster
      (backup_loop demo_lib (DatabaseClusterName orders_db) zero_time no_backups orders_backups))"
proof -
  have "dated demo_lib (own_backups demo_lib (DatabaseClusterName orders_db) orders_backups)"
    "cluster_ready demo_lib orders_cluster"
    "\<not> latest_failed demo_lib (own_backups demo_lib (DatabaseClusterName orders_db) orders_backups)"
    "100 \<in> completed_times demo_lib (DatabaseClusterName orders_db) orders_backups"
    by code_simp+
  then show ?thesis
    using database_ready_exactly_when [of demo_lib orders_db orders_backups orders_cluster] by auto
qed

end
