(* ===== verification/Db_Safety.thy ===== *)
theory Db_Safety
  imports Db_Claims App_Footprint
begin

section \<open>The reconcile pass of a Database: admission, deletion and reports\<close>

text \<open>
  The guard over all calls of a pass. Objects are written only for an admitted Database, under its ownership and with
  its names; of the objects of others the pass deletes none. A deletion destroys the Cluster and releases the
  finalizer only when the final backup is completed, not wanted, or waived. \<open>Ready\<close> is reported only on what the pass
  has written and read back.
\<close>

subsection \<open>Admission and names\<close>

definition database_read :: "nsname \<Rightarrow> database \<Rightarrow> trace \<Rightarrow> bool" where
  \<comment> \<open>The Database of this pass, as it was read, or as the patch of its finalizer returned it.\<close>
  "database_read req d tr \<longleftrightarrow> okey d = req \<and> (\<exists>c obj. (c, RObj obj) \<in> set tr \<and> object_database obj = Some d
     \<and> (c = Get KDatabase req \<or> (\<exists>a b. c = Patch a b \<and> okind a = KDatabase \<and> okey a = req)))"

definition in_team_namespace :: "database \<Rightarrow> trace \<Rightarrow> bool" where
  "in_team_namespace d tr \<longleftrightarrow> (\<exists>ns. (Get KNamespace ([], onamespace d), RObj ns) \<in> set tr
     \<and> map_get (olabels ns) TeamLabelKey \<noteq> []
     \<and> map_get (olabels ns) ''app.kubernetes.io/managed-by'' = ManagedBy)"

definition db_admitted :: "lib \<Rightarrow> nsname \<Rightarrow> database \<Rightarrow> trace \<Rightarrow> bool" where
  "db_admitted L req d tr \<longleftrightarrow> database_read req d tr \<and> db_well_formed L d \<and> in_team_namespace d tr"

definition id_of :: "kobject \<Rightarrow> kind \<times> nsname" where
  "id_of obj = (okind obj, okey obj)"

definition backup_objects :: "lib \<Rightarrow> string \<Rightarrow> database \<Rightarrow> kobject list" where
  "backup_objects L endpoint d = [DatabaseBackupCredential d blank_secret, DatabaseObjectStore d endpoint,
     DatabaseScheduledBackup d]"

definition kept_objects :: "lib \<Rightarrow> string \<Rightarrow> database \<Rightarrow> kobject list" where
  "kept_objects L endpoint d =
     (if bk_enabled (db_bk (dspec d)) then backup_objects L endpoint d else [])
     @ DatabaseCluster d # DatabaseNetworkPolicies d (endpointCIDR L endpoint)
     @ [DatabaseServiceMonitor d, DatabasePrometheusRule L d]"

definition dropped_objects :: "lib \<Rightarrow> string \<Rightarrow> database \<Rightarrow> kobject list" where
  "dropped_objects L endpoint d =
     (if bk_enabled (db_bk (dspec d)) then []
      else backup_objects L endpoint d @ [DatabaseBackupNetworkPolicy d (endpointCIDR L endpoint)])"

definition db_writes :: "lib \<Rightarrow> string \<Rightarrow> database \<Rightarrow> trace \<Rightarrow> call \<Rightarrow> bool" where
  \<comment> \<open>Upserts of the Database's objects under its ownership; deletions of its backup objects when backups are disabled,
     and of legacy objects that were read as controlled by it.\<close>
  "db_writes L endpoint d tr c = (case c of
     Get _ _ \<Rightarrow> True | ListObjects _ _ _ \<Rightarrow> True
   | UpsertRead obj \<Rightarrow> id_of obj \<in> id_of ` set (kept_objects L endpoint d)
   | UpsertWrite w \<Rightarrow> id_of w \<in> id_of ` set (kept_objects L endpoint d)
        \<and> ocontroller w = Some (ouid d) \<and> olabels w = DatabaseLabels d
   | Delete k key \<Rightarrow> (k, key) \<in> id_of ` set (dropped_objects L endpoint d)
        \<or> (k, key) \<in> id_of ` set (LegacyDatabaseMonitoringResources d)
          \<and> (\<exists>cur. (Get k key, RObj cur) \<in> set tr \<and> ocontroller cur = Some (ouid d))
   | _ \<Rightarrow> False)"

subsection \<open>Deletion\<close>

definition final_backup_id :: "database \<Rightarrow> kind \<times> nsname" where
  "final_backup_id d = id_of (DatabaseFinalBackup d)"

definition final_backup_wanted :: "database \<Rightarrow> bool" where
  "final_backup_wanted d \<longleftrightarrow> bk_enabled (db_bk (dspec d)) \<and> \<not> force_deleted d"

definition final_backup_taken :: "lib \<Rightarrow> database \<Rightarrow> trace \<Rightarrow> bool" where
  "final_backup_taken L d tr \<longleftrightarrow> (\<exists>b. (Get (KUnstructured CNPGBackupGVK) (okey (DatabaseFinalBackup d)), RObj b) \<in> set tr
     \<and> backup_completed L b)"

definition may_destroy :: "lib \<Rightarrow> nsname \<Rightarrow> database \<Rightarrow> trace \<Rightarrow> bool" where
  "may_destroy L req d tr \<longleftrightarrow> database_read req d tr \<and> odeleting d
     \<and> contains_finalizer L (ofinalizers d) DatabaseFinalizer
     \<and> (final_backup_wanted d \<longrightarrow> final_backup_taken L d tr)"

definition cluster_gone :: "database \<Rightarrow> trace \<Rightarrow> bool" where
  "cluster_gone d tr \<longleftrightarrow> (\<exists>r. (Delete (KUnstructured CNPGClusterGVK) (okey (DatabaseCluster d)), r) \<in> set tr
     \<and> (\<forall>e. error_of r = Some e \<longrightarrow> err_reason e = NotFound))"

definition with_finalizers :: "database \<Rightarrow> string list \<Rightarrow> kobject" where
  "with_finalizers d fs = database_object (d\<lparr>ofinalizers := fs\<rparr>)"

definition db_destroys :: "lib \<Rightarrow> nsname \<Rightarrow> database \<Rightarrow> trace \<Rightarrow> call \<Rightarrow> bool" where
  "db_destroys L req d tr c = (case c of
     UpsertRead obj \<Rightarrow> database_read req d tr \<and> odeleting d \<and> final_backup_wanted d \<and> id_of obj = final_backup_id d
   | UpsertWrite w \<Rightarrow> database_read req d tr \<and> odeleting d \<and> final_backup_wanted d \<and> id_of w = final_backup_id d
        \<and> ocontroller w = None
   | Delete k key \<Rightarrow> may_destroy L req d tr
        \<and> ((k, key) = id_of (DatabaseCluster d)
            \<or> (k, key) = final_backup_id d \<and> (final_backup_wanted d \<or> force_deleted d))
   | Patch a b \<Rightarrow> may_destroy L req d tr \<and> cluster_gone d tr
        \<and> a = database_object d \<and> b = with_finalizers d (remove_finalizer L (ofinalizers d) DatabaseFinalizer)
   | _ \<Rightarrow> False)"

subsection \<open>What a Ready report rests on\<close>

definition carries :: "lib \<Rightarrow> kobject \<Rightarrow> kobject \<Rightarrow> bool" where
  \<comment> \<open>What was written is what was wanted; the data of the credential is that of its source.\<close>
  "carries L obj w = (case kbody obj of
     BUnstructured g j \<Rightarrow> nested_field L (json_of w) [''spec''] = nested_field L j [''spec'']
   | BSecret _ _ \<Rightarrow> True
   | b \<Rightarrow> kbody w = b)"

definition delivered :: "lib \<Rightarrow> kobject \<Rightarrow> trace \<Rightarrow> bool" where
  "delivered L obj tr \<longleftrightarrow> (\<exists>w op res. (UpsertWrite w, RWritten op res) \<in> set tr \<and> id_of w = id_of obj \<and> carries L obj w)"

definition db_evidence :: "lib \<Rightarrow> string \<Rightarrow> database \<Rightarrow> trace \<Rightarrow> bool" where
  "db_evidence L endpoint d tr \<longleftrightarrow>
     (\<forall>obj \<in> set (kept_objects L endpoint d). delivered L obj tr)
   \<and> (\<exists>cluster. (Get (KUnstructured CNPGClusterGVK) (okey (DatabaseCluster d)), RObj cluster) \<in> set tr
        \<and> cluster_ready L cluster)
   \<and> (bk_enabled (db_bk (dspec d)) \<longrightarrow>
        (\<exists>items. (ListObjects (KUnstructured CNPGBackupGVK) (Some (onamespace d)) Map.empty, RItems items) \<in> set tr
           \<and> backups_good d (backup_loop L (DatabaseClusterName d) zero_time no_backups items)))"

definition db_reports_ready :: "lib \<Rightarrow> kobject \<Rightarrow> bool" where
  "db_reports_ready L obj \<longleftrightarrow> (case object_database obj of None \<Rightarrow> False | Some d \<Rightarrow> database_reported L (dstatus d))"

subsection \<open>The guard of the pass\<close>

definition db_guard :: "lib \<Rightarrow> string \<Rightarrow> nsname \<Rightarrow> trace \<Rightarrow> call \<Rightarrow> bool" where
  "db_guard L endpoint req tr c = (case c of
     StatusPatch a b \<Rightarrow> (\<exists>desired. status_write_ok database_ops desired c)
       \<and> (db_reports_ready L b \<longrightarrow> (\<exists>d. db_admitted L req d tr \<and> db_evidence L endpoint d tr))
   | Get _ _ \<Rightarrow> True | ListObjects _ _ _ \<Rightarrow> True | Event _ _ _ _ _ \<Rightarrow> True | Now \<Rightarrow> True
   | SetGauge _ key _ \<Rightarrow> key = req | DropGauge _ key \<Rightarrow> key = req
   | Patch a b \<Rightarrow> (\<exists>d. database_read req d tr \<and> (db_destroys L req d tr c
        \<or> \<not> odeleting d \<and> a = database_object d
          \<and> b = with_finalizers d (add_finalizer L (ofinalizers d) DatabaseFinalizer)))
   | _ \<Rightarrow> \<exists>d. db_admitted L req d tr \<and> db_writes L endpoint d tr c \<or> db_destroys L req d tr c)"

lemma db_guard_reads [simp]:
  "db_guard L e req tr (Get k key)" "db_guard L e req tr (ListObjects k n ls)"
  "db_guard L e req tr (Event k key a b m)" "db_guard L e req tr Now"
  by (simp_all add: db_guard_def)

lemma writes_guard: "db_admitted L req d tr \<Longrightarrow> db_writes L e d tr c \<Longrightarrow> db_guard L e req tr c"
  by (cases c) (auto simp: db_guard_def db_writes_def)

lemma destroys_guard: "db_destroys L req d tr c \<Longrightarrow> db_guard L e req tr c"
  by (cases c) (auto simp: db_guard_def db_destroys_def may_destroy_def)

lemma db_facts_append [intro]:
  "database_read req d tr \<Longrightarrow> database_read req d (tr @ post)"
  "in_team_namespace d tr \<Longrightarrow> in_team_namespace d (tr @ post)"
  "final_backup_taken L d tr \<Longrightarrow> final_backup_taken L d (tr @ post)"
  "cluster_gone d tr \<Longrightarrow> cluster_gone d (tr @ post)"
  "delivered L obj tr \<Longrightarrow> delivered L obj (tr @ post)"
  unfolding database_read_def in_team_namespace_def final_backup_taken_def cluster_gone_def delivered_def
  by (simp, blast)+

lemma db_admitted_append [intro]: "db_admitted L req d tr \<Longrightarrow> db_admitted L req d (tr @ post)"
  unfolding db_admitted_def by blast

lemma may_destroy_append [intro]: "may_destroy L req d tr \<Longrightarrow> may_destroy L req d (tr @ post)"
  unfolding may_destroy_def by blast

lemma db_evidence_append [intro]: "db_evidence L e d tr \<Longrightarrow> db_evidence L e d (tr @ post)"
  unfolding db_evidence_def using db_facts_append(5) by (metis (no_types, lifting) Un_iff set_append)

subsection \<open>Reports\<close>

lemma db_status_write:
  assumes "conditions_ok L" "status_write_ok database_ops desired (StatusPatch a b)"
  shows "db_reports_ready L b = database_reported L desired"
proof -
  obtain u where u: "object_database b = Some u"
    using assms(2) by (auto simp: status_write_ok_def database_ops_def split: option.splits)
  then obtain cs where 1: "dstatus u = desired\<lparr>ds_conditions := cs\<rparr>"
    and 2: "map (\<lambda>c. c\<lparr>ctransition := 0\<rparr>) cs = map (\<lambda>c. c\<lparr>ctransition := 0\<rparr>) (ds_conditions desired)"
    using assms(2) by (auto simp: status_write_ok_def database_ops_def split: option.splits)
  show ?thesis using cond_of_same [OF assms(1) 2] 1 u by (simp add: db_reports_ready_def database_reported_def)
qed

lemma keeps_db_patch:
  assumes "conditions_ok L" "database_reported L desired \<Longrightarrow> \<exists>d. db_admitted L req d tr \<and> db_evidence L endpoint d tr"
  shows "keeps api (db_guard L endpoint req) tr (\<lambda>_ _. True) (patchDatabaseStatus L n d desired)"
  unfolding patchDatabaseStatus_def
proof (rule keeps_does [OF calls_makes [OF db_status_object.patch_makes]])
  fix e c and r :: resp
  assume w: "status_write_ok database_ops desired c"
  show "db_guard L endpoint req (tr @ e) c"
  proof (cases c)
    case (StatusPatch a b)
    have "db_reports_ready L b \<Longrightarrow> \<exists>d. db_admitted L req d (tr @ e) \<and> db_evidence L endpoint d (tr @ e)"
      using assms(2) w db_status_write [OF assms(1)] unfolding StatusPatch by blast
    with w show ?thesis unfolding db_guard_def StatusPatch by auto
  qed (use w in \<open>auto simp: status_write_ok_def\<close>)
qed simp

lemma keeps_db_failure:
  assumes "conditions_ok L"
  shows "keeps api (db_guard L endpoint req) tr (\<lambda>_ _. True) (databaseReconcileFailure L n d err)"
    and "keeps api (db_guard L endpoint req) tr (\<lambda>_ _. True) (report_failure L n d reason message)"
  unfolding databaseReconcileFailure_def report_failure_def
  by (rule keeps_bind [OF keeps_db_patch [OF assms]];
      auto intro!: keeps_case_prod keeps_case_option keeps_ret simp: not_reported(1) [OF assms])+

lemma keeps_quiet_call:
  assumes "\<And>e. G (tr @ e) c"
  shows "keeps api G tr (\<lambda>_ _. True) (invoke c)"
  by (rule keeps_does [OF does_invoke [where C = "\<lambda>x r. x = c" and R = "\<lambda>_ _. True"]]) (use assms in auto)

lemma keeps_gauges:
  assumes "key = req"
  shows "keeps api (db_guard L endpoint req) tr (\<lambda>_ _. True) (set_gauge g key v)"
    and "keeps api (db_guard L endpoint req) tr (\<lambda>_ _. True) (drop_gauge g key)"
    and "keeps api (db_guard L endpoint req) tr (\<lambda>_ _. True) (eventDatabase d ty re me)"
  unfolding set_gauge_def drop_gauge_def eventDatabase_def send_event_def
  by (rule keeps_bind [OF keeps_quiet_call]; use assms in \<open>auto intro!: keeps_ret simp: db_guard_def\<close>)+

subsection \<open>Upserts\<close>

lemma kept_labels:
  assumes "obj \<in> set (kept_objects L endpoint d)"
  shows "olabels obj = DatabaseLabels d"
  using assms by (auto simp: kept_objects_def backup_objects_def DatabaseNetworkPolicies_def DatabaseBackupNetworkPolicy_def
      DatabaseBackupCredential_def db_policy_def db_object_meta_def DatabaseObjectStore_def DatabaseScheduledBackup_def
      DatabaseCluster_def DatabaseServiceMonitor_def DatabasePrometheusRule_def Let_def split: if_splits)

lemma id_of_updates [simp]:
  "id_of (obj\<lparr>olabels := l\<rparr>) = id_of obj" "id_of (obj\<lparr>oannotations := a\<rparr>) = id_of obj"
  "id_of (obj\<lparr>ocontroller := c\<rparr>) = id_of obj" "id_of (obj\<lparr>ouid := u\<rparr>) = id_of obj"
  by (simp_all add: id_of_def okey_def okind_def)

lemma does_start:
  assumes "faithful_api api" "id_of blank = id_of desired" "\<And>c. c = Get (okind desired) (okey desired) \<Longrightarrow> C c"
  shows "does api (\<lambda>c r. C c) (\<lambda>r evs. \<forall>start. current_or blank r = Inr start \<longrightarrow> id_of start = id_of desired)
     (client_get (okind desired) (okey desired))"
  by (rule does_client)
    (use assms in \<open>auto simp: current_or_def object_of_def id_of_def faithful_apiD(1) split: resp.split sum.splits if_splits\<close>)

lemma upsert_changed_Inr: "upsert_changed r = Inr b \<longleftrightarrow> (\<exists>op res. r = Inr (op, res) \<and> b = (op \<noteq> OpNone))"
  by (auto simp: upsert_changed_def split: sum.splits prod.splits)

text \<open>An upsert that keeps the identity of what it starts from; a success leaves its write in the trace.\<close>

lemma does_db_upsert:
  assumes "faithful_api api" "id_of start = i" "C (UpsertRead start)"
    and "\<And>cur w. id_of cur = i \<Longrightarrow> mutate cur = Inr w \<Longrightarrow> id_of w = i \<and> C (UpsertWrite w) \<and> P w"
  shows "does api (\<lambda>c r. C c) (\<lambda>r evs. \<forall>b. r = Inr b \<longrightarrow>
      (\<exists>w op res. (UpsertWrite w, RWritten op res) \<in> set evs \<and> id_of w = i \<and> P w))
    (do { r \<leftarrow> create_or_update start mutate; ret (upsert_changed r) })"
proof (rule does_bind)
  have cur: "id_of cur = i" if "api tr (UpsertRead start) = RObj cur" "okind cur = okind start" for tr cur
    using faithful_apiD(2) [OF assms(1) that(1)] that(2) assms(2) by (simp add: id_of_def)
  show "does api (\<lambda>c r. C c) (\<lambda>r evs. \<forall>op res. r = Inr (op, res) \<longrightarrow>
      (\<exists>w op res. (UpsertWrite w, RWritten op res) \<in> set evs \<and> id_of w = i \<and> P w)) (create_or_update start mutate)"
  proof (rule does_create_or_update)
    fix tr tr' cur w and op :: op_result and res :: kobject
    assume c: "api tr (UpsertRead start) = RObj cur" "okind cur = okind start" "mutate cur = Inr w"
    then show "C (UpsertWrite w)" using cur assms(4) by blast
    show "\<forall>op' res'. (Inr (op, res) :: go_error + op_result \<times> kobject) = Inr (op', res') \<longrightarrow> (\<exists>w' o' r'. (UpsertWrite w', RWritten o' r')
        \<in> set [(UpsertRead start, RObj cur), (UpsertWrite w, RWritten op res)] \<and> id_of w' = i \<and> P w')"
      using assms(4) [OF cur [OF c(1,2)] c(3)] by auto
  qed (simp_all add: assms(3))
qed (auto intro!: does_ret simp: upsert_changed_Inr)

lemma set_owner:
  assumes "controller_ref_ok L" "set_controller L d (cur\<lparr>olabels := l, oannotations := a\<rparr>) = Inr w"
  shows "id_of w = id_of cur" "ocontroller w = Some (ouid d)" "olabels w = l"
  using set_controller_reads [OF assms(2,1)] by (simp_all add: id_of_def okind_def okey_def)

lemma id_of_body: "id_of obj = id_of desired \<Longrightarrow> id_of (obj\<lparr>kbody := kbody desired\<rparr>) = id_of desired"
  by (simp add: id_of_def okind_def)

lemma does_read_upsert:
  \<comment> \<open>Read the current object, then upsert it: the common shape of the three reconcilers.\<close>
  assumes "faithful_api api" "id_of blank = id_of desired" "C (Get (okind desired) (okey desired))"
    and "\<And>start. id_of start = id_of desired \<Longrightarrow> C (UpsertRead start)"
    and "\<And>cur w. id_of cur = id_of desired \<Longrightarrow> mutate cur = Inr w \<Longrightarrow>
      id_of w = id_of desired \<and> C (UpsertWrite w) \<and> P w"
  shows "does api (\<lambda>c r. C c) (\<lambda>r evs. \<forall>b. r = Inr b \<longrightarrow>
      (\<exists>w op res. (UpsertWrite w, RWritten op res) \<in> set evs \<and> id_of w = id_of desired \<and> P w))
    (do {
       g \<leftarrow> client_get (okind desired) (okey desired);
       case current_or blank g of
         Inl e \<Rightarrow> ret (Inl e)
       | Inr start \<Rightarrow> do { r \<leftarrow> create_or_update start mutate; ret (upsert_changed r) } })"
proof (rule does_bind [OF does_start [OF assms(1,2)]])
  show "C c" if "c = Get (okind desired) (okey desired)" for c using that assms(3) by simp
  fix g :: "go_error + kobject" and e1 :: trace
  assume g: "\<forall>start. current_or blank g = Inr start \<longrightarrow> id_of start = id_of desired"
  show "does api (\<lambda>c r. C c) (\<lambda>r e2. \<forall>b. r = Inr b \<longrightarrow>
      (\<exists>w op res. (UpsertWrite w, RWritten op res) \<in> set (e1 @ e2) \<and> id_of w = id_of desired \<and> P w))
    (case current_or blank g of
         Inl e \<Rightarrow> ret (Inl e)
       | Inr start \<Rightarrow> do { r \<leftarrow> create_or_update start mutate; ret (upsert_changed r) })"
  proof (cases "current_or blank g")
    case (Inr start)
    then have s: "id_of start = id_of desired" using g by blast
    show ?thesis
      unfolding Inr sum.case
      by (rule does_weaken [OF does_db_upsert [OF assms(1) s assms(4) [OF s] assms(5)]]) auto
  qed (simp add: does_ret)
qed

text \<open>The three reconcilers of owned objects and of the final backup.\<close>

lemma does_reconcileObject:
  assumes "faithful_api api" "controller_ref_ok L" "id_of desired \<in> id_of ` set (kept_objects L endpoint d)"
    "olabels desired = DatabaseLabels d"
  shows "does api (\<lambda>c r. \<forall>tr. db_writes L endpoint d tr c) (\<lambda>r evs. \<forall>b. r = Inr b \<longrightarrow>
      (\<exists>w op res. (UpsertWrite w, RWritten op res) \<in> set evs \<and> id_of w = id_of desired \<and> kbody w = kbody desired))
    (reconcileDatabaseObject L d desired (\<lambda>_. kbody desired))"
  unfolding reconcileDatabaseObject_def
proof (rule does_read_upsert [OF assms(1)])
  fix cur w
  assume "id_of cur = id_of desired" "(case set_controller L d (cur\<lparr>olabels := olabels desired,
      oannotations := oannotations desired\<rparr>) of
        Inl e \<Rightarrow> Inl e | Inr current \<Rightarrow> Inr (current\<lparr>kbody := kbody desired\<rparr>)) = Inr w"
  then obtain v where v: "set_controller L d (cur\<lparr>olabels := olabels desired, oannotations := oannotations desired\<rparr>)
      = Inr v" "w = v\<lparr>kbody := kbody desired\<rparr>" "id_of cur = id_of desired"
    by (auto split: sum.splits)
  note o = set_owner [OF assms(2) v(1)]
  have "id_of w = id_of desired" using id_of_body [of v desired] o(1) v(2,3) by simp
  then show "id_of w = id_of desired \<and> (\<forall>tr. db_writes L endpoint d tr (UpsertWrite w)) \<and> kbody w = kbody desired"
    using assms(3,4) o v(2) by (simp add: db_writes_def)
qed (use assms(3) in \<open>simp_all add: db_writes_def\<close>)

lemma copy_spec_map_Inr:
  assumes "copy_spec_map L missing desired cur = Inr w" "okind desired = KUnstructured g" "id_of cur = id_of desired"
    "nested_ok L"
  shows "id_of w = id_of desired" "carries L desired w" "ocontroller w = ocontroller cur" "olabels w = olabels cur"
proof -
  obtain spec j where s: "nested_field L (json_of desired) [''spec''] = Some (JObj spec)"
      "set_nested_field L (json_of cur) [''spec''] (JObj spec) = Some j"
      "w = cur\<lparr>kbody := BUnstructured (gvk_of cur) j\<rparr>"
    using assms(1) by (auto simp: copy_spec_map_def split: option.splits json.splits)
  have k: "okind cur = KUnstructured g" using assms(2,3) by (simp add: id_of_def)
  then show "id_of w = id_of desired"
    using s(3) assms(2,3) gvk_of_kind [OF k] by (simp add: id_of_def)
  have "nested_field L j [''spec''] = Some (JObj spec)"
    using assms(4) s(2) unfolding nested_ok_def by blast
  then show "carries L desired w"
    using s(1,3) assms(2) by (cases "kbody desired") (auto simp: carries_def json_of_def okind_def)
  show "ocontroller w = ocontroller cur" "olabels w = olabels cur" using s(3) by simp_all
qed

lemma blank_unstructured_id:
  "okind desired = KUnstructured g \<Longrightarrow> id_of (blank_unstructured desired) = id_of desired"
  by (simp add: id_of_def blank_unstructured_def gvk_of_kind okey_def new_meta_def)

lemma does_reconcileUnstructured:
  assumes "faithful_api api" "controller_ref_ok L" "nested_ok L" "okind desired = KUnstructured g"
    "id_of desired \<in> id_of ` set (kept_objects L endpoint d)" "olabels desired = DatabaseLabels d"
  shows "does api (\<lambda>c r. \<forall>tr. db_writes L endpoint d tr c) (\<lambda>r evs. \<forall>b. r = Inr b \<longrightarrow>
      (\<exists>w op res. (UpsertWrite w, RWritten op res) \<in> set evs \<and> id_of w = id_of desired \<and> carries L desired w))
    (reconcileDatabaseUnstructured L d desired)"
  unfolding reconcileDatabaseUnstructured_def
proof (rule does_read_upsert [OF assms(1)])
  fix cur w
  assume "id_of cur = id_of desired" "(case set_controller L d (cur\<lparr>olabels := olabels desired,
      oannotations := oannotations desired\<rparr>) of
        Inl e \<Rightarrow> Inl e
      | Inr current \<Rightarrow> copy_spec_map L (''desired '' @ gvk_kind (gvk_of desired) @ '' spec: %!w(<nil>)'') desired current) = Inr w"
  then obtain v where v: "set_controller L d (cur\<lparr>olabels := olabels desired, oannotations := oannotations desired\<rparr>)
      = Inr v" "copy_spec_map L (''desired '' @ gvk_kind (gvk_of desired) @ '' spec: %!w(<nil>)'') desired v = Inr w"
      "id_of cur = id_of desired"
    by (auto split: sum.splits)
  note o = set_owner [OF assms(2) v(1)]
  then have "id_of v = id_of desired" using v(3) by simp
  note c = copy_spec_map_Inr [OF v(2) assms(4) this assms(3)]
  show "id_of w = id_of desired \<and> (\<forall>tr. db_writes L endpoint d tr (UpsertWrite w)) \<and> carries L desired w"
    using assms(5,6) o c by (simp add: db_writes_def)
qed (use assms(4,5) in \<open>simp_all add: db_writes_def blank_unstructured_id\<close>)

lemma does_finalBackup:
  assumes "faithful_api api" "nested_ok L" "database_read req d tr" "odeleting d" "final_backup_wanted d"
  shows "does api (\<lambda>c r. \<forall>e. db_guard L endpoint req (tr @ e) c) (\<lambda>_ _. True)
    (reconcileDatabaseFinalBackup L (DatabaseFinalBackup d))"
  unfolding reconcileDatabaseFinalBackup_def
proof (rule does_weaken [OF does_read_upsert [OF assms(1), where C = "\<lambda>c. \<forall>e. db_guard L endpoint req (tr @ e) c"
      and P = "\<lambda>_. True"]])
  have k: "okind (DatabaseFinalBackup d) = KUnstructured CNPGBackupGVK" by (simp add: DatabaseFinalBackup_def)
  have ok: "db_guard L endpoint req (tr @ e) c" if "db_destroys L req d (tr @ e) c" for e c
    using destroys_guard [OF that] .
  show "id_of (blank_unstructured (DatabaseFinalBackup d)) = id_of (DatabaseFinalBackup d)"
    by (rule blank_unstructured_id [OF k])
  show "\<forall>e. db_guard L endpoint req (tr @ e) (UpsertRead start)" if "id_of start = id_of (DatabaseFinalBackup d)" for start
    using that assms(3-5) by (auto intro!: ok simp: db_destroys_def final_backup_id_def)
  fix cur w
  assume c: "id_of cur = id_of (DatabaseFinalBackup d)" "copy_spec_map L ''desired final Backup spec is missing''
     (DatabaseFinalBackup d) (cur\<lparr>olabels := olabels (DatabaseFinalBackup d),
        oannotations := oannotations (DatabaseFinalBackup d), ocontroller := None\<rparr>) = Inr w"
  note w = copy_spec_map_Inr [OF c(2) k _ assms(2)]
  show "id_of w = id_of (DatabaseFinalBackup d) \<and> (\<forall>e. db_guard L endpoint req (tr @ e) (UpsertWrite w)) \<and> True"
    using w(1,3) c(1) assms(3-5) by (auto intro!: ok simp: db_destroys_def final_backup_id_def)
qed simp_all

subsection \<open>The steps of a pass\<close>

definition step_gives ::
    "((call \<times> resp) list \<Rightarrow> call \<Rightarrow> resp) \<Rightarrow> lib \<Rightarrow> string \<Rightarrow> nsname \<Rightarrow> database \<Rightarrow> (go_error + bool) prog
     \<Rightarrow> (trace \<Rightarrow> bool) \<Rightarrow> bool" where
  \<comment> \<open>In the pass of an admitted Database the step obeys the guard, and its success establishes the fact.\<close>
  "step_gives api L endpoint req d m P \<longleftrightarrow> (\<forall>t. db_admitted L req d t \<longrightarrow>
     keeps api (db_guard L endpoint req) t (\<lambda>r t'. \<forall>b. r = Inr b \<longrightarrow> P t') m)"

definition lasting :: "(trace \<Rightarrow> bool) \<Rightarrow> bool" where
  "lasting P \<longleftrightarrow> (\<forall>t e. P t \<longrightarrow> P (t @ e))"

lemma keeps_steps:
  assumes "conditions_ok L" "list_all2 (step_gives api L endpoint req d) steps Ps" "list_all lasting Ps"
    and "db_admitted L req d tr"
    and "\<And>e m. db_admitted L req d (tr @ e) \<Longrightarrow> list_all (\<lambda>P. P (tr @ e)) Ps \<Longrightarrow>
      keeps api (db_guard L endpoint req) (tr @ e) (\<lambda>_ _. True) (rest m)"
  shows "keeps api (db_guard L endpoint req) tr (\<lambda>_ _. True) (database_steps L n d steps mutated rest)"
  using assms(2-5)
proof (induction steps arbitrary: Ps tr mutated)
  case Nil
  then show ?case using Nil(4) [of "[]"] by simp
next
  case (Cons m steps)
  obtain P Ps' where Ps: "Ps = P # Ps'" "step_gives api L endpoint req d m P"
      "list_all2 (step_gives api L endpoint req d) steps Ps'"
    using Cons.prems(1) by (auto simp: list_all2_Cons1)
  have step: "keeps api (db_guard L endpoint req) tr (\<lambda>r t'. \<forall>b. r = Inr b \<longrightarrow> P t') m"
    using Ps(2) Cons.prems(3) by (simp add: step_gives_def)
  have P: "lasting P" "list_all lasting Ps'" using Cons.prems(2) Ps(1) by simp_all
  have later: "keeps api (db_guard L endpoint req) (tr @ e) (\<lambda>_ _. True)
      (database_steps L n d steps (mutated \<or> b) rest)" if "P (tr @ e)" for e b
  proof (rule Cons.IH [OF Ps(3) P(2)])
    show "db_admitted L req d (tr @ e)" using Cons.prems(3) by blast
    fix e' m'
    assume a: "db_admitted L req d ((tr @ e) @ e')" "list_all (\<lambda>P. P ((tr @ e) @ e')) Ps'"
    have "P ((tr @ e) @ e')" using that P(1) unfolding lasting_def by blast
    with a show "keeps api (db_guard L endpoint req) ((tr @ e) @ e') (\<lambda>_ _. True) (rest m')"
      using Cons.prems(4) [of "e @ e'"] Ps(1) by simp
  qed
  show ?case
    unfolding database_steps.simps
    by (rule keeps_bind [OF step]) (auto intro!: keeps_case_sum keeps_db_failure(1) [OF assms(1)] later)
qed

lemma step_does:
  assumes "does api (\<lambda>c r. \<forall>tr. db_writes L endpoint d tr c) R m" "\<And>b evs t. R (Inr b) evs \<Longrightarrow> P (t @ evs)"
  shows "step_gives api L endpoint req d m P"
  unfolding step_gives_def
proof (intro allI impI)
  fix t
  assume a: "db_admitted L req d t"
  show "keeps api (db_guard L endpoint req) t (\<lambda>r t'. \<forall>b. r = Inr b \<longrightarrow> P t') m"
    by (rule keeps_does [OF assms(1)])
      (use assms(2) a in \<open>auto intro: writes_guard [OF db_admitted_append]\<close>)
qed

lemma delivered_in: "(UpsertWrite w, RWritten op res) \<in> set evs \<Longrightarrow> id_of w = id_of obj \<Longrightarrow> carries L obj w
    \<Longrightarrow> delivered L obj (t @ evs)"
  unfolding delivered_def by auto

lemma carries_body: "kbody w = kbody obj \<Longrightarrow> (\<And>g j. kbody obj \<noteq> BUnstructured g j) \<Longrightarrow> carries L obj w"
  by (cases "kbody obj") (auto simp: carries_def)

lemma step_object:
  assumes "faithful_api api" "controller_ref_ok L" "desired \<in> set (kept_objects L endpoint d)"
    "\<And>g. okind desired \<noteq> KUnstructured g"
  shows "step_gives api L endpoint req d (reconcileDatabaseObject L d desired (\<lambda>_. kbody desired)) (delivered L desired)"
proof (rule step_does [OF does_reconcileObject [OF assms(1,2)]])
  show "id_of desired \<in> id_of ` set (kept_objects L endpoint d)" "olabels desired = DatabaseLabels d"
    using assms(3) kept_labels by auto
  fix b :: bool and evs t
  assume "\<forall>b'. (Inr b :: go_error + bool) = Inr b' \<longrightarrow> (\<exists>w op res. (UpsertWrite w, RWritten op res) \<in> set evs
      \<and> id_of w = id_of desired \<and> kbody w = kbody desired)"
  moreover have "kbody desired \<noteq> BUnstructured g j" for g j
    using assms(4) [of g] by (auto simp: okind_def)
  ultimately show "delivered L desired (t @ evs)"
    by (auto intro!: delivered_in carries_body)
qed

lemma step_unstructured:
  assumes "faithful_api api" "controller_ref_ok L" "nested_ok L" "desired \<in> set (kept_objects L endpoint d)"
    "okind desired = KUnstructured g"
  shows "step_gives api L endpoint req d (reconcileDatabaseUnstructured L d desired) (delivered L desired)"
proof (rule step_does [OF does_reconcileUnstructured [OF assms(1-3,5)]])
  show "id_of desired \<in> id_of ` set (kept_objects L endpoint d)" "olabels desired = DatabaseLabels d"
    using assms(4) kept_labels by auto
qed (auto intro!: delivered_in)

lemma lasting_facts [simp]: "lasting (delivered L obj)" "lasting (\<lambda>_. True)"
  unfolding lasting_def by auto

lemma step_delete:
  assumes "faithful_api api" "id_of obj \<in> id_of ` set (dropped_objects L endpoint d)"
  shows "step_gives api L endpoint req d (deleteDatabaseObject obj) (\<lambda>_. True)"
proof (rule step_does)
  have get: "does api (\<lambda>c r. \<forall>tr. db_writes L endpoint d tr c) (\<lambda>r evs. \<forall>cur. r = Inr cur \<longrightarrow> okey cur = okey obj)
      (client_get (okind obj) (okey obj))"
    by (rule does_client) (auto simp: object_of_Inr db_writes_def dest: faithful_apiD(1) [OF assms(1)])
  show "does api (\<lambda>c r. \<forall>tr. db_writes L endpoint d tr c) (\<lambda>_ _. True) (deleteDatabaseObject obj)"
    unfolding deleteDatabaseObject_def
    by (rule does_bind [OF get])
      (use assms(2) in \<open>auto intro!: calls_case_sum calls_bind calls_client simp: db_writes_def id_of_def [symmetric]\<close>)
qed simp

lemma step_delete_controlled:
  assumes "faithful_api api" "id_of obj \<in> id_of ` set (LegacyDatabaseMonitoringResources d)"
  shows "step_gives api L endpoint req d (deleteDatabaseObjectIfControlledBy d obj) (\<lambda>_. True)"
  unfolding step_gives_def
proof (intro allI impI)
  fix t
  assume a: "db_admitted L req d t"
  have del: "keeps api (db_guard L endpoint req) t' (\<lambda>_ _. True)
      (do { err \<leftarrow> client_delete (okind obj) (okey cur); ret (deleted err) })"
    if "db_admitted L req d t'" "(Get (okind obj) (okey obj), RObj cur) \<in> set t'" "okey cur = okey obj"
      "ocontroller cur = Some (ouid d)" for t' cur
  proof (rule keeps_bind [OF keeps_client(3)])
    show "db_guard L endpoint req (t' @ e) (Delete (okind obj) (okey cur))" for e
      using that assms(2)
      by (intro writes_guard [OF db_admitted_append [OF that(1)]]) (auto simp: db_writes_def id_of_def)
  qed (auto intro!: keeps_ret)
  show "keeps api (db_guard L endpoint req) t (\<lambda>r t'. \<forall>b. r = Inr b \<longrightarrow> True) (deleteDatabaseObjectIfControlledBy d obj)"
    unfolding deleteDatabaseObjectIfControlledBy_def
    by (rule keeps_bind [OF keeps_client(1) [where S = "\<lambda>r t'. db_admitted L req d t' \<and> (\<forall>cur. r = Inr cur \<longrightarrow>
        (Get (okind obj) (okey obj), RObj cur) \<in> set t' \<and> okey cur = okey obj)"]])
      (use a in \<open>auto intro!: keeps_case_sum keeps_if keeps_ret del simp: object_of_Inr dest: faithful_apiD(1) [OF assms(1)]\<close>)
qed

subsection \<open>The lists of steps\<close>

lemma list_all2_map: "list_all2 R (map f xs) (map g xs) \<longleftrightarrow> list_all (\<lambda>x. R (f x) (g x)) xs"
  by (induction xs) simp_all

lemma credential_carries: "carries L (DatabaseBackupCredential d blank_secret) w"
  by (simp add: carries_def DatabaseBackupCredential_def)

lemma step_credential:
  assumes "faithful_api api" "controller_ref_ok L" "bk_enabled (db_bk (dspec d))"
  shows "step_gives api L endpoint req d (reconcileDatabaseObject L d (DatabaseBackupCredential d source)
      (\<lambda>_. kbody (DatabaseBackupCredential d source))) (delivered L (DatabaseBackupCredential d blank_secret))"
proof (rule step_does [OF does_reconcileObject [OF assms(1,2)]])
  have i: "id_of (DatabaseBackupCredential d source) = id_of (DatabaseBackupCredential d blank_secret)"
    by (simp add: DatabaseBackupCredential_def id_of_def)
  then show "id_of (DatabaseBackupCredential d source) \<in> id_of ` set (kept_objects L endpoint d)"
    using assms(3) by (simp add: kept_objects_def backup_objects_def)
  show "olabels (DatabaseBackupCredential d source) = DatabaseLabels d"
    by (simp add: DatabaseBackupCredential_def db_object_meta_def)
  fix b :: bool and evs t
  assume "\<forall>b'. (Inr b :: go_error + bool) = Inr b' \<longrightarrow> (\<exists>w op res. (UpsertWrite w, RWritten op res) \<in> set evs
      \<and> id_of w = id_of (DatabaseBackupCredential d source) \<and> kbody w = kbody (DatabaseBackupCredential d source))"
  then show "delivered L (DatabaseBackupCredential d blank_secret) (t @ evs)"
    using i by (auto intro!: delivered_in credential_carries)
qed

lemma kept_kinds:
  "okind (DatabaseObjectStore d endpoint) = KUnstructured BarmanObjectStoreGVK"
  "okind (DatabaseScheduledBackup d) = KUnstructured CNPGScheduledGVK"
  "okind (DatabaseCluster d) = KUnstructured CNPGClusterGVK"
  "okind (DatabaseServiceMonitor d) = KUnstructured DatabaseServiceMonitorGVK"
  "okind (DatabasePrometheusRule L d) = KUnstructured DatabasePrometheusRuleGVK"
  "p \<in> set (DatabaseNetworkPolicies d cidr) \<Longrightarrow> okind p = KNetworkPolicy"
  by (auto simp: DatabaseObjectStore_def DatabaseScheduledBackup_def DatabaseCluster_def DatabaseServiceMonitor_def
      DatabasePrometheusRule_def Let_def DatabaseNetworkPolicies_def DatabaseBackupNetworkPolicy_def db_policy_def
      split: if_splits)

lemma backup_write_facts:
  assumes "faithful_api api" "controller_ref_ok L" "nested_ok L" "bk_enabled (db_bk (dspec d))"
  shows "list_all2 (step_gives api L endpoint req d) (backup_write_steps L endpoint d source)
    (map (delivered L) (backup_objects L endpoint d))"
proof -
  have "step_gives api L endpoint req d (reconcileDatabaseUnstructured L d (DatabaseObjectStore d endpoint))
      (delivered L (DatabaseObjectStore d endpoint))"
    by (rule step_unstructured [OF assms(1-3) _ kept_kinds(1)])
      (use assms(4) in \<open>simp add: kept_objects_def backup_objects_def\<close>)
  moreover have "step_gives api L endpoint req d (reconcileDatabaseUnstructured L d (DatabaseScheduledBackup d))
      (delivered L (DatabaseScheduledBackup d))"
    by (rule step_unstructured [OF assms(1-3) _ kept_kinds(2)])
      (use assms(4) in \<open>simp add: kept_objects_def backup_objects_def\<close>)
  ultimately show ?thesis
    using step_credential [OF assms(1,2,4)] by (simp add: backup_write_steps_def backup_objects_def Let_def)
qed

lemma backup_removal_facts:
  assumes "faithful_api api" "\<not> bk_enabled (db_bk (dspec d))"
  shows "list_all2 (step_gives api L endpoint req d) (backup_removal_steps L endpoint d)
    (map (\<lambda>_ _. True) (dropped_objects L endpoint d))"
proof -
  have "list_all2 (step_gives api L endpoint req d) (map deleteDatabaseObject (dropped_objects L endpoint d))
    (map (\<lambda>_ _. True) (dropped_objects L endpoint d))"
    unfolding list_all2_map list_all_iff using step_delete [OF assms(1)] by blast
  then show ?thesis using assms(2) by (simp add: backup_removal_steps_def dropped_objects_def backup_objects_def)
qed

definition cluster_objects :: "lib \<Rightarrow> string \<Rightarrow> database \<Rightarrow> kobject list" where
  "cluster_objects L endpoint d = DatabaseCluster d # DatabaseNetworkPolicies d (endpointCIDR L endpoint)
     @ [DatabaseServiceMonitor d, DatabasePrometheusRule L d]"

lemma cluster_facts:
  assumes "faithful_api api" "controller_ref_ok L" "nested_ok L"
  shows "list_all2 (step_gives api L endpoint req d) (cluster_steps L endpoint d)
    (map (delivered L) (cluster_objects L endpoint d) @ map (\<lambda>_ _. True) (LegacyDatabaseMonitoringResources d))"
proof -
  have kept: "set (cluster_objects L endpoint d) \<subseteq> set (kept_objects L endpoint d)"
    by (auto simp: cluster_objects_def kept_objects_def)
  have u: "step_gives api L endpoint req d (reconcileDatabaseUnstructured L d obj) (delivered L obj)"
    if "obj \<in> set (cluster_objects L endpoint d)" "okind obj = KUnstructured g" for obj g
    using step_unstructured [OF assms _ that(2)] that(1) kept by blast
  have p: "list_all2 (step_gives api L endpoint req d)
      (map (\<lambda>p. reconcileDatabaseObject L d p (\<lambda>_. kbody p)) (DatabaseNetworkPolicies d (endpointCIDR L endpoint)))
      (map (delivered L) (DatabaseNetworkPolicies d (endpointCIDR L endpoint)))"
    unfolding list_all2_map list_all_iff
  proof
    fix p
    assume p: "p \<in> set (DatabaseNetworkPolicies d (endpointCIDR L endpoint))"
    then have "p \<in> set (kept_objects L endpoint d)" by (simp add: kept_objects_def)
    then show "step_gives api L endpoint req d (reconcileDatabaseObject L d p (\<lambda>_. kbody p)) (delivered L p)"
      by (rule step_object [OF assms(1,2)]) (simp add: kept_kinds(6) [OF p])
  qed
  have l: "list_all2 (step_gives api L endpoint req d)
      (map (deleteDatabaseObjectIfControlledBy d) (LegacyDatabaseMonitoringResources d))
      (map (\<lambda>_ _. True) (LegacyDatabaseMonitoringResources d))"
    unfolding list_all2_map list_all_iff using step_delete_controlled [OF assms(1)] by blast
  have m: "list_all2 (step_gives api L endpoint req d)
      (map (reconcileDatabaseUnstructured L d) [DatabaseServiceMonitor d, DatabasePrometheusRule L d])
      (map (delivered L) [DatabaseServiceMonitor d, DatabasePrometheusRule L d])"
    unfolding list_all2_map using u kept_kinds(4,5) by (simp add: cluster_objects_def)
  have c: "step_gives api L endpoint req d (reconcileDatabaseUnstructured L d (DatabaseCluster d)) (delivered L (DatabaseCluster d))"
    by (rule u [OF _ kept_kinds(3)]) (simp add: cluster_objects_def)
  show ?thesis
    unfolding cluster_steps_def cluster_objects_def map_append list.map append_Cons
    using list_all2_appendI [OF p list_all2_appendI [OF m l]] c by simp
qed

subsection \<open>The observation at the end\<close>

lemma keeps_db_observe:
  assumes "db_admitted L req d tr"
  shows "keeps api (db_guard L endpoint req) tr (\<lambda>r t. \<forall>b. r = Inr b \<longrightarrow> b = no_backups
      \<or> (\<exists>items. (ListObjects (KUnstructured CNPGBackupGVK) (Some (onamespace d)) Map.empty, RItems items) \<in> set t
          \<and> b = backup_loop L (DatabaseClusterName d) zero_time no_backups items)) (observeDatabaseBackups L d)"
  unfolding observeDatabaseBackups_def
  by (rule keeps_bind [OF keeps_client(2) [where S = "\<lambda>r t. \<forall>items. r = Inr items \<longrightarrow>
      (ListObjects (KUnstructured CNPGBackupGVK) (Some (onamespace d)) Map.empty, RItems items) \<in> set t"]])
    (auto intro!: keeps_case_sum keeps_if keeps_ret dest: items_of_Inr)

lemma keeps_status_step:
  assumes "conditions_ok L" "db_admitted L req d tr" "list_all (\<lambda>P. P tr) (map (delivered L) (kept_objects L endpoint d))"
  shows "keeps api (db_guard L endpoint req) tr (\<lambda>_ _. True) (database_status_step L n d mutated)"
proof -
  have key: "okey d = req" using assms(2) by (simp add: db_admitted_def database_read_def)
  let ?seen = "\<lambda>t cluster. db_admitted L req d t \<and> (\<forall>obj \<in> set (kept_objects L endpoint d). delivered L obj t)
      \<and> (Get (KUnstructured CNPGClusterGVK) (okey (DatabaseCluster d)), RObj cluster) \<in> set t"
  let ?counted = "\<lambda>t b. b = no_backups
      \<or> (\<exists>items. (ListObjects (KUnstructured CNPGBackupGVK) (Some (onamespace d)) Map.empty, RItems items) \<in> set t
          \<and> b = backup_loop L (DatabaseClusterName d) zero_time no_backups items)"
  have evidence: "db_evidence L endpoint d t" if "?seen t cluster" "?counted t b"
      "database_reported L (databaseStatusFromCluster L d cluster b)" for t cluster b
  proof -
    have "cluster_ready L cluster" "backups_good d b"
      using that(3) cluster_status_reads(1) [OF assms(1)] by blast+
    then show ?thesis using that(1,2) unfolding db_evidence_def by (auto simp: backups_good_def no_backups_def)
  qed
  have gauges: "keeps api (db_guard L endpoint req) t (\<lambda>_ _. True) (updateDatabaseBackupMetrics L d status)" for t status
    unfolding updateDatabaseBackupMetrics_def
    by (rule keeps_bind [OF keeps_gauges(1) [OF key]]) (auto intro!: keeps_case_option keeps_ret keeps_gauges(1) [OF key])
  have report: "keeps api (db_guard L endpoint req) t (\<lambda>_ _. True) (do {
             _ \<leftarrow> updateDatabaseBackupMetrics L d status;
             (statusChanged, err) \<leftarrow> patchDatabaseStatus L n d status;
             if err \<noteq> None then ret (0, err)
             else do {
               _ \<leftarrow> (if mutated \<or> statusChanged then eventDatabase d EventTypeNormal ''Reconciled''
                       ''Database, backup, monitoring, and network resources were reconciled''
                     else ret ());
               ret (0, None) } })"
    if "database_reported L status \<Longrightarrow> db_admitted L req d t \<and> db_evidence L endpoint d t" for t status
    by (rule keeps_bind [OF gauges], rule keeps_bind [OF keeps_db_patch [OF assms(1)]])
      (use that in \<open>auto intro!: keeps_case_prod keeps_if keeps_bind [OF keeps_if [OF keeps_gauges(3) [OF key] keeps_ret]]
         keeps_ret\<close>)
  show ?thesis
    unfolding database_status_step_def Let_def
  proof (rule keeps_bind [OF keeps_client(1) [where S = "\<lambda>r t. \<forall>cluster. r = Inr cluster \<longrightarrow> ?seen t cluster"]],
      goal_cases)
    case (2 h)
    then show ?case using assms(2,3) by (auto simp: object_of_Inr list_all_iff)
  next
    case (3 g e)
    show ?case
    proof (rule keeps_case_sum [OF keeps_db_failure(1) [OF assms(1)]])
      fix cluster assume "g = Inr cluster"
      with 3 have s: "?seen (tr @ e) cluster" by blast
      then have a: "db_admitted L req d (tr @ e)" by blast
      show "keeps api (db_guard L endpoint req) (tr @ e) (\<lambda>_ _. True) (do {
         b \<leftarrow> observeDatabaseBackups L d;
         case b of
           Inl e \<Rightarrow> databaseReconcileFailure L n d e
         | Inr backupState \<Rightarrow> do {
             _ \<leftarrow> updateDatabaseBackupMetrics L d (databaseStatusFromCluster L d cluster backupState);
             (statusChanged, err) \<leftarrow> patchDatabaseStatus L n d (databaseStatusFromCluster L d cluster backupState);
             if err \<noteq> None then ret (0, err)
             else do {
               _ \<leftarrow> (if mutated \<or> statusChanged then eventDatabase d EventTypeNormal ''Reconciled''
                       ''Database, backup, monitoring, and network resources were reconciled''
                     else ret ());
               ret (0, None) } } })"
      proof (rule keeps_bind [OF keeps_db_observe [OF a]], rule keeps_case_sum [OF keeps_db_failure(1) [OF assms(1)]],
          rule report, goal_cases)
        case (1 b e' bs)
        then have "?counted ((tr @ e) @ e') bs" by blast
        moreover have "?seen ((tr @ e) @ e') cluster" using s by (auto simp del: append_assoc)
        ultimately show ?case using evidence 1 by blast
      qed
    qed
  qed simp
qed

subsection \<open>From admission on\<close>

definition database_cluster_ok :: "lib \<Rightarrow> ((call \<times> resp) list \<Rightarrow> call \<Rightarrow> resp) \<Rightarrow> bool" where
  \<comment> \<open>The parts of the model's library and of the API that the theorems rely on.\<close>
  "database_cluster_ok L api \<longleftrightarrow> conditions_ok L \<and> controller_ref_ok L \<and> nested_ok L \<and> faithful_api api"

lemma keeps_cluster:
  assumes "database_cluster_ok L api" "db_admitted L req d tr"
    "bk_enabled (db_bk (dspec d)) \<Longrightarrow> list_all (\<lambda>P. P tr) (map (delivered L) (backup_objects L endpoint d))"
  shows "keeps api (db_guard L endpoint req) tr (\<lambda>_ _. True)
    (database_steps L n d (cluster_steps L endpoint d) mutated (database_status_step L n d))"
proof -
  have c: "conditions_ok L" "controller_ref_ok L" "nested_ok L" "faithful_api api"
    using assms(1) by (simp_all add: database_cluster_ok_def)
  show ?thesis
  proof (rule keeps_steps [OF c(1) cluster_facts [OF c(4,2,3)] _ assms(2)])
    fix e m
    assume a: "db_admitted L req d (tr @ e)" and f: "list_all (\<lambda>P. P (tr @ e))
      (map (delivered L) (cluster_objects L endpoint d) @ map (\<lambda>_ _. True) (LegacyDatabaseMonitoringResources d))"
    have "list_all (\<lambda>P. P (tr @ e)) (map (delivered L) (kept_objects L endpoint d))"
      using assms(3) f by (auto simp: kept_objects_def cluster_objects_def list_all_iff)
    then show "keeps api (db_guard L endpoint req) (tr @ e) (\<lambda>_ _. True) (database_status_step L n d m)"
      by (rule keeps_status_step [OF c(1) a])
  qed (auto simp: list_all_iff)
qed

lemma keeps_database:
  assumes "database_cluster_ok L api" "db_admitted L req d tr"
  shows "keeps api (db_guard L endpoint req) tr (\<lambda>_ _. True) (reconcile_database L endpoint n d)"
proof -
  have c: "conditions_ok L" "controller_ref_ok L" "nested_ok L" "faithful_api api"
    using assms(1) by (simp_all add: database_cluster_ok_def)
  have failed: "keeps api (db_guard L endpoint req) t (\<lambda>_ _. True) (patchDatabaseStatus L n d (databaseFailureStatus L d reason message))"
    for t reason message by (rule keeps_db_patch [OF c(1)]) (simp add: not_reported(1) [OF c(1)])
  show ?thesis
  proof (cases "bk_enabled (db_bk (dspec d))")
    case True
    have backups: "keeps api (db_guard L endpoint req) t (\<lambda>_ _. True)
        (database_steps L n d (backup_write_steps L endpoint d source) False
          (\<lambda>mutated. database_steps L n d (cluster_steps L endpoint d) mutated (database_status_step L n d)))"
      if "db_admitted L req d t" for t source
      by (rule keeps_steps [OF c(1) backup_write_facts [OF c(4,2,3) True] _ that])
        (auto intro!: keeps_cluster [OF assms(1)] simp: list_all_iff)
    show ?thesis
      unfolding reconcile_database_def Let_def if_P [OF True]
      by (rule keeps_bind [OF keeps_client(1) [where S = "\<lambda>_ t. db_admitted L req d t"]])
        (use assms(2) in \<open>auto intro!: keeps_case_sum keeps_if keeps_db_failure(2) [OF c(1)] backups
          keeps_bind [OF failed] keeps_case_prod keeps_ret\<close>)
  next
    case False
    show ?thesis
      unfolding reconcile_database_def Let_def if_not_P [OF False]
      by (rule keeps_steps [OF c(1) backup_removal_facts [OF c(4) False] _ assms(2)])
        (use False in \<open>auto intro!: keeps_cluster [OF assms(1)] simp: list_all_iff\<close>)
  qed
qed

subsection \<open>Deletion\<close>

lemma with_finalizers_reads:
  "okind (database_object d) = KDatabase" "okey (database_object d) = okey d"
  "okind (with_finalizers d fs) = KDatabase" "okey (with_finalizers d fs) = okey d"
  by (simp_all add: with_finalizers_def database_object_def okey_def objmeta.defs)

lemma okey_finalizers [simp]: "okey (d\<lparr>ofinalizers := fs\<rparr>) = okey d"
  by (simp add: okey_def)

lemma object_database_key: "object_database obj = Some d \<Longrightarrow> okey d = okey obj"
  by (auto simp: object_database_def okey_def objmeta.defs split: body.splits)

lemma keeps_release:
  assumes "faithful_api api" "may_destroy L req d tr"
  shows "keeps api (db_guard L endpoint req) tr (\<lambda>_ _. True) (release_database L d)"
proof -
  let ?K = "KUnstructured CNPGClusterGVK" and ?key = "okey (DatabaseCluster d)"
  have key: "okey d = req" using assms(2) by (simp add: may_destroy_def database_read_def)
  have del: "keeps api (db_guard L endpoint req) tr (\<lambda>err t. may_destroy L req d t
      \<and> ((\<forall>e. err = Some e \<longrightarrow> err_reason e = NotFound) \<longrightarrow> cluster_gone d t)) (client_delete ?K ?key)"
    by (rule keeps_client(3))
      (use assms(2) in \<open>auto intro!: destroys_guard simp: db_destroys_def id_of_def kept_kinds cluster_gone_def\<close>)
  let ?a = "database_object d" and ?b = "database_object (d\<lparr>ofinalizers := remove_finalizer L (ofinalizers d) DatabaseFinalizer\<rparr>)"
  have patch: "keeps api (db_guard L endpoint req) t (\<lambda>r t. \<forall>p. decoded object_database r = Inr p \<longrightarrow> okey p = req)
      (client_patch ?a ?b)" if "may_destroy L req d t" "cluster_gone d t" for t
  proof (rule keeps_client(4))
    show "db_guard L endpoint req (t @ e) (Patch ?a ?b)" for e
      using that by (intro destroys_guard) (auto simp: db_destroys_def with_finalizers_def)
    show "\<forall>p. decoded object_database (object_of (okind ?b) (api h (Patch ?a ?b))) = Inr p \<longrightarrow> okey p = req" for h
      using key faithful_apiD(4) [OF assms(1)]
      by (auto simp: decoded_def object_of_Inr with_finalizers_reads [unfolded with_finalizers_def]
          dest!: object_database_key split: sum.splits option.splits)
  qed
  show ?thesis
    unfolding release_database_def Let_def
    by (rule keeps_bind [OF del])
      (auto intro!: keeps_if keeps_ret keeps_bind [OF patch] keeps_case_sum keeps_case_prod
        keeps_bind [OF keeps_gauges(2)] keeps_bind [OF keeps_gauges(3) [OF refl]])
qed

lemma keeps_delete_backup:
  assumes "faithful_api api" "may_destroy L req d tr" "final_backup_wanted d \<or> force_deleted d"
  shows "keeps api (db_guard L endpoint req) tr (\<lambda>_ _. True) (delete_final_backup L d)"
proof -
  have id: "final_backup_id d = (KUnstructured CNPGBackupGVK, okey (DatabaseFinalBackup d))"
    by (simp add: final_backup_id_def id_of_def DatabaseFinalBackup_def)
  have del: "keeps api (db_guard L endpoint req) tr (\<lambda>_ t. may_destroy L req d t)
      (client_delete (KUnstructured CNPGBackupGVK) (okey (DatabaseFinalBackup d)))"
    by (rule keeps_client(3))
      (use assms(2,3) id in \<open>auto intro!: destroys_guard simp: db_destroys_def\<close>)
  show ?thesis
    unfolding delete_final_backup_def
    by (rule keeps_bind [OF del]) (auto intro!: keeps_if keeps_ret keeps_release [OF assms(1)])
qed

lemma keeps_deletion:
  assumes "database_cluster_ok L api" "database_read req d tr" "odeleting d"
  shows "keeps api (db_guard L endpoint req) tr (\<lambda>_ _. True) (reconcileDatabaseDeletion L n d)"
proof -
  have c: "conditions_ok L" "nested_ok L" "faithful_api api"
    using assms(1) by (simp_all add: database_cluster_ok_def)
  have deleting: "keeps api (db_guard L endpoint req) t (\<lambda>_ _. True) (patchDatabaseStatus L n d (databaseDeletingStatus L d ready message))"
    for t ready message by (rule keeps_db_patch [OF c(1)]) (simp add: not_reported(2) [OF c(1)])
  let ?final = "okey (DatabaseFinalBackup d)"
  have await: "keeps api (db_guard L endpoint req) t (\<lambda>_ _. True) (await_final_backup L n d)"
    if "database_read req d t" "contains_finalizer L (ofinalizers d) DatabaseFinalizer" "final_backup_wanted d" for t
  proof -
    have destroy: "may_destroy L req d u" if "database_read req d u" "(Get (KUnstructured CNPGBackupGVK) ?final, RObj b) \<in> set u"
        "equal_fold (backup_phase L b) ''completed''" for u b
      using that assms(3) \<open>contains_finalizer L (ofinalizers d) DatabaseFinalizer\<close>
      by (auto simp: may_destroy_def final_backup_taken_def backup_completed_def)
    show ?thesis
      unfolding await_final_backup_def Let_def
      by (rule keeps_bind [OF keeps_client(1) [where S = "\<lambda>r t. database_read req d t \<and> (\<forall>b. r = Inr b \<longrightarrow>
          (Get (KUnstructured CNPGBackupGVK) ?final, RObj b) \<in> set t)"]])
        (use that(1,3) in \<open>auto intro!: keeps_case_sum keeps_if keeps_ret keeps_bind [OF deleting]
          keeps_delete_backup [OF c(3)] destroy simp: object_of_Inr\<close>)
  qed
  show ?thesis
    unfolding reconcileDatabaseDeletion_def
  proof (rule keeps_if [OF keeps_ret]; (rule keeps_if)?)
    assume f: "\<not> \<not> contains_finalizer L (ofinalizers d) DatabaseFinalizer"
      "bk_enabled (db_bk (dspec d)) \<and> \<not> force_deleted d"
    then have w: "final_backup_wanted d" by (simp add: final_backup_wanted_def)
    have "keeps api (db_guard L endpoint req) tr (\<lambda>_ t. database_read req d t)
        (reconcileDatabaseFinalBackup L (DatabaseFinalBackup d))"
      by (rule keeps_does [OF does_finalBackup [OF c(3,2) assms(2,3) w]]) (use assms(2) in auto)
    then show "keeps api (db_guard L endpoint req) tr (\<lambda>_ _. True) (do {
        r \<leftarrow> reconcileDatabaseFinalBackup L (DatabaseFinalBackup d);
        case r of
          Inl e \<Rightarrow> do {
            _ \<leftarrow> patchDatabaseStatus L n d (databaseDeletingStatus L d False (err_text e));
            ret (0, Some e) }
        | Inr _ \<Rightarrow> await_final_backup L n d })"
      by (rule keeps_bind) (use f w in \<open>auto intro!: keeps_case_sum keeps_bind [OF deleting] keeps_ret await\<close>)
  next
    assume f: "\<not> \<not> contains_finalizer L (ofinalizers d) DatabaseFinalizer"
      "\<not> (bk_enabled (db_bk (dspec d)) \<and> \<not> force_deleted d)"
    then have "may_destroy L req d tr"
      using assms(2,3) by (auto simp: may_destroy_def final_backup_wanted_def)
    then show "keeps api (db_guard L endpoint req) tr (\<lambda>_ _. True)
        (if force_deleted d then delete_final_backup L d else release_database L d)"
      by (intro keeps_if keeps_delete_backup [OF c(3)] keeps_release [OF c(3)]) auto
  qed simp
qed

subsection \<open>The pass\<close>

lemma does_db_tenancy:
  "does api (\<lambda>c r. \<exists>k key. c = Get k key) (\<lambda>r evs. r = None \<longrightarrow> in_team_namespace d evs) (validateDatabaseTenancy d)"
  unfolding validateDatabaseTenancy_def
  by (rule does_bind [OF does_client(1) [where R = "\<lambda>r evs. \<forall>ns. r = Inr ns \<longrightarrow>
      evs = [(Get KNamespace ([], onamespace d), RObj ns)]"]])
    (auto intro!: does_ret simp: object_of_Inr in_team_namespace_def split: sum.split)

lemma database_read_by:
  "(Get KDatabase req, RObj obj) \<in> set tr \<Longrightarrow> okey obj = req \<Longrightarrow> object_database obj = Some d \<Longrightarrow> database_read req d tr"
  "(Patch a b, RObj obj) \<in> set tr \<Longrightarrow> okind a = KDatabase \<Longrightarrow> okey a = req \<Longrightarrow> okey obj = req \<Longrightarrow>
    object_database obj = Some d \<Longrightarrow> database_read req d tr"
  unfolding database_read_def
  by (blast dest: object_database_key, intro conjI exI [of _ "Patch a b"] exI [of _ obj])
    (auto dest: object_database_key)

lemma keeps_add_finalizer:
  assumes "faithful_api api" "database_read req d tr" "\<not> odeleting d"
  shows "keeps api (db_guard L endpoint req) tr (\<lambda>r t. \<forall>u. r = Inr u \<longrightarrow> database_read req u t)
    (ensure_database_finalizer L d)"
proof -
  let ?a = "database_object d" and ?b = "database_object (d\<lparr>ofinalizers := add_finalizer L (ofinalizers d) DatabaseFinalizer\<rparr>)"
  have key: "okey d = req" using assms(2) by (simp add: database_read_def)
  have patch: "keeps api (db_guard L endpoint req) tr (\<lambda>r t. \<forall>u. decoded object_database r = Inr u \<longrightarrow> database_read req u t)
      (client_patch ?a ?b)"
  proof (rule keeps_client(4))
    show "db_guard L endpoint req (tr @ e) (Patch ?a ?b)" for e
      using assms(2,3) by (auto simp: db_guard_def with_finalizers_def)
    show "\<forall>u. decoded object_database (object_of (okind ?b) (api h (Patch ?a ?b))) = Inr u \<longrightarrow>
        database_read req u (tr @ [(Patch ?a ?b, api h (Patch ?a ?b))])" for h
    proof (intro allI impI)
      fix u assume "decoded object_database (object_of (okind ?b) (api h (Patch ?a ?b))) = Inr u"
      then obtain obj where o: "api h (Patch ?a ?b) = RObj obj" "object_database obj = Some u"
        by (auto simp: decoded_def object_of_Inr split: sum.splits option.splits)
      have "okey obj = req" using faithful_apiD(4) [OF assms(1) o(1)] key by (simp add: with_finalizers_reads)
      then show "database_read req u (tr @ [(Patch ?a ?b, api h (Patch ?a ?b))])"
        using o key by (intro database_read_by(2) [of ?a ?b obj]) (simp_all add: with_finalizers_reads)
    qed
  qed
  show ?thesis
    unfolding ensure_database_finalizer_def
    by (intro keeps_if keeps_bind [OF patch]) (use assms(2) in \<open>auto intro!: keeps_ret\<close>)
qed

lemma Database_keeps:
  assumes "database_cluster_ok L api"
  shows "keeps api (db_guard L endpoint req) [] (\<lambda>_ _. True) (Database_Reconcile L endpoint n req)"
proof -
  have c: "conditions_ok L" "faithful_api api" using assms by (simp_all add: database_cluster_ok_def)
  have tenant: "keeps api (db_guard L endpoint req) t (\<lambda>_ _. True) (do {
         t \<leftarrow> validateDatabaseTenancy d;
         case t of
           Some e \<Rightarrow> report_failure L n d ''TenancyRejected'' (err_text e)
         | None \<Rightarrow> reconcile_database L endpoint n d })"
    if "database_read req d t" "db_well_formed L d" for t d
    by (rule keeps_bind [OF keeps_does [OF does_db_tenancy, where S = "\<lambda>r t. r = None \<longrightarrow> db_admitted L req d t"]])
      (use that in \<open>auto intro!: keeps_case_option keeps_db_failure(2) [OF c(1)] keeps_database [OF assms]
        simp: db_admitted_def in_team_namespace_def\<close>)
  have valid: "keeps api (db_guard L endpoint req) t (\<lambda>_ _. True)
      (case Db_Validate L d of
         Some err \<Rightarrow> report_failure L n d ''InvalidConfiguration'' (db_error_text err)
       | None \<Rightarrow> do {
         t \<leftarrow> validateDatabaseTenancy d;
         case t of
           Some e \<Rightarrow> report_failure L n d ''TenancyRejected'' (err_text e)
         | None \<Rightarrow> reconcile_database L endpoint n d })"
    if "database_read req d t" for t d
    using that Db_Validate_None [of L d]
    by (auto intro!: keeps_db_failure(2) [OF c(1)] tenant split: option.split)
  have live: "keeps api (db_guard L endpoint req) t (\<lambda>_ _. True) (do {
           f \<leftarrow> ensure_database_finalizer L d;
           case f of
             Inl e \<Rightarrow> ret (0, Some e)
           | Inr d \<Rightarrow>
               (case Db_Validate L d of
                  Some err \<Rightarrow> report_failure L n d ''InvalidConfiguration'' (db_error_text err)
                | None \<Rightarrow> do {
                    t \<leftarrow> validateDatabaseTenancy d;
                    case t of
                      Some e \<Rightarrow> report_failure L n d ''TenancyRejected'' (err_text e)
                    | None \<Rightarrow> reconcile_database L endpoint n d }) })"
    if "database_read req d t" "\<not> odeleting d" for t d
    by (rule keeps_bind [OF keeps_add_finalizer [OF c(2) that]]) (auto intro!: keeps_case_sum keeps_ret valid)
  have "keeps api (db_guard L endpoint req) [] (\<lambda>r t. \<forall>d. decoded object_database r = Inr d \<longrightarrow> database_read req d t)
      (client_get KDatabase req)"
    by (rule keeps_client(1)) (auto simp: decoded_def object_of_Inr faithful_apiD(1) [OF c(2)]
        split: sum.splits option.splits intro!: database_read_by(1))
  then show ?thesis
    unfolding Database_Reconcile_def
    by (rule keeps_bind) (auto intro!: keeps_case_sum keeps_ret keeps_if keeps_deletion [OF assms] live)
qed

lemma database_guarded:
  assumes "database_cluster_ok L api"
  shows "guarded (db_guard L endpoint req) (snd (run api (Database_Reconcile L endpoint n req)))"
  by (rule keeps_run [OF Database_keeps [OF assms]])

subsection \<open>A concrete cluster\<close>


definition leaving_db :: database where
  "leaving_db = orders_db\<lparr>ofinalizers := [DatabaseFinalizer], odeleting := True\<rparr>"

definition demo_database_api :: "database \<Rightarrow> (call \<times> resp) list \<Rightarrow> call \<Rightarrow> resp" where
  \<comment> \<open>A Team namespace with this Database, its ready Cluster and a completed Backup.\<close>
  "demo_database_api d tr c = (case c of
     Get k n \<Rightarrow>
       if k = KDatabase \<and> n = okey d then RObj (database_object d)
       else if k = KNamespace \<and> n = ([], ''team-shop'') then RObj (with_body ((new_meta [] ''team-shop'')\<lparr>olabels :=
         [TeamLabelKey \<mapsto> ''shop'', ''app.kubernetes.io/managed-by'' \<mapsto> ManagedBy]\<rparr>) BNamespace)
       else if k = KUnstructured CNPGClusterGVK then RObj (with_body (new_meta (fst n) (snd n)) (kbody orders_cluster))
       else if k = KUnstructured CNPGBackupGVK
         then RObj (with_body (new_meta (fst n) (snd n)) (kbody (orders_backup ''x'' ''completed'' ''100'')))
       else RErr \<lparr>err_reason = NotFound, err_text = ''not found''\<rparr>
   | ListObjects k _ _ \<Rightarrow> RItems []
   | UpsertRead obj \<Rightarrow> RObj obj
   | UpsertWrite w \<Rightarrow> RWritten OpUpdated w
   | StatusPatch _ b \<Rightarrow> RObj b
   | Patch _ b \<Rightarrow> RObj b
   | _ \<Rightarrow> ROk)"

lemma demo_database_ok: "database_cluster_ok demo_lib (demo_database_api d)"
proof -
  have "okey (database_object d) = okey d"
    by (simp add: database_object_def okey_def objmeta.defs)
  then have "faithful_api (demo_database_api d)"
    by (auto simp: faithful_api_def honest_api_def demo_database_api_def okey_def new_meta_def split: if_splits)
  then show ?thesis by (simp add: database_cluster_ok_def)
qed

definition has_calls :: "(call \<Rightarrow> bool) \<Rightarrow> trace \<Rightarrow> bool" where
  "has_calls P tr \<longleftrightarrow> list_ex (\<lambda>(c, r). P c) tr"

definition deletes_cluster :: "call \<Rightarrow> bool" where
  "deletes_cluster c \<longleftrightarrow> (case c of Delete k key \<Rightarrow> k = KUnstructured CNPGClusterGVK | _ \<Rightarrow> False)"

definition writes_backup :: "call \<Rightarrow> bool" where
  "writes_backup c \<longleftrightarrow> (case c of UpsertWrite w \<Rightarrow> okind w = KUnstructured CNPGBackupGVK | _ \<Rightarrow> False)"

definition demo_pass :: "database \<Rightarrow> trace" where
  "demo_pass d = snd (run (demo_database_api d) (Database_Reconcile demo_lib [] 1 (okey d)))"

lemma demo_leaving: "has_calls deletes_cluster (demo_pass leaving_db)" "has_calls writes_backup (demo_pass leaving_db)"
  by code_simp+

subsection \<open>Claims\<close>

definition other_write :: "call \<Rightarrow> bool" where
  \<comment> \<open>The calls that change an object other than a Database.\<close>
  "other_write c \<longleftrightarrow> (case c of
     UpsertRead _ \<Rightarrow> True | UpsertWrite _ \<Rightarrow> True | Delete _ _ \<Rightarrow> True
   | Patch a _ \<Rightarrow> okind a \<noteq> KDatabase | StatusPatch a _ \<Rightarrow> okind a \<noteq> KDatabase | _ \<Rightarrow> False)"

definition database_write_admitted :: "lib \<Rightarrow> string \<Rightarrow> nsname \<Rightarrow> trace \<Rightarrow> call \<Rightarrow> bool" where
  "database_write_admitted L endpoint req pre c \<longleftrightarrow> (other_write c \<longrightarrow>
     (\<exists>d. db_admitted L req d pre \<and> db_writes L endpoint d pre c \<or> db_destroys L req d pre c))"

definition destruction_ordered :: "lib \<Rightarrow> nsname \<Rightarrow> trace \<Rightarrow> call \<Rightarrow> bool" where
  \<comment> \<open>Every deletion of a Cluster and every patch of a Database.\<close>
  "destruction_ordered L req pre c \<longleftrightarrow> (case c of
     Delete k key \<Rightarrow> (k = KUnstructured CNPGClusterGVK \<longrightarrow>
       (\<exists>d. may_destroy L req d pre \<and> key = okey (DatabaseCluster d)))
   | Patch a b \<Rightarrow> (\<exists>d. a = database_object d \<and> database_read req d pre
       \<and> (if odeleting d then may_destroy L req d pre \<and> cluster_gone d pre
             \<and> b = with_finalizers d (remove_finalizer L (ofinalizers d) DatabaseFinalizer)
          else b = with_finalizers d (add_finalizer L (ofinalizers d) DatabaseFinalizer)))
   | _ \<Rightarrow> True)"

definition database_report_supported :: "lib \<Rightarrow> string \<Rightarrow> nsname \<Rightarrow> trace \<Rightarrow> call \<Rightarrow> bool" where
  "database_report_supported L endpoint req pre c \<longleftrightarrow> (\<forall>a b. c = StatusPatch a b \<longrightarrow>
     (\<exists>desired. status_write_ok database_ops desired c)
   \<and> (db_reports_ready L b \<longrightarrow> (\<exists>d. db_admitted L req d pre \<and> db_evidence L endpoint d pre)))"

lemma db_status_kind: "status_write_ok database_ops desired (StatusPatch a b) \<Longrightarrow> okind a = KDatabase"
  by (auto simp: status_write_ok_def database_ops_def object_database_def okind_def split: option.splits body.splits)

lemma no_cluster_dropped:
  "(KUnstructured CNPGClusterGVK, key) \<notin> id_of ` set (dropped_objects L endpoint d)"
  "(KUnstructured CNPGClusterGVK, key) \<notin> id_of ` set (LegacyDatabaseMonitoringResources d)"
  by (auto simp: dropped_objects_def backup_objects_def LegacyDatabaseMonitoringResources_def id_of_def kept_kinds
      DatabaseBackupCredential_def DatabaseBackupNetworkPolicy_def db_policy_def gvk_defs)

lemma db_guard_parts:
  assumes "db_guard L endpoint req pre c"
  shows "database_write_admitted L endpoint req pre c" "destruction_ordered L req pre c"
    "database_report_supported L endpoint req pre c"
proof -
  show "database_write_admitted L endpoint req pre c"
    using assms db_status_kind
    by (cases c) (auto simp: db_guard_def database_write_admitted_def other_write_def with_finalizers_reads)
  show "destruction_ordered L req pre c"
  proof (cases c)
    case (Delete k key)
    then obtain d where "db_admitted L req d pre \<and> db_writes L endpoint d pre c \<or> db_destroys L req d pre c"
      using assms by (auto simp: db_guard_def)
    moreover have "may_destroy L req d pre \<and> key = okey (DatabaseCluster d)"
      if "k = KUnstructured CNPGClusterGVK" "db_destroys L req d pre c"
      using that unfolding Delete db_destroys_def
      by (simp add: id_of_def final_backup_id_def kept_kinds DatabaseFinalBackup_def gvk_defs)
    moreover have "\<not> db_writes L endpoint d pre c" if "k = KUnstructured CNPGClusterGVK"
      using that no_cluster_dropped unfolding Delete by (simp add: db_writes_def)
    ultimately show ?thesis unfolding Delete destruction_ordered_def by auto
  next
    case (Patch a b)
    then obtain d where d: "database_read req d pre" "db_destroys L req d pre c \<or> \<not> odeleting d \<and> a = database_object d
          \<and> b = with_finalizers d (add_finalizer L (ofinalizers d) DatabaseFinalizer)"
      using assms by (auto simp: db_guard_def)
    then show ?thesis
      unfolding Patch destruction_ordered_def call.case
      by (intro exI [of _ d]) (auto simp: db_destroys_def may_destroy_def)
  qed (simp_all add: destruction_ordered_def)
  show "database_report_supported L endpoint req pre c"
    using assms by (auto simp: db_guard_def database_report_supported_def)
qed

text \<open>
  C4: Data is destroyed in a safe order. A pass deletes a Cluster only of a Database that it read as being deleted and still
  holding the finalizer, and, when backups are enabled and the data loss is not accepted by the force-delete
  annotation, only after it read the final Backup of that Database with phase completed. It
  patches the Database itself only to add the finalizer of a live one, or to remove that of a deleted one after
  the deletion of its Cluster was answered without an error other than not-found; nothing else of the Database changes.
\<close>

theorem database_deletion_order:
  assumes "database_cluster_ok L api"
  shows "guarded (destruction_ordered L req) (snd (run api (Database_Reconcile L endpoint n req)))"
  by (rule guarded_mono [OF database_guarded [OF assms]]) (rule db_guard_parts)

theorem database_deletion_order_witness:
  "guarded (destruction_ordered demo_lib (okey leaving_db)) (demo_pass leaving_db)
    \<and> has_calls deletes_cluster (demo_pass leaving_db)"
  using database_deletion_order [OF demo_database_ok] demo_leaving unfolding demo_pass_def by blast





end
