(* ===== verification/Cli_Config.thy ===== *)
theory Cli_Config
  imports Catalog
begin

section \<open>The configuration document of platformctl\<close>

text \<open>
  \<open>internal/platformctl/config.go\<close>: the contexts of the configuration file, their validation, and the lookups by
  name. The contexts are a Go map: a list of entries with distinct names, in the order a \<open>range\<close> visits them. The
  validator returns the first error of that order, so only its absence is independent of the order.
\<close>

record cli_context =
  cx_repository :: string
  cx_defaultBranch :: string
  cx_checkoutPath :: string
  cx_kubeconfig :: string
  cx_kubeContext :: string
  cx_clusterName :: string
  cx_profile :: string
  cx_httpPort :: int
  cx_httpsPort :: int

record config =
  cfg_apiVersion :: string
  cfg_kind :: string
  cfg_currentContext :: string
  cfg_contexts :: "(string \<times> cli_context) list"

definition ConfigAPIVersion :: string where "ConfigAPIVersion = ''cli.steadystate.dev/v1alpha1''"
definition ConfigKind :: string where "ConfigKind = ''Config''"

definition defaultContext :: "string \<Rightarrow> cli_context" where
  "defaultContext checkout = \<lparr>cx_repository = ''saadabdullaah/steadystate'', cx_defaultBranch = ''main'',
     cx_checkoutPath = checkout, cx_kubeconfig = [], cx_kubeContext = [], cx_clusterName = ''steadystate'',
     cx_profile = ''standard'', cx_httpPort = 8080, cx_httpsPort = 8443\<rparr>"

definition NewConfig :: "string \<Rightarrow> string \<Rightarrow> config" where
  "NewConfig name checkout =
     (let name = (if name = [] then ''local'' else name) in
      \<lparr>cfg_apiVersion = ConfigAPIVersion, cfg_kind = ConfigKind, cfg_currentContext = name,
       cfg_contexts = [(name, defaultContext checkout)]\<rparr>)"

subsection \<open>Validation\<close>

definition branch_char :: "char \<Rightarrow> bool" where
  "branch_char c = (is_alnum c \<or> c \<in> {CHR ''.'', CHR ''_'', CHR ''/'', CHR ''-''})"

definition gitBranchPattern :: "string \<Rightarrow> bool" where
  "gitBranchPattern s = (case s of [] \<Rightarrow> False | c # cs \<Rightarrow> is_alnum c \<and> list_all branch_char cs)"

definition validGitBranch :: "string \<Rightarrow> bool" where
  "validGitBranch v =
     (gitBranchPattern v \<and> \<not> str_contains v ''..'' \<and> \<not> str_contains v ''//'' \<and> \<not> has_suffix v ''/''
      \<and> \<not> has_suffix v ''.'' \<and> \<not> has_suffix v ''.lock'')"

definition count_char :: "char \<Rightarrow> string \<Rightarrow> nat" where
  "count_char c s = length (filter (\<lambda>d. d = c) s)"

definition line_breaks :: string where "line_breaks = [CHR 0x0D, CHR 0x0A, CHR 0x09]"

definition port_ok :: "int \<Rightarrow> bool" where "port_ok p = (\<not> (p < 1 \<or> p > 65535))"

definition context_error :: "lib \<Rightarrow> string \<Rightarrow> cli_context \<Rightarrow> string option" where
  \<comment> \<open>the body of the loop over the contexts\<close>
  "context_error L name c =
     (if trim_space name = [] \<or> contains_any name line_breaks then
        Some (''invalid context name '' @ go_quote L name)
      else if cx_repository c = [] \<or> count_char CHR ''/'' (cx_repository c) \<noteq> 1 then
        Some (''context '' @ go_quote L name @ '' repository must be OWNER/REPO'')
      else if \<not> validGitBranch (cx_defaultBranch c) \<or> cx_checkoutPath c = [] \<or> cx_clusterName c = [] then
        Some (''context '' @ go_quote L name
          @ '' is missing repository, checkout, branch, or cluster configuration'')
      else if cx_profile c \<noteq> ''minimal'' \<and> cx_profile c \<noteq> ''standard'' \<and> cx_profile c \<noteq> ''full'' then
        Some (''context '' @ go_quote L name @ '' has unsupported profile '' @ go_quote L (cx_profile c))
      else if \<not> port_ok (cx_httpPort c) \<or> \<not> port_ok (cx_httpsPort c) \<or> cx_httpPort c = cx_httpsPort c then
        Some (''context '' @ go_quote L name @ '' has invalid or conflicting ports'')
      else None)"

fun contexts_error :: "lib \<Rightarrow> (string \<times> cli_context) list \<Rightarrow> string option" where
  "contexts_error L [] = None"
| "contexts_error L ((name, c) # rest) = or_else (context_error L name c) (contexts_error L rest)"

definition Config_Validate :: "lib \<Rightarrow> config \<Rightarrow> string option" where
  "Config_Validate L c =
     (if cfg_apiVersion c \<noteq> ConfigAPIVersion \<or> cfg_kind c \<noteq> ConfigKind then
        Some (''expected '' @ ConfigAPIVersion @ '' '' @ ConfigKind)
      else if length (cfg_contexts c) = 0 then Some ''at least one context is required''
      else if map_of (cfg_contexts c) (cfg_currentContext c) = None then
        Some (''current context '' @ go_quote L (cfg_currentContext c) @ '' does not exist'')
      else contexts_error L (cfg_contexts c))"

definition Config_Context :: "lib \<Rightarrow> config \<Rightarrow> string \<Rightarrow> cli_error + cli_context" where
  "Config_Context L c name =
     (let name = (if name = [] then cfg_currentContext c else name) in
      case map_of (cfg_contexts c) name of
        None \<Rightarrow> Inl (exitError ExitNotFound (''context '' @ go_quote L name @ '' does not exist''))
      | Some cx \<Rightarrow> Inr cx)"

definition ContextNames :: "config \<Rightarrow> string list" where
  "ContextNames c = sort (map fst (cfg_contexts c))"

subsection \<open>What a valid configuration is\<close>

definition context_ok :: "string \<Rightarrow> cli_context \<Rightarrow> bool" where
  "context_ok name c \<longleftrightarrow>
     trim_space name \<noteq> [] \<and> set name \<inter> set line_breaks = {}
   \<and> (\<exists>owner repo. cx_repository c = owner @ ''/'' @ repo \<and> CHR ''/'' \<notin> set owner \<and> CHR ''/'' \<notin> set repo)
   \<and> validGitBranch (cx_defaultBranch c) \<and> cx_checkoutPath c \<noteq> [] \<and> cx_clusterName c \<noteq> []
   \<and> cx_profile c \<in> {''minimal'', ''standard'', ''full''}
   \<and> cx_httpPort c \<in> {1..65535} \<and> cx_httpsPort c \<in> {1..65535} \<and> cx_httpPort c \<noteq> cx_httpsPort c"

definition config_ok :: "config \<Rightarrow> bool" where
  "config_ok c \<longleftrightarrow>
     cfg_apiVersion c = ConfigAPIVersion \<and> cfg_kind c = ConfigKind
   \<and> cfg_currentContext c \<in> fst ` set (cfg_contexts c)
   \<and> (\<forall>(name, cx) \<in> set (cfg_contexts c). context_ok name cx)"

lemma count_one:
  "count_char c s = 1 \<longleftrightarrow> (\<exists>a b. s = a @ [c] @ b \<and> c \<notin> set a \<and> c \<notin> set b)"
proof
  assume "count_char c s = 1"
  then have "filter (\<lambda>d. d = c) s \<noteq> []" by (auto simp: count_char_def)
  then have "c \<in> set s" by (simp add: filter_empty_conv)
  then obtain a b where s: "s = a @ c # b" "c \<notin> set a" by (meson split_list_first)
  with \<open>count_char c s = 1\<close> have "c \<notin> set b"
    by (auto simp: count_char_def filter_empty_conv)
  with s show "\<exists>a b. s = a @ [c] @ b \<and> c \<notin> set a \<and> c \<notin> set b" by auto
qed (auto simp: count_char_def filter_empty_conv)

lemma context_error_None: "context_error L name c = None \<longleftrightarrow> context_ok name c"
  using count_one [of "CHR ''/''" "cx_repository c"]
  by (auto simp: context_error_def context_ok_def contains_any_iff port_ok_def)

lemma contexts_error_None:
  "contexts_error L cs = None \<longleftrightarrow> (\<forall>(name, c) \<in> set cs. context_ok name c)"
  by (induction cs) (auto simp: context_error_None)

lemma Config_Validate_None: "Config_Validate L c = None \<longleftrightarrow> config_ok c"
  by (auto simp: Config_Validate_def config_ok_def contexts_error_None map_of_eq_None_iff image_iff)

lemma Config_Context_ok:
  "config_ok c \<Longrightarrow> Config_Context L c name = Inr cx \<Longrightarrow> \<exists>n. (n, cx) \<in> set (cfg_contexts c) \<and> context_ok n cx"
  by (fastforce simp: Config_Context_def Let_def config_ok_def dest: map_of_SomeD split: option.splits)

end
