(* ===== verification/Portal_State.thy ===== *)
theory Portal_State
  imports Renderer Cli_Config
begin

section \<open>The state of the developer portal\<close>

text \<open>
  The fields of \<open>portalServer\<close> (\<open>internal/platformctl/portal.go\<close>) and every section of code that runs under its
  mutex, one operation each: the one-time launch link, the rate limit, the stores of change plans and break-glass
  plans, and the event buffer with its listeners. An operation takes the instants that \<open>time.Now\<close> returned inside
  the section (the first, and the second where it is read twice), and gives its result and the new state.
  The plans are Go maps of pointers; a plan is replaced in the map when it is marked used, and nothing else of it changes.
\<close>

subsection \<open>State\<close>

record portal_plan =
  pp_request :: change_request
  pp_digest :: string
  pp_diff :: string
  pp_files :: "file_change list"
  pp_expires :: int
  pp_used :: bool

record portal_break_plan =
  bp_namespace :: string
  bp_application :: string
  bp_action :: string
  bp_uid :: string
  bp_resourceVersion :: string
  bp_before :: json
  bp_expires :: int
  bp_used :: bool

record portal_event =
  pe_id :: "64 word"
  pe_type :: string
  pe_time :: int
  pe_data :: json

record portal_server =
  ps_selected :: cli_context
  ps_contextName :: string
  ps_launchToken :: string
  ps_launchUntil :: int
  ps_session :: string
  ps_sessionUntil :: int
  ps_csrf :: string
  ps_assetDigest :: string
  ps_plans :: "(string \<times> portal_plan) list"
  ps_breakPlans :: "(string \<times> portal_break_plan) list"
  ps_events :: "portal_event list"
  ps_nextEventID :: "64 word"
  ps_listeners :: "(nat \<times> portal_event list) list"   \<comment> \<open>a channel of capacity 16 with what it holds\<close>
  ps_writeTimes :: "int list"

definition minute :: int where "minute = 60 * 10 ^ 9"
definition hour :: int where "hour = 60 * minute"

definition portalAPIVersion :: string where "portalAPIVersion = ''portal.steadystate.dev/v1alpha1''"
definition portalVersion :: string where "portalVersion = ''v1.0.1''"

definition new_portal ::
    "cli_context \<Rightarrow> string \<Rightarrow> string \<Rightarrow> string \<Rightarrow> string \<Rightarrow> string \<Rightarrow> int \<Rightarrow> portal_server" where
  \<comment> \<open>\<open>newPortalServer\<close> after its three tokens and the clock were read\<close>
  "new_portal selected contextName launch session csrf digest now =
     \<lparr>ps_selected = selected, ps_contextName = contextName, ps_launchToken = launch,
      ps_launchUntil = now + minute, ps_session = session, ps_sessionUntil = now + 8 * hour,
      ps_csrf = csrf, ps_assetDigest = digest, ps_plans = [], ps_breakPlans = [], ps_events = [],
      ps_nextEventID = 0, ps_listeners = [], ps_writeTimes = []\<rparr>"

subsection \<open>The launch link and the rate limit\<close>

definition redeem_launch :: "string \<Rightarrow> int \<Rightarrow> portal_server \<Rightarrow> bool \<times> portal_server" where
  "redeem_launch token now s =
     (let valid = (now < ps_launchUntil s \<and> token = ps_launchToken s \<and> ps_launchToken s \<noteq> []) in
      (valid, if valid then s\<lparr>ps_launchToken := []\<rparr> else s))"

definition allowWrite :: "int \<Rightarrow> int \<Rightarrow> portal_server \<Rightarrow> bool \<times> portal_server" where
  "allowWrite now later s =
     (let cutoff = now - minute;
          kept = filter (\<lambda>item. item > cutoff) (ps_writeTimes s);
          s = s\<lparr>ps_writeTimes := kept\<rparr> in
      if length (ps_writeTimes s) \<ge> 10 then (False, s)
      else (True, s\<lparr>ps_writeTimes := ps_writeTimes s @ [later]\<rparr>))"

subsection \<open>Plans\<close>

definition expirePlansLocked :: "int \<Rightarrow> portal_server \<Rightarrow> portal_server" where
  "expirePlansLocked now s = s\<lparr>
     ps_plans := filter (\<lambda>(_, p). \<not> (pp_used p \<or> now > pp_expires p)) (ps_plans s),
     ps_breakPlans := filter (\<lambda>(_, p). \<not> (bp_used p \<or> now > bp_expires p)) (ps_breakPlans s)\<rparr>"

definition store_plan :: "string \<Rightarrow> portal_plan \<Rightarrow> int \<Rightarrow> portal_server \<Rightarrow> bool \<times> portal_server" where
  "store_plan planID plan now s =
     (let s = expirePlansLocked now s in
      if length (ps_plans s) \<ge> 100 then (False, s)
      else (True, s\<lparr>ps_plans := AList.update planID plan (ps_plans s)\<rparr>))"

definition claim_plan :: "string \<Rightarrow> int \<Rightarrow> portal_server \<Rightarrow> portal_plan option \<times> portal_server" where
  "claim_plan planID now s =
     (case map_of (ps_plans s) planID of
        None \<Rightarrow> (None, s)
      | Some plan \<Rightarrow>
          if pp_used plan \<or> now > pp_expires plan then (None, s)
          else (Some plan, s\<lparr>ps_plans := AList.update planID (plan\<lparr>pp_used := True\<rparr>) (ps_plans s)\<rparr>))"

definition store_break :: "string \<Rightarrow> portal_break_plan \<Rightarrow> portal_server \<Rightarrow> portal_server" where
  "store_break token plan s = s\<lparr>ps_breakPlans := AList.update token plan (ps_breakPlans s)\<rparr>"

definition claim_break ::
    "string \<Rightarrow> string \<Rightarrow> string \<Rightarrow> string \<Rightarrow> int \<Rightarrow> portal_server \<Rightarrow> portal_break_plan option \<times> portal_server" where
  "claim_break token app ns action now s =
     (case map_of (ps_breakPlans s) token of
        None \<Rightarrow> (None, s)
      | Some plan \<Rightarrow>
          if bp_used plan \<or> now > bp_expires plan \<or> bp_application plan \<noteq> app
             \<or> bp_namespace plan \<noteq> ns \<or> bp_action plan \<noteq> action then (None, s)
          else (Some plan,
            s\<lparr>ps_breakPlans := AList.update token (plan\<lparr>bp_used := True\<rparr>) (ps_breakPlans s)\<rparr>))"

subsection \<open>Events\<close>

definition last_n :: "nat \<Rightarrow> 'a list \<Rightarrow> 'a list" where
  \<comment> \<open>\<open>if len(xs) > n { xs = xs[len(xs)-n:] }\<close>\<close>
  "last_n n xs = (if length xs > n then drop (length xs - n) xs else xs)"

lemma last_n_drop: "last_n n xs = drop (length xs - n) xs"
  by (simp add: last_n_def)

lemma last_n_append: "last_n n (last_n n xs @ ys) = last_n n (xs @ ys)"
proof (cases "length xs \<le> n")
  case False
  have "drop (length xs - n) xs @ ys = drop (length xs - n) (xs @ ys)" by simp
  with False show ?thesis by (simp add: last_n_drop add.commute del: drop_append)
qed (simp add: last_n_drop)

lemma last_n_length: "length (last_n n xs) \<le> n"
  by (auto simp: last_n_def)

definition offer :: "portal_event \<Rightarrow> portal_event list \<Rightarrow> portal_event list" where
  \<comment> \<open>a send in a \<open>select\<close> with a \<open>default\<close>: dropped when the channel is full\<close>
  "offer e channel = (if length channel < 16 then channel @ [e] else channel)"

definition broadcast :: "string \<Rightarrow> json \<Rightarrow> int \<Rightarrow> portal_server \<Rightarrow> portal_event \<times> portal_server" where
  "broadcast kind data now s =
     (let nextID = ps_nextEventID s + 1;
          e = \<lparr>pe_id = nextID, pe_type = kind, pe_time = now, pe_data = data\<rparr> in
      (e, s\<lparr>ps_nextEventID := nextID,
            ps_events := last_n 128 (ps_events s @ [e]),
            ps_listeners := map (\<lambda>(c, q). (c, offer e q)) (ps_listeners s)\<rparr>))"

definition subscribe :: "nat \<Rightarrow> portal_server \<Rightarrow> portal_event list \<times> portal_server" where
  "subscribe channel s = (ps_events s, s\<lparr>ps_listeners := AList.update channel [] (ps_listeners s)\<rparr>)"

definition unsubscribe :: "nat \<Rightarrow> portal_server \<Rightarrow> portal_server" where
  "unsubscribe channel s = s\<lparr>ps_listeners := AList.delete channel (ps_listeners s)\<rparr>"

definition heartbeat :: "int \<Rightarrow> portal_server \<Rightarrow> portal_event \<times> portal_server" where
  "heartbeat now s =
     (let nextID = ps_nextEventID s + 1 in
      (\<lparr>pe_id = nextID, pe_type = ''heartbeat'', pe_time = now, pe_data = JNull\<rparr>,
       s\<lparr>ps_nextEventID := nextID\<rparr>))"

definition receive_event :: "nat \<Rightarrow> portal_server \<Rightarrow> portal_event option \<times> portal_server" where
  \<comment> \<open>a receive that is ready takes the oldest event of the channel\<close>
  "receive_event channel s =
     (case map_of (ps_listeners s) channel of
        Some (e # q) \<Rightarrow> (Some e, s\<lparr>ps_listeners := AList.update channel q (ps_listeners s)\<rparr>)
      | _ \<Rightarrow> (None, s))"

definition missed_events :: "nat \<Rightarrow> portal_event list \<Rightarrow> portal_event list" where
  \<comment> \<open>what a new connection is sent first, after the identifier in its \<open>Last-Event-ID\<close>\<close>
  "missed_events last_id events = filter (\<lambda>e. unat (pe_id e) > last_id) events"

subsection \<open>The operations on the shared state\<close>

datatype portal_op =
  RedeemLaunch string
| AllowWrite
| StorePlan string portal_plan
| ClaimPlan string
| StoreBreak string portal_break_plan
| ClaimBreak string string string string
| Broadcast string json
| Subscribe nat
| Unsubscribe nat
| Heartbeat int
| ReceiveEvent nat

datatype portal_answer =
  Verdict bool
| PlanTaken "portal_plan option"
| BreakTaken "portal_break_plan option"
| Replay "portal_event list"
| Issued portal_event
| Received "portal_event option"
| Acked

fun apply_op :: "portal_op \<Rightarrow> int \<Rightarrow> int \<Rightarrow> portal_server \<Rightarrow> portal_answer \<times> portal_server" where
  "apply_op (RedeemLaunch token) now later s = apfst Verdict (redeem_launch token now s)"
| "apply_op AllowWrite now later s = apfst Verdict (allowWrite now later s)"
| "apply_op (StorePlan planID plan) now later s = apfst Verdict (store_plan planID plan now s)"
| "apply_op (ClaimPlan planID) now later s = apfst PlanTaken (claim_plan planID now s)"
| "apply_op (StoreBreak token plan) now later s = (Acked, store_break token plan s)"
| "apply_op (ClaimBreak token app ns action) now later s =
     apfst BreakTaken (claim_break token app ns action now s)"
| "apply_op (Broadcast kind data) now later s = apfst Issued (broadcast kind data now s)"
| "apply_op (Subscribe channel) now later s = apfst Replay (subscribe channel s)"
| "apply_op (Unsubscribe channel) now later s = (Acked, unsubscribe channel s)"
| "apply_op (Heartbeat tick) now later s = apfst Issued (heartbeat tick s)"
| "apply_op (ReceiveEvent channel) now later s = apfst Received (receive_event channel s)"

subsection \<open>Histories\<close>

text \<open>
  The requests of the portal run concurrently; the mutex puts their sections in one order. A history lists the
  sections with the instants read and their results; \<open>portal_reach s0 h now s\<close>: from \<open>s0\<close>, the
  sections of \<open>h\<close> in their order lead to \<open>s\<close>, and \<open>now\<close> is the last instant read. The Go clock is monotonic
  within a process, so the instants never decrease along a history.
\<close>

record section_of =
  sec_op :: portal_op
  sec_now :: int
  sec_later :: int
  sec_answer :: portal_answer

inductive portal_reach :: "portal_server \<Rightarrow> section_of list \<Rightarrow> int \<Rightarrow> portal_server \<Rightarrow> bool" for s0 where
  start: "portal_reach s0 [] t s0"
| step: "portal_reach s0 h t s \<Longrightarrow> t \<le> now \<Longrightarrow> now \<le> later \<Longrightarrow> apply_op opn now later s = (a, s')
    \<Longrightarrow> portal_reach s0 (h @ [\<lparr>sec_op = opn, sec_now = now, sec_later = later, sec_answer = a\<rparr>]) later s'"

inductive_cases portal_reach_Nil: "portal_reach s0 [] t s"

lemma portal_reach_times: "portal_reach s0 h t s \<Longrightarrow> x \<in> set h \<Longrightarrow> sec_now x \<le> sec_later x \<and> sec_later x \<le> t"
  by (induction arbitrary: x rule: portal_reach.induct) fastforce+

lemma portal_reach_prefix:
  "portal_reach s0 h t s \<Longrightarrow> h = h1 @ h2 \<Longrightarrow> \<exists>t1 s1. portal_reach s0 h1 t1 s1 \<and> t1 \<le> t"
proof (induction arbitrary: h1 h2 rule: portal_reach.induct)
  case (start t)
  then show ?case by (auto intro: portal_reach.start)
next
  case (step h t s now later opn a s')
  show ?case
  proof (cases h2 rule: rev_cases)
    case Nil
    with step show ?thesis by (metis append_Nil2 order_refl portal_reach.step)
  next
    case (snoc ys y)
    with step.prems have "h = h1 @ ys" by simp
    from step.IH [OF this] obtain t1 s1 where "portal_reach s0 h1 t1 s1" "t1 \<le> t" by blast
    then show ?thesis using step.hyps by (meson order_trans)
  qed
qed

end
