(* ===== verification/Portal_Safety.thy ===== *)
theory Portal_Safety
  imports Portal_State "HOL-Library.Sublist"
begin

section \<open>What the portal's mutex guarantees\<close>

text \<open>
  The properties of the shared state over every history of its sections (\<open>portal_reach\<close>): tickets (the launch link, change
  plans, break-glass plans) are taken at most once, the rate limit, and the event buffer. The three stores of tickets
  have one contract, the locale \<open>ticket_book\<close>.
\<close>

subsection \<open>Histories in two parts\<close>

abbreviation section_at :: "portal_op \<Rightarrow> int \<Rightarrow> int \<Rightarrow> portal_answer \<Rightarrow> section_of" where
  "section_at opn now later a \<equiv> \<lparr>sec_op = opn, sec_now = now, sec_later = later, sec_answer = a\<rparr>"

lemma portal_reach_snocD:
  assumes "portal_reach s0 (h @ [x]) t s"
  shows "\<exists>u s1. portal_reach s0 h u s1 \<and> u \<le> sec_now x \<and> sec_now x \<le> sec_later x \<and> t = sec_later x
    \<and> apply_op (sec_op x) (sec_now x) (sec_later x) s1 = (sec_answer x, s)"
  using assms by (cases rule: portal_reach.cases) auto

lemma portal_reach_split:
  assumes "portal_reach s0 h t s" "h = h1 @ x # h2"
  shows "\<exists>u s1 s2. portal_reach s0 h1 u s1 \<and> u \<le> sec_now x \<and> sec_now x \<le> sec_later x
    \<and> apply_op (sec_op x) (sec_now x) (sec_later x) s1 = (sec_answer x, s2)"
proof -
  have "h = (h1 @ [x]) @ h2" using assms(2) by simp
  from portal_reach_prefix [OF assms(1) this] obtain v s3 where "portal_reach s0 (h1 @ [x]) v s3" by blast
  from portal_reach_snocD [OF this] show ?thesis by blast
qed

lemma section_collapse: "section_at (sec_op x) (sec_now x) (sec_later x) (sec_answer x) = x"
  by simp

subsection \<open>Books of tickets\<close>

text \<open>
  A book holds live tickets under their identifiers. A section may issue a ticket or take one. The laws: only an issue
  makes a ticket live, a live ticket stays under its identifier until it is replaced or taken, and only a live ticket is
  taken. Then a ticket taken was issued before, and nothing under its identifier was issued or taken in between.
\<close>

locale ticket_book =
  fixes live :: "portal_server \<Rightarrow> string \<Rightarrow> 'p option"
    and issues :: "section_of \<Rightarrow> string \<Rightarrow> 'p \<Rightarrow> bool"
    and takes :: "section_of \<Rightarrow> string \<Rightarrow> 'p \<Rightarrow> bool"
    and sound :: "portal_server \<Rightarrow> bool"
  assumes stays_sound: "sound s \<Longrightarrow> apply_op opn now later s = (a, s') \<Longrightarrow> sound s'"
    and live_from: "sound s \<Longrightarrow> apply_op opn now later s = (a, s') \<Longrightarrow> live s' k = Some p \<Longrightarrow>
      issues (section_at opn now later a) k p \<or>
      live s k = Some p \<and> (\<forall>q. \<not> takes (section_at opn now later a) k q \<and> \<not> issues (section_at opn now later a) k q)"
    and takes_live: "sound s \<Longrightarrow> apply_op opn now later s = (a, s') \<Longrightarrow>
      takes (section_at opn now later a) k p \<Longrightarrow> live s k = Some p"
begin

definition untouched :: "string \<Rightarrow> section_of list \<Rightarrow> bool" where
  "untouched k h \<longleftrightarrow> (\<forall>x \<in> set h. \<forall>q. \<not> takes x k q \<and> \<not> issues x k q)"

definition pending :: "portal_server \<Rightarrow> section_of list \<Rightarrow> string \<Rightarrow> 'p \<Rightarrow> bool" where
  "pending s0 h k p \<longleftrightarrow> (\<exists>h1 y h2. h = h1 @ y # h2 \<and> issues y k p \<and> untouched k h2)
     \<or> live s0 k = Some p \<and> untouched k h"

lemma reach_sound: "portal_reach s0 h t s \<Longrightarrow> sound s0 \<Longrightarrow> sound s"
  by (induction rule: portal_reach.induct) (auto intro: stays_sound)

lemma untouched_snoc: "untouched k (h @ [x]) \<longleftrightarrow> untouched k h \<and> (\<forall>q. \<not> takes x k q \<and> \<not> issues x k q)"
  by (auto simp: untouched_def)

lemma pending_snoc:
  assumes "pending s0 h k p" "\<forall>q. \<not> takes x k q \<and> \<not> issues x k q"
  shows "pending s0 (h @ [x]) k p"
proof -
  consider (old) h1 y h2 where "h = h1 @ y # h2" "issues y k p" "untouched k h2" | (start) "live s0 k = Some p" "untouched k h"
    using assms(1) by (auto simp: pending_def)
  then show ?thesis
  proof cases
    case old
    then have "h @ [x] = h1 @ y # (h2 @ [x])" "untouched k (h2 @ [x])" using assms(2) by (simp_all add: untouched_snoc)
    with old(2) show ?thesis unfolding pending_def by blast
  next
    case start
    with assms(2) show ?thesis by (simp add: pending_def untouched_snoc)
  qed
qed

lemma live_pending: "portal_reach s0 h t s \<Longrightarrow> sound s0 \<Longrightarrow> live s k = Some p \<Longrightarrow> pending s0 h k p"
proof (induction arbitrary: p rule: portal_reach.induct)
  case (start t)
  then show ?case by (simp add: pending_def untouched_def)
next
  case (step h t s now later opn a s')
  let ?x = "section_at opn now later a"
  have "sound s" using step.hyps(1) step.prems(1) by (rule reach_sound)
  from live_from [OF this step.hyps(4) step.prems(2)]
  show ?case
  proof
    assume "issues ?x k p"
    then show ?thesis unfolding pending_def by (intro disjI1 exI [of _ h] exI [of _ ?x] exI [of _ "[]"]) (simp add: untouched_def)
  next
    assume "live s k = Some p \<and> (\<forall>q. \<not> takes ?x k q \<and> \<not> issues ?x k q)"
    then show ?thesis using step.IH step.prems(1) pending_snoc by blast
  qed
qed

lemma taken_pending:
  assumes "portal_reach s0 h t s" "sound s0" "h = h1 @ x # h2" "takes x k p"
  shows "pending s0 h1 k p"
proof -
  obtain u s1 s2 where r: "portal_reach s0 h1 u s1"
    and x: "apply_op (sec_op x) (sec_now x) (sec_later x) s1 = (sec_answer x, s2)"
    using portal_reach_split [OF assms(1,3)] by blast
  have "live s1 k = Some p"
    using takes_live [OF reach_sound [OF r assms(2)] x] assms(4) by (simp add: section_collapse)
  then show ?thesis by (rule live_pending [OF r assms(2)])
qed

lemma taken_issued:
  assumes "portal_reach s0 h t s" "sound s0" "live s0 k = None" "h = h1 @ x # h2" "takes x k p"
  shows "\<exists>g1 y g2. h1 = g1 @ y # g2 \<and> issues y k p \<and> (\<forall>z \<in> set g2. \<forall>q. \<not> takes z k q \<and> \<not> issues z k q)"
  using taken_pending [OF assms(1,2,4,5)] assms(3) by (auto simp: pending_def untouched_def)

end

subsection \<open>The three books\<close>

definition books_sound :: "portal_server \<Rightarrow> bool" where
  "books_sound s \<longleftrightarrow> distinct (map fst (ps_plans s)) \<and> distinct (map fst (ps_breakPlans s))"

definition live_plan :: "portal_server \<Rightarrow> string \<Rightarrow> portal_plan option" where
  "live_plan s k = (case map_of (ps_plans s) k of Some p \<Rightarrow> if pp_used p then None else Some p | None \<Rightarrow> None)"

definition live_break :: "portal_server \<Rightarrow> string \<Rightarrow> portal_break_plan option" where
  "live_break s k = (case map_of (ps_breakPlans s) k of Some p \<Rightarrow> if bp_used p then None else Some p | None \<Rightarrow> None)"

definition live_launch :: "portal_server \<Rightarrow> string \<Rightarrow> unit option" where
  "live_launch s k = (if ps_launchToken s = k \<and> k \<noteq> [] then Some () else None)"

definition issued_plan :: "section_of \<Rightarrow> string \<Rightarrow> portal_plan \<Rightarrow> bool" where
  "issued_plan x k p \<longleftrightarrow> sec_op x = StorePlan k p \<and> sec_answer x = Verdict True"

definition took_plan :: "section_of \<Rightarrow> string \<Rightarrow> portal_plan \<Rightarrow> bool" where
  "took_plan x k p \<longleftrightarrow> sec_op x = ClaimPlan k \<and> sec_answer x = PlanTaken (Some p)"

definition issued_break :: "section_of \<Rightarrow> string \<Rightarrow> portal_break_plan \<Rightarrow> bool" where
  "issued_break x k p \<longleftrightarrow> sec_op x = StoreBreak k p"

definition took_break :: "section_of \<Rightarrow> string \<Rightarrow> portal_break_plan \<Rightarrow> bool" where
  "took_break x k p \<longleftrightarrow> (\<exists>app ns act. sec_op x = ClaimBreak k app ns act) \<and> sec_answer x = BreakTaken (Some p)"

definition redeemed :: "section_of \<Rightarrow> string \<Rightarrow> bool" where
  "redeemed x k \<longleftrightarrow> sec_op x = RedeemLaunch k \<and> sec_answer x = Verdict True"

lemmas book_ops = redeem_launch_def allowWrite_def expirePlansLocked_def store_plan_def claim_plan_def store_break_def
  claim_break_def broadcast_def subscribe_def unsubscribe_def heartbeat_def receive_event_def

lemma distinct_filter_keys: "distinct (map fst xs) \<Longrightarrow> distinct (map fst (filter P xs))"
  by (induction xs) auto

lemma map_of_filter_SomeD:
  "distinct (map fst xs) \<Longrightarrow> map_of (filter P xs) k = Some v \<Longrightarrow> map_of xs k = Some v \<and> P (k, v)"
  by (auto simp: map_of_eq_Some_iff distinct_filter_keys)

lemma books_stay_sound: "books_sound s \<Longrightarrow> apply_op opn now later s = (a, s') \<Longrightarrow> books_sound s'"
  by (cases opn)
    (auto simp: books_sound_def book_ops Let_def distinct_update distinct_filter_keys
      split: if_splits option.splits list.splits)

lemma update_live_plan:
  "map_of (AList.update j q ps) k = (if k = j then Some q else map_of ps k)"
  by (simp add: update_conv')

lemma live_plan_expire:
  "books_sound s \<Longrightarrow> live_plan (expirePlansLocked now s) k = Some p \<Longrightarrow> live_plan s k = Some p"
  using map_of_filter_SomeD [of "ps_plans s" "\<lambda>(_, p). \<not> (pp_used p \<or> now > pp_expires p)" k p]
  by (auto simp: live_plan_def expirePlansLocked_def books_sound_def simp del: map_of_eq_Some_iff split: option.splits if_splits)

lemma live_break_expire:
  "books_sound s \<Longrightarrow> live_break (expirePlansLocked now s) k = Some p \<Longrightarrow> live_break s k = Some p"
  using map_of_filter_SomeD [of "ps_breakPlans s" "\<lambda>(_, p). \<not> (bp_used p \<or> now > bp_expires p)" k p]
  by (auto simp: live_break_def expirePlansLocked_def books_sound_def simp del: map_of_eq_Some_iff split: option.splits if_splits)

lemma live_plan_other: "ps_plans s' = ps_plans s \<Longrightarrow> live_plan s' = live_plan s"
  by (simp add: live_plan_def fun_eq_iff)

lemma live_break_other: "ps_breakPlans s' = ps_breakPlans s \<Longrightarrow> live_break s' = live_break s"
  by (simp add: live_break_def fun_eq_iff)

lemma live_plan_store:
  assumes "books_sound s" "store_plan j q now s = (b, s')" "live_plan s' k = Some p"
  shows "b \<and> j = k \<and> p = q \<or> (\<not> b \<or> j \<noteq> k) \<and> live_plan s k = Some p"
proof (cases "length (ps_plans (expirePlansLocked now s)) \<ge> 100")
  case True
  then have "\<not> b" "s' = expirePlansLocked now s" using assms(2) by (simp_all add: store_plan_def Let_def)
  with live_plan_expire [OF assms(1)] assms(3) show ?thesis by simp
next
  case False
  then have b: "b" and s': "ps_plans s' = AList.update j q (ps_plans (expirePlansLocked now s))"
    using assms(2) by (auto simp: store_plan_def Let_def)
  have "live_plan s' k = (if k = j then if pp_used q then None else Some q else live_plan (expirePlansLocked now s) k)"
    by (simp add: live_plan_def s' update_live_plan)
  with b live_plan_expire [OF assms(1), of now k p] assms(3) show ?thesis by (simp split: if_splits)
qed

interpretation plan_book: ticket_book live_plan issued_plan took_plan books_sound
proof
  fix s opn now later a s' k p
  assume s: "books_sound s" and step: "apply_op opn now later s = (a, s')"
  show "books_sound s'" using books_stay_sound [OF s step] .
  {
    assume l: "live_plan s' k = Some p"
    show "issued_plan (section_at opn now later a) k p \<or>
        live_plan s k = Some p \<and> (\<forall>q. \<not> took_plan (section_at opn now later a) k q \<and> \<not> issued_plan (section_at opn now later a) k q)"
    proof (cases opn)
      case (StorePlan j q)
      then obtain b where b: "store_plan j q now s = (b, s')" "a = Verdict b" using step by (auto simp: apfst_def map_prod_def split: prod.splits)
      from live_plan_store [OF s b(1) l] show ?thesis
        by (auto simp: issued_plan_def took_plan_def StorePlan b(2))
    next
      case (ClaimPlan j)
      with step l show ?thesis
        by (auto simp: issued_plan_def took_plan_def claim_plan_def live_plan_def update_live_plan split: option.splits if_splits)
    qed (use step l in \<open>auto simp: issued_plan_def took_plan_def book_ops Let_def live_plan_def split: if_splits option.splits list.splits\<close>)
  }
  {
    assume "took_plan (section_at opn now later a) k p"
    then show "live_plan s k = Some p"
      using step by (auto simp: took_plan_def claim_plan_def live_plan_def split: option.splits if_splits)
  }
qed

interpretation break_book: ticket_book live_break issued_break took_break books_sound
proof
  fix s opn now later a s' k p
  assume s: "books_sound s" and step: "apply_op opn now later s = (a, s')"
  show "books_sound s'" using books_stay_sound [OF s step] .
  {
    assume l: "live_break s' k = Some p"
    show "issued_break (section_at opn now later a) k p \<or>
        live_break s k = Some p \<and> (\<forall>q. \<not> took_break (section_at opn now later a) k q \<and> \<not> issued_break (section_at opn now later a) k q)"
    proof (cases opn)
      case (StorePlan j q)
      then have "live_break s' k = live_break (expirePlansLocked now s) k"
        using step by (auto simp: store_plan_def Let_def live_break_def split: if_splits)
      with live_break_expire [OF s] l show ?thesis by (auto simp: issued_break_def took_break_def StorePlan)
    qed (use step l in \<open>auto simp: issued_break_def took_break_def redeem_launch_def allowWrite_def claim_plan_def
      store_break_def claim_break_def broadcast_def subscribe_def unsubscribe_def heartbeat_def receive_event_def
      Let_def live_break_def update_live_plan split: if_splits option.splits list.splits\<close>)
  }
  {
    assume "took_break (section_at opn now later a) k p"
    then show "live_break s k = Some p"
      using step by (auto simp: took_break_def claim_break_def live_break_def split: option.splits if_splits)
  }
qed

interpretation launch_book: ticket_book live_launch "\<lambda>_ _ _. False" "\<lambda>x k _. redeemed x k" "\<lambda>_. True"
proof
  fix s opn now later a s' k and p :: unit
  assume step: "apply_op opn now later s = (a, s')"
  {
    assume "live_launch s' k = Some p"
    then show "False \<or> live_launch s k = Some p \<and> (\<forall>q::unit. \<not> redeemed (section_at opn now later a) k \<and> \<not> False)"
      using step by (cases opn) (auto simp: redeemed_def book_ops Let_def live_launch_def split: if_splits option.splits list.splits)
  }
  {
    assume "redeemed (section_at opn now later a) k"
    then show "live_launch s k = Some p"
      using step by (auto simp: redeemed_def redeem_launch_def live_launch_def Let_def split: if_splits)
  }
qed simp

subsection \<open>The rate limit\<close>

definition granted :: "section_of \<Rightarrow> bool" where
  "granted x \<longleftrightarrow> sec_op x = AllowWrite \<and> sec_answer x = Verdict True"

definition grants :: "section_of list \<Rightarrow> int list" where
  "grants h = map sec_later (filter granted h)"

lemma grants_simps [simp]: "grants [] = []" "grants (h @ g) = grants h @ grants g"
  "grants [x] = (if granted x then [sec_later x] else [])"
  by (simp_all add: grants_def)

lemma times_kept: "apply_op opn now later s = (a, s') \<Longrightarrow> opn \<noteq> AllowWrite \<Longrightarrow> ps_writeTimes s' = ps_writeTimes s"
  by (cases opn) (auto simp: book_ops Let_def split: if_splits option.splits list.splits)

lemma filter_above: "c \<ge> d \<Longrightarrow> filter (\<lambda>i. i > c) (filter (\<lambda>i. i > d) xs) = filter (\<lambda>i. i > (c::int)) xs"
  by (induction xs) auto

lemma filter_shorter: "(\<And>x. P x \<Longrightarrow> Q x) \<Longrightarrow> length (filter P xs) \<le> length (filter Q xs)"
  by (induction xs) (auto simp: le_SucI)

text \<open>The list of the server, pruned at each write, agrees with all grants so far on the last minute.\<close>

lemma recent_grants:
  "portal_reach s0 h t s \<Longrightarrow> ps_writeTimes s0 = [] \<Longrightarrow> t - minute \<le> c \<Longrightarrow>
     filter (\<lambda>i. i > c) (ps_writeTimes s) = filter (\<lambda>i. i > c) (grants h)"
proof (induction arbitrary: c rule: portal_reach.induct)
  case (step h t s now later opn a s')
  have IH: "d \<ge> t - minute \<Longrightarrow> filter (\<lambda>i. i > d) (ps_writeTimes s) = filter (\<lambda>i. i > d) (grants h)" for d
    using step.IH step.prems(1) by blast
  show ?case
  proof (cases "opn = AllowWrite")
    case True
    then have "ps_writeTimes s' = filter (\<lambda>i. i > now - minute) (ps_writeTimes s)
        @ (if granted (section_at opn now later a) then [later] else [])"
      using step.hyps(4) by (auto simp: allowWrite_def granted_def Let_def split: if_splits)
    moreover have "c \<ge> now - minute" "c \<ge> t - minute" using step.hyps(2,3) step.prems(2) by auto
    ultimately show ?thesis using IH [of c] by (simp add: filter_above del: filter_filter)
  next
    case False
    then show ?thesis
      using times_kept [OF step.hyps(4) False] IH [of c] step.hyps(2,3) step.prems(2) by (simp add: granted_def)
  qed
qed simp

lemma allow_answer:
  assumes "portal_reach s0 h t s" "ps_writeTimes s0 = []" "h = h1 @ x # h2" "sec_op x = AllowWrite"
  shows "sec_answer x = Verdict (length (filter (\<lambda>i. i > sec_now x - minute) (grants h1)) < 10)"
proof -
  obtain u s1 s2 where r: "portal_reach s0 h1 u s1" and u: "u \<le> sec_now x"
    and x: "apply_op (sec_op x) (sec_now x) (sec_later x) s1 = (sec_answer x, s2)"
    using portal_reach_split [OF assms(1,3)] by blast
  have "filter (\<lambda>i. i > sec_now x - minute) (ps_writeTimes s1) = filter (\<lambda>i. i > sec_now x - minute) (grants h1)"
    using recent_grants [OF r assms(2)] u by simp
  then show ?thesis using x assms(4) by (auto simp: allowWrite_def Let_def split: if_splits)
qed

lemma grants_per_minute:
  "portal_reach s0 h t s \<Longrightarrow> ps_writeTimes s0 = [] \<Longrightarrow>
     length (filter (\<lambda>i. a < i \<and> i \<le> a + minute) (grants h)) \<le> 10"
proof (induction rule: portal_reach.induct)
  case (step h t s now later opn b s')
  let ?x = "section_at opn now later b"
  have IH: "length (filter (\<lambda>i. a < i \<and> i \<le> a + minute) (grants h)) \<le> 10" using step.IH step.prems by blast
  show ?case
  proof (cases "granted ?x \<and> later \<le> a + minute")
    case True
    have r: "portal_reach s0 (h @ [?x]) later s'" using step.hyps by (rule portal_reach.step)
    have "length (filter (\<lambda>i. i > now - minute) (grants h)) < 10"
      using allow_answer [OF r step.prems, of h ?x "[]"] True by (simp add: granted_def)
    moreover have "length (filter (\<lambda>i. a < i \<and> i \<le> a + minute) (grants h))
        \<le> length (filter (\<lambda>i. i > now - minute) (grants h))"
      using True step.hyps(3) by (intro filter_shorter) simp
    ultimately show ?thesis by simp
  qed (use IH in auto)
qed simp

subsection \<open>The events\<close>

definition issued_events :: "section_of list \<Rightarrow> portal_event list" where
  \<comment> \<open>the events a history gave an identifier, in order\<close>
  "issued_events h = concat (map (\<lambda>x. case sec_answer x of Issued e \<Rightarrow> [e] | _ \<Rightarrow> []) h)"

definition event_log :: "section_of list \<Rightarrow> portal_event list" where
  \<comment> \<open>those that were broadcast\<close>
  "event_log h = concat (map (\<lambda>x. case (sec_op x, sec_answer x) of (Broadcast _ _, Issued e) \<Rightarrow> [e] | _ \<Rightarrow> []) h)"

definition received :: "nat \<Rightarrow> section_of list \<Rightarrow> portal_event list" where
  "received c h = concat (map (\<lambda>x. case (sec_op x, sec_answer x) of
     (ReceiveEvent d, Received (Some e)) \<Rightarrow> if d = c then [e] else [] | _ \<Rightarrow> []) h)"

lemma event_lists_append [simp]:
  "issued_events (h @ g) = issued_events h @ issued_events g" "event_log (h @ g) = event_log h @ event_log g"
  "received c (h @ g) = received c h @ received c g"
  "issued_events [] = []" "event_log [] = []" "received c [] = []"
  by (simp_all add: issued_events_def event_log_def received_def)

abbreviation event_id :: "portal_event \<Rightarrow> nat" where "event_id e \<equiv> unat (pe_id e)"

lemma event_buffer: "portal_reach s0 h t s \<Longrightarrow> ps_events s0 = [] \<Longrightarrow> ps_events s = last_n 128 (event_log h)"
proof (induction rule: portal_reach.induct)
  case (start t)
  then show ?case by (simp add: last_n_def)
next
  case (step h t s now later opn a s')
  then show ?case
    by (cases opn) (auto simp: event_log_def book_ops Let_def last_n_append split: if_splits option.splits list.splits)
qed

lemma next_id: "apply_op opn now later s = (a, s') \<Longrightarrow>
  ps_nextEventID s' = ps_nextEventID s + of_nat (length (issued_events [section_at opn now later a]))
  \<and> (\<forall>e \<in> set (issued_events [section_at opn now later a]). pe_id e = ps_nextEventID s + 1)"
  by (cases opn) (auto simp: issued_events_def book_ops Let_def split: if_splits option.splits list.splits)

lemma one_issued: "length (issued_events [x]) \<le> 1"
  by (auto simp: issued_events_def split: portal_answer.split)

lemma issued_ids:
  "portal_reach s0 h t s \<Longrightarrow> ps_nextEventID s0 = 0 \<Longrightarrow> length h < 2 ^ 64 \<Longrightarrow>
     unat (ps_nextEventID s) \<le> length h \<and> (\<forall>e \<in> set (issued_events h). event_id e \<le> unat (ps_nextEventID s))
     \<and> sorted_wrt (\<lambda>e f. event_id e < event_id f) (issued_events h)"
proof (induction rule: portal_reach.induct)
  case (step h t s now later opn a s')
  let ?g = "issued_events [section_at opn now later a]"
  have IH: "unat (ps_nextEventID s) \<le> length h" "\<forall>e \<in> set (issued_events h). event_id e \<le> unat (ps_nextEventID s)"
    "sorted_wrt (\<lambda>e f. event_id e < event_id f) (issued_events h)"
    using step by simp_all
  have inc: "unat (ps_nextEventID s + 1) = unat (ps_nextEventID s) + 1"
    using IH(1) step.prems(2) by (simp add: unat_word_ariths)
  show ?case
  proof (cases ?g)
    case Nil
    with next_id [OF step.hyps(4)] IH show ?thesis by simp
  next
    case (Cons e g)
    with one_issued [of "section_at opn now later a"] have g: "?g = [e]" by simp
    with next_id [OF step.hyps(4)] IH inc show ?thesis
      by (auto simp: sorted_wrt_append less_Suc_eq_le le_SucI)
  qed
qed simp

lemma event_log_subseq: "subseq (event_log h) (issued_events h)"
proof (induction h rule: rev_induct)
  case (snoc x xs)
  have "subseq (event_log [x]) (issued_events [x])"
    by (auto simp: event_log_def issued_events_def split: portal_op.split portal_answer.split)
  with snoc show ?case by (simp add: list_emb_append_mono)
qed simp

lemma sorted_wrt_subseq: "subseq xs ys \<Longrightarrow> sorted_wrt R ys \<Longrightarrow> sorted_wrt R xs"
  by (induction rule: list_emb.induct) (auto dest: list_emb_set)

lemma later_than: "sorted_wrt (\<lambda>x y. f x < f y) (l1 @ e # l2) \<Longrightarrow>
  filter (\<lambda>x. f x > f e) (drop k (l1 @ e # l2)) = drop (k - Suc (length l1)) (l2 :: 'a list)" for f :: "'a \<Rightarrow> nat"
proof (induction l1 arbitrary: k)
  case Nil
  then have "filter (\<lambda>x. f x > f e) l2 = l2" by simp
  then show ?case using Nil by (cases k) (auto simp: filter_id_conv dest: in_set_dropD)
next
  case (Cons x xs)
  then show ?case by (cases k) (force dest: Cons.IH [of 0])+
qed

lemma missed_after:
  assumes "sorted_wrt (\<lambda>e f. event_id e < event_id f) (l1 @ e # l2)"
  shows "missed_events (event_id e) (last_n 128 (l1 @ e # l2)) = last_n 128 l2"
proof -
  have "last_n 128 (l1 @ e # l2) = drop (Suc (length l1) + length l2 - 128) (l1 @ e # l2)" by (simp add: last_n_def)
  then show ?thesis
    using later_than [OF assms, of "Suc (length l1) + length l2 - 128"] by (simp add: missed_events_def last_n_def)
qed

text \<open>A channel delivers what was broadcast since it was subscribed, in order, with gaps only after it was full.\<close>

definition on_channel :: "nat \<Rightarrow> section_of list \<Rightarrow> bool" where
  \<comment> \<open>no section of the history opens or closes the channel\<close>
  "on_channel c h \<longleftrightarrow> (\<forall>x \<in> set h. sec_op x \<noteq> Subscribe c \<and> sec_op x \<noteq> Unsubscribe c)"

definition faithful :: "nat \<Rightarrow> section_of list \<Rightarrow> portal_server \<Rightarrow> bool" where
  "faithful c h s \<longleftrightarrow> (\<exists>q. map_of (ps_listeners s) c = Some q \<and> subseq (received c h @ q) (event_log h)
     \<and> (length (event_log h) \<le> 16 \<longrightarrow> received c h @ q = event_log h))"

lemma faithful_step:
  assumes "faithful c h s" "apply_op opn now later s = (a, s')" "opn \<noteq> Subscribe c" "opn \<noteq> Unsubscribe c"
  shows "faithful c (h @ [section_at opn now later a]) s'"
proof -
  obtain q where q: "map_of (ps_listeners s) c = Some q" "subseq (received c h @ q) (event_log h)"
    "length (event_log h) \<le> 16 \<Longrightarrow> received c h @ q = event_log h"
    using assms(1) unfolding faithful_def by blast
  show ?thesis
  proof (cases opn)
    case (Broadcast kind data)
    then obtain e where e: "a = Issued e" "map_of (ps_listeners s') c = Some (offer e q)"
      using assms(2) q(1) by (auto simp: broadcast_def Let_def map_of_map)
    have log: "event_log [section_at opn now later a] = [e]" "received c [section_at opn now later a] = []"
      by (simp_all add: Broadcast e(1) event_log_def received_def)
    have "subseq (received c h @ offer e q) (event_log h @ [e])"
      using q(2) list_emb_append_mono [OF q(2), of "[e]" "[e]"] by (auto simp: offer_def)
    moreover have "received c h @ offer e q = event_log h @ [e]" if "length (event_log h) < 16"
    proof -
      have r: "received c h @ q = event_log h" using q(3) that by simp
      then have "length (received c h) + length q < 16" using that by (metis length_append)
      then have "length q < 16" by simp
      with r show ?thesis by (simp add: offer_def flip: append_assoc)
    qed
    ultimately show ?thesis unfolding faithful_def using e(2) log by auto
  next
    case (ReceiveEvent d)
    show ?thesis
    proof (cases "d = c")
      case True
      with ReceiveEvent assms(2) q show ?thesis
        by (cases q) (auto simp: faithful_def receive_event_def received_def event_log_def update_conv')
    next
      case False
      with ReceiveEvent assms(2) q show ?thesis
        by (auto simp: faithful_def receive_event_def received_def event_log_def update_conv' split: option.splits list.splits)
    qed
  qed (use assms q in \<open>auto simp: faithful_def received_def event_log_def redeem_launch_def allowWrite_def expirePlansLocked_def
      store_plan_def claim_plan_def store_break_def claim_break_def subscribe_def unsubscribe_def heartbeat_def Let_def
      update_conv' delete_conv' split: if_splits option.splits\<close>)
qed

lemma channel_faithful:
  assumes "portal_reach s0 h t s" "h = h1 @ y # h2" "sec_op y = Subscribe c" "on_channel c h2"
  shows "faithful c h2 s"
  using assms
proof (induction arbitrary: h2 rule: portal_reach.induct)
  case (step h t s now later opn a s')
  show ?case
  proof (cases h2 rule: rev_cases)
    case Nil
    then have "opn = Subscribe c" using step.prems(1,2) by auto
    then show ?thesis using step.hyps(4) by (auto simp: Nil faithful_def subscribe_def update_conv')
  next
    case (snoc g x)
    then have "h = h1 @ y # g" "x = section_at opn now later a" using step.prems(1) by simp_all
    moreover from this have "faithful c g s" using step.IH [of g] step.prems(2,3) snoc by (simp add: on_channel_def)
    ultimately show ?thesis
      using faithful_step [OF _ step.hyps(4)] step.prems(3) snoc by (simp add: on_channel_def)
  qed
qed simp

text \<open>
  A heartbeat takes an identifier of the same counter but is not kept. A client that saw it and reconnects with it
  misses every event broadcast before it, also one still in its channel.
\<close>

lemma heartbeat_hides_event:
  assumes "unat (ps_nextEventID s) + 2 < 2 ^ 64" "broadcast kind data now s = (e, s1)" "heartbeat tick s1 = (b, s2)"
  shows "e \<in> set (ps_events s2) \<and> e \<notin> set (missed_events (event_id b) (ps_events s2))"
proof -
  have "pe_id b = pe_id e + 1" "unat (pe_id e) + 1 < 2 ^ 64" "e \<in> set (ps_events s2)"
    using assms by (auto simp: broadcast_def heartbeat_def Let_def last_n_def unat_word_ariths)
  then show ?thesis by (simp add: missed_events_def unat_word_ariths)
qed

subsection \<open>The properties\<close>

lemma launch_until: "portal_reach s0 h t s \<Longrightarrow> ps_launchUntil s = ps_launchUntil s0"
proof (induction rule: portal_reach.induct)
  case (step h t s now later opn a s')
  then show ?case
    by (cases opn) (auto simp: book_ops Let_def split: if_splits option.splits list.splits)
qed simp

lemma update_length:
  "length (AList.update k q xs) \<le> Suc (length xs)"
  "map_of xs k = Some r \<Longrightarrow> length (AList.update k q xs) = length xs"
  by (induction xs) (auto split: if_splits)

lemma plans_bounded: "portal_reach s0 h t s \<Longrightarrow> ps_plans s0 = [] \<Longrightarrow> length (ps_plans s) \<le> 100"
proof (induction rule: portal_reach.induct)
  case (step h t s now later opn a s')
  let ?kept = "ps_plans (expirePlansLocked now s)"
  have len: "length (ps_plans s) \<le> 100" using step by blast
  then have kept: "length ?kept \<le> 100"
    by (simp add: expirePlansLocked_def le_trans [OF length_filter_le])
  show ?case
  proof (cases opn)
    case (StorePlan k q)
    then have "ps_plans s' = (if length ?kept \<ge> 100 then ?kept else AList.update k q ?kept)"
      using step.hyps(4) by (auto simp: store_plan_def Let_def)
    then show ?thesis using kept update_length(1) [of k q ?kept] by simp
  qed (use step.hyps(4) len in \<open>auto simp: book_ops Let_def update_length(2) split: if_splits option.splits list.splits\<close>)
qed simp

lemma claim_times:
  assumes "apply_op (sec_op x) (sec_now x) (sec_later x) s1 = (sec_answer x, s2)"
  shows "redeemed x k \<Longrightarrow> sec_now x < ps_launchUntil s1"
    and "took_plan x k p \<Longrightarrow> \<not> pp_used p \<and> sec_now x \<le> pp_expires p"
    and "took_break x k b \<Longrightarrow> \<not> bp_used b \<and> sec_now x \<le> bp_expires b
      \<and> sec_op x = ClaimBreak k (bp_application b) (bp_namespace b) (bp_action b)"
  using assms
  by (auto simp: redeemed_def took_plan_def took_break_def redeem_launch_def claim_plan_def claim_break_def Let_def
      split: if_splits option.splits)

lemma redeemed_once:
  assumes "portal_reach s0 h t s" "h = h1 @ x # h2" "redeemed x k"
  shows "k = ps_launchToken s0 \<and> (\<forall>y \<in> set h1. \<forall>j. \<not> redeemed y j)"
proof -
  have p: "live_launch s0 k = Some () \<and> launch_book.untouched k h1"
    using launch_book.taken_pending [OF assms(1) TrueI assms(2,3), of "()"] by (simp add: launch_book.pending_def)
  moreover have "j = k" if "y \<in> set h1" "redeemed y j" for y j
  proof -
    obtain g1 g2 where "h1 = g1 @ y # g2" using \<open>y \<in> set h1\<close> by (meson split_list)
    then have "h = g1 @ y # (g2 @ x # h2)" using assms(2) by simp
    from launch_book.taken_pending [OF assms(1) TrueI this that(2), of "()"] p show ?thesis
      by (auto simp: launch_book.pending_def live_launch_def split: if_splits)
  qed
  ultimately show ?thesis by (fastforce simp: launch_book.untouched_def live_launch_def split: if_splits)
qed

text \<open>
  C9: Over every history of the portal's mutex-protected sections, in any interleaving of its requests: the launch link is
  redeemed at most once, with the token printed at the start and within its minute; a change plan or a
  break-glass plan is only ever taken as it was stored, unexpired, by the identifier it was stored under (and, for
  break glass, for exactly its Application, namespace and action), and never twice: between the store and the taking
  no section took or replaced it. No more than a hundred plans are held.
\<close>

theorem portal_tickets_taken_once:
  assumes "portal_reach (new_portal cx name launch session csrf digest t0) h t s" "h = h1 @ x # h2"
  shows "(redeemed x k \<longrightarrow> k = launch \<and> sec_now x < t0 + minute \<and> (\<forall>y \<in> set h1 \<union> set h2. \<forall>j. \<not> redeemed y j))
    \<and> (took_plan x k p \<longrightarrow> \<not> pp_used p \<and> sec_now x \<le> pp_expires p
        \<and> (\<exists>g1 y g2. h1 = g1 @ y # g2 \<and> issued_plan y k p \<and> (\<forall>z \<in> set g2. \<forall>q. \<not> took_plan z k q \<and> \<not> issued_plan z k q)))
    \<and> (took_break x k b \<longrightarrow> \<not> bp_used b \<and> sec_now x \<le> bp_expires b
        \<and> sec_op x = ClaimBreak k (bp_application b) (bp_namespace b) (bp_action b)
        \<and> (\<exists>g1 y g2. h1 = g1 @ y # g2 \<and> issued_break y k b \<and> (\<forall>z \<in> set g2. \<forall>q. \<not> took_break z k q \<and> \<not> issued_break z k q)))
    \<and> length (ps_plans s) \<le> 100"
proof -
  let ?s0 = "new_portal cx name launch session csrf digest t0"
  obtain u s1 s2 where r: "portal_reach ?s0 h1 u s1"
    and x: "apply_op (sec_op x) (sec_now x) (sec_later x) s1 = (sec_answer x, s2)"
    using portal_reach_split [OF assms] by blast
  note times = claim_times [OF x]
  have after: "\<not> redeemed y j" if "redeemed x k" "y \<in> set h2" for y j
  proof
    assume "redeemed y j"
    obtain g1 g2 where "h2 = g1 @ y # g2" using \<open>y \<in> set h2\<close> by (meson split_list)
    then have "h = (h1 @ x # g1) @ y # g2" using assms(2) by simp
    from redeemed_once [OF assms(1) this \<open>redeemed y j\<close>] \<open>redeemed x k\<close> show False by auto
  qed
  have empty: "books_sound ?s0" "live_plan ?s0 k = None" "live_break ?s0 k = None" "ps_plans ?s0 = []"
    "ps_launchToken ?s0 = launch" "ps_launchUntil ?s0 = t0 + minute" for k
    by (simp_all add: new_portal_def books_sound_def live_plan_def live_break_def)
  show ?thesis
  proof (intro conjI impI)
    assume k: "redeemed x k"
    show "k = launch" using redeemed_once [OF assms k] empty(5) by simp
    show "sec_now x < t0 + minute" using times(1) [OF k] launch_until [OF r] empty(6) by simp
    show "\<forall>y \<in> set h1 \<union> set h2. \<forall>j. \<not> redeemed y j" using redeemed_once [OF assms k] after [OF k] by blast
  next
    assume k: "took_plan x k p"
    show "\<not> pp_used p" "sec_now x \<le> pp_expires p" using times(2) [OF k] by blast+
    show "\<exists>g1 y g2. h1 = g1 @ y # g2 \<and> issued_plan y k p \<and> (\<forall>z \<in> set g2. \<forall>q. \<not> took_plan z k q \<and> \<not> issued_plan z k q)"
      by (rule plan_book.taken_issued [OF assms(1) empty(1,2) assms(2) k])
  next
    assume k: "took_break x k b"
    show "\<not> bp_used b" "sec_now x \<le> bp_expires b" "sec_op x = ClaimBreak k (bp_application b) (bp_namespace b) (bp_action b)"
      using times(3) [OF k] by blast+
    show "\<exists>g1 y g2. h1 = g1 @ y # g2 \<and> issued_break y k b \<and> (\<forall>z \<in> set g2. \<forall>q. \<not> took_break z k q \<and> \<not> issued_break z k q)"
      by (rule break_book.taken_issued [OF assms(1) empty(1,3) assms(2) k])
  qed (rule plans_bounded [OF assms(1) empty(4)])
qed

text \<open>A history for the witnesses: a list of operations with their instants, run from a fresh portal.\<close>

fun play :: "portal_server \<Rightarrow> (portal_op \<times> int \<times> int) list \<Rightarrow> section_of list \<times> portal_server" where
  "play s [] = ([], s)"
| "play s ((opn, now, later) # ops) = (case apply_op opn now later s of (a, s1) \<Rightarrow>
     (case play s1 ops of (h, s2) \<Rightarrow> (section_at opn now later a # h, s2)))"

fun on_time :: "int \<Rightarrow> (portal_op \<times> int \<times> int) list \<Rightarrow> bool" where
  "on_time t [] = True"
| "on_time t ((opn, now, later) # ops) = (t \<le> now \<and> now \<le> later \<and> on_time later ops)"

lemma play_reach:
  "portal_reach s0 h t s \<Longrightarrow> on_time t ops \<Longrightarrow> play s ops = (g, s') \<Longrightarrow> \<exists>u. portal_reach s0 (h @ g) u s'"
proof (induction ops arbitrary: h t s g)
  case (Cons x ops)
  obtain opn now later where x: "x = (opn, now, later)" by (cases x)
  obtain a s1 g1 where a: "apply_op opn now later s = (a, s1)" "play s1 ops = (g1, s')"
    and g: "g = section_at opn now later a # g1"
    using Cons.prems(3) by (auto simp: x split: prod.splits)
  have "portal_reach s0 (h @ [section_at opn now later a]) later s1"
    using Cons.prems a(1) by (intro portal_reach.step) (auto simp: x)
  from Cons.IH [OF this _ a(2)] Cons.prems(2) show ?case by (simp add: x g)
qed auto

definition demo_context :: cli_context where
  "demo_context = \<lparr>cx_repository = ''o/r'', cx_defaultBranch = ''main'', cx_checkoutPath = ''/c'', cx_kubeconfig = [],
     cx_kubeContext = [], cx_clusterName = ''steadystate'', cx_profile = ''standard'', cx_httpPort = 8080, cx_httpsPort = 8443\<rparr>"

definition demo_portal :: portal_server where
  "demo_portal = new_portal demo_context ''local'' ''launch'' ''session'' ''csrf'' ''digest'' 0"

definition demo_break :: portal_break_plan where
  "demo_break = \<lparr>bp_namespace = ''team-a'', bp_application = ''web'', bp_action = ''abort'', bp_uid = ''u'',
     bp_resourceVersion = ''7'', bp_before = JNull, bp_expires = 100, bp_used = False\<rparr>"

definition demo_tickets :: "(portal_op \<times> int \<times> int) list" where
  "demo_tickets = [(RedeemLaunch ''launch'', 1, 1), (RedeemLaunch ''launch'', 2, 2), (StoreBreak ''k'' demo_break, 3, 3),
     (ClaimBreak ''k'' ''web'' ''team-a'' ''abort'', 4, 4), (ClaimBreak ''k'' ''web'' ''team-a'' ''abort'', 5, 5)]"

lemma demo_reach: "on_time 0 ops \<Longrightarrow> \<exists>u s. portal_reach demo_portal (fst (play demo_portal ops)) u s"
proof -
  assume "on_time 0 ops"
  obtain g s where p: "play demo_portal ops = (g, s)" by fastforce
  from play_reach [OF portal_reach.start \<open>on_time 0 ops\<close> this] show ?thesis unfolding p by auto
qed

theorem portal_tickets_taken_once_witness:
  "map sec_answer (fst (play demo_portal demo_tickets)) = [Verdict True, Verdict False, Acked, BreakTaken (Some demo_break), BreakTaken None]
    \<and> redeemed (hd (fst (play demo_portal demo_tickets))) ''launch'' \<and> sec_now (hd (fst (play demo_portal demo_tickets))) < minute"
proof -
  let ?h = "fst (play demo_portal demo_tickets)"
  have time: "on_time 0 demo_tickets" by (simp add: demo_tickets_def)
  obtain u s where "portal_reach demo_portal ?h u s"
    using demo_reach [OF time] by blast
  then have r: "portal_reach (new_portal demo_context ''local'' ''launch'' ''session'' ''csrf'' ''digest'' 0) ?h u s"
    by (simp add: demo_portal_def)
  have answers: "map sec_answer ?h = [Verdict True, Verdict False, Acked, BreakTaken (Some demo_break), BreakTaken None]"
    by (simp add: demo_tickets_def demo_portal_def new_portal_def book_ops demo_break_def minute_def hour_def apfst_def)
  have first: "redeemed (hd ?h) ''launch''"
    by (simp add: demo_tickets_def redeemed_def demo_portal_def new_portal_def redeem_launch_def minute_def split_def Let_def)
  have "?h = [] @ hd ?h # tl ?h" using answers by (cases ?h) auto
  from portal_tickets_taken_once [OF r this] first have "sec_now (hd ?h) < 0 + minute" by blast
  then show ?thesis using first answers by simp
qed

text \<open>
  C12: The rate limit of the portal's writes. The server keeps a list of instants that it prunes at each write; over every history
  a write is admitted exactly when fewer than ten writes were admitted in the minute before it, and so no window of
  a minute, wherever it starts, holds more than ten admitted writes.
\<close>

theorem portal_write_rate:
  assumes "portal_reach s0 h t s" "ps_writeTimes s0 = []"
  shows "length (filter (\<lambda>i. a < i \<and> i \<le> a + minute) (grants h)) \<le> 10
    \<and> (\<forall>h1 x h2. h = h1 @ x # h2 \<and> sec_op x = AllowWrite \<longrightarrow>
         sec_answer x = Verdict (length (filter (\<lambda>i. i > sec_now x - minute) (grants h1)) < 10))"
  using grants_per_minute [OF assms] allow_answer [OF assms] by blast

definition demo_writes :: "(portal_op \<times> int \<times> int) list" where
  "demo_writes = map (\<lambda>i. (AllowWrite, i, i)) [1..12] @ [(AllowWrite, minute + 2, minute + 2)]"

theorem portal_write_rate_witness:
  "map sec_answer (fst (play demo_portal demo_writes)) = replicate 10 (Verdict True) @ [Verdict False, Verdict False, Verdict True]
    \<and> length (filter (\<lambda>i. 0 < i \<and> i \<le> 0 + minute) (grants (fst (play demo_portal demo_writes)))) \<le> 10"
proof
  have "on_time 0 demo_writes" by code_simp
  from demo_reach [OF this] obtain u s where "portal_reach demo_portal (fst (play demo_portal demo_writes)) u s" by blast
  moreover have "ps_writeTimes demo_portal = []" by (simp add: demo_portal_def new_portal_def)
  ultimately show "length (filter (\<lambda>i. 0 < i \<and> i \<le> 0 + minute) (grants (fst (play demo_portal demo_writes)))) \<le> 10"
    using portal_write_rate by blast
  show "map sec_answer (fst (play demo_portal demo_writes))
      = replicate 10 (Verdict True) @ [Verdict False, Verdict False, Verdict True]"
    by code_simp
qed

text \<open>
  C11: The event stream refines an unbounded log. Over every history (of fewer than 2^64 sections): the buffer of the server
  is the last 128 events broadcast; identifiers strictly increase; a client that reconnects with the identifier of an
  event it saw is sent exactly the events broadcast after it, or the last 128 of them; and a channel, from its
  subscription on, delivers in order a part of what was broadcast since, and all of it as long as that is at most
  the channel's capacity of 16.
\<close>

theorem portal_events_refine_log:
  assumes "portal_reach (new_portal cx name launch session csrf digest t0) h t s" "length h < 2 ^ 64"
  shows "ps_events s = last_n 128 (event_log h)
    \<and> sorted_wrt (\<lambda>e f. event_id e < event_id f) (issued_events h)
    \<and> (\<forall>l1 e l2. event_log h = l1 @ e # l2 \<longrightarrow> missed_events (event_id e) (ps_events s) = last_n 128 l2)
    \<and> (\<forall>h1 y h2 c. h = h1 @ y # h2 \<and> sec_op y = Subscribe c \<and> on_channel c h2 \<longrightarrow>
         sec_answer y = Replay (last_n 128 (event_log h1))
         \<and> (\<exists>q. map_of (ps_listeners s) c = Some q \<and> subseq (received c h2 @ q) (event_log h2)
              \<and> (length (event_log h2) \<le> 16 \<longrightarrow> received c h2 @ q = event_log h2)))"
proof -
  let ?s0 = "new_portal cx name launch session csrf digest t0"
  have empty: "ps_events ?s0 = []" "ps_nextEventID ?s0 = 0" by (simp_all add: new_portal_def)
  have buffer: "ps_events s = last_n 128 (event_log h)" by (rule event_buffer [OF assms(1) empty(1)])
  have sorted: "sorted_wrt (\<lambda>e f. event_id e < event_id f) (issued_events h)"
    using issued_ids [OF assms(1) empty(2) assms(2)] by blast
  have replay: "sec_answer y = Replay (last_n 128 (event_log h1))" if split: "h = h1 @ y # h2" and sub: "sec_op y = Subscribe c" for h1 y h2 c
  proof -
    obtain u s1 s2 where r: "portal_reach ?s0 h1 u s1"
      and y: "apply_op (sec_op y) (sec_now y) (sec_later y) s1 = (sec_answer y, s2)"
      using portal_reach_split [OF assms(1) split] by blast
    then show ?thesis using sub event_buffer [OF r empty(1)] by (auto simp: subscribe_def)
  qed
  have missed: "missed_events (event_id e) (ps_events s) = last_n 128 l2" if log: "event_log h = l1 @ e # l2" for l1 e l2
    using missed_after [of l1 e l2] sorted_wrt_subseq [OF event_log_subseq sorted] by (simp add: buffer log)
  show ?thesis
    using buffer sorted replay missed channel_faithful [OF assms(1)] unfolding faithful_def by blast
qed

definition demo_events :: "(portal_op \<times> int \<times> int) list" where
  "demo_events = [(Broadcast ''a'' JNull, 1, 1), (Subscribe 0, 2, 2), (Broadcast ''b'' JNull, 3, 3), (Heartbeat 4, 4, 4),
     (ReceiveEvent 0, 5, 5), (Broadcast ''c'' JNull, 6, 6)]"

theorem portal_events_refine_log_witness:
  "map (\<lambda>e. (pe_id e, pe_type e)) (event_log (fst (play demo_portal demo_events))) = [(1, ''a''), (2, ''b''), (4, ''c'')]
    \<and> ps_events (snd (play demo_portal demo_events)) = last_n 128 (event_log (fst (play demo_portal demo_events)))"
proof
  let ?h = "fst (play demo_portal demo_events)"
  obtain s where p: "play demo_portal demo_events = (?h, s)" by (metis prod.collapse)
  have "on_time 0 demo_events" by code_simp
  from play_reach [OF portal_reach.start this p]
  obtain u where "portal_reach (new_portal demo_context ''local'' ''launch'' ''session'' ''csrf'' ''digest'' 0) ?h u s"
    by (auto simp: demo_portal_def)
  moreover have "length ?h < 2 ^ 64"
  proof -
    have "length ?h = 6" by code_simp
    then show ?thesis by simp
  qed
  ultimately have "ps_events s = last_n 128 (event_log ?h)" by (rule portal_events_refine_log [THEN conjunct1])
  moreover have "snd (play demo_portal demo_events) = s" by (subst p) simp
  ultimately show "ps_events (snd (play demo_portal demo_events)) = last_n 128 (event_log ?h)" by (simp only:)
  show "map (\<lambda>e. (pe_id e, pe_type e)) (event_log ?h) = [(1, ''a''), (2, ''b''), (4, ''c'')]"
    by code_simp
qed

end
