(* ===== verification/Cli_Output.thy ===== *)
theory Cli_Output
  imports Renderer Cli_Config
begin

section \<open>What platformctl writes for the user\<close>

text \<open>
  \<open>internal/platformctl/output.go\<close> and \<open>ErrorMessage\<close> of \<open>root.go\<close>: the redaction of credential-bearing lines, and the
  path helpers of the commands. \<open>go_lower\<close> is \<open>strings.ToLower\<close> as far as ASCII text can tell: beside the capital
  letters, the Kelvin sign (E2 84 AA) becomes \<open>k\<close> and the dotted capital I (C4 B0) becomes \<open>i\<close>; no other
  rune has an ASCII lower case.
\<close>

fun go_lower :: "string \<Rightarrow> string" where
  "go_lower [] = []"
| "go_lower (a # s) =
     (if code a = 196 \<and> s \<noteq> [] \<and> code (hd s) = 176 then CHR ''i'' # go_lower (tl s)
      else if code a = 226 \<and> length s \<ge> 2 \<and> code (s ! 0) = 132 \<and> code (s ! 1) = 170
        then CHR ''k'' # go_lower (drop 2 s)
      else lower_char a # go_lower s)"

text \<open>
  \<open>strings.EqualFold\<close> with an ASCII string: the long s (C5 BF) and the Kelvin sign are the only other runes that fold to
  ASCII letters.
\<close>

fun go_fold :: "string \<Rightarrow> string" where
  "go_fold [] = []"
| "go_fold (a # s) =
     (if code a = 197 \<and> s \<noteq> [] \<and> code (hd s) = 191 then CHR ''s'' # go_fold (tl s)
      else if code a = 226 \<and> length s \<ge> 2 \<and> code (s ! 0) = 132 \<and> code (s ! 1) = 170
        then CHR ''k'' # go_fold (drop 2 s)
      else lower_char a # go_fold s)"

definition fold_is :: "string \<Rightarrow> string \<Rightarrow> bool" where
  "fold_is s ascii = (go_fold s = to_lower ascii)"

definition redact_markers :: "string list" where
  "redact_markers = [''token'', ''password'', ''private_key'', ''private-key'', ''sops_age_key'',
     ''database_url'', ''pgpassword'']"

definition index_any :: "string \<Rightarrow> string \<Rightarrow> nat option" where
  "index_any s cs = (let n = length (takeWhile (\<lambda>c. c \<notin> set cs) s) in if n < length s then Some n else None)"

definition redact_line :: "string \<Rightarrow> string" where
  \<comment> \<open>the first marker decides; the separator is looked for in the line as it is written\<close>
  "redact_line line =
     (if list_ex (str_contains (go_lower line)) redact_markers then
        (case index_any line '':='' of
           Some separator \<Rightarrow> take (separator + 1) line @ '' <redacted>''
         | None \<Rightarrow> line)
      else line)"

definition Redact :: "string \<Rightarrow> string" where
  "Redact value = join [CHR 0x0A] (map redact_line (split_on CHR 0x0A value))"

definition ErrorMessage :: "cli_error option \<Rightarrow> string" where
  "ErrorMessage err = (case err of None \<Rightarrow> [] | Some e \<Rightarrow> Redact (ce_text e))"

subsection \<open>Paths of the host\<close>

fun strip_slashes :: "string \<Rightarrow> string" where
  \<comment> \<open>of a reversed path\<close>
  "strip_slashes (CHR ''/'' # s) = strip_slashes s"
| "strip_slashes s = s"

definition path_base :: "string \<Rightarrow> string" where
  \<comment> \<open>\<open>filepath.Base\<close> with the separator \<open>/\<close>\<close>
  "path_base p =
     (if p = [] then ''.''
      else let s = rev (strip_slashes (rev p)) in
        if s = [] then ''/'' else last (split_on CHR ''/'' s))"

definition path_join :: "string list \<Rightarrow> string" where
  \<comment> \<open>\<open>path.Join\<close>: the non-empty elements, cleaned\<close>
  "path_join elements =
     (let es = filter (\<lambda>e. e \<noteq> []) elements in if es = [] then [] else clean_path (join ''/'' es))"

definition replace_char :: "char \<Rightarrow> string \<Rightarrow> string \<Rightarrow> string" where
  \<comment> \<open>\<open>strings.ReplaceAll(s, old, new)\<close> with an \<open>old\<close> of one byte\<close>
  "replace_char old new s = concat (map (\<lambda>c. if c = old then new else [c]) s)"

definition trim_chars :: "char \<Rightarrow> string \<Rightarrow> string" where
  "trim_chars c s = rev (dropWhile (\<lambda>d. d = c) (rev (dropWhile (\<lambda>d. d = c) s)))"

definition trim_right_chars :: "char \<Rightarrow> string \<Rightarrow> string" where
  "trim_right_chars c s = rev (dropWhile (\<lambda>d. d = c) (rev s))"

definition backslash :: char where "backslash = CHR 0x5C"

definition joinPlatformPath :: "string \<Rightarrow> string list \<Rightarrow> string" where
  "joinPlatformPath goos elements =
     (if elements = [] \<or> trim_space (hd elements) = [] then []
      else if goos \<noteq> ''windows'' then path_join elements
      else join [backslash] (foldl (\<lambda>parts element.
             let element = replace_char CHR ''/'' [backslash] element;
                 element = (if parts = [] then trim_right_chars backslash element
                            else trim_chars backslash element) in
             if element = [] then parts else parts @ [element]) [] elements))"

subsection \<open>What redaction hides\<close>

lemma index_any_Some:
  "index_any s cs = Some n \<Longrightarrow>
     s = take n s @ (s ! n) # drop (Suc n) s \<and> s ! n \<in> set cs \<and> set (take n s) \<inter> set cs = {} \<and> n < length s"
proof -
  let ?w = "takeWhile (\<lambda>c. c \<notin> set cs) s"
  assume "index_any s cs = Some n"
  then have n: "n = length ?w" "n < length s" by (auto simp: index_any_def Let_def split: if_splits)
  have t: "take n s = ?w" unfolding n(1) by (rule takeWhile_eq_take [symmetric])
  have "s ! n \<in> set cs" using nth_length_takeWhile [of "\<lambda>c. c \<notin> set cs" s] n by simp
  moreover have "set (take n s) \<inter> set cs = {}" by (auto simp: t dest: set_takeWhileD)
  ultimately show ?thesis using n id_take_nth_drop [OF n(2)] by simp
qed

lemma index_any_first:
  "set p \<inter> set cs = {} \<Longrightarrow> c \<in> set cs \<Longrightarrow> index_any (p @ c # s) cs = Some (length p)"
proof -
  assume p: "set p \<inter> set cs = {}" and c: "c \<in> set cs"
  have "takeWhile (\<lambda>c. c \<notin> set cs) (p @ c # s) = p"
    using p c by (induction p) auto
  then show ?thesis by (simp add: index_any_def)
qed

lemma go_lower_append_ascii:
  "list_all (\<lambda>c. code c < 128) p \<Longrightarrow> go_lower (p @ s) = to_lower p @ go_lower s"
  by (induction p) (auto simp: to_lower_def)

lemma redact_line_marked:
  assumes "redact_line line \<noteq> line"
  shows "\<exists>pre c. c \<in> {CHR '':'', CHR ''=''} \<and> set pre \<inter> {CHR '':'', CHR ''=''} = {}
    \<and> redact_line line = pre @ c # '' <redacted>'' \<and> (\<exists>v. line = pre @ c # v)"
proof -
  obtain n where n: "index_any line '':='' = Some n" and r: "redact_line line = take (n + 1) line @ '' <redacted>''"
    using assms by (auto simp: redact_line_def split: if_splits option.splits)
  note i = index_any_Some [OF n]
  have "take (n + 1) line = take n line @ [line ! n]" using i by (simp add: take_Suc_conv_app_nth)
  with i r show ?thesis
    by (intro exI [of _ "take n line"] exI [of _ "line ! n"]) auto
qed

lemma redact_line_newline: "CHR 0x0A \<notin> set line \<Longrightarrow> CHR 0x0A \<notin> set (redact_line line)"
  by (auto simp: redact_line_def split: option.splits dest: in_set_takeD)

lemma redact_line_value:
  assumes "list_ex (str_contains (go_lower line)) redact_markers" "line = pre @ c # v"
    "c \<in> {CHR '':'', CHR ''=''}" "set pre \<inter> {CHR '':'', CHR ''=''} = {}"
  shows "redact_line line = pre @ c # '' <redacted>''"
proof -
  have "index_any line '':='' = Some (length pre)"
    unfolding assms(2) by (rule index_any_first) (use assms(3,4) in auto)
  then show ?thesis using assms(1) by (simp add: redact_line_def assms(2))
qed

lemma redact_line_again: "redact_line (redact_line line) = redact_line line"
proof (cases "redact_line line = line")
  case False
  then obtain pre c where p: "c \<in> {CHR '':'', CHR ''=''}" "set pre \<inter> {CHR '':'', CHR ''=''} = {}"
    "redact_line line = pre @ c # '' <redacted>''"
    using redact_line_marked [OF False] by (elim exE conjE)
  show ?thesis
  proof (cases "list_ex (str_contains (go_lower (redact_line line))) redact_markers")
    case True
    from redact_line_value [OF this p(3,1,2)] p(3) show ?thesis by simp
  next
    case False
    then show ?thesis unfolding redact_line_def [of "redact_line line"] by (rule if_not_P)
  qed
qed simp

lemma Redact_lines:
  "split_on CHR 0x0A (Redact value) = map redact_line (split_on CHR 0x0A value)"
proof -
  have "CHR 0x0A \<notin> set (redact_line l)" if "l \<in> set (split_on CHR 0x0A value)" for l
    using that split_on_free redact_line_newline by blast
  then show ?thesis
    by (intro join_inj [where c = "CHR 0x0A"]) (auto simp: join_split_on Redact_def dest: split_on_free)
qed

lemma Redact_idem: "Redact (Redact value) = Redact value"
  by (simp add: Redact_def [of "Redact value"] Redact_lines redact_line_again comp_def)
     (simp add: Redact_def)

end
