(* ===== verification/Ctl.thy ===== *)
theory Ctl
  imports Portal_State Cli_Output Session_Specs
begin

section \<open>What the commands of platformctl talk to\<close>

text \<open>
  A command is a program over a session (\<open>Sessions\<close>) whose calls are: child processes and files of the host, the
  Kubernetes API, the clock and random sources, the terminal, and the mutex-protected sections of the portal
  (\<open>Portal_State\<close>). The theory models \<open>internal/platformctl/kube.go\<close>, \<open>runExternal\<close> and the executables it may start
  (\<open>doctor.go\<close>), the options and \<open>loadContext\<close> of \<open>root.go\<close>, and \<open>SaveConfig\<close>/\<open>LoadConfig\<close> of \<open>config.go\<close>.
  A deadline of a Go context can strike at any call: it is an answer of that call.
  Objects of the API are JSON trees, read with the \<open>Nested\<close> functions of the library. The checkout is read as one tree per call.
\<close>

subsection \<open>Calls and answers\<close>

record gvr =
  gvr_group :: string
  gvr_version :: string
  gvr_resource :: string

record kube_event =
  ev_name :: string
  ev_namespace :: string
  ev_apiVersion :: string
  ev_kind :: string
  ev_object :: string
  ev_uid :: string
  ev_resourceVersion :: string
  ev_reason :: string
  ev_message :: string
  ev_type :: string
  ev_time :: int

record raw_error =
  rw_text :: string
  rw_stderr :: string     \<comment> \<open>of a child process\<close>
  rw_stdout :: string
  rw_deadline :: bool     \<comment> \<open>the context was cancelled or its deadline passed\<close>
  rw_absent :: bool       \<comment> \<open>\<open>os.IsNotExist\<close>\<close>
  rw_conflict :: bool     \<comment> \<open>\<open>IsConflict\<close> or \<open>IsInvalid\<close>\<close>

datatype proc_call =
  StartProcess string string "string list" "string list"    \<comment> \<open>directory, executable, arguments, environment; \<open>[]\<close> to inherit it\<close>
| KillProcess nat | AwaitExit nat
| AwaitProcess nat             \<comment> \<open>until the process ends or the context is done\<close>
| AwaitWithin nat int          \<comment> \<open>until the process ends or the time is over\<close>
| KillGroup nat
| CreateJob | ConfigureJob nat | OpenPid nat | AssignJob nat nat | TerminateJob nat | CloseHandle nat
| Environ | WalkSources string
| SpawnWatcher string "string list" | SelectWatch nat | ReceiveResult | CancelContext | ContextError | ParentError
| ListenOn string | ServePortal | ShutdownPortal | CloseListener

datatype ctl_call =
  RunCommand string string "string list"        \<comment> \<open>directory, executable, arguments\<close>
| LookPath string | StatPath string | ReadPath string | WritePath string string | MakeDirs string
| Getenv string | UserHome | WorkDir | CurrentUser | ListenPort int
| ReadCheckout string
| OpenCluster cli_context
| KubeGet gvr string string | KubeList gvr string string
| KubePatchStatus gvr string string "json list" | KubeCreateEvent kube_event
| ServerVersion | ListNodes | ListPodNames string string | PodStream string string "(string \<times> string) list"
| HttpGet string
| ReadClock | FreshUUID | RandomHex nat | SleepFor int
| ReadLine | WriteOut string | WriteTable "string list" | WriteErr string
| Locked portal_op
| SelectStream nat | WriteStream string       \<comment> \<open>the event stream of the portal\<close>
| Process proc_call                           \<comment> \<open>child processes that outlive a call, and what supervises them\<close>

datatype wake = Cancelled | EventReady | Tick int | Ended "raw_error option"

datatype ctl_resp =
  Done
| Woken wake
| Text string
| Failed raw_error
| FileInfo bool          \<comment> \<open>whether the path is a directory\<close>
| Checkout fs
| Opened string          \<comment> \<open>a client, with the URL of its server\<close>
| Object json
| Objects "json list"
| Names "string list"
| Http int string
| Instant int
| Answered portal_answer
| Handle nat             \<comment> \<open>a process or a handle of the system\<close>
| Files "(string \<times> bool \<times> int \<times> int) list"     \<comment> \<open>path, directory, size and time of the last change of each entry\<close>

type_synonym 'a ctl = "(ctl_call, ctl_resp, 'a) prog_of"
type_synonym ctl_trace = "(ctl_call \<times> ctl_resp) list"

definition broken_answer :: raw_error where
  \<comment> \<open>no answer of the kind that the call has\<close>
  "broken_answer = \<lparr>rw_text = ''unexpected answer'', rw_stderr = [], rw_stdout = [], rw_deadline = False, rw_absent = False,
     rw_conflict = False\<rparr>"

definition text_of :: "ctl_resp \<Rightarrow> raw_error + string" where
  "text_of r = (case r of Text s \<Rightarrow> Inr s | Failed e \<Rightarrow> Inl e | _ \<Rightarrow> Inl broken_answer)"

definition done_of :: "ctl_resp \<Rightarrow> raw_error option" where
  "done_of r = (case r of Done \<Rightarrow> None | Failed e \<Rightarrow> Some e | _ \<Rightarrow> Some broken_answer)"

definition object_of_resp :: "ctl_resp \<Rightarrow> raw_error + json" where
  "object_of_resp r = (case r of Object j \<Rightarrow> Inr j | Failed e \<Rightarrow> Inl e | _ \<Rightarrow> Inl broken_answer)"

definition objects_of_resp :: "ctl_resp \<Rightarrow> raw_error + json list" where
  "objects_of_resp r = (case r of Objects js \<Rightarrow> Inr js | Failed e \<Rightarrow> Inl e | _ \<Rightarrow> Inl broken_answer)"

definition names_of_resp :: "ctl_resp \<Rightarrow> raw_error + string list" where
  "names_of_resp r = (case r of Names ns \<Rightarrow> Inr ns | Failed e \<Rightarrow> Inl e | _ \<Rightarrow> Inl broken_answer)"

definition instant_of :: "ctl_resp \<Rightarrow> int" where
  "instant_of r = (case r of Instant t \<Rightarrow> t | _ \<Rightarrow> 0)"

definition time_now :: "int ctl" where
  "time_now = do { r \<leftarrow> invoke ReadClock; ret (instant_of r) }"

text \<open>Go code that stops at the first error.\<close>

definition then_do :: "('e + 'a) ctl \<Rightarrow> ('a \<Rightarrow> ('e + 'b) ctl) \<Rightarrow> ('e + 'b) ctl" where
  "then_do m f = do { r \<leftarrow> m; case r of Inl e \<Rightarrow> ret (Inl e) | Inr a \<Rightarrow> f a }"

definition fail :: "'e \<Rightarrow> ('e + 'a) ctl" where "fail e = ret (Inl e)"
definition yield :: "'a \<Rightarrow> ('e + 'a) ctl" where "yield a = ret (Inr a)"
definition lift :: "'e + 'a \<Rightarrow> ('e + 'a) ctl" where "lift r = ret r"

definition always :: "'a ctl \<Rightarrow> ('e + 'a) ctl" where
  \<comment> \<open>a step that cannot fail, or whose error is dropped\<close>
  "always m = do { a \<leftarrow> m; ret (Inr a) }"

subsection \<open>The environment of a command\<close>

record build_info =
  bi_version :: string
  bi_commit :: string
  bi_date :: string
  bi_dirty :: string
  bi_go :: string
  bi_portalVersion :: string
  bi_portalAssetsDigest :: string

record options =
  op_configPath :: string
  op_auditDir :: string
  op_contextName :: string
  op_format :: string
  op_quiet :: bool
  op_build :: build_info

record request_run =
  rr_databaseID :: int
  rr_title :: string
  rr_status :: string
  rr_conclusion :: string
  rr_url :: string

text \<open>
  What the program is built with and does not define: the renderer's library, the operating system it was compiled for, the
  diff library, the codecs of its own documents, URL escaping and the formats of times.
\<close>

record cenv =
  cn_rlib :: rlib
  cn_goos :: string
  cn_goVersion :: string
  cn_assetsDigest :: string
  config_unmarshal :: "string \<Rightarrow> string + config"
  config_marshal :: "config \<Rightarrow> string + string"
  json_indent :: "json \<Rightarrow> string"
  json_text :: "json \<Rightarrow> string"
  json_parse :: "string \<Rightarrow> json option"
  parse_runs :: "string \<Rightarrow> string + request_run list"
  parse_names :: "string \<Rightarrow> string list option"
  parse_descriptor :: "string \<Rightarrow> string + service_descriptor"
  unified_diff :: "string \<Rightarrow> string \<Rightarrow> string \<Rightarrow> string \<Rightarrow> cli_error + string"
  path_escape :: "string \<Rightarrow> string"
  query_encode :: "(string \<times> string) list \<Rightarrow> string"
  time_json :: "int \<Rightarrow> string"
  gib_text :: "int \<Rightarrow> string"       \<comment> \<open>bytes as \<open>%.1f\<close> GiB\<close>
  name_uuid :: "string \<Rightarrow> string"    \<comment> \<open>the UUID of version 5 of a name in the URL name space\<close>

abbreviation lib_of :: "cenv \<Rightarrow> lib" where "lib_of E \<equiv> rl_lib (cn_rlib E)"

subsection \<open>Output\<close>

text \<open>\<open>Printer.Table\<close>: nothing when quiet, rows for the table format, the machine value otherwise.\<close>

definition print_value :: "cenv \<Rightarrow> options \<Rightarrow> json \<Rightarrow> (cli_error + unit) ctl" where
  "print_value E opts v =
     (if op_quiet opts then yield ()
      else if op_format opts = ''json'' then always (do { _ \<leftarrow> invoke (WriteOut (json_indent E v @ [CHR 0x0A])); ret () })
      else if op_format opts = ''yaml'' then always (do { _ \<leftarrow> invoke (WriteOut (yaml_marshal (cn_rlib E) v)); ret () })
      else fail (errorf ''table output requires a table-shaped command''))"

definition tab_join :: "string list \<Rightarrow> string" where "tab_join cells = join [CHR 0x09] cells"

definition print_table ::
    "cenv \<Rightarrow> options \<Rightarrow> string list \<Rightarrow> string list list \<Rightarrow> json \<Rightarrow> (cli_error + unit) ctl" where
  "print_table E opts headers rows v =
     (if op_quiet opts then yield ()
      else if op_format opts \<noteq> ''table'' then print_value E opts v
      else always (do { _ \<leftarrow> invoke (WriteTable (map tab_join (headers # rows))); ret () }))"

definition check_format :: "cenv \<Rightarrow> options \<Rightarrow> cli_error option" where
  \<comment> \<open>\<open>PersistentPreRunE\<close> of the root command\<close>
  "check_format E opts =
     (if op_format opts \<in> {''table'', ''json'', ''yaml''} then None
      else Some (exitError ExitUsage (''unsupported output format '' @ go_quote (lib_of E) (op_format opts))))"

subsection \<open>Child processes\<close>

definition look_path :: "string \<Rightarrow> (raw_error + string) ctl" where
  "look_path name = do { r \<leftarrow> invoke (LookPath name); ret (text_of r) }"

definition getenv :: "string \<Rightarrow> string ctl" where
  "getenv key = do { r \<leftarrow> invoke (Getenv key); ret (case text_of r of Inl _ \<Rightarrow> [] | Inr s \<Rightarrow> s) }"

definition is_regular :: "ctl_resp \<Rightarrow> bool" where
  "is_regular r = (case r of FileInfo dir \<Rightarrow> \<not> dir | _ \<Rightarrow> False)"

fun first_existing :: "string list \<Rightarrow> string option ctl" where
  "first_existing [] = ret None"
| "first_existing (c # cs) =
     (if c = [] then first_existing cs
      else do { r \<leftarrow> invoke (StatPath c); if is_regular r then ret (Some c) else first_existing cs })"

definition selectGitHubCLIExecutable :: "string \<Rightarrow> string \<Rightarrow> string \<Rightarrow> string ctl" where
  "selectGitHubCLIExecutable goos home localAppData =
     (let name = (if goos = ''windows'' then ''gh.exe'' else ''gh'');
          candidates = (if goos = ''windows''
            then [joinPlatformPath goos [home, ''.local'', ''bin'', name],
                  joinPlatformPath goos [localAppData, ''Programs'', ''GitHub CLI'', name]]
            else [joinPlatformPath goos [home, ''.local'', ''bin'', name]]) in do {
      found \<leftarrow> first_existing candidates;
      case found of
        Some candidate \<Rightarrow> ret candidate
      | None \<Rightarrow> do {
          l \<leftarrow> look_path name;
          ret (case l of Inr executable \<Rightarrow> executable | Inl _ \<Rightarrow> name) } })"

definition githubCLIExecutable :: "cenv \<Rightarrow> string ctl" where
  "githubCLIExecutable E = do {
     h \<leftarrow> invoke UserHome;
     localAppData \<leftarrow> getenv ''LOCALAPPDATA'';
     selectGitHubCLIExecutable (cn_goos E) (case text_of h of Inl _ \<Rightarrow> [] | Inr s \<Rightarrow> s) localAppData }"

definition allowed_executables :: "string list" where
  "allowed_executables = [''git'', ''git.exe'', ''gh'', ''gh.exe'', ''docker'', ''docker.exe'', ''kubectl'',
     ''kubectl.exe'', ''pwsh'', ''pwsh.exe'', ''powershell'', ''powershell.exe'']"

definition command_error :: "string \<Rightarrow> raw_error \<Rightarrow> cli_error" where
  "command_error executable e =
     (if rw_deadline e then exitError ExitTimeout (executable @ '' command timed out'')
      else let message = trim_space (rw_stderr e) in
        errorf (Redact (if message = [] then rw_text e else message)))"

definition start_external :: "cenv \<Rightarrow> string \<Rightarrow> string \<Rightarrow> string list \<Rightarrow> (cli_error + string) ctl" where
  \<comment> \<open>\<open>runExternal\<close> once the GitHub executable is resolved\<close>
  "start_external E directory executable arguments =
     (if go_lower (path_base executable) \<notin> set allowed_executables then
        fail (errorf (''unsupported prerequisite executable '' @ go_quote (lib_of E) executable))
      else do {
        r \<leftarrow> invoke (RunCommand directory executable arguments);
        ret (case text_of r of
          Inl e \<Rightarrow> Inl (command_error executable e)
        | Inr stdout \<Rightarrow> Inr (trim_space stdout)) })"

definition runExternal :: "cenv \<Rightarrow> string \<Rightarrow> string \<Rightarrow> string list \<Rightarrow> (cli_error + string) ctl" where
  "runExternal E directory executable arguments =
     (let base = go_lower (path_base executable) in
      if base = ''gh'' \<or> base = ''gh.exe'' then do {
        executable \<leftarrow> githubCLIExecutable E;
        start_external E directory executable arguments }
      else start_external E directory executable arguments)"

definition selectPowerShellExecutable :: "string \<Rightarrow> (cli_error + string) ctl" where
  "selectPowerShellExecutable goos = do {
     p \<leftarrow> look_path ''pwsh'';
     case p of
       Inr executable \<Rightarrow> yield executable
     | Inl _ \<Rightarrow>
         if goos = ''windows'' then do {
           q \<leftarrow> look_path ''powershell.exe'';
           case q of
             Inr executable \<Rightarrow> yield executable
           | Inl _ \<Rightarrow> fail (exitError ExitUnhealthy ''PowerShell 7 or Windows PowerShell 5.1 is required'') }
         else fail (exitError ExitUnhealthy ''PowerShell 7 (pwsh) is required'') }"

definition powerShellArguments :: "string \<Rightarrow> string list \<Rightarrow> string list" where
  "powerShellArguments executable arguments =
     (if fold_is (path_base (replace_char backslash ''/'' executable)) ''powershell.exe'' then
        [''-NoProfile'', ''-ExecutionPolicy'', ''Bypass'']
        @ (case arguments of a # as \<Rightarrow> if fold_is a ''-NoProfile'' then as else arguments | [] \<Rightarrow> [])
      else arguments)"

subsection \<open>Unstructured objects\<close>

definition nested_string :: "lib \<Rightarrow> json \<Rightarrow> string list \<Rightarrow> string" where
  \<comment> \<open>the empty string when the field is absent or no string\<close>
  "nested_string L j p = (case nested_field L j p of Some (JStr s) \<Rightarrow> s | _ \<Rightarrow> [])"

definition nested_int :: "lib \<Rightarrow> json \<Rightarrow> string list \<Rightarrow> int option" where
  "nested_int L j p = (case nested_field L j p of Some (JInt n) \<Rightarrow> Some n | _ \<Rightarrow> None)"

definition nested_bool :: "lib \<Rightarrow> json \<Rightarrow> string list \<Rightarrow> bool" where
  "nested_bool L j p = (case nested_field L j p of Some (JBool b) \<Rightarrow> b | _ \<Rightarrow> False)"

definition nested_slice :: "lib \<Rightarrow> json \<Rightarrow> string list \<Rightarrow> json list" where
  "nested_slice L j p = (case nested_field L j p of Some (JArr js) \<Rightarrow> js | _ \<Rightarrow> [])"

definition nested_map :: "lib \<Rightarrow> json \<Rightarrow> string list \<Rightarrow> (string \<times> json) list option" where
  "nested_map L j p = (case nested_field L j p of Some (JObj es) \<Rightarrow> Some es | _ \<Rightarrow> None)"

definition nested_strings :: "lib \<Rightarrow> json \<Rightarrow> string list \<Rightarrow> string list" where
  \<comment> \<open>\<open>NestedStringSlice\<close>: nothing unless every element is a string\<close>
  "nested_strings L j p =
     (let js = nested_slice L j p in
      if list_all (\<lambda>x. case x of JStr _ \<Rightarrow> True | _ \<Rightarrow> False) js
      then map (\<lambda>x. case x of JStr s \<Rightarrow> s | _ \<Rightarrow> []) js else [])"

abbreviation get_name where "get_name L j \<equiv> nested_string L j [''metadata'', ''name'']"
abbreviation get_namespace where "get_namespace L j \<equiv> nested_string L j [''metadata'', ''namespace'']"
abbreviation get_uid where "get_uid L j \<equiv> nested_string L j [''metadata'', ''uid'']"
abbreviation get_resourceVersion where "get_resourceVersion L j \<equiv> nested_string L j [''metadata'', ''resourceVersion'']"
abbreviation get_created where "get_created L j \<equiv> nested_string L j [''metadata'', ''creationTimestamp'']"

definition get_generation :: "lib \<Rightarrow> json \<Rightarrow> int" where
  "get_generation L j = (case nested_int L j [''metadata'', ''generation''] of Some n \<Rightarrow> n | None \<Rightarrow> 0)"

definition get_annotation :: "lib \<Rightarrow> json \<Rightarrow> string \<Rightarrow> string" where
  "get_annotation L j key = nested_string L j [''metadata'', ''annotations'', key]"

definition entry :: "(string \<times> json) list \<Rightarrow> string \<Rightarrow> json" where
  \<comment> \<open>the value of a key of a \<open>map[string]any\<close>, \<open>nil\<close> when it is absent\<close>
  "entry es k = (case map_of es k of Some v \<Rightarrow> v | None \<Rightarrow> JNull)"

definition entry_string :: "(string \<times> json) list \<Rightarrow> string \<Rightarrow> string" where
  "entry_string es k = (case entry es k of JStr s \<Rightarrow> s | _ \<Rightarrow> [])"

end
