(* ===== verification/Ctl_Kube.thy ===== *)
theory Ctl_Kube
  imports Ctl
begin

section \<open>The cluster client and the configuration file\<close>

text \<open>
  \<open>internal/platformctl/kube.go\<close>, the paths and the reading and writing of the configuration (\<open>config.go\<close>), and
  \<open>loadContext\<close> (\<open>root.go\<close>). A client is the URL of its API server.
\<close>

subsection \<open>Resources\<close>

definition platform_gvr :: "string \<Rightarrow> gvr" where
  "platform_gvr r = \<lparr>gvr_group = ''platform.steadystate.dev'', gvr_version = ''v1alpha1'', gvr_resource = r\<rparr>"
definition argo_gvr :: "string \<Rightarrow> gvr" where
  "argo_gvr r = \<lparr>gvr_group = ''argoproj.io'', gvr_version = ''v1alpha1'', gvr_resource = r\<rparr>"
definition teamGVR :: gvr where "teamGVR = platform_gvr ''teams''"
definition applicationGVR :: gvr where "applicationGVR = platform_gvr ''applications''"
definition databaseGVR :: gvr where "databaseGVR = platform_gvr ''databases''"
definition rolloutGVR :: gvr where "rolloutGVR = argo_gvr ''rollouts''"
definition analysisRunGVR :: gvr where "analysisRunGVR = argo_gvr ''analysisruns''"
definition policyReportGVR :: gvr where
  "policyReportGVR = \<lparr>gvr_group = ''wgpolicyk8s.io'', gvr_version = ''v1alpha2'', gvr_resource = ''policyreports''\<rparr>"
definition backupGVR :: gvr where
  "backupGVR = \<lparr>gvr_group = ''postgresql.cnpg.io'', gvr_version = ''v1'', gvr_resource = ''backups''\<rparr>"
definition httpRouteGVR :: gvr where
  "httpRouteGVR = \<lparr>gvr_group = ''gateway.networking.k8s.io'', gvr_version = ''v1'', gvr_resource = ''httproutes''\<rparr>"
definition argoAppGVR :: gvr where "argoAppGVR = argo_gvr ''applications''"
definition apps_gvr :: "string \<Rightarrow> gvr" where
  "apps_gvr r = \<lparr>gvr_group = ''apps'', gvr_version = ''v1'', gvr_resource = r\<rparr>"
definition deploymentGVR :: gvr where "deploymentGVR = apps_gvr ''deployments''"
definition replicaSetGVR :: gvr where "replicaSetGVR = apps_gvr ''replicasets''"
definition podGVR :: gvr where
  "podGVR = \<lparr>gvr_group = [], gvr_version = ''v1'', gvr_resource = ''pods''\<rparr>"

subsection \<open>Errors\<close>

definition kubernetesError :: "raw_error \<Rightarrow> string \<Rightarrow> string \<Rightarrow> string \<Rightarrow> cli_error" where
  "kubernetesError e resource namespace name =
     (if rw_deadline e then exitError ExitTimeout (''Kubernetes request for '' @ resource @ '' timed out'')
      else let message = go_lower (rw_text e) in
        if str_contains message ''not found'' then
          exitError ExitNotFound (resource @ '' '' @ namespace @ ''/'' @ name @ '' was not found'')
        else if str_contains message ''forbidden'' \<or> str_contains message ''unauthorized'' then
          exitError ExitAuth (''Kubernetes denied access to '' @ resource @ '': '' @ rw_text e)
        else exitError ExitRemote (''read Kubernetes '' @ resource @ '': '' @ rw_text e))"

subsection \<open>The client\<close>

definition NewClusterClient :: "cli_context \<Rightarrow> (cli_error + string) ctl" where
  "NewClusterClient cx = do {
     r \<leftarrow> invoke (OpenCluster cx);
     ret (case r of
       Opened host \<Rightarrow> Inr host
     | Failed e \<Rightarrow> Inl (exitError ExitAuth (''load Kubernetes context: '' @ rw_text e))
     | _ \<Rightarrow> Inl (exitError ExitAuth (''load Kubernetes context: '' @ rw_text broken_answer))) }"

definition kube_get :: "gvr \<Rightarrow> string \<Rightarrow> string \<Rightarrow> (cli_error + json) ctl" where
  "kube_get gvr namespace name = do {
     r \<leftarrow> invoke (KubeGet gvr namespace name);
     ret (case object_of_resp r of
       Inl e \<Rightarrow> Inl (kubernetesError e (gvr_resource gvr) namespace name)
     | Inr j \<Rightarrow> Inr j) }"

definition sort_objects :: "lib \<Rightarrow> json list \<Rightarrow> json list" where
  \<comment> \<open>by namespace, then by name; no two objects of a list have both in common\<close>
  "sort_objects L js = sort_key (\<lambda>j. get_namespace L j) (sort_key (\<lambda>j. get_name L j) js)"

definition kube_list :: "lib \<Rightarrow> gvr \<Rightarrow> string \<Rightarrow> string \<Rightarrow> (cli_error + json list) ctl" where
  "kube_list L gvr namespace selector = do {
     r \<leftarrow> invoke (KubeList gvr namespace selector);
     ret (case objects_of_resp r of
       Inl e \<Rightarrow> Inl (kubernetesError e (gvr_resource gvr) namespace [])
     | Inr js \<Rightarrow> Inr (sort_objects L js)) }"

definition test_operation :: "string \<Rightarrow> json" where
  "test_operation resourceVersion = JObj [(''op'', JStr ''test''), (''path'', JStr ''/metadata/resourceVersion''),
     (''value'', JStr resourceVersion)]"

definition PatchStatus ::
    "gvr \<Rightarrow> string \<Rightarrow> string \<Rightarrow> string \<Rightarrow> json list \<Rightarrow> (cli_error + json) ctl" where
  "PatchStatus gvr namespace name resourceVersion operations = do {
     r \<leftarrow> invoke (KubePatchStatus gvr namespace name (test_operation resourceVersion # operations));
     ret (case object_of_resp r of
       Inr j \<Rightarrow> Inr j
     | Inl e \<Rightarrow>
         if rw_conflict e \<or> str_contains (go_lower (rw_text e)) ''test failed'' then
           Inl (exitError ExitConflict (gvr_resource gvr @ '' '' @ namespace @ ''/'' @ name
             @ '' changed before the break-glass action; inspect it again''))
         else Inl (kubernetesError e (gvr_resource gvr) namespace name)) }"

definition rollout_event_name :: "string \<Rightarrow> string \<Rightarrow> string \<Rightarrow> string" where
  "rollout_event_name rollout stg requestID =
     take 253 (rollout @ ''.platformctl.'' @ go_lower stg @ ''.'' @ replace_char CHR ''-'' [] requestID)"

definition rollout_event ::
    "lib \<Rightarrow> json \<Rightarrow> string \<Rightarrow> string \<Rightarrow> string \<Rightarrow> string \<Rightarrow> string \<Rightarrow> int \<Rightarrow> kube_event" where
  "rollout_event L rollout requestID stg reason message eventType now =
     \<lparr>ev_name = rollout_event_name (get_name L rollout) stg requestID,
      ev_namespace = get_namespace L rollout,
      ev_apiVersion = nested_string L rollout [''apiVersion''], ev_kind = nested_string L rollout [''kind''],
      ev_object = get_name L rollout, ev_uid = get_uid L rollout,
      ev_resourceVersion = get_resourceVersion L rollout, ev_reason = reason, ev_message = Redact message,
      ev_type = eventType, ev_time = now\<rparr>"

definition RecordRolloutEvent ::
    "lib \<Rightarrow> json \<Rightarrow> string \<Rightarrow> string \<Rightarrow> string \<Rightarrow> string \<Rightarrow> string \<Rightarrow> (cli_error + unit) ctl" where
  "RecordRolloutEvent L rollout requestID stg reason message eventType = do {
     now \<leftarrow> time_now;
     r \<leftarrow> invoke (KubeCreateEvent (rollout_event L rollout requestID stg reason message eventType now));
     ret (case done_of r of
       None \<Rightarrow> Inr ()
     | Some e \<Rightarrow> Inl (kubernetesError e ''events'' (get_namespace L rollout)
         (rollout_event_name (get_name L rollout) stg requestID))) }"

subsection \<open>Summaries\<close>

record resource_summary =
  rs_kind :: string
  rs_namespace :: string
  rs_name :: string
  rs_phase :: string
  rs_ready :: string
  rs_reason :: string
  rs_message :: string
  rs_generation :: int
  rs_observedGeneration :: int

definition conditions_of :: "lib \<Rightarrow> json \<Rightarrow> (string \<times> json) list list" where
  \<comment> \<open>the entries of \<open>status.conditions\<close> that are maps\<close>
  "conditions_of L j = concat (map (\<lambda>c. case c of JObj es \<Rightarrow> [es] | _ \<Rightarrow> [])
     (nested_slice L j [''status'', ''conditions'']))"

definition find_condition :: "lib \<Rightarrow> json \<Rightarrow> string \<Rightarrow> (string \<times> json) list option" where
  "find_condition L j ty = List.find (\<lambda>es. entry es ''type'' = JStr ty) (conditions_of L j)"

definition Summarize :: "lib \<Rightarrow> string \<Rightarrow> json \<Rightarrow> resource_summary" where
  "Summarize L kind j =
     (let es = (case find_condition L j ''Ready'' of None \<Rightarrow> [] | Some es \<Rightarrow> es) in
      \<lparr>rs_kind = kind, rs_namespace = get_namespace L j, rs_name = get_name L j,
       rs_phase = nested_string L j [''status'', ''phase''],
       rs_ready = entry_string es ''status'', rs_reason = entry_string es ''reason'',
       rs_message = entry_string es ''message'', rs_generation = get_generation L j,
       rs_observedGeneration =
         (case nested_int L j [''status'', ''observedGeneration''] of Some n \<Rightarrow> n | None \<Rightarrow> 0)\<rparr>)"

definition conditionStatus :: "lib \<Rightarrow> json \<Rightarrow> string \<Rightarrow> string \<times> string \<times> string" where
  "conditionStatus L j ty = (case find_condition L j ty of
     Some es \<Rightarrow> (entry_string es ''status'', entry_string es ''reason'', entry_string es ''message'')
   | None \<Rightarrow> (''Unknown'', ''ConditionMissing'', ty @ '' condition is absent''))"

subsection \<open>Pod logs and monitoring backends\<close>

definition PodLogs ::
    "string \<Rightarrow> string \<Rightarrow> bool \<Rightarrow> int \<Rightarrow> int \<Rightarrow> (cli_error + string \<times> string) ctl" where
  \<comment> \<open>the stream (as the text read from it) and the name of the first Pod\<close>
  "PodLogs namespace application follow tail since = do {
     r \<leftarrow> invoke (ListPodNames namespace (''app.kubernetes.io/instance='' @ application
            @ '',app.kubernetes.io/managed-by=steadystate''));
     case names_of_resp r of
       Inl e \<Rightarrow> fail (kubernetesError e ''pods'' namespace application)
     | Inr pods \<Rightarrow>
         if length pods = 0 then
           fail (exitError ExitNotFound (''no Pods found for Application '' @ namespace @ ''/'' @ application))
         else let pod = hd (sort pods) in do {
           r \<leftarrow> invoke (PodStream namespace pod
             ([(''container'', ''application''), (''follow'', show_bool follow), (''tailLines'', show_int tail)]
              @ (if since > 0 then [(''sinceSeconds'', show_int (since div 10 ^ 9))] else [])));
           ret (case text_of r of
             Inr stream \<Rightarrow> Inr (stream, pod)
           | Inl e \<Rightarrow> Inl (if rw_deadline e then exitError ExitTimeout ''Pod log request timed out''
               else exitError ExitRemote (''stream Pod logs: '' @ rw_text e))) } }"

definition proxy_url :: "cenv \<Rightarrow> string \<Rightarrow> string \<Rightarrow> int \<Rightarrow> string \<Rightarrow> (string \<times> string) list \<Rightarrow> string" where
  "proxy_url E host service port path query =
     (let path = (if has_prefix path ''/'' then path else ''/'' @ path); encoded = query_encode E query in
      trim_right_chars CHR ''/'' host @ ''/api/v1/namespaces/monitoring/services/http:'' @ path_escape E service
      @ '':'' @ show_int port @ ''/proxy'' @ path @ (if encoded \<noteq> [] then ''?'' @ encoded else []))"

definition proxy_limit :: nat where "proxy_limit = 8 * 2 ^ 20"

definition ServiceProxy ::
    "cenv \<Rightarrow> string \<Rightarrow> string \<Rightarrow> int \<Rightarrow> string \<Rightarrow> (string \<times> string) list \<Rightarrow> (cli_error + string) ctl" where
  "ServiceProxy E host service port path query = do {
     r \<leftarrow> invoke (HttpGet (proxy_url E host service port path query));
     ret (case r of
       Http status body \<Rightarrow>
         let body = take proxy_limit body in
         if status < 200 \<or> status \<ge> 300 then
           Inl (exitError ExitRemote (''monitoring backend returned HTTP '' @ show_int status @ '': '' @ Redact body))
         else if json_parse E body = None then
           Inl (exitError ExitRemote ''monitoring backend returned invalid JSON'')
         else Inr body
     | Failed e \<Rightarrow> Inl (if rw_deadline e then exitError ExitTimeout ''monitoring backend request timed out''
         else exitError ExitRemote (''query monitoring backend: '' @ rw_text e))
     | _ \<Rightarrow> Inl (exitError ExitRemote (''query monitoring backend: '' @ rw_text broken_answer))) }"

subsection \<open>The configuration file\<close>

definition plain :: "raw_error \<Rightarrow> cli_error" where "plain e = errorf (rw_text e)"

definition DefaultConfigPath :: "cenv \<Rightarrow> (cli_error + string) ctl" where
  "DefaultConfigPath E =
     (if cn_goos E = ''windows'' then do {
        appData \<leftarrow> getenv ''APPDATA'';
        if appData \<noteq> [] then yield (joinPlatformPath (cn_goos E) [appData, ''SteadyState'', ''config.yaml''])
        else do {
          d \<leftarrow> getenv ''AppData'';   \<comment> \<open>\<open>os.UserConfigDir\<close>\<close>
          if d = [] then fail (errorf ''%AppData% is not defined'')
          else yield (joinPlatformPath (cn_goos E) [d, ''SteadyState'', ''config.yaml'']) } }
      else do {
        base \<leftarrow> getenv ''XDG_CONFIG_HOME'';
        if base \<noteq> [] then yield (path_join [base, ''steadystate'', ''config.yaml''])
        else do {
          r \<leftarrow> invoke UserHome;
          ret (case text_of r of
            Inl e \<Rightarrow> Inl (plain e)
          | Inr home \<Rightarrow> Inr (path_join [path_join [home, ''.config''], ''steadystate'', ''config.yaml''])) } })"

definition configPath :: "cenv \<Rightarrow> options \<Rightarrow> (cli_error + string) ctl" where
  "configPath E opts = (if op_configPath opts \<noteq> [] then yield (op_configPath opts) else DefaultConfigPath E)"

definition LoadConfig :: "cenv \<Rightarrow> string \<Rightarrow> (cli_error + config) ctl" where
  "LoadConfig E path = do {
     r \<leftarrow> invoke (ReadPath path);
     ret (case text_of r of
       Inl e \<Rightarrow>
         if rw_absent e then
           Inl (exitError ExitUsage (''platformctl is not configured; run '' @ [CHR 0x27] @ ''platformctl config init'' @ [CHR 0x27]))
         else Inl (errorf (''read config: '' @ rw_text e))
     | Inr data \<Rightarrow>
         (case config_unmarshal E data of
            Inl e \<Rightarrow> Inl (exitError ExitUsage (''parse config: '' @ e))
          | Inr c \<Rightarrow>
              (case Config_Validate (lib_of E) c of
                 Some e \<Rightarrow> Inl (exitError ExitUsage (''invalid config: '' @ e))
               | None \<Rightarrow> Inr c))) }"

definition dir_name :: "string \<Rightarrow> string" where
  \<comment> \<open>\<open>filepath.Dir\<close>: the cleaned path up to the last slash\<close>
  "dir_name p = (case last_index CHR ''/'' p of None \<Rightarrow> ''.'' | Some i \<Rightarrow> clean_path (take (Suc i) p))"

definition write_config :: "string \<Rightarrow> string \<Rightarrow> (cli_error + unit) ctl" where
  "write_config path data = do {
     w \<leftarrow> invoke (WritePath path data);
     ret (case done_of w of Some e \<Rightarrow> Inl (errorf (''write config: '' @ rw_text e)) | None \<Rightarrow> Inr ()) }"

definition SaveConfig :: "cenv \<Rightarrow> string \<Rightarrow> config \<Rightarrow> (cli_error + unit) ctl" where
  "SaveConfig E path c =
     (case Config_Validate (lib_of E) c of
        Some e \<Rightarrow> fail (errorf e)
      | None \<Rightarrow>
          (case config_marshal E c of
             Inl e \<Rightarrow> fail (errorf e)
           | Inr data \<Rightarrow> do {
               m \<leftarrow> invoke (MakeDirs (dir_name path));
               case done_of m of
                 Some e \<Rightarrow> fail (plain e)
               | None \<Rightarrow> do {
                   p \<leftarrow> invoke (ReadPath path);
                   case text_of p of
                     Inr previous \<Rightarrow> do {
                       b \<leftarrow> invoke (WritePath (path @ ''.bak'') previous);
                       case done_of b of
                         Some e \<Rightarrow> fail (errorf (''back up config: '' @ rw_text e))
                       | None \<Rightarrow> write_config path data }
                   | Inl e \<Rightarrow> if rw_absent e then write_config path data else fail (plain e) } }))"

definition loadContext :: "cenv \<Rightarrow> options \<Rightarrow> (cli_error + config \<times> cli_context) ctl" where
  "loadContext E opts =
     then_do (configPath E opts) (\<lambda>path.
     then_do (LoadConfig E path) (\<lambda>c.
     lift (on_ok (Config_Context (lib_of E) c (op_contextName opts)) (\<lambda>selected. Inr (c, selected)))))"

definition load_catalog :: "cenv \<Rightarrow> cli_context \<Rightarrow> (cli_error + catalog) ctl" where
  \<comment> \<open>\<open>LoadCatalog(selected.CheckoutPath)\<close>\<close>
  "load_catalog E cx = do {
     r \<leftarrow> invoke (ReadCheckout (cx_checkoutPath cx));
     ret (case r of
       Checkout t \<Rightarrow> LoadCatalog (catalog_unmarshal (cn_rlib E)) (lib_of E) t
     | _ \<Rightarrow> Inl (plain broken_answer)) }"

definition render_change :: "cenv \<Rightarrow> string \<Rightarrow> change_request \<Rightarrow> (cli_error + change_set) ctl" where
  \<comment> \<open>\<open>RenderChange(root, request)\<close>\<close>
  "render_change E dir request = do {
     r \<leftarrow> invoke (ReadCheckout dir);
     ret (case r of
       Checkout t \<Rightarrow> RenderChange (cn_rlib E) t request
     | _ \<Rightarrow> Inl (plain broken_answer)) }"

end
