(* ===== verification/Ctl_Read.thy ===== *)
theory Ctl_Read
  imports Ctl_Config
begin

section \<open>The reading commands\<close>

text \<open>
  \<open>internal/platformctl/commands_read.go\<close>: lists and status of Teams, Applications and Databases, logs, traces, SLO,
  policy, provenance and rollout of an Application, and the health of an HTTPRoute with its traffic weights.
\<close>

subsection \<open>Finding the namespace\<close>

definition catalogNamespace :: "lib \<Rightarrow> catalog \<Rightarrow> string \<Rightarrow> string \<Rightarrow> cli_error + string" where
  "catalogNamespace L c kind name =
     (let owns = (\<lambda>t. if kind = ''Application'' then name \<in> ca_name ` set (ten_applications t)
                      else if kind = ''Database'' then name \<in> cd_name ` set (ten_databases t) else False) in
      case List.find owns (cat_tenants c) of
        Some t \<Rightarrow> Inr (''team-'' @ ten_name t)
      | None \<Rightarrow> Inl (exitError ExitNotFound (kind @ '' '' @ go_quote L name @ '' is not present in the Git catalog'')))"

definition commandClusterContext ::
    "cenv \<Rightarrow> options \<Rightarrow> string \<Rightarrow> string \<Rightarrow> string \<Rightarrow> (cli_error + cli_context \<times> string \<times> string) ctl" where
  \<comment> \<open>the context, the namespace and the client\<close>
  "commandClusterContext E opts namespace kind name =
     then_do (loadContext E opts) (\<lambda>(_, cx).
     then_do (if namespace = [] \<and> kind \<noteq> [] then
                then_do (load_catalog E cx) (\<lambda>c. lift (catalogNamespace (lib_of E) c kind name))
              else yield namespace) (\<lambda>namespace.
     then_do (NewClusterClient cx) (\<lambda>client. yield (cx, namespace, client))))"

subsection \<open>Lists and status\<close>

definition summary_json :: "resource_summary \<Rightarrow> json" where
  "summary_json s =
     (let opt = (\<lambda>k v. if v = [] then [] else [(k, JStr v)]) in
      JObj ([(''kind'', JStr (rs_kind s))] @ opt ''namespace'' (rs_namespace s) @ [(''name'', JStr (rs_name s))]
        @ opt ''phase'' (rs_phase s) @ opt ''ready'' (rs_ready s) @ opt ''reason'' (rs_reason s)
        @ opt ''message'' (rs_message s) @ [(''generation'', JInt (rs_generation s))]
        @ (if rs_observedGeneration s = 0 then [] else [(''observedGeneration'', JInt (rs_observedGeneration s))])))"

definition printSummary :: "cenv \<Rightarrow> options \<Rightarrow> resource_summary \<Rightarrow> (cli_error + unit) ctl" where
  "printSummary E opts s =
     print_table E opts [''KIND'', ''NAMESPACE'', ''NAME'', ''PHASE'', ''READY'', ''REASON'', ''GENERATION'']
       [[rs_kind s, rs_namespace s, rs_name s, rs_phase s, rs_ready s, rs_reason s,
         show_int (rs_observedGeneration s) @ ''/'' @ show_int (rs_generation s)]] (summary_json s)"

definition printObjectList :: "cenv \<Rightarrow> options \<Rightarrow> json list \<Rightarrow> (cli_error + unit) ctl" where
  "printObjectList E opts items =
     (let L = lib_of E in
      print_table E opts [''NAMESPACE'', ''NAME'', ''PHASE'', ''CREATED'']
        (map (\<lambda>j. [get_namespace L j, get_name L j, nested_string L j [''status'', ''phase''], get_created L j]) items)
        (JArr items))"

definition flag_field :: "string \<Rightarrow> bool \<Rightarrow> (string \<times> json) list" where
  \<comment> \<open>a boolean field with \<open>omitempty\<close>\<close>
  "flag_field k b = (if b then [(k, JBool True)] else [])"

definition entry_json :: "string \<Rightarrow> string \<Rightarrow> string \<Rightarrow> lifecycle \<Rightarrow> string \<Rightarrow> json" where
  \<comment> \<open>an Application or a Database of the catalog; a Database has no reference\<close>
  "entry_json name path ref life req = JObj ([(''name'', JStr name), (''path'', JStr path)]
     @ opt_field ''databaseRef'' ref @ [(''lifecycle'', JStr (lifecycle_text life))]
     @ opt_field ''deletionRequest'' req)"

definition service_json :: "catalog_service \<Rightarrow> json" where
  "service_json s = JObj ([(''name'', JStr (sv_name s)), (''path'', JStr (sv_path s)),
     (''template'', JStr (sv_template s)), (''version'', JStr (sv_version s)),
     (''components'', JArr (map JStr (sv_components s)))] @ opt_field ''databaseRef'' (sv_databaseRef s)
     @ flag_field ''ownsTeam'' (sv_ownsTeam s) @ flag_field ''ownsDatabase'' (sv_ownsDatabase s)
     @ [(''lifecycle'', JStr (lifecycle_text (sv_lifecycle s)))] @ opt_field ''deletionRequest'' (sv_deletionRequest s))"

definition tenant_json :: "tenant \<Rightarrow> json" where
  "tenant_json t = JObj ([(''name'', JStr (ten_name t)), (''teamPath'', JStr (ten_teamPath t)),
     (''owners'', JArr (map JStr (ten_owners t))), (''lifecycle'', JStr (lifecycle_text (ten_lifecycle t)))]
     @ opt_field ''deletionRequest'' (ten_deletionRequest t)
     @ [(''applications'', JArr (map (\<lambda>a. entry_json (ca_name a) (ca_path a) (ca_databaseRef a) (ca_lifecycle a)
           (ca_deletionRequest a)) (ten_applications t))),
        (''databases'', JArr (map (\<lambda>d. entry_json (cd_name d) (cd_path d) [] (cd_lifecycle d)
           (cd_deletionRequest d)) (ten_databases t))),
        (''services'', JArr (map service_json (ten_services t)))])"

definition team_list :: "cenv \<Rightarrow> options \<Rightarrow> (cli_error + unit) ctl" where
  "team_list E opts =
     then_do (loadContext E opts) (\<lambda>(_, cx).
     then_do (load_catalog E cx) (\<lambda>c.
       print_table E opts [''NAME'', ''NAMESPACE'', ''APPLICATIONS'', ''DATABASES'']
         (map (\<lambda>t. [ten_name t, ''team-'' @ ten_name t, show_nat (length (ten_applications t)),
            show_nat (length (ten_databases t))]) (SortedTenants c))
         (JArr (map tenant_json (SortedTenants c)))))"

definition team_status_command :: "cenv \<Rightarrow> options \<Rightarrow> string \<Rightarrow> (cli_error + unit) ctl" where
  \<comment> \<open>\<open>resourceStatusCommand\<close> as it is used, for the cluster-scoped Team\<close>
  "team_status_command E opts name =
     then_do (loadContext E opts) (\<lambda>(_, cx).
     then_do (NewClusterClient cx) (\<lambda>client.
     then_do (kube_get teamGVR [] name) (\<lambda>j. printSummary E opts (Summarize (lib_of E) ''Team'' j))))"

definition namespaced_status ::
    "cenv \<Rightarrow> options \<Rightarrow> gvr \<Rightarrow> string \<Rightarrow> string \<Rightarrow> string \<Rightarrow> (cli_error + unit) ctl" where
  "namespaced_status E opts gvr kind namespace name =
     then_do (commandClusterContext E opts namespace kind name) (\<lambda>(_, ns, _).
     then_do (kube_get gvr ns name) (\<lambda>j. printSummary E opts (Summarize (lib_of E) kind j)))"

definition list_resources :: "cenv \<Rightarrow> options \<Rightarrow> gvr \<Rightarrow> string \<Rightarrow> string \<Rightarrow> (cli_error + unit) ctl" where
  "list_resources E opts gvr kind namespace =
     then_do (commandClusterContext E opts namespace [] []) (\<lambda>_.
     then_do (kube_list (lib_of E) gvr namespace []) (\<lambda>items.
       let summaries = map (Summarize (lib_of E) kind) items in
       print_table E opts [''NAMESPACE'', ''NAME'', ''PHASE'', ''READY'', ''REASON'']
         (map (\<lambda>s. [rs_namespace s, rs_name s, rs_phase s, rs_ready s, rs_reason s]) summaries)
         (JArr (map summary_json summaries))))"

definition database_backups :: "cenv \<Rightarrow> options \<Rightarrow> string \<Rightarrow> string \<Rightarrow> (cli_error + unit) ctl" where
  "database_backups E opts namespace name =
     then_do (commandClusterContext E opts namespace [] name) (\<lambda>(_, ns, _).
     then_do (kube_list (lib_of E) backupGVR ns (''steadystate.dev/database='' @ name)) (printObjectList E opts))"

subsection \<open>Monitoring\<close>

definition printBackendJSON ::
    "cenv \<Rightarrow> options \<Rightarrow> string \<Rightarrow> string \<Rightarrow> int \<Rightarrow> string \<Rightarrow> (string \<times> string) list \<Rightarrow> (cli_error + unit) ctl" where
  "printBackendJSON E opts client service port path query =
     then_do (ServiceProxy E client service port path query) (\<lambda>raw.
       case json_parse E raw of
         None \<Rightarrow> fail (exitError ExitRemote ''decode backend response: invalid JSON'')
       | Some v \<Rightarrow>
           if op_format opts = ''table'' then
             always (do { _ \<leftarrow> invoke (WriteOut (json_indent E v @ [CHR 0x0A])); ret () })
           else print_value E opts v)"

definition label_query :: "lib \<Rightarrow> string \<Rightarrow> string \<Rightarrow> string" where
  "label_query L ns name = ''{namespace='' @ go_quote L ns @ '',application='' @ go_quote L name @ ''}''"

definition app_logs ::
    "cenv \<Rightarrow> options \<Rightarrow> string \<Rightarrow> string \<Rightarrow> bool \<Rightarrow> bool \<Rightarrow> int \<Rightarrow> int \<Rightarrow> (cli_error + unit) ctl" where
  "app_logs E opts namespace name follow historical tail since =
     then_do (commandClusterContext E opts namespace ''Application'' name) (\<lambda>(_, ns, client).
     if historical then
       then_do (if since > 0 then always (do { now \<leftarrow> time_now; ret [(''start'', show_int (now - since))] })
                else yield []) (\<lambda>start.
         printBackendJSON E opts client ''loki'' 3100 ''/loki/api/v1/query_range''
           ([(''query'', label_query (lib_of E) ns name), (''limit'', show_int tail)] @ start))
     else
       then_do (PodLogs ns name follow tail since) (\<lambda>(stream, pod).
         if op_format opts = ''table'' then always (do { _ \<leftarrow> invoke (WriteOut stream); ret () })
         else print_value E opts (JObj [(''logs'', JStr (Redact (take proxy_limit stream))), (''namespace'', JStr ns),
                (''pod'', JStr pod)])))"

definition app_traces :: "cenv \<Rightarrow> options \<Rightarrow> string \<Rightarrow> string \<Rightarrow> string \<Rightarrow> int \<Rightarrow> (cli_error + unit) ctl" where
  "app_traces E opts namespace name traceID limit =
     then_do (commandClusterContext E opts namespace ''Application'' name) (\<lambda>(_, ns, client).
     if traceID \<noteq> [] then printBackendJSON E opts client ''tempo'' 3200 (''/api/traces/'' @ path_escape E traceID) []
     else printBackendJSON E opts client ''tempo'' 3200 ''/api/search''
       [(''tags'', ''service.name='' @ name @ '' service.namespace='' @ ns), (''limit'', show_int limit)])"

definition app_slo :: "cenv \<Rightarrow> options \<Rightarrow> string \<Rightarrow> string \<Rightarrow> (cli_error + unit) ctl" where
  "app_slo E opts namespace name =
     then_do (commandClusterContext E opts namespace ''Application'' name) (\<lambda>(_, ns, client).
     printBackendJSON E opts client ''monitoring-kube-prometheus-prometheus'' 9090 ''/api/v1/query''
       [(''query'', label_query (lib_of E) ns name @ '' and on() ({__name__=~'' @ [CHR 0x22]
          @ ''steadystate:.*|ALERTS'' @ [CHR 0x22] @ ''})'')])"

subsection \<open>Provenance, policy and rollout\<close>

definition value_text :: "cenv \<Rightarrow> json \<Rightarrow> string" where
  \<comment> \<open>\<open>stringValue\<close>: the empty string for nil\<close>
  "value_text E v = (case v of JNull \<Rightarrow> [] | JStr s \<Rightarrow> s | JInt n \<Rightarrow> show_int n | JBool b \<Rightarrow> show_bool b
     | _ \<Rightarrow> json_text E v)"

definition app_provenance :: "cenv \<Rightarrow> options \<Rightarrow> string \<Rightarrow> string \<Rightarrow> (cli_error + unit) ctl" where
  "app_provenance E opts namespace name =
     then_do (commandClusterContext E opts namespace ''Application'' name) (\<lambda>(_, ns, _).
     then_do (kube_get applicationGVR ns name) (\<lambda>j.
       let status = (case nested_map (lib_of E) j [''status''] of Some es \<Rightarrow> es | None \<Rightarrow> []);
           keys = [''activeVersion'', ''candidateVersion'', ''resolvedImageDigest'', ''resolvedGitRevision''] in
       print_table E opts [''NAMESPACE'', ''NAME'', ''ACTIVE'', ''CANDIDATE'', ''DIGEST'', ''REVISION'']
         [[ns, name] @ map (\<lambda>k. value_text E (entry status k)) keys]
         (JObj ([(''namespace'', JStr ns), (''name'', JStr name)] @ map (\<lambda>k. (k, entry status k)) keys))))"

definition instance_selector :: "string \<Rightarrow> string" where
  "instance_selector name = ''app.kubernetes.io/instance='' @ name"

definition app_policy :: "cenv \<Rightarrow> options \<Rightarrow> string \<Rightarrow> string \<Rightarrow> (cli_error + unit) ctl" where
  "app_policy E opts namespace name =
     then_do (commandClusterContext E opts namespace ''Application'' name) (\<lambda>(_, ns, _).
     then_do (kube_list (lib_of E) policyReportGVR ns (instance_selector name)) (printObjectList E opts))"

definition app_rollout :: "cenv \<Rightarrow> options \<Rightarrow> string \<Rightarrow> string \<Rightarrow> (cli_error + unit) ctl" where
  "app_rollout E opts namespace name =
     then_do (commandClusterContext E opts namespace ''Application'' name) (\<lambda>(_, ns, _).
     then_do (kube_get rolloutGVR ns name) (\<lambda>rollout.
     then_do (kube_list (lib_of E) analysisRunGVR ns (instance_selector name)) (\<lambda>analyses.
       print_table E opts [''NAMESPACE'', ''ROLLOUT'', ''PHASE'', ''ANALYSIS RUNS'']
         [[ns, name, nested_string (lib_of E) rollout [''status'', ''phase''], show_nat (length analyses)]]
         (JObj [(''analysisRuns'', JArr analyses), (''rollout'', rollout)]))))"

subsection \<open>The health of a route\<close>

definition maps_of :: "json list \<Rightarrow> json list" where
  "maps_of js = filter (\<lambda>j. case j of JObj _ \<Rightarrow> True | _ \<Rightarrow> False) js"

definition entries_of :: "json \<Rightarrow> (string \<times> json) list" where
  "entries_of j = (case j of JObj es \<Rightarrow> es | _ \<Rightarrow> [])"

definition backend_text :: "json \<Rightarrow> string option" where
  "backend_text j =
     (let name = entry_string (entries_of j) ''name'';
          weight = (case entry (entries_of j) ''weight'' of JInt n \<Rightarrow> n | _ \<Rightarrow> 1) in
      if name \<noteq> [] then Some (name @ ''='' @ show_int weight) else None)"

definition route_backends :: "lib \<Rightarrow> json \<Rightarrow> string list" where
  "route_backends L route =
     concat (map (\<lambda>rule. concat (map (\<lambda>b. case backend_text b of None \<Rightarrow> [] | Some s \<Rightarrow> [s])
        (maps_of (case entry (entries_of rule) ''backendRefs'' of JArr js \<Rightarrow> js | _ \<Rightarrow> []))))
       (maps_of (nested_slice L route [''spec'', ''rules''])))"

definition routeBackendWeights :: "lib \<Rightarrow> json \<Rightarrow> string" where
  "routeBackendWeights L route =
     (let backends = route_backends L route in
      if length backends = 0 then ''no backend weights reported''
      else ''backend weights '' @ join '','' backends)"

definition route_reports :: "lib \<Rightarrow> json \<Rightarrow> string \<Rightarrow> bool" where
  \<comment> \<open>some parent reports a condition of the type as true\<close>
  "route_reports L route ty =
     list_ex (\<lambda>parent. list_ex (\<lambda>c. entry (entries_of c) ''status'' = JStr ''True''
          \<and> entry (entries_of c) ''type'' = JStr ty)
        (maps_of (nested_slice L parent [''conditions''])))
       (maps_of (nested_slice L route [''status'', ''parents'']))"

definition routeHealth :: "lib \<Rightarrow> json \<Rightarrow> string \<times> string" where
  "routeHealth L route =
     (let accepted = route_reports L route ''Accepted''; resolved = route_reports L route ''ResolvedRefs'' in
      if accepted \<and> resolved then
        (''Pass'', ''route is accepted and all references are resolved; '' @ routeBackendWeights L route)
      else (''Fail'', ''route contracts are incomplete (accepted='' @ show_bool accepted @ '' resolvedRefs=''
        @ show_bool resolved @ ''); '' @ routeBackendWeights L route))"

definition conditionRemediation :: "string \<Rightarrow> string" where
  "conditionRemediation c =
     (if c = ''ServiceHealth'' then ''Run platformctl app rollout and inspect HTTPRoute acceptance.''
      else if c = ''SecurityPolicyReady'' then ''Run platformctl app policy and verify image signatures.''
      else if c = ''DatabaseReady'' then ''Run platformctl database status for the referenced Database.''
      else ''Run platformctl app status and inspect the reported reason.'')"

end
