(* ===== verification/Break_Glass.thy ===== *)
theory Break_Glass
  imports Ctl_Read Go_Time
begin

section \<open>Break glass: promoting and aborting a Rollout by hand\<close>

text \<open>
  \<open>internal/platformctl/commands_breakglass.go\<close>: the status patch of a promotion or an abort, the audit file, and the
  command that writes the audit, records an event, patches the Rollout, and records the outcome. \<open>attempt\<close> is the part
  the portal runs as well, with its own handling of a failed event.
\<close>

subsection \<open>The patch\<close>

definition patch_operation :: "string \<Rightarrow> json \<Rightarrow> json" where
  "patch_operation path v = JObj [(''op'', JStr ''add''), (''path'', JStr path), (''value'', v)]"

definition target_text :: "lib \<Rightarrow> json \<Rightarrow> string" where
  "target_text L rollout = ''Rollout '' @ get_namespace L rollout @ ''/'' @ get_name L rollout"

definition abort_patch :: "lib \<Rightarrow> json \<Rightarrow> (string \<times> json) list \<Rightarrow> cli_error + json list" where
  "abort_patch L rollout status =
     (if entry status ''abort'' = JBool True then
        Inl (exitError ExitUnhealthy (target_text L rollout @ '' is already aborted''))
      else let current = entry_string status ''currentPodHash''; stable = entry_string status ''stableRS'' in
        if current = [] \<or> current = stable then
          Inl (exitError ExitUnhealthy (target_text L rollout @ '' has no active candidate to abort''))
        else Inr [patch_operation ''/status/abort'' (JBool True)])"

definition promote_patch :: "lib \<Rightarrow> json \<Rightarrow> cli_error + json list" where
  "promote_patch L rollout =
     (if nested_bool L rollout [''spec'', ''paused''] then
        Inl (exitError ExitUnhealthy (target_text L rollout @ '' is spec-paused; use a reviewed Git change''))
      else
        let pauseConditions = nested_slice L rollout [''status'', ''pauseConditions''];
            controllerPause = nested_bool L rollout [''status'', ''controllerPause''];
            stepIndex = nested_int L rollout [''status'', ''currentStepIndex''] in
        if length pauseConditions = 0 \<and> \<not> controllerPause \<and> stepIndex = None then
          Inl (exitError ExitUnhealthy (target_text L rollout @ '' is not paused at a promotable canary step''))
        else
          let analysisPhase = nested_string L rollout [''status'', ''canary'', ''currentStepAnalysisRunStatus'', ''status''] in
          Inr ([patch_operation ''/status/pauseConditions'' JNull]
            @ (if controllerPause then [patch_operation ''/status/controllerPause'' (JBool False)] else [])
            @ (case stepIndex of
                 Some n \<Rightarrow>
                   if (controllerPause \<and> analysisPhase = ''Inconclusive'') \<or> length pauseConditions = 0 then
                     [patch_operation ''/status/currentStepIndex'' (JInt (wrap64 (n + 1)))] else []
               | None \<Rightarrow> [])))"

definition breakGlassPatch :: "lib \<Rightarrow> string \<Rightarrow> json \<Rightarrow> cli_error + json list" where
  "breakGlassPatch L action rollout =
     (if get_resourceVersion L rollout = [] \<or> get_uid L rollout = [] then
        Inl (exitError ExitConflict ''Rollout identity is incomplete; read it again'')
      else if nested_map L rollout [''spec'', ''strategy'', ''canary''] = None then
        Inl (exitError ExitUnhealthy (target_text L rollout @ '' is not canary''))
      else case nested_map L rollout [''status''] of
          None \<Rightarrow> Inl (exitError ExitUnhealthy (target_text L rollout @ '' has no controller status''))
        | Some status \<Rightarrow>
            if action = ''abort'' then abort_patch L rollout status
            else if action = ''promote'' then promote_patch L rollout
            else Inl (exitError ExitUsage (''unsupported break-glass action '' @ go_quote L action)))"

definition rolloutState :: "lib \<Rightarrow> json \<Rightarrow> json" where
  "rolloutState L rollout =
     (let status = (case nested_map L rollout [''status''] of Some es \<Rightarrow> es | None \<Rightarrow> []) in
      JObj ([(''resourceVersion'', JStr (get_resourceVersion L rollout)),
             (''generation'', JInt (get_generation L rollout))]
        @ map (\<lambda>k. (k, entry status k))
            [''phase'', ''currentStepIndex'', ''currentPodHash'', ''stableRS'', ''abort'', ''pauseConditions'']))"

subsection \<open>The audit\<close>

record audit =
  au_requestID :: string
  au_timestamp :: int
  au_actor :: string
  au_cli :: build_info
  au_context :: string
  au_action :: string
  au_reason :: string
  au_namespace :: string
  au_application :: string
  au_targetUID :: string
  au_resourceVersion :: string
  au_before :: json
  au_after :: "json option"
  au_result :: string
  au_error :: string

definition breakGlassAuditVersion :: string where "breakGlassAuditVersion = ''audit.steadystate.dev/v1alpha1''"

definition audit_json :: "cenv \<Rightarrow> audit \<Rightarrow> json" where
  "audit_json E a = JObj ([(''apiVersion'', JStr breakGlassAuditVersion), (''requestId'', JStr (au_requestID a)),
     (''timestamp'', JStr (time_json E (au_timestamp a))), (''actor'', JStr (au_actor a)),
     (''cli'', build_json (au_cli a)), (''context'', JStr (au_context a)), (''action'', JStr (au_action a)),
     (''reason'', JStr (au_reason a)), (''namespace'', JStr (au_namespace a)),
     (''application'', JStr (au_application a)), (''targetUid'', JStr (au_targetUID a)),
     (''resourceVersion'', JStr (au_resourceVersion a)), (''before'', au_before a)]
     @ (case au_after a of Some j \<Rightarrow> [(''after'', j)] | None \<Rightarrow> [])
     @ [(''result'', JStr (au_result a))] @ opt_field ''error'' (au_error a))"

definition audit_directory :: "cenv \<Rightarrow> options \<Rightarrow> (cli_error + string) ctl" where
  "audit_directory E opts =
     (if op_auditDir opts \<noteq> [] then yield (op_auditDir opts)
      else then_do (configPath E opts) (\<lambda>path. yield (path_join [dir_name path, ''audit''])))"

definition audit_path :: "string \<Rightarrow> audit \<Rightarrow> string" where
  "audit_path directory a = path_join [directory, au_requestID a @ ''.json'']"

definition store_audit :: "cenv \<Rightarrow> string \<Rightarrow> audit \<Rightarrow> (cli_error + string) ctl" where
  "store_audit E directory a = do {
     m \<leftarrow> invoke (MakeDirs directory);
     case done_of m of
       Some e \<Rightarrow> fail (plain e)
     | None \<Rightarrow> do {
         w \<leftarrow> invoke (WritePath (audit_path directory a) (json_indent E (audit_json E a) @ [CHR 0x0A]));
         ret (case done_of w of Some e \<Rightarrow> Inl (plain e) | None \<Rightarrow> Inr (audit_path directory a)) } }"

definition writeBreakGlassAudit :: "cenv \<Rightarrow> options \<Rightarrow> audit \<Rightarrow> (cli_error + string) ctl" where
  "writeBreakGlassAudit E opts a = then_do (audit_directory E opts) (\<lambda>directory. store_audit E directory a)"

fun first_env :: "string list \<Rightarrow> string ctl" where
  "first_env [] = ret []"
| "first_env (k # ks) = do { v \<leftarrow> getenv k; if trim_space v \<noteq> [] then ret (trim_space v) else first_env ks }"

definition localActor :: "string ctl" where
  "localActor = do {
     v \<leftarrow> first_env [''GITHUB_ACTOR'', ''USER'', ''USERNAME''];
     if v \<noteq> [] then ret (Redact v)
     else do {
       u \<leftarrow> invoke CurrentUser;
       ret (case text_of u of Inr n \<Rightarrow> if n \<noteq> [] then Redact n else ''unknown'' | Inl _ \<Rightarrow> ''unknown'') } }"

subsection \<open>The attempt\<close>

definition attempted_note :: "audit \<Rightarrow> string" where
  "attempted_note a = au_action a @ '' requested for Application '' @ au_namespace a @ ''/'' @ au_application a
     @ '': '' @ au_reason a"

definition failed_audit :: "audit \<Rightarrow> cli_error \<Rightarrow> audit" where
  "failed_audit a e = a\<lparr>au_result := ''Failed'', au_error := ErrorMessage (Some e)\<rparr>"

definition completed_audit :: "lib \<Rightarrow> audit \<Rightarrow> json \<Rightarrow> audit" where
  "completed_audit L a updated = a\<lparr>au_result := ''Completed'', au_after := Some (rolloutState L updated)\<rparr>"

definition record_attempt :: "lib \<Rightarrow> json \<Rightarrow> audit \<Rightarrow> (cli_error + unit) ctl" where
  "record_attempt L rollout a = RecordRolloutEvent L rollout (au_requestID a) ''Attempted''
     ''PlatformctlBreakGlassAttempted'' (attempted_note a) ''Normal''"

definition patch_and_record ::
    "cenv \<Rightarrow> options \<Rightarrow> (cli_error \<Rightarrow> cli_error) \<Rightarrow> json \<Rightarrow> audit \<Rightarrow> json list \<Rightarrow> (cli_error + unit) ctl" where
  \<comment> \<open>from the patch on; \<open>wrap\<close> is what a failing write of the completed audit returns\<close>
  "patch_and_record E opts wrap rollout a operations = do {
     p \<leftarrow> PatchStatus rolloutGVR (au_namespace a) (au_application a) (au_resourceVersion a) operations;
     case p of
       Inl e \<Rightarrow> do {
         _ \<leftarrow> writeBreakGlassAudit E opts (failed_audit a e);
         _ \<leftarrow> RecordRolloutEvent (lib_of E) rollout (au_requestID a) ''Failed'' ''PlatformctlBreakGlassFailed''
                (attempted_note a @ '': '' @ au_error (failed_audit a e)) ''Warning'';
         fail e }
     | Inr updated \<Rightarrow> do {
         w \<leftarrow> writeBreakGlassAudit E opts (completed_audit (lib_of E) a updated);
         case w of
           Inl e \<Rightarrow> fail (wrap e)
         | Inr _ \<Rightarrow> RecordRolloutEvent (lib_of E) updated (au_requestID a) ''Completed''
             ''PlatformctlBreakGlassCompleted'' (attempted_note a) ''Normal'' } }"

definition new_audit ::
    "cenv \<Rightarrow> options \<Rightarrow> string \<Rightarrow> string \<Rightarrow> string \<Rightarrow> string \<Rightarrow> string \<Rightarrow> string \<Rightarrow> string \<Rightarrow> json \<Rightarrow> audit ctl" where
  \<comment> \<open>the audit of an attempt: a fresh identifier, the time and the actor are read\<close>
  "new_audit E opts contextName action reason ns name uid resourceVersion before = do {
     r \<leftarrow> invoke FreshUUID;
     now \<leftarrow> time_now;
     actor \<leftarrow> localActor;
     ret \<lparr>au_requestID = (case text_of r of Inl _ \<Rightarrow> [] | Inr s \<Rightarrow> s), au_timestamp = now, au_actor = actor,
          au_cli = op_build opts, au_context = contextName, au_action = action,
          au_reason = Redact (trim_space reason), au_namespace = ns, au_application = name, au_targetUID = uid,
          au_resourceVersion = resourceVersion, au_before = before, au_after = None,
          au_result = ''Attempted'', au_error = []\<rparr> }"

definition is_canary :: "lib \<Rightarrow> json \<Rightarrow> bool" where
  "is_canary L application = (nested_string L application [''spec'', ''deployment'', ''strategy''] = ''canary'')"

definition audit_failure :: "cli_error \<Rightarrow> cli_error" where
  "audit_failure e = exitError ExitRemote (''update completed break-glass audit: '' @ ce_text e)"

definition break_glass_attempt ::
    "cenv \<Rightarrow> options \<Rightarrow> string \<Rightarrow> string \<Rightarrow> string \<Rightarrow> string \<Rightarrow> string \<Rightarrow> json \<Rightarrow> json list
     \<Rightarrow> (cli_error + string \<times> string) ctl" where
  \<comment> \<open>the command from the audit on: the request identifier and the path of the audit\<close>
  "break_glass_attempt E opts contextName action reason ns name rollout operations =
     then_do (always (new_audit E opts contextName action reason ns name (get_uid (lib_of E) rollout)
                (get_resourceVersion (lib_of E) rollout) (rolloutState (lib_of E) rollout))) (\<lambda>a. do {
       w \<leftarrow> writeBreakGlassAudit E opts a;
       case w of
         Inl e \<Rightarrow> fail (exitError ExitRemote (''write break-glass audit before mutation: '' @ ce_text e))
       | Inr path \<Rightarrow> do {
           ev \<leftarrow> record_attempt (lib_of E) rollout a;
           case ev of
             Inl e \<Rightarrow> do { _ \<leftarrow> writeBreakGlassAudit E opts (failed_audit a e); fail e }
           | Inr _ \<Rightarrow> then_do (patch_and_record E opts audit_failure rollout a operations)
               (\<lambda>_. yield (au_requestID a, path)) } })"

definition context_name :: "options \<Rightarrow> config \<Rightarrow> string" where
  "context_name opts c = (if op_contextName opts = [] then cfg_currentContext c else op_contextName opts)"

definition break_glass ::
    "cenv \<Rightarrow> options \<Rightarrow> string \<Rightarrow> string \<Rightarrow> string \<Rightarrow> string \<Rightarrow> string \<Rightarrow> (cli_error + unit) ctl" where
  \<comment> \<open>\<open>RunE\<close> of \<open>newBreakGlassCommand\<close>\<close>
  "break_glass E opts action namespace reason confirmation name =
     (if trim_space reason = [] then fail (exitError ExitUsage ''--reason must be non-empty'')
      else if confirmation \<noteq> name then
        fail (exitError ExitUsage (''--confirm must exactly match Application name '' @ go_quote (lib_of E) name))
      else
        then_do (loadContext E opts) (\<lambda>(c, _).
        then_do (commandClusterContext E opts namespace ''Application'' name) (\<lambda>(_, ns, _).
        then_do (kube_get applicationGVR ns name) (\<lambda>application.
        if \<not> is_canary (lib_of E) application then
          fail (exitError ExitUnhealthy (''Application '' @ ns @ ''/'' @ name @ '' does not use canary delivery''))
        else
          then_do (kube_get rolloutGVR ns name) (\<lambda>rollout.
          then_do (lift (breakGlassPatch (lib_of E) action rollout)) (\<lambda>operations.
          then_do (break_glass_attempt E opts (context_name opts c) action reason ns name rollout operations)
            (\<lambda>(requestID, path).
          print_table E opts [''REQUEST'', ''ACTION'', ''TARGET'', ''RESULT'', ''AUDIT'']
            [[requestID, action, ns @ ''/'' @ name, ''Completed'', path]]
            (JObj [(''requestId'', JStr requestID), (''action'', JStr action), (''namespace'', JStr ns),
               (''name'', JStr name), (''result'', JStr ''Completed''), (''auditPath'', JStr path)])))))))) "

end
