(* ===== verification/Ctl_Write.thy ===== *)
theory Ctl_Write
  imports Ctl_Kube
begin

section \<open>Proposing a change\<close>

text \<open>
  \<open>internal/platformctl/commands_write.go\<close>, \<open>ChangeSetDiff\<close> and \<open>ChangeSetJSON\<close> of \<open>render.go\<close>, and
  \<open>findCatalogService\<close> of \<open>commands_service.go\<close>: a typed command renders a change against the checkout, shows it, checks an
  approval before a finalization, asks for confirmation and dispatches the broker workflow. The loop that looks
  for the workflow run is bounded by the clock; it runs here on fuel (\<open>poll_limit\<close> turns), and gives
  \<open>None\<close> when the fuel is out.
\<close>

subsection \<open>The checkout and its base\<close>

definition git :: "cenv \<Rightarrow> cli_context \<Rightarrow> string list \<Rightarrow> (cli_error + string) ctl" where
  "git E cx arguments = runExternal E (cx_checkoutPath cx) ''git'' arguments"

definition gh :: "cenv \<Rightarrow> cli_context \<Rightarrow> string list \<Rightarrow> (cli_error + string) ctl" where
  "gh E cx arguments = runExternal E (cx_checkoutPath cx) ''gh'' arguments"

definition status_args :: "string list" where
  "status_args = [''status'', ''--porcelain'', ''--untracked-files=no'']"

definition fetch_args :: "cli_context \<Rightarrow> string list" where
  "fetch_args cx = [''fetch'', ''--quiet'', ''origin'',
     ''refs/heads/'' @ cx_defaultBranch cx @ '':refs/remotes/origin/'' @ cx_defaultBranch cx]"

definition check_head :: "cenv \<Rightarrow> cli_context \<Rightarrow> string \<Rightarrow> (cli_error + string) ctl" where
  \<comment> \<open>the end of \<open>repositoryBaseSHA\<close>: the checkout is at the remote's default branch\<close>
  "check_head E cx sha =
     (if \<not> git_object_id sha then fail (exitError ExitRemote ''Git returned an invalid default-branch SHA'')
      else then_do (git E cx [''rev-parse'', ''HEAD'']) (\<lambda>head.
        if head \<noteq> sha then fail (exitError ExitConflict (''checkout HEAD does not match origin/''
             @ cx_defaultBranch cx @ ''; update the checkout before planning''))
        else yield sha))"

definition repositoryBaseSHA :: "cenv \<Rightarrow> cli_context \<Rightarrow> (cli_error + string) ctl" where
  "repositoryBaseSHA E cx =
     then_do (git E cx status_args) (\<lambda>status.
       if status \<noteq> [] then
         fail (exitError ExitConflict ''tracked checkout changes must be committed before proposing a write'')
       else do {
         f \<leftarrow> git E cx (fetch_args cx);
         case f of
           Inl e \<Rightarrow> fail (exitError ExitRemote (''refresh default branch: '' @ ce_text e))
         | Inr _ \<Rightarrow>
             then_do (git E cx [''rev-parse'', ''origin/'' @ cx_defaultBranch cx]) (check_head E cx) })"

subsection \<open>Showing a change set\<close>

fun diff_files :: "cenv \<Rightarrow> file_change list \<Rightarrow> cli_error + string" where
  "diff_files E [] = Inr []"
| "diff_files E (c # cs) =
     on_ok (unified_diff E (''a/'' @ fc_path c) (''b/'' @ fc_path c) (fc_before c) (fc_content c)) (\<lambda>d.
     on_ok (diff_files E cs) (\<lambda>rest.
       Inr (d @ (if d \<noteq> [] \<and> \<not> has_suffix d [CHR 0x0A] then [CHR 0x0A] else []) @ rest)))"

definition ChangeSetDiff :: "cenv \<Rightarrow> change_set \<Rightarrow> cli_error + string" where
  "ChangeSetDiff E cs = diff_files E (cs_files cs)"

definition change_set_json :: "change_set \<Rightarrow> json" where
  \<comment> \<open>\<open>ChangeSetJSON\<close>, as a tree\<close>
  "change_set_json cs = JObj [(''requestID'', JStr (cs_requestID cs)), (''operation'', JStr (cs_operation cs)),
     (''proposalDigest'', JStr (cs_proposalDigest cs)), (''renderDigest'', JStr (cs_renderDigest cs)),
     (''files'', JArr (map (\<lambda>c. JObj [(''path'', JStr (fc_path c)), (''action'', JStr (action_text (fc_action c)))])
        (cs_files cs)))]"

definition printChangeSummary ::
    "cenv \<Rightarrow> options \<Rightarrow> change_set \<Rightarrow> string \<Rightarrow> string \<Rightarrow> string \<Rightarrow> (cli_error + unit) ctl" where
  "printChangeSummary E opts cs st runURL diff =
     (let paths = map (\<lambda>c. action_text (fc_action c) @ '':'' @ fc_path c) (cs_files cs) in
      print_table E opts [''STATE'', ''REQUEST ID'', ''PROPOSAL DIGEST'', ''FILES'', ''RUN'']
        [[st, cs_requestID cs, cs_proposalDigest cs, show_nat (length (cs_files cs)), runURL]]
        (JObj [(''state'', JStr st), (''requestID'', JStr (cs_requestID cs)),
           (''proposalDigest'', JStr (cs_proposalDigest cs)), (''renderDigest'', JStr (cs_renderDigest cs)),
           (''files'', JArr (map JStr paths)), (''diff'', JStr diff), (''runURL'', JStr runURL)]))"

subsection \<open>The approval of a finalization\<close>

definition findCatalogService :: "lib \<Rightarrow> catalog \<Rightarrow> string \<Rightarrow> cli_error + tenant \<times> catalog_service" where
  "findCatalogService L c name =
     (case concat (map (\<lambda>t. map (Pair t) (filter (\<lambda>s. sv_name s = name) (ten_services t))) (cat_tenants c)) of
        (t, s) # _ \<Rightarrow> Inr (t, s)
      | [] \<Rightarrow> Inl (exitError ExitNotFound (''service '' @ go_quote L name @ '' is not present in the catalog'')))"

definition is_ancestor_args :: "string \<Rightarrow> string \<Rightarrow> string list" where
  "is_ancestor_args approval base = [''merge-base'', ''--is-ancestor'', approval, base]"

definition revision_visible :: "lib \<Rightarrow> json \<Rightarrow> string \<Rightarrow> bool" where
  "revision_visible L argo approval =
     (let revisions = nested_strings L argo [''status'', ''sync'', ''revisions''] in
      if length revisions > 0 then list_all (\<lambda>r. r = approval) revisions
      else nested_string L argo [''status'', ''sync'', ''revision''] = approval)"

definition live_service :: "cenv \<Rightarrow> cli_context \<Rightarrow> string \<Rightarrow> (cli_error + json option) ctl" where
  \<comment> \<open>the object that carries the approval of a service: its Team, its first Application, or its Database\<close>
  "live_service E cx name =
     then_do (load_catalog E cx) (\<lambda>catalog.
     then_do (lift (findCatalogService (lib_of E) catalog name)) (\<lambda>(tenant, service).
     then_do
       (if sv_ownsTeam service then
          then_do (kube_get teamGVR [] (ten_name tenant)) (\<lambda>j. yield (Some j))
        else if length (sv_components service) > 0
            \<and> find_by ca_name (hd (sv_components service)) (ten_applications tenant) \<noteq> None then
          then_do (kube_get applicationGVR (''team-'' @ ten_name tenant) (hd (sv_components service)))
            (\<lambda>j. yield (Some j))
        else yield None) (\<lambda>live.
     if live = None \<and> sv_ownsDatabase service \<and> sv_databaseRef service \<noteq> [] then
       then_do (kube_get databaseGVR (''team-'' @ ten_name tenant) (sv_databaseRef service)) (\<lambda>j. yield (Some j))
     else yield live)))"

definition live_resource ::
    "cenv \<Rightarrow> cli_context \<Rightarrow> string \<Rightarrow> change_parameters \<Rightarrow> (cli_error + json option) ctl" where
  "live_resource E cx operation p =
     (let found = (\<lambda>m. then_do m (\<lambda>j. yield (Some j))) in
      if has_prefix operation ''team.'' then found (kube_get teamGVR [] (p_name p))
      else if has_prefix operation ''app.'' then found (kube_get applicationGVR (''team-'' @ p_team p) (p_name p))
      else if has_prefix operation ''service.'' then live_service E cx (p_name p)
      else found (kube_get databaseGVR (''team-'' @ p_team p) (p_name p)))"

definition carries_request :: "lib \<Rightarrow> json \<Rightarrow> change_parameters \<Rightarrow> bool" where
  "carries_request L live p = (get_annotation L live ''steadystate.dev/deletion-request'' = p_deletionRequest p)"

definition verifyFinalization ::
    "cenv \<Rightarrow> cli_context \<Rightarrow> string \<Rightarrow> change_parameters \<Rightarrow> string \<Rightarrow> (cli_error + unit) ctl" where
  "verifyFinalization E cx operation p baseSHA = do {
     m \<leftarrow> git E cx (is_ancestor_args (p_approvalRevision p) baseSHA);
     case m of
       Inl _ \<Rightarrow> fail (exitError ExitConflict ''approval revision is not merged into current main'')
     | Inr _ \<Rightarrow>
         then_do (NewClusterClient cx) (\<lambda>client.
         then_do (kube_get argoAppGVR ''argocd'' (if has_prefix operation ''team.'' then p_name p else p_team p))
           (\<lambda>argo.
         if \<not> revision_visible (lib_of E) argo (p_approvalRevision p) then
           fail (exitError ExitConflict ''approval revision is not yet visible in the tenant Argo Application'')
         else then_do (live_resource E cx operation p) (\<lambda>live.
           case live of
             None \<Rightarrow> yield ()
           | Some j \<Rightarrow>
               if \<not> carries_request (lib_of E) j p then
                 fail (exitError ExitConflict ''live resource does not carry the approved deletion request'')
               else yield ()))) }"

subsection \<open>Dispatching the broker\<close>

definition run_list_args :: "cli_context \<Rightarrow> string \<Rightarrow> string list" where
  "run_list_args cx columns = [''run'', ''list'', ''--repo'', cx_repository cx, ''--workflow'', ''platform-change.yml'',
     ''--event'', ''workflow_dispatch'', ''--limit'', ''30'', ''--json'', columns]"

definition findRequestRun :: "cenv \<Rightarrow> cli_context \<Rightarrow> string \<Rightarrow> (cli_error + request_run) ctl" where
  "findRequestRun E cx requestID =
     then_do (gh E cx (run_list_args cx ''databaseId,displayTitle,status,conclusion,url'')) (\<lambda>raw.
     lift (case parse_runs E raw of
       Inl e \<Rightarrow> Inl (errorf e)
     | Inr runs \<Rightarrow>
         (case List.find (\<lambda>r. str_contains (rr_title r) requestID) runs of
            Some r \<Rightarrow> Inr r
          | None \<Rightarrow> Inl (exitError ExitNotFound (''request '' @ requestID @ '' has no workflow run'')))))"

definition poll_interval :: int where "poll_interval = 2 * 10 ^ 9"

fun poll_run :: "cenv \<Rightarrow> cli_context \<Rightarrow> string \<Rightarrow> int \<Rightarrow> nat \<Rightarrow> (cli_error + string) option ctl" where
  "poll_run E cx requestID deadline 0 = ret None"
| "poll_run E cx requestID deadline (Suc n) = do {
     now \<leftarrow> time_now;
     if \<not> now < deadline then
       ret (Some (Inl (exitError ExitTimeout
         ''broker was dispatched but its run was not discoverable within 60 seconds'')))
     else do {
       r \<leftarrow> findRequestRun E cx requestID;
       case r of
         Inr found \<Rightarrow>
           if rr_url found \<noteq> [] then ret (Some (Inr (rr_url found)))
           else do {
             w \<leftarrow> invoke (SleepFor poll_interval);
             if done_of w \<noteq> None then
               ret (Some (Inl (exitError ExitTimeout ''timed out discovering the broker run'')))
             else poll_run E cx requestID deadline n }
       | Inl _ \<Rightarrow> do {
             w \<leftarrow> invoke (SleepFor poll_interval);
             if done_of w \<noteq> None then
               ret (Some (Inl (exitError ExitTimeout ''timed out discovering the broker run'')))
             else poll_run E cx requestID deadline n } } }"

definition poll_limit :: nat where "poll_limit = 31"

definition dispatch_args :: "cli_context \<Rightarrow> change_request \<Rightarrow> string \<Rightarrow> string list" where
  "dispatch_args cx r encoded =
     [''workflow'', ''run'', ''platform-change.yml'', ''--repo'', cx_repository cx, ''--ref'', cx_defaultBranch cx,
      ''-f'', ''schema_version='' @ cr_schemaVersion r, ''-f'', ''request_id='' @ cr_requestID r,
      ''-f'', ''base_sha='' @ cr_baseSHA r, ''-f'', ''proposal='' @ encoded]"

definition dispatchChange :: "cenv \<Rightarrow> cli_context \<Rightarrow> change_request \<Rightarrow> string \<Rightarrow> (cli_error + string) ctl" where
  "dispatchChange E cx request encoded = do {
     d \<leftarrow> gh E cx (dispatch_args cx request encoded);
     case d of
       Inl e \<Rightarrow> fail (exitError ExitRemote (''dispatch platform change: '' @ ce_text e))
     | Inr _ \<Rightarrow> do {
         started \<leftarrow> time_now;
         r \<leftarrow> poll_run E cx (cr_requestID request) (started + 60 * 10 ^ 9) poll_limit;
         ret (case r of Some result \<Rightarrow> result | None \<Rightarrow> Inl (errorf ''still polling'')) } }"

subsection \<open>The typed commands\<close>

record write_flags =
  wf_plan :: bool
  wf_team :: string
  wf_owners :: "string list"
  wf_repositories :: "string list"
  wf_cpu :: string
  wf_memory :: string
  wf_owner :: string
  wf_imageRepository :: string
  wf_imageTag :: string
  wf_port :: int
  wf_minReplicas :: int
  wf_maxReplicas :: int
  wf_databaseRef :: string
  wf_instances :: int
  wf_storage :: string
  wf_schedule :: string
  wf_retention :: string
  wf_sourceServer :: string
  wf_targetTime :: string
  wf_deletionRequest :: string
  wf_approvalRevision :: string
  wf_force :: bool
  wf_acknowledgeDataLoss :: bool

definition no_flags :: write_flags where
  "no_flags = \<lparr>wf_plan = False, wf_team = [], wf_owners = [], wf_repositories = [], wf_cpu = [], wf_memory = [],
     wf_owner = [], wf_imageRepository = [], wf_imageTag = [], wf_port = 0, wf_minReplicas = 0, wf_maxReplicas = 0,
     wf_databaseRef = [], wf_instances = 0, wf_storage = [], wf_schedule = [], wf_retention = [],
     wf_sourceServer = [], wf_targetTime = [], wf_deletionRequest = [], wf_approvalRevision = [],
     wf_force = False, wf_acknowledgeDataLoss = False\<rparr>"

definition flag_defaults :: "string \<Rightarrow> write_flags" where
  \<comment> \<open>the flags of an operation before the arguments are parsed; the others keep the zero value\<close>
  "flag_defaults operation =
     (if operation = ''team.create'' \<or> operation = ''team.update'' then
        no_flags\<lparr>wf_cpu := ''2'', wf_memory := ''4Gi''\<rparr>
      else if operation = ''app.create'' \<or> operation = ''app.update'' then
        no_flags\<lparr>wf_owner := ''platform-team'', wf_port := 8080, wf_minReplicas := 1, wf_maxReplicas := 3\<rparr>
      else if operation = ''database.create'' \<or> operation = ''database.update'' \<or> operation = ''database.restore'' then
        no_flags\<lparr>wf_instances := 1, wf_storage := ''1Gi'', wf_schedule := ''0 0 2 * * *'', wf_retention := ''7d''\<rparr>
      else no_flags)"

definition flag_names :: "string \<Rightarrow> string list" where
  "flag_names operation =
     [''plan''] @ (if \<not> has_prefix operation ''team.'' then [''team''] else [])
     @ (if operation = ''team.create'' \<or> operation = ''team.update'' then
          [''owner'', ''allow-repository'', ''cpu'', ''memory'']
        else if operation = ''app.create'' \<or> operation = ''app.update'' then
          [''owner'', ''image-repository'', ''image-tag'', ''port'', ''min-replicas'', ''max-replicas'', ''database'']
        else if operation = ''database.create'' \<or> operation = ''database.update'' \<or> operation = ''database.restore'' then
          [''instances'', ''storage'', ''backup-schedule'', ''backup-retention'']
          @ (if operation = ''database.restore'' then [''source-server-name'', ''target-time''] else [])
        else [])
     @ (if has_suffix operation ''.delete'' then [''force'', ''acknowledge-data-loss''] else [])
     @ (if operation = ''service.retire'' then [''force'', ''acknowledge-data-loss''] else [])
     @ (if has_suffix operation ''.finalize'' then [''deletion-request'', ''approval-revision''] else [])"

definition flag_parameters :: "write_flags \<Rightarrow> string \<Rightarrow> change_parameters" where
  "flag_parameters f name = no_parameters\<lparr>p_team := wf_team f, p_name := name, p_owners := wf_owners f,
     p_allowedRepositories := wf_repositories f, p_cpuQuota := wf_cpu f, p_memoryQuota := wf_memory f,
     p_owner := wf_owner f, p_imageRepository := wf_imageRepository f, p_imageTag := wf_imageTag f,
     p_port := wf_port f, p_minReplicas := wf_minReplicas f, p_maxReplicas := wf_maxReplicas f,
     p_databaseRef := wf_databaseRef f, p_instances := wf_instances f, p_storageSize := wf_storage f,
     p_backupSchedule := wf_schedule f, p_backupRetention := wf_retention f,
     p_sourceServerName := wf_sourceServer f, p_targetTime := wf_targetTime f,
     p_deletionRequest := wf_deletionRequest f, p_approvalRevision := wf_approvalRevision f,
     p_force := wf_force f, p_acknowledgeDataLoss := wf_acknowledgeDataLoss f\<rparr>"

definition confirmSubmission :: "options \<Rightarrow> string \<Rightarrow> string \<Rightarrow> (cli_error + bool) ctl" where
  "confirmSubmission opts operation name =
     (if op_quiet opts then fail (exitError ExitUsage ''interactive Git writes cannot use --quiet'')
      else do {
        _ \<leftarrow> invoke (WriteErr (''Submit '' @ operation @ '' for '' @ name @ '' through GitHub Actions? [y/N]: ''));
        r \<leftarrow> invoke ReadLine;
        ret (case text_of r of
          Inl e \<Rightarrow> Inl (plain e)
        | Inr line \<Rightarrow> let v = go_lower (trim_space (take 16 line)) in Inr (v = ''y'' \<or> v = ''yes'')) })"

definition show_diff :: "options \<Rightarrow> string \<Rightarrow> unit ctl" where
  "show_diff opts diff =
     (if \<not> op_quiet opts \<and> op_format opts = ''table'' then do { _ \<leftarrow> invoke (WriteOut diff); ret () } else ret ())"

definition fresh_uuid :: "string ctl" where
  "fresh_uuid = do { r \<leftarrow> invoke FreshUUID; ret (case text_of r of Inl _ \<Rightarrow> [] | Inr s \<Rightarrow> s) }"

definition submit ::
    "cenv \<Rightarrow> options \<Rightarrow> cli_context \<Rightarrow> change_request \<Rightarrow> change_set \<Rightarrow> string \<Rightarrow> (cli_error + unit) ctl" where
  \<comment> \<open>from the confirmation to the end, in \<open>newTypedWriteCommand\<close> and in \<open>planOrSubmit\<close>\<close>
  "submit E opts cx request cs diff =
     then_do (confirmSubmission opts (cr_operation request) (p_name (cr_parameters request))) (\<lambda>confirmed.
       if \<not> confirmed then fail (exitError ExitUsage ''proposal was not submitted'')
       else then_do (lift (Encode (rl_codec (cn_rlib E)) (lib_of E) request)) (\<lambda>encoded.
         then_do (dispatchChange E cx request encoded) (\<lambda>runURL.
           printChangeSummary E opts cs ''submitted'' runURL diff)))"

definition typed_write :: "cenv \<Rightarrow> options \<Rightarrow> string \<Rightarrow> string \<Rightarrow> write_flags \<Rightarrow> (cli_error + unit) ctl" where
  \<comment> \<open>\<open>RunE\<close> of \<open>newTypedWriteCommand\<close>\<close>
  "typed_write E opts operation name flags =
     then_do (loadContext E opts) (\<lambda>(_, cx).
     then_do (repositoryBaseSHA E cx) (\<lambda>baseSHA.
     then_do (always fresh_uuid) (\<lambda>newID.
     let request = NewChangeRequest newID operation baseSHA (flag_parameters flags name) in
     then_do (render_change E (cx_checkoutPath cx) request) (\<lambda>cs.
     then_do (lift (ChangeSetDiff E cs)) (\<lambda>diff.
     then_do (always (show_diff opts diff)) (\<lambda>_.
     if wf_plan flags then printChangeSummary E opts cs ''planned'' [] diff
     else then_do
       (if has_suffix operation ''.finalize'' then verifyFinalization E cx operation (flag_parameters flags name) baseSHA
        else yield ()) (\<lambda>_.
       submit E opts cx request cs diff)))))))"

subsection \<open>Requests and the broker\<close>

definition request_command :: "cenv \<Rightarrow> options \<Rightarrow> string \<Rightarrow> string \<Rightarrow> (cli_error + unit) ctl" where
  "request_command E opts action requestID =
     (if \<not> uuid_valid (lib_of E) requestID then fail (exitError ExitUsage ''request ID must be a UUID'')
      else
        then_do (loadContext E opts) (\<lambda>(_, cx).
        then_do (findRequestRun E cx requestID) (\<lambda>r.
        if action = ''watch'' then
          then_do (gh E cx [''run'', ''watch'', show_int (rr_databaseID r), ''--repo'', cx_repository cx,
            ''--exit-status'']) (\<lambda>_. yield ())
        else if action = ''open'' then
          then_do (gh E cx [''run'', ''view'', show_int (rr_databaseID r), ''--repo'', cx_repository cx, ''--web''])
            (\<lambda>_. yield ())
        else print_table E opts [''REQUEST ID'', ''STATUS'', ''CONCLUSION'', ''URL'']
          [[requestID, rr_status r, rr_conclusion r, rr_url r]]
          (JObj [(''databaseId'', JInt (rr_databaseID r)), (''DisplayTitle'', JStr (rr_title r)),
             (''Status'', JStr (rr_status r)), (''Conclusion'', JStr (rr_conclusion r)), (''URL'', JStr (rr_url r))]))))"

definition broker_command :: "cenv \<Rightarrow> string \<Rightarrow> string \<Rightarrow> fs \<Rightarrow> cli_error + fs \<times> string" where
  \<comment> \<open>\<open>RunE\<close> of \<open>broker validate\<close> and \<open>broker apply\<close> on the tree of the working directory: the tree after it, and the output\<close>
  "broker_command E action proposal t =
     on_ok (DecodeChangeRequest (rl_codec (cn_rlib E)) (lib_of E) proposal) (\<lambda>request.
     on_ok (RenderChange (cn_rlib E) t request) (\<lambda>cs.
     on_ok (if action = ''apply'' then ApplyChangeSet (lib_of E) cs t else Inr t) (\<lambda>t.
       Inr (t, json_text E (change_set_json cs) @ [CHR 0x0A]))))"

end
