(* ===== verification/Ctl_Service.thy ===== *)
theory Ctl_Service
  imports Ctl_Write
begin

section \<open>The lifecycle of generated services\<close>

text \<open>
  \<open>internal/platformctl/commands_service.go\<close>: scaffolding (\<open>init\<close>), the release plan of the services changed between two
  commits, the activation proposal, and the arguments and the connection of the development loop, which is in \<open>Processes\<close>.
\<close>

subsection \<open>Planning or submitting\<close>

definition planOrSubmit ::
    "cenv \<Rightarrow> options \<Rightarrow> cli_context \<Rightarrow> change_request \<Rightarrow> bool \<Rightarrow> (cli_error + unit) ctl" where
  "planOrSubmit E opts cx request plan =
     then_do (render_change E (cx_checkoutPath cx) request) (\<lambda>cs.
     then_do (lift (ChangeSetDiff E cs)) (\<lambda>diff.
     then_do (always (show_diff opts diff)) (\<lambda>_.
     if plan then printChangeSummary E opts cs ''planned'' [] diff else submit E opts cx request cs diff)))"

definition init_command ::
    "cenv \<Rightarrow> options \<Rightarrow> string \<Rightarrow> string \<Rightarrow> string \<Rightarrow> bool \<Rightarrow> bool \<Rightarrow> bool \<Rightarrow> (cli_error + unit) ctl" where
  \<comment> \<open>name, and the flags template, team, create-team, with-database and plan\<close>
  "init_command E opts name template team create_team with_database plan =
     then_do (loadContext E opts) (\<lambda>(_, cx).
     let team = (if team = [] then name else team) in
     then_do (repositoryBaseSHA E cx) (\<lambda>baseSHA.
     then_do (always fresh_uuid) (\<lambda>newID.
       planOrSubmit E opts cx (NewChangeRequest newID ''service.scaffold'' baseSHA
         (no_parameters\<lparr>p_team := team, p_name := name, p_template := template, p_version := ''v0.1.0'',
            p_createTeam := create_team, p_withDatabase := with_database\<rparr>)) plan)))"

subsection \<open>Activation\<close>

definition activation_request :: "cenv \<Rightarrow> string \<Rightarrow> string \<Rightarrow> string \<Rightarrow> string \<Rightarrow> change_request" where
  \<comment> \<open>its identifier is derived from the service and the base, so that a retry proposes the same request\<close>
  "activation_request E team name version baseSHA =
     NewChangeRequest (name_uuid E (''steadystate-service-activation:'' @ name @ '':'' @ baseSHA)) ''service.activate''
       baseSHA (no_parameters\<lparr>p_team := team, p_name := name, p_version := version\<rparr>)"

definition sorted_change_set_json :: "change_set \<Rightarrow> json" where
  \<comment> \<open>the change set decoded into maps and encoded again: the keys are sorted\<close>
  "sorted_change_set_json cs = JObj [
     (''files'', JArr (map (\<lambda>c. JObj [(''action'', JStr (action_text (fc_action c))), (''path'', JStr (fc_path c))])
        (cs_files cs))),
     (''operation'', JStr (cs_operation cs)), (''proposalDigest'', JStr (cs_proposalDigest cs)),
     (''renderDigest'', JStr (cs_renderDigest cs)), (''requestID'', JStr (cs_requestID cs))]"

definition work_directory :: "(cli_error + string) ctl" where
  "work_directory = do { r \<leftarrow> invoke WorkDir; ret (case text_of r of Inl e \<Rightarrow> Inl (plain e) | Inr d \<Rightarrow> Inr d) }"

definition activation_proposal ::
    "cenv \<Rightarrow> string \<Rightarrow> string \<Rightarrow> string \<Rightarrow> string \<Rightarrow> (cli_error + unit) ctl" where
  "activation_proposal E team name version baseSHA =
     (let request = activation_request E team name version baseSHA in
      then_do (lift (Encode (rl_codec (cn_rlib E)) (lib_of E) request)) (\<lambda>encoded.
      then_do work_directory (\<lambda>dir.
      then_do (render_change E dir request) (\<lambda>cs.
        always (do {
          _ \<leftarrow> invoke (WriteOut (json_text E (JObj [(''encoded'', JStr encoded),
                 (''requestID'', JStr (cr_requestID request)), (''validation'', sorted_change_set_json cs)])
                 @ [CHR 0x0A]));
          ret () })))))"

subsection \<open>The release plan\<close>

record release_item =
  ri_service :: string
  ri_team :: string
  ri_component :: string
  ri_application :: string
  ri_version :: string
  ri_path :: string
  ri_dockerfile :: string
  ri_semverTag :: string
  ri_shaTag :: string

definition changed_service :: "string \<Rightarrow> string option" where
  \<comment> \<open>the service that a changed path belongs to\<close>
  "changed_service path =
     (let parts = split_on CHR ''/'' (trim_space path) in
      if length parts \<ge> 3 \<and> parts ! 0 = ''services'' \<and> validName (parts ! 1) 48 then Some (parts ! 1) else None)"

definition changed_services :: "string \<Rightarrow> string list" where
  "changed_services changed =
     remdups (concat (map (\<lambda>p. case changed_service p of None \<Rightarrow> [] | Some s \<Rightarrow> [s]) (split_on CHR 0x0A changed)))"

definition runtimeServiceChange :: "string \<Rightarrow> string \<Rightarrow> bool" where
  "runtimeServiceChange changed service =
     list_ex (\<lambda>path.
       let relative = trim_prefix (trim_space path) (''services/'' @ service @ ''/'') in
       relative \<noteq> path \<and> relative \<noteq> ''README.md'' \<and> relative \<noteq> ''VERSION'' \<and> relative \<noteq> ''service.yaml'')
       (split_on CHR 0x0A changed)"

definition release_item_of :: "string \<Rightarrow> string \<Rightarrow> string \<Rightarrow> string \<Rightarrow> service_component \<Rightarrow> release_item" where
  "release_item_of sourceSHA serviceName team version c =
     (let pre = serviceName @ ''-'' @ sc_name c in
      \<lparr>ri_service = serviceName, ri_team = team, ri_component = sc_name c, ri_application = sc_application c,
       ri_version = version, ri_path = ''services/'' @ serviceName @ ''/'' @ sc_path c,
       ri_dockerfile = ''services/'' @ serviceName @ ''/'' @ sc_dockerfile c,
       ri_semverTag = pre @ ''-'' @ version, ri_shaTag = pre @ ''-sha-'' @ sourceSHA\<rparr>)"

definition checked_descriptor ::
    "cenv \<Rightarrow> string \<Rightarrow> catalog_service \<Rightarrow> string \<Rightarrow> string \<Rightarrow> cli_error + service_descriptor \<times> string" where
  \<comment> \<open>descriptor and version of a service, when they agree with each other and with what the renderer derives\<close>
  "checked_descriptor E serviceName service descriptorData versionData =
     (case parse_descriptor E descriptorData of
        Inl e \<Rightarrow> Inl (exitError ExitUsage (''invalid service descriptor '' @ serviceName @ '': '' @ e))
      | Inr descriptor \<Rightarrow>
          let version = trim_space versionData in
          if sd_name descriptor \<noteq> serviceName \<or> sd_version descriptor \<noteq> version \<or> \<not> semverPattern version then
            Inl (exitError ExitUsage (''service '' @ go_quote (lib_of E) serviceName
              @ '' descriptor and VERSION must agree''))
          else (case parse_descriptor E (descriptor_marshal (cn_rlib E)
                       (serviceDescriptorFor (service\<lparr>sv_version := version\<rparr>))) of
              Inl e \<Rightarrow> Inl (errorf e)
            | Inr expected \<Rightarrow>
                if descriptor \<noteq> expected then
                  Inl (exitError ExitUsage (''service '' @ go_quote (lib_of E) serviceName
                    @ '' descriptor paths and components must remain renderer-derived''))
                else Inr (descriptor, version)))"

definition component_items ::
    "cenv \<Rightarrow> string \<Rightarrow> string \<Rightarrow> string \<Rightarrow> service_descriptor \<Rightarrow> string \<Rightarrow> cli_error + release_item list" where
  "component_items E sourceSHA serviceName team descriptor version =
     (if list_all (\<lambda>c. sc_name c = ''api'' \<or> sc_name c = ''web'') (sd_components descriptor) then
        Inr (map (release_item_of sourceSHA serviceName team version) (sd_components descriptor))
      else Inl (exitError ExitUsage (''service '' @ go_quote (lib_of E) serviceName @ '' has invalid component'')))"

definition read_text :: "string \<Rightarrow> (cli_error + string) ctl" where
  "read_text path = do { r \<leftarrow> invoke (ReadPath path); ret (case text_of r of Inl e \<Rightarrow> Inl (plain e) | Inr s \<Rightarrow> Inr s) }"

definition service_items ::
    "cenv \<Rightarrow> string \<Rightarrow> string \<Rightarrow> string \<Rightarrow> string \<Rightarrow> catalog \<Rightarrow> string \<Rightarrow> (cli_error + release_item list) ctl" where
  \<comment> \<open>the body of the loop over the changed services\<close>
  "service_items E dir baseSHA sourceSHA changed catalog serviceName =
     (let base = dir @ ''/services/'' @ serviceName in do {
      st \<leftarrow> invoke (StatPath (base @ ''/service.yaml''));
      case st of
        Failed e \<Rightarrow> if rw_absent e then yield [] else fail (plain e)
      | _ \<Rightarrow>
          then_do (lift (findCatalogService (lib_of E) catalog serviceName)) (\<lambda>(tenant, service).
          then_do (read_text (base @ ''/service.yaml'')) (\<lambda>descriptorData.
          then_do (read_text (base @ ''/VERSION'')) (\<lambda>versionData.
          then_do (lift (checked_descriptor E serviceName service descriptorData versionData))
            (\<lambda>(descriptor, version). do {
          old \<leftarrow> runExternal E dir ''git''
                   [''show'', baseSHA @ '':services/'' @ serviceName @ ''/VERSION''];
          if old = Inr version \<and> runtimeServiceChange changed serviceName then
            fail (exitError ExitConflict (''runtime changes for service '' @ go_quote (lib_of E) serviceName
              @ '' require a VERSION bump''))
          else lift (component_items E sourceSHA serviceName (ten_name tenant) descriptor version) })))) })"

fun all_service_items :: "(string \<Rightarrow> (cli_error + release_item list) ctl) \<Rightarrow> string list
    \<Rightarrow> (cli_error + release_item list) ctl" where
  "all_service_items f [] = yield []"
| "all_service_items f (s # ss) =
     then_do (f s) (\<lambda>items. then_do (all_service_items f ss) (\<lambda>rest. yield (items @ rest)))"

definition sort_items :: "release_item list \<Rightarrow> release_item list" where
  "sort_items items = sort_key ri_service (sort_key ri_component items)"

definition buildServiceReleasePlan :: "cenv \<Rightarrow> string \<Rightarrow> string \<Rightarrow> string \<Rightarrow> (cli_error + release_item list) ctl" where
  "buildServiceReleasePlan E dir baseSHA sourceSHA =
     (if \<not> git_object_id baseSHA \<or> \<not> git_object_id sourceSHA then
        fail (exitError ExitUsage ''release SHAs must be full lowercase Git object IDs'')
      else
        then_do (runExternal E dir ''git'' [''rev-parse'', ''HEAD'']) (\<lambda>head.
        if head \<noteq> sourceSHA then fail (exitError ExitConflict ''release source SHA does not match checkout HEAD'')
        else
          then_do (runExternal E dir ''git'' [''diff'', ''--name-only'', baseSHA, sourceSHA, ''--'', ''services''])
            (\<lambda>changed. do {
          t \<leftarrow> invoke (ReadCheckout dir);
          case t of
            Checkout tree \<Rightarrow>
              then_do (lift (LoadCatalog (catalog_unmarshal (cn_rlib E)) (lib_of E) tree)) (\<lambda>catalog.
              then_do (all_service_items (service_items E dir baseSHA sourceSHA changed catalog)
                 (changed_services changed)) (\<lambda>items. yield (sort_items items)))
          | _ \<Rightarrow> fail (plain broken_answer) })))"

definition release_item_json :: "release_item \<Rightarrow> json" where
  "release_item_json i = JObj [(''service'', JStr (ri_service i)), (''team'', JStr (ri_team i)),
     (''component'', JStr (ri_component i)), (''application'', JStr (ri_application i)),
     (''version'', JStr (ri_version i)), (''path'', JStr (ri_path i)), (''dockerfile'', JStr (ri_dockerfile i)),
     (''semverTag'', JStr (ri_semverTag i)), (''shaTag'', JStr (ri_shaTag i))]"

definition release_plan_command :: "cenv \<Rightarrow> string \<Rightarrow> string \<Rightarrow> (cli_error + unit) ctl" where
  "release_plan_command E baseSHA sourceSHA =
     then_do work_directory (\<lambda>dir.
     then_do (buildServiceReleasePlan E dir baseSHA sourceSHA) (\<lambda>items.
       always (do {
         _ \<leftarrow> invoke (WriteOut (json_text E (JObj [(''include'', JArr (map release_item_json items))]) @ [CHR 0x0A]));
         ret () })))"

subsection \<open>The development loop's arguments\<close>

definition kubeArguments :: "cli_context \<Rightarrow> string list \<Rightarrow> string list" where
  "kubeArguments cx arguments =
     (if cx_kubeconfig cx \<noteq> [] then [''--kubeconfig'', cx_kubeconfig cx] else [])
     @ (if cx_kubeContext cx \<noteq> [] then [''--context'', cx_kubeContext cx] else []) @ arguments"

definition local_uri :: "string \<Rightarrow> string" where
  \<comment> \<open>the host between the first \<open>@\<close> and the next \<open>/\<close> becomes the tunnel's\<close>
  "local_uri uri =
     (case index_any uri ''@'' of
        None \<Rightarrow> uri
      | Some i \<Rightarrow>
          (case index_any (drop i uri) ''/'' of
             None \<Rightarrow> uri
           | Some slash \<Rightarrow> take (i + 1) uri @ ''127.0.0.1:5432'' @ drop (i + slash) uri))"

definition databaseURI :: "cenv \<Rightarrow> cli_context \<Rightarrow> string \<Rightarrow> string \<Rightarrow> (cli_error + string) ctl" where
  "databaseURI E cx team database = do {
     r \<leftarrow> runExternal E (cx_checkoutPath cx) ''kubectl'' (kubeArguments cx
            [''-n'', ''team-'' @ team, ''get'', ''secret'', database @ ''-postgres-app'', ''-o'', ''jsonpath={.data.uri}'']);
     ret (case r of
       Inl e \<Rightarrow> Inl (exitError ExitRemote (''read database connection Secret: '' @ ce_text e))
     | Inr encoded \<Rightarrow>
         (case base64_decode (rl_codec (cn_rlib E)) (trim_space encoded) of
            None \<Rightarrow> Inl (exitError ExitRemote ''decode database connection Secret'')
          | Some uri \<Rightarrow> Inr (local_uri uri))) }"

end
