(* ===== verification/Ctl_Doctor.thy ===== *)
theory Ctl_Doctor
  imports Ctl_Read
begin

section \<open>Diagnosis\<close>

text \<open>
  \<open>internal/platformctl/doctor.go\<close> and \<open>commands_app_doctor.go\<close>: the checks of the local prerequisites, the version and
  resource comparisons behind them, the cluster commands, and the health contracts of one Application.
\<close>

record doctor_check =
  dc_name :: string
  dc_status :: string
  dc_details :: string
  dc_evidence :: "string list"
  dc_remediation :: string

definition check :: "string \<Rightarrow> string \<Rightarrow> string \<Rightarrow> string \<Rightarrow> doctor_check" where
  \<comment> \<open>\<open>add\<close> of \<open>runDoctor\<close>\<close>
  "check name status details remediation =
     \<lparr>dc_name = name, dc_status = status, dc_details = Redact details, dc_evidence = [], dc_remediation = remediation\<rparr>"

definition check_json :: "doctor_check \<Rightarrow> json" where
  "check_json c = JObj ([(''name'', JStr (dc_name c)), (''status'', JStr (dc_status c)), (''details'', JStr (dc_details c))]
     @ (if dc_evidence c = [] then [] else [(''evidence'', JArr (map JStr (dc_evidence c)))])
     @ opt_field ''remediation'' (dc_remediation c))"

subsection \<open>Versions and resources\<close>

definition githubCLIVersion :: "string \<Rightarrow> string" where
  "githubCLIVersion output =
     (let fields = str_fields (hd (split_on CHR 0x0A (trim_space output))) in
      if length fields \<ge> 3 \<and> fields ! 0 = ''gh'' \<and> fields ! 1 = ''version'' then trim_prefix (fields ! 2) ''v'' else [])"

definition parse_version :: "string \<Rightarrow> (int \<times> int \<times> int) option" where
  "parse_version v =
     (case map parse_int64 (split_on CHR ''.'' (trim_prefix v ''v'')) of
        [Some a, Some b, Some c] \<Rightarrow> Some (a, b, c)
      | _ \<Rightarrow> None)"

definition versionAtLeast :: "string \<Rightarrow> string \<Rightarrow> bool" where
  "versionAtLeast actual required =
     (case (parse_version actual, parse_version required) of
        (Some (a1, a2, a3), Some (r1, r2, r3)) \<Rightarrow>
          if a1 \<noteq> r1 then a1 > r1 else if a2 \<noteq> r2 then a2 > r2 else if a3 \<noteq> r3 then a3 > r3 else True
      | _ \<Rightarrow> False)"

definition minimum_gib :: "string \<Rightarrow> int" where
  "minimum_gib profile = (if profile = ''minimal'' then 4 else if profile = ''standard'' then 7
     else if profile = ''full'' then 9 else 0)"

definition resourceBudgetCheck :: "cenv \<Rightarrow> string \<Rightarrow> int \<Rightarrow> doctor_check" where
  "resourceBudgetCheck E profile available =
     (let minimum = minimum_gib profile;
          c = \<lparr>dc_name = ''resource-budget'', dc_status = ''Pass'',
                dc_details = ''Docker has '' @ gib_text E available @ '' GiB for the '' @ profile @ '' profile'',
                dc_evidence = [], dc_remediation = []\<rparr> in
      if available < minimum * 2 ^ 30 then
        c\<lparr>dc_status := ''Fail'',
          dc_details := ''Docker has '' @ gib_text E available @ '' GiB; the '' @ profile
            @ '' profile requires at least '' @ show_int minimum @ '' GiB'',
          dc_remediation := ''Select a smaller profile or allocate at least '' @ show_int minimum
            @ '' GiB to Docker before retrying.''\<rparr>
      else c)"

definition missingToolCheck :: "string \<Rightarrow> string \<Rightarrow> string \<times> string \<times> string" where
  "missingToolCheck tool profile =
     (if profile = ''full'' \<and> (tool = ''sops'' \<or> tool = ''age'') then
        (''Warning'', tool @ '' is not installed yet'',
         ''platformctl platform up installs the pinned repository-local '' @ tool @ '' tool before it is required.'')
      else (''Fail'', tool @ '' was not found'', ''Install '' @ tool @ '' and ensure it is on PATH.''))"

definition pin_of :: "string \<Rightarrow> string \<Rightarrow> string" where
  \<comment> \<open>the value of a key in a file of \<open>KEY=value\<close> lines\<close>
  "pin_of data key =
     (case filter (\<lambda>l. has_prefix (trim_space l) (key @ ''='')) (split_on CHR 0x0A data) of
        l # _ \<Rightarrow> trim_space (trim_prefix (trim_space l) (key @ ''=''))
      | [] \<Rightarrow> [])"

definition readVersionPin :: "string \<Rightarrow> string \<Rightarrow> string ctl" where
  "readVersionPin path key = do {
     r \<leftarrow> invoke (ReadPath path);
     ret (case text_of r of Inl _ \<Rightarrow> [] | Inr data \<Rightarrow> pin_of data key) }"

definition missing_names :: "cenv \<Rightarrow> string \<Rightarrow> string list \<Rightarrow> string list" where
  \<comment> \<open>\<open>decodeGitHubNames\<close>: no names when the answer does not decode\<close>
  "missing_names E raw required =
     (let names = (case parse_names E raw of None \<Rightarrow> [] | Some ns \<Rightarrow> ns) in
      filter (\<lambda>n. n \<notin> set names) required)"

subsection \<open>The checks of the host\<close>

fun gather :: "'a list ctl list \<Rightarrow> 'a list ctl" where
  "gather [] = ret []"
| "gather (m # ms) = do { a \<leftarrow> m; b \<leftarrow> gather ms; ret (a @ b) }"

definition os_check :: "string \<Rightarrow> doctor_check" where
  "os_check goos =
     (if goos = ''windows'' \<or> goos = ''linux'' then
        check ''operating-system'' ''Pass'' (goos @ '' supports the full local lifecycle'') []
      else check ''operating-system'' ''Warning''
        (goos @ '' supports CLI Git/read operations; kind lifecycle is best-effort'')
        ''Use Windows or Linux for the supported local lifecycle.'')"

definition checkout_check :: "cli_context \<Rightarrow> doctor_check list ctl" where
  "checkout_check cx = do {
     d \<leftarrow> invoke (StatPath (cx_checkoutPath cx));
     case d of
       FileInfo True \<Rightarrow> do {
         g \<leftarrow> invoke (StatPath (path_join [cx_checkoutPath cx, ''go.mod'']));
         ret [case g of FileInfo _ \<Rightarrow> check ''checkout'' ''Pass'' (cx_checkoutPath cx) []
           | _ \<Rightarrow> check ''checkout'' ''Fail'' ''configured directory is not a SteadyState checkout''
               ''Point the context at the SteadyState repository root.''] }
     | _ \<Rightarrow> ret [check ''checkout'' ''Fail'' ''configured checkout is unavailable''
         ''Run platformctl context set with a valid --checkout path.''] }"

definition tool_check :: "cli_context \<Rightarrow> string \<Rightarrow> doctor_check list ctl" where
  "tool_check cx tool = do {
     p \<leftarrow> look_path tool;
     ret [case p of
       Inr path \<Rightarrow> check (''tool-'' @ tool) ''Pass'' path []
     | Inl _ \<Rightarrow> (let (status, details, remediation) = missingToolCheck tool (cx_profile cx) in
         check (''tool-'' @ tool) status details remediation)] }"

definition gh_check :: "cenv \<Rightarrow> doctor_check list ctl" where
  "gh_check E = do {
     executable \<leftarrow> githubCLIExecutable E;
     p \<leftarrow> look_path executable;
     ret [case p of
       Inr path \<Rightarrow> check ''tool-gh'' ''Pass'' path []
     | Inl _ \<Rightarrow> check ''tool-gh'' ''Fail'' ''gh was not found''
         ''Install GitHub CLI and ensure it is on PATH or in ~/.local/bin.''] }"

definition pwsh_check :: "cenv \<Rightarrow> doctor_check list ctl" where
  "pwsh_check E = do {
     p \<leftarrow> selectPowerShellExecutable (cn_goos E);
     ret [case p of
       Inr path \<Rightarrow> check ''tool-pwsh'' ''Pass'' path []
     | Inl e \<Rightarrow> check ''tool-pwsh'' ''Fail'' (ErrorMessage (Some e))
         ''Install PowerShell 7, or use Windows PowerShell 5.1 on Windows, and ensure it is on PATH.''] }"

definition run_check ::
    "cenv \<Rightarrow> cli_context \<Rightarrow> string \<Rightarrow> string list \<Rightarrow> (cli_error \<Rightarrow> doctor_check list) \<Rightarrow> (string \<Rightarrow> doctor_check list)
     \<Rightarrow> doctor_check list ctl" where
  \<comment> \<open>run a tool in the checkout and turn its result into checks\<close>
  "run_check E cx tool arguments bad good = do {
     r \<leftarrow> runExternal E (cx_checkoutPath cx) tool arguments;
     ret (case r of Inl e \<Rightarrow> bad e | Inr out \<Rightarrow> good out) }"

definition git_checks :: "cenv \<Rightarrow> cli_context \<Rightarrow> doctor_check list ctl list" where
  "git_checks E cx = [
     run_check E cx ''git'' [''rev-parse'', ''--show-toplevel'']
       (\<lambda>e. [check ''git-repository'' ''Fail'' (ce_text e) ''Restore or re-clone the configured checkout.''])
       (\<lambda>_. [check ''git-repository'' ''Pass'' ''repository metadata is readable'' []]),
     run_check E cx ''git'' [''status'', ''--porcelain'']
       (\<lambda>e. [check ''git-worktree'' ''Fail'' (ce_text e) ''Repair the Git checkout.''])
       (\<lambda>out. [if trim_space out \<noteq> [] then
                 check ''git-worktree'' ''Warning'' ''worktree contains local changes''
                   ''Commit, stash, or intentionally preserve local files before Git write operations.''
               else check ''git-worktree'' ''Pass'' ''worktree is clean'' []]),
     run_check E cx ''gh'' [''auth'', ''status'', ''--hostname'', ''github.com'']
       (\<lambda>_. [check ''github-auth'' ''Fail'' ''GitHub CLI authentication is unavailable''
               ''Run gh auth login and select the intended account.''])
       (\<lambda>_. [check ''github-auth'' ''Pass'' ''GitHub CLI is authenticated'' []])]"

definition versions_file :: "cli_context \<Rightarrow> string" where
  "versions_file cx = path_join [cx_checkoutPath cx, ''scripts'', ''versions.env'']"

definition gh_version_check :: "cenv \<Rightarrow> cli_context \<Rightarrow> doctor_check list ctl" where
  "gh_version_check E cx = do {
     required \<leftarrow> readVersionPin (versions_file cx) ''GITHUB_CLI_VERSION'';
     run_check E cx ''gh'' [''--version'']
       (\<lambda>e. [check ''github-cli-version'' ''Fail'' (ErrorMessage (Some e))
              ''Install the checksum-verified GitHub CLI version documented by SteadyState.''])
       (\<lambda>raw. let actual = githubCLIVersion raw in
          [if actual = [] \<or> \<not> versionAtLeast actual required then
             check ''github-cli-version'' ''Fail''
               (''GitHub CLI '' @ required @ '' or newer is required; detected '' @ actual)
               ''Upgrade GitHub CLI from its official signed release.''
           else check ''github-cli-version'' ''Pass''
             (''GitHub CLI '' @ actual @ '' satisfies the security baseline '' @ required) []]) }"

definition names_check ::
    "cenv \<Rightarrow> cli_context \<Rightarrow> string \<Rightarrow> string \<Rightarrow> string list \<Rightarrow> doctor_check list ctl" where
  "names_check E cx name kind required =
     run_check E cx ''gh'' [kind, ''list'', ''--repo'', cx_repository cx, ''--json'', ''name'']
       (\<lambda>_. [check name ''Warning'' (''GitHub '' @ kind @ '' names could not be inspected with the active token'')
              ''Confirm repository access or inspect the documented names in repository settings.''])
       (\<lambda>raw. let missing = missing_names E raw required in
          [if length missing > 0 then
             check name ''Fail'' (''required names are missing: '' @ join '', '' missing)
               (''Configure the documented repository '' @ kind @ '' names; values are never read.'')
           else check name ''Pass'' (''required '' @ kind @ '' names are present; values were not read'') []])"

definition docker_checks :: "cenv \<Rightarrow> cli_context \<Rightarrow> doctor_check list ctl list" where
  "docker_checks E cx = [
     run_check E cx ''docker'' [''info'', ''--format'', ''{{json .ServerVersion}}'']
       (\<lambda>_. [check ''docker'' ''Fail'' ''Docker Engine is not ready'' ''Start Docker Desktop or Docker Engine.''])
       (\<lambda>_. [check ''docker'' ''Pass'' ''Docker Engine responded'' []]),
     run_check E cx ''docker'' [''info'', ''--format'', ''{{.MemTotal}}''] (\<lambda>_. [])
       (\<lambda>raw. case parse_int64 (trim_space raw) of
          None \<Rightarrow> []
        | Some available \<Rightarrow>
            let c = resourceBudgetCheck E (cx_profile cx) available in
            [check (dc_name c) (dc_status c) (dc_details c) (dc_remediation c)])]"

definition port_check :: "int \<Rightarrow> doctor_check list ctl" where
  "port_check port = do {
     r \<leftarrow> invoke (ListenPort port);
     ret [if done_of r = None then check (''port-'' @ show_int port) ''Pass'' ''port is available'' []
          else check (''port-'' @ show_int port) ''Warning'' ''port is in use''
            ''Confirm the configured cluster owns it or choose another port.''] }"

definition kubernetes_check :: "cenv \<Rightarrow> cli_context \<Rightarrow> doctor_check list ctl" where
  "kubernetes_check E cx = do {
     client \<leftarrow> NewClusterClient cx;
     case client of
       Inl e \<Rightarrow> ret [check ''kubernetes'' ''Warning'' (ce_text e)
         ''Create the cluster with platformctl cluster up when cluster reads are required.'']
     | Inr _ \<Rightarrow> do {
         v \<leftarrow> invoke ServerVersion;
         case text_of v of
           Inl e \<Rightarrow> ret [check ''kubernetes'' ''Warning'' (rw_text e) ''Check the selected kube context.'']
         | Inr version \<Rightarrow> do {
             expected \<leftarrow> readVersionPin (versions_file cx) ''KUBERNETES_VERSION'';
             ret [if expected \<noteq> [] \<and> trim_prefix version ''v'' \<noteq> expected then
                    check ''kubernetes'' ''Fail'' (''cluster is '' @ version @ ''; repository requires v'' @ expected)
                      ''Recreate the configured cluster from the pinned profile.''
                  else check ''kubernetes'' ''Pass'' version []] } } }"

definition identity_file :: string where "identity_file = ''.artifacts/secrets/steadystate.agekey''"

definition fullProfileAgeIdentityAvailable :: "string \<Rightarrow> bool ctl" where
  "fullProfileAgeIdentityAvailable identityPath = do {
     key \<leftarrow> getenv ''SOPS_AGE_KEY'';
     if trim_space key \<noteq> [] then ret True
     else let clean = (if identityPath = [] then ''.'' else clean_path identityPath) in
       if path_base clean \<noteq> ''steadystate.agekey'' \<or> path_base (dir_name clean) \<noteq> ''secrets''
          \<or> path_base (dir_name (dir_name clean)) \<noteq> ''.artifacts'' then ret False
       else do { r \<leftarrow> invoke (StatPath identityPath); ret (is_regular r) } }"

definition secret_check :: "cli_context \<Rightarrow> string \<Rightarrow> doctor_check list ctl" where
  "secret_check cx relative =
     (let path = path_join [cx_checkoutPath cx, relative]; name = ''full-profile-'' @ path_base relative in do {
      available \<leftarrow> (if relative = identity_file then fullProfileAgeIdentityAvailable path else ret False);
      if available then ret [check name ''Pass''
        ''age identity is available through the process environment; its value was not read'' []]
      else do {
        r \<leftarrow> invoke (StatPath path);
        ret [case r of FileInfo _ \<Rightarrow> check name ''Pass'' ''required ignored file is present'' []
          | _ \<Rightarrow> check name ''Fail'' ''required ignored secret material is absent''
              ''Restore the documented SOPS/age full-profile prerequisites.''] } })"

definition runDoctor :: "cenv \<Rightarrow> cli_context \<Rightarrow> doctor_check list ctl" where
  "runDoctor E cx =
     (let full = (cx_profile cx = ''full'') in do {
      checks \<leftarrow> gather ([ret [os_check (cn_goos E)], checkout_check cx]
        @ map (tool_check cx) ([''git'', ''docker''] @ (if full then [''sops'', ''age''] else []))
        @ [gh_check E, pwsh_check E] @ git_checks E cx
        @ [gh_version_check E cx,
           names_check E cx ''github-app-variable'' ''variable'' [''STEADYSTATE_BOT_CLIENT_ID''],
           names_check E cx ''github-secrets'' ''secret''
             ([''STEADYSTATE_BOT_PRIVATE_KEY''] @ (if full then [''SOPS_AGE_KEY''] else []))]
        @ docker_checks E cx @ map port_check [cx_httpPort cx, cx_httpsPort cx] @ [kubernetes_check E cx]
        @ (if full then map (secret_check cx) [identity_file, ''gitops/secrets/backup-store.enc.yaml''] else []));
      ret (sort_key dc_name checks) })"

definition doctor_command :: "cenv \<Rightarrow> options \<Rightarrow> (cli_error + unit) ctl" where
  "doctor_command E opts =
     then_do (loadContext E opts) (\<lambda>(_, cx).
     then_do (always (runDoctor E cx)) (\<lambda>checks.
     then_do (print_table E opts [''STATUS'', ''CHECK'', ''DETAILS'', ''REMEDIATION'']
       (map (\<lambda>c. [dc_status c, dc_name c, dc_details c, dc_remediation c]) checks) (JArr (map check_json checks)))
       (\<lambda>_. if list_ex (\<lambda>c. dc_status c = ''Fail'') checks then
              fail (exitError ExitUnhealthy ''one or more prerequisite checks failed'')
            else yield ())))"

subsection \<open>The cluster commands\<close>

definition cluster_status :: "cenv \<Rightarrow> options \<Rightarrow> (cli_error + unit) ctl" where
  "cluster_status E opts =
     then_do (loadContext E opts) (\<lambda>(_, cx).
     then_do (NewClusterClient cx) (\<lambda>_. do {
       v \<leftarrow> invoke ServerVersion;
       case text_of v of
         Inl e \<Rightarrow> fail (exitError ExitRemote (''query cluster: '' @ rw_text e))
       | Inr version \<Rightarrow> do {
           n \<leftarrow> invoke ListNodes;
           case names_of_resp n of
             Inl e \<Rightarrow> fail (exitError ExitRemote (''list nodes: '' @ rw_text e))
           | Inr nodes \<Rightarrow>
               print_table E opts [''CLUSTER'', ''PROFILE'', ''VERSION'', ''NODES'']
                 [[cx_clusterName cx, cx_profile cx, version, show_nat (length nodes)]]
                 (JObj [(''cluster'', JStr (cx_clusterName cx)), (''nodes'', JInt (int (length nodes))),
                    (''profile'', JStr (cx_profile cx)), (''version'', JStr version)]) } }))"

definition script_arguments :: "cli_context \<Rightarrow> string \<Rightarrow> string \<Rightarrow> string list" where
  "script_arguments cx script scriptCommand =
     [''-NoProfile'', ''-File'', script, scriptCommand, ''-Profile'', cx_profile cx, ''-ClusterName'', cx_clusterName cx,
      ''-HttpPort'', show_int (cx_httpPort cx), ''-HttpsPort'', show_int (cx_httpsPort cx)]"

definition cluster_lifecycle :: "cenv \<Rightarrow> options \<Rightarrow> string \<Rightarrow> string \<Rightarrow> (cli_error + unit) ctl" where
  "cluster_lifecycle E opts name scriptCommand =
     (if cn_goos E \<noteq> ''windows'' \<and> cn_goos E \<noteq> ''linux'' then
        fail (exitError ExitUsage ''cluster lifecycle is supported on Windows and Linux in v0.8'')
      else
        then_do (loadContext E opts) (\<lambda>(_, cx).
        then_do (selectPowerShellExecutable (cn_goos E)) (\<lambda>powerShell. do {
          r \<leftarrow> invoke (RunCommand (cx_checkoutPath cx) powerShell (powerShellArguments powerShell
                 (script_arguments cx (path_join [cx_checkoutPath cx, ''scripts'', ''dev.ps1'']) scriptCommand)));
          case text_of r of
            Inr _ \<Rightarrow> yield ()
          | Inl e \<Rightarrow> fail (if rw_deadline e then exitError ExitTimeout (''cluster '' @ name @ '' timed out'')
              else exitError ExitRemote (''cluster '' @ name @ '' failed: '' @ rw_text e)) })))"

subsection \<open>The health contracts of an Application\<close>

definition contract :: "string \<Rightarrow> string \<Rightarrow> string \<Rightarrow> string \<Rightarrow> string list \<Rightarrow> doctor_check" where
  \<comment> \<open>\<open>add\<close> of \<open>runApplicationDoctor\<close>\<close>
  "contract name status details remediation evidence =
     \<lparr>dc_name = name, dc_status = status, dc_details = Redact details, dc_evidence = evidence,
      dc_remediation = remediation\<rparr>"

definition doctorCondition :: "lib \<Rightarrow> json \<Rightarrow> string \<Rightarrow> doctor_check" where
  "doctorCondition L j ty =
     (let (status, reason, message) = conditionStatus L j ty in
      \<lparr>dc_name = ty,
       dc_status = (if status = ''True'' then ''Pass'' else if status = ''Unknown'' then ''Warning'' else ''Fail''),
       dc_details = trim_space (reason @ '': '' @ message), dc_evidence = [], dc_remediation = []\<rparr>)"

definition kube_uri :: "string \<Rightarrow> string \<Rightarrow> string" where "kube_uri ns what = ''kubernetes://'' @ ns @ ''/'' @ what"

definition error_text :: "cli_error \<Rightarrow> string" where "error_text e = ErrorMessage (Some e)"

definition tenants_file :: string where "tenants_file = ''file://gitops/clusters/local/catalog/tenants.yaml''"

definition ownership_contract :: "cenv \<Rightarrow> cli_context \<Rightarrow> string \<Rightarrow> string \<Rightarrow> doctor_check list ctl" where
  "ownership_contract E cx namespace name = do {
     c \<leftarrow> load_catalog E cx;
     let app = kube_uri namespace (''applications/'' @ name) in
     ret [case c of
       Inl e \<Rightarrow> contract ''ContextAndOwnership'' ''Fail'' (error_text e) ''Repair the configured checkout and catalog.''
         [tenants_file]
     | Inr catalog \<Rightarrow>
         if catalogNamespace (lib_of E) catalog ''Application'' name \<noteq> Inr namespace then
           contract ''ContextAndOwnership'' ''Fail''
             ''Application is not owned by the selected Git catalog and Team namespace''
             ''Use a context whose catalog owns this Application.'' [app]
         else contract ''ContextAndOwnership'' ''Pass''
           ''context, API access, catalog ownership, and Team namespace agree'' [] [tenants_file, app]] }"

definition revision_contract :: "cenv \<Rightarrow> string \<Rightarrow> json \<Rightarrow> doctor_check list ctl" where
  "revision_contract E namespace application =
     (let L = lib_of E; team = trim_prefix namespace ''team-'';
          evidence = [kube_uri ''argocd'' (''applications/'' @ team)];
          desired = get_annotation L application ''steadystate.dev/source-revision'';
          resolved = nested_string L application [''status'', ''resolvedGitRevision''] in do {
      a \<leftarrow> kube_get argoAppGVR ''argocd'' team;
      ret [case a of
        Inl e \<Rightarrow> contract ''GitOpsRevision'' ''Unknown'' (error_text e)
          ''Run platformctl request status and inspect the tenant Argo Application.'' evidence
      | Inr argo \<Rightarrow>
          let argoRevision = nested_string L argo [''status'', ''sync'', ''revision''] in
          if desired = [] \<or> resolved = [] \<or> argoRevision = [] then
            contract ''GitOpsRevision'' ''Warning'' ''one or more desired, active, or Argo revisions are unresolved''
              ''Wait for Argo and the operator to reconcile, then rerun doctor.'' evidence
          else if desired \<noteq> argoRevision \<or> resolved \<noteq> desired then
            contract ''GitOpsRevision'' ''Fail'' (''revision mismatch desired='' @ desired @ '' active='' @ resolved
                @ '' argo='' @ argoRevision)
              ''Inspect Argo sync and submit a recovery Git change; do not patch the Application.'' evidence
          else contract ''GitOpsRevision'' ''Pass''
            (''Git desired, Argo synchronized, and active revisions agree at '' @ resolved) [] evidence] })"

definition provenance_contract :: "lib \<Rightarrow> string \<Rightarrow> string \<Rightarrow> json \<Rightarrow> doctor_check" where
  "provenance_contract L namespace name application =
     (let evidence = [kube_uri namespace (''applications/'' @ name)]; ready = doctorCondition L application ''Ready'';
          observed = (case nested_int L application [''status'', ''observedGeneration''] of Some n \<Rightarrow> n | None \<Rightarrow> 0) in
      if get_generation L application \<noteq> observed then
        contract ''ApplicationAndProvenance'' ''Fail'' ''status is stale for the current Application generation''
          ''Wait for the operator or inspect its logs.'' evidence
      else if dc_status ready \<noteq> ''Pass'' then
        contract ''ApplicationAndProvenance'' (dc_status ready) (dc_details ready) (conditionRemediation ''Ready'') evidence
      else if nested_string L application [''status'', ''activeVersion''] = []
           \<or> nested_string L application [''status'', ''resolvedImageDigest''] = []
           \<or> nested_string L application [''status'', ''resolvedGitRevision''] = [] then
        contract ''ApplicationAndProvenance'' ''Warning''
          ''Application is Ready but its active provenance tuple is incomplete''
          ''Inspect the application Pods and image resolver status.'' evidence
      else contract ''ApplicationAndProvenance'' ''Pass''
        ''current-generation Application is Ready with an active version, digest, and revision'' [] evidence)"

definition policy_contract :: "cenv \<Rightarrow> string \<Rightarrow> string \<Rightarrow> json \<Rightarrow> doctor_check list ctl" where
  "policy_contract E namespace name application =
     (let L = lib_of E; security = doctorCondition L application ''SecurityPolicyReady'';
          reports = kube_uri namespace ''policyreports'' in do {
      r \<leftarrow> kube_list L policyReportGVR namespace (instance_selector name);
      ret [case r of
        Inl e \<Rightarrow> contract ''AdmissionAndPolicy'' ''Unknown'' (error_text e)
          ''Verify Kyverno availability and PolicyReport permissions.'' [reports]
      | Inr items \<Rightarrow>
          if dc_status security = ''Fail'' then
            contract ''AdmissionAndPolicy'' ''Fail'' (dc_details security) (conditionRemediation ''SecurityPolicyReady'')
              [reports, kube_uri namespace (''applications/'' @ name)]
          else contract ''AdmissionAndPolicy'' (dc_status security)
            (dc_details security @ ''; '' @ show_nat (length items) @ '' matching PolicyReport(s)'')
            (conditionRemediation ''SecurityPolicyReady'') [reports]] })"

definition canary_contract :: "cenv \<Rightarrow> string \<Rightarrow> string \<Rightarrow> json \<Rightarrow> nat \<Rightarrow> nat \<Rightarrow> doctor_check list ctl" where
  "canary_contract E namespace name workload replicaSets pods =
     (let L = lib_of E; phase = nested_string L workload [''status'', ''phase''];
          evidence = [kube_uri namespace (''rollouts/'' @ name)] in do {
      a \<leftarrow> kube_list L analysisRunGVR namespace (instance_selector name);
      ret [case a of
        Inl e \<Rightarrow> contract ''WorkloadAndRollout'' ''Unknown'' (error_text e) ''Inspect Rollout and AnalysisRun RBAC.'' evidence
      | Inr analyses \<Rightarrow>
          let counts = show_nat replicaSets @ '' ReplicaSet(s), '' @ show_nat pods @ '' Pod(s), and ''
                @ show_nat (length analyses) @ '' AnalysisRun(s)'' in
          if phase = ''Degraded'' then
            contract ''WorkloadAndRollout'' ''Fail'' (''canary Rollout is Degraded with '' @ counts)
              ''Run platformctl app rollout, then submit a recovery Git change.'' evidence
          else contract ''WorkloadAndRollout'' ''Pass'' (''canary Rollout phase='' @ phase @ '' with '' @ counts) [] evidence] })"

definition rolling_contract :: "lib \<Rightarrow> string \<Rightarrow> string \<Rightarrow> json \<Rightarrow> nat \<Rightarrow> nat \<Rightarrow> doctor_check" where
  "rolling_contract L namespace name workload replicaSets pods =
     (let available = (case nested_int L workload [''status'', ''availableReplicas''] of Some n \<Rightarrow> n | None \<Rightarrow> 0);
          evidence = [kube_uri namespace (''deployments/'' @ name)] in
      if available < 1 then
        contract ''WorkloadAndRollout'' ''Fail'' ''rolling Deployment has no available replicas''
          ''Inspect ReplicaSets, Pods, events, and image admission.'' evidence
      else contract ''WorkloadAndRollout'' ''Pass'' (''rolling Deployment has '' @ show_int available
          @ '' available replica(s), '' @ show_nat replicaSets @ '' ReplicaSet(s), and '' @ show_nat pods @ '' Pod(s)'')
        [] evidence)"

definition workload_contract :: "cenv \<Rightarrow> string \<Rightarrow> string \<Rightarrow> json \<Rightarrow> doctor_check list ctl" where
  "workload_contract E namespace name application =
     (let L = lib_of E; canary = (nested_string L application [''spec'', ''deployment'', ''strategy''] = ''canary'');
          kind = (if canary then ''rollouts'' else ''deployments'');
          lists = [kube_uri namespace ''replicasets'', kube_uri namespace ''pods''] in do {
      w \<leftarrow> kube_get (if canary then rolloutGVR else deploymentGVR) namespace name;
      rs \<leftarrow> kube_list L replicaSetGVR namespace (instance_selector name);
      ps \<leftarrow> kube_list L podGVR namespace (instance_selector name);
      case w of
        Inl e \<Rightarrow> ret [contract ''WorkloadAndRollout'' ''Fail'' (error_text e)
          ''Inspect operator reconciliation and generated workload ownership.''
          [kube_uri namespace (kind @ ''/'' @ name)]]
      | Inr workload \<Rightarrow>
          (case (rs, ps) of
             (Inr replicaSets, Inr pods) \<Rightarrow>
               if length pods = 0 then
                 ret [contract ''WorkloadAndRollout'' ''Fail'' (''workload has '' @ show_nat (length replicaSets)
                     @ '' ReplicaSet(s) but no Pods'')
                   ''Inspect image admission, scheduling, ReplicaSets, and workload events.'' lists]
               else if canary then canary_contract E namespace name workload (length replicaSets) (length pods)
               else ret [rolling_contract L namespace name workload (length replicaSets) (length pods)]
           | _ \<Rightarrow> ret [contract ''WorkloadAndRollout'' ''Unknown'' ''ReplicaSet or Pod state could not be inspected''
               ''Verify workload read permissions and API availability.'' lists]) })"

definition gateway_contract :: "lib \<Rightarrow> string \<Rightarrow> string \<Rightarrow> json \<Rightarrow> doctor_check list ctl" where
  "gateway_contract L namespace name application =
     (let evidence = [kube_uri namespace (''httproutes/'' @ name)];
          help = ''Inspect Gateway, HTTPRoute, Services, and EndpointSlices.'' in do {
      r \<leftarrow> kube_get httpRouteGVR namespace name;
      ret [case r of
        Inl e \<Rightarrow> contract ''GatewayAndEndpoints'' ''Fail'' (error_text e) help evidence
      | Inr route \<Rightarrow>
          let (st, details) = routeHealth L route; health = doctorCondition L application ''ServiceHealth'' in
          if dc_status health = ''Fail'' then
            contract ''GatewayAndEndpoints'' ''Fail'' (details @ ''; '' @ dc_details health) help evidence
          else contract ''GatewayAndEndpoints'' st details help evidence] })"

definition metrics_contract :: "cenv \<Rightarrow> string \<Rightarrow> string \<Rightarrow> string \<Rightarrow> json \<Rightarrow> doctor_check list ctl" where
  "metrics_contract E client namespace name application =
     (if \<not> nested_bool (lib_of E) application [''spec'', ''observability'', ''metrics''] then
        ret [contract ''MetricsSLOAndAlerts'' ''Pass'' ''metrics are intentionally disabled by desired state'' []
          [''git://'' @ name @ ''/spec.observability.metrics'']]
      else do {
        p \<leftarrow> ServiceProxy E client ''monitoring-kube-prometheus-prometheus'' 9090 ''/api/v1/query''
               [(''query'', ''up{namespace='' @ go_quote (lib_of E) namespace @ ''}'')];
        ret [case p of
          Inl e \<Rightarrow> contract ''MetricsSLOAndAlerts'' ''Unknown'' (error_text e)
            ''Inspect Prometheus readiness, ServiceMonitor discovery, and SLO rules.'' [''prometheus://query'']
        | Inr _ \<Rightarrow> contract ''MetricsSLOAndAlerts'' ''Pass''
            ''Prometheus query path is available for application SLO and alert inspection'' []
            [''prometheus://query'']] })"

definition telemetry_contract :: "cenv \<Rightarrow> string \<Rightarrow> string \<Rightarrow> string \<Rightarrow> json \<Rightarrow> doctor_check list ctl" where
  "telemetry_contract E client namespace name application =
     (let L = lib_of E; logs = nested_bool L application [''spec'', ''observability'', ''logs''];
          traces = nested_bool L application [''spec'', ''observability'', ''traces''];
          own = [''git://'' @ name @ ''/spec.observability''];
          done = (\<lambda>status details evidence. [contract ''LogsAndTraces'' status details
            ''Inspect Alloy, OTel Collector, Loki, and Tempo health and labels.'' evidence]) in
      if \<not> logs \<and> \<not> traces then
        ret (done ''Pass'' ''logs and traces are intentionally disabled by desired state'' own)
      else do {
        (status, details) \<leftarrow> (if logs then do {
            l \<leftarrow> ServiceProxy E client ''loki'' 3100 ''/loki/api/v1/query_range''
                   [(''query'', label_query L namespace name), (''limit'', ''1'')];
            ret (case l of Inl e \<Rightarrow> (''Unknown'', ''Loki query failed: '' @ error_text e)
              | Inr _ \<Rightarrow> (''Pass'', ''enabled telemetry backends are queryable'')) }
          else ret (''Pass'', ''enabled telemetry backends are queryable''));
        (status, details) \<leftarrow> (if traces then do {
            t \<leftarrow> ServiceProxy E client ''tempo'' 3200 ''/api/search''
                   [(''tags'', ''service.name='' @ name @ '' service.namespace='' @ namespace), (''limit'', ''1'')];
            ret (case t of Inl e \<Rightarrow> (''Unknown'', trim_space (details @ ''; Tempo query failed: '' @ error_text e))
              | Inr _ \<Rightarrow> (status, details)) }
          else ret (status, details));
        ret (done status details (own @ (if logs then [''loki://query_range''] else [])
          @ (if traces then [''tempo://search''] else []))) })"

definition database_contract :: "lib \<Rightarrow> string \<Rightarrow> string \<Rightarrow> json \<Rightarrow> doctor_check list ctl" where
  "database_contract L namespace name application =
     (let databaseName = nested_string L application [''spec'', ''databaseRef'', ''name''];
          own = kube_uri namespace (''databases/'' @ databaseName); backups_uri = kube_uri namespace ''backups'' in
      if databaseName = [] then
        ret [contract ''DatabaseAndBackups'' ''Pass'' ''no Database is attached'' []
          [''git://'' @ name @ ''/spec.databaseRef'']]
      else do {
        d \<leftarrow> kube_get databaseGVR namespace databaseName;
        case d of
          Inl e \<Rightarrow> ret [contract ''DatabaseAndBackups'' ''Fail'' (error_text e)
            ''Run platformctl database status and verify the recovery or backup store.'' [own]]
        | Inr database \<Rightarrow> do {
            b \<leftarrow> kube_list L backupGVR namespace (''steadystate.dev/database='' @ databaseName);
            ret [case b of
              Inl e \<Rightarrow> contract ''DatabaseAndBackups'' ''Unknown'' (error_text e)
                ''Inspect CloudNativePG and Barman backup permissions.'' [backups_uri]
            | Inr backups \<Rightarrow>
                let ready = doctorCondition L database ''Ready'' in
                contract ''DatabaseAndBackups'' (dc_status ready) (dc_details ready @ ''; '' @ show_nat (length backups)
                  @ '' Backup object(s)'') (conditionRemediation ''DatabaseReady'') [own, backups_uri]] } })"

definition runApplicationDoctor ::
    "cenv \<Rightarrow> cli_context \<Rightarrow> string \<Rightarrow> string \<Rightarrow> string \<Rightarrow> json \<Rightarrow> doctor_check list ctl" where
  "runApplicationDoctor E cx client namespace name application = gather
     [ownership_contract E cx namespace name, revision_contract E namespace application,
      ret [provenance_contract (lib_of E) namespace name application],
      policy_contract E namespace name application, workload_contract E namespace name application,
      gateway_contract (lib_of E) namespace name application,
      metrics_contract E client namespace name application,
      telemetry_contract E client namespace name application,
      database_contract (lib_of E) namespace name application]"

definition app_doctor :: "cenv \<Rightarrow> options \<Rightarrow> string \<Rightarrow> string \<Rightarrow> (cli_error + unit) ctl" where
  "app_doctor E opts namespace name =
     then_do (commandClusterContext E opts namespace ''Application'' name) (\<lambda>(cx, ns, client).
     then_do (kube_get applicationGVR ns name) (\<lambda>application.
     then_do (always (runApplicationDoctor E cx client ns name application)) (\<lambda>checks.
     then_do (print_table E opts [''STATUS'', ''CHECK'', ''DETAILS'', ''EVIDENCE'', ''REMEDIATION'']
       (map (\<lambda>c. [dc_status c, dc_name c, Redact (dc_details c), join '', '' (dc_evidence c), dc_remediation c]) checks)
       (JArr (map check_json checks))) (\<lambda>_.
     if list_ex (\<lambda>c. dc_status c = ''Fail'') checks then
       fail (exitError ExitUnhealthy (''Application '' @ ns @ ''/'' @ name @ '' has failed health contracts''))
     else yield ()))))"

end
