(* ===== verification/Portal.thy ===== *)
theory Portal
  imports Break_Glass Ctl_Service Ctl_Doctor
begin

section \<open>The developer portal\<close>

text \<open>
  \<open>internal/platformctl/portal.go\<close> and \<open>portal_api.go\<close>: the checks every request passes, the routes, and a program for each
  handler. The sections under the mutex are calls \<open>Locked\<close> (\<open>Portal_State\<close>); between them the requests run
  concurrently. \<open>S\<close> holds the fields of the server that never change after its start. Paths are canonical (the request
  multiplexer redirects others). The body of a request is decoded by the JSON decoder of the library, a parameter: the
  value and the text after it.
\<close>

subsection \<open>Requests and responses\<close>

record http_request =
  rq_method :: string
  rq_path :: string
  rq_host :: string
  rq_cookie :: "string option"     \<comment> \<open>of the name \<open>steadystate_portal_session\<close>\<close>
  rq_origin :: string
  rq_csrf :: string
  rq_contentType :: string
  rq_lastEventID :: string
  rq_body :: string

record http_response =
  hr_status :: int
  hr_headers :: "(string \<times> string) list"
  hr_body :: json

record plan_input =
  pi_operation :: string
  pi_parameters :: change_parameters
  pi_dataLossConfirmation :: string

record execute_input =
  xi_operationToken :: string
  xi_action :: string
  xi_reason :: string
  xi_confirmation :: string

record penv =
  pn_env :: cenv
  pn_opts :: options
  pn_assets :: "(string \<times> string) list"
  pn_index :: string
  dec_plan :: "string \<Rightarrow> string + plan_input \<times> string"
  dec_confirm :: "string \<Rightarrow> string + bool \<times> string"
  dec_action :: "string \<Rightarrow> string + string \<times> string"
  dec_execute :: "string \<Rightarrow> string + execute_input \<times> string"

abbreviation plib :: "penv \<Rightarrow> lib" where "plib P \<equiv> lib_of (pn_env P)"

definition locked :: "portal_op \<Rightarrow> portal_answer option ctl" where
  "locked opn = do { r \<leftarrow> invoke (Locked opn); ret (case r of Answered a \<Rightarrow> Some a | _ \<Rightarrow> None) }"

definition locked_verdict :: "portal_op \<Rightarrow> bool ctl" where
  "locked_verdict opn = do { a \<leftarrow> locked opn; ret (a = Some (Verdict True)) }"

definition randomToken :: "nat \<Rightarrow> (cli_error + string) ctl" where
  "randomToken n = do {
     r \<leftarrow> invoke (RandomHex n);
     ret (case text_of r of Inr s \<Rightarrow> Inr s
       | Inl e \<Rightarrow> Inl (errorf (''generate secure portal token: '' @ rw_text e))) }"

definition respond :: "int \<Rightarrow> json \<Rightarrow> http_response" where
  "respond status body = \<lparr>hr_status = status,
     hr_headers = [(''Content-Type'', ''application/json; charset=utf-8'')], hr_body = body\<rparr>"

definition error_body :: "http_request \<Rightarrow> string \<Rightarrow> string \<Rightarrow> string \<Rightarrow> string \<Rightarrow> json" where
  "error_body r c message remediation requestID = JObj [(''apiVersion'', JStr portalAPIVersion),
     (''error'', JObj [(''code'', JStr c), (''message'', JStr (Redact message)), (''remediation'', JStr remediation),
        (''requestID'', JStr requestID)]), (''path'', JStr (rq_path r))]"

definition writeError :: "http_request \<Rightarrow> int \<Rightarrow> string \<Rightarrow> string \<Rightarrow> string \<Rightarrow> http_response ctl" where
  "writeError r status c message remediation = do {
     t \<leftarrow> randomToken 8;
     ret (respond status (error_body r c message remediation (case t of Inr s \<Rightarrow> s | Inl _ \<Rightarrow> []))) }"

definition portal_status :: "int \<Rightarrow> int" where
  \<comment> \<open>the status of an exit code\<close>
  "portal_status c = (if c = 2 then 400 else if c = 3 then 403 else if c = 4 then 404 else if c = 5 then 422
     else if c = 6 then 409 else if c = 7 then 504 else 502)"

definition portalError :: "http_request \<Rightarrow> cli_error \<Rightarrow> http_response ctl" where
  "portalError r e = (let c = ExitCode (Some e) in
     writeError r (portal_status c) (''dependency_error_'' @ show_int c) (ErrorMessage (Some e))
       ''Use the readiness or application doctor view for remediation.'')"

definition or_error :: "http_request \<Rightarrow> (cli_error + 'a) ctl \<Rightarrow> ('a \<Rightarrow> http_response ctl) \<Rightarrow> http_response ctl" where
  \<comment> \<open>\<open>if err != nil { s.portalError(w, r, err); return }\<close>\<close>
  "or_error r m f = do { x \<leftarrow> m; case x of Inl e \<Rightarrow> portalError r e | Inr a \<Rightarrow> f a }"

definition envelope :: "cenv \<Rightarrow> json \<Rightarrow> string list \<Rightarrow> int \<Rightarrow> json" where
  "envelope E data warnings now = JObj ([(''apiVersion'', JStr portalAPIVersion), (''observedAt'', JStr (time_json E now)),
     (''data'', data)] @ (if warnings = [] then [] else [(''warnings'', JArr (map JStr warnings))]))"

definition write_data :: "penv \<Rightarrow> int \<Rightarrow> json \<Rightarrow> string list \<Rightarrow> http_response ctl" where
  "write_data P status data warnings = do {
     now \<leftarrow> time_now; ret (respond status (envelope (pn_env P) data warnings now)) }"

definition body_limit :: nat where "body_limit = 64 * 1024"

definition decode_body ::
    "http_request \<Rightarrow> (string \<Rightarrow> string + 'a \<times> string) \<Rightarrow> ('a \<Rightarrow> http_response ctl) \<Rightarrow> http_response ctl" where
  "decode_body r dec f =
     (case dec (take body_limit (rq_body r)) of
        Inl e \<Rightarrow> writeError r 400 ''invalid_json'' (''request body is invalid: '' @ e) ''Correct the form and retry.''
      | Inr (v, rest) \<Rightarrow>
          if trim_space rest \<noteq> [] \<or> length (rq_body r) > body_limit then
            writeError r 400 ''invalid_json'' ''request contains trailing JSON'' ''Submit one JSON object.''
          else f v)"

subsection \<open>The checks in front of every handler\<close>

definition split_host_port :: "string \<Rightarrow> string option" where
  \<comment> \<open>the host of \<open>net.SplitHostPort\<close>, \<open>None\<close> for its errors\<close>
  "split_host_port s =
     (case last_index CHR '':'' s of
        None \<Rightarrow> None
      | Some i \<Rightarrow>
          if has_prefix s ''['' then
            (case index_any s '']'' of
               None \<Rightarrow> None
             | Some k \<Rightarrow>
                 if k + 1 = i \<and> CHR ''['' \<notin> set (drop 1 s) \<and> CHR '']'' \<notin> set (drop (k + 1) s)
                 then Some (take (k - 1) (drop 1 s)) else None)
          else let host = take i s in
            if CHR '':'' \<in> set host \<or> CHR ''['' \<in> set s \<or> CHR '']'' \<in> set s then None else Some host)"

definition loopback_host :: "http_request \<Rightarrow> bool" where
  "loopback_host r =
     (let host = (case split_host_port (rq_host r) of Some h \<Rightarrow> h | None \<Rightarrow> rq_host r) in
      host = ''127.0.0.1'' \<or> host = ''localhost'')"

definition reading :: "http_request \<Rightarrow> bool" where "reading r = (rq_method r = ''GET'' \<or> rq_method r = ''HEAD'')"

definition trusted_write :: "portal_server \<Rightarrow> http_request \<Rightarrow> bool" where
  "trusted_write S r = (rq_origin r = ''http://'' @ rq_host r \<and> rq_csrf r = ps_csrf S)"

definition json_content :: "http_request \<Rightarrow> bool" where
  "json_content r = has_prefix (go_lower (rq_contentType r)) ''application/json''"

definition session_required :: "http_request \<Rightarrow> http_response ctl" where
  "session_required r = writeError r 401 ''session_required'' ''portal session is missing or expired''
     ''Restart platformctl portal and use its one-time launch URL.''"

definition auth_write :: "portal_server \<Rightarrow> http_request \<Rightarrow> http_response ctl \<Rightarrow> http_response ctl" where
  "auth_write S r handler =
     (if \<not> trusted_write S r then
        writeError r 403 ''csrf_rejected'' ''request origin or CSRF token is invalid'' ''Refresh the portal and retry.''
      else if \<not> json_content r then
        writeError r 415 ''json_required'' ''state changes require application/json'' ''Submit the action through the portal.''
      else do {
        allowed \<leftarrow> locked_verdict AllowWrite;
        if \<not> allowed then
          writeError r 429 ''rate_limited'' ''too many state-changing requests'' ''Wait one minute and retry.''
        else handler })"

definition auth :: "portal_server \<Rightarrow> http_request \<Rightarrow> http_response ctl \<Rightarrow> http_response ctl" where
  "auth S r handler =
     (if rq_cookie r \<noteq> Some (ps_session S) then session_required r
      else do {
        now \<leftarrow> time_now;
        if now > ps_sessionUntil S then session_required r
        else if reading r then handler else auth_write S r handler })"

definition handleLaunch :: "portal_server \<Rightarrow> http_request \<Rightarrow> http_response ctl" where
  "handleLaunch S r =
     (if rq_method r \<noteq> ''GET'' then
        writeError r 405 ''method_not_allowed'' ''launch accepts GET only'' ''Open the launch URL printed by platformctl.''
      else do {
        valid \<leftarrow> locked_verdict (RedeemLaunch (trim_prefix (rq_path r) ''/launch/''));
        if \<not> valid then
          writeError r 401 ''launch_expired'' ''launch link is invalid or expired''
            ''Restart platformctl portal to create a new one-time link.''
        else ret \<lparr>hr_status = 303,
               hr_headers = [(''Set-Cookie'', ''steadystate_portal_session='' @ ps_session S
                  @ ''; Path=/; Max-Age=28800; HttpOnly; Secure; SameSite=Strict''), (''Location'', ''/'')],
               hr_body = JNull\<rparr> })"

subsection \<open>Handlers that read\<close>

definition handleMeta :: "penv \<Rightarrow> portal_server \<Rightarrow> http_response ctl" where
  "handleMeta P S =
     (let b = op_build (pn_opts P);
          b = (if bi_portalVersion b = [] then b\<lparr>bi_portalVersion := portalVersion\<rparr> else b);
          b = (if bi_portalAssetsDigest b = [] then b\<lparr>bi_portalAssetsDigest := ps_assetDigest S\<rparr> else b);
          cx = ps_selected S; port = show_int (cx_httpPort cx) in
      write_data P 200 (JObj [(''build'', build_json b), (''context'', JStr (ps_contextName S)),
        (''csrfToken'', JStr (ps_csrf S)),
        (''links'', JObj [(''argo'', JStr (''http://argocd.localtest.me:'' @ port)),
           (''grafana'', JStr (''http://grafana.localtest.me:'' @ port))]),
        (''mode'', JStr ''Local owner''), (''profile'', JStr (cx_profile cx)),
        (''repository'', JStr (cx_repository cx))]) [])"

definition handleReadiness :: "penv \<Rightarrow> portal_server \<Rightarrow> http_response ctl" where
  "handleReadiness P S = do {
     checks \<leftarrow> runDoctor (pn_env P) (ps_selected S);
     write_data P 200 (JObj [(''checks'', JArr (map check_json checks)),
       (''state'', JStr (if list_ex (\<lambda>c. dc_status c = ''Fail'') checks then ''Needs attention'' else ''Ready''))]) [] }"

definition catalog_json :: "catalog \<Rightarrow> json" where
  "catalog_json c = JObj [(''apiVersion'', JStr (cat_apiVersion c)), (''kind'', JStr (cat_kind c)),
     (''tenants'', JArr (map tenant_json (cat_tenants c)))]"

definition with_catalog :: "penv \<Rightarrow> portal_server \<Rightarrow> http_request \<Rightarrow> (catalog \<Rightarrow> http_response ctl) \<Rightarrow> http_response ctl" where
  "with_catalog P S r f = or_error r (load_catalog (pn_env P) (ps_selected S)) f"

definition handleCatalog :: "penv \<Rightarrow> portal_server \<Rightarrow> http_request \<Rightarrow> http_response ctl" where
  "handleCatalog P S r = with_catalog P S r (\<lambda>c. write_data P 200 (catalog_json c) [])"

definition overview_resources :: "penv \<Rightarrow> portal_server \<Rightarrow> (cli_error + resource_summary list) ctl" where
  "overview_resources P S = then_do (NewClusterClient (ps_selected S)) (\<lambda>_.
     then_do (kube_list (plib P) applicationGVR [] []) (\<lambda>items.
       yield (map (Summarize (plib P) ''Application'') items)))"

definition overview_json :: "portal_server \<Rightarrow> catalog \<Rightarrow> resource_summary list option \<Rightarrow> json" where
  "overview_json S c resources =
     (JObj [(''context'', JStr (ps_contextName S)),
        (''counts'', JObj [(''applications'', JInt (int (sum_list (map (\<lambda>t. length (ten_applications t)) (cat_tenants c))))),
           (''databases'', JInt (int (sum_list (map (\<lambda>t. length (ten_databases t)) (cat_tenants c))))),
           (''services'', JInt (int (sum_list (map (\<lambda>t. length (ten_services t)) (cat_tenants c))))),
           (''teams'', JInt (int (length (cat_tenants c))))]),
        (''health'', JStr (case resources of None \<Rightarrow> ''Unavailable''
           | Some rs \<Rightarrow> if list_all (\<lambda>s. rs_ready s = ''True'') rs then ''Healthy'' else ''Needs attention'')),
        (''profile'', JStr (cx_profile (ps_selected S))), (''repository'', JStr (cx_repository (ps_selected S))),
        (''resources'', JArr (map summary_json (case resources of None \<Rightarrow> [] | Some rs \<Rightarrow> rs)))])"

definition handleOverview :: "penv \<Rightarrow> portal_server \<Rightarrow> http_request \<Rightarrow> http_response ctl" where
  "handleOverview P S r = with_catalog P S r (\<lambda>c. do {
     x \<leftarrow> overview_resources P S;
     case x of
       Inl e \<Rightarrow> write_data P 200 (overview_json S c None) [ErrorMessage (Some e)]
     | Inr summaries \<Rightarrow> write_data P 200 (overview_json S c (Some summaries)) [] })"

definition handleTeams :: "penv \<Rightarrow> portal_server \<Rightarrow> http_request \<Rightarrow> http_response ctl" where
  "handleTeams P S r = with_catalog P S r (\<lambda>c. write_data P 200 (JArr (map tenant_json (SortedTenants c))) [])"

definition handleServices :: "penv \<Rightarrow> portal_server \<Rightarrow> http_request \<Rightarrow> http_response ctl" where
  "handleServices P S r = with_catalog P S r (\<lambda>c. write_data P 200
     (JArr (concat (map (\<lambda>t. map (\<lambda>s. JObj [(''service'', service_json s), (''team'', JStr (ten_name t))])
        (ten_services t)) (SortedTenants c)))) [])"

definition handleService :: "penv \<Rightarrow> portal_server \<Rightarrow> http_request \<Rightarrow> string \<Rightarrow> http_response ctl" where
  "handleService P S r name = with_catalog P S r (\<lambda>c.
     or_error r (lift (findCatalogService (plib P) c name)) (\<lambda>(t, s).
       write_data P 200 (JObj [(''namespace'', JStr (''team-'' @ ten_name t)), (''service'', service_json s),
         (''team'', JStr (ten_name t))]) []))"

definition handleTeam :: "penv \<Rightarrow> portal_server \<Rightarrow> http_request \<Rightarrow> string \<Rightarrow> http_response ctl" where
  "handleTeam P S r name = with_catalog P S r (\<lambda>c.
     case find_by ten_name name (cat_tenants c) of
       None \<Rightarrow> writeError r 404 ''not_found'' ''Team is not present in the Git catalog''
         ''Refresh the catalog or create the Team through a reviewed proposal.''
     | Some t \<Rightarrow> do {
         x \<leftarrow> then_do (NewClusterClient (ps_selected S)) (\<lambda>_. kube_get teamGVR [] name);
         write_data P 200 (JObj ([(''catalog'', tenant_json t), (''namespace'', JStr (''team-'' @ name))]
           @ (case x of Inl _ \<Rightarrow> [] | Inr j \<Rightarrow> [(''status'', summary_json (Summarize (plib P) ''Team'' j))]))) [] })"

definition map_json :: "lib \<Rightarrow> json \<Rightarrow> string \<Rightarrow> json" where
  "map_json L j k = (case nested_map L j [k] of Some es \<Rightarrow> JObj es | None \<Rightarrow> JNull)"

definition created_json :: "lib \<Rightarrow> json \<Rightarrow> json" where
  "created_json L j = (if get_created L j = [] then JNull else JStr (get_created L j))"

definition safeObjectSummaries :: "lib \<Rightarrow> json list \<Rightarrow> json" where
  "safeObjectSummaries L items = JArr (map (\<lambda>j. JObj [(''createdAt'', created_json L j),
     (''generation'', JInt (get_generation L j)), (''name'', JStr (get_name L j)),
     (''namespace'', JStr (get_namespace L j)), (''status'', map_json L j ''status'')]) items)"

definition resource_view :: "lib \<Rightarrow> string \<Rightarrow> json \<Rightarrow> json" where
  "resource_view L kind j = JObj [(''createdAt'', created_json L j), (''generation'', JInt (get_generation L j)),
     (''spec'', map_json L j ''spec''), (''status'', map_json L j ''status''),
     (''summary'', summary_json (Summarize L kind j))]"

definition writeBackend :: "penv \<Rightarrow> http_request \<Rightarrow> (cli_error + string) ctl \<Rightarrow> http_response ctl" where
  "writeBackend P r m = or_error r m (\<lambda>raw.
     if length raw > 1024 * 1024 then
       writeError r 502 ''response_too_large'' ''backend response exceeded the 1 MiB portal limit''
         ''Narrow the query time range.''
     else case json_parse (pn_env P) raw of
         None \<Rightarrow> writeError r 502 ''invalid_backend_response'' ''backend returned invalid JSON''
           ''Inspect the observability backend.''
       | Some v \<Rightarrow> write_data P 200 v [])"

definition app_rollout_view :: "penv \<Rightarrow> http_request \<Rightarrow> string \<Rightarrow> string \<Rightarrow> json \<Rightarrow> http_response ctl" where
  "app_rollout_view P r namespace name application =
     (let L = plib P; strategy = nested_string L application [''spec'', ''deployment'', ''strategy''] in
      or_error r (kube_get (if strategy = ''canary'' then rolloutGVR else deploymentGVR) namespace name) (\<lambda>workload. do {
        a \<leftarrow> kube_list L analysisRunGVR namespace (instance_selector name);
        write_data P 200 (JObj [(''analyses'', safeObjectSummaries L (case a of Inr js \<Rightarrow> js | Inl _ \<Rightarrow> [])),
          (''status'', map_json L workload ''status''), (''strategy'', JStr strategy)]) [] }))"

definition app_logs_view :: "penv \<Rightarrow> http_request \<Rightarrow> string \<Rightarrow> string \<Rightarrow> string \<Rightarrow> http_response ctl" where
  "app_logs_view P r client namespace name = do {
     now \<leftarrow> time_now;
     writeBackend P r (ServiceProxy (pn_env P) client ''loki'' 3100 ''/loki/api/v1/query_range''
       [(''query'', label_query (plib P) namespace name), (''limit'', ''500''),
        (''start'', show_int (now - hour)), (''end'', show_int now)]) }"

definition rate_query :: "lib \<Rightarrow> string \<Rightarrow> string \<Rightarrow> string" where
  "rate_query L namespace name =
     ''sum(rate(http_requests_total'' @ label_query L namespace name @ ''[5m]))''"

definition application_view ::
    "penv \<Rightarrow> portal_server \<Rightarrow> http_request \<Rightarrow> string \<Rightarrow> string \<Rightarrow> string \<Rightarrow> string \<Rightarrow> json \<Rightarrow> http_response ctl" where
  "application_view P S r client namespace name view application =
     (let L = plib P; E = pn_env P in
      if view = [] then write_data P 200 (resource_view L ''Application'' application) []
      else if view = ''rollout'' then app_rollout_view P r namespace name application
      else if view = ''doctor'' then do {
        checks \<leftarrow> runApplicationDoctor E (ps_selected S) client namespace name application;
        write_data P 200 (JArr (map check_json checks)) [] }
      else if view = ''policy'' then
        or_error r (kube_list L policyReportGVR namespace (instance_selector name))
          (\<lambda>items. write_data P 200 (safeObjectSummaries L items) [])
      else if view = ''logs'' then app_logs_view P r client namespace name
      else if view = ''traces'' then
        writeBackend P r (ServiceProxy E client ''tempo'' 3200 ''/api/search''
          [(''tags'', ''service.name='' @ name @ '' service.namespace='' @ namespace), (''limit'', ''100'')])
      else if view = ''slo'' then
        writeBackend P r (ServiceProxy E client ''monitoring-kube-prometheus-prometheus'' 9090 ''/api/v1/query''
          [(''query'', rate_query L namespace name)])
      else writeError r 404 ''view_not_found'' ''Application view was not found''
        ''Use overview, rollout, logs, traces, slo, policy, or doctor.'')"

definition handleApplication ::
    "penv \<Rightarrow> portal_server \<Rightarrow> http_request \<Rightarrow> string \<Rightarrow> string \<Rightarrow> string \<Rightarrow> http_response ctl" where
  "handleApplication P S r team name view =
     or_error r (NewClusterClient (ps_selected S)) (\<lambda>client.
     or_error r (kube_get applicationGVR (''team-'' @ team) name)
       (application_view P S r client (''team-'' @ team) name view))"

definition handleDatabase ::
    "penv \<Rightarrow> portal_server \<Rightarrow> http_request \<Rightarrow> string \<Rightarrow> string \<Rightarrow> bool \<Rightarrow> http_response ctl" where
  "handleDatabase P S r team name backups =
     or_error r (NewClusterClient (ps_selected S)) (\<lambda>_.
     if backups then
       or_error r (kube_list (plib P) backupGVR (''team-'' @ team) (''steadystate.dev/database='' @ name))
         (\<lambda>items. write_data P 200 (safeObjectSummaries (plib P) items) [])
     else or_error r (kube_get databaseGVR (''team-'' @ team) name)
         (\<lambda>j. write_data P 200 (resource_view (plib P) ''Database'' j) []))"

definition run_title :: "json \<Rightarrow> string" where
  "run_title j = entry_string (entries_of j) ''displayTitle''"

definition handleRequests :: "penv \<Rightarrow> portal_server \<Rightarrow> http_request \<Rightarrow> string \<Rightarrow> http_response ctl" where
  "handleRequests P S r requestID = do {
     raw \<leftarrow> gh (pn_env P) (ps_selected S)
       (run_list_args (ps_selected S) ''databaseId,displayTitle,status,conclusion,url,createdAt'');
     case raw of
       Inl e \<Rightarrow> portalError r (exitError ExitRemote (''query GitHub platform requests: '' @ ce_text e))
     | Inr raw \<Rightarrow>
         (case json_parse (pn_env P) raw of
            Some (JArr runs) \<Rightarrow>
              if requestID = [] then write_data P 200 (JArr runs) []
              else (case List.find (\<lambda>j. str_contains (run_title j) requestID) runs of
                  Some j \<Rightarrow> write_data P 200 j []
                | None \<Rightarrow> writeError r 404 ''not_found'' ''request run was not found''
                    ''Verify the request ID and GitHub authentication.'')
          | _ \<Rightarrow> portalError r (errorf ''request list is not an array'')) }"

subsection \<open>Change plans\<close>

definition force_unconfirmed :: "plan_input \<Rightarrow> bool" where
  "force_unconfirmed input =
     (let p = pi_parameters input in
      p_force p \<and> (p_force p \<noteq> p_acknowledgeDataLoss p \<or> pi_dataLossConfirmation input \<noteq> ''DELETE '' @ p_name p))"

definition plan_view :: "cenv \<Rightarrow> string \<Rightarrow> change_set \<Rightarrow> change_request \<Rightarrow> string \<Rightarrow> int \<Rightarrow> json" where
  "plan_view E planID cs request diff expires = JObj [(''planID'', JStr planID),
     (''requestID'', JStr (cr_requestID request)), (''operation'', JStr (cr_operation request)),
     (''baseSHA'', JStr (cr_baseSHA request)), (''proposalDigest'', JStr (Digest (rl_codec (cn_rlib E)) request)),
     (''renderDigest'', JStr (cs_renderDigest cs)), (''changedPaths'', JArr (map (JStr \<circ> fc_path) (cs_files cs))),
     (''diff'', JStr diff), (''expiresAt'', JStr (time_json E expires))]"

definition new_plan :: "change_request \<Rightarrow> change_set \<Rightarrow> string \<Rightarrow> int \<Rightarrow> portal_plan" where
  "new_plan request cs diff expires = \<lparr>pp_request = request, pp_digest = cs_renderDigest cs, pp_diff = diff,
     pp_files = cs_files cs, pp_expires = expires, pp_used = False\<rparr>"

definition plan_change :: "penv \<Rightarrow> portal_server \<Rightarrow> http_request \<Rightarrow> plan_input \<Rightarrow> http_response ctl" where
  \<comment> \<open>\<open>handlePlan\<close> with its decoded input\<close>
  "plan_change P S r input =
     (if force_unconfirmed input then
        writeError r 422 ''data_loss_confirmation_required''
          ''force deletion requires explicit data-loss acknowledgement and exact resource-name confirmation''
          (''Select the data-loss acknowledgement and type DELETE '' @ p_name (pi_parameters input) @ '' exactly.'')
      else let E = pn_env P; cx = ps_selected S in
        or_error r (repositoryBaseSHA E cx) (\<lambda>base. do {
        newID \<leftarrow> fresh_uuid;
        let request = NewChangeRequest newID (pi_operation input) base (pi_parameters input) in
        or_error r (render_change E (cx_checkoutPath cx) request) (\<lambda>cs.
        or_error r (lift (ChangeSetDiff E cs)) (\<lambda>diff.
        or_error r (randomToken 16) (\<lambda>planID. do {
          now \<leftarrow> time_now;
          let expires = now + 10 * minute in do {
          stored \<leftarrow> locked_verdict (StorePlan planID (new_plan request cs diff expires));
          if \<not> stored then
            writeError r 429 ''plan_capacity'' ''too many active plans'' ''Wait for old plans to expire.''
          else write_data P 201 (plan_view E planID cs request diff expires) [] } }))) }))"

definition handlePlan :: "penv \<Rightarrow> portal_server \<Rightarrow> http_request \<Rightarrow> http_response ctl" where
  "handlePlan P S r = decode_body r (dec_plan P) (plan_change P S r)"

definition dispatched_json :: "change_request \<Rightarrow> string \<Rightarrow> json" where
  "dispatched_json request url = JObj [(''operation'', JStr (cr_operation request)),
     (''requestID'', JStr (cr_requestID request)), (''status'', JStr ''Dispatched''), (''url'', JStr url)]"

definition announce :: "string \<Rightarrow> json \<Rightarrow> unit ctl" where
  "announce kind data = do { _ \<leftarrow> locked (Broadcast kind data); ret () }"

definition approve_plan :: "penv \<Rightarrow> portal_server \<Rightarrow> change_request \<Rightarrow> string \<Rightarrow> (cli_error + unit) ctl" where
  "approve_plan P S request base =
     (if has_suffix (cr_operation request) ''.finalize'' then
        verifyFinalization (pn_env P) (ps_selected S) (cr_operation request) (cr_parameters request) base
      else yield ())"

definition rendered_as_planned :: "penv \<Rightarrow> portal_server \<Rightarrow> portal_plan \<Rightarrow> (cli_error + unit) ctl" where
  "rendered_as_planned P S plan = do {
     x \<leftarrow> render_change (pn_env P) (cx_checkoutPath (ps_selected S)) (pp_request plan);
     ret (case x of
       Inr cs \<Rightarrow> if cs_renderDigest cs = pp_digest plan then Inr ()
           else Inl (exitError ExitConflict ''proposal changed after planning'')
     | Inl _ \<Rightarrow> Inl (exitError ExitConflict ''proposal changed after planning'')) }"

definition base_as_planned :: "penv \<Rightarrow> portal_server \<Rightarrow> portal_plan \<Rightarrow> (cli_error + string) ctl" where
  "base_as_planned P S plan = do {
     x \<leftarrow> repositoryBaseSHA (pn_env P) (ps_selected S);
     ret (if x = Inr (cr_baseSHA (pp_request plan)) then x
          else Inl (exitError ExitConflict ''proposal base is stale; create a fresh plan'')) }"

definition submit_plan :: "penv \<Rightarrow> portal_server \<Rightarrow> http_request \<Rightarrow> portal_plan \<Rightarrow> http_response ctl" where
  \<comment> \<open>\<open>handlePlanSubmit\<close> once the plan is taken\<close>
  "submit_plan P S r plan =
     (let E = pn_env P; cx = ps_selected S; request = pp_request plan in
      or_error r (base_as_planned P S plan) (\<lambda>base.
      or_error r (rendered_as_planned P S plan) (\<lambda>_.
      or_error r (approve_plan P S request base) (\<lambda>_.
      or_error r (lift (Encode (rl_codec (cn_rlib E)) (lib_of E) request)) (\<lambda>encoded.
      or_error r (dispatchChange E cx request encoded) (\<lambda>url. do {
        _ \<leftarrow> announce ''request.updated'' (JObj [(''requestID'', JStr (cr_requestID request)),
               (''status'', JStr ''Dispatched''), (''url'', JStr url)]);
        write_data P 202 (dispatched_json request url) [] }))))))"

definition handlePlanSubmit :: "penv \<Rightarrow> portal_server \<Rightarrow> http_request \<Rightarrow> string \<Rightarrow> http_response ctl" where
  "handlePlanSubmit P S r planID = decode_body r (dec_confirm P) (\<lambda>confirm.
     if \<not> confirm then
       writeError r 422 ''confirmation_required'' ''plan submission requires explicit confirmation''
         ''Review the diff and confirm submission.''
     else do {
       a \<leftarrow> locked (ClaimPlan planID);
       case a of
         Some (PlanTaken (Some plan)) \<Rightarrow> submit_plan P S r plan
       | _ \<Rightarrow> writeError r 409 ''plan_expired'' ''plan is expired, missing, or already used''
           ''Create and review a fresh plan.'' })"

subsection \<open>Break glass\<close>

definition new_break_plan :: "lib \<Rightarrow> string \<Rightarrow> string \<Rightarrow> string \<Rightarrow> json \<Rightarrow> int \<Rightarrow> portal_break_plan" where
  "new_break_plan L namespace application action rollout expires =
     \<lparr>bp_namespace = namespace, bp_application = application, bp_action = action, bp_uid = get_uid L rollout,
      bp_resourceVersion = get_resourceVersion L rollout, bp_before = rolloutState L rollout,
      bp_expires = expires, bp_used = False\<rparr>"

definition plan_break ::
    "penv \<Rightarrow> portal_server \<Rightarrow> http_request \<Rightarrow> string \<Rightarrow> string \<Rightarrow> string \<Rightarrow> http_response ctl" where
  "plan_break P S r team application action =
     (let L = plib P; namespace = ''team-'' @ team in
      if action \<noteq> ''promote'' \<and> action \<noteq> ''abort'' then
        writeError r 400 ''invalid_action'' ''break-glass action must be promote or abort'' ''Choose a supported action.''
      else
        or_error r (NewClusterClient (ps_selected S)) (\<lambda>_.
        or_error r (kube_get applicationGVR namespace application) (\<lambda>app.
        if \<not> is_canary L app then
          portalError r (exitError ExitUnhealthy ''Application does not use canary delivery'')
        else
          or_error r (kube_get rolloutGVR namespace application) (\<lambda>rollout.
          or_error r (lift (breakGlassPatch L action rollout)) (\<lambda>_.
          or_error r (randomToken 16) (\<lambda>token. do {
            now \<leftarrow> time_now;
            let expires = now + 2 * minute in do {
            _ \<leftarrow> locked (StoreBreak token (new_break_plan L namespace application action rollout expires));
            write_data P 201 (JObj [(''action'', JStr action), (''application'', JStr application),
              (''before'', rolloutState L rollout), (''expiresAt'', JStr (time_json (pn_env P) expires)),
              (''namespace'', JStr namespace), (''operationToken'', JStr token),
              (''resourceVersion'', JStr (get_resourceVersion L rollout)), (''targetUID'', JStr (get_uid L rollout))])
              [] } }))))))"

definition handleBreakGlassPlan ::
    "penv \<Rightarrow> portal_server \<Rightarrow> http_request \<Rightarrow> string \<Rightarrow> string \<Rightarrow> http_response ctl" where
  "handleBreakGlassPlan P S r team application = decode_body r (dec_action P) (plan_break P S r team application)"

definition portal_attempt ::
    "penv \<Rightarrow> portal_server \<Rightarrow> portal_break_plan \<Rightarrow> string \<Rightarrow> execute_input \<Rightarrow> json \<Rightarrow> json list
     \<Rightarrow> (cli_error + string \<times> string) ctl" where
  \<comment> \<open>like \<open>break_glass_attempt\<close>, but a failed event leaves the audit as attempted\<close>
  "portal_attempt P S plan application input rollout operations =
     (let E = pn_env P; opts = pn_opts P in
      then_do (always (new_audit E opts (ps_contextName S) (xi_action input) (xi_reason input) (bp_namespace plan)
                 application (bp_uid plan) (bp_resourceVersion plan) (bp_before plan))) (\<lambda>a. do {
        w \<leftarrow> writeBreakGlassAudit E opts a;
        case w of
          Inl e \<Rightarrow> fail (exitError ExitRemote (''write break-glass audit: '' @ ce_text e))
        | Inr path \<Rightarrow>
            then_do (record_attempt (lib_of E) rollout a) (\<lambda>_.
            then_do (patch_and_record E opts (\<lambda>e. e) rollout a operations) (\<lambda>_.
            yield (au_requestID a, path))) }))"

definition execute_break ::
    "penv \<Rightarrow> portal_server \<Rightarrow> http_request \<Rightarrow> string \<Rightarrow> string \<Rightarrow> execute_input \<Rightarrow> portal_break_plan
     \<Rightarrow> http_response ctl" where
  \<comment> \<open>\<open>handleBreakGlassExecute\<close> once the plan is taken\<close>
  "execute_break P S r team application input plan =
     (let L = plib P in
      or_error r (NewClusterClient (ps_selected S)) (\<lambda>_.
      or_error r (kube_get rolloutGVR (bp_namespace plan) application) (\<lambda>rollout.
      if get_resourceVersion L rollout \<noteq> bp_resourceVersion plan \<or> get_uid L rollout \<noteq> bp_uid plan then
        portalError r (exitError ExitConflict ''Rollout changed after break-glass planning'')
      else
        or_error r (lift (breakGlassPatch L (xi_action input) rollout)) (\<lambda>operations.
        or_error r (portal_attempt P S plan application input rollout operations) (\<lambda>(requestID, path). do {
          _ \<leftarrow> announce ''rollout.updated'' (JObj [(''action'', JStr (xi_action input)),
                 (''application'', JStr application), (''team'', JStr team)]);
          write_data P 200 (JObj [(''requestId'', JStr requestID), (''action'', JStr (xi_action input)),
            (''namespace'', JStr (bp_namespace plan)), (''name'', JStr application),
            (''result'', JStr ''Completed''), (''auditPath'', JStr path)]) [] })))))"

definition handleBreakGlassExecute ::
    "penv \<Rightarrow> portal_server \<Rightarrow> http_request \<Rightarrow> string \<Rightarrow> string \<Rightarrow> http_response ctl" where
  "handleBreakGlassExecute P S r team application = decode_body r (dec_execute P) (\<lambda>input.
     if trim_space (xi_reason input) = [] \<or> xi_confirmation input \<noteq> application then
       writeError r 422 ''confirmation_required'' ''reason and exact Application-name confirmation are required''
         ''Enter a reason and the exact Application name.''
     else do {
       a \<leftarrow> locked (ClaimBreak (xi_operationToken input) application (''team-'' @ team) (xi_action input));
       case a of
         Some (BreakTaken (Some plan)) \<Rightarrow> execute_break P S r team application input plan
       | _ \<Rightarrow> writeError r 409 ''operation_expired'' ''break-glass operation is stale or invalid''
           ''Inspect the Rollout and create a fresh operation.'' })"

subsection \<open>The event stream\<close>

definition parse_uint64 :: "string \<Rightarrow> nat" where
  \<comment> \<open>\<open>ParseUint\<close> with its error dropped: 0 for a syntax error, the largest value when out of range\<close>
  "parse_uint64 s = (if s = [] then 0 else case digits_value 0 s of None \<Rightarrow> 0 | Some v \<Rightarrow> min v (2 ^ 64 - 1))"

definition event_json :: "cenv \<Rightarrow> portal_event \<Rightarrow> json" where
  "event_json E e = JObj ([(''id'', JInt (uint (pe_id e))), (''type'', JStr (pe_type e)),
     (''time'', JStr (time_json E (pe_time e)))] @ (if pe_data e = JNull then [] else [(''data'', pe_data e)]))"

definition writeSSE :: "cenv \<Rightarrow> portal_event \<Rightarrow> unit ctl" where
  "writeSSE E e = do {
     _ \<leftarrow> invoke (WriteStream (''id: '' @ show_nat (unat (pe_id e)) @ [CHR 0x0A] @ ''event: '' @ pe_type e @ [CHR 0x0A]
            @ ''data: '' @ json_text E (event_json E e) @ [CHR 0x0A, CHR 0x0A]));
     ret () }"

fun write_events :: "cenv \<Rightarrow> portal_event list \<Rightarrow> unit ctl" where
  "write_events E [] = ret ()"
| "write_events E (e # es) = do { _ \<leftarrow> writeSSE E e; write_events E es }"

fun stream_events :: "cenv \<Rightarrow> nat \<Rightarrow> nat \<Rightarrow> unit ctl" where
  \<comment> \<open>the select loop of a connection, for at most the given number of turns\<close>
  "stream_events E channel 0 = ret ()"
| "stream_events E channel (Suc n) = do {
     r \<leftarrow> invoke (SelectStream channel);
     case r of
       Woken EventReady \<Rightarrow> do {
         a \<leftarrow> locked (ReceiveEvent channel);
         _ \<leftarrow> (case a of Some (Received (Some e)) \<Rightarrow> writeSSE E e | _ \<Rightarrow> ret ());
         stream_events E channel n }
     | Woken (Tick now) \<Rightarrow> do {
         a \<leftarrow> locked (Heartbeat now);
         _ \<leftarrow> (case a of Some (Issued e) \<Rightarrow> writeSSE E e | _ \<Rightarrow> ret ());
         stream_events E channel n }
     | _ \<Rightarrow> ret () }"

definition handleEvents :: "penv \<Rightarrow> http_request \<Rightarrow> nat \<Rightarrow> nat \<Rightarrow> http_response ctl" where
  "handleEvents P r channel n =
     (if rq_method r \<noteq> ''GET'' then
        writeError r 405 ''method_not_allowed'' ''event streaming accepts GET only'' ''Reconnect through the portal application.''
      else do {
        a \<leftarrow> locked (Subscribe channel);
        _ \<leftarrow> write_events (pn_env P) (missed_events (parse_uint64 (rq_lastEventID r))
               (case a of Some (Replay es) \<Rightarrow> es | _ \<Rightarrow> []));
        _ \<leftarrow> stream_events (pn_env P) channel n;
        _ \<leftarrow> locked (Unsubscribe channel);
        ret \<lparr>hr_status = 200, hr_headers = [(''Content-Type'', ''text/event-stream''), (''Cache-Control'', ''no-cache''),
               (''Connection'', ''keep-alive'')], hr_body = JNull\<rparr> })"

subsection \<open>Routes\<close>

datatype route =
  RMeta | RReadiness | ROverview | RCatalog | RTeams | RServices | RService string | RRequests string
| RPlan | RSubmit string | RTeam string | RApplication string string string
| RBreakPlan string string | RBreakExecute string string | RDatabase string string bool | RBadName | RNone

definition application_route :: "string \<Rightarrow> string \<Rightarrow> string list \<Rightarrow> route" where
  "application_route method team parts =
     (let application = parts ! 3; n = length parts in
      if \<not> validName application 63 then RBadName
      else if n = 4 \<and> method = ''GET'' then RApplication team application []
      else if n = 5 \<and> method = ''GET'' then RApplication team application (parts ! 4)
      else if n = 6 \<and> parts ! 4 = ''break-glass'' \<and> parts ! 5 = ''plan'' \<and> method = ''POST'' then
        RBreakPlan team application
      else if n = 6 \<and> parts ! 4 = ''break-glass'' \<and> parts ! 5 = ''execute'' \<and> method = ''POST'' then
        RBreakExecute team application
      else RNone)"

definition database_route :: "string \<Rightarrow> string \<Rightarrow> string list \<Rightarrow> route" where
  "database_route method team parts =
     (let database = parts ! 3; n = length parts in
      if \<not> validName database 63 then RBadName
      else if n = 4 \<and> method = ''GET'' then RDatabase team database False
      else if n = 5 \<and> parts ! 4 = ''backups'' \<and> method = ''GET'' then RDatabase team database True
      else RNone)"

definition team_route :: "string \<Rightarrow> string list \<Rightarrow> route" where
  "team_route method parts =
     (if \<not> (length parts \<ge> 2 \<and> parts ! 0 = ''teams'') then RNone
      else if \<not> validName (parts ! 1) 58 then RBadName
      else if length parts = 2 \<and> method = ''GET'' then RTeam (parts ! 1)
      else if length parts \<ge> 4 \<and> parts ! 2 = ''applications'' then application_route method (parts ! 1) parts
      else if length parts \<ge> 4 \<and> parts ! 2 = ''databases'' then database_route method (parts ! 1) parts
      else RNone)"

definition api_route :: "string \<Rightarrow> string \<Rightarrow> route" where
  "api_route method path =
     (let fetch = (method = ''GET''); post = (method = ''POST'') in
      if path = ''meta'' \<and> fetch then RMeta
      else if path = ''readiness'' \<and> fetch then RReadiness
      else if path = ''overview'' \<and> fetch then ROverview
      else if path = ''catalog'' \<and> fetch then RCatalog
      else if path = ''teams'' \<and> fetch then RTeams
      else if path = ''services'' \<and> fetch then RServices
      else if has_prefix path ''services/'' \<and> fetch then
        (if validName (trim_prefix path ''services/'') 48 then RService (trim_prefix path ''services/'') else RBadName)
      else if path = ''requests'' \<and> fetch then RRequests []
      else if has_prefix path ''requests/'' \<and> fetch then RRequests (trim_prefix path ''requests/'')
      else if path = ''plans'' \<and> post then RPlan
      else if has_prefix path ''plans/'' \<and> has_suffix path ''/submit'' \<and> post then
        RSubmit (trim_suffix (trim_prefix path ''plans/'') ''/submit'')
      else team_route method (split_on CHR ''/'' path))"

definition request_route :: "http_request \<Rightarrow> route" where
  "request_route r = api_route (rq_method r) (trim_chars CHR ''/'' (trim_prefix (rq_path r) ''/api/v1/''))"

definition handleAPI :: "penv \<Rightarrow> portal_server \<Rightarrow> http_request \<Rightarrow> http_response ctl" where
  "handleAPI P S r = (case request_route r of
     RMeta \<Rightarrow> handleMeta P S
   | RReadiness \<Rightarrow> handleReadiness P S
   | ROverview \<Rightarrow> handleOverview P S r
   | RCatalog \<Rightarrow> handleCatalog P S r
   | RTeams \<Rightarrow> handleTeams P S r
   | RServices \<Rightarrow> handleServices P S r
   | RService name \<Rightarrow> handleService P S r name
   | RRequests requestID \<Rightarrow> handleRequests P S r requestID
   | RPlan \<Rightarrow> handlePlan P S r
   | RSubmit planID \<Rightarrow> handlePlanSubmit P S r planID
   | RTeam team \<Rightarrow> handleTeam P S r team
   | RApplication team application view \<Rightarrow> handleApplication P S r team application view
   | RBreakPlan team application \<Rightarrow> handleBreakGlassPlan P S r team application
   | RBreakExecute team application \<Rightarrow> handleBreakGlassExecute P S r team application
   | RDatabase team database backups \<Rightarrow> handleDatabase P S r team database backups
   | RBadName \<Rightarrow> writeError r 400 ''invalid_resource_name'' ''resource name is not a valid DNS label''
       ''Use the exact catalog resource name.''
   | RNone \<Rightarrow> writeError r 404 ''route_not_found'' ''portal API route was not found'' ''Use a documented portal action.'')"

definition serve_asset :: "penv \<Rightarrow> http_request \<Rightarrow> http_response ctl" where
  "serve_asset P r =
     (if \<not> reading r then
        writeError r 405 ''method_not_allowed'' ''method is not allowed'' ''Use the documented portal route.''
      else let path = trim_prefix (rq_path r) ''/'' in
        case (if path = [] then None else map_of (pn_assets P) path) of
          Some content \<Rightarrow> ret \<lparr>hr_status = 200, hr_headers = [], hr_body = JStr content\<rparr>
        | None \<Rightarrow> ret \<lparr>hr_status = 200, hr_headers = [(''Content-Type'', ''text/html; charset=utf-8''),
              (''Cache-Control'', ''no-cache'')],
              hr_body = (if rq_method r = ''GET'' then JStr (pn_index P) else JNull)\<rparr>)"

definition quoted :: "string \<Rightarrow> string" where "quoted s = [CHR 0x27] @ s @ [CHR 0x27]"

definition security_headers :: "http_request \<Rightarrow> (string \<times> string) list" where
  "security_headers r = [
     (''Content-Security-Policy'', concat [''default-src '', quoted ''self'', ''; script-src '', quoted ''self'', ''; style-src '', quoted ''self'',
        ''; connect-src '', quoted ''self'', ''; img-src '', quoted ''self'', '' data:; font-src '', quoted ''self'',
        ''; object-src '', quoted ''none'', ''; base-uri '', quoted ''none'', ''; frame-ancestors '', quoted ''none'',
        ''; form-action '', quoted ''self'']),
     (''Referrer-Policy'', ''no-referrer''), (''X-Content-Type-Options'', ''nosniff''), (''X-Frame-Options'', ''DENY''),
     (''Permissions-Policy'', ''camera=(), microphone=(), geolocation=(), payment=()'')]
     @ (if has_prefix (rq_path r) ''/api/'' then [(''Cache-Control'', ''no-store'')] else [])"

definition dispatch :: "penv \<Rightarrow> portal_server \<Rightarrow> nat \<Rightarrow> nat \<Rightarrow> http_request \<Rightarrow> http_response ctl" where
  \<comment> \<open>the multiplexer of \<open>handler\<close>; \<open>channel\<close> and \<open>n\<close> are the channel and the turns of an event stream\<close>
  "dispatch P S channel n r =
     (if has_prefix (rq_path r) ''/launch/'' then handleLaunch S r
      else if rq_path r = ''/api/v1/events'' then auth S r (handleEvents P r channel n)
      else if has_prefix (rq_path r) ''/api/v1/'' then auth S r (handleAPI P S r)
      else auth S r (serve_asset P r))"

definition portal_handler :: "penv \<Rightarrow> portal_server \<Rightarrow> nat \<Rightarrow> nat \<Rightarrow> http_request \<Rightarrow> http_response ctl" where
  "portal_handler P S channel n r =
     (if \<not> loopback_host r then
        writeError r 403 ''invalid_host'' ''portal accepts loopback hosts only''
          ''Open the exact URL printed by platformctl portal.''
      else do {
        x \<leftarrow> dispatch P S channel n r;
        ret (x\<lparr>hr_headers := security_headers r @ hr_headers x\<rparr>) })"

definition newPortalServer :: "cenv \<Rightarrow> cli_context \<Rightarrow> string \<Rightarrow> (cli_error + portal_server) ctl" where
  "newPortalServer E cx contextName =
     then_do (randomToken 32) (\<lambda>launch.
     then_do (randomToken 32) (\<lambda>session.
     then_do (randomToken 32) (\<lambda>csrf. do {
       now \<leftarrow> time_now;
       yield (new_portal cx contextName launch session csrf (cn_assetsDigest E) now) })))"

end
