(* ===== verification/Ctl_Specs.thy ===== *)
theory Ctl_Specs
  imports Portal
begin

section \<open>Calls that change nothing\<close>

text \<open>
  Which programs of platformctl only read: \<open>silent m\<close> says that \<open>m\<close> makes only \<open>quiet\<close> calls, so it writes no file, changes
  no object of the cluster, starts no workflow, and leaves the plans, tokens and rate limit of the portal alone. The rules
  \<open>silent_rules\<close> prove it along the text of a program; every reading handler and both doctors are silent.
\<close>

named_theorems silent_rules \<open>programs that make quiet calls only\<close>

definition dispatching :: "string list \<Rightarrow> bool" where
  \<comment> \<open>arguments of \<open>gh\<close> that start a workflow\<close>
  "dispatching arguments \<longleftrightarrow> take 2 arguments = [''workflow'', ''run'']"

fun quiet_op :: "portal_op \<Rightarrow> bool" where
  "quiet_op (Subscribe c) = True"
| "quiet_op (Unsubscribe c) = True"
| "quiet_op (ReceiveEvent c) = True"
| "quiet_op (Heartbeat t) = True"
| "quiet_op _ = False"

fun quiet :: "ctl_call \<Rightarrow> bool" where
  "quiet (RunCommand directory executable arguments) = (\<not> dispatching arguments)"
| "quiet (WritePath path data) = False"
| "quiet (MakeDirs path) = False"
| "quiet (KubePatchStatus gvr ns name operations) = False"
| "quiet (KubeCreateEvent e) = False"
| "quiet (Locked opn) = quiet_op opn"
| "quiet (Process c) = False"
| "quiet _ = True"

abbreviation silent :: "'a ctl \<Rightarrow> bool" where "silent m \<equiv> makes (\<lambda>c _. quiet c) m"

lemma dispatching_simps [simp]:
  "dispatching (a # b # as) \<longleftrightarrow> a = ''workflow'' \<and> b = ''run''" "\<not> dispatching [a]" "\<not> dispatching []"
  by (simp_all add: dispatching_def)

lemma silent_invoke: "quiet c \<Longrightarrow> silent (invoke c)"
  by (rule makes_invoke)

lemma makes_sum [silent_rules]:
  "(\<And>e. makes C (f e)) \<Longrightarrow> (\<And>a. makes C (g a)) \<Longrightarrow> makes C (case x of Inl e \<Rightarrow> f e | Inr a \<Rightarrow> g a)"
  by (cases x) auto

lemma makes_option [silent_rules]:
  "makes C f \<Longrightarrow> (\<And>a. makes C (g a)) \<Longrightarrow> makes C (case x of None \<Rightarrow> f | Some a \<Rightarrow> g a)"
  by (cases x) auto

lemma makes_prod [silent_rules]: "(\<And>a b. makes C (f a b)) \<Longrightarrow> makes C (case p of (a, b) \<Rightarrow> f a b)"
  by (cases p) auto

lemma makes_Let [silent_rules]: "makes C (f e) \<Longrightarrow> makes C (Let e f)"
  by simp

lemma makes_then [silent_rules]: "makes C m \<Longrightarrow> (\<And>a. makes C (f a)) \<Longrightarrow> makes C (then_do m f)"
  unfolding then_do_def by (intro makes_bind makes_sum makes_return)

lemma makes_results [silent_rules]: "makes C (yield a)" "makes C (fail e)" "makes C (lift r)"
  by (simp_all add: yield_def fail_def lift_def makes_return)

lemma makes_always [silent_rules]: "makes C m \<Longrightarrow> makes C (always m)"
  unfolding always_def by (intro makes_bind makes_return)

lemma makes_mono:
  assumes "makes C m" "\<And>c r. C c r \<Longrightarrow> D c r"
  shows "makes D m"
  unfolding makes_def
proof
  fix s
  obtain evs where "appends s (snd (run_state m s)) evs" "\<forall>(c, r) \<in> set evs. C c r"
    using assms(1) unfolding makes_def by blast
  with assms(2) show "\<exists>evs. appends s (snd (run_state m s)) evs \<and> (\<forall>(c, r) \<in> set evs. D c r)"
    by (intro exI [of _ evs]) auto
qed

lemmas [silent_rules] = makes_return makes_bind makes_if silent_invoke

subsection \<open>Single calls\<close>

lemma silent_now [silent_rules]: "silent time_now"
  unfolding time_now_def by (intro silent_rules) simp

lemma silent_uuid [silent_rules]: "silent fresh_uuid"
  unfolding fresh_uuid_def by (intro silent_rules) simp

lemma silent_token [silent_rules]: "silent (randomToken n)"
  unfolding randomToken_def by (intro silent_rules) simp

lemma silent_getenv [silent_rules]: "silent (getenv k)"
  unfolding getenv_def by (intro silent_rules) simp

lemma silent_look_path [silent_rules]: "silent (look_path p)"
  unfolding look_path_def by (intro silent_rules) simp

lemma silent_first_existing [silent_rules]: "silent (first_existing cs)"
proof (induction cs)
  case (Cons c cs)
  then show ?case unfolding first_existing.simps by (intro silent_rules) simp_all
qed (simp add: makes_return)

lemma silent_first_env [silent_rules]: "silent (first_env ks)"
proof (induction ks)
  case (Cons k ks)
  then show ?case unfolding first_env.simps by (intro silent_rules)
qed (simp add: makes_return)

lemma silent_actor [silent_rules]: "silent localActor"
  unfolding localActor_def by (intro silent_rules) simp

lemma silent_gh_executable [silent_rules]: "silent (githubCLIExecutable E)"
  unfolding githubCLIExecutable_def selectGitHubCLIExecutable_def by (intro silent_rules) simp

lemma silent_powershell [silent_rules]: "silent (selectPowerShellExecutable goos)"
  unfolding selectPowerShellExecutable_def by (intro silent_rules)

lemma silent_start [silent_rules]: "\<not> dispatching arguments \<Longrightarrow> silent (start_external E d x arguments)"
  unfolding start_external_def by (intro silent_rules) simp

lemma silent_run [silent_rules]: "\<not> dispatching arguments \<Longrightarrow> silent (runExternal E d x arguments)"
  unfolding runExternal_def by (intro silent_rules)

lemma silent_git [silent_rules]: "\<not> dispatching arguments \<Longrightarrow> silent (git E cx arguments)"
  unfolding git_def by (intro silent_rules)

lemma silent_gh [silent_rules]: "\<not> dispatching arguments \<Longrightarrow> silent (gh E cx arguments)"
  unfolding gh_def by (intro silent_rules)

lemma silent_client [silent_rules]: "silent (NewClusterClient cx)"
  unfolding NewClusterClient_def by (intro silent_rules) simp

lemma silent_get [silent_rules]: "silent (kube_get g ns name)"
  unfolding kube_get_def by (intro silent_rules) simp

lemma silent_list [silent_rules]: "silent (kube_list L g ns selector)"
  unfolding kube_list_def by (intro silent_rules) simp

lemma silent_proxy [silent_rules]: "silent (ServiceProxy E host service port path query)"
  unfolding ServiceProxy_def by (intro silent_rules) simp

lemma silent_catalog [silent_rules]: "silent (load_catalog E cx)"
  unfolding load_catalog_def by (intro silent_rules) simp

lemma silent_render [silent_rules]: "silent (render_change E d request)"
  unfolding render_change_def by (intro silent_rules) simp

subsection \<open>The checkout and the approval\<close>

lemma silent_base [silent_rules]: "silent (repositoryBaseSHA E cx)"
  unfolding repositoryBaseSHA_def check_head_def
  by (intro silent_rules) (simp_all add: status_args_def fetch_args_def)

lemma silent_find_run [silent_rules]: "silent (findRequestRun E cx requestID)"
  unfolding findRequestRun_def by (intro silent_rules) (simp add: run_list_args_def)

lemma silent_poll [silent_rules]: "silent (poll_run E cx requestID deadline n)"
proof (induction n)
  case (Suc n)
  then show ?case unfolding poll_run.simps by (intro silent_rules) simp_all
qed (simp add: makes_return)

lemma silent_live [silent_rules]: "silent (live_resource E cx operation p)"
  unfolding live_resource_def live_service_def by (intro silent_rules)

lemma silent_verify [silent_rules]: "silent (verifyFinalization E cx operation p base)"
  unfolding verifyFinalization_def by (intro silent_rules) (simp add: is_ancestor_args_def)

subsection \<open>The doctors\<close>

lemma silent_gather [silent_rules]: "(\<And>m. m \<in> set ms \<Longrightarrow> silent m) \<Longrightarrow> silent (gather ms)"
proof (induction ms)
  case (Cons m ms)
  then show ?case unfolding gather.simps by (intro silent_rules) simp_all
qed (simp add: makes_return)

lemma silent_run_check [silent_rules]: "\<not> dispatching arguments \<Longrightarrow> silent (run_check E cx tool arguments bad good)"
  unfolding run_check_def by (intro silent_rules)

lemma silent_checkout [silent_rules]: "silent (checkout_check cx)"
  unfolding checkout_check_def
  by (intro makes_bind silent_invoke) (auto split: ctl_resp.split bool.split intro!: silent_rules)

lemma silent_pin [silent_rules]: "silent (readVersionPin path key)"
  unfolding readVersionPin_def by (intro silent_rules) simp

lemma silent_tool [silent_rules]: "silent (tool_check cx tool)"
  unfolding tool_check_def by (intro silent_rules)

lemma silent_gh_check [silent_rules]: "silent (gh_check E)"
  unfolding gh_check_def by (intro silent_rules)

lemma silent_pwsh_check [silent_rules]: "silent (pwsh_check E)"
  unfolding pwsh_check_def by (intro silent_rules)

lemma silent_git_checks: "m \<in> set (git_checks E cx) \<Longrightarrow> silent m"
  by (auto simp: git_checks_def intro!: silent_run_check)

lemma silent_gh_version [silent_rules]: "silent (gh_version_check E cx)"
  unfolding gh_version_check_def by (intro silent_rules) simp

lemma silent_names [silent_rules]: "silent (names_check E cx name kind required)"
  unfolding names_check_def by (intro silent_rules) simp

lemma silent_docker: "m \<in> set (docker_checks E cx) \<Longrightarrow> silent m"
  by (auto simp: docker_checks_def intro!: silent_run_check)

lemma silent_port [silent_rules]: "silent (port_check port)"
  unfolding port_check_def by (intro silent_rules) simp

lemma silent_kubernetes [silent_rules]: "silent (kubernetes_check E cx)"
  unfolding kubernetes_check_def by (intro silent_rules) simp

lemma silent_identity [silent_rules]: "silent (fullProfileAgeIdentityAvailable path)"
  unfolding fullProfileAgeIdentityAvailable_def by (intro silent_rules) simp

lemma silent_secret [silent_rules]: "silent (secret_check cx relative)"
  unfolding secret_check_def by (intro silent_rules) simp

lemma silent_doctor [silent_rules]: "silent (runDoctor E cx)"
  unfolding runDoctor_def
  by (intro makes_Let makes_bind silent_gather makes_return)
    (auto dest: silent_git_checks silent_docker intro!: silent_rules split: if_splits)

lemma silent_contracts [silent_rules]:
  "silent (ownership_contract E cx ns name)" "silent (revision_contract E ns j)" "silent (policy_contract E ns name j)"
  "silent (gateway_contract L ns name j)" "silent (metrics_contract E client ns name j)" "silent (database_contract L ns name j)"
  unfolding ownership_contract_def revision_contract_def policy_contract_def gateway_contract_def metrics_contract_def
    database_contract_def
  by (intro silent_rules)+

lemma silent_workload [silent_rules]: "silent (workload_contract E ns name j)"
  unfolding workload_contract_def canary_contract_def by (intro silent_rules)

lemma silent_telemetry [silent_rules]: "silent (telemetry_contract E client ns name j)"
  unfolding telemetry_contract_def by (intro silent_rules)

lemma silent_application_doctor [silent_rules]: "silent (runApplicationDoctor E cx client ns name j)"
  unfolding runApplicationDoctor_def by (rule silent_gather) (auto intro!: silent_rules)

subsection \<open>Responses and reading handlers\<close>

lemma silent_write_error [silent_rules]: "silent (writeError r status c message remediation)"
  unfolding writeError_def by (intro silent_rules)

lemma silent_portal_error [silent_rules]: "silent (portalError r e)"
  unfolding portalError_def by (intro silent_rules)

lemma silent_or_error [silent_rules]: "silent m \<Longrightarrow> (\<And>a. silent (f a)) \<Longrightarrow> silent (or_error r m f)"
  unfolding or_error_def by (intro silent_rules)

lemma silent_write_data [silent_rules]: "silent (write_data P status data warnings)"
  unfolding write_data_def by (intro silent_rules)

lemma silent_with_catalog [silent_rules]: "(\<And>c. silent (f c)) \<Longrightarrow> silent (with_catalog P S r f)"
  unfolding with_catalog_def by (intro silent_rules)

lemma silent_backend [silent_rules]: "silent m \<Longrightarrow> silent (writeBackend P r m)"
  unfolding writeBackend_def by (intro silent_rules)

lemma silent_application_view [silent_rules]: "silent (application_view P S r client ns name view j)"
  unfolding application_view_def app_rollout_view_def app_logs_view_def by (intro silent_rules)

lemma silent_handlers [silent_rules]:
  "silent (handleMeta P S)" "silent (handleReadiness P S)" "silent (handleCatalog P S r)" "silent (handleOverview P S r)"
  "silent (handleTeams P S r)" "silent (handleServices P S r)" "silent (handleService P S r name)"
  "silent (handleTeam P S r name)" "silent (handleApplication P S r team name view)"
  "silent (handleDatabase P S r team name backups)"
  unfolding handleMeta_def handleReadiness_def handleCatalog_def handleOverview_def overview_resources_def handleTeams_def
    handleServices_def handleService_def handleTeam_def handleApplication_def handleDatabase_def
  by (intro silent_rules)+

lemma silent_requests [silent_rules]: "silent (handleRequests P S r requestID)"
  unfolding handleRequests_def
  by (intro silent_rules) (auto simp: run_list_args_def split: json.split intro!: silent_rules)

lemma silent_asset [silent_rules]: "silent (serve_asset P r)"
  unfolding serve_asset_def by (intro silent_rules)

lemma silent_locked [silent_rules]: "quiet_op opn \<Longrightarrow> silent (locked opn)"
  unfolding locked_def by (intro silent_rules) simp

lemma silent_sse [silent_rules]: "silent (writeSSE E e)"
  unfolding writeSSE_def by (intro silent_rules) simp

lemma silent_write_events [silent_rules]: "silent (write_events E es)"
proof (induction es)
  case (Cons e es)
  then show ?case unfolding write_events.simps by (intro silent_rules)
qed (simp add: makes_return)

lemma silent_stream [silent_rules]: "silent (stream_events E c n)"
proof (induction n)
  case (Suc n)
  show ?case unfolding stream_events.simps
    by (intro makes_bind silent_invoke)
      (auto split: ctl_resp.split wake.split option.split portal_answer.split intro!: silent_rules Suc)
qed (simp add: makes_return)

lemma silent_events [silent_rules]: "silent (handleEvents P r c n)"
  unfolding handleEvents_def by (intro silent_rules) simp_all

subsection \<open>What a program has seen when it succeeds\<close>

text \<open>
  \<open>busy\<close> calls are all but the two that matter most: the patch of a Rollout and the start of a workflow. A fact is an entry of the
  trace; the rules below carry facts from a program to the code after it.
\<close>

fun busy :: "ctl_call \<Rightarrow> bool" where
  "busy (RunCommand directory executable arguments) = (\<not> dispatching arguments)"
| "busy (KubePatchStatus gvr ns name operations) = False"
| "busy (Process c) = False"
| "busy _ = True"

abbreviation quick :: "'a ctl \<Rightarrow> bool" where "quick m \<equiv> makes (\<lambda>c _. busy c) m"

lemma quiet_busy: "quiet c \<Longrightarrow> busy c"
  by (cases c) auto

lemma silent_quick: "silent m \<Longrightarrow> quick m"
  by (erule makes_mono) (rule quiet_busy)

lemma quick_invoke: "busy c \<Longrightarrow> quick (invoke c)"
  by (rule makes_invoke)

lemma does_then:
  assumes "does api C R m" "\<And>e evs. R (Inl e) evs \<Longrightarrow> T (Inl e) evs"
    and "\<And>a e1. R (Inr a) e1 \<Longrightarrow> does api C (\<lambda>b e2. T b (e1 @ e2)) (f a)"
  shows "does api C T (then_do m f)"
  unfolding then_do_def
  by (rule does_bind [OF assms(1)]) (use assms(2,3) in \<open>auto split: sum.split intro: does_ret\<close>)

lemma does_skip: "makes C m \<Longrightarrow> (\<And>a e1. does api C (\<lambda>b e2. T b (e1 @ e2)) (f a)) \<Longrightarrow> does api C T (m \<bind> f)"
  by (rule does_bind [OF calls_makes])

lemma keeps_then:
  assumes "keeps api G tr R m" "\<And>e t. R (Inl e) (tr @ t) \<Longrightarrow> T (Inl e) (tr @ t)"
    and "\<And>a t. R (Inr a) (tr @ t) \<Longrightarrow> keeps api G (tr @ t) T (f a)"
  shows "keeps api G tr T (then_do m f)"
  unfolding then_do_def
  by (rule keeps_bind [OF assms(1)]) (use assms(2,3) in \<open>auto split: sum.split intro: keeps_ret\<close>)

lemma keeps_silent:
  "silent m \<Longrightarrow> (\<And>e c. quiet c \<Longrightarrow> G (tr @ e) c) \<Longrightarrow> (\<And>a e. S a (tr @ e)) \<Longrightarrow> keeps api G tr S m"
  by (rule keeps_does [OF calls_makes])

lemma keeps_quick:
  "quick m \<Longrightarrow> (\<And>e c. busy c \<Longrightarrow> G (tr @ e) c) \<Longrightarrow> (\<And>a e. S a (tr @ e)) \<Longrightarrow> keeps api G tr S m"
  by (rule keeps_does [OF calls_makes])

end
