(* ===== verification/Ctl_Guard.thy ===== *)
theory Ctl_Guard
  imports Ctl_Specs
begin

section \<open>The evidence behind a change\<close>

text \<open>
  The facts that the code rests on when it dispatches a change or patches a Rollout, as conditions on the trace, and the lemmas
  that each program leaves them behind: \<open>does api C R m\<close> with \<open>R\<close> the fact.
\<close>

subsection \<open>Facts\<close>

definition head_is :: "cli_context \<Rightarrow> string \<Rightarrow> ctl_trace \<Rightarrow> bool" where
  \<comment> \<open>Git gave this commit for the head of the checkout\<close>
  "head_is cx sha tr \<longleftrightarrow>
     (\<exists>out. (RunCommand (cx_checkoutPath cx) ''git'' [''rev-parse'', ''HEAD''], Text out) \<in> set tr \<and> trim_space out = sha)"

definition carried :: "lib \<Rightarrow> change_parameters \<Rightarrow> ctl_trace \<Rightarrow> bool" where
  \<comment> \<open>an object of the named resource was read that carries the deletion request\<close>
  "carried L p tr \<longleftrightarrow> (\<exists>g ns live. (KubeGet g ns (p_name p), Object live) \<in> set tr \<and> carries_request L live p)"

definition approved :: "lib \<Rightarrow> cli_context \<Rightarrow> string \<Rightarrow> change_parameters \<Rightarrow> string \<Rightarrow> ctl_trace \<Rightarrow> bool" where
  \<comment> \<open>the approval is merged into the base, synchronized by Argo, and carried by the live resource\<close>
  "approved L cx operation p base tr \<longleftrightarrow>
     (\<exists>out. (RunCommand (cx_checkoutPath cx) ''git'' (is_ancestor_args (p_approvalRevision p) base), Text out) \<in> set tr)
     \<and> (\<exists>argo. (KubeGet argoAppGVR ''argocd'' (if has_prefix operation ''team.'' then p_name p else p_team p), Object argo) \<in> set tr
          \<and> revision_visible L argo (p_approvalRevision p))
     \<and> (has_prefix operation ''service.'' \<or> carried L p tr)"

definition rendered :: "cenv \<Rightarrow> cli_context \<Rightarrow> change_request \<Rightarrow> string \<Rightarrow> ctl_trace \<Rightarrow> bool" where
  \<comment> \<open>the request renders, on a tree of the checkout, to the given digest\<close>
  "rendered E cx request digest tr \<longleftrightarrow>
     (\<exists>t cs. (ReadCheckout (cx_checkoutPath cx), Checkout t) \<in> set tr \<and> RenderChange (cn_rlib E) t request = Inr cs
        \<and> cs_renderDigest cs = digest)"

definition audited :: "cenv \<Rightarrow> audit \<Rightarrow> ctl_trace \<Rightarrow> bool" where
  "audited E a tr \<longleftrightarrow> (\<exists>path. (WritePath path (json_indent E (audit_json E a) @ [CHR 0x0A]), Done) \<in> set tr)"

definition announced :: "lib \<Rightarrow> json \<Rightarrow> audit \<Rightarrow> ctl_trace \<Rightarrow> bool" where
  "announced L rollout a tr \<longleftrightarrow> (\<exists>now. (KubeCreateEvent (rollout_event L rollout (au_requestID a) ''Attempted''
     ''PlatformctlBreakGlassAttempted'' (attempted_note a) ''Normal'' now), Done) \<in> set tr)"

lemma grounds_append:
  "head_is cx sha t \<Longrightarrow> head_is cx sha (t @ e)" "head_is cx sha t \<Longrightarrow> head_is cx sha (e @ t)"
  "carried L p t \<Longrightarrow> carried L p (t @ e)" "carried L p t \<Longrightarrow> carried L p (e @ t)"
  "approved L cx opn p base t \<Longrightarrow> approved L cx opn p base (t @ e)" "approved L cx opn p base t \<Longrightarrow> approved L cx opn p base (e @ t)"
  "rendered E cx request d t \<Longrightarrow> rendered E cx request d (t @ e)" "rendered E cx request d t \<Longrightarrow> rendered E cx request d (e @ t)"
  "audited E a t \<Longrightarrow> audited E a (t @ e)" "audited E a t \<Longrightarrow> audited E a (e @ t)"
  "announced L j a t \<Longrightarrow> announced L j a (t @ e)" "announced L j a t \<Longrightarrow> announced L j a (e @ t)"
  by (fastforce simp: head_is_def carried_def approved_def rendered_def audited_def announced_def)+

abbreviation informs :: "(ctl_trace \<Rightarrow> ctl_call \<Rightarrow> ctl_resp) \<Rightarrow> ('a \<Rightarrow> ctl_trace \<Rightarrow> bool) \<Rightarrow> 'a ctl \<Rightarrow> bool" where
  "informs api R m \<equiv> does api (\<lambda>c _. quiet c) R m"

lemma informs_silent: "silent m \<Longrightarrow> informs api (\<lambda>_ _. True) m"
  by (rule calls_makes)

lemma informs_results: "T (Inr a) [] \<Longrightarrow> informs api T (yield a)" "T (Inl e) [] \<Longrightarrow> informs api T (fail e)"
  "T r [] \<Longrightarrow> informs api T (lift r)"
  by (simp_all add: yield_def fail_def lift_def does_ret)

subsection \<open>Reading\<close>

lemma informs_get: "informs api (\<lambda>x evs. \<forall>j. x = Inr j \<longrightarrow> (KubeGet g ns name, Object j) \<in> set evs) (kube_get g ns name)"
  unfolding kube_get_def
  by (rule does_answer) (auto simp: object_of_resp_def split: ctl_resp.splits sum.splits)

lemma informs_git:
  assumes "\<not> dispatching arguments"
  shows "informs api (\<lambda>x evs. \<forall>out. x = Inr out \<longrightarrow>
    (\<exists>raw. (RunCommand (cx_checkoutPath cx) ''git'' arguments, Text raw) \<in> set evs \<and> out = trim_space raw)) (git E cx arguments)"
proof -
  have base: "go_lower (path_base ''git'') = ''git''" by code_simp
  show ?thesis
    unfolding git_def runExternal_def start_external_def
    using assms by (simp add: base allowed_executables_def Let_def)
      (rule does_answer, auto simp: text_of_def split: ctl_resp.splits sum.splits)
qed

lemma informs_render:
  "informs api (\<lambda>x evs. \<forall>cs. x = Inr cs \<longrightarrow> rendered E cx request (cs_renderDigest cs) evs)
     (render_change E (cx_checkoutPath cx) request)"
  unfolding render_change_def rendered_def
  by (rule does_answer) (auto split: ctl_resp.splits)

lemma does_if:
  "(b \<Longrightarrow> does api C R m) \<Longrightarrow> (\<not> b \<Longrightarrow> does api C R n) \<Longrightarrow> does api C R (if b then m else n)"
  by simp

lemma does_case_sum:
  "(\<And>e. x = Inl e \<Longrightarrow> does api C R (f e)) \<Longrightarrow> (\<And>a. x = Inr a \<Longrightarrow> does api C R (g a))
    \<Longrightarrow> does api C R (case x of Inl e \<Rightarrow> f e | Inr a \<Rightarrow> g a)"
  by (cases x) auto

lemma does_case_option:
  "(x = None \<Longrightarrow> does api C R f) \<Longrightarrow> (\<And>a. x = Some a \<Longrightarrow> does api C R (g a))
    \<Longrightarrow> does api C R (case x of None \<Rightarrow> f | Some a \<Rightarrow> g a)"
  by (cases x) auto

lemma informs_head:
  "informs api (\<lambda>x evs. \<forall>out. x = Inr out \<longrightarrow> out = sha \<and> head_is cx sha evs) (check_head E cx sha)"
  unfolding check_head_def
  by (intro does_if informs_results does_then [OF informs_git]) (auto simp: head_is_def)

lemma informs_base:
  "informs api (\<lambda>x evs. \<forall>sha. x = Inr sha \<longrightarrow> head_is cx sha evs) (repositoryBaseSHA E cx)"
  unfolding repositoryBaseSHA_def
proof (rule does_then [OF informs_silent])
  fix status e1
  have "informs api (\<lambda>x evs. \<forall>sha. x = Inr sha \<longrightarrow> head_is cx sha evs)
      (then_do (git E cx [''rev-parse'', ''origin/'' @ cx_defaultBranch cx]) (check_head E cx))"
    by (rule does_then [OF informs_silent]) (auto intro!: silent_git does_weaken [OF informs_head] simp: grounds_append)
  then show "informs api (\<lambda>b e2. \<forall>sha. b = Inr sha \<longrightarrow> head_is cx sha (e1 @ e2))
      (if status \<noteq> [] then fail (exitError ExitConflict ''tracked checkout changes must be committed before proposing a write'')
       else do {
         f \<leftarrow> git E cx (fetch_args cx);
         case f of
           Inl e \<Rightarrow> fail (exitError ExitRemote (''refresh default branch: '' @ ce_text e))
         | Inr _ \<Rightarrow> then_do (git E cx [''rev-parse'', ''origin/'' @ cx_defaultBranch cx]) (check_head E cx) })"
    by (intro does_if informs_results does_skip [OF silent_git] does_case_sum)
      (auto simp: fetch_args_def grounds_append elim!: does_weaken)
qed (auto simp: status_args_def intro: silent_git)

lemma informs_live:
  assumes "\<not> has_prefix operation ''service.''"
  shows "informs api (\<lambda>x evs. \<forall>l. x = Inr l \<longrightarrow>
    (\<exists>g ns live. l = Some live \<and> (KubeGet g ns (p_name p), Object live) \<in> set evs)) (live_resource E cx operation p)"
proof -
  have found: "informs api (\<lambda>x evs. \<forall>l. x = Inr l \<longrightarrow>
      (\<exists>g ns live. l = Some live \<and> (KubeGet g ns (p_name p), Object live) \<in> set evs))
      (then_do (kube_get g ns (p_name p)) (\<lambda>j. yield (Some j)))" for g ns
    by (rule does_then [OF informs_get]) (auto intro!: informs_results)
  show ?thesis using assms unfolding live_resource_def Let_def by (auto intro!: found)
qed

lemma informs_verify:
  "informs api (\<lambda>x evs. x = Inr () \<longrightarrow> approved (lib_of E) cx operation p base evs) (verifyFinalization E cx operation p base)"
proof -
  let ?L = "lib_of E"
  let ?argo = "if has_prefix operation ''team.'' then p_name p else p_team p"
  have live: "informs api (\<lambda>x evs. x = Inr () \<longrightarrow> has_prefix operation ''service.'' \<or> carried ?L p evs)
    (then_do (live_resource E cx operation p) (\<lambda>live. case live of None \<Rightarrow> yield ()
       | Some j \<Rightarrow> if \<not> carries_request ?L j p then fail (exitError ExitConflict ''live resource does not carry the approved deletion request'')
           else yield ()))"
  proof (cases "has_prefix operation ''service.''")
    case True
    then show ?thesis by (simp add: does_weaken [OF informs_silent]) (intro informs_silent silent_rules)
  next
    case False
    show ?thesis
      by (rule does_then [OF informs_live [OF False]])
        (auto simp: carried_def intro!: does_case_option does_if informs_results)
  qed
  show ?thesis
    unfolding verifyFinalization_def
    by (rule does_bind [OF informs_git], simp add: is_ancestor_args_def)
      (auto intro!: does_case_sum does_if informs_results does_then [OF informs_silent [OF silent_client]]
        does_then [OF informs_get] does_weaken [OF live] simp: approved_def grounds_append)
qed

subsection \<open>The audit and the event\<close>

abbreviation acts :: "(ctl_trace \<Rightarrow> ctl_call \<Rightarrow> ctl_resp) \<Rightarrow> ('a \<Rightarrow> ctl_trace \<Rightarrow> bool) \<Rightarrow> 'a ctl \<Rightarrow> bool" where
  "acts api R m \<equiv> does api (\<lambda>c _. busy c) R m"

lemma informs_acts: "informs api R m \<Longrightarrow> acts api R m"
  by (erule does_weaken) (auto intro: quiet_busy)

lemma silent_config_path [silent_rules]: "silent (configPath E opts)"
  unfolding configPath_def DefaultConfigPath_def by (intro silent_rules) simp

lemma silent_audit_directory [silent_rules]: "silent (audit_directory E opts)"
  unfolding audit_directory_def by (intro silent_rules)

lemma done_of_None [simp]: "done_of r = None \<longleftrightarrow> r = Done"
  by (auto simp: done_of_def split: ctl_resp.split)

lemma quick_record: "quick (RecordRolloutEvent L rollout requestID stg reason message eventType)"
  unfolding RecordRolloutEvent_def by (intro makes_bind silent_quick [OF silent_now] quick_invoke makes_return) simp

lemma quick_store: "quick (store_audit E directory a)"
  unfolding store_audit_def by (intro makes_bind makes_option makes_results makes_return quick_invoke) simp_all

lemma quick_audit: "quick (writeBreakGlassAudit E opts a)"
  unfolding writeBreakGlassAudit_def by (intro makes_then silent_quick [OF silent_audit_directory] quick_store)

lemma acts_store: "acts api (\<lambda>x evs. \<forall>path. x = Inr path \<longrightarrow> audited E a evs) (store_audit E directory a)"
  unfolding store_audit_def
  by (intro does_skip [OF quick_invoke] does_case_option informs_results [THEN informs_acts] does_answer)
    (auto simp: audited_def fail_def intro!: does_ret split: option.split)

lemma acts_audit: "acts api (\<lambda>x evs. \<forall>path. x = Inr path \<longrightarrow> audited E a evs) (writeBreakGlassAudit E opts a)"
  unfolding writeBreakGlassAudit_def
  by (rule does_then [OF informs_acts [OF informs_silent [OF silent_audit_directory]]])
    (auto simp: grounds_append intro!: does_weaken [OF acts_store])

lemma acts_record: "acts api (\<lambda>x evs. x = Inr () \<longrightarrow> announced L rollout a evs) (record_attempt L rollout a)"
  unfolding record_attempt_def RecordRolloutEvent_def
  by (intro does_skip [OF silent_quick [OF silent_now]] does_answer)
    (auto simp: announced_def split: option.split)

definition audit_for :: "audit \<Rightarrow> string \<Rightarrow> string \<Rightarrow> string \<Rightarrow> string \<Rightarrow> string \<Rightarrow> string \<Rightarrow> bool" where
  "audit_for a action reason ns name uid resourceVersion \<longleftrightarrow> au_result a = ''Attempted'' \<and> au_action a = action
     \<and> au_reason a = Redact (trim_space reason) \<and> au_namespace a = ns \<and> au_application a = name
     \<and> au_targetUID a = uid \<and> au_resourceVersion a = resourceVersion"

lemma informs_new_audit:
  "informs api (\<lambda>a _. audit_for a action reason ns name uid rv)
     (new_audit E opts contextName action reason ns name uid rv before)"
  unfolding new_audit_def
  by (intro does_skip [OF silent_invoke] does_skip [OF silent_now] does_skip [OF silent_actor] does_ret)
    (simp_all add: audit_for_def)

definition patch_grounds ::
    "cenv \<Rightarrow> string \<Rightarrow> string \<Rightarrow> json \<Rightarrow> string \<Rightarrow> string \<Rightarrow> json list \<Rightarrow> ctl_trace \<Rightarrow> bool" where
  \<comment> \<open>what a patch of a Rollout rests on: the Rollout was read and admits the action; the patch tests the version read; the
      audit of the attempt is on disk and its event is in the cluster\<close>
  "patch_grounds E action reason rollout ns name operations tr \<longleftrightarrow>
     (KubeGet rolloutGVR ns name, Object rollout) \<in> set tr
     \<and> (\<exists>changes. breakGlassPatch (lib_of E) action rollout = Inr changes
          \<and> operations = test_operation (get_resourceVersion (lib_of E) rollout) # changes)
     \<and> (\<exists>a. audit_for a action reason ns name (get_uid (lib_of E) rollout) (get_resourceVersion (lib_of E) rollout)
          \<and> audited E a tr \<and> announced (lib_of E) rollout a tr)"

lemma keeps_once:
  fixes c :: 'c and f :: "'r \<Rightarrow> 'a"
  assumes "G tr c" "\<And>r. S (f r) (tr @ [(c, r)])"
  shows "keeps api G tr S (do { r \<leftarrow> invoke c; ret (f r) })"
proof (rule keeps_bind)
  show "keeps api G tr (\<lambda>r t. t = tr @ [(c, r)]) (invoke c)"
    unfolding keeps_def
  proof (intro allI impI)
    fix s :: "('c, 'r) session_of"
    show "\<exists>evs. appends s (snd (run_state (invoke c) s)) evs \<and> guarded (\<lambda>pre. G (tr @ pre)) evs
        \<and> tr @ evs = tr @ [(c, fst (run_state (invoke c) s))]"
      by (rule exI [of _ "[(c, answer s c)]"])
        (simp add: invoke_def appends_def log_call_def guarded_def Cons_eq_append_conv assms(1))
  qed
qed (use assms(2) in \<open>auto intro!: keeps_ret\<close>)

lemma keeps_status_patch:
  assumes "G tr (KubePatchStatus g ns name (test_operation rv # operations))"
  shows "keeps api G tr (\<lambda>x t. \<forall>updated. x = Inr updated \<longrightarrow>
      (KubePatchStatus g ns name (test_operation rv # operations), Object updated) \<in> set t) (PatchStatus g ns name rv operations)"
  unfolding PatchStatus_def
  by (rule keeps_once [where G = G and tr = tr, OF assms]) (auto simp: object_of_resp_def split: ctl_resp.splits if_splits)

lemma keeps_patch_and_record:
  fixes operations a
  defines "c \<equiv> KubePatchStatus rolloutGVR (au_namespace a) (au_application a) (test_operation (au_resourceVersion a) # operations)"
  assumes busy: "\<And>e c. busy c \<Longrightarrow> G (tr @ e) c" and patch: "G tr c"
  shows "keeps api G tr (\<lambda>x t. x = Inr () \<longrightarrow> (\<exists>updated. (c, Object updated) \<in> set t
      \<and> audited E (completed_audit (lib_of E) a updated) t)) (patch_and_record E opts wrap rollout a operations)"
proof -
  let ?done = "\<lambda>x t. x = Inr () \<longrightarrow> (\<exists>updated. (c, Object updated) \<in> set t
      \<and> audited E (completed_audit (lib_of E) a updated) t)"
  let ?ok = "\<lambda>t. \<forall>e c. busy c \<longrightarrow> G (t @ e) c"
  have ok: "?ok tr" "\<And>t e. ?ok t \<Longrightarrow> ?ok (t @ e)" using busy by simp_all
  have rest: "keeps api G t S m" if "?ok t" "quick m" "\<And>x e. S x (t @ e)" for t S and m :: "'x ctl"
    by (rule keeps_quick [OF that(2)]) (use that(1,3) in auto)
  have skip: "keeps api G t (\<lambda>_ _. True) m" if "?ok t" "quick m" for t and m :: "'x ctl"
    by (rule rest) (use that in simp_all)
  have stored: "keeps api G t (\<lambda>x t'. \<exists>e. t' = t @ e \<and> (\<forall>path. x = Inr path \<longrightarrow> audited E b e)) (writeBreakGlassAudit E opts b)"
    if "?ok t" for t b
    by (rule keeps_does [OF acts_audit]) (use that in auto)
  show ?thesis
    unfolding patch_and_record_def
  proof (rule keeps_bind [OF keeps_status_patch [where G = G and tr = tr, OF patch [unfolded c_def]]], rule keeps_case_sum)
    fix x t e
    show "keeps api G (tr @ t) ?done (do {
        _ \<leftarrow> writeBreakGlassAudit E opts (failed_audit a e);
        _ \<leftarrow> RecordRolloutEvent (lib_of E) rollout (au_requestID a) ''Failed'' ''PlatformctlBreakGlassFailed''
               (attempted_note a @ '': '' @ au_error (failed_audit a e)) ''Warning'';
        fail e })"
      by (rule keeps_bind [OF skip [OF _ quick_audit]], intro ok, rule keeps_bind [OF skip [OF _ quick_record]], intro ok)
        (simp add: fail_def keeps_ret)
  next
    fix x t updated
    assume "\<forall>updated. x = Inr updated \<longrightarrow> (KubePatchStatus rolloutGVR (au_namespace a) (au_application a)
        (test_operation (au_resourceVersion a) # operations), Object updated) \<in> set (tr @ t)" "x = Inr updated"
    then have sent: "(c, Object updated) \<in> set (tr @ t)" by (simp add: c_def)
    show "keeps api G (tr @ t) ?done (do {
        w \<leftarrow> writeBreakGlassAudit E opts (completed_audit (lib_of E) a updated);
        case w of
          Inl e \<Rightarrow> fail (wrap e)
        | Inr _ \<Rightarrow> RecordRolloutEvent (lib_of E) updated (au_requestID a) ''Completed''
            ''PlatformctlBreakGlassCompleted'' (attempted_note a) ''Normal'' })"
    proof (rule keeps_bind [OF stored [OF ok(2) [OF ok(1)]]], rule keeps_case_sum)
      fix w t2 path
      assume "\<exists>e. (tr @ t) @ t2 = (tr @ t) @ e \<and> (\<forall>path. w = Inr path \<longrightarrow> audited E (completed_audit (lib_of E) a updated) e)"
        "w = Inr path"
      then have "audited E (completed_audit (lib_of E) a updated) t2" by auto
      with sent show "keeps api G ((tr @ t) @ t2) ?done (RecordRolloutEvent (lib_of E) updated (au_requestID a) ''Completed''
            ''PlatformctlBreakGlassCompleted'' (attempted_note a) ''Normal'')"
        by (intro rest ok quick_record impI exI [of _ updated] conjI grounds_append(9) grounds_append(10)) auto
    qed (simp add: fail_def keeps_ret)
  qed
qed

end
