(* ===== verification/Portal_Claims.thy ===== *)
theory Portal_Claims
  imports Ctl_Guard
begin

section \<open>What the portal and the break-glass command may do, and when\<close>

text \<open>
  The guard of every call of a request to the portal, and the proof that its handler keeps it, in every run against any
  environment: another request, the cluster or Git may change anything between any two calls.
\<close>

subsection \<open>The guard\<close>

definition in_session :: "portal_server \<Rightarrow> http_request \<Rightarrow> ctl_trace \<Rightarrow> bool" where
  "in_session S r tr \<longleftrightarrow> loopback_host r \<and> rq_cookie r = Some (ps_session S)
     \<and> (\<exists>a. (ReadClock, a) \<in> set tr \<and> instant_of a \<le> ps_sessionUntil S)"

definition cleared :: "portal_server \<Rightarrow> http_request \<Rightarrow> ctl_trace \<Rightarrow> bool" where
  "cleared S r tr \<longleftrightarrow> in_session S r tr \<and> \<not> reading r \<and> trusted_write S r \<and> json_content r
     \<and> (Locked AllowWrite, Answered (Verdict True)) \<in> set tr"

fun first_contact :: "ctl_call \<Rightarrow> bool" where
  \<comment> \<open>what anyone may cause: the clock, an identifier for an error, and the launch link\<close>
  "first_contact ReadClock = True"
| "first_contact (RandomHex n) = True"
| "first_contact (Locked (RedeemLaunch token)) = True"
| "first_contact _ = False"

definition dispatch_grounds :: "cenv \<Rightarrow> cli_context \<Rightarrow> string list \<Rightarrow> ctl_trace \<Rightarrow> bool" where
  \<comment> \<open>a workflow is started for a plan that was taken, is still what the checkout renders, on its base, and approved\<close>
  "dispatch_grounds E cx arguments tr \<longleftrightarrow> (\<exists>planID plan encoded.
     (Locked (ClaimPlan planID), Answered (PlanTaken (Some plan))) \<in> set tr
     \<and> Encode (rl_codec (cn_rlib E)) (lib_of E) (pp_request plan) = Inr encoded
     \<and> arguments = dispatch_args cx (pp_request plan) encoded
     \<and> head_is cx (cr_baseSHA (pp_request plan)) tr
     \<and> rendered E cx (pp_request plan) (pp_digest plan) tr
     \<and> (has_suffix (cr_operation (pp_request plan)) ''.finalize'' \<longrightarrow>
          approved (lib_of E) cx (cr_operation (pp_request plan)) (cr_parameters (pp_request plan))
            (cr_baseSHA (pp_request plan)) tr))"

definition portal_patch_grounds :: "penv \<Rightarrow> gvr \<Rightarrow> string \<Rightarrow> string \<Rightarrow> json list \<Rightarrow> ctl_trace \<Rightarrow> bool" where
  "portal_patch_grounds P g ns name operations tr \<longleftrightarrow> g = rolloutGVR \<and> (\<exists>token team action plan reason rollout.
     (Locked (ClaimBreak token name (''team-'' @ team) action), Answered (BreakTaken (Some plan))) \<in> set tr
     \<and> ns = bp_namespace plan \<and> trim_space reason \<noteq> []
     \<and> get_uid (plib P) rollout = bp_uid plan \<and> get_resourceVersion (plib P) rollout = bp_resourceVersion plan
     \<and> patch_grounds (pn_env P) action reason rollout ns name operations tr)"

definition portal_guard :: "penv \<Rightarrow> portal_server \<Rightarrow> http_request \<Rightarrow> ctl_trace \<Rightarrow> ctl_call \<Rightarrow> bool" where
  "portal_guard P S r tr c \<longleftrightarrow>
     (first_contact c \<or> in_session S r tr)
     \<and> (first_contact c \<or> quiet c \<or> c = Locked AllowWrite \<or> cleared S r tr)
     \<and> (\<forall>directory executable arguments. c = RunCommand directory executable arguments \<and> dispatching arguments \<longrightarrow>
          dispatch_grounds (pn_env P) (ps_selected S) arguments tr)
     \<and> (\<forall>g ns name operations. c = KubePatchStatus g ns name operations \<longrightarrow>
          portal_patch_grounds P g ns name operations tr)"

abbreviation honours ::
    "(ctl_trace \<Rightarrow> ctl_call \<Rightarrow> ctl_resp) \<Rightarrow> penv \<Rightarrow> portal_server \<Rightarrow> http_request \<Rightarrow> ctl_trace \<Rightarrow> 'a ctl \<Rightarrow> bool" where
  "honours api P S r tr m \<equiv> keeps api (portal_guard P S r) tr (\<lambda>_ _. True) m"

lemma in_session_append: "in_session S r tr \<Longrightarrow> in_session S r (tr @ e)"
  by (auto simp: in_session_def)

lemma cleared_append: "cleared S r tr \<Longrightarrow> cleared S r (tr @ e)"
  by (auto simp: cleared_def in_session_append)

lemma cleared_session: "cleared S r tr \<Longrightarrow> in_session S r tr"
  by (simp add: cleared_def)

lemma guard_quiet: "in_session S r tr \<Longrightarrow> quiet c \<Longrightarrow> portal_guard P S r tr c"
  by (auto simp: portal_guard_def)

lemma guard_busy: "cleared S r tr \<Longrightarrow> busy c \<Longrightarrow> portal_guard P S r tr c"
  by (auto simp: portal_guard_def cleared_session)

lemma guard_first: "first_contact c \<Longrightarrow> portal_guard P S r tr c"
  by (cases c) (auto simp: portal_guard_def)

lemma honours_silent: "silent m \<Longrightarrow> in_session S r tr \<Longrightarrow> honours api P S r tr m"
  by (erule keeps_silent) (auto intro: guard_quiet in_session_append)

lemma honours_quick: "quick m \<Longrightarrow> cleared S r tr \<Longrightarrow> honours api P S r tr m"
  by (erule keeps_quick) (auto intro: guard_busy cleared_append)

lemma honours_first: "makes (\<lambda>c _. first_contact c) m \<Longrightarrow> honours api P S r tr m"
  by (rule keeps_does [OF calls_makes, where C = "\<lambda>c _. first_contact c"]) (auto intro: guard_first)

lemma informs_honours:
  assumes "informs api R m" "in_session S r tr"
  shows "keeps api (portal_guard P S r) tr (\<lambda>x t. \<exists>e. t = tr @ e \<and> R x e) m"
  by (rule keeps_does [OF assms(1)]) (use assms(2) in \<open>auto intro: guard_quiet in_session_append\<close>)

lemma acts_honours:
  assumes "acts api R m" "cleared S r tr"
  shows "keeps api (portal_guard P S r) tr (\<lambda>x t. \<exists>e. t = tr @ e \<and> R x e) m"
  by (rule keeps_does [OF assms(1)]) (use assms(2) in \<open>auto intro: guard_busy cleared_append\<close>)

subsection \<open>Errors and simple handlers\<close>

lemma first_write_error: "makes (\<lambda>c _. first_contact c) (writeError r status c message remediation)"
  unfolding writeError_def randomToken_def by (intro makes_bind makes_return makes_invoke) simp

lemma honours_error: "honours api P S r tr (writeError r status c message remediation)"
  by (rule honours_first [OF first_write_error])

lemma honours_portal_error: "honours api P S r tr (portalError r e)"
  unfolding portalError_def Let_def by (rule honours_error)

lemma honours_or_error:
  assumes "keeps api (portal_guard P S r) tr R m" "\<And>a t. R (Inr a) (tr @ t) \<Longrightarrow> honours api P S r (tr @ t) (f a)"
  shows "honours api P S r tr (or_error r m f)"
  unfolding or_error_def
  by (rule keeps_bind [OF assms(1)]) (use assms(2) in \<open>auto intro: honours_portal_error split: sum.split\<close>)

lemma honours_informs:
  assumes "informs api R m" "in_session S r tr" "\<And>a e. R (Inr a) e \<Longrightarrow> honours api P S r (tr @ e) (f a)"
  shows "honours api P S r tr (or_error r m f)"
  by (rule honours_or_error [OF informs_honours [OF assms(1,2)]]) (use assms(3) in auto)

lemma honours_lift:
  assumes "\<And>a. x = Inr a \<Longrightarrow> honours api P S r tr (f a)"
  shows "honours api P S r tr (or_error r (lift x) f)"
  by (rule honours_or_error [where R = "\<lambda>y t. y = x \<and> t = tr"]) (use assms in \<open>auto simp: lift_def intro: keeps_ret\<close>)

lemma honours_decode: "(\<And>v. honours api P S r tr (f v)) \<Longrightarrow> honours api P S r tr (decode_body r dec f)"
  unfolding decode_body_def by (auto intro: honours_error split: sum.split)

lemma keeps_locked:
  assumes "\<And>e. portal_guard P S r (tr @ e) (Locked opn)"
  shows "keeps api (portal_guard P S r) tr (\<lambda>x t. (\<exists>e. t = tr @ e) \<and> (\<forall>a. x = Some a \<longrightarrow> (Locked opn, Answered a) \<in> set t)) (locked opn)"
  unfolding locked_def by (rule keeps_answer) (use assms in \<open>auto split: ctl_resp.split\<close>)

lemma keeps_verdict:
  assumes "\<And>e. portal_guard P S r (tr @ e) (Locked opn)"
  shows "keeps api (portal_guard P S r) tr
    (\<lambda>x t. (\<exists>e. t = tr @ e) \<and> (x \<longrightarrow> (Locked opn, Answered (Verdict True)) \<in> set t)) (locked_verdict opn)"
  unfolding locked_verdict_def by (rule keeps_bind [OF keeps_locked [OF assms]]) (auto intro: keeps_ret)

subsection \<open>Plans\<close>

lemma quick_announce: "quick (announce kind data)"
  unfolding announce_def locked_def by (intro makes_bind makes_return quick_invoke) simp

lemma quick_or_error: "quick m \<Longrightarrow> (\<And>a. quick (f a)) \<Longrightarrow> quick (or_error r m f)"
  unfolding or_error_def by (intro makes_bind makes_sum silent_quick [OF silent_portal_error])

lemma quick_decode: "(\<And>v. quick (f v)) \<Longrightarrow> quick (decode_body r dec f)"
  unfolding decode_body_def by (auto intro: silent_quick [OF silent_write_error] split: sum.split)

lemma quick_locked: "quick (locked opn)" "quick (locked_verdict opn)"
  unfolding locked_verdict_def locked_def by (intro makes_bind makes_return quick_invoke; simp)+

lemma quick_plan: "quick (handlePlan P S r)"
  unfolding handlePlan_def plan_change_def Let_def
  by (intro quick_decode makes_if quick_or_error makes_bind quick_locked silent_quick; intro silent_rules)

lemma quick_break_plan: "quick (handleBreakGlassPlan P S r team application)"
  unfolding handleBreakGlassPlan_def plan_break_def Let_def
  by (intro quick_decode makes_if quick_or_error makes_bind quick_locked silent_quick; intro silent_rules)

lemma dispatch_grounds_append: "dispatch_grounds E cx arguments tr \<Longrightarrow> dispatch_grounds E cx arguments (tr @ e)"
  unfolding dispatch_grounds_def by (fastforce intro: grounds_append)

lemma honours_start:
  assumes "cleared S r tr" "dispatch_grounds (pn_env P) (ps_selected S) arguments tr"
  shows "honours api P S r tr (start_external (pn_env P) d x arguments)"
proof -
  have "portal_guard P S r (tr @ e) (RunCommand d x arguments)" for e
    using assms by (auto simp: portal_guard_def cleared_append cleared_session in_session_append dispatch_grounds_append)
  then show ?thesis
    unfolding start_external_def by (intro keeps_if keeps_answer) (simp_all add: fail_def keeps_ret)
qed

lemma honours_dispatch:
  assumes "cleared S r tr" "dispatch_grounds (pn_env P) (ps_selected S) (dispatch_args (ps_selected S) request encoded) tr"
  shows "honours api P S r tr (dispatchChange (pn_env P) (ps_selected S) request encoded)"
proof -
  let ?arguments = "dispatch_args (ps_selected S) request encoded"
  have base: "go_lower (path_base ''gh'') = ''gh''" by code_simp
  note s = cleared_session [OF cleared_append [OF assms(1)]]
  have gh: "honours api P S r tr (gh (pn_env P) (ps_selected S) ?arguments)"
    unfolding gh_def runExternal_def Let_def base
    by (simp only: simp_thms if_True, rule keeps_bind [OF honours_silent [OF silent_gh_executable cleared_session [OF assms(1)]]])
      (use assms in \<open>intro honours_start cleared_append dispatch_grounds_append\<close>)
  show ?thesis
    unfolding dispatchChange_def
    by (rule keeps_bind [OF gh], rule honours_silent [OF _ s]) (intro silent_rules)
qed

lemma informs_base_planned:
  "informs api (\<lambda>x evs. \<forall>b. x = Inr b \<longrightarrow> b = cr_baseSHA (pp_request plan) \<and> head_is (ps_selected S) b evs) (base_as_planned P S plan)"
  unfolding base_as_planned_def by (rule does_bind [OF informs_base]) (auto intro!: does_ret split: if_splits)

lemma informs_rendered_planned:
  "informs api (\<lambda>x evs. x = Inr () \<longrightarrow> rendered (pn_env P) (ps_selected S) (pp_request plan) (pp_digest plan) evs)
     (rendered_as_planned P S plan)"
  unfolding rendered_as_planned_def by (rule does_bind [OF informs_render]) (auto intro!: does_ret split: sum.splits if_splits)

lemma informs_approve:
  "informs api (\<lambda>x evs. x = Inr () \<longrightarrow> has_suffix (cr_operation request) ''.finalize'' \<longrightarrow>
      approved (plib P) (ps_selected S) (cr_operation request) (cr_parameters request) base evs) (approve_plan P S request base)"
  unfolding approve_plan_def by (intro does_if does_weaken [OF informs_verify] informs_results) auto

lemma honours_dispatch_plan:
  assumes "cleared S r tr" "(Locked (ClaimPlan planID), Answered (PlanTaken (Some plan))) \<in> set tr"
    and "head_is (ps_selected S) (cr_baseSHA (pp_request plan)) tr"
    and "rendered (pn_env P) (ps_selected S) (pp_request plan) (pp_digest plan) tr"
    and "has_suffix (cr_operation (pp_request plan)) ''.finalize'' \<longrightarrow> approved (plib P) (ps_selected S)
      (cr_operation (pp_request plan)) (cr_parameters (pp_request plan)) (cr_baseSHA (pp_request plan)) tr"
    and "\<And>url. quick (f url)"
  shows "honours api P S r tr (or_error r (lift (Encode (rl_codec (cn_rlib (pn_env P))) (plib P) (pp_request plan)))
    (\<lambda>encoded. or_error r (dispatchChange (pn_env P) (ps_selected S) (pp_request plan) encoded) f))"
proof (rule honours_lift)
  fix encoded
  assume "Encode (rl_codec (cn_rlib (pn_env P))) (plib P) (pp_request plan) = Inr encoded"
  then have grounds: "dispatch_grounds (pn_env P) (ps_selected S) (dispatch_args (ps_selected S) (pp_request plan) encoded) tr"
    unfolding dispatch_grounds_def using assms(2-5) by blast
  show "honours api P S r tr (or_error r (dispatchChange (pn_env P) (ps_selected S) (pp_request plan) encoded) f)"
    by (rule honours_or_error [OF honours_dispatch [OF assms(1) grounds]], rule honours_quick [OF assms(6) cleared_append [OF assms(1)]])
qed

lemma honours_submit:
  assumes "cleared S r tr" "(Locked (ClaimPlan planID), Answered (PlanTaken (Some plan))) \<in> set tr"
  shows "honours api P S r tr (submit_plan P S r plan)"
proof -
  note w = cleared_append [OF assms(1)] cleared_append [OF cleared_append [OF assms(1)]]
  show ?thesis
    unfolding submit_plan_def Let_def
    apply (rule honours_informs [OF informs_base_planned cleared_session [OF assms(1)]])
    apply (rule honours_informs [OF informs_rendered_planned cleared_session [OF w(1)]])
    apply (rule honours_informs [OF informs_approve cleared_session [OF w(2)]])
    apply (rule honours_dispatch_plan [OF cleared_append [OF w(2)], of planID])
    subgoal using assms(2) by simp
    subgoal by (rule grounds_append(1), rule grounds_append(1), rule grounds_append(2)) auto
    subgoal by (rule grounds_append(7), rule grounds_append(8)) simp
    subgoal by (rule impI, rule grounds_append(6)) simp
    subgoal by (intro makes_bind quick_announce silent_quick [OF silent_write_data])
    done
qed

subsection \<open>Break glass\<close>

lemma honours_attempt:
  assumes "cleared S r tr" "trim_space (xi_reason input) \<noteq> []"
    and "(Locked (ClaimBreak token application (''team-'' @ team) (xi_action input)), Answered (BreakTaken (Some plan))) \<in> set tr"
    and "(KubeGet rolloutGVR (bp_namespace plan) application, Object rollout) \<in> set tr"
    and "get_uid (plib P) rollout = bp_uid plan" "get_resourceVersion (plib P) rollout = bp_resourceVersion plan"
    and "breakGlassPatch (plib P) (xi_action input) rollout = Inr operations"
  shows "honours api P S r tr (portal_attempt P S plan application input rollout operations)"
proof -
  let ?for = "\<lambda>a. audit_for a (xi_action input) (xi_reason input) (bp_namespace plan) application (bp_uid plan) (bp_resourceVersion plan)"
  have patch: "honours api P S r t (patch_and_record (pn_env P) (pn_opts P) (\<lambda>e. e) rollout a operations)"
    if "cleared S r t" "set tr \<subseteq> set t" "?for a" "audited (pn_env P) a t" "announced (plib P) rollout a t" for a t
  proof (rule keeps_guard [OF keeps_patch_and_record [where G = "portal_guard P S r"]])
    have "patch_grounds (pn_env P) (xi_action input) (xi_reason input) rollout (bp_namespace plan) application
        (test_operation (bp_resourceVersion plan) # operations) t"
      using that assms(4-7) by (auto simp: patch_grounds_def)
    then have "portal_patch_grounds P rolloutGVR (bp_namespace plan) application (test_operation (bp_resourceVersion plan) # operations) t"
      unfolding portal_patch_grounds_def using assms(2,3,5,6) that(2) by blast
    then show "portal_guard P S r t (KubePatchStatus rolloutGVR (au_namespace a) (au_application a)
        (test_operation (au_resourceVersion a) # operations))"
      using that(1,3) by (simp add: portal_guard_def audit_for_def cleared_session)
  qed (use that(1) in \<open>auto intro: guard_busy cleared_append\<close>)
  have step: "honours api P S r t (then_do (record_attempt (plib P) rollout a) (\<lambda>_.
      then_do (patch_and_record (pn_env P) (pn_opts P) (\<lambda>e. e) rollout a operations) (\<lambda>_. yield b)))"
    if "cleared S r t" "set tr \<subseteq> set t" "?for a" "audited (pn_env P) a t" for a t and b :: "string \<times> string"
  proof (rule keeps_then [OF acts_honours [OF acts_record that(1)]])
    fix u t1
    assume "\<exists>e. t @ t1 = t @ e \<and> (Inr u = Inr () \<longrightarrow> announced (plib P) rollout a e)"
    then have "announced (plib P) rollout a (t @ t1)" by (auto intro: grounds_append)
    then have "honours api P S r (t @ t1) (patch_and_record (pn_env P) (pn_opts P) (\<lambda>e. e) rollout a operations)"
      using that by (intro patch) (auto intro: cleared_append grounds_append)
    then show "honours api P S r (t @ t1)
        (then_do (patch_and_record (pn_env P) (pn_opts P) (\<lambda>e. e) rollout a operations) (\<lambda>_. yield b))"
      by (rule keeps_then) (simp_all add: yield_def keeps_ret)
  qed simp
  show ?thesis
    unfolding portal_attempt_def Let_def
  proof (rule keeps_then [where R = "\<lambda>x _. \<forall>a. x = Inr a \<longrightarrow> ?for a"])
    fix a t1
    assume "\<forall>b. Inr a = Inr b \<longrightarrow> ?for b"
    then have a: "?for a" by simp
    note w = cleared_append [OF assms(1), of t1]
    show "honours api P S r (tr @ t1) (do {
        w \<leftarrow> writeBreakGlassAudit (pn_env P) (pn_opts P) a;
        case w of
          Inl e \<Rightarrow> fail (exitError ExitRemote (''write break-glass audit: '' @ ce_text e))
        | Inr path \<Rightarrow> then_do (record_attempt (plib P) rollout a) (\<lambda>_.
            then_do (patch_and_record (pn_env P) (pn_opts P) (\<lambda>e. e) rollout a operations) (\<lambda>_.
            yield (au_requestID a, path))) })"
      by (rule keeps_bind [OF acts_honours [OF acts_audit w]], rule keeps_case_sum)
        (use a w in \<open>auto simp: fail_def intro!: keeps_ret step cleared_append grounds_append simp del: append_assoc\<close>)
  qed (auto simp: always_def intro!: keeps_ret keeps_bind [OF informs_honours [OF informs_new_audit cleared_session [OF assms(1)]]])
qed

lemma honours_execute_break:
  assumes "cleared S r tr" "trim_space (xi_reason input) \<noteq> []"
    and "(Locked (ClaimBreak token application (''team-'' @ team) (xi_action input)), Answered (BreakTaken (Some plan))) \<in> set tr"
  shows "honours api P S r tr (execute_break P S r team application input plan)"
  unfolding execute_break_def Let_def
  apply (rule honours_informs [OF informs_silent [OF silent_client] cleared_session [OF assms(1)]])
  apply (rule honours_informs [OF informs_get cleared_session [OF cleared_append [OF assms(1)]]])
  apply (rule keeps_if, rule honours_portal_error)
  apply (rule honours_lift)
  apply (rule honours_or_error [OF honours_attempt [OF cleared_append [OF cleared_append [OF assms(1)]] assms(2), of token _ team]])
  subgoal using assms(3) by simp
  subgoal by simp
  subgoal by simp
  subgoal by simp
  subgoal by simp
  subgoal for _ _ rollout _ operations result t
    by (cases result, simp only: prod.case, rule honours_quick [OF _ cleared_append [OF cleared_append [OF cleared_append [OF assms(1)]]]])
      (intro makes_bind quick_announce silent_quick [OF silent_write_data])
  done

subsection \<open>Every request\<close>

lemma honours_submit_handler: "cleared S r tr \<Longrightarrow> honours api P S r tr (handlePlanSubmit P S r planID)"
  unfolding handlePlanSubmit_def
  apply (rule honours_decode)
  apply (rule keeps_if, rule honours_error)
  apply (rule keeps_bind [OF keeps_locked])
  subgoal by (simp add: guard_busy cleared_append)
  subgoal for confirm a e
    by (cases a) (auto intro!: honours_error honours_submit [where planID = planID] cleared_append split: portal_answer.split option.split)
  done

lemma honours_execute_handler: "cleared S r tr \<Longrightarrow> honours api P S r tr (handleBreakGlassExecute P S r team application)"
  unfolding handleBreakGlassExecute_def
  apply (rule honours_decode)
  apply (rule keeps_if, rule honours_error)
  apply (rule keeps_bind [OF keeps_locked])
  subgoal by (simp add: guard_busy cleared_append)
  subgoal for input a e
    by (cases a)
      (auto intro!: honours_error honours_execute_break [where token = "xi_operationToken input"] cleared_append
        split: portal_answer.split option.split)
  done

lemma quick_handlers_honoured: "cleared S r tr \<Longrightarrow> honours api P S r tr (handlePlan P S r)"
  "cleared S r tr \<Longrightarrow> honours api P S r tr (handleBreakGlassPlan P S r team application)"
  by (auto intro: honours_quick quick_plan quick_break_plan)

fun posting :: "route \<Rightarrow> bool" where
  "posting RPlan = True"
| "posting (RSubmit planID) = True"
| "posting (RBreakPlan team application) = True"
| "posting (RBreakExecute team application) = True"
| "posting _ = False"

lemma posting_routes:
  "m \<noteq> ''POST'' \<Longrightarrow> \<not> posting (application_route m team parts)" "\<not> posting (database_route m team parts)"
  by (simp_all add: application_route_def database_route_def Let_def)

lemma posting_team: "m \<noteq> ''POST'' \<Longrightarrow> \<not> posting (team_route m parts)"
  by (simp add: team_route_def posting_routes)

lemma posting_api: "m \<noteq> ''POST'' \<Longrightarrow> \<not> posting (api_route m path)"
  by (simp add: api_route_def Let_def posting_team)

lemma posting_request: "posting (request_route r) \<Longrightarrow> \<not> reading r"
  unfolding request_route_def reading_def using posting_api by fastforce

lemma honours_api:
  assumes "in_session S r tr" "\<not> reading r \<Longrightarrow> cleared S r tr"
  shows "honours api P S r tr (handleAPI P S r)"
  unfolding handleAPI_def
  using assms posting_request [of r]
  by (cases "request_route r")
    (auto intro: honours_silent silent_handlers silent_requests honours_error quick_handlers_honoured honours_submit_handler
      honours_execute_handler)

lemma honours_auth:
  assumes "loopback_host r" "\<And>t. in_session S r t \<Longrightarrow> (\<not> reading r \<Longrightarrow> cleared S r t) \<Longrightarrow> honours api P S r t handler"
  shows "honours api P S r [] (auth S r handler)"
proof -
  have checked: "honours api P S r t (auth_write S r handler)" if s: "in_session S r t" and w: "\<not> reading r" for t
  proof -
    have guard: "portal_guard P S r (t @ e) (Locked AllowWrite)" for e
      using in_session_append [OF s] by (simp add: portal_guard_def)
    show ?thesis
      unfolding auth_write_def
      by (intro keeps_if honours_error keeps_bind [OF keeps_verdict [OF guard]])
        (use s w in \<open>auto simp: cleared_def in_session_append intro!: assms(2)\<close>)
  qed
  have now: "keeps api (portal_guard P S r) [] (\<lambda>x t. \<exists>a. (ReadClock, a) \<in> set t \<and> instant_of a = x) time_now"
    unfolding time_now_def by (rule keeps_answer) (auto intro: guard_first)
  show ?thesis
    unfolding auth_def session_required_def
    by (intro keeps_if honours_error keeps_bind [OF now])
      (use assms(1) in \<open>auto simp: in_session_def not_less intro!: assms(2) checked\<close>)
qed

lemma honours_launch: "honours api P S r tr (handleLaunch S r)"
proof -
  have verdict: "honours api P S r tr (locked_verdict (RedeemLaunch token))" for token
    unfolding locked_verdict_def locked_def by (intro honours_first makes_bind makes_return makes_invoke) simp
  show ?thesis
    unfolding handleLaunch_def by (intro keeps_if honours_error keeps_bind [OF verdict]) (auto intro: keeps_ret)
qed

lemma honours_request: "loopback_host r \<Longrightarrow> honours api P S r [] (dispatch P S channel n r)"
  unfolding dispatch_def
  by (intro keeps_if honours_launch honours_auth honours_api honours_silent silent_events silent_asset)

text \<open>
  C7: every call of every request, in every run: without a live session nothing is asked for but the clock, an identifier for
  an error and the redemption of a launch link; only reads are made unless the request is a write that carries the session
  cookie, the origin and CSRF token of the portal and JSON, and that the rate limit admitted; a workflow is dispatched only with
  the input of a plan that this request took, on the base it was planned on, rendering to the digest that was reviewed and, for
  a finalization, approved; and the status of a Rollout is patched only for a break-glass plan that this request took, on the
  version planned, with a reason, an audit on disk and an event in the cluster.
\<close>

theorem portal_requests_guarded: "guarded (portal_guard P S r) (snd (run api (portal_handler P S channel n r)))"
proof (rule keeps_run)
  show "honours api P S r [] (portal_handler P S channel n r)"
    unfolding portal_handler_def
    by (intro keeps_if honours_error keeps_bind [OF honours_request] keeps_ret) simp_all
qed

end
