(* ===== verification/Break_Claims.thy ===== *)
theory Break_Claims
  imports Ctl_Guard
begin

section \<open>What the break-glass command may do, and when\<close>

text \<open>
  The guard of every call of \<open>platformctl app promote\<close> and \<open>abort\<close> (\<open>commands_breakglass.go\<close>), and what a
  command that succeeds leaves behind; and the patches that \<open>breakGlassPatch\<close> may produce.
\<close>

subsection \<open>The command\<close>

definition break_guard :: "cenv \<Rightarrow> string \<Rightarrow> string \<Rightarrow> string \<Rightarrow> string \<Rightarrow> ctl_trace \<Rightarrow> ctl_call \<Rightarrow> bool" where
  \<comment> \<open>no workflow is started, and the only patch is confirmed, explained, of a canary Application, and on its grounds\<close>
  "break_guard E action reason confirmation name tr c \<longleftrightarrow> busy c \<or> (\<exists>ns operations.
     c = KubePatchStatus rolloutGVR ns name operations \<and> confirmation = name \<and> trim_space reason \<noteq> []
     \<and> (\<exists>application. (KubeGet applicationGVR ns name, Object application) \<in> set tr \<and> is_canary (lib_of E) application)
     \<and> (\<exists>rollout. patch_grounds E action reason rollout ns name operations tr))"

definition break_done :: "cenv \<Rightarrow> string \<Rightarrow> string \<Rightarrow> string \<Rightarrow> ctl_trace \<Rightarrow> bool" where
  \<comment> \<open>the cluster answered a patch, and the audit with its outcome is on disk\<close>
  "break_done E action reason name tr \<longleftrightarrow> (\<exists>ns operations updated a uid rv.
     (KubePatchStatus rolloutGVR ns name operations, Object updated) \<in> set tr
     \<and> audit_for a action reason ns name uid rv \<and> audited E (completed_audit (lib_of E) a updated) tr)"

definition break_outcome :: "cenv \<Rightarrow> string \<Rightarrow> string \<Rightarrow> string \<Rightarrow> 'e + 'a \<Rightarrow> ctl_trace \<Rightarrow> bool" where
  "break_outcome E action reason name x tr \<longleftrightarrow> isl x \<or> break_done E action reason name tr"

abbreviation careful ::
    "(ctl_trace \<Rightarrow> ctl_call \<Rightarrow> ctl_resp) \<Rightarrow> cenv \<Rightarrow> string \<Rightarrow> string \<Rightarrow> string \<Rightarrow> string \<Rightarrow> ctl_trace
     \<Rightarrow> (cli_error + 'a) ctl \<Rightarrow> bool" where
  "careful api E action reason confirmation name tr m \<equiv>
     keeps api (break_guard E action reason confirmation name) tr (break_outcome E action reason name) m"

lemma careful_fail: "careful api E action reason confirmation name tr (fail e)"
  by (simp add: fail_def keeps_ret break_outcome_def)

lemma acts_careful:
  "acts api R m \<Longrightarrow> keeps api (break_guard E action reason confirmation name) tr (\<lambda>x t. \<exists>e. t = tr @ e \<and> R x e) m"
  by (erule keeps_does) (auto simp: break_guard_def)

lemma careful_then:
  assumes "acts api R m" "\<And>a e. R (Inr a) e \<Longrightarrow> careful api E action reason confirmation name (tr @ e) (f a)"
  shows "careful api E action reason confirmation name tr (then_do m f)"
  by (rule keeps_then [OF acts_careful [OF assms(1)]]) (use assms(2) in \<open>auto simp: break_outcome_def\<close>)

lemma careful_bind:
  assumes "acts api R m" "\<And>a e. R a e \<Longrightarrow> careful api E action reason confirmation name (tr @ e) (f a)"
  shows "careful api E action reason confirmation name tr (m \<bind> f)"
  by (rule keeps_bind [OF acts_careful [OF assms(1)]]) (use assms(2) in auto)

lemmas careful_skip = careful_then [OF informs_acts [OF informs_silent]]

lemma silent_load [silent_rules]: "silent (loadContext E opts)"
  unfolding loadContext_def LoadConfig_def by (intro silent_rules) simp

lemma silent_cluster_context [silent_rules]: "silent (commandClusterContext E opts namespace kind name)"
  unfolding commandClusterContext_def by (intro silent_rules)

lemma silent_print [silent_rules]: "silent (print_table E opts headers rows v)"
  unfolding print_table_def print_value_def by (intro silent_rules) simp_all

lemma break_done_append: "break_done E action reason name t \<Longrightarrow> break_done E action reason name (t @ e)"
  unfolding break_done_def by (fastforce intro: grounds_append)

lemma keeps_print:
  "break_done E action reason name tr \<Longrightarrow> careful api E action reason confirmation name tr (print_table E opts headers rows v)"
  by (rule keeps_silent [OF silent_print]) (auto simp: break_guard_def break_outcome_def quiet_busy break_done_append)

lemma careful_patch:
  assumes "audit_for a action reason ns name uid rv" "confirmation = name" "trim_space reason \<noteq> []"
    and "\<exists>application. (KubeGet applicationGVR ns name, Object application) \<in> set tr \<and> is_canary (lib_of E) application"
    and "patch_grounds E action reason rollout ns name (test_operation rv # operations) tr"
  shows "careful api E action reason confirmation name tr (then_do (patch_and_record E opts wrap rollout a operations) (\<lambda>_. yield b))"
proof (rule keeps_then [OF keeps_patch_and_record [where G = "break_guard E action reason confirmation name"]])
  have a: "au_namespace a = ns" "au_application a = name" "au_resourceVersion a = rv" using assms(1) by (simp_all add: audit_for_def)
  show "break_guard E action reason confirmation name tr
      (KubePatchStatus rolloutGVR (au_namespace a) (au_application a) (test_operation (au_resourceVersion a) # operations))"
    using assms(2-5) by (auto simp: break_guard_def a)
  fix u t
  assume "Inr u = Inr () \<longrightarrow> (\<exists>updated. (KubePatchStatus rolloutGVR (au_namespace a) (au_application a)
      (test_operation (au_resourceVersion a) # operations), Object updated) \<in> set (tr @ t)
      \<and> audited E (completed_audit (lib_of E) a updated) (tr @ t))"
  then obtain updated where "(KubePatchStatus rolloutGVR ns name (test_operation rv # operations), Object updated) \<in> set (tr @ t)"
    "audited E (completed_audit (lib_of E) a updated) (tr @ t)" by (auto simp: a simp del: set_append)
  then have "break_done E action reason name (tr @ t)"
    unfolding break_done_def using assms(1) by blast
  then show "careful api E action reason confirmation name (tr @ t) (yield b)"
    by (simp add: yield_def keeps_ret break_outcome_def)
qed (simp_all add: break_guard_def break_outcome_def)

lemma careful_attempt:
  assumes "confirmation = name" "trim_space reason \<noteq> []"
    and "(KubeGet applicationGVR ns name, Object application) \<in> set tr" "is_canary (lib_of E) application"
    and "(KubeGet rolloutGVR ns name, Object rollout) \<in> set tr" "breakGlassPatch (lib_of E) action rollout = Inr operations"
  shows "careful api E action reason confirmation name tr
    (break_glass_attempt E opts contextName action reason ns name rollout operations)"
proof -
  let ?L = "lib_of E"
  let ?for = "\<lambda>a. audit_for a action reason ns name (get_uid ?L rollout) (get_resourceVersion ?L rollout)"
  have audit: "informs api (\<lambda>x _. \<forall>a. x = Inr a \<longrightarrow> ?for a) (always (new_audit E opts contextName action reason ns name
      (get_uid ?L rollout) (get_resourceVersion ?L rollout) (rolloutState ?L rollout)))"
    unfolding always_def by (rule does_bind [OF informs_new_audit]) (auto intro: does_ret)
  have failing: "careful api E action reason confirmation name t (do { _ \<leftarrow> writeBreakGlassAudit E opts (failed_audit a e); fail e })" for t a e
    by (rule careful_bind [OF calls_makes [OF quick_audit]]) (rule careful_fail)
  have patching: "careful api E action reason confirmation name t
      (then_do (patch_and_record E opts audit_failure rollout a operations) (\<lambda>_. yield b))"
    if "?for a" "audited E a t" "announced ?L rollout a t" "set tr \<subseteq> set t" for a t and b :: "string \<times> string"
  proof (rule careful_patch [OF that(1) assms(1,2)])
    show "\<exists>application. (KubeGet applicationGVR ns name, Object application) \<in> set t \<and> is_canary ?L application"
      using assms(3,4) that(4) by blast
    show "patch_grounds E action reason rollout ns name (test_operation (get_resourceVersion ?L rollout) # operations) t"
      using that assms(5,6) by (auto simp: patch_grounds_def)
  qed
  show ?thesis
    unfolding break_glass_attempt_def
    apply (rule careful_then [OF informs_acts [OF audit]])
    apply (rule careful_bind [OF acts_audit])
    apply (rule keeps_case_sum, rule careful_fail)
    apply (rule careful_bind [OF acts_record])
    apply (rule keeps_case_sum, rule failing)
    subgoal for a e w e1 path ev e2 u
      by (rule patching) (auto intro: grounds_append(9) grounds_append(10) grounds_append(12) simp del: append_assoc)
    done
qed

lemma careful_break_glass:
  "careful api E action reason confirmation name tr (break_glass E opts action namespace reason confirmation name)"
proof (cases "trim_space reason = [] \<or> confirmation \<noteq> name")
  case False
  then have given: "confirmation = name" "trim_space reason \<noteq> []" by simp_all
  show ?thesis
    unfolding break_glass_def case_prod_beta using given
    apply simp
    apply (rule careful_skip [OF silent_load])
    apply (rule careful_skip [OF silent_cluster_context])
    apply (rule careful_then [OF informs_acts [OF informs_get]])
    apply (intro keeps_if careful_fail)
    apply (rule careful_then [OF informs_acts [OF informs_get]])
    apply (rule careful_then [where R = "\<lambda>x _. x = breakGlassPatch (lib_of E) action _"], rule informs_acts, rule informs_results, rule refl)
    subgoal for c _ target _ application
      by (rule keeps_then [OF careful_attempt [OF refl, of reason "fst (snd target)" name application]])
        (auto simp: break_outcome_def intro: keeps_print)
    done
qed (auto simp: break_glass_def intro: careful_fail)

lemma keeps_result: "keeps api G [] R m \<Longrightarrow> guarded G (snd (run api m)) \<and> R (fst (run api m)) (snd (run api m))"
  unfolding keeps_def run_def
  by (drule spec [where x = "\<lparr>ses_api = api, ses_trace = []\<rparr>"]) (auto simp: appends_def case_prod_beta Let_def)

text \<open>
  C8: every call of the break-glass command, in every run: it starts no workflow, and it patches a Rollout only when the name
  was confirmed exactly and a reason given, the Application was read and is a canary, the Rollout was read and admits the action,
  the patch tests the version that was read, and the audit of the attempt is on disk and its event in the cluster. A command that
  succeeds was answered by the cluster, and has put the completed audit, with the state of the Rollout after the patch, on disk.
\<close>

theorem break_glass_guarded:
  "guarded (break_guard E action reason confirmation name) (snd (run api (break_glass E opts action namespace reason confirmation name)))
   \<and> break_outcome E action reason name (fst (run api (break_glass E opts action namespace reason confirmation name)))
       (snd (run api (break_glass E opts action namespace reason confirmation name)))"
  by (rule keeps_result [OF careful_break_glass])

subsection \<open>The patch\<close>

definition breakable :: "lib \<Rightarrow> string \<Rightarrow> json \<Rightarrow> bool" where
  \<comment> \<open>the Rollouts that can be aborted or promoted by hand\<close>
  "breakable L action rollout \<longleftrightarrow> get_resourceVersion L rollout \<noteq> [] \<and> get_uid L rollout \<noteq> []
     \<and> nested_map L rollout [''spec'', ''strategy'', ''canary''] \<noteq> None
     \<and> (\<exists>status. nested_map L rollout [''status''] = Some status
          \<and> (action = ''abort'' \<and> entry status ''abort'' \<noteq> JBool True
               \<and> entry_string status ''currentPodHash'' \<notin> {[], entry_string status ''stableRS''}
             \<or> action = ''promote'' \<and> \<not> nested_bool L rollout [''spec'', ''paused'']
               \<and> (nested_slice L rollout [''status'', ''pauseConditions''] \<noteq> []
                  \<or> nested_bool L rollout [''status'', ''controllerPause'']
                  \<or> nested_int L rollout [''status'', ''currentStepIndex''] \<noteq> None)))"







lemma promote_unpaused_skips_a_step:
  \<comment> \<open>a Rollout that is not paused is accepted as well, and loses a step\<close>
  assumes "breakable L ''promote'' rollout" "nested_slice L rollout [''status'', ''pauseConditions''] = []"
    and "\<not> nested_bool L rollout [''status'', ''controllerPause'']" "nested_int L rollout [''status'', ''currentStepIndex''] = Some n"
  shows "breakGlassPatch L ''promote'' rollout =
    Inr [patch_operation ''/status/pauseConditions'' JNull, patch_operation ''/status/currentStepIndex'' (JInt (wrap64 (n + 1)))]"
  using assms by (auto simp: breakable_def breakGlassPatch_def promote_patch_def Let_def)

end
