(* ===== verification/Ctl_Platform.thy ===== *)
theory Ctl_Platform
  imports Ctl_Doctor Go_Time
begin

section \<open>The lifecycle of the local platform\<close>

text \<open>
  \<open>internal/platformctl/platform_lifecycle.go\<close>: the stages of \<open>platform up\<close>, \<open>down\<close> and \<open>verify\<close>, the preflight, and the
  log writer that turns the output of a stage into redacted lines. The progress ticker and the process
  tree (\<open>process_tree_*.go\<close>) are not modelled: a stage is one child process with its whole output. The log writer is
  modelled on chunks; \<open>written_lines\<close> shows that where the chunks are cut makes no difference.
\<close>

subsection \<open>The log writer\<close>

record log_writer =
  lw_prefix :: string
  lw_pending :: string
  lw_tail :: "string list"
  lw_out :: "string list"    \<comment> \<open>what was written to the destination\<close>

definition newStageLogWriter :: "string \<Rightarrow> log_writer" where
  "newStageLogWriter pre = \<lparr>lw_prefix = pre, lw_pending = [], lw_tail = [], lw_out = []\<rparr>"

definition newline :: char where "newline = CHR 0x0A"

definition emitLocked :: "string \<Rightarrow> log_writer \<Rightarrow> log_writer" where
  "emitLocked line w =
     (let line = trim_space (Redact line) in
      if line = [] then w
      else w\<lparr>lw_out := lw_out w @ [''['' @ lw_prefix w @ ''] '' @ line @ [newline]],
             lw_tail := last_n 20 (lw_tail w @ [line])\<rparr>)"

fun drop_returns :: "string \<Rightarrow> string" where
  \<comment> \<open>\<open>ReplaceAll(ReplaceAll(s, "\r\n", "\n"), "\r", "\n")\<close>\<close>
  "drop_returns [] = []"
| "drop_returns (c # s) =
     (if c = CHR 0x0D then newline # (case s of [] \<Rightarrow> [] | d # t \<Rightarrow> if d = newline then drop_returns t else drop_returns s)
      else c # drop_returns s)"

function drain_lines :: "log_writer \<Rightarrow> log_writer" where
  "drain_lines w =
     (case index_any (lw_pending w) [newline] of
        None \<Rightarrow> w
      | Some i \<Rightarrow> drain_lines ((emitLocked (take i (lw_pending w)) w)\<lparr>lw_pending := drop (i + 1) (lw_pending w)\<rparr>))"
  by pat_completeness auto

lemma index_any_less: "index_any s cs = Some i \<Longrightarrow> i < length s"
  using index_any_Some by blast

termination drain_lines
  by (relation "measure (\<lambda>w. length (lw_pending w))") (auto dest: index_any_less)

declare drain_lines.simps [simp del]

definition write_log :: "string \<Rightarrow> log_writer \<Rightarrow> log_writer" where
  "write_log chunk w = drain_lines (w\<lparr>lw_pending := lw_pending w @ drop_returns chunk\<rparr>)"

definition flush_log :: "log_writer \<Rightarrow> log_writer" where
  "flush_log w = (if lw_pending w \<noteq> [] then (emitLocked (lw_pending w) w)\<lparr>lw_pending := []\<rparr> else w)"

definition log_tail :: "log_writer \<Rightarrow> string" where "log_tail w = join [newline] (lw_tail w)"

definition log_output :: "string \<Rightarrow> string list \<Rightarrow> log_writer" where
  \<comment> \<open>a writer after the chunks of a stage and the flush at its end\<close>
  "log_output pre parts = flush_log (fold write_log parts (newStageLogWriter pre))"

subsection \<open>Stages\<close>

record platform_stage =
  st_name :: string
  st_command :: string
  st_minutes :: int

abbreviation stg :: "string \<Rightarrow> string \<Rightarrow> int \<Rightarrow> platform_stage" where
  "stg n c t \<equiv> \<lparr>st_name = n, st_command = c, st_minutes = t\<rparr>"

definition timeout_text :: "platform_stage \<Rightarrow> string" where
  "timeout_text s = duration_string (st_minutes s * minute)"

definition platformUpStagesForEnvironment :: "string \<Rightarrow> bool \<Rightarrow> platform_stage list" where
  "platformUpStagesForEnvironment profile hostedLinux =
     [stg ''Install pinned tools'' ''tools'' 15, stg ''Verify pinned tools'' ''check-versions'' 5,
      stg ''Build platform images'' ''build-images'' 25, stg ''Bootstrap cluster'' ''bootstrap'' 20]
     @ (if profile = ''full'' \<and> hostedLinux then [stg ''Stabilize hosted control plane'' ''stabilize-hosted-kind'' 2] else [])
     @ (if profile = ''full'' then [stg ''Start retained backup store'' ''start-backup-store'' 5] else [])
     @ [stg ''Load platform images'' ''load-images'' 10, stg ''Deploy GitOps'' ''deploy-gitops'' 30,
        stg ''Verify platform readiness'' ''test-gitops'' 20]
     @ (if profile = ''full'' then [stg ''Verify data platform'' ''verify-data'' 10] else [])"

definition platformDownStages :: "string \<Rightarrow> platform_stage list" where
  "platformDownStages profile =
     [stg ''Undeploy GitOps'' ''undeploy-gitops'' 8, stg ''Destroy exact cluster'' ''destroy'' 6]
     @ (if profile = ''full'' then [stg ''Stop backup store and retain data'' ''stop-backup-store'' 3] else [])"

definition hostedLinuxLifecycle :: "bool ctl" where
  "hostedLinuxLifecycle = do {
     a \<leftarrow> getenv ''GITHUB_ACTIONS'';
     if a \<noteq> ''true'' then ret False else do { os \<leftarrow> getenv ''RUNNER_OS''; ret (os = ''Linux'') } }"

definition checkoutHeadRevision :: "cenv \<Rightarrow> string \<Rightarrow> (cli_error + string) ctl" where
  "checkoutHeadRevision E path = do {
     r \<leftarrow> runExternal E path ''git'' [''rev-parse'', ''HEAD''];
     ret (case r of
       Inl e \<Rightarrow> Inl (exitError ExitRemote (''resolve exact checkout revision: '' @ ce_text e))
     | Inr revision \<Rightarrow> if git_object_id revision then Inr revision
         else Inl (exitError ExitRemote ''Git returned an invalid checkout revision'')) }"

definition say :: "string \<Rightarrow> unit ctl" where "say s = do { _ \<leftarrow> invoke (WriteErr s); ret () }"

definition runPlatformStage ::
    "cenv \<Rightarrow> options \<Rightarrow> string \<Rightarrow> platform_stage \<Rightarrow> string list \<Rightarrow> (cli_error + unit) ctl" where
  "runPlatformStage E opts checkoutPath st arguments =
     then_do (selectPowerShellExecutable (cn_goos E)) (\<lambda>powerShell. do {
       r \<leftarrow> invoke (RunCommand checkoutPath powerShell (powerShellArguments powerShell arguments));
       case text_of r of
         Inr _ \<Rightarrow> yield ()
       | Inl e \<Rightarrow>
           if rw_deadline e then
             fail (exitError ExitTimeout (st_name st @ '' timed out after '' @ timeout_text st))
           else
             let errors = trim_space (log_tail (log_output (st_command st) [rw_stderr e]));
                 output = trim_space (log_tail (log_output (st_command st) [rw_stdout e]));
                 message = (if errors \<noteq> [] then errors else if output \<noteq> [] then output else rw_text e) in
             fail (errorf (Redact message)) })"

definition stage_arguments :: "cli_context \<Rightarrow> platform_stage \<Rightarrow> string \<Rightarrow> string list" where
  "stage_arguments cx st gitRevision =
     script_arguments cx (cx_checkoutPath cx @ ''/scripts/dev.ps1'') (st_command st)
     @ (if gitRevision \<noteq> [] then [''-GitRevision'', gitRevision] else [])"

definition round_second :: "int \<Rightarrow> int" where
  \<comment> \<open>\<open>d.Round(time.Second)\<close> of a duration that is not negative\<close>
  "round_second d = (d + 5 * 10 ^ 8) div 10 ^ 9 * 10 ^ 9"

definition completed_line :: "cenv \<Rightarrow> platform_stage \<Rightarrow> int \<Rightarrow> unit ctl" where
  "completed_line E st started = do {
     now \<leftarrow> time_now;
     later \<leftarrow> time_now;
     say (''['' @ time_json E now @ ''] Completed '' @ st_name st @ '' in ''
       @ duration_string (round_second (time_sub later started)) @ [newline]) }"

fun run_stages ::
    "cenv \<Rightarrow> options \<Rightarrow> cli_context \<Rightarrow> bool \<Rightarrow> string \<Rightarrow> string list \<Rightarrow> platform_stage list
     \<Rightarrow> (cli_error + string list) ctl" where
  \<comment> \<open>\<open>up\<close> stops at the first failing stage; \<open>down\<close> goes on and collects the errors\<close>
  "run_stages E opts cx up gitRevision errors [] = yield errors"
| "run_stages E opts cx up gitRevision errors (st # sts) = do {
     now \<leftarrow> time_now;
     _ \<leftarrow> say (''['' @ time_json E now @ ''] Starting '' @ st_name st @ '' (timeout '' @ timeout_text st @ '')'' @ [newline]);
     r \<leftarrow> runPlatformStage E opts (cx_checkoutPath cx) st (stage_arguments cx st gitRevision);
     case r of
       Inr _ \<Rightarrow> do {
         _ \<leftarrow> (if op_quiet opts then ret () else completed_line E st now);
         run_stages E opts cx up gitRevision errors sts }
     | Inl e \<Rightarrow>
         let errors = errors @ [st_name st @ '': '' @ error_text e] in
         if up then fail (exitError ExitRemote (''platform up stopped at '' @ st_name st
             @ ''; the environment was preserved for diagnosis: '' @ join ''; '' errors))
         else run_stages E opts cx up gitRevision errors sts }"

definition platformUpBlockingChecks :: "string list" where
  "platformUpBlockingChecks = [''checkout'', ''docker'', ''git-repository'', ''github-app-variable'', ''github-auth'',
     ''github-cli-version'', ''github-secrets'', ''operating-system'', ''resource-budget'', ''tool-docker'',
     ''tool-gh'', ''tool-git'', ''tool-pwsh'']"

definition blocking :: "doctor_check \<Rightarrow> bool" where
  "blocking c = (dc_name c \<in> set platformUpBlockingChecks \<or> has_prefix (dc_name c) ''full-profile-'')"

definition preflight_failures :: "doctor_check list \<Rightarrow> string list" where
  "preflight_failures checks =
     map (\<lambda>c. dc_name c @ '': '' @ dc_details c @ '' ('' @ dc_remediation c @ '')'')
       (filter (\<lambda>c. dc_status c = ''Fail'' \<and> blocking c) checks)"

definition runPlatformUpPreflight :: "cenv \<Rightarrow> options \<Rightarrow> cli_context \<Rightarrow> (cli_error + unit) ctl" where
  "runPlatformUpPreflight E opts cx = do {
     now \<leftarrow> time_now;
     _ \<leftarrow> say (''['' @ time_json E now @ ''] Validating local prerequisites for the '' @ cx_profile cx @ '' profile'' @ [newline]);
     checks \<leftarrow> runDoctor E cx;
     let failures = preflight_failures checks;
         warnings = length (filter (\<lambda>c. dc_status c = ''Warning'') checks) in
     if length failures > 0 then
       fail (exitError ExitUnhealthy (''platform preflight failed before changing the environment: ''
         @ join ''; '' failures))
     else if op_quiet opts then yield ()
     else do {
       now \<leftarrow> time_now;
       _ \<leftarrow> say (''['' @ time_json E now @ ''] Preflight passed ('' @ show_nat warnings
              @ '' non-blocking warnings); pinned tools will be installed next'' @ [newline]);
       yield () } }"

definition stage_json :: "platform_stage \<Rightarrow> json" where
  "stage_json s = JObj [(''name'', JStr (st_name s)), (''command'', JStr (st_command s)),
     (''timeout'', JInt (st_minutes s * minute))]"

definition lifecycle_json :: "string \<Rightarrow> string \<Rightarrow> string \<Rightarrow> platform_stage list \<Rightarrow> json" where
  "lifecycle_json action profile gitRevision stages =
     JObj ([(''action'', JStr action), (''profile'', JStr profile)] @ opt_field ''gitRevision'' gitRevision
       @ [(''stages'', JArr (map stage_json stages)), (''state'', JStr ''Completed'')])"

definition platform_lifecycle :: "cenv \<Rightarrow> options \<Rightarrow> string \<Rightarrow> (cli_error + unit) ctl" where
  "platform_lifecycle E opts action =
     (if cn_goos E \<noteq> ''windows'' \<and> cn_goos E \<noteq> ''linux'' then
        fail (exitError ExitUsage ''complete platform lifecycle is supported on Windows and Linux'')
      else
        then_do (loadContext E opts) (\<lambda>(_, cx). do {
          hosted \<leftarrow> hostedLinuxLifecycle;
          let up = (action = ''up'');
              stages = (if action = ''down'' then platformDownStages (cx_profile cx)
                        else platformUpStagesForEnvironment (cx_profile cx) hosted) in
          then_do (if up then then_do (runPlatformUpPreflight E opts cx)
                       (\<lambda>_. checkoutHeadRevision E (cx_checkoutPath cx))
                   else yield []) (\<lambda>gitRevision.
          then_do (run_stages E opts cx up gitRevision [] stages) (\<lambda>errors.
          if length errors > 0 then
            fail (exitError ExitRemote (''platform down completed with errors: '' @ join ''; '' errors))
          else then_do (if up \<and> \<not> op_quiet opts then always (say (''Platform is ready. Run '' @ [CHR 0x27]
                 @ ''platformctl portal'' @ [CHR 0x27, CHR ''.'', newline])) else yield ()) (\<lambda>_.
            print_table E opts [''ACTION'', ''PROFILE'', ''REVISION'', ''STATE'']
              [[action, cx_profile cx, gitRevision, ''Completed'']]
              (lifecycle_json action (cx_profile cx) gitRevision stages)))) }))"

definition platform_status :: "cenv \<Rightarrow> options \<Rightarrow> (cli_error + unit) ctl" where
  "platform_status E opts =
     then_do (loadContext E opts) (\<lambda>(_, cx).
     then_do (NewClusterClient cx) (\<lambda>_. do {
       n \<leftarrow> invoke ListNodes;
       case names_of_resp n of
         Inl e \<Rightarrow> fail (exitError ExitRemote (''query platform nodes: '' @ rw_text e))
       | Inr nodes \<Rightarrow> do {
           argo \<leftarrow> kube_get argoAppGVR ''argocd'' ''steadystate-root'';
           let st = (if is_err argo \<or> length nodes = 0 then ''Unavailable'' else ''Ready'') in
           print_table E opts [''CLUSTER'', ''PROFILE'', ''NODES'', ''STATE'']
             [[cx_clusterName cx, cx_profile cx, show_nat (length nodes), st]]
             (JObj [(''argoAvailable'', JBool (\<not> is_err argo)), (''cluster'', JStr (cx_clusterName cx)),
                (''nodes'', JInt (int (length nodes))), (''profile'', JStr (cx_profile cx)), (''state'', JStr st)]) } }))"

fun verify_stages :: "cenv \<Rightarrow> options \<Rightarrow> cli_context \<Rightarrow> platform_stage list \<Rightarrow> (cli_error + unit) ctl" where
  "verify_stages E opts cx [] = yield ()"
| "verify_stages E opts cx (st # sts) =
     then_do (checkoutHeadRevision E (cx_checkoutPath cx)) (\<lambda>revision. do {
       r \<leftarrow> runPlatformStage E opts (cx_checkoutPath cx) st (stage_arguments cx st revision);
       case r of
         Inl e \<Rightarrow> fail (exitError ExitUnhealthy (st_name st @ '' failed: '' @ ce_text e))
       | Inr _ \<Rightarrow> verify_stages E opts cx sts })"

definition platform_verify :: "cenv \<Rightarrow> options \<Rightarrow> (cli_error + unit) ctl" where
  "platform_verify E opts =
     then_do (loadContext E opts) (\<lambda>(_, cx).
     then_do (verify_stages E opts cx ([stg ''Verify platform readiness'' ''test-gitops'' 20]
       @ (if cx_profile cx = ''full'' then [stg ''Verify data platform'' ''verify-data'' 10] else []))) (\<lambda>_.
       print_table E opts [''PROFILE'', ''STATE''] [[cx_profile cx, ''Verified'']]
         (JObj [(''profile'', JStr (cx_profile cx)), (''state'', JStr ''Verified'')])))"

subsection \<open>What the log writer writes\<close>

text \<open>The lines of a text that are not blank, redacted and trimmed.\<close>

definition shown_lines :: "string list \<Rightarrow> string list" where
  "shown_lines ls = filter (\<lambda>l. l \<noteq> []) (map (\<lambda>l. trim_space (Redact l)) ls)"

definition emitted :: "string \<Rightarrow> string list \<Rightarrow> log_writer \<Rightarrow> log_writer" where
  \<comment> \<open>a writer with the given lines added to what it wrote and to its tail\<close>
  "emitted pending ls w = w\<lparr>lw_pending := pending, lw_tail := last_n 20 (lw_tail w @ ls),
     lw_out := lw_out w @ map (\<lambda>l. ''['' @ lw_prefix w @ ''] '' @ l @ [newline]) ls\<rparr>"

lemma split_on_snoc: "split_on c (x @ c # y) = split_on c x @ split_on c y"
proof (induction x)
  case (Cons d x)
  obtain w ws where "split_on c x = w # ws" by (cases "split_on c x") auto
  with Cons show ?case by simp
qed simp

lemma shown_lines_append: "shown_lines (xs @ ys) = shown_lines xs @ shown_lines ys"
  by (simp add: shown_lines_def)

lemma trim_space_Nil: "trim_space [] = []"
  by (simp add: trim_space_def trim_left.simps trim_right.simps space_end_def)

lemma Redact_Nil: "Redact [] = []"
  by (simp add: Redact_def redact_line_def index_any_def split: option.splits)

lemma shown_lines_Nil: "shown_lines [[]] = []"
  by (simp add: shown_lines_def Redact_Nil trim_space_Nil)

lemma emitted_none: "length (lw_tail w) \<le> 20 \<Longrightarrow> emitted (lw_pending w) [] w = w"
  by (simp add: emitted_def last_n_def)

lemma emitted_pending: "(emitted p ls w)\<lparr>lw_pending := q\<rparr> = emitted q ls w"
  by (simp add: emitted_def)

lemma emitted_emitted: "emitted q ys (emitted p xs w) = emitted q (xs @ ys) w"
  by (simp add: emitted_def last_n_append)

lemma emitLocked_emitted:
  "length (lw_tail w) \<le> 20 \<Longrightarrow> emitLocked l w = emitted (lw_pending w) (shown_lines [l]) w"
  by (simp add: emitLocked_def shown_lines_def emitted_def last_n_def Let_def)

lemma index_any_None: "index_any s cs = None \<Longrightarrow> set s \<inter> set cs = {}"
proof -
  assume "index_any s cs = None"
  then have "length s \<le> length (takeWhile (\<lambda>c. c \<notin> set cs) s)" by (auto simp: index_any_def Let_def split: if_splits)
  then have "takeWhile (\<lambda>c. c \<notin> set cs) s = s" by (metis take_all takeWhile_eq_take)
  then show ?thesis by (metis disjoint_iff set_takeWhileD)
qed

lemma drain_lines_emitted:
  "length (lw_tail w) \<le> 20 \<Longrightarrow>
     drain_lines w = emitted (last (split_on newline (lw_pending w))) (shown_lines (butlast (split_on newline (lw_pending w)))) w"
proof (induction w rule: drain_lines.induct)
  case (1 w)
  show ?case
  proof (cases "index_any (lw_pending w) [newline]")
    case None
    then have "newline \<notin> set (lw_pending w)" using index_any_None [OF None] by simp
    then have "split_on newline (lw_pending w) = [lw_pending w]" by (rule split_on_none)
    then show ?thesis
      using None 1(2) by (simp add: drain_lines.simps shown_lines_def emitted_none)
  next
    case (Some i)
    let ?p = "lw_pending w"
    let ?w = "(emitLocked (take i ?p) w)\<lparr>lw_pending := drop (i + 1) ?p\<rparr>"
    note x = index_any_Some [OF Some]
    have p: "?p = take i ?p @ newline # drop (i + 1) ?p" and free: "newline \<notin> set (take i ?p)" using x by auto
    have sp: "split_on newline ?p = take i ?p # split_on newline (drop (i + 1) ?p)"
      by (subst p) (rule split_on_append [OF free])
    have w: "?w = emitted (drop (i + 1) ?p) (shown_lines [take i ?p]) w"
      using 1(2) by (simp add: emitLocked_emitted emitted_pending)
    have len: "length (lw_tail ?w) \<le> 20" unfolding w by (simp add: emitted_def last_n_length)
    have "drain_lines w = drain_lines ?w" using Some by (subst drain_lines.simps) simp
    also have "\<dots> = emitted (last (split_on newline (drop (i + 1) ?p)))
        (shown_lines (butlast (split_on newline (drop (i + 1) ?p)))) ?w"
      using 1(1) [OF Some len] by simp
    also have "\<dots> = emitted (last (split_on newline ?p)) (shown_lines (butlast (split_on newline ?p))) w"
      unfolding w emitted_emitted sp by (simp flip: shown_lines_append)
    finally show ?thesis .
  qed
qed

lemma last_split_free: "newline \<notin> set (last (split_on newline s))"
  using split_on_free last_in_set split_on_nonempty by blast

lemma split_on_last:
  "split_on newline (a @ b) = butlast (split_on newline a) @ split_on newline (last (split_on newline a) @ b)"
proof (induction a)
  case (Cons d a)
  obtain w ws where s: "split_on newline a = w # ws" by (cases "split_on newline a") auto
  show ?case
  proof (cases ws)
    case Nil
    then show ?thesis using Cons s split_on_nonempty [of newline "w @ b"]
      by (auto split: list.splits)
  next
    case (Cons v vs)
    then show ?thesis using Cons.IH s by simp
  qed
qed simp

lemma write_log_emitted:
  assumes "length (lw_tail w) \<le> 20" "lw_pending w = last (split_on newline a)"
  shows "write_log chunk w = emitted (last (split_on newline (a @ drop_returns chunk)))
    (shown_lines (drop (length (butlast (split_on newline a))) (butlast (split_on newline (a @ drop_returns chunk))))) w"
proof -
  let ?q = "lw_pending w @ drop_returns chunk"
  have s: "split_on newline (a @ drop_returns chunk) = butlast (split_on newline a) @ split_on newline ?q"
    unfolding assms(2) by (rule split_on_last)
  have "write_log chunk w = emitted (last (split_on newline ?q)) (shown_lines (butlast (split_on newline ?q))) w"
    using drain_lines_emitted [of "w\<lparr>lw_pending := ?q\<rparr>"] assms(1)
    by (simp add: write_log_def emitted_def)
  then show ?thesis by (simp add: s butlast_append)
qed

definition normal_text :: "string list \<Rightarrow> string" where
  "normal_text parts = concat (map drop_returns parts)"

lemma fold_write_log:
  "fold write_log parts (newStageLogWriter pre) =
     emitted (last (split_on newline (normal_text parts)))
       (shown_lines (butlast (split_on newline (normal_text parts)))) (newStageLogWriter pre)"
proof (induction parts rule: rev_induct)
  case Nil
  then show ?case by (simp add: normal_text_def emitted_def newStageLogWriter_def last_n_def shown_lines_def)
next
  case (snoc x xs)
  let ?a = "normal_text xs" and ?w = "fold write_log xs (newStageLogWriter pre)"
  let ?b = "?a @ drop_returns x"
  have len: "length (lw_tail ?w) \<le> 20" and pend: "lw_pending ?w = last (split_on newline ?a)"
    unfolding snoc.IH by (simp_all add: emitted_def last_n_length)
  have s: "butlast (split_on newline ?b) = butlast (split_on newline ?a)
      @ drop (length (butlast (split_on newline ?a))) (butlast (split_on newline ?b))"
    using split_on_last [of ?a "drop_returns x"] by (simp add: butlast_append)
  note sh = trans [OF arg_cong [OF s, where f = shown_lines] shown_lines_append]
  have "fold write_log (xs @ [x]) (newStageLogWriter pre) = write_log x ?w" by simp
  also have "\<dots> = emitted (last (split_on newline ?b)) (shown_lines
      (drop (length (butlast (split_on newline ?a))) (butlast (split_on newline ?b)))) ?w"
    by (rule write_log_emitted [OF len pend])
  also have "\<dots> = emitted (last (split_on newline ?b)) (shown_lines (butlast (split_on newline ?b))) (newStageLogWriter pre)"
    by (subst sh) (simp only: snoc.IH emitted_emitted)
  finally show ?case by (simp add: normal_text_def)
qed

lemma log_output_emitted:
  "log_output pre parts = emitted [] (shown_lines (split_on newline (normal_text parts))) (newStageLogWriter pre)"
proof -
  let ?s = "split_on newline (normal_text parts)"
  let ?w = "fold write_log parts (newStageLogWriter pre)"
  have s: "shown_lines ?s = shown_lines (butlast ?s) @ shown_lines [last ?s]"
    by (metis append_butlast_last_id shown_lines_append split_on_nonempty)
  have len: "length (lw_tail ?w) \<le> 20" and pend: "lw_pending ?w = last ?s"
    unfolding fold_write_log by (simp_all add: emitted_def last_n_length)
  show ?thesis
  proof (cases "last ?s = []")
    case True
    then show ?thesis
      using pend by (simp add: log_output_def flush_log_def fold_write_log s shown_lines_Nil)
  next
    case False
    then show ?thesis
      using pend len by (simp add: log_output_def flush_log_def emitLocked_emitted emitted_pending)
        (simp add: fold_write_log s emitted_def last_n_append)
  qed
qed

text \<open>A chunk that ends with a return before a chunk that starts with a newline gives one blank line more.\<close>

definition carriage_return :: char where "carriage_return = CHR 0x0D"

lemma breaks_differ [simp]: "carriage_return \<noteq> newline" "newline \<noteq> carriage_return"
  by (simp_all add: carriage_return_def newline_def)

lemma drop_returns_simps:
  "drop_returns [carriage_return] = [newline]"
  "drop_returns (carriage_return # newline # t) = newline # drop_returns t"
  "d \<noteq> newline \<Longrightarrow> drop_returns (carriage_return # d # t) = newline # drop_returns (d # t)"
  "c \<noteq> carriage_return \<Longrightarrow> drop_returns (c # s) = c # drop_returns s"
  by (simp_all add: carriage_return_def)

declare drop_returns.simps(2) [simp del] drop_returns_simps [simp]

lemma drop_returns_cases:
  assumes "P []" "P [carriage_return]" "\<And>t. P t \<Longrightarrow> P (carriage_return # newline # t)"
    "\<And>d t. d \<noteq> newline \<Longrightarrow> P (d # t) \<Longrightarrow> P (carriage_return # d # t)"
    "\<And>c s. c \<noteq> carriage_return \<Longrightarrow> P s \<Longrightarrow> P (c # s)"
  shows "P a"
proof (induction a rule: length_induct)
  case (1 a)
  then have IH: "length s < length a \<Longrightarrow> P s" for s by blast
  show ?case
  proof (cases a)
    case (Cons c s)
    show ?thesis
    proof (cases "c = carriage_return")
      case True
      show ?thesis
      proof (cases s)
        case (Cons d t)
        with True \<open>a = c # s\<close> assms(3,4) IH show ?thesis by (cases "d = newline") auto
      qed (use True Cons assms(2) in simp)
    qed (use Cons assms(5) IH in auto)
  qed (use assms(1) in simp)
qed

lemma drop_returns_last: "drop_returns (a @ [carriage_return]) = drop_returns a @ [newline]"
proof (induction a rule: drop_returns_cases)
  case 2
  then show ?case using drop_returns_simps(3) [of carriage_return "[]"] by simp
next
  case (4 d t)
  then show ?case by (cases t) auto
qed auto

lemma drop_returns_crlf: "drop_returns (a @ carriage_return # newline # b) = drop_returns a @ newline # drop_returns b"
proof (induction a rule: drop_returns_cases)
  case 2
  then show ?case using drop_returns_simps(3) [of carriage_return "newline # b"] by simp
qed auto

lemma drop_returns_append:
  "\<not> (a \<noteq> [] \<and> last a = carriage_return \<and> b \<noteq> [] \<and> hd b = newline) \<Longrightarrow> drop_returns (a @ b) = drop_returns a @ drop_returns b"
proof (induction a rule: drop_returns_cases)
  case 2
  then show ?case by (cases b) auto
next
  case (3 t)
  then show ?case by (cases "t = []") auto
next
  case (5 c s)
  then show ?case by (cases s) auto
qed auto

lemma shown_blank_line: "shown_lines (split_on newline (x @ newline # newline # y)) = shown_lines (split_on newline (x @ newline # y))"
  by (simp add: split_on_snoc shown_lines_append) (simp add: shown_lines_def Redact_Nil trim_space_Nil)

lemma shown_drop_returns:
  "shown_lines (split_on newline (x @ drop_returns a @ drop_returns b))
     = shown_lines (split_on newline (x @ drop_returns (a @ b)))"
proof (cases "a \<noteq> [] \<and> last a = carriage_return \<and> b \<noteq> [] \<and> hd b = newline")
  case True
  then obtain a' b' where ab: "a = a' @ [carriage_return]" "b = newline # b'"
    by (metis append_butlast_last_id list.collapse)
  show ?thesis
    using shown_blank_line [of "x @ drop_returns a'" "drop_returns b'"]
    by (simp add: ab drop_returns_last drop_returns_crlf)
qed (simp add: drop_returns_append)

lemma shown_normal_text:
  "shown_lines (split_on newline (x @ normal_text parts)) = shown_lines (split_on newline (x @ drop_returns (concat parts)))"
proof (induction parts arbitrary: x)
  case (Cons a parts)
  then show ?case
    using Cons [of "x @ drop_returns a"] shown_drop_returns [of x a "concat parts"] by (simp add: normal_text_def)
qed (simp add: normal_text_def)

lemma written_lines:
  "lw_out (log_output pre parts) = map (\<lambda>l. ''['' @ pre @ ''] '' @ l @ [newline])
     (shown_lines (split_on newline (drop_returns (concat parts))))"
  "lw_tail (log_output pre parts) = last_n 20 (shown_lines (split_on newline (drop_returns (concat parts))))"
  using shown_normal_text [of "[]" parts]
  by (simp_all add: log_output_emitted emitted_def newStageLogWriter_def)

end
