(* ===== verification/Ctl_Claims.thy ===== *)
theory Ctl_Claims
  imports Ctl_Platform Ctl_Guard
begin

section \<open>The log of a stage and the search for a workflow run\<close>

text \<open>
  The log writer of \<open>platform_lifecycle.go\<close> against the lines of the whole output, and the loop of \<open>dispatchChange\<close>
  (\<open>commands_write.go\<close>) against a clock that does not go back.
\<close>

subsection \<open>The log of a stage\<close>

definition log_view :: "log_writer \<Rightarrow> string \<times> string" where
  \<comment> \<open>what a user sees of a writer: the text at the destination, and the tail in an error\<close>
  "log_view w = (concat (lw_out w), log_tail w)"

definition shown_log :: "string \<Rightarrow> string \<Rightarrow> string \<times> string" where
  \<comment> \<open>the specification: the lines of a text that are not blank, redacted, with the prefix; and the last twenty of them\<close>
  "shown_log pre text =
     (let ls = shown_lines (split_on newline (drop_returns text)) in
      (concat (map (\<lambda>l. ''['' @ pre @ ''] '' @ l @ [newline]) ls), join [newline] (last_n 20 ls)))"

text \<open>
  C21: for every output and every way to cut it into writes, a line break of two characters cut in the middle included: the log
  writer shows exactly the lines of the whole output that are not blank, redacted, each with its prefix and in order, and its
  tail is the last twenty of them.
\<close>

theorem stage_log_refines_lines: "log_view (log_output pre parts) = shown_log pre (concat parts)"
  by (simp add: log_view_def shown_log_def log_tail_def written_lines Let_def)

subsection \<open>The search for a run\<close>

fun clock_step :: "int \<Rightarrow> ctl_call \<times> ctl_resp \<Rightarrow> int" where
  "clock_step now (ReadClock, Instant t) = t"
| "clock_step now (SleepFor d, Done) = now + d"
| "clock_step now _ = now"

definition clock_after :: "int \<Rightarrow> ctl_trace \<Rightarrow> int" where
  \<comment> \<open>the least time it can be after the calls: the last time read, and the pauses made since\<close>
  "clock_after start tr = foldl clock_step start tr"

definition clock_runs :: "(ctl_trace \<Rightarrow> ctl_call \<Rightarrow> ctl_resp) \<Rightarrow> int \<Rightarrow> bool" where
  \<comment> \<open>a clock that answers, and does not go back; a pause lasts as long as it should\<close>
  "clock_runs api start \<longleftrightarrow> (\<forall>tr. \<exists>t. api tr ReadClock = Instant t \<and> clock_after start tr \<le> t)"

fun timed :: "ctl_call \<Rightarrow> bool" where
  "timed ReadClock = True" | "timed (SleepFor d) = True" | "timed _ = False"

lemma clock_after_snoc: "clock_after start (tr @ [e]) = clock_step (clock_after start tr) e"
  by (simp add: clock_after_def)

lemma clock_step_untimed: "\<not> timed c \<Longrightarrow> clock_step now (c, r) = now"
  by (cases c) auto

lemma clock_after_untimed:
  assumes "\<forall>(c, r) \<in> set e. \<not> timed c"
  shows "clock_after start (tr @ e) = clock_after start tr"
  using assms
proof (induction e rule: rev_induct)
  case (snoc x e)
  then show ?case by (cases x) (simp add: clock_after_snoc clock_step_untimed flip: append_assoc)
qed simp

lemma first_existing_untimed: "makes (\<lambda>c _. \<not> timed c) (first_existing cs)"
proof (induction cs)
  case (Cons c cs)
  then show ?case unfolding first_existing.simps by (intro silent_rules makes_invoke) simp_all
qed (simp add: makes_return)

lemma find_run_untimed: "makes (\<lambda>c _. \<not> timed c) (findRequestRun E cx requestID)"
  unfolding findRequestRun_def gh_def runExternal_def start_external_def githubCLIExecutable_def selectGitHubCLIExecutable_def
    look_path_def getenv_def
  by (intro makes_then makes_bind makes_invoke makes_if makes_results makes_return makes_Let makes_sum makes_option
      first_existing_untimed) simp_all

lemma poll_run_ends:
  assumes "clock_runs api start" "ses_api s = api" "deadline \<le> clock_after start (ses_trace s) + int n * poll_interval"
  shows "\<exists>x s'. \<forall>k. run_state (poll_run E cx requestID deadline (Suc n + k)) s = (Some x, s')"
  using assms(2,3)
proof (induction n arbitrary: s)
  case (0 s)
  obtain t where t: "api (ses_trace s) ReadClock = Instant t" "clock_after start (ses_trace s) \<le> t"
    using assms(1) unfolding clock_runs_def by blast
  then show ?case using 0 by (simp add: time_now_def invoke_def answer_def instant_of_def)
next
  case (Suc n s)
  obtain t where t: "api (ses_trace s) ReadClock = Instant t" "clock_after start (ses_trace s) \<le> t"
    using assms(1) unfolding clock_runs_def by blast
  let ?s1 = "log_call s ReadClock"
  obtain r s2 where find: "run_state (findRequestRun E cx requestID) ?s1 = (r, s2)" by fastforce
  then obtain evs where evs: "appends ?s1 s2 evs" "\<forall>(c, r) \<in> set evs. \<not> timed c"
    using find_run_untimed [of E cx requestID] unfolding makes_def by (metis snd_conv)
  have api: "ses_api s2 = api" using evs(1) Suc.prems(1) by (simp add: appends_def log_call_def)
  have "ses_trace s2 = (ses_trace s @ [(ReadClock, Instant t)]) @ evs"
    using evs(1) t(1) Suc.prems(1) by (simp add: appends_def log_call_def answer_def)
  then have "clock_after start (ses_trace s2) = t"
    by (simp only: clock_after_untimed [OF evs(2)]) (simp add: clock_after_snoc)
  then have clock: "deadline \<le> clock_after start (ses_trace s2 @ [(SleepFor poll_interval, Done)]) + int n * poll_interval"
    using Suc.prems(2) t(2) by (simp add: clock_after_snoc algebra_simps)
  let ?late = "exitError ExitTimeout ''timed out discovering the broker run''"
  define pause where "pause k = do {
     w \<leftarrow> invoke (SleepFor poll_interval);
     if done_of w \<noteq> None then ret (Some (Inl ?late)) else poll_run E cx requestID deadline k }" for k
  have "\<exists>x s'. \<forall>k. run_state (pause (Suc n + k)) s2 = (Some x, s')"
  proof (cases "answer s2 (SleepFor poll_interval) = Done")
    case True
    have "\<exists>x s'. \<forall>k. run_state (poll_run E cx requestID deadline (Suc n + k)) (log_call s2 (SleepFor poll_interval)) = (Some x, s')"
      using clock api True by (intro Suc.IH) (simp_all add: log_call_def)
    with True show ?thesis by (simp add: pause_def invoke_def del: poll_run.simps)
  next
    case False
    then show ?thesis by (simp add: pause_def invoke_def del: poll_run.simps)
  qed
  then obtain x s' where pause: "\<And>k. run_state (pause (Suc n + k)) s2 = (Some x, s')" by blast
  have "run_state time_now s = (t, ?s1)"
    using t(1) Suc.prems(1) by (simp add: time_now_def invoke_def answer_def instant_of_def)
  then have turn: "run_state (poll_run E cx requestID deadline (Suc m)) s =
      (if \<not> t < deadline then (Some (Inl (exitError ExitTimeout
         ''broker was dispatched but its run was not discoverable within 60 seconds'')), ?s1)
       else case r of
         Inr found \<Rightarrow> if rr_url found \<noteq> [] then (Some (Inr (rr_url found)), s2) else run_state (pause m) s2
       | Inl _ \<Rightarrow> run_state (pause m) s2)" for m
    using find by (simp add: pause_def split: sum.split)
  have "Suc (Suc n) + k = Suc (Suc n + k)" for k by simp
  then show ?case by (cases r) (auto simp only: turn pause sum.case split: if_splits)
qed

lemma poll_limit_enough: "int 30 * poll_interval = 60 * 10 ^ 9" "poll_limit = Suc 30"
  by (simp_all add: poll_interval_def poll_limit_def)

text \<open>
  C10: against every clock that answers and does not go back, and for which a pause lasts as long as it should, whatever GitHub
  answers: the loop that waits for the run of a dispatched request ends within \<open>poll_limit\<close> turns, the number that
  \<open>dispatchChange\<close> allows it. More turns give the same result and the same calls, so the bound cuts nothing off; the deadline
  of sixty seconds does.
\<close>

theorem dispatch_poll_terminates:
  assumes "clock_runs api start" "ses_api s = api" "deadline \<le> clock_after start (ses_trace s) + 60 * 10 ^ 9" "poll_limit \<le> n"
  shows "fst (run_state (poll_run E cx requestID deadline poll_limit) s) \<noteq> None
    \<and> run_state (poll_run E cx requestID deadline n) s = run_state (poll_run E cx requestID deadline poll_limit) s"
proof -
  obtain x s' where "\<And>k. run_state (poll_run E cx requestID deadline (Suc 30 + k)) s = (Some x, s')"
    using poll_run_ends [of api start s deadline 30] assms(1-3) unfolding poll_limit_enough(1) by blast
  from this [of 0] this [of "n - poll_limit"] show ?thesis
    using assms(4) by (simp add: poll_limit_enough del: poll_run.simps)
qed

text \<open>A clock that stands still except while it is waited for, before a cluster and a Git that answer nothing.\<close>

definition idle_api :: "ctl_trace \<Rightarrow> ctl_call \<Rightarrow> ctl_resp" where
  "idle_api tr c = (case c of
     ReadClock \<Rightarrow> Instant (clock_after 0 tr)
   | SleepFor d \<Rightarrow> Done
   | _ \<Rightarrow> Failed broken_answer)"

lemma dispatch_poll_terminates_witness:
  "\<forall>E cx requestID. \<exists>result. fst (run_state (poll_run E cx requestID (60 * 10 ^ 9) poll_limit) \<lparr>ses_api = idle_api, ses_trace = []\<rparr>) = Some result"
proof -
  have "clock_runs idle_api 0" by (simp add: clock_runs_def idle_api_def)
  from dispatch_poll_terminates [OF this, of "\<lparr>ses_api = idle_api, ses_trace = []\<rparr>" "60 * 10 ^ 9" poll_limit]
  show ?thesis by (simp add: clock_after_def del: poll_run.simps)
qed

end
