(* ===== verification/Processes.thy ===== *)
theory Processes
  imports Ctl_Service
begin

section \<open>Child processes that outlive a call\<close>

text \<open>
  \<open>internal/platformctl/process_tree.go\<close> with its two implementations (\<open>process_tree_unix.go\<close>, \<open>process_tree_windows.go\<close>):
  a command in a process tree of its own that is killed as a whole; and the development loop of \<open>commands_service.go\<close>: the processes
  it starts, and the watcher that rebuilds on a change of the sources. \<open>process_tree_settles\<close>: a command in a tree leaves no process
  that was not told to end. A select is one call; its answer is the case that was
  taken. The watcher is a program of its own; \<open>SpawnWatcher\<close> starts it beside \<open>runDevelopment\<close>.
\<close>

subsection \<open>Processes and handles\<close>

definition proc :: "proc_call \<Rightarrow> ctl_resp ctl" where "proc c = invoke (Process c)"

definition handle_of :: "ctl_resp \<Rightarrow> raw_error + nat" where
  "handle_of r = (case r of Handle h \<Rightarrow> Inr h | Failed e \<Rightarrow> Inl e | _ \<Rightarrow> Inl broken_answer)"

definition ended_of :: "ctl_resp \<Rightarrow> raw_error option option" where
  \<comment> \<open>the result of a process that ended\<close>
  "ended_of r = (case r of Woken (Ended err) \<Rightarrow> Some err | _ \<Rightarrow> None)"

definition wrap_error :: "string \<Rightarrow> raw_error \<Rightarrow> raw_error" where
  \<comment> \<open>\<open>fmt.Errorf\<close> with \<open>%w\<close>\<close>
  "wrap_error s e = e\<lparr>rw_text := s @ rw_text e\<rparr>"

definition raw_text :: "string \<Rightarrow> raw_error" where
  "raw_text s = \<lparr>rw_text = s, rw_stderr = [], rw_stdout = [], rw_deadline = False, rw_absent = False, rw_conflict = False\<rparr>"

definition join_errors :: "raw_error option list \<Rightarrow> raw_error option" where
  \<comment> \<open>\<open>errors.Join\<close>: the errors that are not nil, one to a line; \<open>errors.Is\<close> finds each of them\<close>
  "join_errors es =
     (case concat (map (\<lambda>x. case x of Some e \<Rightarrow> [e] | None \<Rightarrow> []) es) of
        [] \<Rightarrow> None
      | e # es \<Rightarrow> Some (e\<lparr>rw_text := join [CHR 0x0A] (map rw_text (e # es)),
          rw_deadline := list_ex rw_deadline (e # es)\<rparr>))"

subsection \<open>Process trees\<close>

text \<open>A tree is the job object of Windows, and nothing but the process group on other systems.\<close>

definition newCommandProcessTree :: "string \<Rightarrow> (raw_error + nat option) ctl" where
  "newCommandProcessTree goos =
     (if goos \<noteq> ''windows'' then yield None
      else do {
        j \<leftarrow> proc CreateJob;
        case handle_of j of
          Inl e \<Rightarrow> fail (wrap_error ''create lifecycle process boundary: '' e)
        | Inr job \<Rightarrow> do {
            c \<leftarrow> proc (ConfigureJob job);
            case done_of c of
              Some e \<Rightarrow> do { _ \<leftarrow> proc (CloseHandle job); fail (wrap_error ''configure lifecycle process boundary: '' e) }
            | None \<Rightarrow> yield (Some job) } })"

definition afterStart :: "nat option \<Rightarrow> nat \<Rightarrow> raw_error option ctl" where
  "afterStart tree pid =
     (case tree of
        None \<Rightarrow> ret None
      | Some job \<Rightarrow> do {
          p \<leftarrow> proc (OpenPid pid);
          case handle_of p of
            Inl e \<Rightarrow> ret (Some (wrap_error ''open lifecycle process: '' e))
          | Inr process \<Rightarrow> do {
              a \<leftarrow> proc (AssignJob job process);
              _ \<leftarrow> proc (CloseHandle process);
              ret (map_option (wrap_error ''assign lifecycle process boundary: '') (done_of a)) } })"

definition terminate_tree :: "nat option \<Rightarrow> nat \<Rightarrow> raw_error option ctl" where
  \<comment> \<open>a group that is gone (\<open>ESRCH\<close>, here \<open>rw_absent\<close>) is no error\<close>
  "terminate_tree tree pid =
     (case tree of
        None \<Rightarrow> do {
          k \<leftarrow> proc (KillGroup pid);
          ret (case done_of k of Some e \<Rightarrow> if rw_absent e then None else Some e | None \<Rightarrow> None) }
      | Some job \<Rightarrow> do {
          t \<leftarrow> proc (TerminateJob job);
          ret (map_option (wrap_error ''terminate lifecycle process tree: '') (done_of t)) })"

definition close_tree :: "nat option \<Rightarrow> unit ctl" where
  "close_tree tree =
     (case tree of
        Some job \<Rightarrow> if job = 0 then ret () else do { _ \<leftarrow> proc (CloseHandle job); ret () }
      | None \<Rightarrow> ret ())"

definition processTreeShutdownGrace :: int where "processTreeShutdownGrace = 15 * 10 ^ 9"

definition waitForCommand :: "nat \<Rightarrow> raw_error option option ctl" where
  \<comment> \<open>\<open>waitForResult\<close> with the grace period: the result of the process, \<open>None\<close> when the time is over first\<close>
  "waitForCommand pid = do { w \<leftarrow> proc (AwaitWithin pid processTreeShutdownGrace); ret (ended_of w) }"

definition grace_error :: raw_error where
  "grace_error = raw_text ''process tree did not exit within the shutdown grace period''"

definition supervise :: "nat option \<Rightarrow> nat \<Rightarrow> raw_error option ctl" where
  \<comment> \<open>the select; the answer to a context that is done is its error\<close>
  "supervise tree pid = do {
     w \<leftarrow> proc (AwaitProcess pid);
     case ended_of w of
       Some err \<Rightarrow> ret err
     | None \<Rightarrow> do {
         t \<leftarrow> terminate_tree tree pid;
         d \<leftarrow> waitForCommand pid;
         ret (join_errors [Some (case w of Failed e \<Rightarrow> e | _ \<Rightarrow> broken_answer), t,
           if d = None then Some grace_error else None]) } }"

definition run_in_tree :: "nat option \<Rightarrow> string \<Rightarrow> string \<Rightarrow> string list \<Rightarrow> raw_error option ctl" where
  "run_in_tree tree directory executable arguments = do {
     s \<leftarrow> proc (StartProcess directory executable arguments []);
     case handle_of s of
       Inl e \<Rightarrow> ret (Some e)
     | Inr pid \<Rightarrow> do {
         a \<leftarrow> afterStart tree pid;
         case a of
           Some e \<Rightarrow> do { _ \<leftarrow> proc (KillProcess pid); _ \<leftarrow> waitForCommand pid; ret (Some e) }
         | None \<Rightarrow> supervise tree pid } }"

definition runCommandInProcessTree :: "string \<Rightarrow> string \<Rightarrow> string \<Rightarrow> string list \<Rightarrow> raw_error option ctl" where
  "runCommandInProcessTree goos directory executable arguments = do {
     t \<leftarrow> newCommandProcessTree goos;
     case t of
       Inl e \<Rightarrow> ret (Some e)
     | Inr tree \<Rightarrow> do {
         r \<leftarrow> run_in_tree tree directory executable arguments;
         _ \<leftarrow> close_tree tree;
         ret r } }"

subsection \<open>Watching the sources\<close>

definition terminateProcess :: "nat option \<Rightarrow> unit ctl" where
  "terminateProcess command =
     (case command of
        Some pid \<Rightarrow> do { _ \<leftarrow> proc (KillProcess pid); _ \<leftarrow> proc (AwaitExit pid); ret () }
      | None \<Rightarrow> ret ())"

definition stamp_line :: "string \<times> bool \<times> int \<times> int \<Rightarrow> string" where
  "stamp_line file = (case file of (path, directory, bytes, changed) \<Rightarrow>
     if directory \<or> \<not> has_suffix path ''.go'' then []
     else path @ '':'' @ show_int bytes @ '':'' @ show_int changed @ [CHR 0x0A])"

definition sourceStamp :: "string \<Rightarrow> (raw_error + string) ctl" where
  "sourceStamp watchRoot = do {
     f \<leftarrow> proc (WalkSources watchRoot);
     ret (case f of
       Files entries \<Rightarrow> Inr (concat (map stamp_line entries))
     | Failed e \<Rightarrow> Inl e
     | _ \<Rightarrow> Inl broken_answer) }"

definition start_go :: "string \<Rightarrow> string \<Rightarrow> string list \<Rightarrow> (raw_error + nat) ctl" where
  "start_go checkout packagePath environment = do {
     s \<leftarrow> proc (StartProcess checkout ''go'' [''run'', packagePath] environment);
     ret (handle_of s) }"

definition error_text :: "raw_error option \<Rightarrow> string" where
  "error_text err = (case err of Some e \<Rightarrow> rw_text e | None \<Rightarrow> ''<nil>'')"

definition tell :: "string \<Rightarrow> unit ctl" where "tell s = do { _ \<leftarrow> invoke (WriteErr s); ret () }"

fun watch_turns ::
    "string \<Rightarrow> string \<Rightarrow> string list \<Rightarrow> string \<Rightarrow> nat \<Rightarrow> bool \<Rightarrow> string \<Rightarrow> nat \<Rightarrow> (raw_error + unit) option ctl" where
  \<comment> \<open>the loop of the watcher, for at most the given number of turns: the process, whether it has stopped, the last stamp\<close>
  "watch_turns checkout packagePath environment watchRoot pid waiting stamp 0 = ret None"
| "watch_turns checkout packagePath environment watchRoot pid waiting stamp (Suc n) = do {
     w \<leftarrow> proc (SelectWatch pid);
     case w of
       Woken (Ended err) \<Rightarrow> do {
         c \<leftarrow> proc ContextError;
         if done_of c \<noteq> None then ret (Some (Inr ()))
         else do {
           _ \<leftarrow> tell (''Go service stopped ('' @ error_text err @ ''); waiting for a source change.'' @ [CHR 0x0A]);
           watch_turns checkout packagePath environment watchRoot pid True stamp n } }
     | Woken (Tick now) \<Rightarrow> do {
         s \<leftarrow> sourceStamp watchRoot;
         case s of
           Inl e \<Rightarrow> do { _ \<leftarrow> terminateProcess (Some pid); ret (Some (Inl e)) }
         | Inr current \<Rightarrow>
             if current = stamp then watch_turns checkout packagePath environment watchRoot pid waiting stamp n
             else do {
               _ \<leftarrow> (if waiting then ret () else terminateProcess (Some pid));
               t \<leftarrow> invoke (SleepFor (500 * 10 ^ 6));
               if done_of t \<noteq> None then ret (Some (Inr ()))
               else do {
                 _ \<leftarrow> tell (''Go source changed; rebuilding.'' @ [CHR 0x0A]);
                 p \<leftarrow> start_go checkout packagePath environment;
                 case p of
                   Inl e \<Rightarrow> ret (Some (Inl e))
                 | Inr pid' \<Rightarrow> watch_turns checkout packagePath environment watchRoot pid' False current n } } }
     | _ \<Rightarrow> do { _ \<leftarrow> proc (KillProcess pid); ret (Some (Inr ())) } }"

definition watchGoDevelopment :: "string \<Rightarrow> string \<Rightarrow> string list \<Rightarrow> nat \<Rightarrow> (raw_error + unit) option ctl" where
  "watchGoDevelopment checkout packagePath environment n =
     (let watchRoot = path_join [checkout, trim_prefix packagePath ''./''] in do {
      s \<leftarrow> sourceStamp watchRoot;
      case s of
        Inl e \<Rightarrow> ret (Some (Inl e))
      | Inr stamp \<Rightarrow> do {
          p \<leftarrow> start_go checkout packagePath environment;
          case p of
            Inl e \<Rightarrow> ret (Some (Inl e))
          | Inr pid \<Rightarrow> watch_turns checkout packagePath environment watchRoot pid False stamp n } })"

subsection \<open>The development loop\<close>

definition has_api :: "catalog_service \<Rightarrow> bool" where
  "has_api s = (sv_template s = ''go-api'' \<or> sv_template s = ''full-stack'')"

definition has_web :: "catalog_service \<Rightarrow> bool" where
  "has_web s = (sv_template s = ''react-static'' \<or> sv_template s = ''full-stack'')"

definition api_path :: "catalog_service \<Rightarrow> string" where
  "api_path s = ''./services/'' @ sv_name s @ ''/api''"

definition api_environment :: "string list \<Rightarrow> tenant \<Rightarrow> catalog_service \<Rightarrow> string list" where
  \<comment> \<open>a service of a loaded catalog has components\<close>
  "api_environment baseEnv tenant s =
     (if has_api s then baseEnv @
        [''PORT='' @ (if sv_template s = ''full-stack'' then ''8081'' else ''8080''),
         ''STEADYSTATE_APP_NAME='' @ last (sv_components s), ''STEADYSTATE_APP_NAMESPACE=team-'' @ ten_name tenant,
         ''STEADYSTATE_APP_VERSION='' @ sv_version s]
      else [])"

definition start_tunnel :: "cli_context \<Rightarrow> tenant \<Rightarrow> catalog_service \<Rightarrow> (cli_error + nat) ctl" where
  "start_tunnel cx tenant s = do {
     t \<leftarrow> proc (StartProcess (cx_checkoutPath cx) ''kubectl'' (kubeArguments cx [''-n'', ''team-'' @ ten_name tenant,
            ''port-forward'', ''service/'' @ sv_databaseRef s @ ''-rw'', ''5432:5432'']) []);
     ret (case handle_of t of
       Inl e \<Rightarrow> Inl (exitError ExitRemote (''start database tunnel: '' @ rw_text e))
     | Inr pid \<Rightarrow> Inr pid) }"

definition start_web :: "cli_context \<Rightarrow> string list \<Rightarrow> catalog_service \<Rightarrow> (cli_error + nat) ctl" where
  "start_web cx baseEnv s = do {
     w \<leftarrow> proc (StartProcess (cx_checkoutPath cx) ''npm''
            [''--prefix'', path_join [''services'', sv_name s, ''web''], ''run'', ''dev''] baseEnv);
     ret (case handle_of w of
       Inl e \<Rightarrow> Inl (exitError ExitRemote (''start frontend development process: '' @ rw_text e))
     | Inr pid \<Rightarrow> Inr pid) }"

definition receive_result :: "raw_error option ctl" where
  "receive_result = do { r \<leftarrow> proc ReceiveResult; ret (done_of r) }"

definition await_development :: "bool \<Rightarrow> (cli_error + unit) ctl" where
  \<comment> \<open>the first result ends the other process as well; whether there are two\<close>
  "await_development both = do {
     first \<leftarrow> receive_result;
     _ \<leftarrow> proc CancelContext;
     _ \<leftarrow> (if both then receive_result else ret None);
     parent \<leftarrow> proc ParentError;
     if done_of parent \<noteq> None then yield ()
     else case first of
       Some e \<Rightarrow> fail (exitError ExitRemote (''development process stopped: '' @ rw_text e))
     | None \<Rightarrow> yield () }"

definition run_services :: "cli_context \<Rightarrow> string list \<Rightarrow> string list \<Rightarrow> catalog_service \<Rightarrow> (cli_error + unit) ctl" where
  "run_services cx baseEnv apiEnv s = do {
     _ \<leftarrow> (if has_api s then do { _ \<leftarrow> proc (SpawnWatcher (api_path s) apiEnv); ret () } else ret ());
     if has_web s then then_do (start_web cx baseEnv s) (\<lambda>_. await_development (has_api s))
     else if has_api s then await_development False
     else fail (exitError ExitUsage ''service template has no development process'') }"

definition with_tunnel ::
    "cenv \<Rightarrow> cli_context \<Rightarrow> tenant \<Rightarrow> catalog_service \<Rightarrow> string list \<Rightarrow> string list \<Rightarrow> (cli_error + unit) ctl" where
  \<comment> \<open>the tunnel is terminated on every way out\<close>
  "with_tunnel E cx tenant s baseEnv apiEnv =
     (if sv_databaseRef s = [] then
        fail (exitError ExitUsage (''service '' @ go_quote (lib_of E) (sv_name s) @ '' has no Database''))
      else then_do (start_tunnel cx tenant s) (\<lambda>pid. do {
        r \<leftarrow> then_do (databaseURI E cx (ten_name tenant) (sv_databaseRef s)) (\<lambda>uri.
               run_services cx baseEnv (apiEnv @ [''DATABASE_URL='' @ uri]) s);
        _ \<leftarrow> terminateProcess (Some pid);
        ret r }))"

definition runDevelopment ::
    "cenv \<Rightarrow> cli_context \<Rightarrow> tenant \<Rightarrow> catalog_service \<Rightarrow> bool \<Rightarrow> (cli_error + unit) ctl" where
  "runDevelopment E cx tenant s databaseTunnel = do {
     e \<leftarrow> proc Environ;
     let baseEnv = (case e of Names ns \<Rightarrow> ns | _ \<Rightarrow> []);
         apiEnv = api_environment baseEnv tenant s in do {
     r \<leftarrow> (if databaseTunnel then with_tunnel E cx tenant s baseEnv apiEnv else run_services cx baseEnv apiEnv s);
     _ \<leftarrow> proc CancelContext;
     ret r } }"

definition bootstrap_profile :: "cenv \<Rightarrow> cli_context \<Rightarrow> (cli_error + string) ctl" where
  "bootstrap_profile E cx =
     then_do (selectPowerShellExecutable (cn_goos E)) (\<lambda>powerShell.
       runExternal E (cx_checkoutPath cx) powerShell (powerShellArguments powerShell [''-NoProfile'', ''-File'',
         path_join [cx_checkoutPath cx, ''scripts'', ''dev.ps1''], ''bootstrap'', ''-Profile'', cx_profile cx]))"

definition dev_command :: "cenv \<Rightarrow> options \<Rightarrow> bool \<Rightarrow> bool \<Rightarrow> string \<Rightarrow> (cli_error + unit) ctl" where
  \<comment> \<open>\<open>RunE\<close> of \<open>newDevCommand\<close>\<close>
  "dev_command E opts bootstrap databaseTunnel name =
     then_do (loadContext E opts) (\<lambda>(_, cx).
     then_do (load_catalog E cx) (\<lambda>catalog.
     then_do (lift (findCatalogService (lib_of E) catalog name)) (\<lambda>(tenant, service).
     then_do (if bootstrap then bootstrap_profile E cx else yield []) (\<lambda>_.
       runDevelopment E cx tenant service databaseTunnel))))"

subsection \<open>No process is left behind\<close>

fun starts :: "ctl_call \<Rightarrow> bool" where
  "starts (Process (StartProcess directory executable arguments environment)) = True"
| "starts _ = False"

definition put_down :: "nat \<Rightarrow> ctl_trace \<Rightarrow> bool" where
  \<comment> \<open>the process has ended or was killed, alone or with its group or job\<close>
  "put_down pid tr \<longleftrightarrow> (\<exists>err. (Process (AwaitProcess pid), Woken (Ended err)) \<in> set tr)
     \<or> (\<exists>r. (Process (KillProcess pid), r) \<in> set tr) \<or> (\<exists>r. (Process (KillGroup pid), r) \<in> set tr)
     \<or> (\<exists>job r. (Process (TerminateJob job), r) \<in> set tr)"

definition settled :: "ctl_trace \<Rightarrow> bool" where
  "settled tr \<longleftrightarrow> (\<forall>c pid. (c, Handle pid) \<in> set tr \<longrightarrow> starts c \<longrightarrow> put_down pid tr)"

abbreviation idle :: "(ctl_trace \<Rightarrow> ctl_call \<Rightarrow> ctl_resp) \<Rightarrow> ('a \<Rightarrow> ctl_trace \<Rightarrow> bool) \<Rightarrow> 'a ctl \<Rightarrow> bool" where
  "idle api R m \<equiv> does api (\<lambda>c _. \<not> starts c) R m"

lemma handle_of_Inr [simp]: "handle_of r = Inr h \<longleftrightarrow> r = Handle h"
  by (auto simp: handle_of_def split: ctl_resp.split)

lemma ended_of_Some [simp]: "ended_of r = Some err \<longleftrightarrow> r = Woken (Ended err)"
  by (auto simp: ended_of_def split: ctl_resp.split wake.split)

lemma put_down_append: "put_down pid t \<Longrightarrow> put_down pid (t @ e)" "put_down pid e \<Longrightarrow> put_down pid (t @ e)"
  unfolding put_down_def by auto

lemma idle_proc: "\<not> starts (Process c) \<Longrightarrow> idle api (\<lambda>r e. e = [(Process c, r)]) (proc c)"
  unfolding proc_def by (rule does_invoke) simp

lemma idle_calls: "\<not> starts (Process c) \<Longrightarrow> makes (\<lambda>c _. \<not> starts c) (proc c)"
  unfolding proc_def by (rule makes_invoke)

lemma makes_cases:
  "(\<And>e. makes C (f e)) \<Longrightarrow> (\<And>a. makes C (g a)) \<Longrightarrow> makes C (case x of Inl e \<Rightarrow> f e | Inr a \<Rightarrow> g a)"
  "makes C h \<Longrightarrow> (\<And>a. makes C (k a)) \<Longrightarrow> makes C (case y of None \<Rightarrow> h | Some a \<Rightarrow> k a)"
  by (simp_all split: sum.split option.split)

lemmas idle_rules = makes_bind makes_return makes_if makes_cases idle_calls

lemma idle_tree:
  "makes (\<lambda>c _. \<not> starts c) (newCommandProcessTree goos)" "makes (\<lambda>c _. \<not> starts c) (afterStart tree pid)"
  "makes (\<lambda>c _. \<not> starts c) (close_tree tree)" "makes (\<lambda>c _. \<not> starts c) (waitForCommand pid)"
  unfolding newCommandProcessTree_def afterStart_def close_tree_def waitForCommand_def fail_def yield_def
  by (intro idle_rules; simp)+

lemma idle_skip:
  assumes "makes (\<lambda>c _. \<not> starts c) m" "\<And>a. idle api (\<lambda>_ e. put_down pid e) (f a)"
  shows "idle api (\<lambda>_ e. put_down pid e) (m \<bind> f)"
  by (rule does_bind [OF calls_makes [OF assms(1)]]) (rule does_weaken [OF assms(2)], auto intro: put_down_append)

lemma idle_done:
  assumes "idle api (\<lambda>_ e. put_down pid e) m" "\<And>a. makes (\<lambda>c _. \<not> starts c) (f a)"
  shows "idle api (\<lambda>_ e. put_down pid e) (m \<bind> f)"
  by (rule does_bind [OF assms(1)]) (rule does_weaken [OF calls_makes [OF assms(2)]], auto intro: put_down_append)

lemma idle_kill: "idle api (\<lambda>_ e. put_down pid e) (proc (KillProcess pid))" "idle api (\<lambda>_ e. put_down pid e) (terminate_tree tree pid)"
  unfolding terminate_tree_def
  by (cases tree; auto simp: put_down_def intro!: does_bind [OF idle_proc] does_ret does_weaken [OF idle_proc])+

lemma idle_supervise: "idle api (\<lambda>_ e. put_down pid e) (supervise tree pid)"
  unfolding supervise_def
proof (rule does_bind [OF idle_proc])
  fix w :: ctl_resp and e1 :: ctl_trace
  assume e1: "e1 = [(Process (AwaitProcess pid), w)]"
  show "idle api (\<lambda>_ e2. put_down pid (e1 @ e2)) (case ended_of w of
      Some err \<Rightarrow> ret err
    | None \<Rightarrow> do {
        t \<leftarrow> terminate_tree tree pid;
        d \<leftarrow> waitForCommand pid;
        ret (join_errors [Some (case w of Failed e \<Rightarrow> e | _ \<Rightarrow> broken_answer), t, if d = None then Some grace_error else None]) })"
  proof (cases "ended_of w")
    case None
    show ?thesis
      unfolding None option.case
      by (rule does_weaken [OF idle_done [OF idle_kill(2)]])
        (auto intro!: makes_bind makes_return idle_tree put_down_append)
  next
    case (Some err)
    then have "w = Woken (Ended err)" by simp
    then show ?thesis
      unfolding Some option.case by (intro does_ret) (simp add: e1 put_down_def)
  qed
qed simp

lemma settled_start:
  assumes "\<And>pid. r = Handle pid \<Longrightarrow> put_down pid e" "\<forall>(c, r) \<in> set e. \<not> starts c"
  shows "settled ((Process (StartProcess directory executable arguments environment), r) # e)"
  unfolding settled_def using assms put_down_append(2) [of _ e "[_]"] by fastforce

lemma settled_around:
  assumes "settled e" "\<forall>(c, r) \<in> set t. \<not> starts c" "\<forall>(c, r) \<in> set u. \<not> starts c"
  shows "settled (t @ e @ u)"
  unfolding settled_def
proof (intro allI impI)
  fix c pid
  assume "(c, Handle pid) \<in> set (t @ e @ u)" "starts c"
  with assms have "put_down pid e" by (auto simp: settled_def)
  then show "put_down pid (t @ e @ u)" by (intro put_down_append)
qed

lemma run_in_tree_settles:
  "does api (\<lambda>_ _. True) (\<lambda>_ e. settled e) (run_in_tree tree directory executable arguments)"
proof -
  let ?start = "Process (StartProcess directory executable arguments [])"
  have start: "does api (\<lambda>_ _. True) (\<lambda>r e. e = [(?start, r)]) (proc (StartProcess directory executable arguments []))"
    unfolding proc_def by (rule does_invoke) simp
  have killing: "idle api (\<lambda>_ e. put_down pid e) (do {
      a \<leftarrow> afterStart tree pid;
      case a of
        Some e \<Rightarrow> do { _ \<leftarrow> proc (KillProcess pid); _ \<leftarrow> waitForCommand pid; ret (Some e) }
      | None \<Rightarrow> supervise tree pid })" for pid
    by (rule idle_skip [OF idle_tree(2)])
      (auto split: option.split intro!: idle_supervise idle_done [OF idle_kill(1)] makes_bind makes_return idle_tree)
  show ?thesis
    unfolding run_in_tree_def
  proof (rule does_bind [OF start])
    fix r and e1 :: ctl_trace
    assume e1: "e1 = [(?start, r)]"
    show "does api (\<lambda>_ _. True) (\<lambda>_ e2. settled (e1 @ e2)) (case handle_of r of
        Inl e \<Rightarrow> ret (Some e)
      | Inr pid \<Rightarrow> do {
          a \<leftarrow> afterStart tree pid;
          case a of
            Some e \<Rightarrow> do { _ \<leftarrow> proc (KillProcess pid); _ \<leftarrow> waitForCommand pid; ret (Some e) }
          | None \<Rightarrow> supervise tree pid })"
    proof (cases "handle_of r")
      case (Inl e)
      then have "r \<noteq> Handle pid" for pid by (auto simp: handle_of_def)
      then show ?thesis using Inl by (auto simp: e1 intro!: does_ret settled_start)
    next
      case (Inr pid)
      show ?thesis
        unfolding Inr sum.case
        by (rule does_weaken [OF killing]) (use Inr in \<open>auto simp: e1 intro!: settled_start\<close>)
    qed
  qed
qed

text \<open>A stage that is over has left no process behind that was not told to end, in every run and on every system.\<close>

lemma process_tree_settles:
  "does api (\<lambda>_ _. True) (\<lambda>_ e. settled e) (runCommandInProcessTree goos directory executable arguments)"
proof -
  have quiet: "does api (\<lambda>_ _. True) (\<lambda>_ e. \<forall>(c, r) \<in> set e. \<not> starts c) m" if "makes (\<lambda>c _. \<not> starts c) m" for m :: "'x ctl"
    by (rule does_weaken [OF calls_makes [OF that]]) auto
  have closing: "does api (\<lambda>_ _. True) (\<lambda>_ e. settled (t @ e)) (do {
      r \<leftarrow> run_in_tree tree directory executable arguments; _ \<leftarrow> close_tree tree; ret r })"
    if "\<forall>(c, r) \<in> set t. \<not> starts c" for t tree
    by (rule does_bind [OF run_in_tree_settles], rule does_bind [OF quiet [OF idle_tree(3)]], rule does_ret)
      (use that settled_around in simp)
  show ?thesis
    unfolding runCommandInProcessTree_def
  proof (rule does_bind [OF quiet [OF idle_tree(1)]])
    fix x :: "raw_error + nat option" and t :: ctl_trace
    assume t: "\<forall>(c, r) \<in> set t. \<not> starts c"
    then have "settled t" by (auto simp: settled_def)
    then show "does api (\<lambda>_ _. True) (\<lambda>_ e. settled (t @ e)) (case x of
        Inl e \<Rightarrow> ret (Some e)
      | Inr tree \<Rightarrow> do { r \<leftarrow> run_in_tree tree directory executable arguments; _ \<leftarrow> close_tree tree; ret r })"
      using closing [OF t] by (cases x) (auto intro!: does_ret)
  qed
qed

end
