(* ===== verification/Portal_Command.thy ===== *)
theory Portal_Command
  imports Portal Processes
begin

section \<open>Starting the portal\<close>

text \<open>
  \<open>internal/platformctl/portal.go\<close>: the \<open>portal\<close> command around the requests of \<open>Portal\<close>: the loopback listener, the links it
  prints, the browser it opens, and the end of the server. \<open>ServePortal\<close> stands for the serving of requests up to the case
  of the select that ends it.
\<close>

definition portalAssetsDigest :: "(string \<times> string) list \<Rightarrow> string" where
  \<comment> \<open>over the embedded files, in the order of their names\<close>
  "portalAssetsDigest assets = ''sha256:'' @ sha256_hex (concat (map (\<lambda>(name, data). name @ data) assets))"

definition openBrowser :: "string \<Rightarrow> string \<Rightarrow> raw_error option ctl" where
  "openBrowser goos url = do {
     s \<leftarrow> proc (if goos = ''windows'' then StartProcess [] ''rundll32'' [''url.dll,FileProtocolHandler'', url] []
       else if goos = ''darwin'' then StartProcess [] ''open'' [url] []
       else StartProcess [] ''xdg-open'' [url] []);
     ret (case handle_of s of Inl e \<Rightarrow> Some e | Inr _ \<Rightarrow> None) }"

definition portal_ready :: "portal_server \<Rightarrow> string \<Rightarrow> string \<Rightarrow> json" where
  "portal_ready S address cleanURL = JObj [(''apiVersion'', JStr portalAPIVersion), (''version'', JStr portalVersion),
     (''assetsDigest'', JStr (ps_assetDigest S)), (''context'', JStr (ps_contextName S)), (''address'', JStr address),
     (''url'', JStr cleanURL), (''state'', JStr ''Ready'')]"

definition offer_launch :: "cenv \<Rightarrow> options \<Rightarrow> bool \<Rightarrow> string \<Rightarrow> unit ctl" where
  "offer_launch E opts noOpen launchURL =
     (if \<not> noOpen then do {
        b \<leftarrow> openBrowser (cn_goos E) launchURL;
        case b of
          Some e \<Rightarrow> tell (''Browser launch failed; open '' @ launchURL @ '' manually: '' @ ErrorMessage (Some (plain e)) @ [CHR 0x0A])
        | None \<Rightarrow> ret () }
      else if \<not> op_quiet opts then tell (''Open '' @ launchURL @ [CHR 0x0A])
      else ret ())"

definition serve_portal :: "(cli_error + unit) ctl" where
  \<comment> \<open>\<open>Ended None\<close> for \<open>http.ErrServerClosed\<close>; every other answer is the end of the command's context\<close>
  "serve_portal = do {
     w \<leftarrow> proc ServePortal;
     case ended_of w of
       Some (Some e) \<Rightarrow> fail (exitError ExitRemote (''portal server stopped: '' @ rw_text e))
     | Some None \<Rightarrow> yield ()
     | None \<Rightarrow> do { _ \<leftarrow> proc ShutdownPortal; yield () } }"

definition run_portal :: "cenv \<Rightarrow> options \<Rightarrow> cli_context \<Rightarrow> string \<Rightarrow> bool \<Rightarrow> string \<Rightarrow> (cli_error + unit) ctl" where
  \<comment> \<open>once the listener is open at the address\<close>
  "run_portal E opts cx contextName noOpen address =
     then_do (newPortalServer E cx contextName) (\<lambda>S.
     let cleanURL = ''http://'' @ address @ ''/'' in
     then_do (print_table E opts [''PORTAL'', ''CONTEXT'', ''STATE''] [[cleanURL, contextName, ''Ready'']]
       (portal_ready S address cleanURL)) (\<lambda>_. do {
       _ \<leftarrow> offer_launch E opts noOpen (''http://'' @ address @ ''/launch/'' @ ps_launchToken S);
       serve_portal }))"

definition portal_command :: "cenv \<Rightarrow> options \<Rightarrow> int \<Rightarrow> bool \<Rightarrow> (cli_error + unit) ctl" where
  \<comment> \<open>\<open>RunE\<close> of \<open>newPortalCommand\<close>\<close>
  "portal_command E opts port noOpen =
     (if port < 0 \<or> port > 65535 then fail (exitError ExitUsage ''portal port must be between 0 and 65535'')
      else then_do (loadContext E opts) (\<lambda>(c, cx). do {
        l \<leftarrow> proc (ListenOn (''127.0.0.1:'' @ show_int port));
        case text_of l of
          Inl e \<Rightarrow> fail (exitError ExitConflict (''portal loopback port is unavailable: '' @ rw_text e))
        | Inr address \<Rightarrow> do {
            r \<leftarrow> run_portal E opts cx (if op_contextName opts = [] then cfg_currentContext c else op_contextName opts) noOpen address;
            _ \<leftarrow> proc CloseListener;
            ret r } }))"

end
