(* ===== verification/Ctl_Docs.thy ===== *)
theory Ctl_Docs
  imports Ctl_Kube
begin

section \<open>The command reference\<close>

text \<open>
  \<open>internal/platformctl/commands_docs.go\<close>: the reference in Markdown, the man pages and the completions of the command
  tree. A command of \<open>cobra\<close> is a tree of what the generator reads of it; the completion scripts, which \<open>cobra\<close> writes, are a parameter.
\<close>

datatype cli_command = Command
  (cc_path: string) (cc_short: string) (cc_useLine: string) (cc_flags: string) (cc_details: string) (cc_hidden: bool)
  (cc_children: "cli_command list")

text \<open>Commands are ordered by their paths; the paths of the children of a command are different.\<close>

function documentedCommands :: "cli_command \<Rightarrow> cli_command list" where
  "documentedCommands c =
     (if cc_hidden c then [] else [c])
     @ concat (map documentedCommands (filter (\<lambda>d. \<not> cc_hidden d) (sort_key cc_path (cc_children c))))"
  by pat_completeness auto

lemma cc_children_size: "d \<in> set (cc_children c) \<Longrightarrow> size d < size c"
  by (cases c) (auto dest: size_list_estimation' [where f = size, OF _ order_refl])

termination documentedCommands
  by (relation "measure size") (auto simp: cc_children_size)

declare documentedCommands.simps [simp del]

definition roffEscape :: "string \<Rightarrow> string" where
  "roffEscape value = replace_char (CHR ''-'') [backslash, CHR ''-''] (replace_char backslash [backslash, CHR ''e''] value)"

definition ascii_upper :: "string \<Rightarrow> string" where
  \<comment> \<open>\<open>strings.ToUpper\<close> of a command path, which is ASCII\<close>
  "ascii_upper = map (\<lambda>c. if 97 \<le> code c \<and> code c \<le> 122 then char_of (code c - 32) else c)"

definition nl :: string where "nl = [CHR 0x0A]"
definition tick :: string where "tick = [CHR 0x60]"

definition command_name :: "cli_command \<Rightarrow> string" where
  "command_name c = replace_char (CHR '' '') ''-'' (cc_path c)"

definition command_summary :: "cli_command \<Rightarrow> string" where
  "command_summary c = (let summary = trim_space (cc_short c) in
     if summary = [] then ''Operate this platformctl command.'' else summary)"

definition reference_section :: "cli_command \<Rightarrow> string" where
  "reference_section c =
     (let flags = trim_space (cc_flags c); details = trim_space (cc_details c); fence = tick @ tick @ tick in
      concat [''## '', tick, cc_path c, tick, nl, nl, command_summary c, nl, nl, fence, ''text'', nl, cc_useLine c, nl,
        if flags \<noteq> [] then nl @ flags @ nl else [], fence, nl, nl, if details \<noteq> [] then details @ nl @ nl else []])"

definition man_page :: "cli_command \<Rightarrow> string" where
  "man_page c =
     (let name = command_name c; summary = roffEscape (command_summary c) in
      concat [''.TH '', ascii_upper name, '' 1'', nl, ''.SH NAME'', nl, name, '' '', [backslash], ''- '', summary, nl,
        ''.SH SYNOPSIS'', nl, ''.B '', roffEscape (cc_useLine c), nl, ''.SH DESCRIPTION'', nl, summary, nl])"

definition reference_text :: "cli_command list \<Rightarrow> string" where
  "reference_text commands =
     trim_right_chars (CHR 0x0A) (concat (concat [''# platformctl command reference'', nl, nl, ''Generated from the '', tick, ''v0.8'', tick,
         '' command tree. Do not edit manually.'', nl, nl] # map reference_section commands)) @ nl"

definition stored :: "ctl_call \<Rightarrow> (cli_error + unit) ctl" where
  "stored c = do { r \<leftarrow> invoke c; ret (case done_of r of Some e \<Rightarrow> Inl (plain e) | None \<Rightarrow> Inr ()) }"

fun in_order :: "(cli_error + unit) ctl list \<Rightarrow> (cli_error + unit) ctl" where
  "in_order [] = yield ()"
| "in_order (m # ms) = then_do m (\<lambda>_. in_order ms)"

definition generateCommandDocs :: "(string \<Rightarrow> string) \<Rightarrow> cli_command \<Rightarrow> string \<Rightarrow> (cli_error + unit) ctl" where
  \<comment> \<open>\<open>completion\<close> gives the script that \<open>cobra\<close> writes to a file\<close>
  "generateCommandDocs completion tree directory =
     (let completions = path_join [directory, ''completions'']; man = path_join [directory, ''man''];
          commands = documentedCommands tree in
      in_order ([stored (MakeDirs completions), stored (MakeDirs man)]
        @ map (\<lambda>name. stored (WritePath (path_join [completions, name]) (completion name)))
            [''platformctl.bash'', ''_platformctl'', ''platformctl.fish'', ''platformctl.ps1'']
        @ map (\<lambda>c. stored (WritePath (path_join [man, command_name c @ ''.1'']) (man_page c))) commands
        @ [stored (WritePath (path_join [directory, ''platformctl.md'']) (reference_text commands))]))"

definition docs_command :: "(string \<Rightarrow> string) \<Rightarrow> cli_command \<Rightarrow> string \<Rightarrow> (cli_error + unit) ctl" where
  \<comment> \<open>\<open>RunE\<close> of \<open>newDocsCommand\<close>\<close>
  "docs_command completion tree directory =
     (if trim_space directory = [] then fail (exitError ExitUsage ''--directory is required'')
      else generateCommandDocs completion tree directory)"

lemma documented_visible: "\<forall>d \<in> set (documentedCommands c). \<not> cc_hidden d"
proof (induction c rule: documentedCommands.induct)
  case (1 c)
  then show ?case by (subst documentedCommands.simps) auto
qed

end
