(* ===== verification/Spec2Isabelle.thy ===== *)
theory Spec2Isabelle
  imports Team_Safety Render_Claims App_Safety Network_Claims Db_Safety Portal_Safety Portal_Claims Break_Claims Ctl_Claims Portal_Command Ctl_Docs
begin

text \<open>
  SteadyState: a Kubernetes operator for Teams, Applications and Databases, and the command line tool \<open>platformctl\<close>
  with its local web portal.

  The program. The operator (\<open>api/v1alpha1\<close>, \<open>internal/controller\<close>, \<open>internal/resources\<close>, and the validators
  \<open>internal/team\<close>, \<open>internal/application\<close>, \<open>internal/database\<close>) has one reconciler per resource kind. A pass reads the
  resource, validates and admits it, builds the desired objects, writes them through the API server, reads their state, and
  writes a status. A Team gives its namespace a boundary (quota, limits, network policies, roles); Applications and
  Databases live inside it, and an Application may bind a Database of its Team. \<open>platformctl\<close> (\<open>internal/platformctl\<close>) does
  not write these resources: it renders a typed change request into a change set of the Git repository and dispatches a
  workflow that proposes it; it reads the cluster for its reports; and its one direct mutation is the break-glass patch of
  a Rollout. The portal serves the same operations to a browser on the same host.

  How a pass or a command is modelled. It is a state-monad program over a session (\<open>Sessions\<close>): whatever is not part of
  the repository (API server, Git, GitHub, files, clock, processes, and for the portal the sections that other requests run
  under the mutex) is a parameter that answers each call from the whole history, so it may fail, change its mind, or be changed
  by others between any two calls. The trace lists the calls and their answers; a theorem over all such parameters is
  a theorem over all interleavings with the outside. \<open>does\<close>, \<open>makes\<close>, \<open>keeps\<close> and \<open>guarded\<close> (\<open>Sessions\<close>,
  \<open>Session_Specs\<close>) are the rules in which the safety theorems are proved along the text of a program: each call satisfies a
  guard of the calls and answers before it.

  The theories.

  Foundations. \<open>Prelude\<close>: fact collections, maps, errors, updates of slices. \<open>Go_Strings\<close>, \<open>Go_Path\<close> and \<open>Go_Glob\<close>,
  \<open>Go_Time\<close>, \<open>Go_Sha256\<close>: what the program uses of Go's \<open>strings\<close>, \<open>path.Match\<close>, \<open>time.Duration\<close> (64 bits, saturating
  where Go saturates) and SHA-256 (on 32-bit words). \<open>Kube_Types\<close>, \<open>Kube\<close>, \<open>Specs\<close>: the types of Kubernetes that are
  used, the client's operations as calls, and the documented behaviour of the API and of the helper libraries that some
  theorems assume (\<open>conditions_ok\<close>, \<open>finalizers_ok\<close>, \<open>nested_ok\<close> and the like). \<open>Api_Types\<close>: \<open>api/v1alpha1\<close>, and the record
  \<open>lib\<close> of functions of other modules (quantities, cron, UUIDs, RFC 3339, condition helpers).

  Operator. \<open>Team_Policy\<close>, \<open>App_Policy\<close>, \<open>Db_Policy\<close>: the validators. \<open>Naming\<close>, \<open>Team_Resources\<close>, \<open>App_Resources\<close>,
  \<open>Db_Resources\<close>: \<open>internal/resources\<close>. \<open>Team_Controller\<close>: \<open>team_controller.go\<close>. \<open>App_Controller\<close>, \<open>App_Status\<close>,
  \<open>App_Progressive\<close>, \<open>App_Reconcile\<close>: \<open>application_controller.go\<close>, \<open>application_provenance.go\<close> and
  \<open>application_progressive.go\<close>. \<open>Db_Status\<close>, \<open>Db_Controller\<close>: \<open>database_controller.go\<close>. \<open>Status\<close>: the status patch that the three
  controllers share, as the locale \<open>status_object\<close>, interpreted for each of them.
  \<open>Team_Safety\<close>, \<open>App_Footprint\<close>, \<open>App_Order\<close>, \<open>App_Safety\<close>, \<open>Db_Safety\<close> prove the guards over all calls of a pass: what is
  written is admitted, confined and in order, what is deleted is deleted last, and \<open>Ready\<close> rests on what the pass has read.
  \<open>App_Status_Facts\<close>, \<open>App_Claims\<close>, \<open>Db_Claims\<close>: what a status means. \<open>Resource_Claims\<close>, \<open>Network_Claims\<close>: what the
  generated objects guarantee, the network policies of Team, Application and Database taken together.

  Change pipeline. \<open>Catalog\<close> (\<open>catalog.go\<close>), \<open>Change\<close> (\<open>change.go\<close>), \<open>Renderer\<close> (\<open>render.go\<close>, \<open>service_templates.go\<close>).
  \<open>Render_Safety\<close> and \<open>Render_Apply\<close> hold the invariants of the renderer, with the locales \<open>tenant_entries\<close> (the three kinds of
  entries of a tenant) and \<open>change_invariant\<close>; \<open>Render_Claims\<close> the properties, from a request to the files of the repository.

  platformctl. \<open>Cli_Config\<close> (\<open>config.go\<close>), \<open>Cli_Output\<close> (\<open>output.go\<close>), \<open>Ctl\<close> (calls, options, processes, \<open>root.go\<close>),
  \<open>Ctl_Kube\<close> (\<open>kube.go\<close>), \<open>Ctl_Config\<close> (\<open>commands_config.go\<close>), \<open>Ctl_Read\<close> (\<open>commands_read.go\<close>), \<open>Ctl_Write\<close>
  (\<open>commands_write.go\<close>), \<open>Ctl_Service\<close> (\<open>commands_service.go\<close>), \<open>Ctl_Doctor\<close> (\<open>doctor.go\<close>, \<open>commands_app_doctor.go\<close>),
  \<open>Ctl_Platform\<close> (\<open>platform_lifecycle.go\<close>), \<open>Break_Glass\<close> (\<open>commands_breakglass.go\<close>).
  \<open>Processes\<close> (\<open>process_tree*.go\<close> and the development loop of \<open>commands_service.go\<close>, with the lemma that a process tree leaves
  no process that was not told to end) and \<open>Ctl_Docs\<close> (\<open>commands_docs.go\<close>).
  Portal: \<open>Portal_State\<close> has the fields of \<open>portalServer\<close> and every section of code under its mutex as a
  function of the state, and the step relation of their interleavings; \<open>Portal\<close> the requests (\<open>portal.go\<close>,
  \<open>portal_api.go\<close>), whose calls \<open>Locked\<close> are those sections; \<open>Portal_Command\<close> the command around them.
  \<open>Ctl_Specs\<close> proves which programs only read; \<open>Ctl_Guard\<close> names the evidence behind a change (the head of the checkout, the
  rendered digest, the merged approval, the audit, the event) and proves that each step leaves it in the trace. On these rest
  \<open>Portal_Claims\<close> (every request), \<open>Break_Claims\<close> (the break-glass command and its patches) and \<open>Ctl_Claims\<close> (the poll for
  the workflow run, the log of a stage). \<open>Portal_Safety\<close> proves the shared state over every history: tickets are taken once
  (locale \<open>ticket_book\<close>, interpreted for plans, break-glass plans and the launch link), the write rate, the event stream.

  Bounds and fuel. \<open>path_match\<close> and the status patch run on measures or on the number of retries the source has.
  \<open>poll_run\<close> has \<open>poll_limit\<close> = 31 turns: a turn that does not end sleeps two seconds, so the clock is past the deadline of 60
  seconds after 30; \<open>dispatch_poll_terminates\<close> proves that more turns change nothing. An event stream
  runs for a given number of turns, and the theorems hold for every number. Identifiers of events are 64-bit words; the
  refinement of the stream is stated for fewer than \<open>2^64\<close> sections.

  Where the model is coarser than the code. The deadline of a Go context is an answer of the call it strikes. The
  checkout is read as one tree per call. JSON values have integers and no other numbers. \<open>filepath\<close> is modelled on slash-separated
  paths, so Windows separators are not. Metrics, spans and log lines of the operator are left out, as is the ticker that prints the
  progress of a stage. A stage of the local platform runs its command as one call; \<open>runCommandInProcessTree\<close> is what is behind
  it. The watcher of the development loop is a program of its own, for a given number of turns. The host's time zone is not modelled beyond whether a time is in UTC.

  Not modelled, and why. The wiring of commands, flags and reconcilers to \<open>cobra\<close> and \<open>controller-runtime\<close> (\<open>cmd\<close>, \<open>root.go\<close>,
  \<open>SetupWithManager\<close>): registrations with libraries. The completion scripts (\<open>root.go\<close>): written by \<open>cobra\<close>. \<open>zz_generated.deepcopy.go\<close>: generated. \<open>apps\<close> and \<open>services\<close>: example
  workloads that run on the platform. \<open>cmd/portal-gif\<close>: a recording tool.
\<close>

end
